(* ===== verification/Prelude.thy ===== *)
theory Prelude
  imports Main "HOL-Library.AList" "HOL-Library.Code_Target_Nat"
begin

text \<open>
  Shared vocabulary of the development: the part of Go's \<open>strings\<close> package that the operator
  uses, Go maps, error results, and the generic lemmas the component theories rest on.

  \<^item> A Go string is its list of bytes, a \<^typ>\<open>string\<close>. Strings that reach the operator come out
    of JSON documents, so they are valid UTF-8. Functions that look at runes are modelled on the
    bytes: a continuation byte (0x80 to 0xBF) belongs to the rune its lead byte opened.
  \<^item> A Go map is an association list with distinct keys; the order of the list is the order in
    which a \<open>range\<close> loop meets the entries. Statements that hold for every such list hold for every
    iteration order the runtime may choose.
  \<^item> An error return is the left injection of a sum.
\<close>

named_theorems go_str \<open>unfolding rules for the model of Go's strings package\<close>
named_theorems map_loop \<open>rules for loops that copy one Go map into another\<close>

section \<open>Bytes and strings\<close>

definition code :: "char \<Rightarrow> nat" where
  "code c = of_char c"

definition is_upper :: "char \<Rightarrow> bool" where
  "is_upper c \<longleftrightarrow> 65 \<le> code c \<and> code c \<le> 90"

definition is_lower :: "char \<Rightarrow> bool" where
  "is_lower c \<longleftrightarrow> 97 \<le> code c \<and> code c \<le> 122"

definition is_digit :: "char \<Rightarrow> bool" where
  "is_digit c \<longleftrightarrow> 48 \<le> code c \<and> code c \<le> 57"

definition is_continuation :: "char \<Rightarrow> bool" where
  "is_continuation c \<longleftrightarrow> 128 \<le> code c \<and> code c < 192"

definition lower_ascii :: "char \<Rightarrow> char" where
  "lower_ascii c = (if is_upper c then char_of (code c + 32) else c)"

text \<open>
  \<open>strings.ToLower\<close>. Exactly two runes outside ASCII have an ASCII lower case: U+0130 (bytes C4 B0),
  which becomes \<open>i\<close>, and the Kelvin sign U+212A (bytes E2 84 AA), which becomes \<open>k\<close>. Other runes
  outside ASCII are left alone here; every caller but the user-name sanitizers replaces them
  afterwards or compares the result with ASCII text only.
\<close>

function to_lower :: "string \<Rightarrow> string" where
  "to_lower [] = []"
| "to_lower (c # cs) =
     (if c = CHR 0xC4 \<and> take 1 cs = [CHR 0xB0] then CHR ''i'' # to_lower (drop 1 cs)
      else if c = CHR 0xE2 \<and> take 2 cs = [CHR 0x84, CHR 0xAA] then CHR ''k'' # to_lower (drop 2 cs)
      else lower_ascii c # to_lower cs)"
  by pat_completeness auto
termination
  by (relation "measure length") auto

definition has_prefix :: "string \<Rightarrow> string \<Rightarrow> bool" where
  "has_prefix s p \<longleftrightarrow> take (length p) s = p"

definition trim_prefix :: "string \<Rightarrow> string \<Rightarrow> string" where
  "trim_prefix s p = (if has_prefix s p then drop (length p) s else s)"

definition trim_left :: "string \<Rightarrow> string \<Rightarrow> string" where
  "trim_left s cutset = dropWhile (\<lambda>c. c \<in> set cutset) s"

definition trim_right :: "string \<Rightarrow> string \<Rightarrow> string" where
  "trim_right s cutset = rev (dropWhile (\<lambda>c. c \<in> set cutset) (rev s))"

text \<open>\<open>strings.Trim\<close> cuts both ends.\<close>

definition trim :: "string \<Rightarrow> string \<Rightarrow> string" where
  "trim s cutset = trim_right (trim_left s cutset) cutset"

text \<open>\<open>strings.ReplaceAll\<close> for the one-byte patterns and replacements the operator passes.\<close>

definition replace_all :: "string \<Rightarrow> char \<Rightarrow> char \<Rightarrow> string" where
  "replace_all s a b = map (\<lambda>c. if c = a then b else c) s"

text \<open>\<open>strings.Contains\<close>.\<close>

fun contains_str :: "string \<Rightarrow> string \<Rightarrow> bool" where
  "contains_str [] p = (p = [])"
| "contains_str (c # cs) p = (has_prefix (c # cs) p \<or> contains_str cs p)"

declare has_prefix_def [go_str] trim_prefix_def [go_str] trim_left_def [go_str]
  trim_right_def [go_str] trim_def [go_str] replace_all_def [go_str]

lemma code_inject [simp]: "code a = code b \<longleftrightarrow> a = b"
  by (simp add: code_def)

lemma code_lower_ascii: "code (lower_ascii c) = (if is_upper c then code c + 32 else code c)"
  by (simp add: lower_ascii_def code_def is_upper_def)

lemma lower_ascii_not_upper: "\<not> is_upper (lower_ascii c)"
  by (auto simp: is_upper_def code_lower_ascii)

lemma lower_ascii_id [simp]: "\<not> is_upper c \<Longrightarrow> lower_ascii c = c"
  by (simp add: lower_ascii_def)

lemma lower_exceptions [simp]: "\<not> is_upper CHR ''i''" "\<not> is_upper CHR ''k''"
  by code_simp+

lemma to_lower_no_upper: "c \<in> set (to_lower s) \<Longrightarrow> \<not> is_upper c"
  by (induction s rule: to_lower.induct) (auto simp: lower_ascii_not_upper split: if_splits)

lemma to_lower_eq_Nil [simp]: "to_lower s = [] \<longleftrightarrow> s = []"
  by (cases s) auto

lemma length_to_lower: "length (to_lower s) \<le> length s"
  by (induction s rule: to_lower.induct) auto

text \<open>On plain ASCII text, lower-casing is byte by byte.\<close>

lemma to_lower_ascii: "(\<And>c. c \<in> set s \<Longrightarrow> code c < 128) \<Longrightarrow> to_lower s = map lower_ascii s"
proof (induction s rule: to_lower.induct)
  case (2 c cs)
  have "code CHR 0xC4 = 196" "code CHR 0xE2 = 226" by code_simp+
  with "2.prems"[of c] have "c \<noteq> CHR 0xC4" "c \<noteq> CHR 0xE2" by auto
  with 2 show ?case by simp
qed simp

lemma to_lower_id:
  assumes "\<And>c. c \<in> set s \<Longrightarrow> code c < 128 \<and> \<not> is_upper c"
  shows "to_lower s = s"
proof -
  have "map lower_ascii s = s"
    using assms by (intro map_idI) simp
  with assms show ?thesis by (simp add: to_lower_ascii)
qed

lemma has_prefix_append [simp]: "has_prefix (p @ s) p"
  by (simp add: has_prefix_def)

lemma has_prefix_split: "has_prefix s p \<Longrightarrow> \<exists>t. s = p @ t"
  by (metis append_take_drop_id has_prefix_def)

lemma trim_prefix_append [simp]: "trim_prefix (p @ s) p = s"
  by (simp add: trim_prefix_def)

lemma has_prefix_single: "has_prefix s [c] \<longleftrightarrow> s \<noteq> [] \<and> hd s = c"
  by (cases s) (auto simp: has_prefix_def)

lemma hd_trim_left: "trim_left s cs \<noteq> [] \<Longrightarrow> hd (trim_left s cs) \<notin> set cs"
  by (metis hd_dropWhile trim_left_def)

lemma last_trim_right: "trim_right s cs \<noteq> [] \<Longrightarrow> last (trim_right s cs) \<notin> set cs"
  by (metis hd_dropWhile last_rev rev_is_Nil_conv trim_right_def)

lemma set_trim_left: "set (trim_left s cs) \<subseteq> set s"
  by (auto simp: trim_left_def dest: set_dropWhileD)

lemma set_trim_right: "set (trim_right s cs) \<subseteq> set s"
  by (auto simp: trim_right_def dest: set_dropWhileD)

lemma set_trim: "set (trim s cs) \<subseteq> set s"
  using set_trim_left set_trim_right by (fastforce simp: trim_def)

lemma length_trim_left: "length (trim_left s cs) \<le> length s"
  by (simp add: trim_left_def length_dropWhile_le)

lemma length_trim_right: "length (trim_right s cs) \<le> length s"
  by (metis length_dropWhile_le length_rev trim_right_def)

lemma trim_right_append_keep:
  "y \<notin> set cs \<Longrightarrow> trim_right (xs @ [y]) cs = xs @ [y]"
  by (simp add: trim_right_def)

text \<open>Cutting the right end does not touch the first byte.\<close>

lemma trim_right_Cons_keep:
  assumes "x \<notin> set cs"
  shows "trim_right (x # xs) cs = x # trim_right xs cs"
  using assms by (simp add: trim_right_def dropWhile_append)

lemma hd_trim_right: "trim_right s cs \<noteq> [] \<Longrightarrow> s \<noteq> [] \<Longrightarrow> hd s \<notin> set cs \<Longrightarrow> hd (trim_right s cs) = hd s"
  by (cases s) (auto simp: trim_right_Cons_keep)

lemma trim_ends:
  assumes "trim s cs \<noteq> []"
  shows "hd (trim s cs) \<notin> set cs" and "last (trim s cs) \<notin> set cs"
proof -
  let ?l = "trim_left s cs"
  have l: "?l \<noteq> []"
    using assms by (auto simp: trim_def trim_right_def)
  then have h: "hd ?l \<notin> set cs" by (rule hd_trim_left)
  with assms l show "hd (trim s cs) \<notin> set cs"
    by (simp add: trim_def hd_trim_right)
  from assms show "last (trim s cs) \<notin> set cs"
    by (simp add: trim_def last_trim_right)
qed

lemma trim_id:
  assumes "s = [] \<or> (hd s \<notin> set cs \<and> last s \<notin> set cs)"
  shows "trim s cs = s"
proof (cases "s = []")
  case True
  then show ?thesis by (simp add: go_str)
next
  case False
  with assms have h: "hd s \<notin> set cs" and l: "last s \<notin> set cs" by auto
  from False h have "trim_left s cs = s"
    by (cases s) (auto simp: trim_left_def)
  moreover from False l have "trim_right s cs = s"
    by (metis append_butlast_last_id trim_right_append_keep)
  ultimately show ?thesis by (simp add: trim_def)
qed

section \<open>Go maps\<close>

type_synonym ('k, 'v) gomap = "('k \<times> 'v) list"

definition gomap_wf :: "('k, 'v) gomap \<Rightarrow> bool" where
  "gomap_wf m \<longleftrightarrow> distinct (map fst m)"

text \<open>
  The interface of a Go map: lookup, assignment and deletion, and a well-formedness condition
  that assignment and deletion keep. The loops of the operator that copy one map into another
  are proved against this interface once.
\<close>

locale go_map =
  fixes get :: "'m \<Rightarrow> 'k \<Rightarrow> 'v option"
    and put :: "'k \<Rightarrow> 'v \<Rightarrow> 'm \<Rightarrow> 'm"
    and del :: "'k \<Rightarrow> 'm \<Rightarrow> 'm"
    and wf :: "'m \<Rightarrow> bool"
  assumes get_put: "get (put k v m) = (get m)(k \<mapsto> v)"
    and get_del: "get (del k m) = (get m)(k := None)"
    and wf_put: "wf m \<Longrightarrow> wf (put k v m)"
    and wf_del: "wf m \<Longrightarrow> wf (del k m)"
begin

lemma copy_loop: "get (fold (\<lambda>(k, v). put k v) src m) = get m ++ map_of (rev src)"
  by (induction src arbitrary: m) (auto simp: get_put map_add_def fun_eq_iff split: option.splits)

lemma copy_loop_distinct:
  assumes "distinct (map fst src)"
  shows "get (fold (\<lambda>(k, v). put k v) src m) = get m ++ map_of src"
proof -
  have "map_of (rev src) = map_of src"
    using assms by (intro map_of_inject_set[THEN iffD2]) (auto simp flip: rev_map)
  then show ?thesis by (simp add: copy_loop)
qed

lemma copy_loop_wf: "wf m \<Longrightarrow> wf (fold (\<lambda>(k, v). put k v) src m)"
  by (induction src arbitrary: m) (auto simp: wf_put)

lemma put_put_same: "get (put k v (put k v' m)) = get (put k v m)"
  by (simp add: get_put)

lemma del_put: "get (del k (put k v m)) = get (del k m)"
  by (simp add: get_put get_del)

end

interpretation alist: go_map "map_of" "AList.update" "AList.delete" "gomap_wf"
  by unfold_locales
    (auto simp: update_conv' delete_conv' gomap_wf_def distinct_update distinct_delete)

lemmas [map_loop] = alist.copy_loop_distinct alist.copy_loop_wf alist.get_put alist.get_del

lemma gomap_wf_Nil [simp]: "gomap_wf []"
  by (simp add: gomap_wf_def)

lemma gomap_wf_filter: "gomap_wf m \<Longrightarrow> gomap_wf (filter P m)"
  by (auto simp: gomap_wf_def distinct_map inj_on_filter_key_eq intro: inj_on_subset)

lemma gomap_wf_lookup: "gomap_wf m \<Longrightarrow> map_of m k = Some v \<longleftrightarrow> (k, v) \<in> set m"
  by (simp add: gomap_wf_def)

lemma map_of_filter_key: "map_of (filter (\<lambda>(k, v). P k) m) k = (if P k then map_of m k else None)"
  by (induction m) auto

text \<open>A loop that assigns fresh keys appends the entries in the order it meets them.\<close>

lemma fold_update_fresh:
  "distinct (map fst xs) \<Longrightarrow> set (map fst xs) \<inter> set (map fst m) = {} \<Longrightarrow>
     fold (\<lambda>(k, v). AList.update k v) xs m = m @ xs"
proof (induction xs arbitrary: m)
  case (Cons x xs)
  have fresh: "k \<notin> set (map fst m) \<Longrightarrow> AList.update k v m = m @ [(k, v)]" for k v m
    by (induction m) auto
  obtain k v where x: "x = (k, v)" by (cases x)
  with Cons.prems have "AList.update k v m = m @ [(k, v)]" by (intro fresh) auto
  with Cons x show ?case by simp
qed simp

lemma map_of_map_snd: "map_of (map (\<lambda>(k, v). (k, f v)) m) k = map_option f (map_of m k)"
  by (induction m) auto

text \<open>Reading a map of slices yields the nil slice for an absent key.\<close>

definition get_list :: "('k, 'v list) gomap \<Rightarrow> 'k \<Rightarrow> 'v list" where
  "get_list m k = (case map_of m k of None \<Rightarrow> [] | Some vs \<Rightarrow> vs)"

lemma get_list_Nil [simp]: "get_list [] k = []"
  by (simp add: get_list_def)

lemma get_list_update: "get_list (AList.update k v m) k' = (if k' = k then v else get_list m k')"
  by (simp add: get_list_def alist.get_put)

lemma get_list_mem:
  assumes "gomap_wf m"
  shows "(\<exists>(k, vs) \<in> set m. P vs) \<longleftrightarrow> (\<exists>k. P (get_list m k) \<and> k \<in> dom (map_of m))"
  using assms by (force simp: get_list_def gomap_wf_lookup[symmetric] dom_def split: option.splits)

section \<open>Lists\<close>

lemma list_all_update: "list_all P m \<Longrightarrow> P (k, v) \<Longrightarrow> list_all P (AList.update k v m)"
  by (induction m) auto

lemma code_char_of: "n < 256 \<Longrightarrow> code (char_of n) = n"
  by (simp add: code_def)

lemma find_SomeD: "List.find P xs = Some x \<Longrightarrow> x \<in> set xs \<and> P x"
  by (induction xs) (auto split: if_splits)

lemma length_filter_sum2:
  "(\<And>x. x \<in> set xs \<Longrightarrow> P x \<noteq> Q x) \<Longrightarrow> length (filter P xs) + length (filter Q xs) = length xs"
  by (induction xs) force+

end
