(* ===== verification/API_Types.thy ===== *)
theory API_Types
  imports Prelude
begin

text \<open>
  The custom resources of \<open>src/api/v1alpha1\<close> as records, field by field, and what the controllers
  see of Kubernetes: object metadata, API errors and reconcile results. A Go pointer to a value that
  may be absent is an \<open>option\<close>; \<open>metav1.Time\<close> is an instant in nanoseconds; a nil map and an empty map
  read the same and are both the empty list. So are nil and empty slices, but for the conditions of a scenario
  run, which the controller compares with \<open>reflect.DeepEqual\<close>: there the nil slice is \<open>None\<close>. Type metadata and
  list wrappers carry no behaviour and are left out.
\<close>

section \<open>Kubernetes objects\<close>

type_synonym time = int
type_synonym duration = int

definition second :: duration where
  "second = 1000000000"

record object_meta =
  Name :: string
  Namespace :: string
  Labels :: "(string, string) gomap"
  Annotations :: "(string, string) gomap"
  Finalizers :: "string list"
  CreationTimestamp :: time
  DeletionTimestamp :: "time option"

definition meta_of :: "string \<Rightarrow> string \<Rightarrow> (string, string) gomap \<Rightarrow> object_meta" where
  "meta_of n ns ls = \<lparr>Name = n, Namespace = ns, Labels = ls, Annotations = [], Finalizers = [],
     CreationTimestamp = 0, DeletionTimestamp = None\<rparr>"

text \<open>The classes of API errors that the operator tells apart, and everything else.\<close>

datatype api_error = NotFound | AlreadyExists | Conflict | OtherError string

record metav1_condition =
  cond_Type :: string
  cond_Status :: string
  cond_ObservedGeneration :: int
  cond_LastTransitionTime :: time
  cond_Reason :: string
  cond_Message :: string

text \<open>\<open>ctrl.Result\<close>: the requeue flag and the requeue delay (0 when unset).\<close>

record ctrl_result =
  Requeue :: bool
  RequeueAfter :: duration

definition no_requeue :: ctrl_result where
  "no_requeue = \<lparr>Requeue = False, RequeueAfter = 0\<rparr>"

definition requeue_now :: ctrl_result where
  "requeue_now = \<lparr>Requeue = True, RequeueAfter = 0\<rparr>"

definition requeue_after :: "duration \<Rightarrow> ctrl_result" where
  "requeue_after d = \<lparr>Requeue = False, RequeueAfter = d\<rparr>"

section \<open>KrknGraphRun\<close>

record GraphScenarioNode =
  gn_Comment :: string
  gn_Image :: string
  gn_Name :: string
  gn_Env :: "(string, string) gomap"
  gn_Volumes :: "(string, string) gomap"
  gn_DependsOn :: "string option"

record NodeStatus =
  ns_NodeID :: string
  ns_NodeName :: string
  ns_Phase :: string
  ns_ScenarioRunRef :: string
  ns_StartTime :: "time option"
  ns_CompletionTime :: "time option"
  ns_DependsOn :: "string list"
  ns_Message :: string

record GraphRunSummary =
  TotalNodes :: int
  CompletedNodes :: int
  RunningNodes :: int
  FailedNodes :: int
  PendingNodes :: int

type_synonym scenario_graph = "(string, GraphScenarioNode) gomap"
type_synonym target_clusters = "(string, string list) gomap"

record KrknGraphRunSpec =
  gspec_Graph :: scenario_graph
  gspec_TargetRequestID :: string
  gspec_TargetClusters :: target_clusters
  gspec_OwnerUserID :: string

record KrknGraphRunStatus =
  gst_Phase :: string
  gst_StartTime :: "time option"
  gst_CompletionTime :: "time option"
  gst_Summary :: GraphRunSummary
  gst_NodeStatuses :: "NodeStatus list"
  gst_ResolvedLevels :: "string list list"
  gst_Conditions :: "metav1_condition list"

record KrknGraphRun =
  gr_meta :: object_meta
  gr_Spec :: KrknGraphRunSpec
  gr_Status :: KrknGraphRunStatus

section \<open>KrknScenarioRun\<close>

record FileMount =
  fm_Name :: string
  fm_Content :: string
  fm_MountPath :: string

record ClusterJobStatus =
  ProviderName :: string
  ClusterName :: string
  ClusterAPIURL :: string
  JobID :: string
  PodName :: string
  ContainerImage :: string
  Phase :: string
  StartTime :: "time option"
  CompletionTime :: "time option"
  Message :: string
  RetryCount :: int
  MaxRetries :: int
  CancelRequested :: bool
  LastRetryTime :: "time option"
  FailureReason :: string

record KrknScenarioRunSpec =
  TargetRequestID :: string
  OwnerUserID :: string
  TargetClusters :: target_clusters
  ScenarioName :: string
  ScenarioImage :: string
  KubeconfigPath :: string
  Files :: "FileMount list"
  Environment :: "(string, string) gomap"
  RegistryURL :: string
  ScenarioRepository :: string
  Token :: string
  Username :: string
  Password :: string
  RegistryName :: string
  spec_MaxRetries :: int
  RetryBackoff :: string
  RetryDelay :: string

record KrknScenarioRunStatus =
  sr_Phase :: string
  TotalTargets :: int
  SuccessfulJobs :: int
  FailedJobs :: int
  RunningJobs :: int
  ClusterJobs :: "ClusterJobStatus list"
  Conditions :: "metav1_condition list option"

record KrknScenarioRun =
  sr_meta :: object_meta
  sr_Spec :: KrknScenarioRunSpec
  sr_Status :: KrknScenarioRunStatus

section \<open>Targets and providers\<close>

record ClusterTarget =
  ct_ClusterName :: string
  ct_ClusterAPIURL :: string

record KrknTargetRequestStatus =
  trs_Status :: string
  trs_TargetData :: "(string, ClusterTarget list) gomap"
  trs_Completed :: "time option"

record KrknTargetRequest =
  tr_meta :: object_meta
  tr_UUID :: string
  tr_Status :: KrknTargetRequestStatus

record KrknOperatorTargetSpec =
  ots_UUID :: string
  ots_ClusterName :: string
  ots_ClusterAPIURL :: string
  ots_SecretType :: string
  ots_SecretUUID :: string
  ots_CABundle :: string
  ots_InsecureSkipTLSVerify :: bool

record KrknOperatorTarget =
  ot_meta :: object_meta
  ot_Spec :: KrknOperatorTargetSpec
  ot_Ready :: bool
  ot_LastUpdated :: time

record KrknOperatorTargetProvider =
  op_meta :: object_meta
  op_OperatorName :: string
  op_Active :: bool
  op_Timestamp :: time

record ProviderConfigData =
  pcd_ConfigMap :: string
  pcd_Namespace :: string
  pcd_ConfigSchema :: string

record KrknOperatorTargetProviderConfig =
  pc_meta :: object_meta
  pc_UUID :: string
  pc_Status :: string
  pc_ConfigData :: "(string, ProviderConfigData) gomap"
  pc_Created :: "time option"
  pc_Completed :: "time option"

section \<open>Users and groups\<close>

record KrknUserSpec =
  us_UserID :: string
  us_Name :: string
  us_Surname :: string
  us_Organization :: string
  us_Role :: string
  us_PasswordSecretRef :: string

record KrknUser =
  user_meta :: object_meta
  user_Spec :: KrknUserSpec
  user_Active :: bool
  user_Created :: time
  user_LastLogin :: time

record KrknUserGroup =
  ug_meta :: object_meta
  ug_Name :: string
  ug_Description :: string
  ug_ClusterPermissions :: "(string, string list) gomap"

end
