(* ===== verification/Samples.thy ===== *)
theory Samples
  imports API_Types
begin

text \<open>
  Small concrete objects on which the properties of the development are instantiated.
\<close>

definition sample_node :: "string option \<Rightarrow> GraphScenarioNode" where
  "sample_node d = \<lparr>gn_Comment = '''', gn_Image = ''quay.io/krkn:dummy'', gn_Name = ''dummy'',
     gn_Env = [(''DURATION'', ''10'')], gn_Volumes = [], gn_DependsOn = d\<rparr>"

definition zero_summary :: GraphRunSummary where
  "zero_summary = \<lparr>TotalNodes = 0, CompletedNodes = 0, RunningNodes = 0, FailedNodes = 0,
     PendingNodes = 0\<rparr>"

definition new_graph_run :: "scenario_graph \<Rightarrow> KrknGraphRun" where
  "new_graph_run g = \<lparr>gr_meta = meta_of ''g1'' ''krkn'' [],
     gr_Spec = \<lparr>gspec_Graph = g, gspec_TargetRequestID = ''req-1'',
       gspec_TargetClusters = [(''krkn-operator'', [''c1''])], gspec_OwnerUserID = ''u@x.io''\<rparr>,
     gr_Status = \<lparr>gst_Phase = '''', gst_StartTime = None, gst_CompletionTime = None,
       gst_Summary = zero_summary, gst_NodeStatuses = [], gst_ResolvedLevels = [],
       gst_Conditions = []\<rparr>\<rparr>"

definition chain_graph :: scenario_graph where
  "chain_graph = [(''_meta'', sample_node None), (''Prep'', sample_node None),
     (''load'', sample_node (Some ''Prep'')), (''check'', sample_node (Some ''load''))]"

definition blank_run :: "ClusterJobStatus list \<Rightarrow> KrknScenarioRun" where
  "blank_run js = \<lparr>sr_meta = meta_of ''r1'' ''krkn'' [],
     sr_Spec = \<lparr>TargetRequestID = ''req-1'', OwnerUserID = '''', TargetClusters = [], ScenarioName = ''dummy'',
       ScenarioImage = ''dummy'', KubeconfigPath = '''', Files = [], Environment = [], RegistryURL = '''',
       ScenarioRepository = '''', Token = '''', Username = '''', Password = '''', RegistryName = '''',
       spec_MaxRetries = 0, RetryBackoff = '''', RetryDelay = ''''\<rparr>,
     sr_Status = \<lparr>sr_Phase = ''Running'', TotalTargets = 1, SuccessfulJobs = 0, FailedJobs = 0, RunningJobs = 1,
       ClusterJobs = js, Conditions = None\<rparr>\<rparr>"

end
