(* ===== verification/Node_Validation.thy ===== *)
theory Node_Validation
  imports API_Types Samples
begin

text \<open>
  \<open>src/api/v1alpha1/krkngraphrun_validation.go\<close> and \<open>krkngraphrun_conversion.go\<close>: node identifiers made
  fit for Kubernetes names and labels, the validation of a graph, and the conversion to and from
  the krknctl scenario set. The controller has its own copy of the sanitizer
  (\<open>sanitizeNodeID\<close> in \<open>krkngraphrun_controller.go\<close>); both copies are shown to keep the contract of
  the locale \<open>label_sanitizer\<close>.
\<close>

section \<open>Sanitizing node identifiers\<close>

definition MaxNodeIDLength :: nat where
  "MaxNodeIDLength = 253"

definition MaxLabelValueLength :: nat where
  "MaxLabelValueLength = 63"

definition label_byte :: "char \<Rightarrow> bool" where
  "label_byte c \<longleftrightarrow> is_lower c \<or> is_digit c \<or> c = CHR ''-'' \<or> c = CHR ''_'' \<or> c = CHR ''.''"

text \<open>
  The loop over the runes of the lower-cased identifier: a permitted byte is kept, any other rune
  becomes one hyphen, so the continuation bytes of a multi-byte rune write nothing.
\<close>

definition replace_invalid :: "string \<Rightarrow> string" where
  "replace_invalid s = concat (map (\<lambda>c. if label_byte c then [c]
     else if is_continuation c then [] else ''-'') s)"

definition SanitizeNodeIDForKubernetes :: "string \<Rightarrow> string" where
  "SanitizeNodeIDForKubernetes nodeID =
    (if nodeID = '''' then ''empty''
     else let sanitized = replace_invalid (to_lower nodeID);
              truncated = (if MaxLabelValueLength < length sanitized
                           then take MaxLabelValueLength sanitized else sanitized);
              left = trim_left truncated ''-_.''
       in if left = '''' then ''node''
          else let right = trim_right left ''-_.''
            in if right = '''' then ''node'' else right)"

text \<open>The controller's own copy.\<close>

definition sanitizeNodeID :: "string \<Rightarrow> string" where
  "sanitizeNodeID nodeID =
    (if nodeID = '''' then ''empty''
     else let sanitized = replace_invalid (to_lower nodeID);
              truncated = (if MaxLabelValueLength < length sanitized
                           then take MaxLabelValueLength sanitized else sanitized);
              left = trim_left truncated ''-_.''
       in if left = '''' then ''node''
          else let right = trim_right left ''-_.''
            in if right = '''' then ''node'' else right)"

text \<open>
  What Kubernetes asks of a label value, in the restricted form the code aims at: one to 63
  bytes, lower-case alphanumerics and \<open>-_.\<close> only, an alphanumeric at both ends.
\<close>

definition valid_label_value :: "string \<Rightarrow> bool" where
  "valid_label_value s \<longleftrightarrow> s \<noteq> [] \<and> length s \<le> MaxLabelValueLength \<and> list_all label_byte s \<and>
     (is_lower (hd s) \<or> is_digit (hd s)) \<and> (is_lower (last s) \<or> is_digit (last s))"

locale label_sanitizer =
  fixes san :: "string \<Rightarrow> string"
  assumes san_valid: "valid_label_value (san s)"
    and san_fix: "valid_label_value s \<Longrightarrow> san s = s"
begin

lemma san_nonempty: "san s \<noteq> []"
  using san_valid by (simp add: valid_label_value_def)

lemma san_length: "length (san s) \<le> 63"
  using san_valid[of s] by (simp add: valid_label_value_def MaxLabelValueLength_def)

lemma san_idem: "san (san s) = san s"
  by (rule san_fix) (rule san_valid)

lemma san_image: "range san = {s. valid_label_value s}"
proof
  show "range san \<subseteq> {s. valid_label_value s}" using san_valid by blast
  show "{s. valid_label_value s} \<subseteq> range san"
    using san_fix by (metis (no_types) mem_Collect_eq rangeI subsetI)
qed

end

lemma label_byte_replace: "list_all label_byte (replace_invalid s)"
proof -
  have "label_byte CHR ''-''" by (simp add: label_byte_def)
  then show ?thesis
    by (induction s) (auto simp: replace_invalid_def)
qed

lemma label_byte_ends: "label_byte c \<Longrightarrow> c \<notin> set ''-_.'' \<Longrightarrow> is_lower c \<or> is_digit c"
  by (auto simp: label_byte_def)

lemma alnum_not_cut: "is_lower c \<or> is_digit c \<Longrightarrow> c \<notin> set ''-_.''"
  by (auto simp: is_lower_def is_digit_def code_def)

lemma label_byte_ascii: "label_byte c \<Longrightarrow> code c < 128 \<and> \<not> is_upper c"
proof -
  have "code CHR ''-'' = 45" "code CHR ''_'' = 95" "code CHR ''.'' = 46" by code_simp+
  then show "label_byte c \<Longrightarrow> code c < 128 \<and> \<not> is_upper c"
    by (auto simp: label_byte_def is_lower_def is_digit_def is_upper_def)
qed

lemma replace_invalid_id: "list_all label_byte s \<Longrightarrow> replace_invalid s = s"
  by (induction s) (auto simp: replace_invalid_def)

lemma trim_label_valid:
  assumes "list_all label_byte s" and "length s \<le> MaxLabelValueLength"
    and "trim s ''-_.'' \<noteq> []"
  shows "valid_label_value (trim s ''-_.'')"
proof -
  let ?t = "trim s ''-_.''"
  have sub: "set ?t \<subseteq> set s" by (rule set_trim)
  have "length ?t \<le> length s"
    using length_trim_left[of s] length_trim_right[of "trim_left s ''-_.''"]
    by (simp add: trim_def) (meson le_trans)
  moreover have "label_byte (hd ?t)" "label_byte (last ?t)"
    using assms(1) sub hd_in_set[OF assms(3)] last_in_set[OF assms(3)] by (auto simp: list_all_iff)
  ultimately show ?thesis
    using assms sub trim_ends[OF assms(3)] label_byte_ends
    by (auto simp: valid_label_value_def list_all_iff)
qed

lemma fixed_names_valid: "valid_label_value ''empty''" "valid_label_value ''node''"
  by code_simp+

lemma sanitize_trim:
  "SanitizeNodeIDForKubernetes s =
     (if s = '''' then ''empty''
      else let t = trim (take MaxLabelValueLength (replace_invalid (to_lower s))) ''-_.''
        in if t = '''' then ''node'' else t)"
  by (auto simp: SanitizeNodeIDForKubernetes_def Let_def trim_def)
    (simp_all add: trim_right_def)

lemma sanitizeNodeID_eq: "sanitizeNodeID = SanitizeNodeIDForKubernetes"
  by (simp add: fun_eq_iff sanitizeNodeID_def SanitizeNodeIDForKubernetes_def)

interpretation api_san: label_sanitizer SanitizeNodeIDForKubernetes
proof
  fix s
  let ?r = "take MaxLabelValueLength (replace_invalid (to_lower s))"
  have "list_all label_byte ?r" "length ?r \<le> MaxLabelValueLength"
    using label_byte_replace[of "to_lower s"] by (auto simp: list_all_iff dest: in_set_takeD)
  then show "valid_label_value (SanitizeNodeIDForKubernetes s)"
    by (auto simp: sanitize_trim Let_def fixed_names_valid trim_label_valid)
next
  fix s
  assume v: "valid_label_value s"
  then have "to_lower s = s"
    by (intro to_lower_id) (auto simp: valid_label_value_def list_all_iff label_byte_ascii)
  moreover have "trim s ''-_.'' = s"
    using v alnum_not_cut by (intro trim_id) (simp add: valid_label_value_def del: set_simps)
  ultimately show "SanitizeNodeIDForKubernetes s = s"
    using v by (auto simp: sanitize_trim Let_def valid_label_value_def replace_invalid_id)
qed

interpretation ctl_san: label_sanitizer sanitizeNodeID
  unfolding sanitizeNodeID_eq by unfold_locales

section \<open>Validating a graph\<close>

datatype graph_error =
    GraphEmpty
  | NodeIDTooLong string
  | NodeIDEmpty
  | NodeIDInvalid string string
  | NodeIDCollision "string list" string
  | DependsOnMissing string string
  | DependsOnMetadata string string
  | DependsOnSelf string

definition metadata_node :: "string \<Rightarrow> bool" where
  "metadata_node nodeID \<longleftrightarrow> has_prefix nodeID ''_''"

text \<open>
  The first loop of \<open>ValidateGraph\<close>: the checks on each identifier, and the table from sanitized to
  original identifiers. The warnings it also collects are discarded by the code.
\<close>

fun collect_sanitized ::
  "string list \<Rightarrow> (string, string list) gomap \<Rightarrow> graph_error + (string, string list) gomap" where
  "collect_sanitized [] acc = Inr acc"
| "collect_sanitized (nodeID # ids) acc =
     (if metadata_node nodeID then collect_sanitized ids acc
      else if MaxNodeIDLength < length nodeID then Inl (NodeIDTooLong nodeID)
      else if nodeID = '''' then Inl NodeIDEmpty
      else let sanitized = SanitizeNodeIDForKubernetes nodeID
        in if sanitized = '''' \<or> sanitized = ''empty'' \<or> sanitized = ''node''
           then Inl (NodeIDInvalid nodeID sanitized)
           else collect_sanitized ids
             (AList.update sanitized (get_list acc sanitized @ [nodeID]) acc))"

text \<open>The last loop: every dependency names another node of the graph that is not metadata.\<close>

fun check_depends_on ::
  "scenario_graph \<Rightarrow> (string \<times> GraphScenarioNode) list \<Rightarrow> graph_error option" where
  "check_depends_on graph [] = None"
| "check_depends_on graph ((nodeID, node) # rest) =
     (if metadata_node nodeID then check_depends_on graph rest
      else case gn_DependsOn node of
          None \<Rightarrow> check_depends_on graph rest
        | Some dependsOnID \<Rightarrow>
            if dependsOnID = '''' then check_depends_on graph rest
            else if map_of graph dependsOnID = None then Some (DependsOnMissing nodeID dependsOnID)
            else if metadata_node dependsOnID then Some (DependsOnMetadata nodeID dependsOnID)
            else if dependsOnID = nodeID then Some (DependsOnSelf nodeID)
            else check_depends_on graph rest)"

definition ValidateGraph :: "KrknGraphRun \<Rightarrow> graph_error option" where
  "ValidateGraph r =
    (let graph = gspec_Graph (gr_Spec r)
     in if graph = [] then Some GraphEmpty
        else case collect_sanitized (map fst graph) [] of
          Inl e \<Rightarrow> Some e
        | Inr sanitizedIDs \<Rightarrow>
            (case List.find (\<lambda>(s, originals). 1 < length originals) sanitizedIDs of
               Some (s, originals) \<Rightarrow> Some (NodeIDCollision originals s)
             | None \<Rightarrow> check_depends_on graph graph))"

text \<open>What the checks amount to.\<close>

definition node_id_ok :: "string \<Rightarrow> bool" where
  "node_id_ok nodeID \<longleftrightarrow> nodeID \<noteq> '''' \<and> length nodeID \<le> MaxNodeIDLength \<and>
     SanitizeNodeIDForKubernetes nodeID \<notin> {'''', ''empty'', ''node''}"

definition node_ids :: "scenario_graph \<Rightarrow> string set" where
  "node_ids graph = {nodeID \<in> fst ` set graph. \<not> metadata_node nodeID}"

definition dependency_ok :: "scenario_graph \<Rightarrow> string \<times> GraphScenarioNode \<Rightarrow> bool" where
  "dependency_ok graph = (\<lambda>(nodeID, node).
     case gn_DependsOn node of None \<Rightarrow> True
     | Some d \<Rightarrow> d = '''' \<or> d \<in> node_ids graph \<and> d \<noteq> nodeID)"

lemma collect_sanitized_Inr:
  "collect_sanitized ids acc = Inr acc' \<Longrightarrow>
     (\<forall>i \<in> set ids. \<not> metadata_node i \<longrightarrow> node_id_ok i) \<and>
     (\<forall>s. get_list acc' s = get_list acc s @
        filter (\<lambda>i. \<not> metadata_node i \<and> SanitizeNodeIDForKubernetes i = s) ids) \<and>
     (gomap_wf acc \<longrightarrow> gomap_wf acc')"
  by (induction ids arbitrary: acc)
    (auto simp: Let_def node_id_ok_def get_list_update alist.wf_put split: if_splits)

lemma collect_sanitized_total:
  "\<forall>i \<in> set ids. \<not> metadata_node i \<longrightarrow> node_id_ok i \<Longrightarrow> \<exists>acc'. collect_sanitized ids acc = Inr acc'"
  by (induction ids arbitrary: acc) (auto simp: Let_def node_id_ok_def)

lemma check_depends_on_None:
  "check_depends_on graph rest = None \<longleftrightarrow>
     (\<forall>e \<in> set rest. \<not> metadata_node (fst e) \<longrightarrow> dependency_ok graph e)"
  by (induction graph rest rule: check_depends_on.induct)
    (auto simp: dependency_ok_def node_ids_def map_of_eq_None_iff split: option.splits)

lemma check_depends_on_graph:
  "check_depends_on graph graph = None \<longleftrightarrow>
     (\<forall>(i, node) \<in> set graph. i \<in> node_ids graph \<longrightarrow> dependency_ok graph (i, node))"
  unfolding check_depends_on_None by (force simp: node_ids_def)

lemma find_no_large_class:
  assumes "gomap_wf m"
  shows "List.find (\<lambda>(s, xs). 1 < length xs) m = None \<longleftrightarrow> (\<forall>s. length (get_list m s) \<le> 1)"
proof -
  have "List.find (\<lambda>(s, xs). 1 < length xs) m = None \<longleftrightarrow> \<not> (\<exists>(s, xs) \<in> set m. 1 < length xs)"
    by (auto simp: find_None_iff)
  also have "\<dots> \<longleftrightarrow> \<not> (\<exists>s. 1 < length (get_list m s) \<and> s \<in> dom (map_of m))"
    using get_list_mem[OF assms, of "\<lambda>xs. 1 < length xs"] by simp
  also have "\<dots> \<longleftrightarrow> (\<forall>s. length (get_list m s) \<le> 1)"
    by (auto simp: get_list_def not_less domIff split: option.splits)
  finally show ?thesis .
qed

text \<open>Two distinct identifiers share a class exactly when the class has more than one member.\<close>

lemma class_sizes_inj:
  assumes "distinct ids"
  shows "(\<forall>s. length (filter (\<lambda>i. P i \<and> f i = s) ids) \<le> 1) \<longleftrightarrow> inj_on f {i \<in> set ids. P i}"
proof -
  have card: "length (filter (\<lambda>i. P i \<and> f i = s) ids) = card {i \<in> set ids. P i \<and> f i = s}" for s
    using assms distinct_card[of "filter (\<lambda>i. P i \<and> f i = s) ids"] by simp
  show ?thesis
    unfolding card by (auto simp: card_le_Suc0_iff_eq inj_on_def)
qed

text \<open>
  C8. A graph passes \<open>ValidateGraph\<close> exactly when it is not empty, every node identifier has a
  usable sanitized form, no two of its nodes sanitize to the same Kubernetes name, and every
  non-empty dependency names another node of the graph that is not metadata.
\<close>

theorem ValidateGraph_correct:
  assumes "gomap_wf (gspec_Graph (gr_Spec r))"
  shows "ValidateGraph r = None \<longleftrightarrow>
    (let graph = gspec_Graph (gr_Spec r) in graph \<noteq> [] \<and> (\<forall>i \<in> node_ids graph. node_id_ok i) \<and>
       inj_on SanitizeNodeIDForKubernetes (node_ids graph) \<and>
       (\<forall>(i, node) \<in> set graph. i \<in> node_ids graph \<longrightarrow> dependency_ok graph (i, node)))"
proof -
  let ?g = "gspec_Graph (gr_Spec r)"
  let ?ids = "map fst ?g"
  show ?thesis
  proof (cases "collect_sanitized ?ids []")
    case (Inl e)
    with collect_sanitized_total[of ?ids "[]"] show ?thesis
      by (auto simp: ValidateGraph_def Let_def node_ids_def)
  next
    case (Inr acc)
    note c = collect_sanitized_Inr[OF Inr, simplified]
    have ids: "{i \<in> set ?ids. \<not> metadata_node i} = node_ids ?g"
      by (auto simp: node_ids_def)
    from c have "gomap_wf acc" by blast
    then have "List.find (\<lambda>(s, originals). 1 < length originals) acc = None \<longleftrightarrow>
        (\<forall>s. length (get_list acc s) \<le> 1)"
      by (rule find_no_large_class)
    also have "\<dots> \<longleftrightarrow> inj_on SanitizeNodeIDForKubernetes (node_ids ?g)"
      using c class_sizes_inj[of ?ids "\<lambda>i. \<not> metadata_node i" SanitizeNodeIDForKubernetes] assms ids
      by (simp add: gomap_wf_def)
    finally show ?thesis
      using c Inr by (cases "List.find (\<lambda>(s, originals). 1 < length originals) acc")
        (auto simp: ValidateGraph_def Let_def check_depends_on_graph node_ids_def)
  qed
qed

theorem ValidateGraph_correct_witness:
  "gomap_wf chain_graph \<and> ValidateGraph (new_graph_run chain_graph) = None \<and>
   inj_on SanitizeNodeIDForKubernetes (node_ids chain_graph)"
proof -
  have g: "gspec_Graph (gr_Spec (new_graph_run chain_graph)) = chain_graph"
    by (simp add: new_graph_run_def)
  have "gomap_wf chain_graph" by code_simp
  moreover have "ValidateGraph (new_graph_run chain_graph) = None" by code_simp
  ultimately show ?thesis
    using ValidateGraph_correct[of "new_graph_run chain_graph"] by (simp add: g Let_def)
qed

text \<open>
  Both sanitizers (the API type's and the controller's copy) return, for every input, a valid
  Kubernetes label value of at most 63 bytes that starts and ends with an alphanumeric; they
  agree with each other, leave valid label values alone and are idempotent.
\<close>

theorem sanitize_node_id_contract:
  "valid_label_value (SanitizeNodeIDForKubernetes s) \<and>
   sanitizeNodeID s = SanitizeNodeIDForKubernetes s \<and>
   sanitizeNodeID (sanitizeNodeID s) = sanitizeNodeID s \<and>
   range sanitizeNodeID = {v. valid_label_value v}"
  by (simp add: api_san.san_valid sanitizeNodeID_eq api_san.san_idem api_san.san_image)

section \<open>Conversion to and from krknctl\<close>

text \<open>The node type of krknctl's scenario sets (\<open>scenarioorchestrator/models\<close>), flattened.\<close>

record krknctl_ScenarioNode =
  ks_Comment :: string
  ks_Image :: string
  ks_Name :: string
  ks_Env :: "(string, string) gomap"
  ks_Volumes :: "(string, string) gomap"
  ks_Parent :: "string option"

type_synonym krknctl_ScenarioSet = "(string, krknctl_ScenarioNode) gomap"

definition to_krknctl_node :: "GraphScenarioNode \<Rightarrow> krknctl_ScenarioNode" where
  "to_krknctl_node node = \<lparr>ks_Comment = gn_Comment node, ks_Image = gn_Image node,
     ks_Name = gn_Name node, ks_Env = gn_Env node, ks_Volumes = gn_Volumes node,
     ks_Parent = gn_DependsOn node\<rparr>"

definition ToKrknctlScenarioSet :: "scenario_graph \<Rightarrow> krknctl_ScenarioSet" where
  "ToKrknctlScenarioSet graph =
     fold (\<lambda>(nodeID, node). AList.update nodeID (to_krknctl_node node)) graph []"

definition from_krknctl_node :: "krknctl_ScenarioNode \<Rightarrow> GraphScenarioNode" where
  "from_krknctl_node node = \<lparr>gn_Comment = ks_Comment node, gn_Image = ks_Image node,
     gn_Name = ks_Name node, gn_Env = ks_Env node, gn_Volumes = ks_Volumes node,
     gn_DependsOn = ks_Parent node\<rparr>"

definition FromKrknctlScenarioSet :: "krknctl_ScenarioSet \<Rightarrow> scenario_graph" where
  "FromKrknctlScenarioSet scenarioSet =
     fold (\<lambda>(nodeID, node). AList.update nodeID (from_krknctl_node node)) scenarioSet []"

lemma fold_update_convert:
  assumes "gomap_wf m"
  shows "fold (\<lambda>(k, v). AList.update k (f v)) m [] = map (\<lambda>(k, v). (k, f v)) m"
proof -
  have "fold (\<lambda>(k, v). AList.update k (f v)) m [] =
      fold (\<lambda>(k, v). AList.update k v) (map (\<lambda>(k, v). (k, f v)) m) []"
    by (simp add: fold_map comp_def split_def)
  also have "\<dots> = map (\<lambda>(k, v). (k, f v)) m"
    using assms fold_update_fresh[of "map (\<lambda>(k, v). (k, f v)) m" "[]"]
    by (simp add: gomap_wf_def comp_def case_prod_beta)
  finally show ?thesis .
qed

lemma ToKrknctl_map:
  "gomap_wf g \<Longrightarrow> ToKrknctlScenarioSet g = map (\<lambda>(k, v). (k, to_krknctl_node v)) g"
  by (simp add: ToKrknctlScenarioSet_def fold_update_convert)

lemma FromKrknctl_map:
  "gomap_wf s \<Longrightarrow> FromKrknctlScenarioSet s = map (\<lambda>(k, v). (k, from_krknctl_node v)) s"
  by (simp add: FromKrknctlScenarioSet_def fold_update_convert)

lemma gomap_wf_map_snd: "gomap_wf m \<Longrightarrow> gomap_wf (map (\<lambda>(k, v). (k, f v)) m)"
  by (simp add: gomap_wf_def comp_def case_prod_beta)

lemma node_convert [simp]:
  "from_krknctl_node (to_krknctl_node n) = n" "to_krknctl_node (from_krknctl_node k) = k"
  by (simp_all add: from_krknctl_node_def to_krknctl_node_def)

text \<open>
  Converting a graph to krknctl's scenario set and back, or a scenario set to a graph and
  back, loses nothing: identifiers, images, environments, volumes and dependencies return unchanged.
\<close>

theorem krknctl_roundtrip:
  assumes "gomap_wf g" and "gomap_wf s"
  shows "FromKrknctlScenarioSet (ToKrknctlScenarioSet g) = g \<and>
         ToKrknctlScenarioSet (FromKrknctlScenarioSet s) = s"
  using assms
  by (simp add: ToKrknctl_map FromKrknctl_map gomap_wf_map_snd case_prod_beta comp_def)

theorem krknctl_roundtrip_witness:
  "gomap_wf chain_graph \<and> FromKrknctlScenarioSet (ToKrknctlScenarioSet chain_graph) = chain_graph"
proof -
  have "gomap_wf chain_graph" by code_simp
  then show ?thesis using krknctl_roundtrip[of chain_graph "[]"] by simp
qed

end
