(* ===== verification/Dep_Graph.thy ===== *)
theory Dep_Graph
  imports Node_Validation
begin

text \<open>
  The vendored dependency graph that resolves scenario graphs
  (\<open>src/vendor/github.com/kendru/darwin/go/depgraph\<close>, built by
  \<open>src/vendor/github.com/krkn-chaos/krknctl/pkg/dependencygraph\<close>). A \<open>nodeset\<close> is a duplicate-free list,
  a \<open>depmap\<close> a Go map from nodes to nodesets, the graph a record with both directions of the
  dependency relation. The lemmas relate each operation to the relation \<open>depmap_rel\<close> it maintains,
  show the transitive search and the layering loop terminating, and prove the layering correct.
\<close>

section \<open>Nodesets and depmaps\<close>

type_synonym nodeset = "string list"
type_synonym depmap = "(string, nodeset) gomap"

definition addNodeToNodeset :: "depmap \<Rightarrow> string \<Rightarrow> string \<Rightarrow> depmap" where
  "addNodeToNodeset dm key node =
     (let nodes = get_list dm key
      in AList.update key (if node \<in> set nodes then nodes else nodes @ [node]) dm)"

definition removeFromDepmap :: "depmap \<Rightarrow> string \<Rightarrow> string \<Rightarrow> depmap" where
  "removeFromDepmap dm key node =
     (case map_of dm key of
        None \<Rightarrow> dm
      | Some nodes \<Rightarrow> if length nodes = 1 then AList.delete key dm
                      else AList.update key (removeAll node nodes) dm)"

record dgraph =
  dg_nodes :: nodeset
  dg_dependencies :: depmap
  dg_dependents :: depmap

definition New :: dgraph where
  "New = \<lparr>dg_nodes = [], dg_dependencies = [], dg_dependents = []\<rparr>"

text \<open>The relation a depmap stands for, and the shape every depmap keeps.\<close>

definition depmap_rel :: "depmap \<Rightarrow> (string \<times> string) set" where
  "depmap_rel dm = {(k, n). n \<in> set (get_list dm k)}"

definition depmap_wf :: "depmap \<Rightarrow> bool" where
  "depmap_wf dm \<longleftrightarrow> gomap_wf dm \<and> (\<forall>k. map_of dm k \<noteq> Some []) \<and> (\<forall>k. distinct (get_list dm k))"

lemma depmap_rel_iff: "(k, n) \<in> depmap_rel dm \<longleftrightarrow> n \<in> set (get_list dm k)"
  by (simp add: depmap_rel_def)

lemma depmap_rel_Nil [simp]: "depmap_rel [] = {}" and depmap_wf_Nil [simp]: "depmap_wf []"
  by (simp_all add: depmap_rel_def depmap_wf_def)

lemma depmap_rel_add: "depmap_rel (addNodeToNodeset dm k n) = insert (k, n) (depmap_rel dm)"
  by (auto simp: depmap_rel_def addNodeToNodeset_def Let_def get_list_update split: if_splits)

lemma depmap_wf_add: "depmap_wf dm \<Longrightarrow> depmap_wf (addNodeToNodeset dm k n)"
  by (auto simp: depmap_wf_def addNodeToNodeset_def Let_def get_list_update alist.wf_put
      alist.get_put)

lemma get_list_delete: "get_list (AList.delete k dm) k' = (if k' = k then [] else get_list dm k')"
  by (simp add: get_list_def alist.get_del)

lemma depmap_rel_delete: "depmap_rel (AList.delete k dm) = {(a, b) \<in> depmap_rel dm. a \<noteq> k}"
  by (auto simp: depmap_rel_def get_list_delete split: if_splits)

lemma depmap_wf_delete: "depmap_wf dm \<Longrightarrow> depmap_wf (AList.delete k dm)"
  by (auto simp: depmap_wf_def get_list_delete alist.wf_del alist.get_del)

lemma depmap_rel_remove:
  assumes "(k, n) \<in> depmap_rel dm"
  shows "depmap_rel (removeFromDepmap dm k n) = depmap_rel dm - {(k, n)}"
  using assms
  by (auto simp: depmap_rel_def removeFromDepmap_def get_list_update get_list_delete length_Suc_conv
      get_list_def[of dm] split: option.splits if_splits)

lemma depmap_wf_remove:
  assumes "depmap_wf dm" and "(k, n) \<in> depmap_rel dm"
  shows "depmap_wf (removeFromDepmap dm k n)"
proof (cases "map_of dm k")
  case None
  with assms show ?thesis by (simp add: removeFromDepmap_def)
next
  case (Some ns)
  then have "get_list dm k = ns" by (simp add: get_list_def)
  with assms have ns: "n \<in> set ns" "distinct ns"
    by (auto simp: depmap_rel_def depmap_wf_def)
  have keep: "removeAll n ns \<noteq> []" if "length ns \<noteq> 1"
  proof
    assume "removeAll n ns = []"
    then have "set ns \<subseteq> {n}" by (auto simp: removeAll_filter_not_eq filter_empty_conv)
    then have "card (set ns) \<le> card {n}" by (rule card_mono[rotated]) simp
    with ns that show False by (cases ns) (auto simp: distinct_card)
  qed
  show ?thesis
  proof (cases "length ns = 1")
    case True
    with assms(1) Some show ?thesis by (simp add: removeFromDepmap_def depmap_wf_delete)
  next
    case False
    with Some have eq: "removeFromDepmap dm k n = AList.update k (removeAll n ns) dm"
      by (simp add: removeFromDepmap_def)
    from assms(1) keep[OF False] ns(2) show ?thesis
      unfolding eq by (simp add: depmap_wf_def get_list_update alist.wf_put alist.get_put
          distinct_removeAll)
  qed
qed

lemma depmap_remove_fold:
  "distinct ks \<Longrightarrow> \<forall>k \<in> set ks. (k, n) \<in> depmap_rel dm \<Longrightarrow> depmap_wf dm \<Longrightarrow>
     depmap_rel (fold (\<lambda>k dm. removeFromDepmap dm k n) ks dm) = depmap_rel dm - set ks \<times> {n} \<and>
     depmap_wf (fold (\<lambda>k dm. removeFromDepmap dm k n) ks dm)"
proof (induction ks arbitrary: dm)
  case (Cons k ks)
  then have "(k, n) \<in> depmap_rel dm" by simp
  with Cons.prems Cons.IH[of "removeFromDepmap dm k n"] show ?case
    by (auto simp: depmap_rel_remove depmap_wf_remove)
qed simp

section \<open>Transitive dependencies\<close>

text \<open>One node's successors are added to the output and, when new, to the discovered list.\<close>

definition discover :: "nodeset \<Rightarrow> nodeset \<times> string list \<Rightarrow> nodeset \<times> string list" where
  "discover nexts acc =
     fold (\<lambda>n (out, discovered). if n \<in> set out then (out, discovered)
             else (out @ [n], discovered @ [n])) nexts acc"

definition discover_layer ::
  "depmap \<Rightarrow> string list \<Rightarrow> nodeset \<times> string list \<Rightarrow> nodeset \<times> string list" where
  "discover_layer dm searchNext acc = fold (\<lambda>node. discover (get_list dm node)) searchNext acc"

lemma discover_sets:
  "discover nexts (out, d) = (out', d') \<Longrightarrow>
     set out' = set out \<union> set nexts \<and> set d' = set d \<union> (set nexts - set out)"
  unfolding discover_def
  by (induction nexts arbitrary: out d) (auto split: if_splits)

lemma discover_layer_sets:
  "discover_layer dm search (out, d) = (out', d') \<Longrightarrow>
     set out' = set out \<union> depmap_rel dm `` set search \<and>
     set d' = set d \<union> (depmap_rel dm `` set search - set out)"
proof (induction search arbitrary: out d)
  case (Cons x xs)
  obtain o1 d1 where s: "discover (get_list dm x) (out, d) = (o1, d1)" by fastforce
  from Cons.prems s have "discover_layer dm xs (o1, d1) = (out', d')"
    by (simp add: discover_layer_def)
  from Cons.IH[OF this] discover_sets[OF s] show ?case
    by (auto simp: depmap_rel_iff)
qed (simp add: discover_layer_def)

definition depmap_range :: "depmap \<Rightarrow> string set" where
  "depmap_range dm = (\<Union>(k, ns) \<in> set dm. set ns)"

lemma depmap_range: "(k, n) \<in> depmap_rel dm \<Longrightarrow> n \<in> depmap_range dm"
  by (fastforce simp: depmap_rel_def depmap_range_def get_list_def split: option.splits
      dest!: sym[of "Some _"] map_of_SomeD)

lemma finite_depmap_range [simp]: "finite (depmap_range dm)"
  by (auto simp: depmap_range_def)

text \<open>The discovery loop of \<open>buildTransitive\<close>. It ends: a round that discovers nothing is the last,
  and every other round moves a node of the finite range of the depmap into the output.\<close>

function build_loop :: "depmap \<Rightarrow> nodeset \<Rightarrow> string list \<Rightarrow> nodeset" where
  "build_loop dm out searchNext =
     (if searchNext = [] then out
      else case discover_layer dm searchNext (out, []) of (out', discovered) \<Rightarrow>
        build_loop dm out' discovered)"
  by pat_completeness auto
termination
proof (relation "measures [\<lambda>(dm, out, s). card (depmap_range dm - set out), \<lambda>(dm, out, s). length s]")
  fix dm :: depmap and out search out' d
  assume ne: "search \<noteq> []" and p: "(out', d) = discover_layer dm search (out, [])"
  from p have sets: "set out' = set out \<union> depmap_rel dm `` set search"
    "set d = depmap_rel dm `` set search - set out"
    using discover_layer_sets[of dm search out "[]" out' d] by auto
  show "((dm, out', d), dm, out, search) \<in> measures [\<lambda>(dm, out, s). card (depmap_range dm - set out),
      \<lambda>(dm, out, s). length s]"
  proof (cases "d = []")
    case True
    with sets have "set out' = set out" by auto
    with True ne show ?thesis by simp
  next
    case False
    then obtain x where "x \<in> set d" by (cases d) auto
    with sets have "x \<in> depmap_range dm - set out" "x \<in> set out'" "set out \<subseteq> set out'"
      by (auto intro: depmap_range)
    then have "depmap_range dm - set out' \<subset> depmap_range dm - set out" by auto
    then show ?thesis by (simp add: psubset_card_mono)
  qed
qed simp

declare build_loop.simps [simp del]

lemma build_loop_mono: "set out \<subseteq> set (build_loop dm out search)"
proof (induction dm out search rule: build_loop.induct)
  case (1 dm out search)
  obtain out' d where e: "discover_layer dm search (out, []) = (out', d)" by fastforce
  with 1 discover_layer_sets[OF e] show ?case
    by (subst build_loop.simps) auto
qed

text \<open>The loop adds exactly what is reachable from the search list and closes the output.\<close>

lemma build_loop_spec:
  assumes "\<forall>x \<in> set out. x \<in> set search \<or> depmap_rel dm `` {x} \<subseteq> set out"
  shows "(\<forall>x \<in> set (build_loop dm out search). depmap_rel dm `` {x} \<subseteq> set (build_loop dm out search)) \<and>
    depmap_rel dm `` set search \<subseteq> set (build_loop dm out search) \<and>
    set (build_loop dm out search) \<subseteq> set out \<union> (depmap_rel dm)\<^sup>+ `` set search"
  using assms
proof (induction dm out search rule: build_loop.induct)
  case (1 dm out search)
  show ?case
  proof (cases "search = []")
    case True
    with "1.prems" show ?thesis by (simp add: build_loop.simps)
  next
    case False
    obtain out' d where e: "discover_layer dm search (out, []) = (out', d)" by fastforce
    note sets = discover_layer_sets[OF e]
    have pre: "\<forall>x \<in> set out'. x \<in> set d \<or> depmap_rel dm `` {x} \<subseteq> set out'"
      using "1.prems" sets by auto
    note IH = "1.IH"[OF False e[symmetric] pre]
    have eq: "build_loop dm out search = build_loop dm out' d"
      using False e by (subst build_loop.simps) simp
    have "(depmap_rel dm)\<^sup>+ `` set d \<subseteq> (depmap_rel dm)\<^sup>+ `` set search"
      using sets by (auto intro: trancl_into_trancl2)
    moreover have "set out' \<subseteq> set out \<union> (depmap_rel dm)\<^sup>+ `` set search"
      using sets by blast
    moreover have "depmap_rel dm `` set search \<subseteq> set (build_loop dm out' d)"
      using sets build_loop_mono[of out' dm d] by blast
    ultimately show ?thesis
      using IH unfolding eq by (intro conjI) (blast, blast, blast)
  qed
qed

definition buildTransitive :: "dgraph \<Rightarrow> string \<Rightarrow> depmap \<Rightarrow> nodeset" where
  "buildTransitive g root dm = (if root \<in> set (dg_nodes g) then build_loop dm [] [root] else [])"

lemma buildTransitive_trancl:
  assumes "root \<in> set (dg_nodes g)"
  shows "set (buildTransitive g root dm) = (depmap_rel dm)\<^sup>+ `` {root}"
proof -
  let ?R = "set (build_loop dm [] [root])"
  have spec: "\<forall>x \<in> ?R. depmap_rel dm `` {x} \<subseteq> ?R" "depmap_rel dm `` {root} \<subseteq> ?R"
    "?R \<subseteq> (depmap_rel dm)\<^sup>+ `` {root}"
    using build_loop_spec[of "[]" "[root]" dm] by simp_all
  have "y \<in> ?R" if "(root, y) \<in> (depmap_rel dm)\<^sup>+" for y
    using that spec(1,2) by (induction rule: trancl_induct) auto
  with spec(3) assms show ?thesis by (auto simp: buildTransitive_def)
qed

definition Dependencies :: "dgraph \<Rightarrow> string \<Rightarrow> nodeset" where
  "Dependencies g child = buildTransitive g child (dg_dependencies g)"

definition DependsOn :: "dgraph \<Rightarrow> string \<Rightarrow> string \<Rightarrow> bool" where
  "DependsOn g child parent \<longleftrightarrow> parent \<in> set (Dependencies g child)"

section \<open>Building the graph\<close>

datatype dep_error = SelfReferential | Circular

definition DependOn :: "dgraph \<Rightarrow> string \<Rightarrow> string \<Rightarrow> dep_error + dgraph" where
  "DependOn g child parent =
     (if child = parent then Inl SelfReferential
      else if DependsOn g parent child then Inl Circular
      else Inr (g\<lparr>dg_nodes := List.insert child (List.insert parent (dg_nodes g)),
                  dg_dependents := addNodeToNodeset (dg_dependents g) parent child,
                  dg_dependencies := addNodeToNodeset (dg_dependencies g) child parent\<rparr>))"

text \<open>\<open>NewGraphFromNodes\<close>, over the nodes' \<open>GetParent\<close> results.\<close>

fun add_parents :: "(string \<times> string option) list \<Rightarrow> dgraph \<Rightarrow> dep_error + dgraph" where
  "add_parents [] g = Inr g"
| "add_parents ((k, None) # rest) g = add_parents rest g"
| "add_parents ((k, Some parent) # rest) g =
     (case DependOn g k parent of Inl e \<Rightarrow> Inl e | Inr g' \<Rightarrow> add_parents rest g')"

definition NewGraphFromNodes :: "(string \<times> string option) list \<Rightarrow> dep_error + dgraph" where
  "NewGraphFromNodes nodes = add_parents nodes New"

definition edges :: "dgraph \<Rightarrow> (string \<times> string) set" where
  "edges g = depmap_rel (dg_dependencies g)"

definition dgraph_wf :: "dgraph \<Rightarrow> bool" where
  "dgraph_wf g \<longleftrightarrow> distinct (dg_nodes g) \<and> depmap_wf (dg_dependencies g) \<and>
     depmap_wf (dg_dependents g) \<and> depmap_rel (dg_dependents g) = (edges g)\<inverse> \<and>
     edges g \<subseteq> set (dg_nodes g) \<times> set (dg_nodes g)"

lemma dgraph_wf_New: "dgraph_wf New" and edges_New [simp]: "edges New = {}"
  by (simp_all add: dgraph_wf_def New_def edges_def)

lemma DependOn_Inr:
  assumes "DependOn g c p = Inr g'" and "dgraph_wf g"
  shows "edges g' = insert (c, p) (edges g)" "set (dg_nodes g') = insert c (insert p (set (dg_nodes g)))"
    "dgraph_wf g'"
proof -
  from assms(1) have g': "g' = g\<lparr>dg_nodes := List.insert c (List.insert p (dg_nodes g)),
      dg_dependents := addNodeToNodeset (dg_dependents g) p c,
      dg_dependencies := addNodeToNodeset (dg_dependencies g) c p\<rparr>"
    by (auto simp: DependOn_def split: if_splits)
  then show e: "edges g' = insert (c, p) (edges g)"
    and n: "set (dg_nodes g') = insert c (insert p (set (dg_nodes g)))"
    by (simp_all add: edges_def depmap_rel_add)
  from assms(2) g' e show "dgraph_wf g'"
    by (auto simp: dgraph_wf_def depmap_wf_add depmap_rel_add)
qed

lemma DependsOn_trancl:
  assumes "dgraph_wf g"
  shows "DependsOn g c p \<longleftrightarrow> (c, p) \<in> (edges g)\<^sup>+"
proof (cases "c \<in> set (dg_nodes g)")
  case True
  then show ?thesis
    by (simp add: DependsOn_def Dependencies_def buildTransitive_trancl edges_def)
next
  case False
  with assms have "(c, p) \<notin> (edges g)\<^sup>+"
    by (auto simp: dgraph_wf_def dest: tranclD)
  with False show ?thesis
    by (simp add: DependsOn_def Dependencies_def buildTransitive_def)
qed

text \<open>An edge is accepted exactly when the relation stays acyclic.\<close>

lemma DependOn_acyclic:
  assumes "dgraph_wf g" and "acyclic (edges g)"
  shows "(\<exists>g'. DependOn g c p = Inr g') \<longleftrightarrow> acyclic (insert (c, p) (edges g))"
  using assms
  by (auto simp: DependOn_def DependsOn_trancl acyclic_insert rtrancl_eq_or_trancl)

definition parent_rel :: "(string \<times> string option) list \<Rightarrow> (string \<times> string) set" where
  "parent_rel nodes = {(k, p). (k, Some p) \<in> set nodes}"

lemma parent_rel_Cons [simp]:
  "parent_rel [] = {}" "parent_rel ((k, None) # rest) = parent_rel rest"
  "parent_rel ((k, Some p) # rest) = insert (k, p) (parent_rel rest)"
  by (auto simp: parent_rel_def)

lemma add_parents_Inr:
  "add_parents nodes g = Inr g' \<Longrightarrow> dgraph_wf g \<Longrightarrow>
     dgraph_wf g' \<and> edges g' = edges g \<union> parent_rel nodes \<and>
     set (dg_nodes g') = set (dg_nodes g) \<union> Field (parent_rel nodes)"
proof (induction nodes g rule: add_parents.induct)
  case (3 k p rest g)
  then obtain h where h: "DependOn g k p = Inr h" "add_parents rest h = Inr g'"
    by (auto split: sum.splits)
  with "3.IH" "3.prems" DependOn_Inr[OF h(1)] show ?case
    by (auto simp: Field_insert)
qed auto

lemma add_parents_acyclic:
  "dgraph_wf g \<Longrightarrow> acyclic (edges g) \<Longrightarrow>
     (\<exists>g'. add_parents nodes g = Inr g') \<longleftrightarrow> acyclic (edges g \<union> parent_rel nodes)"
proof (induction nodes g rule: add_parents.induct)
  case (3 k p rest g)
  show ?case
  proof (cases "DependOn g k p")
    case (Inl e)
    then have "\<not> acyclic (insert (k, p) (edges g))"
      using DependOn_acyclic[OF "3.prems", of k p] by simp
    then have "\<not> acyclic (edges g \<union> parent_rel ((k, Some p) # rest))"
      using acyclic_subset[of "edges g \<union> parent_rel ((k, Some p) # rest)" "insert (k, p) (edges g)"]
      by auto
    with Inl show ?thesis by simp
  next
    case (Inr h)
    with DependOn_acyclic[OF "3.prems", of k p] have "acyclic (insert (k, p) (edges g))" by auto
    with "3.IH"[OF Inr] DependOn_Inr[OF Inr "3.prems"(1)] Inr show ?thesis by simp
  qed
qed auto

section \<open>Layers\<close>

definition Leaves :: "dgraph \<Rightarrow> string list" where
  "Leaves g = filter (\<lambda>n. map_of (dg_dependencies g) n = None) (dg_nodes g)"

definition remove :: "dgraph \<Rightarrow> string \<Rightarrow> dgraph" where
  "remove g node =
    (let deps1 = fold (\<lambda>dependent dm. removeFromDepmap dm dependent node)
                   (get_list (dg_dependents g) node) (dg_dependencies g);
         dts1 = AList.delete node (dg_dependents g);
         dts2 = fold (\<lambda>dependency dm. removeFromDepmap dm dependency node)
                   (get_list deps1 node) dts1;
         deps2 = AList.delete node deps1
     in g\<lparr>dg_nodes := removeAll node (dg_nodes g), dg_dependencies := deps2, dg_dependents := dts2\<rparr>)"

lemma dg_nodes_remove [simp]: "dg_nodes (remove g n) = removeAll n (dg_nodes g)"
  by (simp add: remove_def Let_def)

lemma dg_nodes_remove_fold:
  "dg_nodes (fold (\<lambda>n g. remove g n) ns g) = filter (\<lambda>n. n \<notin> set ns) (dg_nodes g)"
  by (induction ns arbitrary: g) (auto simp: removeAll_filter_not_eq intro: filter_cong)

function topo_loop :: "dgraph \<Rightarrow> string list list" where
  "topo_loop g =
     (if Leaves g = [] then []
      else Leaves g # topo_loop (fold (\<lambda>leafNode g. remove g leafNode) (Leaves g) g))"
  by pat_completeness auto
termination
proof (relation "measure (\<lambda>g. length (dg_nodes g))")
  fix g
  assume "Leaves g \<noteq> []"
  then obtain n where "n \<in> set (Leaves g)" by (cases "Leaves g") auto
  then have "n \<in> set (dg_nodes g)" by (auto simp: Leaves_def)
  with \<open>n \<in> set (Leaves g)\<close>
  show "(fold (\<lambda>leafNode g. remove g leafNode) (Leaves g) g, g) \<in> measure (\<lambda>g. length (dg_nodes g))"
    by (auto simp: dg_nodes_remove_fold intro!: length_filter_less)
qed simp

declare topo_loop.simps [simp del]

text \<open>The Go code runs the loop on a clone, so the graph itself is unchanged.\<close>

definition TopoSortedLayers :: "dgraph \<Rightarrow> string list list" where
  "TopoSortedLayers g = topo_loop g"

lemma remove_wf:
  assumes "dgraph_wf g"
  shows "dgraph_wf (remove g n) \<and> edges (remove g n) = {(c, p) \<in> edges g. c \<noteq> n \<and> p \<noteq> n}"
proof -
  let ?deps = "dg_dependencies g" and ?dts = "dg_dependents g"
  let ?deps1 = "fold (\<lambda>k dm. removeFromDepmap dm k n) (get_list ?dts n) ?deps"
  let ?dts1 = "AList.delete n ?dts"
  let ?dts2 = "fold (\<lambda>k dm. removeFromDepmap dm k n) (get_list ?deps1 n) ?dts1"
  have conv: "(a, b) \<in> depmap_rel ?dts \<longleftrightarrow> (b, a) \<in> depmap_rel ?deps" for a b
    using assms by (auto simp: dgraph_wf_def edges_def)
  have wfd: "depmap_wf ?deps" "depmap_wf ?dts" using assms by (auto simp: dgraph_wf_def)
  have irrefl_or: "\<forall>k \<in> set (get_list ?dts n). (k, n) \<in> depmap_rel ?deps"
    using conv by (auto simp flip: depmap_rel_iff)
  have r1: "depmap_rel ?deps1 = depmap_rel ?deps - set (get_list ?dts n) \<times> {n}" "depmap_wf ?deps1"
    using depmap_remove_fold[OF _ irrefl_or wfd(1)] wfd(2) by (auto simp: depmap_wf_def)
  have r1': "depmap_rel ?deps1 = {(c, p) \<in> depmap_rel ?deps. p \<noteq> n}"
    using r1(1) conv by (auto simp flip: depmap_rel_iff)
  have mem: "\<forall>k \<in> set (get_list ?deps1 n). (k, n) \<in> depmap_rel ?dts1"
    using r1' conv by (auto simp: depmap_rel_delete simp flip: depmap_rel_iff)
  have r2: "depmap_rel ?dts2 = depmap_rel ?dts1 - set (get_list ?deps1 n) \<times> {n}" "depmap_wf ?dts2"
    using depmap_remove_fold[OF _ mem depmap_wf_delete[OF wfd(2)]] r1(2) by (auto simp: depmap_wf_def)
  have e: "edges (remove g n) = {(c, p) \<in> edges g. c \<noteq> n \<and> p \<noteq> n}"
    by (auto simp: edges_def remove_def Let_def depmap_rel_delete r1')
  have "depmap_rel ?dts2 = {(p, c) \<in> depmap_rel ?dts. c \<noteq> n \<and> p \<noteq> n}"
    using r2(1) r1' conv by (auto simp: depmap_rel_delete simp flip: depmap_rel_iff)
  then have "depmap_rel (dg_dependents (remove g n)) = (edges (remove g n))\<inverse>"
    unfolding e using conv by (auto simp: edges_def[of g] remove_def Let_def)
  moreover have "depmap_wf (dg_dependencies (remove g n))" "depmap_wf (dg_dependents (remove g n))"
    using r1(2) r2(2) by (simp_all add: remove_def Let_def depmap_wf_delete)
  ultimately show ?thesis
    using assms e by (auto simp: dgraph_wf_def distinct_removeAll)
qed

lemma remove_fold_wf:
  "dgraph_wf g \<Longrightarrow> dgraph_wf (fold (\<lambda>n g. remove g n) ns g) \<and>
     edges (fold (\<lambda>n g. remove g n) ns g) = {(c, p) \<in> edges g. c \<notin> set ns \<and> p \<notin> set ns}"
  by (induction ns arbitrary: g) (auto simp: remove_wf)

lemma Leaves_iff:
  assumes "dgraph_wf g"
  shows "n \<in> set (Leaves g) \<longleftrightarrow> n \<in> set (dg_nodes g) \<and> (\<forall>p. (n, p) \<notin> edges g)"
proof -
  have "map_of (dg_dependencies g) n \<noteq> Some []"
    using assms by (simp add: dgraph_wf_def depmap_wf_def)
  then have "map_of (dg_dependencies g) n = None \<longleftrightarrow> get_list (dg_dependencies g) n = []"
    by (auto simp: get_list_def split: option.split)
  then show ?thesis by (auto simp: Leaves_def edges_def depmap_rel_iff)
qed

text \<open>An acyclic graph with a node has a leaf, so the loop only stops when every node is placed.\<close>

lemma Leaves_nonempty:
  assumes "dgraph_wf g" and "acyclic (edges g)" and "dg_nodes g \<noteq> []"
  shows "Leaves g \<noteq> []"
proof -
  have "edges g \<subseteq> set (dg_nodes g) \<times> set (dg_nodes g)" using assms(1) by (simp add: dgraph_wf_def)
  then have "finite (edges g)" by (rule finite_subset) simp
  then have "wf ((edges g)\<inverse>)" using assms(2) by (simp add: finite_acyclic_wf_converse)
  moreover obtain x where "x \<in> set (dg_nodes g)" using assms(3) by (cases "dg_nodes g") auto
  ultimately obtain z where "z \<in> set (dg_nodes g)" "\<forall>y. (y, z) \<in> (edges g)\<inverse> \<longrightarrow> y \<notin> set (dg_nodes g)"
    by (meson wfE_min)
  with assms(1) have "z \<in> set (Leaves g)" by (auto simp: Leaves_iff dgraph_wf_def)
  then show ?thesis by auto
qed

text \<open>
  What a layering of a dependency relation promises: the layers hold each of the given nodes
  exactly once, no layer is empty, and whatever a node depends on lies in a strictly earlier layer.
\<close>

definition is_layering :: "string set \<Rightarrow> (string \<times> string) set \<Rightarrow> string list list \<Rightarrow> bool" where
  "is_layering N E L \<longleftrightarrow> distinct (concat L) \<and> set (concat L) = N \<and> [] \<notin> set L \<and>
     (\<forall>i < length L. \<forall>c \<in> set (L ! i). \<forall>p. (c, p) \<in> E \<longrightarrow> (\<exists>j < i. p \<in> set (L ! j)))"

lemma is_layering_Cons:
  assumes "is_layering (N - set l) {(c, p) \<in> E. c \<notin> set l \<and> p \<notin> set l} L"
    and "distinct l" and "l \<noteq> []" and "set l \<subseteq> N" and "\<forall>c \<in> set l. \<forall>p. (c, p) \<notin> E"
  shows "is_layering N E (l # L)"
  unfolding is_layering_def
proof (intro conjI allI impI ballI)
  show "distinct (concat (l # L))" "set (concat (l # L)) = N" "[] \<notin> set (l # L)"
    using assms by (auto simp: is_layering_def)
  fix i c p
  assume i: "i < length (l # L)" and c: "c \<in> set ((l # L) ! i)" and e: "(c, p) \<in> E"
  show "\<exists>j < i. p \<in> set ((l # L) ! j)"
  proof (cases i)
    case 0
    with c e assms(5) show ?thesis by simp
  next
    case (Suc k)
    with i c have k: "k < length L" "c \<in> set (L ! k)" by auto
    then have "c \<in> set (concat L)" by (auto intro!: bexI[of _ "L ! k"])
    with assms(1) have "c \<notin> set l" by (auto simp: is_layering_def)
    show ?thesis
    proof (cases "p \<in> set l")
      case True
      with Suc show ?thesis by (intro exI[of _ 0]) simp
    next
      case False
      with assms(1) k e \<open>c \<notin> set l\<close> obtain j where "j < k" "p \<in> set (L ! j)"
        unfolding is_layering_def by blast
      with Suc show ?thesis by (intro exI[of _ "Suc j"]) simp
    qed
  qed
qed

lemma topo_loop_layering:
  "dgraph_wf g \<Longrightarrow> acyclic (edges g) \<Longrightarrow> is_layering (set (dg_nodes g)) (edges g) (topo_loop g)"
proof (induction g rule: topo_loop.induct)
  case (1 g)
  show ?case
  proof (cases "Leaves g = []")
    case True
    with "1.prems" have "dg_nodes g = []" using Leaves_nonempty by blast
    with True show ?thesis by (subst topo_loop.simps) (simp add: is_layering_def)
  next
    case False
    let ?g = "fold (\<lambda>leafNode g. remove g leafNode) (Leaves g) g"
    have w: "dgraph_wf ?g" "edges ?g = {(c, p) \<in> edges g. c \<notin> set (Leaves g) \<and> p \<notin> set (Leaves g)}"
      using remove_fold_wf[OF "1.prems"(1)] by auto
    moreover have "acyclic (edges ?g)"
      by (rule acyclic_subset[OF "1.prems"(2)]) (auto simp: w(2))
    moreover have "set (dg_nodes ?g) = set (dg_nodes g) - set (Leaves g)"
      by (auto simp: dg_nodes_remove_fold)
    ultimately have "is_layering (set (dg_nodes g) - set (Leaves g))
        {(c, p) \<in> edges g. c \<notin> set (Leaves g) \<and> p \<notin> set (Leaves g)} (topo_loop ?g)"
      using "1.IH"[OF False] by simp
    then have "is_layering (set (dg_nodes g)) (edges g) (Leaves g # topo_loop ?g)"
      using False "1.prems"(1)
      by (intro is_layering_Cons) (auto simp: Leaves_iff, auto simp: Leaves_def dgraph_wf_def)
    with False show ?thesis by (subst topo_loop.simps) simp
  qed
qed

text \<open>
  The interface the graph executor relies on: building succeeds exactly on acyclic parent
  relations, and the layers of the built graph are a layering of the nodes that occur in it.
\<close>

locale layering_service =
  fixes build :: "(string \<times> string option) list \<Rightarrow> 'e + 'g"
    and layers :: "'g \<Rightarrow> string list list"
  assumes build_iff: "(\<exists>g. build nodes = Inr g) \<longleftrightarrow> acyclic (parent_rel nodes)"
    and build_layers: "build nodes = Inr g \<Longrightarrow>
      is_layering (Field (parent_rel nodes)) (parent_rel nodes) (layers g)"
begin

lemma build_total: "acyclic (parent_rel nodes) \<Longrightarrow>
    \<exists>g. build nodes = Inr g \<and> is_layering (Field (parent_rel nodes)) (parent_rel nodes) (layers g)"
  using build_iff build_layers by blast

lemma build_cycle: "\<not> acyclic (parent_rel nodes) \<Longrightarrow> \<exists>e. build nodes = Inl e"
  using build_iff[of nodes] by (cases "build nodes") auto

end

interpretation depgraph: layering_service NewGraphFromNodes TopoSortedLayers
proof
  fix nodes
  show "(\<exists>g. NewGraphFromNodes nodes = Inr g) \<longleftrightarrow> acyclic (parent_rel nodes)"
    using add_parents_acyclic[OF dgraph_wf_New, of nodes]
    by (simp add: NewGraphFromNodes_def acyclic_def)
next
  fix nodes g
  assume b: "NewGraphFromNodes nodes = Inr g"
  then have "acyclic (parent_rel nodes)"
    using add_parents_acyclic[OF dgraph_wf_New, of nodes]
    by (auto simp: NewGraphFromNodes_def acyclic_def)
  moreover have "dgraph_wf g" "edges g = parent_rel nodes"
    "set (dg_nodes g) = Field (parent_rel nodes)"
    using b add_parents_Inr[OF _ dgraph_wf_New, of nodes g]
    by (auto simp: NewGraphFromNodes_def) (simp_all add: New_def)
  ultimately show "is_layering (Field (parent_rel nodes)) (parent_rel nodes) (TopoSortedLayers g)"
    using topo_loop_layering[of g] by (simp add: TopoSortedLayers_def)
qed

end
