(* ===== verification/Graph_Executor.thy ===== *)
theory Graph_Executor
  imports Dep_Graph
begin

text \<open>
  \<open>src/pkg/graph/executor.go\<close>: resolving a scenario graph into levels that can run in parallel, and
  turning a graph node into the spec of the scenario run that executes it. The properties rest on the
  contract of the dependency graph (\<open>layering_service\<close>), through its interpretation \<open>depgraph\<close>.
\<close>

section \<open>ResolveGraph\<close>

datatype resolve_error =
    ScenarioGraphEmpty
  | NoValidNodes
  | RefMetadata string string
  | RefMissing string string
  | RefSelf string
  | BuildFailed dep_error

definition filter_metadata :: "scenario_graph \<Rightarrow> scenario_graph" where
  "filter_metadata scenarioGraph = filter (\<lambda>(nodeID, node). \<not> metadata_node nodeID) scenarioGraph"

fun check_references ::
  "scenario_graph \<Rightarrow> (string \<times> GraphScenarioNode) list \<Rightarrow> resolve_error option" where
  "check_references filteredGraph [] = None"
| "check_references filteredGraph ((nodeID, node) # rest) =
     (case gn_DependsOn node of
        None \<Rightarrow> check_references filteredGraph rest
      | Some dependsOnID \<Rightarrow>
          if dependsOnID = '''' then check_references filteredGraph rest
          else if map_of filteredGraph dependsOnID = None then
            (if metadata_node dependsOnID then Some (RefMetadata nodeID dependsOnID)
             else Some (RefMissing nodeID dependsOnID))
          else if dependsOnID = nodeID then Some (RefSelf nodeID)
          else check_references filteredGraph rest)"

definition ResolveGraph :: "scenario_graph \<Rightarrow> resolve_error + string list list" where
  "ResolveGraph scenarioGraph =
    (if scenarioGraph = [] then Inl ScenarioGraphEmpty
     else let filteredGraph = filter_metadata scenarioGraph
      in if filteredGraph = [] then Inl NoValidNodes
         else case check_references filteredGraph filteredGraph of
           Some e \<Rightarrow> Inl e
         | None \<Rightarrow>
             (let krknctlScenarioSet = ToKrknctlScenarioSet filteredGraph
              in if list_all (\<lambda>(nodeID, node). ks_Parent node = None) krknctlScenarioSet
                 then Inr [map fst filteredGraph]
                 else case NewGraphFromNodes
                     (map (\<lambda>(nodeID, node). (nodeID, ks_Parent node)) krknctlScenarioSet) of
                   Inl e \<Rightarrow> Inl (BuildFailed e)
                 | Inr g \<Rightarrow> Inr (TopoSortedLayers g)))"

text \<open>The dependency relation of a graph, and when its references are sound.\<close>

definition depends_rel :: "scenario_graph \<Rightarrow> (string \<times> string) set" where
  "depends_rel g = {(n, d). \<exists>node. (n, node) \<in> set g \<and> \<not> metadata_node n \<and> gn_DependsOn node = Some d}"

definition references_ok :: "scenario_graph \<Rightarrow> bool" where
  "references_ok g \<longleftrightarrow> (\<forall>(n, d) \<in> depends_rel g. d = '''' \<or> d \<in> node_ids g \<and> d \<noteq> n)"

lemma fst_filter_metadata: "fst ` set (filter_metadata g) = node_ids g"
  by (force simp: filter_metadata_def node_ids_def)

lemma filter_metadata_Nil: "filter_metadata g = [] \<longleftrightarrow> node_ids g = {}"
  using fst_filter_metadata[of g] by auto

lemma depends_rel_filtered:
  "depends_rel g = {(n, d). \<exists>node. (n, node) \<in> set (filter_metadata g) \<and> gn_DependsOn node = Some d}"
  by (auto simp: depends_rel_def filter_metadata_def)

lemma check_references_None:
  "check_references f rest = None \<longleftrightarrow>
     (\<forall>(n, node) \<in> set rest. \<forall>d. gn_DependsOn node = Some d \<longrightarrow>
        d = '''' \<or> d \<in> fst ` set f \<and> d \<noteq> n)"
  by (induction f rest rule: check_references.induct)
    (auto simp: map_of_eq_None_iff split: option.splits)

lemma check_references_ok:
  "check_references (filter_metadata g) (filter_metadata g) = None \<longleftrightarrow> references_ok g"
  unfolding check_references_None fst_filter_metadata references_ok_def depends_rel_filtered
  by blast

lemma parents_of_filtered:
  assumes "gomap_wf g"
  shows "map (\<lambda>(n, node). (n, ks_Parent node)) (ToKrknctlScenarioSet (filter_metadata g)) =
    map (\<lambda>(n, node). (n, gn_DependsOn node)) (filter_metadata g)"
  using assms
  by (simp add: ToKrknctl_map filter_metadata_def gomap_wf_filter case_prod_beta comp_def
      to_krknctl_node_def)

lemma parent_rel_filtered:
  "parent_rel (map (\<lambda>(n, node). (n, gn_DependsOn node)) (filter_metadata g)) = depends_rel g"
  by (force simp: parent_rel_def depends_rel_filtered)

lemma parent_rel_empty: "parent_rel ps = {} \<longleftrightarrow> list_all (\<lambda>(n, p). p = None) ps"
proof (induction ps)
  case (Cons x ps)
  then show ?case by (cases x, cases "snd x") auto
qed simp

lemma all_roots_iff:
  assumes "gomap_wf g"
  shows "list_all (\<lambda>(n, node). ks_Parent node = None) (ToKrknctlScenarioSet (filter_metadata g)) \<longleftrightarrow>
    depends_rel g = {}"
proof -
  have "list_all (\<lambda>(n, node). ks_Parent node = None) S \<longleftrightarrow>
      list_all (\<lambda>(n, p). p = None) (map (\<lambda>(n, node). (n, ks_Parent node)) S)" for S :: krknctl_ScenarioSet
    by (induction S) auto
  then show ?thesis
    by (metis parents_of_filtered[OF assms] parent_rel_filtered parent_rel_empty)
qed

text \<open>The shape of a resolution that got past the checks.\<close>

lemma ResolveGraph_cases:
  assumes "gomap_wf g"
  shows "ResolveGraph g =
    (if g = [] then Inl ScenarioGraphEmpty
     else if node_ids g = {} then Inl NoValidNodes
     else case check_references (filter_metadata g) (filter_metadata g) of
         Some e \<Rightarrow> Inl e
       | None \<Rightarrow> if depends_rel g = {} then Inr [map fst (filter_metadata g)]
           else case NewGraphFromNodes (map (\<lambda>(n, node). (n, gn_DependsOn node)) (filter_metadata g)) of
               Inl e \<Rightarrow> Inl (BuildFailed e) | Inr dg \<Rightarrow> Inr (TopoSortedLayers dg))"
  by (simp add: ResolveGraph_def Let_def filter_metadata_Nil all_roots_iff[OF assms]
      parents_of_filtered[OF assms] split: option.split)

lemma ResolveGraph_Inr_iff:
  assumes "gomap_wf g"
  shows "(\<exists>L. ResolveGraph g = Inr L) \<longleftrightarrow>
    node_ids g \<noteq> {} \<and> references_ok g \<and> acyclic (depends_rel g)"
proof -
  let ?ps = "map (\<lambda>(n, node). (n, gn_DependsOn node)) (filter_metadata g)"
  have b: "(\<exists>dg. NewGraphFromNodes ?ps = Inr dg) \<longleftrightarrow> acyclic (depends_rel g)"
    using depgraph.build_iff[of ?ps] by (simp add: parent_rel_filtered)
  have "g = [] \<Longrightarrow> node_ids g = {}" by (simp add: node_ids_def)
  moreover have "depends_rel g = {} \<Longrightarrow> acyclic (depends_rel g)" by (simp add: acyclic_def)
  ultimately show ?thesis
    unfolding ResolveGraph_cases[OF assms] check_references_ok[symmetric]
    using b by (auto split: option.splits sum.splits)
qed

lemma ResolveGraph_layering:
  assumes "gomap_wf g" and "ResolveGraph g = Inr L"
  shows "is_layering (if depends_rel g = {} then node_ids g else Field (depends_rel g)) (depends_rel g) L"
proof (cases "depends_rel g = {}")
  case True
  with assms have "L = [map fst (filter_metadata g)]" "node_ids g \<noteq> {}"
    by (auto simp: ResolveGraph_cases split: option.splits if_splits)
  moreover have "distinct (map fst (filter_metadata g))"
    using assms(1) gomap_wf_filter by (auto simp: gomap_wf_def filter_metadata_def)
  ultimately show ?thesis
    using True fst_filter_metadata[of g] by (auto simp: is_layering_def filter_metadata_Nil)
next
  case False
  let ?ps = "map (\<lambda>(n, node). (n, gn_DependsOn node)) (filter_metadata g)"
  from assms False obtain dg where "NewGraphFromNodes ?ps = Inr dg" "L = TopoSortedLayers dg"
    by (auto simp: ResolveGraph_cases split: option.splits if_splits sum.splits)
  then show ?thesis
    using depgraph.build_layers[of ?ps dg] False by (simp add: parent_rel_filtered)
qed

text \<open>
  C9. The levels that \<open>ResolveGraph\<close> returns are a topological order: no node occurs twice, no level
  is empty, and a node's dependency always lies in a strictly earlier level.
\<close>

theorem ResolveGraph_topological:
  assumes "gomap_wf g" and "ResolveGraph g = Inr L"
  shows "distinct (concat L) \<and> [] \<notin> set L \<and>
    (\<forall>i < length L. \<forall>n \<in> set (L ! i). \<forall>node d.
       (n, node) \<in> set g \<and> \<not> metadata_node n \<and> gn_DependsOn node = Some d \<longrightarrow>
       (\<exists>j < i. d \<in> set (L ! j)))"
  using ResolveGraph_layering[OF assms] unfolding is_layering_def depends_rel_def by blast

theorem ResolveGraph_topological_witness:
  "ResolveGraph chain_graph = Inr [[''Prep''], [''load''], [''check'']] \<and>
   (\<exists>j < 2. ''load'' \<in> set ([[''Prep''], [''load''], [''check'']] ! j))"
proof -
  have w: "gomap_wf chain_graph" by code_simp
  have r: "ResolveGraph chain_graph = Inr [[''Prep''], [''load''], [''check'']]" by code_simp
  have m: "(''check'', sample_node (Some ''load'')) \<in> set chain_graph" "\<not> metadata_node ''check''"
    by (simp_all add: chain_graph_def metadata_node_def has_prefix_def)
  have "gn_DependsOn (sample_node (Some ''load'')) = Some ''load''" by (simp add: sample_node_def)
  with m r show ?thesis
    using conjunct2[OF conjunct2[OF ResolveGraph_topological[OF w r]], rule_format,
      of 2 "''check''" "sample_node (Some ''load'')" "''load''"] by simp
qed

text \<open>
  C10. \<open>ResolveGraph\<close> returns levels exactly when the graph has a node that is not metadata, every
  non-empty dependency names another such node, and the dependencies have no cycle; otherwise it
  reports an error. It never loops.
\<close>

theorem ResolveGraph_succeeds_iff:
  assumes "gomap_wf g"
  shows "(\<exists>L. ResolveGraph g = Inr L) \<longleftrightarrow>
    node_ids g \<noteq> {} \<and> references_ok g \<and> acyclic (depends_rel g)"
  by (rule ResolveGraph_Inr_iff[OF assms])

theorem ResolveGraph_succeeds_iff_witness:
  "gomap_wf chain_graph \<and> acyclic (depends_rel chain_graph)"
proof -
  have w: "gomap_wf chain_graph" by code_simp
  have "ResolveGraph chain_graph = Inr [[''Prep''], [''load''], [''check'']]" by code_simp
  with w show ?thesis using ResolveGraph_succeeds_iff[OF w] by blast
qed

text \<open>
  Which nodes the levels hold: all of them when no node has a dependency, and otherwise only
  those that depend on something or that something depends on. A node on its own beside a
  dependency chain is therefore in no level, although the status lists it.
\<close>

theorem ResolveGraph_coverage:
  assumes "gomap_wf g" and "ResolveGraph g = Inr L" and "n \<in> node_ids g"
  shows "n \<notin> set (concat L) \<longleftrightarrow>
    depends_rel g \<noteq> {} \<and> (\<forall>d. (n, d) \<notin> depends_rel g) \<and> (\<forall>c. (c, n) \<notin> depends_rel g)"
  using ResolveGraph_layering[OF assms(1,2)] assms(3)
  by (auto simp: is_layering_def Field_def split: if_splits)

definition isolated_graph :: scenario_graph where
  "isolated_graph = [(''a'', sample_node None), (''b'', sample_node (Some ''a'')),
     (''lonely'', sample_node None)]"

theorem ResolveGraph_coverage_witness:
  "ResolveGraph isolated_graph = Inr [[''a''], [''b'']] \<and> ''lonely'' \<in> node_ids isolated_graph \<and>
   (\<forall>c. (c, ''lonely'') \<notin> depends_rel isolated_graph)"
proof -
  have w: "gomap_wf isolated_graph" by code_simp
  have r: "ResolveGraph isolated_graph = Inr [[''a''], [''b'']]" by code_simp
  have n: "''lonely'' \<in> node_ids isolated_graph"
    by (simp add: node_ids_def isolated_graph_def metadata_node_def has_prefix_def)
  show ?thesis using r n ResolveGraph_coverage[OF w r n] by simp
qed

text \<open>
  Validation and resolution agree: a graph that \<open>ValidateGraph\<close> accepts is resolved, or refused
  because its dependencies form a cycle; no other error is possible.
\<close>

theorem validated_graph_resolves:
  assumes "gomap_wf (gspec_Graph (gr_Spec r))" and "ValidateGraph r = None"
    and "\<exists>i \<in> fst ` set (gspec_Graph (gr_Spec r)). \<not> metadata_node i"
  shows "(\<exists>L. ResolveGraph (gspec_Graph (gr_Spec r)) = Inr L) \<or>
    ((\<exists>e. ResolveGraph (gspec_Graph (gr_Spec r)) = Inl (BuildFailed e)) \<and>
     \<not> acyclic (depends_rel (gspec_Graph (gr_Spec r))))"
proof -
  let ?g = "gspec_Graph (gr_Spec r)"
  have n: "?g \<noteq> []" "node_ids ?g \<noteq> {}" using assms(3) by (auto simp: node_ids_def)
  from assms(2) have "check_depends_on ?g ?g = None"
    by (auto simp: ValidateGraph_def Let_def split: if_splits sum.splits option.splits)
  then have "references_ok ?g"
    by (force simp: check_depends_on_graph references_ok_def depends_rel_def dependency_ok_def
        node_ids_def)
  then have c: "check_references (filter_metadata ?g) (filter_metadata ?g) = None"
    by (simp add: check_references_ok)
  show ?thesis
    using ResolveGraph_Inr_iff[OF assms(1)] n \<open>references_ok ?g\<close>
    by (cases "ResolveGraph ?g") (auto simp: ResolveGraph_cases[OF assms(1)] c split: if_splits sum.splits)
qed

theorem validated_graph_resolves_witness:
  "ValidateGraph (new_graph_run chain_graph) = None \<and> (\<exists>L. ResolveGraph chain_graph = Inr L)"
proof -
  let ?r = "new_graph_run chain_graph"
  have g: "gspec_Graph (gr_Spec ?r) = chain_graph" by (simp add: new_graph_run_def)
  have w: "gomap_wf (gspec_Graph (gr_Spec ?r))" unfolding g by code_simp
  have v: "ValidateGraph ?r = None" by code_simp
  have i: "\<exists>i \<in> fst ` set (gspec_Graph (gr_Spec ?r)). \<not> metadata_node i"
    unfolding g by (simp add: chain_graph_def metadata_node_def has_prefix_def)
  have "ResolveGraph chain_graph \<noteq> Inl (BuildFailed e)" for e
    by (cases e) code_simp+
  with v validated_graph_resolves[OF w v i] show ?thesis by (simp add: g)
qed

section \<open>From a node to a scenario run\<close>

datatype map_error = ImageRequired | NameRequired | ScenarioNameRequired | TargetRequestRequired
  | TargetClustersRequired

definition zero_scenario_spec :: KrknScenarioRunSpec where
  "zero_scenario_spec = \<lparr>TargetRequestID = '''', OwnerUserID = '''', TargetClusters = [],
     ScenarioName = '''', ScenarioImage = '''', KubeconfigPath = '''', Files = [], Environment = [],
     RegistryURL = '''', ScenarioRepository = '''', Token = '''', Username = '''', Password = '''',
     RegistryName = '''', spec_MaxRetries = 0, RetryBackoff = '''', RetryDelay = ''''\<rparr>"

definition MapScenarioNodeToScenarioRunSpec ::
  "GraphScenarioNode \<Rightarrow> string \<Rightarrow> string \<Rightarrow> target_clusters \<Rightarrow> string \<Rightarrow> map_error + KrknScenarioRunSpec" where
  "MapScenarioNodeToScenarioRunSpec node scenarioName targetRequestID targetClusters ownerUserID =
    (if gn_Image node = '''' then Inl ImageRequired
     else if gn_Name node = '''' then Inl NameRequired
     else if scenarioName = '''' then Inl ScenarioNameRequired
     else if targetRequestID = '''' then Inl TargetRequestRequired
     else if targetClusters = [] then Inl TargetClustersRequired
     else Inr (zero_scenario_spec\<lparr>TargetRequestID := targetRequestID, TargetClusters := targetClusters,
            ScenarioName := scenarioName, ScenarioImage := gn_Image node, OwnerUserID := ownerUserID,
            Environment := AList.update ''RESILIENCY_SCORE'' ''true''
              (fold (\<lambda>(k, v). AList.update k v) (gn_Env node) [])\<rparr>))"

text \<open>
  A node is turned into a spec exactly when image, name, target request and target clusters are
  given; the spec runs the node's image for the given owner and clusters, its environment is the
  node's with \<open>RESILIENCY_SCORE\<close> forced to \<open>true\<close>, and no registry credentials or file mounts appear.
\<close>

theorem MapScenarioNode_spec:
  assumes "gomap_wf (gn_Env node)"
  shows "case MapScenarioNodeToScenarioRunSpec node sname req clusters owner of
      Inl e \<Rightarrow> '''' \<in> {gn_Image node, gn_Name node, sname, req} \<or> clusters = []
    | Inr spec \<Rightarrow> '''' \<notin> {gn_Image node, gn_Name node, sname, req} \<and> clusters \<noteq> [] \<and>
        ScenarioImage spec = gn_Image node \<and> ScenarioName spec = sname \<and>
        TargetRequestID spec = req \<and> TargetClusters spec = clusters \<and> OwnerUserID spec = owner \<and>
        map_of (Environment spec) = (map_of (gn_Env node))(''RESILIENCY_SCORE'' \<mapsto> ''true'') \<and>
        gomap_wf (Environment spec) \<and> Files spec = [] \<and> RegistryURL spec = '''' \<and> Token spec = ''''"
  using assms
  by (auto simp: MapScenarioNodeToScenarioRunSpec_def zero_scenario_spec_def map_loop alist.wf_put
      gomap_wf_def[of "gn_Env node"])

theorem MapScenarioNode_spec_witness:
  "gomap_wf (gn_Env (sample_node None)) \<and>
   (\<exists>spec. MapScenarioNodeToScenarioRunSpec (sample_node None) ''dummy'' ''req'' [(''p'', [''c''])] ''u'' = Inr spec \<and>
      map_of (Environment spec) ''RESILIENCY_SCORE'' = Some ''true'' \<and>
      map_of (Environment spec) ''DURATION'' = Some ''10'')"
proof -
  have w: "gomap_wf (gn_Env (sample_node None))" by code_simp
  show ?thesis
    using w MapScenarioNode_spec[OF w, of "''dummy''" "''req''" "[(''p'', [''c''])]" "''u''"]
    by (cases "MapScenarioNodeToScenarioRunSpec (sample_node None) ''dummy'' ''req'' [(''p'', [''c''])] ''u''")
      (auto simp: sample_node_def)
qed

end
