(* ===== verification/Graph_Run_Controller.thy ===== *)
theory Graph_Run_Controller
  imports Graph_Executor
begin

text \<open>
  \<open>src/internal/controller/krkngraphrun_controller.go\<close>: the reconciler of \<open>KrknGraphRun\<close>. The Kubernetes
  client is a parameter: a record of functions on an abstract world, each returning the answer of the
  API and the world after the call, so that conflicts, failures and concurrent writers are all
  possible. In-memory changes to the graph run are explicit, also on error paths, where the changed
  object is persisted by \<open>updateStatusWithError\<close>. Log output is left out.
\<close>

section \<open>The client and the errors\<close>

record 'w graph_client =
  gc_Get :: "string \<Rightarrow> string \<Rightarrow> 'w \<Rightarrow> (api_error + KrknGraphRun) \<times> 'w"
  gc_Update :: "KrknGraphRun \<Rightarrow> 'w \<Rightarrow> api_error option \<times> 'w"
  gc_StatusUpdate :: "KrknGraphRun \<Rightarrow> 'w \<Rightarrow> api_error option \<times> 'w"
  gc_List :: "string \<Rightarrow> (string \<times> string) list \<Rightarrow> 'w \<Rightarrow> (api_error + KrknScenarioRun list) \<times> 'w"
  gc_Create :: "KrknScenarioRun \<Rightarrow> 'w \<Rightarrow> api_error option \<times> 'w"
  gc_SetControllerReference :: "KrknGraphRun \<Rightarrow> KrknScenarioRun \<Rightarrow> string + KrknScenarioRun"
  gc_Now :: "'w \<Rightarrow> time \<times> 'w"

datatype graph_reconcile_error =
    ApiFailure api_error
  | ConflictUpdatingStatus api_error
  | ResolveFailure resolve_error
  | NodeNotInGraph string
  | MapFailure map_error
  | OwnerReferenceFailure string
  | NodeStatusNotFound string

definition GraphRunLabelKey :: string where
  "GraphRunLabelKey = ''krkn.dev/graph-run''"

definition GraphNodeLabelKey :: string where
  "GraphNodeLabelKey = ''krkn.dev/graph-node''"

definition FinalizerName :: string where
  "FinalizerName = ''krkn.dev/graph-run-finalizer''"

definition has_finalizer :: "KrknGraphRun \<Rightarrow> bool" where
  "has_finalizer gr \<longleftrightarrow> FinalizerName \<in> set (Finalizers (gr_meta gr))"

definition add_finalizer :: "KrknGraphRun \<Rightarrow> KrknGraphRun" where
  "add_finalizer gr = gr\<lparr>gr_meta := (gr_meta gr)\<lparr>Finalizers := Finalizers (gr_meta gr) @ [FinalizerName]\<rparr>\<rparr>"

definition remove_finalizer :: "KrknGraphRun \<Rightarrow> KrknGraphRun" where
  "remove_finalizer gr =
     gr\<lparr>gr_meta := (gr_meta gr)\<lparr>Finalizers := removeAll FinalizerName (Finalizers (gr_meta gr))\<rparr>\<rparr>"

abbreviation gr_Name :: "KrknGraphRun \<Rightarrow> string" where
  "gr_Name gr \<equiv> Name (gr_meta gr)"

abbreviation node_statuses :: "KrknGraphRun \<Rightarrow> NodeStatus list" where
  "node_statuses gr \<equiv> gst_NodeStatuses (gr_Status gr)"

abbreviation resolved_levels :: "KrknGraphRun \<Rightarrow> string list list" where
  "resolved_levels gr \<equiv> gst_ResolvedLevels (gr_Status gr)"

definition set_statuses :: "NodeStatus list \<Rightarrow> KrknGraphRun \<Rightarrow> KrknGraphRun" where
  "set_statuses ss gr = gr\<lparr>gr_Status := (gr_Status gr)\<lparr>gst_NodeStatuses := ss\<rparr>\<rparr>"

section \<open>Status of single nodes\<close>

definition findNodeStatus :: "KrknGraphRun \<Rightarrow> string \<Rightarrow> NodeStatus option" where
  "findNodeStatus gr nodeID = List.find (\<lambda>s. ns_NodeID s = nodeID) (node_statuses gr)"

text \<open>The body of the loop in \<open>setNodeStatus\<close>: the new entry, and whether anything changed.\<close>

definition apply_node_status ::
  "string \<Rightarrow> string \<Rightarrow> time option \<Rightarrow> time option \<Rightarrow> NodeStatus \<Rightarrow> bool \<times> NodeStatus" where
  "apply_node_status phase ref startTime completionTime s =
    (let newStart = startTime \<noteq> None \<and> ns_StartTime s \<noteq> startTime;
         newCompletion = completionTime \<noteq> None \<and> ns_CompletionTime s \<noteq> completionTime
     in (ns_Phase s \<noteq> phase \<or> ns_ScenarioRunRef s \<noteq> ref \<or> newStart \<or> newCompletion,
         s\<lparr>ns_Phase := phase, ns_ScenarioRunRef := ref,
           ns_StartTime := (if newStart then startTime else ns_StartTime s),
           ns_CompletionTime := (if newCompletion then completionTime else ns_CompletionTime s)\<rparr>))"

fun update_first :: "string \<Rightarrow> (NodeStatus \<Rightarrow> bool \<times> NodeStatus) \<Rightarrow> NodeStatus list \<Rightarrow>
    (bool \<times> NodeStatus list) option" where
  "update_first nodeID f [] = None"
| "update_first nodeID f (s # ss) =
     (if ns_NodeID s = nodeID then (case f s of (m, s') \<Rightarrow> Some (m, s' # ss))
      else map_option (\<lambda>(m, ss'). (m, s # ss')) (update_first nodeID f ss))"

definition setNodeStatus ::
  "KrknGraphRun \<Rightarrow> string \<Rightarrow> string \<Rightarrow> string \<Rightarrow> time option \<Rightarrow> time option \<Rightarrow>
     (graph_reconcile_error + bool) \<times> KrknGraphRun" where
  "setNodeStatus gr nodeID phase ref startTime completionTime =
    (case update_first nodeID (apply_node_status phase ref startTime completionTime) (node_statuses gr) of
       Some (modified, ss) \<Rightarrow> (Inr modified, set_statuses ss gr)
     | None \<Rightarrow> (Inl (NodeStatusNotFound nodeID), gr))"

definition phase_of_run :: "KrknScenarioRun \<Rightarrow> string" where
  "phase_of_run run =
    (let p = sr_Phase (sr_Status run)
     in if p = ''Succeeded'' then ''Completed''
        else if p = ''Failed'' \<or> p = ''PartiallyFailed'' then ''Failed''
        else if p = ''Running'' then ''Running''
        else if p = ''Pending'' then ''Pending''
        else ''Running'')"

definition updateNodeStatusFromRun ::
  "KrknGraphRun \<Rightarrow> string \<Rightarrow> KrknScenarioRun \<Rightarrow> (graph_reconcile_error + bool) \<times> KrknGraphRun" where
  "updateNodeStatusFromRun gr nodeID run =
    (let (startTime, completionTime) =
       (case ClusterJobs (sr_Status run) of
          [] \<Rightarrow> (None, None)
        | firstJob # _ \<Rightarrow> (StartTime firstJob, CompletionTime firstJob))
     in setNodeStatus gr nodeID (phase_of_run run) (Name (sr_meta run)) startTime completionTime)"

section \<open>Creating the scenario run of a node\<close>

definition zero_scenario_status :: KrknScenarioRunStatus where
  "zero_scenario_status = \<lparr>sr_Phase = '''', TotalTargets = 0, SuccessfulJobs = 0, FailedJobs = 0,
     RunningJobs = 0, ClusterJobs = [], Conditions = None\<rparr>"

definition scenario_run_for :: "KrknGraphRun \<Rightarrow> string \<Rightarrow> KrknScenarioRunSpec \<Rightarrow> KrknScenarioRun" where
  "scenario_run_for gr nodeID spec =
    (let sanitizedNodeID = sanitizeNodeID nodeID
     in \<lparr>sr_meta = meta_of (gr_Name gr @ ''-'' @ sanitizedNodeID) (Namespace (gr_meta gr))
           [(GraphRunLabelKey, gr_Name gr), (GraphNodeLabelKey, sanitizedNodeID)],
         sr_Spec = spec, sr_Status = zero_scenario_status\<rparr>)"

definition createScenarioRun ::
  "'w graph_client \<Rightarrow> KrknGraphRun \<Rightarrow> string \<Rightarrow> 'w \<Rightarrow>
     (graph_reconcile_error + bool) \<times> KrknGraphRun \<times> 'w" where
  "createScenarioRun C gr nodeID w =
    (case map_of (gspec_Graph (gr_Spec gr)) nodeID of
       None \<Rightarrow> (Inl (NodeNotInGraph nodeID), gr, w)
     | Some node \<Rightarrow>
       (case MapScenarioNodeToScenarioRunSpec node (gn_Name node)
               (gspec_TargetRequestID (gr_Spec gr)) (gspec_TargetClusters (gr_Spec gr))
               (gspec_OwnerUserID (gr_Spec gr)) of
          Inl e \<Rightarrow> (Inl (MapFailure e), gr, w)
        | Inr spec \<Rightarrow>
          (case gc_SetControllerReference C gr (scenario_run_for gr nodeID spec) of
             Inl e \<Rightarrow> (Inl (OwnerReferenceFailure e), gr, w)
           | Inr run \<Rightarrow>
             (case gc_Create C run w of
                (Some e, w') \<Rightarrow> (Inl (ApiFailure e), gr, w')
              | (None, w') \<Rightarrow>
                  (case setNodeStatus gr nodeID ''Running'' (Name (sr_meta run)) None None of
                     (r, gr') \<Rightarrow> (r, gr', w'))))))"

definition processNode ::
  "'w graph_client \<Rightarrow> (string, KrknScenarioRun) gomap \<Rightarrow> KrknGraphRun \<Rightarrow> string \<Rightarrow> 'w \<Rightarrow>
     (graph_reconcile_error + bool) \<times> KrknGraphRun \<times> 'w" where
  "processNode C existingRuns gr nodeID w =
    (case map_of existingRuns (sanitizeNodeID nodeID) of
       None \<Rightarrow> createScenarioRun C gr nodeID w
     | Some scenarioRun \<Rightarrow>
         (case updateNodeStatusFromRun gr nodeID scenarioRun of (r, gr') \<Rightarrow> (r, gr', w)))"

section \<open>Global status\<close>

definition count_phase :: "string list \<Rightarrow> NodeStatus list \<Rightarrow> int" where
  "count_phase phases ss = int (length (filter (\<lambda>s. ns_Phase s \<in> set phases) ss))"

definition global_phase :: "int \<Rightarrow> int \<Rightarrow> int \<Rightarrow> int \<Rightarrow> string" where
  "global_phase totalNodes completedNodes runningNodes failedNodes =
    (if failedNodes > 0 then (if completedNodes > 0 then ''PartiallyFailed'' else ''Failed'')
     else if completedNodes = totalNodes then ''Completed''
     else if runningNodes > 0 \<or> completedNodes > 0 then ''Running''
     else ''Pending'')"

definition calculateGlobalStatus ::
  "'w graph_client \<Rightarrow> KrknGraphRun \<Rightarrow> 'w \<Rightarrow> KrknGraphRun \<times> 'w" where
  "calculateGlobalStatus C gr w =
    (let ss = node_statuses gr;
         totalNodes = int (length ss);
         completedNodes = count_phase [''Completed''] ss;
         runningNodes = count_phase [''Running''] ss;
         failedNodes = count_phase [''Failed''] ss;
         pendingNodes = count_phase [''Pending'', ''Blocked''] ss;
         phase = global_phase totalNodes completedNodes runningNodes failedNodes;
         (completion, w') =
           (if phase = ''Completed'' \<and> gst_CompletionTime (gr_Status gr) = None
            then (case gc_Now C w of (t, w') \<Rightarrow> (Some t, w'))
            else (gst_CompletionTime (gr_Status gr), w))
     in (gr\<lparr>gr_Status := (gr_Status gr)\<lparr>gst_Phase := phase, gst_CompletionTime := completion,
            gst_Summary := \<lparr>TotalNodes = totalNodes, CompletedNodes = completedNodes,
              RunningNodes = runningNodes, FailedNodes = failedNodes, PendingNodes = pendingNodes\<rparr>\<rparr>\<rparr>, w'))"

section \<open>Processing the levels\<close>

definition checkPreviousLevel :: "KrknGraphRun \<Rightarrow> nat \<Rightarrow> bool \<times> bool" where
  "checkPreviousLevel gr levelIdx =
    (if length (resolved_levels gr) \<le> levelIdx then (True, False)
     else let phases = map (\<lambda>n. map_option ns_Phase (findNodeStatus gr n)) (resolved_levels gr ! levelIdx)
       in (list_all (\<lambda>p. p = Some ''Completed'' \<or> p = Some ''Failed'') phases,
           list_ex (\<lambda>p. p = Some ''Failed'') phases))"

text \<open>Errors of \<open>setNodeStatus\<close> are logged and skipped while blocking.\<close>

fun block_nodes :: "string list \<Rightarrow> KrknGraphRun \<Rightarrow> KrknGraphRun" where
  "block_nodes [] gr = gr"
| "block_nodes (n # ns) gr = block_nodes ns (snd (setNodeStatus gr n ''Blocked'' '''' None None))"

type_synonym 'w levels_outcome =
  "(ctrl_result \<times> bool \<times> graph_reconcile_error option) \<times> KrknGraphRun \<times> 'w"

definition handleFailFast :: "'w graph_client \<Rightarrow> KrknGraphRun \<Rightarrow> nat \<Rightarrow> 'w \<Rightarrow> 'w levels_outcome" where
  "handleFailFast C gr fromLevel w =
    (case calculateGlobalStatus C (block_nodes (concat (drop fromLevel (resolved_levels gr))) gr) w of
       (gr', w1) \<Rightarrow>
         (case gc_StatusUpdate C gr' w1 of
            (None, w2) \<Rightarrow> ((no_requeue, True, None), gr', w2)
          | (Some Conflict, w2) \<Rightarrow> ((requeue_now, True, None), gr', w2)
          | (Some e, w2) \<Rightarrow> ((no_requeue, True, Some (ApiFailure e)), gr', w2)))"

fun process_nodes ::
  "'w graph_client \<Rightarrow> (string, KrknScenarioRun) gomap \<Rightarrow> string list \<Rightarrow> KrknGraphRun \<Rightarrow> 'w \<Rightarrow>
     graph_reconcile_error option \<times> KrknGraphRun \<times> 'w" where
  "process_nodes C existingRuns [] gr w = (None, gr, w)"
| "process_nodes C existingRuns (nodeID # ns) gr w =
     (case processNode C existingRuns gr nodeID w of
        (Inl e, gr', w') \<Rightarrow> (Some e, gr', w')
      | (Inr modified, gr', w') \<Rightarrow> process_nodes C existingRuns ns gr' w')"

fun process_from ::
  "'w graph_client \<Rightarrow> (string, KrknScenarioRun) gomap \<Rightarrow> nat \<Rightarrow> string list list \<Rightarrow> KrknGraphRun \<Rightarrow> 'w \<Rightarrow>
     'w levels_outcome" where
  "process_from C existingRuns levelIdx [] gr w =
     ((requeue_after (30 * second), False, None), gr, w)"
| "process_from C existingRuns levelIdx (level # levels) gr w =
     (let (prevLevelComplete, hasFailures) =
        (if levelIdx > 0 then checkPreviousLevel gr (levelIdx - 1) else (True, False))
      in if hasFailures then handleFailFast C gr levelIdx w
         else if \<not> prevLevelComplete then ((requeue_after (10 * second), False, None), gr, w)
         else case process_nodes C existingRuns level gr w of
             (Some e, gr', w') \<Rightarrow> ((no_requeue, False, Some e), gr', w')
           | (None, gr', w') \<Rightarrow> process_from C existingRuns (Suc levelIdx) levels gr' w')"

definition processLevels ::
  "'w graph_client \<Rightarrow> (string, KrknScenarioRun) gomap \<Rightarrow> KrknGraphRun \<Rightarrow> 'w \<Rightarrow> 'w levels_outcome" where
  "processLevels C existingRuns gr w = process_from C existingRuns 0 (resolved_levels gr) gr w"

section \<open>Initialization, resolution and listing\<close>

definition initializeStatus ::
  "'w graph_client \<Rightarrow> KrknGraphRun \<Rightarrow> 'w \<Rightarrow> graph_reconcile_error option \<times> KrknGraphRun \<times> 'w" where
  "initializeStatus C gr w =
    (case gc_Now C w of (t, w1) \<Rightarrow>
      (let totalNodes = int (length (filter (\<lambda>(nodeID, node). \<not> metadata_node nodeID)
                               (gspec_Graph (gr_Spec gr))));
           gr' = gr\<lparr>gr_Status := (gr_Status gr)\<lparr>gst_Phase := ''Pending'', gst_StartTime := Some t,
                   gst_NodeStatuses := [],
                   gst_Summary := \<lparr>TotalNodes = totalNodes, CompletedNodes = 0, RunningNodes = 0,
                     FailedNodes = 0, PendingNodes = totalNodes\<rparr>\<rparr>\<rparr>
       in case gc_StatusUpdate C gr' w1 of
            (None, w2) \<Rightarrow> (None, gr', w2)
          | (Some Conflict, w2) \<Rightarrow> (Some (ConflictUpdatingStatus Conflict), gr', w2)
          | (Some e, w2) \<Rightarrow> (Some (ApiFailure e), gr', w2)))"

definition initial_node_status :: "string \<times> GraphScenarioNode \<Rightarrow> NodeStatus" where
  "initial_node_status = (\<lambda>(nodeID, node).
     \<lparr>ns_NodeID = nodeID, ns_NodeName = gn_Name node, ns_Phase = ''Pending'', ns_ScenarioRunRef = '''',
      ns_StartTime = None, ns_CompletionTime = None,
      ns_DependsOn = (case gn_DependsOn node of None \<Rightarrow> [] | Some d \<Rightarrow> [d]), ns_Message = ''''\<rparr>)"

definition resolveGraph ::
  "'w graph_client \<Rightarrow> KrknGraphRun \<Rightarrow> 'w \<Rightarrow> graph_reconcile_error option \<times> KrknGraphRun \<times> 'w" where
  "resolveGraph C gr w =
    (case ResolveGraph (gspec_Graph (gr_Spec gr)) of
       Inl e \<Rightarrow> (Some (ResolveFailure e), gr, w)
     | Inr levels \<Rightarrow>
       (let nodeStatuses = map initial_node_status
              (filter (\<lambda>(nodeID, node). \<not> metadata_node nodeID) (gspec_Graph (gr_Spec gr)));
            gr' = gr\<lparr>gr_Status := (gr_Status gr)\<lparr>gst_ResolvedLevels := levels,
                    gst_NodeStatuses := nodeStatuses\<rparr>\<rparr>
        in case gc_StatusUpdate C gr' w of
             (None, w1) \<Rightarrow> (None, gr', w1)
           | (Some Conflict, w1) \<Rightarrow> (Some (ConflictUpdatingStatus Conflict), gr', w1)
           | (Some e, w1) \<Rightarrow> (Some (ApiFailure e), gr', w1)))"

definition node_label :: "KrknScenarioRun \<Rightarrow> string" where
  "node_label run = (case map_of (Labels (sr_meta run)) GraphNodeLabelKey of None \<Rightarrow> '''' | Some l \<Rightarrow> l)"

definition index_runs :: "KrknScenarioRun list \<Rightarrow> (string, KrknScenarioRun) gomap" where
  "index_runs items =
     fold (\<lambda>run runs. if node_label run \<noteq> '''' then AList.update (node_label run) run runs else runs)
       items []"

definition getExistingScenarioRuns ::
  "'w graph_client \<Rightarrow> KrknGraphRun \<Rightarrow> 'w \<Rightarrow> (api_error + (string, KrknScenarioRun) gomap) \<times> 'w" where
  "getExistingScenarioRuns C gr w =
    (case gc_List C (Namespace (gr_meta gr)) [(GraphRunLabelKey, gr_Name gr)] w of
       (Inl e, w') \<Rightarrow> (Inl e, w')
     | (Inr items, w') \<Rightarrow> (Inr (index_runs items), w'))"

section \<open>Reconcile\<close>

definition isTerminalPhase :: "string \<Rightarrow> bool" where
  "isTerminalPhase phase \<longleftrightarrow> phase = ''Completed'' \<or> phase = ''Failed'' \<or> phase = ''PartiallyFailed''"

type_synonym 'w graph_outcome = "(ctrl_result \<times> graph_reconcile_error option) \<times> 'w"

definition updateStatusWithError ::
  "'w graph_client \<Rightarrow> KrknGraphRun \<Rightarrow> graph_reconcile_error \<Rightarrow> 'w \<Rightarrow> 'w graph_outcome" where
  "updateStatusWithError C gr e w =
    (case gc_StatusUpdate C (gr\<lparr>gr_Status := (gr_Status gr)\<lparr>gst_Phase := ''Failed''\<rparr>\<rparr>) w of
       (_, w') \<Rightarrow> ((no_requeue, Some e), w'))"

text \<open>Steps 6 to 8 of the reconcile loop, after the existing runs are known.\<close>

definition reconcile_levels ::
  "'w graph_client \<Rightarrow> KrknGraphRun \<Rightarrow> (string, KrknScenarioRun) gomap \<Rightarrow> 'w \<Rightarrow> 'w graph_outcome" where
  "reconcile_levels C gr existingRuns w =
    (case processLevels C existingRuns gr w of
       ((result, updated, Some e), gr', w1) \<Rightarrow> updateStatusWithError C gr' e w1
     | ((result, True, None), gr', w1) \<Rightarrow> ((result, None), w1)
     | ((result, False, None), gr', w1) \<Rightarrow>
         (case calculateGlobalStatus C gr' w1 of (gr'', w2) \<Rightarrow>
           (case gc_StatusUpdate C gr'' w2 of
              (None, w3) \<Rightarrow> ((result, None), w3)
            | (Some Conflict, w3) \<Rightarrow> ((requeue_now, None), w3)
            | (Some e, w3) \<Rightarrow> ((no_requeue, Some (ApiFailure e)), w3))))"

definition Reconcile :: "'w graph_client \<Rightarrow> string \<Rightarrow> string \<Rightarrow> 'w \<Rightarrow> 'w graph_outcome" where
  "Reconcile C ns name w =
    (case gc_Get C ns name w of
       (Inl NotFound, w1) \<Rightarrow> ((no_requeue, None), w1)
     | (Inl e, w1) \<Rightarrow> ((no_requeue, Some (ApiFailure e)), w1)
     | (Inr gr, w1) \<Rightarrow>
        if DeletionTimestamp (gr_meta gr) \<noteq> None then
          (if has_finalizer gr then
             (case gc_Update C (remove_finalizer gr) w1 of
                (Some e, w2) \<Rightarrow> ((no_requeue, Some (ApiFailure e)), w2)
              | (None, w2) \<Rightarrow> ((no_requeue, None), w2))
           else ((no_requeue, None), w1))
        else if \<not> has_finalizer gr then
          (case gc_Update C (add_finalizer gr) w1 of
             (Some e, w2) \<Rightarrow> ((no_requeue, Some (ApiFailure e)), w2)
           | (None, w2) \<Rightarrow> ((requeue_now, None), w2))
        else if gst_Phase (gr_Status gr) = '''' then
          (case initializeStatus C gr w1 of
             (Some e, gr', w2) \<Rightarrow> ((no_requeue, Some e), w2)
           | (None, gr', w2) \<Rightarrow> ((requeue_now, None), w2))
        else if isTerminalPhase (gst_Phase (gr_Status gr)) then ((no_requeue, None), w1)
        else if resolved_levels gr = [] then
          (case resolveGraph C gr w1 of
             (Some e, gr', w2) \<Rightarrow> updateStatusWithError C gr' e w2
           | (None, gr', w2) \<Rightarrow> ((requeue_now, None), w2))
        else
          (case getExistingScenarioRuns C gr w1 of
             (Inl e, w2) \<Rightarrow> ((no_requeue, Some (ApiFailure e)), w2)
           | (Inr existingRuns, w2) \<Rightarrow> reconcile_levels C gr existingRuns w2))"

section \<open>Frame of the in-memory changes\<close>

text \<open>Node processing changes node statuses only, and keeps their identifiers and order.\<close>

definition statuses_only :: "KrknGraphRun \<Rightarrow> KrknGraphRun \<Rightarrow> bool" where
  "statuses_only gr gr' \<longleftrightarrow> gr' = set_statuses (node_statuses gr') gr \<and>
     map ns_NodeID (node_statuses gr') = map ns_NodeID (node_statuses gr)"

lemma node_statuses_set [simp]: "node_statuses (set_statuses ss gr) = ss"
  by (simp add: set_statuses_def)

lemma set_statuses_frame [simp]:
  "gr_meta (set_statuses ss gr) = gr_meta gr" "gr_Spec (set_statuses ss gr) = gr_Spec gr"
  "resolved_levels (set_statuses ss gr) = resolved_levels gr"
  "set_statuses ss (set_statuses ss' gr) = set_statuses ss gr"
  "set_statuses (node_statuses gr) gr = gr"
  by (simp_all add: set_statuses_def)

lemma statuses_only_refl [simp]: "statuses_only gr gr"
  by (simp add: statuses_only_def)

lemma statuses_only_trans [trans]:
  "statuses_only a b \<Longrightarrow> statuses_only b c \<Longrightarrow> statuses_only a c"
  unfolding statuses_only_def by (metis set_statuses_frame(4))

lemma statuses_only_frame:
  assumes "statuses_only gr gr'"
  shows "gr_meta gr' = gr_meta gr" "gr_Spec gr' = gr_Spec gr" "resolved_levels gr' = resolved_levels gr"
  using assms unfolding statuses_only_def by (metis set_statuses_frame)+

lemma update_first_spec:
  assumes "\<And>s. ns_NodeID (snd (f s)) = ns_NodeID s" and "update_first n f ss = Some (m, ss')"
  shows "map ns_NodeID ss' = map ns_NodeID ss \<and>
    List.find (\<lambda>s. ns_NodeID s = x) ss' =
      (if x = n then map_option (snd \<circ> f) (List.find (\<lambda>s. ns_NodeID s = n) ss)
       else List.find (\<lambda>s. ns_NodeID s = x) ss)"
  using assms(2)
proof (induction ss arbitrary: m ss')
  case (Cons s ss)
  show ?case
  proof (cases "ns_NodeID s = n")
    case True
    with Cons.prems assms(1)[of s] show ?thesis by (auto split: prod.splits)
  next
    case False
    with Cons.prems obtain rest where "update_first n f ss = Some (m, rest)" "ss' = s # rest"
      by auto
    with Cons.IH[of m rest] False show ?thesis by auto
  qed
qed simp

lemma update_first_None: "update_first n f ss = None \<longleftrightarrow> List.find (\<lambda>s. ns_NodeID s = n) ss = None"
  by (induction ss) (auto split: prod.splits)

lemma apply_node_status_id [simp]: "ns_NodeID (snd (apply_node_status ph ref st ct s)) = ns_NodeID s"
  "ns_Phase (snd (apply_node_status ph ref st ct s)) = ph"
  by (simp_all add: apply_node_status_def Let_def)

lemma setNodeStatus_spec:
  assumes "setNodeStatus gr n ph ref st ct = (r, gr')"
  shows "statuses_only gr gr'"
    and "findNodeStatus gr' x = (if x = n then map_option (snd \<circ> apply_node_status ph ref st ct) (findNodeStatus gr n)
       else findNodeStatus gr x)"
    and "(\<exists>m. r = Inr m) \<longleftrightarrow> findNodeStatus gr n \<noteq> None"
proof -
  let ?f = "apply_node_status ph ref st ct"
  have "statuses_only gr gr' \<and>
    findNodeStatus gr' x = (if x = n then map_option (snd \<circ> ?f) (findNodeStatus gr n)
       else findNodeStatus gr x) \<and> ((\<exists>m. r = Inr m) \<longleftrightarrow> findNodeStatus gr n \<noteq> None)"
  proof (cases "update_first n ?f (node_statuses gr)")
    case None
    with assms show ?thesis
      by (auto simp: setNodeStatus_def update_first_None findNodeStatus_def)
  next
    case (Some p)
    then obtain m ss where p: "update_first n ?f (node_statuses gr) = Some (m, ss)" by (cases p) auto
    with assms have gr': "gr' = set_statuses ss gr" "r = Inr m" by (auto simp: setNodeStatus_def)
    have "findNodeStatus gr n \<noteq> None"
      using p update_first_None[of n ?f "node_statuses gr"] by (simp add: findNodeStatus_def)
    with gr' update_first_spec[OF _ p, of x] show ?thesis
      by (auto simp: statuses_only_def findNodeStatus_def)
  qed
  then show "statuses_only gr gr'"
    and "findNodeStatus gr' x = (if x = n then map_option (snd \<circ> ?f) (findNodeStatus gr n)
       else findNodeStatus gr x)"
    and "(\<exists>m. r = Inr m) \<longleftrightarrow> findNodeStatus gr n \<noteq> None"
    by blast+
qed

lemma setNodeStatus_phase:
  assumes "setNodeStatus gr n ph ref st ct = (Inr m, gr')"
  shows "map_option ns_Phase (findNodeStatus gr' n) = Some ph"
  using setNodeStatus_spec(2,3)[OF assms] by auto

lemma setNodeStatus_other:
  assumes "setNodeStatus gr n ph ref st ct = (r, gr')" and "x \<noteq> n"
  shows "findNodeStatus gr' x = findNodeStatus gr x"
  using setNodeStatus_spec(2)[OF assms(1)] assms(2) by simp

text \<open>The phase that processing gives a node: \<open>Running\<close> when its run has just been created.\<close>

definition node_phase :: "(string, KrknScenarioRun) gomap \<Rightarrow> string \<Rightarrow> string" where
  "node_phase existingRuns n =
     (case map_of existingRuns (sanitizeNodeID n) of None \<Rightarrow> ''Running'' | Some run \<Rightarrow> phase_of_run run)"

lemma createScenarioRun_status:
  assumes "createScenarioRun C gr n w = (r, gr', w')"
  shows "statuses_only gr gr'" and "x \<noteq> n \<Longrightarrow> findNodeStatus gr' x = findNodeStatus gr x"
    and "r = Inr m \<Longrightarrow> map_option ns_Phase (findNodeStatus gr' n) = Some ''Running''"
  using assms
  by (auto simp: createScenarioRun_def split: option.splits sum.splits prod.splits
      dest: setNodeStatus_spec(1) setNodeStatus_other setNodeStatus_phase)

lemma processNode_status:
  assumes "processNode C ex gr n w = (r, gr', w')"
  shows "statuses_only gr gr'" and "x \<noteq> n \<Longrightarrow> findNodeStatus gr' x = findNodeStatus gr x"
    and "r = Inr m \<Longrightarrow> map_option ns_Phase (findNodeStatus gr' n) = Some (node_phase ex n)"
proof -
  have u: "statuses_only gr gr' \<and> (x \<noteq> n \<longrightarrow> findNodeStatus gr' x = findNodeStatus gr x) \<and>
      (r = Inr m \<longrightarrow> map_option ns_Phase (findNodeStatus gr' n) = Some (phase_of_run run))"
    if "updateNodeStatusFromRun gr n run = (r, gr')" for run
    using that unfolding updateNodeStatusFromRun_def Let_def
    by (auto split: prod.splits dest: setNodeStatus_spec(1) setNodeStatus_other setNodeStatus_phase)
  show "statuses_only gr gr'" and "x \<noteq> n \<Longrightarrow> findNodeStatus gr' x = findNodeStatus gr x"
    and "r = Inr m \<Longrightarrow> map_option ns_Phase (findNodeStatus gr' n) = Some (node_phase ex n)"
    using assms u createScenarioRun_status[of C gr n w r gr' w']
    by (auto simp: processNode_def node_phase_def split: option.splits prod.splits)
qed

section \<open>Processing levels: what is created when\<close>

text \<open>
  The writes a reconciler issues, recorded by a client that keeps a log beside the world of any
  other client.
\<close>

datatype graph_event = CreateRun KrknScenarioRun | UpdateGraphRun KrknGraphRun | UpdateGraphStatus KrknGraphRun

definition log_call :: "('w \<Rightarrow> 'a \<times> 'w) \<Rightarrow> 'e list \<Rightarrow> 'w \<times> 'e list \<Rightarrow> 'a \<times> 'w \<times> 'e list" where
  "log_call f es wl = (case f (fst wl) of (r, w') \<Rightarrow> (r, w', snd wl @ es))"

definition logged :: "'w graph_client \<Rightarrow> ('w \<times> graph_event list) graph_client" where
  "logged C = \<lparr>gc_Get = (\<lambda>ns n. log_call (gc_Get C ns n) []),
     gc_Update = (\<lambda>gr. log_call (gc_Update C gr) [UpdateGraphRun gr]),
     gc_StatusUpdate = (\<lambda>gr. log_call (gc_StatusUpdate C gr) [UpdateGraphStatus gr]),
     gc_List = (\<lambda>ns ls. log_call (gc_List C ns ls) []),
     gc_Create = (\<lambda>run. log_call (gc_Create C run) [CreateRun run]),
     gc_SetControllerReference = gc_SetControllerReference C,
     gc_Now = log_call (gc_Now C) []\<rparr>"

lemma logged_simps [simp]:
  "gc_Get (logged C) ns n = log_call (gc_Get C ns n) []"
  "gc_Update (logged C) gr = log_call (gc_Update C gr) [UpdateGraphRun gr]"
  "gc_StatusUpdate (logged C) gr = log_call (gc_StatusUpdate C gr) [UpdateGraphStatus gr]"
  "gc_List (logged C) ns ls = log_call (gc_List C ns ls) []"
  "gc_Create (logged C) run = log_call (gc_Create C run) [CreateRun run]"
  "gc_SetControllerReference (logged C) = gc_SetControllerReference C"
  "gc_Now (logged C) = log_call (gc_Now C) []"
  by (simp_all add: logged_def)

lemma log_call_eq: "log_call f es wl = (r, wl') \<Longrightarrow> snd wl' = snd wl @ es"
  by (auto simp: log_call_def split: prod.splits)

definition creates :: "graph_event list \<Rightarrow> KrknScenarioRun list" where
  "creates log = concat (map (\<lambda>e. case e of CreateRun run \<Rightarrow> [run] | _ \<Rightarrow> []) log)"

lemma creates_simps [simp]:
  "creates [] = []" "creates (xs @ ys) = creates xs @ creates ys"
  "creates (CreateRun run # es) = run # creates es" "creates (UpdateGraphRun gr # es) = creates es"
  "creates (UpdateGraphStatus gr # es) = creates es"
  by (simp_all add: creates_def)

lemma creates_mem: "run \<in> set (creates log) \<longleftrightarrow> CreateRun run \<in> set log"
  by (induction log) (auto simp: creates_def split: graph_event.split)

text \<open>Creation for a node of the graph run: the call carries the run built from the node's spec.\<close>

definition creation_for :: "'w graph_client \<Rightarrow> KrknGraphRun \<Rightarrow> string \<Rightarrow> KrknScenarioRun \<Rightarrow> bool" where
  "creation_for C gr n run \<longleftrightarrow> (\<exists>node spec.
     map_of (gspec_Graph (gr_Spec gr)) n = Some node \<and>
     MapScenarioNodeToScenarioRunSpec node (gn_Name node) (gspec_TargetRequestID (gr_Spec gr))
       (gspec_TargetClusters (gr_Spec gr)) (gspec_OwnerUserID (gr_Spec gr)) = Inr spec \<and>
     (\<exists>gr'. statuses_only gr gr' \<and>
        gc_SetControllerReference C gr' (scenario_run_for gr n spec) = Inr run))"

lemma scenario_run_for_frame:
  "statuses_only gr gr' \<Longrightarrow> scenario_run_for gr' n spec = scenario_run_for gr n spec"
  by (simp add: scenario_run_for_def statuses_only_frame)

lemma creation_for_frame:
  assumes "statuses_only gr gr'" and "creation_for C gr' n run"
  shows "creation_for C gr n run"
proof -
  have t: "statuses_only gr' h \<Longrightarrow> statuses_only gr h" for h
    using assms(1) by (rule statuses_only_trans)
  show ?thesis
    using assms(2)
    unfolding creation_for_def scenario_run_for_frame[OF assms(1)] statuses_only_frame(2)[OF assms(1)]
    by (blast intro: t)
qed

lemma createScenarioRun_log:
  assumes "createScenarioRun (logged C) gr n wl = (r, gr', wl')"
  shows "\<exists>rs. creates (snd wl') = creates (snd wl) @ rs \<and> length rs \<le> 1 \<and> (\<forall>run \<in> set rs. creation_for C gr n run)"
proof -
  show ?thesis
  proof (cases "map_of (gspec_Graph (gr_Spec gr)) n")
    case None
    with assms show ?thesis by (simp add: createScenarioRun_def)
  next
    case (Some node)
    let ?m = "MapScenarioNodeToScenarioRunSpec node (gn_Name node) (gspec_TargetRequestID (gr_Spec gr))
       (gspec_TargetClusters (gr_Spec gr)) (gspec_OwnerUserID (gr_Spec gr))"
    show ?thesis
    proof (cases "\<exists>spec run. ?m = Inr spec \<and>
        gc_SetControllerReference C gr (scenario_run_for gr n spec) = Inr run")
      case False
      with assms Some have "wl' = wl"
        by (simp add: createScenarioRun_def split: sum.splits)
      then show ?thesis by simp
    next
      case True
      then obtain spec run where sr: "?m = Inr spec"
        "gc_SetControllerReference C gr (scenario_run_for gr n spec) = Inr run" by blast
      obtain e wl1 where l: "log_call (gc_Create C run) [CreateRun run] wl = (e, wl1)" by (meson surj_pair)
      with assms Some sr have "wl' = wl1"
        by (simp add: createScenarioRun_def split: option.splits prod.splits)
      with log_call_eq[OF l] have "creates (snd wl') = creates (snd wl) @ [run]" by simp
      moreover have "creation_for C gr n run"
        unfolding creation_for_def using Some sr statuses_only_refl by blast
      ultimately show ?thesis by (intro exI[of _ "[run]"]) simp
    qed
  qed
qed

lemma processNode_log:
  assumes "processNode (logged C) ex gr n wl = (r, gr', wl')"
  shows "\<exists>rs. creates (snd wl') = creates (snd wl) @ rs \<and> length rs \<le> 1 \<and>
    (\<forall>run \<in> set rs. creation_for C gr n run \<and> map_of ex (sanitizeNodeID n) = None)"
proof (cases "map_of ex (sanitizeNodeID n)")
  case None
  with assms createScenarioRun_log[of C gr n wl r gr' wl'] show ?thesis
    by (simp add: processNode_def)
next
  case (Some run)
  with assms have "wl' = wl" by (auto simp: processNode_def split: prod.splits)
  then show ?thesis by simp
qed

text \<open>One level: statuses follow the existing runs, and creations belong to nodes without a run.\<close>

lemma process_nodes_log:
  assumes "process_nodes (logged C) ex ns gr wl = (err, gr', wl')"
  shows "statuses_only gr gr' \<and> (\<forall>x. x \<notin> set ns \<longrightarrow> findNodeStatus gr' x = findNodeStatus gr x) \<and>
    (err = None \<longrightarrow> (\<forall>x \<in> set ns. map_option ns_Phase (findNodeStatus gr' x) = Some (node_phase ex x))) \<and>
    (\<exists>rs. creates (snd wl') = creates (snd wl) @ rs \<and> length rs \<le> length ns \<and>
       (\<forall>run \<in> set rs. \<exists>n \<in> set ns. creation_for C gr n run \<and> map_of ex (sanitizeNodeID n) = None))"
  using assms
proof (induction "logged C" ex ns gr wl arbitrary: err gr' wl' rule: process_nodes.induct)
  case (2 ex n ns gr wl)
  obtain r gr1 wl1 where p: "processNode (logged C) ex gr n wl = (r, gr1, wl1)" by (cases "processNode (logged C) ex gr n wl") auto
  note st = processNode_status[OF p] and lg = processNode_log[OF p]
  show ?case
  proof (cases r)
    case (Inl e)
    with "2.prems" p have "err = Some e" "gr' = gr1" "wl' = wl1" by auto
    with st(1,2) lg show ?thesis by fastforce
  next
    case (Inr m)
    with "2.prems" p have rest: "process_nodes (logged C) ex ns gr1 wl1 = (err, gr', wl')" by simp
    note IH = "2.hyps"[OF p[symmetric] Inr refl rest]
    have ph: "map_option ns_Phase (findNodeStatus gr1 n) = Some (node_phase ex n)"
      using st(3) Inr by simp
    obtain rs1 where rs1: "creates (snd wl1) = creates (snd wl) @ rs1" "length rs1 \<le> 1"
      "\<forall>run \<in> set rs1. creation_for C gr n run \<and> map_of ex (sanitizeNodeID n) = None"
      using lg by blast
    obtain rs2 where rs2: "creates (snd wl') = creates (snd wl1) @ rs2" "length rs2 \<le> length ns"
      "\<forall>run \<in> set rs2. \<exists>n \<in> set ns. creation_for C gr1 n run \<and> map_of ex (sanitizeNodeID n) = None"
      using IH by blast
    have "\<exists>rs. creates (snd wl') = creates (snd wl) @ rs \<and> length rs \<le> length (n # ns) \<and>
       (\<forall>run \<in> set rs. \<exists>x \<in> set (n # ns). creation_for C gr x run \<and> map_of ex (sanitizeNodeID x) = None)"
      using rs1 rs2 creation_for_frame[OF st(1)] by (intro exI[of _ "rs1 @ rs2"]) fastforce
    moreover have "statuses_only gr gr'" using IH st(1) statuses_only_trans by blast
    moreover have "\<forall>x. x \<notin> set (n # ns) \<longrightarrow> findNodeStatus gr' x = findNodeStatus gr x"
      using IH st(2) by simp
    moreover have "\<forall>x \<in> set (n # ns). map_option ns_Phase (findNodeStatus gr' x) = Some (node_phase ex x)"
      if "err = None"
      using IH ph that by (metis set_ConsD)
    ultimately show ?thesis by blast
  qed
qed auto

text \<open>
  All levels. A creation for a node of level \<open>k\<close> implies that every node of every earlier level had
  a run that the API reported as succeeded.
\<close>

definition level_succeeded :: "(string, KrknScenarioRun) gomap \<Rightarrow> string list \<Rightarrow> bool" where
  "level_succeeded ex level \<longleftrightarrow>
     (\<forall>m \<in> set level. \<exists>run. map_of ex (sanitizeNodeID m) = Some run \<and> sr_Phase (sr_Status run) = ''Succeeded'')"

lemma phase_of_run_Completed: "phase_of_run run = ''Completed'' \<longleftrightarrow> sr_Phase (sr_Status run) = ''Succeeded''"
  by (auto simp: phase_of_run_def Let_def)

lemma node_phase_Completed:
  "node_phase ex m = ''Completed'' \<longleftrightarrow>
     (\<exists>run. map_of ex (sanitizeNodeID m) = Some run \<and> sr_Phase (sr_Status run) = ''Succeeded'')"
  by (auto simp: node_phase_def phase_of_run_Completed split: option.splits)

lemma checkPreviousLevel_completed:
  assumes "checkPreviousLevel gr i = (True, False)" and "i < length (resolved_levels gr)"
    and "m \<in> set (resolved_levels gr ! i)"
  shows "map_option ns_Phase (findNodeStatus gr m) = Some ''Completed''"
proof -
  let ?p = "map_option ns_Phase (findNodeStatus gr m)"
  have "?p = Some ''Completed'' \<or> ?p = Some ''Failed''"
    using assms by (simp add: checkPreviousLevel_def Let_def list_all_iff)
  moreover have "?p \<noteq> Some ''Failed''"
    using assms unfolding checkPreviousLevel_def Let_def list_ex_iff by force
  ultimately show ?thesis by blast
qed

lemma calculateGlobalStatus_log:
  "calculateGlobalStatus (logged C) gr wl = (gr', wl') \<Longrightarrow> snd wl' = snd wl"
  by (auto simp: calculateGlobalStatus_def Let_def split: if_splits prod.splits dest!: log_call_eq)

lemma handleFailFast_creates:
  "handleFailFast (logged C) gr i wl = (r, gr', wl') \<Longrightarrow> creates (snd wl') = creates (snd wl)"
  by (auto simp: handleFailFast_def split: prod.splits option.splits api_error.splits
      dest!: calculateGlobalStatus_log log_call_eq)

lemma process_from_creates:
  assumes "process_from (logged C) ex i levels gr wl = (r, gr', wl')"
    and "levels = drop i (resolved_levels gr)" and "i \<le> length (resolved_levels gr)"
    and "\<forall>j. Suc j < i \<longrightarrow> level_succeeded ex (resolved_levels gr ! j)"
    and "0 < i \<longrightarrow> (\<forall>m \<in> set (resolved_levels gr ! (i - 1)).
           map_option ns_Phase (findNodeStatus gr m) = Some (node_phase ex m))"
  shows "\<exists>rs. creates (snd wl') = creates (snd wl) @ rs \<and> length rs \<le> length (concat levels) \<and>
    (\<forall>run \<in> set rs. \<exists>k n. i \<le> k \<and> k < length (resolved_levels gr) \<and> n \<in> set (resolved_levels gr ! k) \<and>
       creation_for C gr n run \<and> map_of ex (sanitizeNodeID n) = None \<and>
       (\<forall>j < k. level_succeeded ex (resolved_levels gr ! j)))"
  using assms
proof (induction "logged C" ex i levels gr wl arbitrary: r gr' wl' rule: process_from.induct)
  case (2 ex i level levels gr wl)
  have i: "i < length (resolved_levels gr)" using "2.prems"(2) by (metis drop_all list.distinct(1) not_le)
  have lv: "level = resolved_levels gr ! i" "levels = drop (Suc i) (resolved_levels gr)"
    using "2.prems"(2) i by (metis Cons_nth_drop_Suc list.inject)+
  let ?chk = "if i > 0 then checkPreviousLevel gr (i - 1) else (True, False)"
  consider (fail) "snd ?chk" | (wait) "?chk = (False, False)" | (go) "?chk = (True, False)"
    by (cases ?chk) auto
  then show ?case
  proof cases
    case fail
    with "2.prems"(1) have "handleFailFast (logged C) gr i wl = (r, gr', wl')"
      by (auto simp: case_prod_beta Let_def)
    then show ?thesis using handleFailFast_creates by (intro exI[of _ "[]"]) simp
  next
    case wait
    with "2.prems"(1) have "wl' = wl" by (simp add: Let_def)
    then show ?thesis by (intro exI[of _ "[]"]) simp
  next
    case go
    have done_lt: "\<forall>j < i. level_succeeded ex (resolved_levels gr ! j)"
    proof (intro allI impI)
      fix j assume j: "j < i"
      show "level_succeeded ex (resolved_levels gr ! j)"
      proof (cases "Suc j = i")
        case True
        then have chk: "checkPreviousLevel gr j = (True, False)" using go j by (auto split: if_splits)
        then show ?thesis
          using checkPreviousLevel_completed[OF chk] "2.prems"(5) i j True
          by (fastforce simp: level_succeeded_def node_phase_Completed[symmetric])
      next
        case False
        with j "2.prems"(4) show ?thesis by simp
      qed
    qed
    obtain err gr1 wl1 where p: "process_nodes (logged C) ex level gr wl = (err, gr1, wl1)"
      by (cases "process_nodes (logged C) ex level gr wl") auto
    note pn = process_nodes_log[OF p]
    have so: "statuses_only gr gr1" and rl: "resolved_levels gr1 = resolved_levels gr"
      using pn statuses_only_frame by blast+
    obtain rs1 where rs1: "creates (snd wl1) = creates (snd wl) @ rs1" "length rs1 \<le> length level"
      "\<forall>run \<in> set rs1. \<exists>n \<in> set level. creation_for C gr n run \<and> map_of ex (sanitizeNodeID n) = None"
      using pn by blast
    have new1: "\<forall>run \<in> set rs1. \<exists>k n. i \<le> k \<and> k < length (resolved_levels gr) \<and> n \<in> set (resolved_levels gr ! k) \<and>
       creation_for C gr n run \<and> map_of ex (sanitizeNodeID n) = None \<and>
       (\<forall>j < k. level_succeeded ex (resolved_levels gr ! j))"
      using rs1(3) lv(1) i done_lt by blast
    show ?thesis
    proof (cases err)
      case (Some e)
      with "2.prems"(1) go p have "wl' = wl1" by (simp add: Let_def)
      with rs1 new1 show ?thesis by (intro exI[of _ rs1]) simp
    next
      case None
      with "2.prems"(1) go p have rest: "process_from (logged C) ex (Suc i) levels gr1 wl1 = (r, gr', wl')"
        by (simp add: Let_def)
      have st: "\<forall>m \<in> set (resolved_levels gr1 ! (Suc i - 1)).
           map_option ns_Phase (findNodeStatus gr1 m) = Some (node_phase ex m)"
        using pn None lv(1) rl by simp
      have "\<not> snd ?chk" "\<not> \<not> fst ?chk" using go by auto
      from "2.hyps"[OF refl prod.collapse this p[symmetric] None refl rest] obtain rs2 where
        rs2: "creates (snd wl') = creates (snd wl1) @ rs2" "length rs2 \<le> length (concat levels)"
        "\<forall>run \<in> set rs2. \<exists>k n. Suc i \<le> k \<and> k < length (resolved_levels gr) \<and> n \<in> set (resolved_levels gr ! k) \<and>
           creation_for C gr1 n run \<and> map_of ex (sanitizeNodeID n) = None \<and>
           (\<forall>j < k. level_succeeded ex (resolved_levels gr ! j))"
        using lv(2) i done_lt st rl by auto
      have "\<forall>run \<in> set rs2. \<exists>k n. i \<le> k \<and> k < length (resolved_levels gr) \<and> n \<in> set (resolved_levels gr ! k) \<and>
           creation_for C gr n run \<and> map_of ex (sanitizeNodeID n) = None \<and>
           (\<forall>j < k. level_succeeded ex (resolved_levels gr ! j))"
        using rs2(3) creation_for_frame[OF so] by (meson Suc_leD)
      with rs1 rs2(1,2) new1 show ?thesis
        by (intro exI[of _ "rs1 @ rs2"]) auto
    qed
  qed
qed (auto intro: exI[of _ "[]"])

lemma reconcile_levels_creates:
  assumes "reconcile_levels (logged C) gr ex wl = (res, wl')"
  shows "\<exists>r gr1 wl1. processLevels (logged C) ex gr wl = (r, gr1, wl1) \<and> creates (snd wl') = creates (snd wl1)"
proof -
  obtain result updated err gr1 wl1 where
    p: "processLevels (logged C) ex gr wl = ((result, updated, err), gr1, wl1)"
    by (metis prod.collapse)
  have "creates (snd wl') = creates (snd wl1)"
    using assms p
    by (cases err; cases updated)
      (auto simp: reconcile_levels_def updateStatusWithError_def split: prod.splits option.splits api_error.splits
        dest!: log_call_eq calculateGlobalStatus_log)
  with p show ?thesis by blast
qed

text \<open>Only a run that is resolved, not terminal and not being deleted has its levels processed.\<close>

definition active_run :: "KrknGraphRun \<Rightarrow> bool" where
  "active_run gr \<longleftrightarrow> DeletionTimestamp (gr_meta gr) = None \<and> has_finalizer gr \<and>
     gst_Phase (gr_Status gr) \<noteq> '''' \<and> \<not> isTerminalPhase (gst_Phase (gr_Status gr)) \<and> resolved_levels gr \<noteq> []"

lemma Reconcile_inactive_creates:
  assumes "Reconcile (logged C) ns name (w, []) = (res, w', log)"
    and "gc_Get C ns name w = (Inr gr, w1)" and "\<not> active_run gr"
  shows "creates log = []"
  using assms
  by (auto simp: active_run_def Reconcile_def log_call_def initializeStatus_def resolveGraph_def
      updateStatusWithError_def Let_def
      split: if_splits prod.splits option.splits sum.splits api_error.splits)

text \<open>
  Either a reconcile creates nothing, or it fetched the graph run, listed its scenario runs and
  processed the levels.
\<close>

lemma Reconcile_cases:
  assumes "Reconcile (logged C) ns name (w, []) = (res, w', log)"
  shows "creates log = [] \<or> (\<exists>gr w1 items w2. gc_Get C ns name w = (Inr gr, w1) \<and>
     gc_List C (Namespace (gr_meta gr)) [(GraphRunLabelKey, gr_Name gr)] w1 = (Inr items, w2) \<and>
     reconcile_levels (logged C) gr (index_runs items) (w2, []) = (res, w', log))"
proof -
  obtain g w1 where g: "gc_Get C ns name w = (g, w1)" by fastforce
  show ?thesis
  proof (cases g)
    case (Inl e)
    with assms g show ?thesis
      by (cases e) (auto simp: Reconcile_def log_call_def)
  next
    case (Inr gr)
    show ?thesis
    proof (cases "active_run gr")
      case False
      with Reconcile_inactive_creates[OF assms g[unfolded Inr]] show ?thesis by blast
    next
      case True
      obtain l w2 where l: "gc_List C (Namespace (gr_meta gr)) [(GraphRunLabelKey, gr_Name gr)] w1 = (l, w2)"
        by fastforce
      show ?thesis
      proof (cases l)
        case (Inl e)
        with assms g \<open>g = Inr gr\<close> True l show ?thesis
          by (simp add: Reconcile_def log_call_def getExistingScenarioRuns_def active_run_def)
      next
        case (Inr items)
        with assms g \<open>g = Inr gr\<close> True l show ?thesis
          by (simp add: Reconcile_def log_call_def getExistingScenarioRuns_def active_run_def)
      qed
    qed
  qed
qed

section \<open>A concrete run\<close>

text \<open>
  The chain graph after resolution, and a client of an API that serves it with the given scenario
  runs and accepts every write.
\<close>

definition running_graph_run :: "scenario_graph \<Rightarrow> string list list \<Rightarrow> KrknGraphRun" where
  "running_graph_run g levels = (add_finalizer (new_graph_run g))\<lparr>gr_Status := (gr_Status (new_graph_run g))\<lparr>
     gst_Phase := ''Running'', gst_StartTime := Some 5, gst_ResolvedLevels := levels,
     gst_NodeStatuses := map initial_node_status (filter (\<lambda>(n, _). \<not> metadata_node n) g)\<rparr>\<rparr>"

definition chain_run :: KrknGraphRun where
  "chain_run = running_graph_run chain_graph [[''Prep''], [''load''], [''check'']]"

definition node_run :: "KrknGraphRun \<Rightarrow> string \<Rightarrow> string \<Rightarrow> KrknScenarioRun" where
  "node_run gr n phase = (scenario_run_for gr n zero_scenario_spec)
     \<lparr>sr_Status := zero_scenario_status\<lparr>sr_Phase := phase\<rparr>\<rparr>"

definition steady_client :: "KrknGraphRun \<Rightarrow> KrknScenarioRun list \<Rightarrow> unit graph_client" where
  "steady_client gr items = \<lparr>gc_Get = (\<lambda>_ _ w. (Inr gr, w)), gc_Update = (\<lambda>_ w. (None, w)),
     gc_StatusUpdate = (\<lambda>_ w. (None, w)), gc_List = (\<lambda>_ _ w. (Inr items, w)),
     gc_Create = (\<lambda>_ w. (None, w)), gc_SetControllerReference = (\<lambda>_ run. Inr run), gc_Now = (\<lambda>w. (77, w))\<rparr>"

definition log_of :: "KrknGraphRun \<Rightarrow> KrknScenarioRun list \<Rightarrow> graph_event list" where
  "log_of gr items = snd (snd (Reconcile (logged (steady_client gr items)) ''krkn'' ''g1'' ((), [])))"

lemma Reconcile_log_of:
  "\<exists>res. Reconcile (logged (steady_client gr items)) ''krkn'' ''g1'' ((), []) = (res, (), log_of gr items)"
  by (cases "Reconcile (logged (steady_client gr items)) ''krkn'' ''g1'' ((), [])") (auto simp: log_of_def)

lemma steady_client_simps [simp]:
  "gc_Get (steady_client gr items) ns n w = (Inr gr, w)"
  "gc_List (steady_client gr items) ns ls w = (Inr items, w)"
  by (simp_all add: steady_client_def)

text \<open>
  C1. Dependency order and no duplicates, whatever the API answers: if a reconcile asks the API to
  create a scenario run, then it is the run of a node \<open>n\<close> of some level \<open>k\<close> for which the listing
  showed no run yet, and for every node of every earlier level the listing showed a run in phase
  \<open>Succeeded\<close>.
\<close>

theorem Reconcile_creates_in_order:
  assumes "Reconcile (logged C) ns name (w, []) = (res, w', log)" and "CreateRun run \<in> set log"
  shows "\<exists>gr w1 items w2 k n. gc_Get C ns name w = (Inr gr, w1) \<and>
     gc_List C (Namespace (gr_meta gr)) [(GraphRunLabelKey, gr_Name gr)] w1 = (Inr items, w2) \<and>
     k < length (resolved_levels gr) \<and> n \<in> set (resolved_levels gr ! k) \<and> creation_for C gr n run \<and>
     map_of (index_runs items) (sanitizeNodeID n) = None \<and>
     (\<forall>j < k. level_succeeded (index_runs items) (resolved_levels gr ! j))"
proof -
  from assms(2) have run: "run \<in> set (creates log)" by (simp add: creates_mem)
  with Reconcile_cases[OF assms(1)] obtain gr w1 items w2 where
    g: "gc_Get C ns name w = (Inr gr, w1)"
    "gc_List C (Namespace (gr_meta gr)) [(GraphRunLabelKey, gr_Name gr)] w1 = (Inr items, w2)"
    and l: "reconcile_levels (logged C) gr (index_runs items) (w2, []) = (res, w', log)" by auto
  from reconcile_levels_creates[OF l] obtain r gr1 wl1 where
    p: "process_from (logged C) (index_runs items) 0 (resolved_levels gr) gr (w2, []) = (r, gr1, wl1)"
    and c: "creates log = creates (snd wl1)" by (auto simp: processLevels_def)
  from process_from_creates[OF p] run c obtain k n where
    "k < length (resolved_levels gr)" "n \<in> set (resolved_levels gr ! k)" "creation_for C gr n run"
    "map_of (index_runs items) (sanitizeNodeID n) = None"
    "\<forall>j < k. level_succeeded (index_runs items) (resolved_levels gr ! j)" by auto
  with g show ?thesis by blast
qed

theorem Reconcile_creates_in_order_witness:
  "\<exists>run k n. CreateRun run \<in> set (log_of chain_run [node_run chain_run ''Prep'' ''Succeeded'']) \<and>
     n \<in> set (resolved_levels chain_run ! k) \<and> creation_for (steady_client chain_run [node_run chain_run ''Prep'' ''Succeeded'']) chain_run n run \<and>
     (\<forall>j < k. level_succeeded (index_runs [node_run chain_run ''Prep'' ''Succeeded'']) (resolved_levels chain_run ! j))"
proof -
  let ?items = "[node_run chain_run ''Prep'' ''Succeeded'']"
  have "map (Name \<circ> sr_meta) (creates (log_of chain_run ?items)) = [''g1-load'']" by code_simp
  then obtain run where run: "CreateRun run \<in> set (log_of chain_run ?items)"
    by (cases "creates (log_of chain_run ?items)") (auto simp: creates_mem[symmetric])
  obtain res where "Reconcile (logged (steady_client chain_run ?items)) ''krkn'' ''g1'' ((), []) = (res, (), log_of chain_run ?items)"
    using Reconcile_log_of by blast
  from Reconcile_creates_in_order[OF this run] show ?thesis
    using run by auto
qed

section \<open>Global status\<close>

lemma count_phase_nonneg: "0 \<le> count_phase ps ss"
  by (simp add: count_phase_def)

lemma count_phase_pos: "0 < count_phase ps ss \<longleftrightarrow> (\<exists>s \<in> set ss. ns_Phase s \<in> set ps)"
  by (auto simp: count_phase_def filter_empty_conv)

lemma count_phase_all: "count_phase ps ss = int (length ss) \<longleftrightarrow> (\<forall>s \<in> set ss. ns_Phase s \<in> set ps)"
proof -
  have "count_phase ps ss = int (length ss) \<longleftrightarrow> length (filter (\<lambda>s. ns_Phase s \<in> set ps) ss) = length ss"
    by (simp add: count_phase_def)
  also have "\<dots> \<longleftrightarrow> filter (\<lambda>s. ns_Phase s \<in> set ps) ss = ss"
    by (metis filter_id_conv length_filter_less nat_neq_iff)
  finally show ?thesis by (simp add: filter_id_conv)
qed

lemma calculateGlobalStatus_shape:
  assumes "calculateGlobalStatus C gr w = (gr', w')"
  shows "\<exists>comp. let ss = node_statuses gr;
        ph = global_phase (int (length ss)) (count_phase [''Completed''] ss)
               (count_phase [''Running''] ss) (count_phase [''Failed''] ss)
     in gr' = gr\<lparr>gr_Status := (gr_Status gr)\<lparr>gst_Phase := ph, gst_CompletionTime := comp,
          gst_Summary := \<lparr>TotalNodes = int (length ss), CompletedNodes = count_phase [''Completed''] ss,
            RunningNodes = count_phase [''Running''] ss, FailedNodes = count_phase [''Failed''] ss,
            PendingNodes = count_phase [''Pending'', ''Blocked''] ss\<rparr>\<rparr>\<rparr> \<and>
        (ph = ''Completed'' \<longrightarrow> comp \<noteq> None)"
proof (cases "gst_CompletionTime (gr_Status gr) = None")
  case True
  show ?thesis
    using assms unfolding calculateGlobalStatus_def Let_def
    by (intro exI[of _ "gst_CompletionTime (gr_Status gr')"]) (auto simp: True split: prod.splits if_splits)
next
  case False
  show ?thesis
    using assms unfolding calculateGlobalStatus_def Let_def
    by (intro exI[of _ "gst_CompletionTime (gr_Status gr)"]) (use False in \<open>auto split: prod.splits if_splits\<close>)
qed

lemma global_phase_spec:
  fixes ss :: "NodeStatus list"
  defines "ph \<equiv> global_phase (int (length ss)) (count_phase [''Completed''] ss)
    (count_phase [''Running''] ss) (count_phase [''Failed''] ss)"
  shows "ph = ''Completed'' \<longleftrightarrow> (\<forall>s \<in> set ss. ns_Phase s = ''Completed'')"
    and "ph \<in> {''Failed'', ''PartiallyFailed''} \<longleftrightarrow> (\<exists>s \<in> set ss. ns_Phase s = ''Failed'')"
    and "ph = ''PartiallyFailed'' \<longleftrightarrow> {''Failed'', ''Completed''} \<subseteq> ns_Phase ` set ss"
  unfolding ph_def
  using count_phase_pos[of "[''Failed'']" ss] count_phase_pos[of "[''Completed'']" ss]
    count_phase_all[of "[''Completed'']" ss]
  by (auto simp: global_phase_def image_iff) force+

lemma count_phase_total:
  assumes "\<forall>s \<in> set ss. ns_Phase s \<in> {''Pending'', ''Running'', ''Completed'', ''Failed'', ''Blocked''}"
  shows "count_phase [''Completed''] ss + count_phase [''Running''] ss + count_phase [''Failed''] ss +
    count_phase [''Pending'', ''Blocked''] ss = int (length ss)"
  using assms by (induction ss) (auto simp: count_phase_def)

lemma calculateGlobalStatus_phase:
  assumes "calculateGlobalStatus C gr w = (gr', w')"
  shows "node_statuses gr' = node_statuses gr" "gr_Spec gr' = gr_Spec gr" "resolved_levels gr' = resolved_levels gr"
    "gst_Phase (gr_Status gr') = ''Completed'' \<longleftrightarrow> (\<forall>s \<in> set (node_statuses gr). ns_Phase s = ''Completed'')"
    "gst_Phase (gr_Status gr') \<in> {''Failed'', ''PartiallyFailed''} \<longleftrightarrow> (\<exists>s \<in> set (node_statuses gr). ns_Phase s = ''Failed'')"
    "gst_Phase (gr_Status gr') = ''PartiallyFailed'' \<longleftrightarrow> {''Failed'', ''Completed''} \<subseteq> ns_Phase ` set (node_statuses gr)"
    "gst_Phase (gr_Status gr') = ''Completed'' \<longrightarrow> gst_CompletionTime (gr_Status gr') \<noteq> None"
proof -
  define ph where "ph = global_phase (int (length (node_statuses gr))) (count_phase [''Completed''] (node_statuses gr))
    (count_phase [''Running''] (node_statuses gr)) (count_phase [''Failed''] (node_statuses gr))"
  obtain comp sm where gr': "gr' = gr\<lparr>gr_Status := (gr_Status gr)\<lparr>gst_Phase := ph, gst_CompletionTime := comp, gst_Summary := sm\<rparr>\<rparr>"
    and comp: "ph = ''Completed'' \<longrightarrow> comp \<noteq> None"
    using calculateGlobalStatus_shape[OF assms] unfolding Let_def ph_def[symmetric] by blast
  note gp = global_phase_spec[where ss = "node_statuses gr", folded ph_def]
  have f: "gst_Phase (gr_Status gr') = ph" "gst_CompletionTime (gr_Status gr') = comp" by (simp_all add: gr')
  show "node_statuses gr' = node_statuses gr" "gr_Spec gr' = gr_Spec gr" "resolved_levels gr' = resolved_levels gr"
    by (simp_all add: gr')
  show "gst_Phase (gr_Status gr') = ''Completed'' \<longleftrightarrow> (\<forall>s \<in> set (node_statuses gr). ns_Phase s = ''Completed'')"
    "gst_Phase (gr_Status gr') \<in> {''Failed'', ''PartiallyFailed''} \<longleftrightarrow> (\<exists>s \<in> set (node_statuses gr). ns_Phase s = ''Failed'')"
    "gst_Phase (gr_Status gr') = ''PartiallyFailed'' \<longleftrightarrow> {''Failed'', ''Completed''} \<subseteq> ns_Phase ` set (node_statuses gr)"
    "gst_Phase (gr_Status gr') = ''Completed'' \<longrightarrow> gst_CompletionTime (gr_Status gr') \<noteq> None"
    unfolding f by (rule gp comp)+
qed

text \<open>
  The global status is a faithful summary of the node statuses: the run is \<open>Completed\<close> exactly
  when every node is, it is in a failure phase exactly when some node failed (\<open>PartiallyFailed\<close> when
  another one completed), a completed run has a completion time, nothing but phase, summary and
  completion time changes, and when all node phases are legal the four counters add up to the total.
\<close>

theorem calculateGlobalStatus_correct:
  assumes "calculateGlobalStatus C gr w = (gr', w')"
  shows "node_statuses gr' = node_statuses gr \<and> gr_Spec gr' = gr_Spec gr \<and>
    resolved_levels gr' = resolved_levels gr \<and>
    (gst_Phase (gr_Status gr') = ''Completed'' \<longleftrightarrow> (\<forall>s \<in> set (node_statuses gr). ns_Phase s = ''Completed'')) \<and>
    (gst_Phase (gr_Status gr') \<in> {''Failed'', ''PartiallyFailed''} \<longleftrightarrow> (\<exists>s \<in> set (node_statuses gr). ns_Phase s = ''Failed'')) \<and>
    (gst_Phase (gr_Status gr') = ''PartiallyFailed'' \<longleftrightarrow> {''Failed'', ''Completed''} \<subseteq> ns_Phase ` set (node_statuses gr)) \<and>
    (gst_Phase (gr_Status gr') = ''Completed'' \<longrightarrow> gst_CompletionTime (gr_Status gr') \<noteq> None) \<and>
    ((\<forall>s \<in> set (node_statuses gr). ns_Phase s \<in> {''Pending'', ''Running'', ''Completed'', ''Failed'', ''Blocked''}) \<longrightarrow>
      (let sm = gst_Summary (gr_Status gr')
       in CompletedNodes sm + RunningNodes sm + FailedNodes sm + PendingNodes sm = TotalNodes sm \<and>
          TotalNodes sm = int (length (node_statuses gr))))"
proof -
  from calculateGlobalStatus_shape[OF assms] have "gst_Summary (gr_Status gr') =
      \<lparr>TotalNodes = int (length (node_statuses gr)), CompletedNodes = count_phase [''Completed''] (node_statuses gr),
        RunningNodes = count_phase [''Running''] (node_statuses gr), FailedNodes = count_phase [''Failed''] (node_statuses gr),
        PendingNodes = count_phase [''Pending'', ''Blocked''] (node_statuses gr)\<rparr>"
    by (auto simp: Let_def)
  with calculateGlobalStatus_phase[OF assms] count_phase_total[of "node_statuses gr"] show ?thesis
    unfolding Let_def by (intro conjI impI) simp_all
qed

theorem calculateGlobalStatus_correct_witness:
  "gst_Phase (gr_Status (fst (calculateGlobalStatus (steady_client chain_run []) chain_run ()))) \<noteq> ''Completed''"
proof -
  have "\<exists>s \<in> set (node_statuses chain_run). ns_Phase s \<noteq> ''Completed''" by code_simp
  then show ?thesis
    using calculateGlobalStatus_correct[OF prod.collapse[symmetric], of "steady_client chain_run []" chain_run "()"] by blast
qed

end
