(* ===== verification/Graph_Run_Progress.thy ===== *)
theory Graph_Run_Progress
  imports Graph_Run_Controller
begin

text \<open>
  What a reconcile of an active graph run achieves: the prefix of levels that is passed when the runs
  of earlier levels succeeded, completion, fail-fast, the errors that are persisted, and the nodes
  that no level holds.
\<close>

section \<open>Positions in a list of levels\<close>

lemma set_concat_take_Suc:
  "j < length L \<Longrightarrow> set (concat (take (Suc j) L)) = set (concat (take j L)) \<union> set (L ! j)"
  by (simp add: take_Suc_conv_app_nth Un_commute)

lemma in_concat_takeD:
  "n \<in> set (concat (take j L)) \<Longrightarrow> \<exists>k < j. k < length L \<and> n \<in> set (L ! k)"
  by (fastforce simp: in_set_conv_nth[of _ "take j L"])

lemma level_subset_concat: "j < length L \<Longrightarrow> set (L ! j) \<subseteq> set (concat L)"
  by (simp add: UN_upper)

lemma set_concat_drop_subset: "set (concat (drop j L)) \<subseteq> set (concat L)"
  by (auto dest: in_set_dropD)

lemma distinct_levels_drop:
  assumes "distinct (concat L)" and "j < length L" and "f \<in> set (L ! j)"
  shows "f \<notin> set (concat (drop (Suc j) L))"
proof -
  have "concat L = concat (take j L) @ L ! j @ concat (drop (Suc j) L)"
    using arg_cong[OF id_take_nth_drop[OF assms(2)], of concat] by simp
  with assms(1,3) show ?thesis by (metis disjoint_iff distinct_append)
qed

section \<open>Active graph runs\<close>


definition serves :: "'w graph_client \<Rightarrow> string \<Rightarrow> string \<Rightarrow> 'w \<Rightarrow> KrknGraphRun \<Rightarrow> KrknScenarioRun list \<Rightarrow> bool" where
  "serves C ns name w gr items \<longleftrightarrow> (case gc_Get C ns name w of
     (Inr g, w1) \<Rightarrow> g = gr \<and> fst (gc_List C (Namespace (gr_meta gr)) [(GraphRunLabelKey, gr_Name gr)] w1) = Inr items
   | (Inl e, w1) \<Rightarrow> False)"

lemma Reconcile_active:
  assumes "active_run gr" and "serves C ns name w gr items"
  shows "\<exists>w2. Reconcile (logged C) ns name (w, []) = reconcile_levels (logged C) gr (index_runs items) (w2, [])"
proof -
  obtain w1 where g: "gc_Get C ns name w = (Inr gr, w1)"
    and l: "fst (gc_List C (Namespace (gr_meta gr)) [(GraphRunLabelKey, gr_Name gr)] w1) = Inr items"
    using assms(2) by (auto simp: serves_def split: prod.splits sum.splits)
  obtain w2 where l2: "gc_List C (Namespace (gr_meta gr)) [(GraphRunLabelKey, gr_Name gr)] w1 = (Inr items, w2)"
    using l by (metis prod.collapse)
  have "Reconcile (logged C) ns name (w, []) = reconcile_levels (logged C) gr (index_runs items) (w2, [])"
    using assms(1) g l2 by (simp add: Reconcile_def log_call_def getExistingScenarioRuns_def active_run_def)
  then show ?thesis ..
qed

abbreviation status_phase :: "KrknGraphRun \<Rightarrow> string \<Rightarrow> string option" where
  "status_phase gr n \<equiv> map_option ns_Phase (findNodeStatus gr n)"

lemma status_phase_dom:
  "statuses_only gr gr' \<Longrightarrow> findNodeStatus gr' n = None \<longleftrightarrow> findNodeStatus gr n = None"
  unfolding statuses_only_def findNodeStatus_def find_None_iff
  by (metis (mono_tags, lifting) image_iff list.set_map)

text \<open>A node whose run exists is processed without touching the API.\<close>

lemma process_nodes_existing:
  assumes "\<forall>n \<in> set ns. map_of ex (sanitizeNodeID n) \<noteq> None \<and> findNodeStatus gr n \<noteq> None"
  shows "\<exists>gr'. process_nodes C ex ns gr w = (None, gr', w) \<and> statuses_only gr gr' \<and>
    (\<forall>n \<in> set ns. status_phase gr' n = Some (node_phase ex n)) \<and>
    (\<forall>x. x \<notin> set ns \<longrightarrow> findNodeStatus gr' x = findNodeStatus gr x)"
  using assms
proof (induction ns arbitrary: gr)
  case (Cons n ns)
  then obtain run where run: "map_of ex (sanitizeNodeID n) = Some run" by auto
  obtain r gr1 where u: "updateNodeStatusFromRun gr n run = (r, gr1)" by fastforce
  then have p: "processNode C ex gr n w = (r, gr1, w)" by (simp add: processNode_def run)
  have "\<exists>m. r = Inr m"
    using u Cons.prems setNodeStatus_spec(3) unfolding updateNodeStatusFromRun_def
    by (fastforce split: list.splits)
  then obtain m where m: "r = Inr m" ..
  note st = processNode_status[OF p]
  have "\<forall>k \<in> set ns. map_of ex (sanitizeNodeID k) \<noteq> None \<and> findNodeStatus gr1 k \<noteq> None"
    using Cons.prems status_phase_dom[OF st(1)] by auto
  from Cons.IH[OF this] obtain gr' where g: "process_nodes C ex ns gr1 w = (None, gr', w)" "statuses_only gr1 gr'"
    "\<forall>n \<in> set ns. status_phase gr' n = Some (node_phase ex n)"
    "\<forall>x. x \<notin> set ns \<longrightarrow> findNodeStatus gr' x = findNodeStatus gr1 x" by blast
  have "status_phase gr' n = Some (node_phase ex n)"
    using g(3,4) st(3)[OF m] by (cases "n \<in> set ns") auto
  with g p m st(2) statuses_only_trans[OF st(1) g(2)] show ?case by simp
qed simp

lemma checkPreviousLevel_phases:
  assumes "i < length (resolved_levels gr)"
    and "\<forall>n \<in> set (resolved_levels gr ! i). status_phase gr n = Some (node_phase ex n)"
  shows "snd (checkPreviousLevel gr i) \<longleftrightarrow> (\<exists>n \<in> set (resolved_levels gr ! i). node_phase ex n = ''Failed'')"
    and "level_succeeded ex (resolved_levels gr ! i) \<Longrightarrow> checkPreviousLevel gr i = (True, False)"
proof -
  let ?L = "resolved_levels gr ! i"
  have "map (status_phase gr) ?L = map (Some \<circ> node_phase ex) ?L"
    using assms(2) by (intro map_cong) simp_all
  then have c: "checkPreviousLevel gr i = (list_all (\<lambda>p. p = Some ''Completed'' \<or> p = Some ''Failed'') (map (Some \<circ> node_phase ex) ?L),
      list_ex (\<lambda>p. p = Some ''Failed'') (map (Some \<circ> node_phase ex) ?L))"
    using assms(1) by (simp only: checkPreviousLevel_def Let_def not_le[symmetric] if_False simp_thms)
  show "snd (checkPreviousLevel gr i) \<longleftrightarrow> (\<exists>n \<in> set ?L. node_phase ex n = ''Failed'')"
    by (force simp: c list_ex_iff)
  show "level_succeeded ex ?L \<Longrightarrow> checkPreviousLevel gr i = (True, False)"
    by (auto simp: c list_ex_iff list_all_iff level_succeeded_def node_phase_Completed[symmetric])
qed

text \<open>
  The levels before \<open>j\<close> are passed when all of their nodes have runs and those of the levels before the
  last of them succeeded.
\<close>

lemma process_from_prefix:
  assumes "j \<le> length (resolved_levels gr)"
    and "\<forall>n \<in> set (concat (take j (resolved_levels gr))).
      map_of ex (sanitizeNodeID n) \<noteq> None \<and> findNodeStatus gr n \<noteq> None"
    and "\<forall>k. Suc k < j \<longrightarrow> level_succeeded ex (resolved_levels gr ! k)"
  shows "\<exists>gr'. process_from C ex 0 (resolved_levels gr) gr w =
        process_from C ex j (drop j (resolved_levels gr)) gr' w \<and> statuses_only gr gr' \<and>
      (\<forall>n \<in> set (concat (take j (resolved_levels gr))). status_phase gr' n = Some (node_phase ex n)) \<and>
      (\<forall>x. x \<notin> set (concat (take j (resolved_levels gr))) \<longrightarrow> findNodeStatus gr' x = findNodeStatus gr x)"
  using assms
proof (induction j)
  case 0
  show ?case by (rule exI[of _ gr]) simp
next
  case (Suc j)
  let ?L = "resolved_levels gr"
  have j: "j < length ?L" and tk: "set (concat (take (Suc j) ?L)) = set (concat (take j ?L)) \<union> set (?L ! j)"
    using Suc.prems(1) set_concat_take_Suc[of j ?L] by simp_all
  have pre: "\<forall>n \<in> set (concat (take j ?L)). map_of ex (sanitizeNodeID n) \<noteq> None \<and> findNodeStatus gr n \<noteq> None"
    using Suc.prems(2) unfolding tk by blast
  obtain g1 where g1: "process_from C ex 0 ?L gr w = process_from C ex j (drop j ?L) g1 w" "statuses_only gr g1"
    "\<forall>n \<in> set (concat (take j ?L)). status_phase g1 n = Some (node_phase ex n)"
    "\<forall>x. x \<notin> set (concat (take j ?L)) \<longrightarrow> findNodeStatus g1 x = findNodeStatus gr x"
    using Suc.IH[OF less_imp_le[OF j] pre] Suc.prems(3) by (metis less_SucI)
  have rl: "resolved_levels g1 = ?L" using statuses_only_frame(3)[OF g1(2)] .
  have chk: "0 < j \<Longrightarrow> checkPreviousLevel g1 (j - 1) = (True, False)"
  proof -
    assume "0 < j"
    then have "set (?L ! (j - 1)) \<subseteq> set (concat (take j ?L))"
      using j nth_mem[of "j - 1" "take j ?L"] by auto
    then have ph: "\<forall>n \<in> set (resolved_levels g1 ! (j - 1)). status_phase g1 n = Some (node_phase ex n)"
      using g1(3) rl by auto
    show ?thesis
      using checkPreviousLevel_phases(2)[OF _ ph] Suc.prems(3) j rl \<open>0 < j\<close> by simp
  qed
  have "\<forall>n \<in> set (?L ! j). map_of ex (sanitizeNodeID n) \<noteq> None \<and> findNodeStatus g1 n \<noteq> None"
    using Suc.prems(2) tk status_phase_dom[OF g1(2)] by blast
  from process_nodes_existing[OF this, of C w] obtain g2 where
    g2: "process_nodes C ex (?L ! j) g1 w = (None, g2, w)" "statuses_only g1 g2"
    "\<forall>n \<in> set (?L ! j). status_phase g2 n = Some (node_phase ex n)"
    "\<forall>x. x \<notin> set (?L ! j) \<longrightarrow> findNodeStatus g2 x = findNodeStatus g1 x" by blast
  have d: "drop j ?L = ?L ! j # drop (Suc j) ?L" using j by (rule Cons_nth_drop_Suc[symmetric])
  have "process_from C ex j (drop j ?L) g1 w = process_from C ex (Suc j) (drop (Suc j) ?L) g2 w"
    unfolding d using chk g2(1) by (cases "0 < j") (simp_all add: Let_def)
  moreover have "\<forall>n \<in> set (concat (take (Suc j) ?L)). status_phase g2 n = Some (node_phase ex n)"
    unfolding tk using g2(3,4) g1(3) by (simp only: ball_Un simp_thms) metis
  moreover have "\<forall>x. x \<notin> set (concat (take (Suc j) ?L)) \<longrightarrow> findNodeStatus g2 x = findNodeStatus gr x"
    unfolding tk using g1(4) g2(4) by simp
  ultimately show ?case
    unfolding g1(1) using statuses_only_trans[OF g1(2) g2(2)] by blast
qed

section \<open>Completion\<close>

lemma findNodeStatus_mem: "s \<in> set (node_statuses gr) \<Longrightarrow> findNodeStatus gr (ns_NodeID s) \<noteq> None"
  unfolding findNodeStatus_def find_None_iff by blast

lemma find_distinct_key:
  "x \<in> set xs \<Longrightarrow> distinct (map f xs) \<Longrightarrow> List.find (\<lambda>y. f y = f x) xs = Some x"
  by (induction xs) (auto simp: image_iff)

lemma findNodeStatus_distinct:
  "s \<in> set (node_statuses gr) \<Longrightarrow> distinct (map ns_NodeID (node_statuses gr)) \<Longrightarrow>
     findNodeStatus gr (ns_NodeID s) = Some s"
  unfolding findNodeStatus_def by (rule find_distinct_key)

lemma status_phase_all:
  assumes "statuses_only gr gr'" and "distinct (map ns_NodeID (node_statuses gr))" and "s \<in> set (node_statuses gr')"
  shows "status_phase gr' (ns_NodeID s) = Some (ns_Phase s)"
  using assms findNodeStatus_distinct[of s gr'] by (simp add: statuses_only_def)

text \<open>What the persisted status says when the levels were processed without an error or fail-fast.\<close>

lemma reconcile_levels_ok:
  assumes "processLevels (logged C) ex gr wl = ((result, False, None), gr1, wl1)"
    and "reconcile_levels (logged C) gr ex wl = (res, w', log)"
  shows "\<exists>gr2 wl2. calculateGlobalStatus (logged C) gr1 wl1 = (gr2, wl2) \<and> log = snd wl1 @ [UpdateGraphStatus gr2]"
proof -
  obtain gr2 wl2 where c: "calculateGlobalStatus (logged C) gr1 wl1 = (gr2, wl2)" by (metis surj_pair)
  obtain e wl3 where u: "log_call (gc_StatusUpdate C gr2) [UpdateGraphStatus gr2] wl2 = (e, wl3)" by (metis surj_pair)
  have "(w', log) = wl3"
    using assms c u by (auto simp: reconcile_levels_def split: option.splits api_error.splits)
  with log_call_eq[OF u] calculateGlobalStatus_log[OF c] have "log = snd wl1 @ [UpdateGraphStatus gr2]"
    by (metis snd_conv)
  with c show ?thesis by blast
qed

lemma reconcile_levels_error:
  assumes "processLevels (logged C) ex gr wl = ((result, updated, Some e), gr1, wl1)"
    and "reconcile_levels (logged C) gr ex wl = (res, w', log)"
  shows "res = (no_requeue, Some e)"
    and "log = snd wl1 @ [UpdateGraphStatus (gr1\<lparr>gr_Status := (gr_Status gr1)\<lparr>gst_Phase := ''Failed''\<rparr>\<rparr>)]"
proof -
  have "reconcile_levels (logged C) gr ex wl = updateStatusWithError (logged C) gr1 e wl1"
    using assms(1) by (cases updated) (simp_all add: reconcile_levels_def)
  with assms(2) show "res = (no_requeue, Some e)"
    "log = snd wl1 @ [UpdateGraphStatus (gr1\<lparr>gr_Status := (gr_Status gr1)\<lparr>gst_Phase := ''Failed''\<rparr>\<rparr>)]"
    by (auto simp: updateStatusWithError_def split: prod.splits dest: log_call_eq)
qed

lemma reconcile_levels_updated:
  assumes "processLevels (logged C) ex gr wl = ((result, True, None), gr1, wl1)"
    and "reconcile_levels (logged C) gr ex wl = (res, w', log)"
  shows "res = (result, None)" and "log = snd wl1"
  using assms by (auto simp: reconcile_levels_def)

text \<open>
  C12. Completion: when the listing shows a succeeded run for every node of every level and the levels
  hold every node of the graph run, one reconcile creates nothing and writes exactly one status,
  which is \<open>Completed\<close>, with every node completed and a completion time.
\<close>

theorem Reconcile_completes:
  assumes "Reconcile (logged C) ns name (w, []) = (res, w', log)"
    and "active_run gr" and "serves C ns name w gr items"
    and "\<forall>level \<in> set (resolved_levels gr). level_succeeded (index_runs items) level"
    and "ns_NodeID ` set (node_statuses gr) = set (concat (resolved_levels gr))"
    and "distinct (map ns_NodeID (node_statuses gr))"
  shows "\<exists>gr'. log = [UpdateGraphStatus gr'] \<and> gst_Phase (gr_Status gr') = ''Completed'' \<and>
    gst_CompletionTime (gr_Status gr') \<noteq> None \<and> (\<forall>s \<in> set (node_statuses gr'). ns_Phase s = ''Completed'')"
proof -
  let ?L = "resolved_levels gr" and ?ex = "index_runs items"
  obtain w2 where r: "reconcile_levels (logged C) gr ?ex (w2, []) = (res, w', log)"
    using Reconcile_active[OF assms(2,3)] assms(1) by metis
  have "\<forall>n \<in> set (concat ?L). map_of ?ex (sanitizeNodeID n) \<noteq> None"
    using assms(4) by (fastforce simp: level_succeeded_def)
  moreover have "\<forall>n \<in> set (concat ?L). findNodeStatus gr n \<noteq> None"
    using findNodeStatus_mem assms(5) by (metis (no_types, lifting) imageE)
  ultimately obtain gr1 where g: "process_from (logged C) ?ex 0 ?L gr (w2, []) = process_from (logged C) ?ex (length ?L) [] gr1 (w2, [])"
    "statuses_only gr gr1" "\<forall>n \<in> set (concat ?L). status_phase gr1 n = Some (node_phase ?ex n)"
    using process_from_prefix[of "length ?L" gr ?ex "logged C" "(w2, [])"] assms(4) by force
  then obtain gr2 wl2 where c: "calculateGlobalStatus (logged C) gr1 (w2, []) = (gr2, wl2)"
    and log: "log = [UpdateGraphStatus gr2]"
    using reconcile_levels_ok[OF _ r] by (fastforce simp: processLevels_def)
  have "ns_Phase s = ''Completed''" if s: "s \<in> set (node_statuses gr1)" for s
  proof -
    have "ns_NodeID s \<in> set (concat ?L)"
      using s g(2) assms(5) unfolding statuses_only_def by (metis image_eqI list.set_map)
    moreover from this have "node_phase ?ex (ns_NodeID s) = ''Completed''"
      using assms(4) by (auto simp: level_succeeded_def node_phase_Completed)
    ultimately show ?thesis using g(3) status_phase_all[OF g(2) assms(6) s] by (metis option.inject)
  qed
  with calculateGlobalStatus_phase[OF c] log show ?thesis by auto
qed

theorem Reconcile_completes_witness:
  "\<exists>gr'. log_of chain_run (map (\<lambda>n. node_run chain_run n ''Succeeded'') [''Prep'', ''load'', ''check'']) = [UpdateGraphStatus gr'] \<and>
     gst_Phase (gr_Status gr') = ''Completed''"
proof -
  let ?items = "map (\<lambda>n. node_run chain_run n ''Succeeded'') [''Prep'', ''load'', ''check'']"
  obtain res where r: "Reconcile (logged (steady_client chain_run ?items)) ''krkn'' ''g1'' ((), []) = (res, (), log_of chain_run ?items)"
    using Reconcile_log_of by blast
  have "active_run chain_run" by code_simp
  moreover have "serves (steady_client chain_run ?items) ''krkn'' ''g1'' () chain_run ?items"
    by (simp add: serves_def)
  moreover have "\<forall>level \<in> set (resolved_levels chain_run). level_succeeded (index_runs ?items) level"
    unfolding level_succeeded_def node_phase_Completed[symmetric] by code_simp
  moreover have "ns_NodeID ` set (node_statuses chain_run) = set (concat (resolved_levels chain_run))"
    by code_simp
  moreover have "distinct (map ns_NodeID (node_statuses chain_run))" by code_simp
  ultimately show ?thesis using Reconcile_completes[OF r] by blast
qed

section \<open>Fail-fast\<close>

lemma block_nodes_spec:
  "statuses_only gr (block_nodes ns gr) \<and>
   (\<forall>n \<in> set ns. findNodeStatus gr n \<noteq> None \<longrightarrow> status_phase (block_nodes ns gr) n = Some ''Blocked'') \<and>
   (\<forall>n. n \<notin> set ns \<longrightarrow> findNodeStatus (block_nodes ns gr) n = findNodeStatus gr n)"
proof (induction ns arbitrary: gr)
  case (Cons m ns)
  obtain r gr1 where s: "setNodeStatus gr m ''Blocked'' '''' None None = (r, gr1)" by fastforce
  note sp = setNodeStatus_spec[OF s] and IH = Cons.IH[of gr1]
  have m1: "status_phase gr1 m = Some ''Blocked''" if "findNodeStatus gr m \<noteq> None"
    using sp(2)[of m] that by auto
  then have "status_phase (block_nodes ns gr1) m = Some ''Blocked''" if "findNodeStatus gr m \<noteq> None"
    using IH that status_phase_dom[OF sp(1), of m] by (cases "m \<in> set ns") auto
  moreover have "statuses_only gr (block_nodes ns gr1)" using IH sp(1) statuses_only_trans by blast
  moreover have "findNodeStatus gr1 n = None \<longleftrightarrow> findNodeStatus gr n = None" for n
    using status_phase_dom[OF sp(1)] .
  moreover have "findNodeStatus gr1 n = findNodeStatus gr n" if "n \<noteq> m" for n
    using setNodeStatus_other[OF s that] .
  ultimately show ?case using IH s by simp
qed simp

lemma handleFailFast_spec:
  assumes "handleFailFast C gr k w = ((result, updated, err), gr', w')"
    and "findNodeStatus gr f = Some s" and "ns_Phase s = ''Failed''"
    and "f \<notin> set (concat (drop k (resolved_levels gr)))"
  shows "updated" and "gst_Phase (gr_Status gr') \<in> {''Failed'', ''PartiallyFailed''}"
    and "n \<in> set (concat (drop k (resolved_levels gr))) \<Longrightarrow> findNodeStatus gr n \<noteq> None \<Longrightarrow> status_phase gr' n = Some ''Blocked''"
    and "n \<notin> set (concat (drop k (resolved_levels gr))) \<Longrightarrow> findNodeStatus gr' n = findNodeStatus gr n"
proof -
  let ?ns = "concat (drop k (resolved_levels gr))"
  obtain gr1 w1 where c: "calculateGlobalStatus C (block_nodes ?ns gr) w = (gr1, w1)" by fastforce
  with assms(1) have g: "gr' = gr1" and u: "updated"
    by (auto simp: handleFailFast_def split: prod.splits option.splits api_error.splits)
  note b = block_nodes_spec[of gr ?ns] and p = calculateGlobalStatus_phase[OF c]
  have "findNodeStatus (block_nodes ?ns gr) f = Some s" using b assms(2,4) by metis
  then have "\<exists>s \<in> set (node_statuses (block_nodes ?ns gr)). ns_Phase s = ''Failed''"
    using assms(3) unfolding findNodeStatus_def by (meson find_SomeD)
  then show "gst_Phase (gr_Status gr') \<in> {''Failed'', ''PartiallyFailed''}" using p(5) g by blast
  have f: "findNodeStatus gr1 n = findNodeStatus (block_nodes ?ns gr) n" for n
    using p(1) by (simp add: findNodeStatus_def)
  show "n \<in> set ?ns \<Longrightarrow> findNodeStatus gr n \<noteq> None \<Longrightarrow> status_phase gr' n = Some ''Blocked''"
    "n \<notin> set ?ns \<Longrightarrow> findNodeStatus gr' n = findNodeStatus gr n"
    unfolding g f using b by blast+
  show "updated" by fact
qed

lemma handleFailFast_log:
  assumes "handleFailFast (logged C) gr k wl = ((result, updated, err), gr', wl')"
  shows "snd wl' = snd wl @ [UpdateGraphStatus gr']"
  using assms
  by (auto simp: handleFailFast_def split: prod.splits option.splits api_error.splits
      dest!: calculateGlobalStatus_log log_call_eq)

lemma node_phase_Failed:
  "node_phase ex n = ''Failed'' \<longleftrightarrow>
     (\<exists>run. map_of ex (sanitizeNodeID n) = Some run \<and> sr_Phase (sr_Status run) \<in> {''Failed'', ''PartiallyFailed''})"
  by (auto simp: node_phase_def phase_of_run_def Let_def split: option.splits)

text \<open>
  A failed level that is not the last one stops the run: process \<open>Suc j\<close> levels, then block the rest.
\<close>

lemma processLevels_fail_fast:
  assumes "Suc j < length (resolved_levels gr)"
    and "\<forall>n \<in> set (concat (take (Suc j) (resolved_levels gr))). map_of ex (sanitizeNodeID n) \<noteq> None \<and> findNodeStatus gr n \<noteq> None"
    and "\<forall>k < j. level_succeeded ex (resolved_levels gr ! k)"
    and "f \<in> set (resolved_levels gr ! j)" and "node_phase ex f = ''Failed''"
  shows "\<exists>gr1. processLevels C ex gr w = handleFailFast C gr1 (Suc j) w \<and> statuses_only gr gr1 \<and>
    status_phase gr1 f = Some ''Failed''"
proof -
  let ?L = "resolved_levels gr"
  have mem: "set (?L ! j) \<subseteq> set (concat (take (Suc j) ?L))"
    using assms(1) nth_mem[of j "take (Suc j) ?L"] by auto
  from process_from_prefix[OF less_imp_le[OF assms(1)] assms(2), of C w] assms(3) obtain gr1 where
    g: "process_from C ex 0 ?L gr w = process_from C ex (Suc j) (drop (Suc j) ?L) gr1 w" "statuses_only gr gr1"
    and ph: "\<forall>n \<in> set (concat (take (Suc j) ?L)). status_phase gr1 n = Some (node_phase ex n)" by auto
  have rl: "resolved_levels gr1 = ?L" using statuses_only_frame(3)[OF g(2)] .
  have "\<forall>n \<in> set (resolved_levels gr1 ! j). status_phase gr1 n = Some (node_phase ex n)"
    unfolding rl using ph mem by blast
  from checkPreviousLevel_phases(1)[OF _ this] have "snd (checkPreviousLevel gr1 j)"
    using assms(1,4,5) unfolding rl by (meson Suc_lessD)
  then have "process_from C ex (Suc j) (?L ! Suc j # drop (Suc (Suc j)) ?L) gr1 w = handleFailFast C gr1 (Suc j) w"
    by (simp add: case_prod_beta Let_def)
  with g assms(1) have "processLevels C ex gr w = handleFailFast C gr1 (Suc j) w"
    by (simp add: processLevels_def Cons_nth_drop_Suc)
  moreover have "status_phase gr1 f = Some ''Failed''" using ph subsetD[OF mem assms(4)] assms(5) by metis
  ultimately show ?thesis using g(2) by blast
qed

text \<open>
  C11. Fail-fast: when the levels before \<open>j\<close> succeeded, every node of level \<open>j\<close> has a run and one of
  them failed, and further levels follow, the reconcile creates nothing, it writes the status, and every
  status it writes (a second one, when the API refuses the first) is in a failure phase and has every
  node of every later level \<open>Blocked\<close>. So nothing that depends on the failed node is started.
\<close>

theorem Reconcile_fail_fast:
  assumes "Reconcile (logged C) ns name (w, []) = (res, w', log)"
    and "active_run gr" and "serves C ns name w gr items"
    and "Suc j < length (resolved_levels gr)" and "distinct (concat (resolved_levels gr))"
    and "\<forall>n \<in> set (concat (resolved_levels gr)). findNodeStatus gr n \<noteq> None"
    and "\<forall>k < j. level_succeeded (index_runs items) (resolved_levels gr ! k)"
    and "\<forall>n \<in> set (resolved_levels gr ! j). map_of (index_runs items) (sanitizeNodeID n) \<noteq> None"
    and "f \<in> set (resolved_levels gr ! j)" and "map_of (index_runs items) (sanitizeNodeID f) = Some run"
    and "sr_Phase (sr_Status run) \<in> {''Failed'', ''PartiallyFailed''}"
  shows "log \<noteq> [] \<and> (\<forall>e \<in> set log. \<exists>gr'. e = UpdateGraphStatus gr' \<and>
    gst_Phase (gr_Status gr') \<in> {''Failed'', ''PartiallyFailed''} \<and>
    (\<forall>n \<in> set (concat (drop (Suc j) (resolved_levels gr))). status_phase gr' n = Some ''Blocked''))"
proof -
  let ?L = "resolved_levels gr" and ?ex = "index_runs items"
  obtain w2 where r: "reconcile_levels (logged C) gr ?ex (w2, []) = (res, w', log)"
    using Reconcile_active[OF assms(2,3)] assms(1) by metis
  have "\<forall>n \<in> set (concat (take (Suc j) ?L)). map_of ?ex (sanitizeNodeID n) \<noteq> None \<and> findNodeStatus gr n \<noteq> None"
  proof
    fix n assume "n \<in> set (concat (take (Suc j) ?L))"
    then obtain k where k: "k < Suc j" "k < length ?L" "n \<in> set (?L ! k)" by (blast dest: in_concat_takeD)
    then have "map_of ?ex (sanitizeNodeID n) \<noteq> None"
      using assms(7,8) unfolding level_succeeded_def by (metis less_antisym option.distinct(1))
    moreover have "findNodeStatus gr n \<noteq> None"
      using assms(6) k level_subset_concat by blast
    ultimately show "map_of ?ex (sanitizeNodeID n) \<noteq> None \<and> findNodeStatus gr n \<noteq> None" ..
  qed
  from processLevels_fail_fast[OF assms(4) this assms(7,9), of "logged C" "(w2, [])"] assms(10,11)
  obtain gr1 where p: "processLevels (logged C) ?ex gr (w2, []) = handleFailFast (logged C) gr1 (Suc j) (w2, [])"
    and g: "statuses_only gr gr1" "status_phase gr1 f = Some ''Failed''"
    by (auto simp: node_phase_Failed)
  from g(2) obtain s where s: "findNodeStatus gr1 f = Some s" "ns_Phase s = ''Failed''" by auto
  have rl: "resolved_levels gr1 = ?L" using statuses_only_frame(3)[OF g(1)] .
  have notin: "f \<notin> set (concat (drop (Suc j) (resolved_levels gr1)))"
    unfolding rl using distinct_levels_drop[OF assms(5) _ assms(9)] assms(4) by simp
  obtain result updated err gr' wl where h: "handleFailFast (logged C) gr1 (Suc j) (w2, []) = ((result, updated, err), gr', wl)"
    by (metis surj_pair)
  note hs = handleFailFast_spec[OF h s notin]
  have blocked: "\<forall>n \<in> set (concat (drop (Suc j) ?L)). status_phase gr' n = Some ''Blocked''"
  proof
    fix n assume n: "n \<in> set (concat (drop (Suc j) ?L))"
    then have "findNodeStatus gr1 n \<noteq> None"
      using assms(6) status_phase_dom[OF g(1)] subsetD[OF set_concat_drop_subset n] by metis
    with hs(3) n show "status_phase gr' n = Some ''Blocked''" by (simp add: rl)
  qed
  show ?thesis
  proof (cases err)
    case None
    then have "log = snd wl" using reconcile_levels_updated(2)[OF _ r] p h hs(1) by simp
    with handleFailFast_log[OF h] hs(2) blocked show ?thesis by simp
  next
    case (Some e)
    then have "log = snd wl @ [UpdateGraphStatus (gr'\<lparr>gr_Status := (gr_Status gr')\<lparr>gst_Phase := ''Failed''\<rparr>\<rparr>)]"
      using reconcile_levels_error(2)[OF _ r] p h by simp
    with handleFailFast_log[OF h] hs(2) blocked show ?thesis by (simp add: findNodeStatus_def)
  qed
qed

theorem Reconcile_fail_fast_witness:
  "list_all (\<lambda>e. \<exists>gr'. e = UpdateGraphStatus gr' \<and> gst_Phase (gr_Status gr') \<in> {''Failed'', ''PartiallyFailed''} \<and>
     status_phase gr' ''check'' = Some ''Blocked'') (log_of chain_run [node_run chain_run ''Prep'' ''Failed''])"
proof -
  let ?items = "[node_run chain_run ''Prep'' ''Failed'']"
  obtain res where r: "Reconcile (logged (steady_client chain_run ?items)) ''krkn'' ''g1'' ((), []) = (res, (), log_of chain_run ?items)"
    using Reconcile_log_of by blast
  have a: "active_run chain_run" and l: "Suc 0 < length (resolved_levels chain_run)"
    and d: "distinct (concat (resolved_levels chain_run))"
    and f: "\<forall>n \<in> set (concat (resolved_levels chain_run)). findNodeStatus chain_run n \<noteq> None"
    and o: "\<forall>n \<in> set (resolved_levels chain_run ! 0). map_of (index_runs ?items) (sanitizeNodeID n) \<noteq> None"
    and p: "''Prep'' \<in> set (resolved_levels chain_run ! 0)"
    and m: "map_of (index_runs ?items) (sanitizeNodeID ''Prep'') = Some (node_run chain_run ''Prep'' ''Failed'')"
    and e: "sr_Phase (sr_Status (node_run chain_run ''Prep'' ''Failed'')) \<in> {''Failed'', ''PartiallyFailed''}"
    and c: "''check'' \<in> set (concat (drop (Suc 0) (resolved_levels chain_run)))"
    by code_simp+
  have s: "serves (steady_client chain_run ?items) ''krkn'' ''g1'' () chain_run ?items" by (simp add: serves_def)
  show ?thesis using Reconcile_fail_fast[OF r a s l d f _ o p m e] c unfolding list_all_iff by auto
qed

section \<open>Nodes outside every level\<close>

text \<open>The statuses a reconcile writes.\<close>

definition writes :: "graph_event list \<Rightarrow> KrknGraphRun list" where
  "writes log = concat (map (\<lambda>e. case e of UpdateGraphStatus gr \<Rightarrow> [gr] | _ \<Rightarrow> []) log)"

lemma writes_simps [simp]:
  "writes [] = []" "writes (xs @ ys) = writes xs @ writes ys"
  "writes (CreateRun run # es) = writes es" "writes (UpdateGraphRun gr # es) = writes es"
  "writes (UpdateGraphStatus gr # es) = gr # writes es"
  by (simp_all add: writes_def)

lemma createScenarioRun_writes:
  "createScenarioRun (logged C) gr n wl = (r, gr', wl') \<Longrightarrow> writes (snd wl') = writes (snd wl)"
  by (auto simp: createScenarioRun_def split: option.splits sum.splits prod.splits dest!: log_call_eq)

lemma processNode_writes:
  "processNode (logged C) ex gr n wl = (r, gr', wl') \<Longrightarrow> writes (snd wl') = writes (snd wl)"
  by (auto simp: processNode_def split: option.splits prod.splits dest: createScenarioRun_writes)

lemma process_nodes_writes:
  "process_nodes (logged C) ex ns gr wl = (err, gr', wl') \<Longrightarrow> writes (snd wl') = writes (snd wl)"
  by (induction ns arbitrary: gr wl) (auto split: prod.splits sum.splits dest!: processNode_writes)

text \<open>A node that no level holds keeps its status, and while it is not completed no status says so.\<close>

lemma calculateGlobalStatus_open:
  assumes "calculateGlobalStatus C gr w = (gr', w')" and "status_phase gr x = Some ph" and "ph \<noteq> ''Completed''"
  shows "gst_Phase (gr_Status gr') \<noteq> ''Completed'' \<and> status_phase gr' x = Some ph"
proof -
  obtain s where s: "List.find (\<lambda>s. ns_NodeID s = x) (node_statuses gr) = Some s" "ns_Phase s = ph"
    using assms(2) by (auto simp: findNodeStatus_def)
  then have "s \<in> set (node_statuses gr)" by (blast dest: find_SomeD)
  with calculateGlobalStatus_phase(1,4)[OF assms(1)] s assms(3) show ?thesis
    by (auto simp: findNodeStatus_def)
qed

lemma process_from_open:
  assumes "process_from (logged C) ex i levels gr wl = ((result, updated, err), gr', wl')"
    and "x \<notin> set (concat levels)" and "x \<notin> set (concat (resolved_levels gr))"
    and "status_phase gr x = Some ph" and "ph \<noteq> ''Completed''"
  shows "status_phase gr' x = Some ph \<and> (\<exists>ws. writes (snd wl') = writes (snd wl) @ ws \<and>
    (\<forall>g \<in> set ws. gst_Phase (gr_Status g) \<noteq> ''Completed''))"
  using assms
proof (induction "logged C" ex i levels gr wl arbitrary: result updated err gr' wl' rule: process_from.induct)
  case (2 ex i level levels gr wl)
  let ?chk = "if i > 0 then checkPreviousLevel gr (i - 1) else (True, False)"
  consider (fail) "snd ?chk" | (wait) "\<not> snd ?chk" "\<not> fst ?chk" | (go) "\<not> snd ?chk" "fst ?chk" by blast
  then show ?case
  proof cases
    case fail
    with "2.prems"(1) have h: "handleFailFast (logged C) gr i wl = ((result, updated, err), gr', wl')"
      by (auto simp: case_prod_beta Let_def)
    let ?ns = "concat (drop i (resolved_levels gr))"
    obtain wl1 where c: "calculateGlobalStatus (logged C) (block_nodes ?ns gr) wl = (gr', wl1)"
      using h by (auto simp: handleFailFast_def split: prod.splits option.splits api_error.splits)
    have "x \<notin> set ?ns" using "2.prems"(3) subsetD[OF set_concat_drop_subset] by metis
    then have "status_phase (block_nodes ?ns gr) x = Some ph"
      using "2.prems"(4) block_nodes_spec[of gr ?ns] by metis
    from calculateGlobalStatus_open[OF c this "2.prems"(5)] handleFailFast_log[OF h] show ?thesis
      by (intro conjI exI[of _ "[gr']"]) simp_all
  next
    case wait
    with "2.prems"(1,4) show ?thesis by (auto simp: case_prod_beta Let_def split: if_splits)
  next
    case go
    obtain e gr1 wl1 where p: "process_nodes (logged C) ex level gr wl = (e, gr1, wl1)" by (metis surj_pair)
    have st: "status_phase gr1 x = Some ph" and rl: "resolved_levels gr1 = resolved_levels gr"
      using process_nodes_log[OF p] "2.prems"(2,4) statuses_only_frame(3) by auto
    show ?thesis
    proof (cases e)
      case (Some e')
      with go p "2.prems"(1) have "gr' = gr1" "wl' = wl1" by (auto simp: case_prod_beta Let_def)
      with st process_nodes_writes[OF p] show ?thesis by simp
    next
      case None
      with go p "2.prems"(1) have rest: "process_from (logged C) ex (Suc i) levels gr1 wl1 = ((result, updated, err), gr', wl')"
        by (simp add: case_prod_beta Let_def)
      from "2.hyps"[OF refl prod.collapse go(1) _ p[symmetric] None refl rest] show ?thesis
        using go(2) "2.prems"(2,3,5) st rl process_nodes_writes[OF p] by simp
    qed
  qed
qed simp

lemma reconcile_levels_open:
  assumes "reconcile_levels (logged C) gr ex (w, []) = (res, w', log)"
    and "x \<notin> set (concat (resolved_levels gr))" and "status_phase gr x = Some ph" and "ph \<noteq> ''Completed''"
  shows "\<forall>g \<in> set (writes log). gst_Phase (gr_Status g) \<noteq> ''Completed''"
proof -
  obtain result updated err gr1 wl1 where
    p: "processLevels (logged C) ex gr (w, []) = ((result, updated, err), gr1, wl1)" by (metis surj_pair)
  then have o: "status_phase gr1 x = Some ph" "\<forall>g \<in> set (writes (snd wl1)). gst_Phase (gr_Status g) \<noteq> ''Completed''"
    using process_from_open[of C ex 0 "resolved_levels gr" gr "(w, [])"] assms(2-4)
    by (auto simp: processLevels_def)
  show ?thesis
  proof (cases err)
    case (Some e)
    from reconcile_levels_error(2)[OF p[unfolded Some] assms(1)] o(2) show ?thesis by simp
  next
    case None
    show ?thesis
    proof (cases updated)
      case True
      from reconcile_levels_updated(2)[OF p[unfolded None True[THEN eqTrueI]] assms(1)] o(2) show ?thesis by simp
    next
      case False
      then have "processLevels (logged C) ex gr (w, []) = ((result, False, None), gr1, wl1)" using p None by simp
      from reconcile_levels_ok[OF this assms(1)] obtain gr2 wl2 where
        c: "calculateGlobalStatus (logged C) gr1 wl1 = (gr2, wl2)" and "log = snd wl1 @ [UpdateGraphStatus gr2]" by blast
      with calculateGlobalStatus_open[OF c o(1) assms(4)] o(2) show ?thesis by auto
    qed
  qed
qed

text \<open>
  A node that no level holds keeps the graph run open: whatever the API answers, as long as such a
  node has an uncompleted status, no status the reconcile writes is \<open>Completed\<close>. (Resolution leaves
  such nodes behind: an isolated node beside a dependency chain is in no level.)
\<close>

theorem Reconcile_unplaced_never_completes:
  assumes "Reconcile (logged C) ns name (w, []) = (res, w', log)"
    and "active_run gr" and "serves C ns name w gr items"
    and "x \<notin> set (concat (resolved_levels gr))"
    and "findNodeStatus gr x = Some s" and "ns_Phase s \<noteq> ''Completed''"
  shows "UpdateGraphStatus gr' \<in> set log \<longrightarrow> gst_Phase (gr_Status gr') \<noteq> ''Completed''"
proof
  assume "UpdateGraphStatus gr' \<in> set log"
  then have mem: "gr' \<in> set (writes log)" by (force simp: writes_def)
  obtain w2 where "reconcile_levels (logged C) gr (index_runs items) (w2, []) = (res, w', log)"
    using Reconcile_active[OF assms(2,3)] assms(1) by metis
  from reconcile_levels_open[OF this assms(4) _ assms(6)] assms(5) mem
  show "gst_Phase (gr_Status gr') \<noteq> ''Completed''" by auto
qed

definition island_run :: KrknGraphRun where
  "island_run = running_graph_run ((''island'', sample_node None) # chain_graph) [[''Prep''], [''load''], [''check'']]"

theorem Reconcile_unplaced_never_completes_witness:
  "(case ResolveGraph (gspec_Graph (gr_Spec island_run)) of Inr levels \<Rightarrow> resolved_levels island_run = levels | Inl e \<Rightarrow> False) \<and>
   list_all (\<lambda>gr'. gst_Phase (gr_Status gr') \<noteq> ''Completed'')
     (writes (log_of island_run (map (\<lambda>n. node_run island_run n ''Succeeded'') [''Prep'', ''load'', ''check''])))"
proof
  show "case ResolveGraph (gspec_Graph (gr_Spec island_run)) of Inr levels \<Rightarrow> resolved_levels island_run = levels | Inl e \<Rightarrow> False"
    by code_simp
  let ?items = "map (\<lambda>n. node_run island_run n ''Succeeded'') [''Prep'', ''load'', ''check'']"
  obtain res where r: "Reconcile (logged (steady_client island_run ?items)) ''krkn'' ''g1'' ((), []) = (res, (), log_of island_run ?items)"
    using Reconcile_log_of by blast
  have a: "active_run island_run" and n: "''island'' \<notin> set (concat (resolved_levels island_run))"
    and f: "findNodeStatus island_run ''island'' = Some (initial_node_status (''island'', sample_node None))"
    and p: "ns_Phase (initial_node_status (''island'', sample_node None)) \<noteq> ''Completed''"
    by code_simp+
  have s: "serves (steady_client island_run ?items) ''krkn'' ''g1'' () island_run ?items" by (simp add: serves_def)
  show "list_all (\<lambda>gr'. gst_Phase (gr_Status gr') \<noteq> ''Completed'') (writes (log_of island_run ?items))"
    using Reconcile_unplaced_never_completes[OF r a s n f p]
    by (auto simp: list_all_iff writes_def split: graph_event.splits)
qed

section \<open>Errors\<close>

text \<open>
  Every error met while the levels of an active run are processed, transient or not (a name that a
  stale cache has not shown yet, a refused connection), ends the run: the reconcile returns the error
  and the last thing it writes is a status in phase \<open>Failed\<close>, unless the error is the API's refusal of
  the final status itself.
\<close>

theorem Reconcile_error_is_persisted:
  assumes "Reconcile (logged C) ns name (w, []) = ((result, Some e), w', log)"
    and "active_run gr" and "serves C ns name w gr items"
  shows "result = no_requeue \<and> (\<exists>gr'. log \<noteq> [] \<and> last log = UpdateGraphStatus gr' \<and>
    (gst_Phase (gr_Status gr') = ''Failed'' \<or>
     (\<exists>a w0. e = ApiFailure a \<and> gc_StatusUpdate C gr' w0 = (Some a, w'))))"
proof -
  obtain w2 where r: "reconcile_levels (logged C) gr (index_runs items) (w2, []) = ((result, Some e), w', log)"
    using Reconcile_active[OF assms(2,3)] assms(1) by metis
  obtain res updated err gr1 wl1 where
    p: "processLevels (logged C) (index_runs items) gr (w2, []) = ((res, updated, err), gr1, wl1)" by (metis surj_pair)
  show ?thesis
  proof (cases err)
    case (Some e')
    note re = reconcile_levels_error[OF p[unfolded Some] r]
    show ?thesis unfolding re(2) using re(1) by simp
  next
    case None
    show ?thesis
    proof (cases updated)
      case True
      from reconcile_levels_updated(1)[OF p[unfolded None True[THEN eqTrueI]] r] show ?thesis by simp
    next
      case False
      obtain gr2 wl2 where c: "calculateGlobalStatus (logged C) gr1 wl1 = (gr2, wl2)" by (metis surj_pair)
      obtain a w3 where u: "gc_StatusUpdate C gr2 (fst wl2) = (a, w3)" by (metis surj_pair)
      have "((result, Some e), w', log) =
        (case a of None \<Rightarrow> ((res, None), w3, snd wl2 @ [UpdateGraphStatus gr2])
         | Some Conflict \<Rightarrow> ((requeue_now, None), w3, snd wl2 @ [UpdateGraphStatus gr2])
         | Some x \<Rightarrow> ((no_requeue, Some (ApiFailure x)), w3, snd wl2 @ [UpdateGraphStatus gr2]))"
        unfolding r[symmetric] reconcile_levels_def p None using False
        by (simp add: c u log_call_def)
      then have "result = no_requeue \<and> a = Some (the a) \<and> e = ApiFailure (the a) \<and> w' = w3 \<and>
          log = snd wl2 @ [UpdateGraphStatus gr2]"
        by (cases a rule: option.exhaust; cases "the a") simp_all
      with u show ?thesis by (metis append_is_Nil_conv last_snoc not_Cons_self2)
    qed
  qed
qed

definition refusing_client :: "KrknGraphRun \<Rightarrow> KrknScenarioRun list \<Rightarrow> api_error \<Rightarrow> unit graph_client" where
  "refusing_client gr items e = (steady_client gr items)\<lparr>gc_Create := (\<lambda>_ w. (Some e, w))\<rparr>"

theorem Reconcile_error_is_persisted_witness:
  "\<exists>log gr'. Reconcile (logged (refusing_client chain_run [] AlreadyExists)) ''krkn'' ''g1'' ((), []) =
       ((no_requeue, Some (ApiFailure AlreadyExists)), (), log) \<and>
     last log = UpdateGraphStatus gr' \<and> gst_Phase (gr_Status gr') = ''Failed''"
proof -
  let ?C = "refusing_client chain_run [] AlreadyExists"
  obtain res log where r: "Reconcile (logged ?C) ''krkn'' ''g1'' ((), []) = (res, (), log)"
    by (cases "Reconcile (logged ?C) ''krkn'' ''g1'' ((), [])") auto
  moreover have "fst (Reconcile (logged ?C) ''krkn'' ''g1'' ((), [])) = (no_requeue, Some (ApiFailure AlreadyExists))"
    by code_simp
  ultimately have R: "Reconcile (logged ?C) ''krkn'' ''g1'' ((), []) = ((no_requeue, Some (ApiFailure AlreadyExists)), (), log)" by simp
  have a: "active_run chain_run" by code_simp
  have s: "serves ?C ''krkn'' ''g1'' () chain_run []" by (simp add: serves_def refusing_client_def)
  from Reconcile_error_is_persisted[OF R a s] R show ?thesis
    by (auto simp: refusing_client_def steady_client_def)
qed

section \<open>Lifecycle\<close>

lemma resolveGraph_log:
  assumes "ResolveGraph (gspec_Graph (gr_Spec gr)) = Inr levels"
  shows "\<exists>err gr' w'. resolveGraph (logged C) gr (w, []) = (err, gr', w', [UpdateGraphStatus gr']) \<and>
    resolved_levels gr' = levels \<and>
    map ns_NodeID (node_statuses gr') = filter (\<lambda>n. \<not> metadata_node n) (map fst (gspec_Graph (gr_Spec gr))) \<and>
    (\<forall>s \<in> set (node_statuses gr'). ns_Phase s = ''Pending'')"
proof -
  let ?ss = "map initial_node_status (filter (\<lambda>(nodeID, node). \<not> metadata_node nodeID) (gspec_Graph (gr_Spec gr)))"
  define gr' where "gr' = gr\<lparr>gr_Status := (gr_Status gr)\<lparr>gst_ResolvedLevels := levels, gst_NodeStatuses := ?ss\<rparr>\<rparr>"
  obtain a w' where u: "gc_StatusUpdate C gr' w = (a, w')" by fastforce
  have "\<exists>err. resolveGraph (logged C) gr (w, []) = (err, gr', w', [UpdateGraphStatus gr'])"
    unfolding resolveGraph_def assms Let_def sum.case gr'_def[symmetric]
    by (cases a; cases "the a") (simp_all add: log_call_def u)
  moreover have "map ns_NodeID ?ss = filter (\<lambda>n. \<not> metadata_node n) (map fst (gspec_Graph (gr_Spec gr)))"
    by (induction "gspec_Graph (gr_Spec gr)") (auto simp: initial_node_status_def filter_map comp_def case_prod_beta)
  moreover have "\<forall>s \<in> set ?ss. ns_Phase s = ''Pending''" by (auto simp: initial_node_status_def)
  ultimately show ?thesis by (auto simp: gr'_def)
qed

lemma Reconcile_unresolved_log:
  assumes "Reconcile (logged C) ns name (w, []) = (res, w', log)" and g: "gc_Get C ns name w = (Inr gr, w1)"
    and p: "DeletionTimestamp (gr_meta gr) = None" "has_finalizer gr" "gst_Phase (gr_Status gr) = ''Pending''" "resolved_levels gr = []"
  shows "case ResolveGraph (gspec_Graph (gr_Spec gr)) of
      Inl e \<Rightarrow> log = [UpdateGraphStatus (gr\<lparr>gr_Status := (gr_Status gr)\<lparr>gst_Phase := ''Failed''\<rparr>\<rparr>)]
    | Inr levels \<Rightarrow> (\<exists>gr' rest. log = UpdateGraphStatus gr' # rest \<and> resolved_levels gr' = levels \<and>
        map ns_NodeID (node_statuses gr') = filter (\<lambda>n. \<not> metadata_node n) (map fst (gspec_Graph (gr_Spec gr))) \<and>
        (\<forall>s \<in> set (node_statuses gr'). ns_Phase s = ''Pending''))"
proof -
  note R = assms(1)[unfolded Reconcile_def logged_simps log_call_def fst_conv g, simplified]
  show ?thesis
  proof (cases "ResolveGraph (gspec_Graph (gr_Spec gr))")
    case (Inl e)
    with R p show ?thesis
      by (auto simp: isTerminalPhase_def resolveGraph_def updateStatusWithError_def log_call_def split: prod.splits)
  next
    case (Inr levels)
    from resolveGraph_log[OF this, of C w1] obtain err gr' w2 where
      rg: "resolveGraph (logged C) gr (w1, []) = (err, gr', w2, [UpdateGraphStatus gr'])" and
      q: "resolved_levels gr' = levels"
      "map ns_NodeID (node_statuses gr') = filter (\<lambda>n. \<not> metadata_node n) (map fst (gspec_Graph (gr_Spec gr)))"
      "\<forall>s \<in> set (node_statuses gr'). ns_Phase s = ''Pending''" by blast
    have "\<exists>rest. log = UpdateGraphStatus gr' # rest"
      using R p rg by (cases err) (auto simp: isTerminalPhase_def updateStatusWithError_def log_call_def split: prod.splits)
    with q Inr show ?thesis by auto
  qed
qed

text \<open>
  The lifecycle branches: a run that is being deleted only loses its finalizer, a run without
  finalizer only gains it, a run in a terminal phase is left alone, and a run whose graph is unresolved
  gets the levels and one pending status per node or, when resolution fails, the phase \<open>Failed\<close>; none of
  them creates a scenario run.
\<close>

theorem Reconcile_lifecycle:
  assumes "Reconcile (logged C) ns name (w, []) = (res, w', log)" and "gc_Get C ns name w = (Inr gr, w1)"
  shows "(DeletionTimestamp (gr_meta gr) \<noteq> None \<longrightarrow>
      log = (if has_finalizer gr then [UpdateGraphRun (remove_finalizer gr)] else [])) \<and>
    (DeletionTimestamp (gr_meta gr) = None \<and> \<not> has_finalizer gr \<longrightarrow> log = [UpdateGraphRun (add_finalizer gr)]) \<and>
    (DeletionTimestamp (gr_meta gr) = None \<and> has_finalizer gr \<and> isTerminalPhase (gst_Phase (gr_Status gr)) \<longrightarrow>
      res = (no_requeue, None) \<and> w' = w1 \<and> log = []) \<and>
    (DeletionTimestamp (gr_meta gr) = None \<and> has_finalizer gr \<and> gst_Phase (gr_Status gr) = ''Pending'' \<and> resolved_levels gr = [] \<longrightarrow>
      (case ResolveGraph (gspec_Graph (gr_Spec gr)) of
         Inl e \<Rightarrow> log = [UpdateGraphStatus (gr\<lparr>gr_Status := (gr_Status gr)\<lparr>gst_Phase := ''Failed''\<rparr>\<rparr>)]
       | Inr levels \<Rightarrow> (\<exists>gr' rest. log = UpdateGraphStatus gr' # rest \<and> resolved_levels gr' = levels \<and>
           map ns_NodeID (node_statuses gr') = filter (\<lambda>n. \<not> metadata_node n) (map fst (gspec_Graph (gr_Spec gr))) \<and>
           (\<forall>s \<in> set (node_statuses gr'). ns_Phase s = ''Pending'')))) \<and>
    (\<not> active_run gr \<longrightarrow> creates log = [])"
proof -
  have g: "gc_Get (logged C) ns name (w, []) = (Inr gr, w1, [])" by (simp add: log_call_def assms(2))
  note R = assms(1)[unfolded Reconcile_def g, simplified]
  have a: "log = (if has_finalizer gr then [UpdateGraphRun (remove_finalizer gr)] else [])"
    if "DeletionTimestamp (gr_meta gr) \<noteq> None"
    using R that by (auto simp: log_call_def split: if_splits prod.splits option.splits)
  have b: "log = [UpdateGraphRun (add_finalizer gr)]"
    if "DeletionTimestamp (gr_meta gr) = None \<and> \<not> has_finalizer gr"
    using R that by (auto simp: log_call_def split: if_splits prod.splits option.splits)
  have c: "res = (no_requeue, None) \<and> w' = w1 \<and> log = []"
    if "DeletionTimestamp (gr_meta gr) = None \<and> has_finalizer gr \<and> isTerminalPhase (gst_Phase (gr_Status gr))"
    using R that by (auto simp: isTerminalPhase_def split: if_splits)
  note d = Reconcile_unresolved_log[OF assms]
  have e: "creates log = []" if "\<not> active_run gr"
    using Reconcile_inactive_creates[OF assms that] .
  show ?thesis using a b c d e by blast
qed

definition pending_chain_run :: KrknGraphRun where
  "pending_chain_run = chain_run\<lparr>gr_Status := (gr_Status (new_graph_run chain_graph))\<lparr>gst_Phase := ''Pending''\<rparr>\<rparr>"

theorem Reconcile_lifecycle_witness:
  "\<exists>gr' rest. log_of pending_chain_run [] = UpdateGraphStatus gr' # rest \<and>
     resolved_levels gr' = [[''Prep''], [''load''], [''check'']] \<and>
     map ns_NodeID (node_statuses gr') = [''Prep'', ''load'', ''check'']"
proof -
  obtain res where r: "Reconcile (logged (steady_client pending_chain_run [])) ''krkn'' ''g1'' ((), []) = (res, (), log_of pending_chain_run [])"
    using Reconcile_log_of by blast
  have c: "DeletionTimestamp (gr_meta pending_chain_run) = None \<and> has_finalizer pending_chain_run \<and>
      gst_Phase (gr_Status pending_chain_run) = ''Pending'' \<and> resolved_levels pending_chain_run = []"
    by code_simp
  have l: "ResolveGraph (gspec_Graph (gr_Spec pending_chain_run)) = Inr [[''Prep''], [''load''], [''check'']]" by code_simp
  have f: "filter (\<lambda>n. \<not> metadata_node n) (map fst (gspec_Graph (gr_Spec pending_chain_run))) = [''Prep'', ''load'', ''check'']"
    by code_simp
  note L = Reconcile_lifecycle[OF r steady_client_simps(1), THEN conjunct2, THEN conjunct2, THEN conjunct2,
      THEN conjunct1, THEN mp, OF c, unfolded l f sum.case]
  show ?thesis using L by (elim exE conjE) (intro exI conjI)
qed

end
