(* ===== verification/Json.thy ===== *)
theory Json
  imports Prelude "HOL-Library.Char_ord" "HOL-Library.List_Lexorder"
begin

text \<open>
  Go's \<open>encoding/json\<close>, as far as the operator uses it: \<open>json.Marshal\<close> of strings, structs with string
  fields and string-keyed maps (keys in byte order, HTML escaping on), and \<open>json.Unmarshal\<close> (the scanner
  with its nesting limit, string unquoting with surrogate pairs and replacement of invalid UTF-8, and
  the conversion to maps, strings and one-field structs, whose names match up to case).
\<close>

section \<open>UTF-8\<close>

text \<open>Length in bytes of the rune a string starts with, 0 where there is no valid encoding.\<close>

definition between :: "nat \<Rightarrow> nat \<Rightarrow> char \<Rightarrow> bool" where
  "between lo hi c \<longleftrightarrow> lo \<le> code c \<and> code c \<le> hi"

definition conts :: "nat \<Rightarrow> string \<Rightarrow> bool" where
  "conts n s \<longleftrightarrow> n \<le> length s \<and> list_all (between 0x80 0xBF) (take n s)"

definition second_ok :: "nat \<Rightarrow> nat \<Rightarrow> string \<Rightarrow> bool" where
  "second_ok lo hi s \<longleftrightarrow> s \<noteq> [] \<and> between lo hi (hd s)"

text \<open>Number of continuation bytes a first byte asks for, and the range of the second byte.\<close>

definition rune_class :: "char \<Rightarrow> (nat \<times> nat \<times> nat) option" where
  "rune_class c =
    (if code c < 0x80 then Some (0, 0, 0)
     else if between 0xC2 0xDF c then Some (1, 0x80, 0xBF)
     else if code c = 0xE0 then Some (2, 0xA0, 0xBF)
     else if code c = 0xED then Some (2, 0x80, 0x9F)
     else if between 0xE1 0xEF c then Some (2, 0x80, 0xBF)
     else if code c = 0xF0 then Some (3, 0x90, 0xBF)
     else if between 0xF1 0xF3 c then Some (3, 0x80, 0xBF)
     else if code c = 0xF4 then Some (3, 0x80, 0x8F)
     else None)"

fun utf8_width :: "string \<Rightarrow> nat" where
  "utf8_width [] = 0"
| "utf8_width (c # cs) =
     (case rune_class c of
        None \<Rightarrow> 0
      | Some (n, lo, hi) \<Rightarrow>
          if n = 0 then 1 else if second_ok lo hi cs \<and> conts n cs then Suc n else 0)"

lemma utf8_width_le: "utf8_width s \<le> length s"
  by (cases s) (auto simp: utf8_width.simps conts_def split: option.splits)

lemma utf8_width_ascii [simp]: "code c < 0x80 \<Longrightarrow> utf8_width (c # cs) = 1"
  by (simp add: rune_class_def)

declare utf8_width.simps(2) [simp del]

function valid_utf8 :: "string \<Rightarrow> bool" where
  "valid_utf8 s = (if s = [] then True
     else if utf8_width s = 0 then False else valid_utf8 (drop (utf8_width s) s))"
  by pat_completeness auto
termination
  by (relation "measure length") auto

declare valid_utf8.simps [simp del]

text \<open>\<open>utf8.AppendRune\<close> for a code point up to U+10FFFF that is not a surrogate.\<close>

definition utf8_encode :: "nat \<Rightarrow> string" where
  "utf8_encode u =
    (if u < 0x80 then [char_of u]
     else if u < 0x800 then [char_of (0xC0 + u div 64), char_of (0x80 + u mod 64)]
     else if u < 0x10000 then
       [char_of (0xE0 + u div 4096), char_of (0x80 + (u div 64) mod 64), char_of (0x80 + u mod 64)]
     else [char_of (0xF0 + u div 262144), char_of (0x80 + (u div 4096) mod 64),
           char_of (0x80 + (u div 64) mod 64), char_of (0x80 + u mod 64)])"

definition replacement :: string where
  "replacement = [CHR 0xEF, CHR 0xBF, CHR 0xBD]"

section \<open>Writing strings\<close>

definition hex_digit :: "nat \<Rightarrow> char" where
  "hex_digit n = (if n < 10 then char_of (48 + n) else char_of (87 + n))"

definition escape_ascii :: "char \<Rightarrow> string" where
  "escape_ascii c =
    (if c = CHR 0x5C \<or> c = CHR 0x22 then [CHR 0x5C, c]
     else if c = CHR 0x08 then [CHR 0x5C, CHR ''b'']
     else if c = CHR 0x0C then [CHR 0x5C, CHR ''f'']
     else if c = CHR 0x0A then [CHR 0x5C, CHR ''n'']
     else if c = CHR 0x0D then [CHR 0x5C, CHR ''r'']
     else if c = CHR 0x09 then [CHR 0x5C, CHR ''t'']
     else if code c < 32 \<or> c = CHR ''<'' \<or> c = CHR ''>'' \<or> c = CHR 0x26
     then [CHR 0x5C, CHR ''u'', CHR ''0'', CHR ''0'', hex_digit (code c div 16), hex_digit (code c mod 16)]
     else [c])"

definition line_separator :: "string \<Rightarrow> bool" where
  "line_separator s \<longleftrightarrow> take 3 s = [CHR 0xE2, CHR 0x80, CHR 0xA8] \<or> take 3 s = [CHR 0xE2, CHR 0x80, CHR 0xA9]"

function escape :: "string \<Rightarrow> string" where
  "escape [] = []"
| "escape (c # cs) =
    (if code c < 0x80 then escape_ascii c @ escape cs
     else if utf8_width (c # cs) = 0 then [CHR 0x5C] @ ''ufffd'' @ escape cs
     else if line_separator (c # cs)
     then [CHR 0x5C] @ ''u202'' @ [hex_digit (code (cs ! 1) mod 16)] @ escape (drop 2 cs)
     else take (utf8_width (c # cs)) (c # cs) @ escape (drop (utf8_width (c # cs) - 1) cs))"
  by pat_completeness auto
termination
  by (relation "measure length") (auto)

definition quoted :: "string \<Rightarrow> string" where
  "quoted s = CHR 0x22 # escape s @ [CHR 0x22]"

section \<open>Reading strings\<close>

definition hex_value :: "char \<Rightarrow> nat option" where
  "hex_value c =
    (if is_digit c then Some (code c - 48)
     else if 97 \<le> code c \<and> code c \<le> 102 then Some (code c - 87)
     else if 65 \<le> code c \<and> code c \<le> 70 then Some (code c - 55)
     else None)"

definition hex4 :: "string \<Rightarrow> (nat \<times> string) option" where
  "hex4 s =
    (case s of
       a # b # c # d # rest \<Rightarrow>
         (case (hex_value a, hex_value b, hex_value c, hex_value d) of
            (Some w, Some x, Some y, Some z) \<Rightarrow> Some (((w * 16 + x) * 16 + y) * 16 + z, rest)
          | _ \<Rightarrow> None)
     | _ \<Rightarrow> None)"

lemma hex4_shorter: "hex4 s = Some (u, rest) \<Longrightarrow> length rest < length s"
  by (auto simp: hex4_def split: list.splits option.splits)

definition simple_escape :: "char \<Rightarrow> char option" where
  "simple_escape e =
    (if e = CHR 0x22 \<or> e = CHR 0x5C \<or> e = CHR ''/'' then Some e
     else if e = CHR ''b'' then Some (CHR 0x08)
     else if e = CHR ''f'' then Some (CHR 0x0C)
     else if e = CHR ''n'' then Some (CHR 0x0A)
     else if e = CHR ''r'' then Some (CHR 0x0D)
     else if e = CHR ''t'' then Some (CHR 0x09)
     else None)"

definition high_surrogate :: "nat \<Rightarrow> bool" where
  "high_surrogate u \<longleftrightarrow> 0xD800 \<le> u \<and> u < 0xDC00"

definition low_surrogate :: "nat \<Rightarrow> bool" where
  "low_surrogate u \<longleftrightarrow> 0xDC00 \<le> u \<and> u < 0xE000"

text \<open>The rune a \<open>\u\<close> escape stands for and what is left: a surrogate pair is read as one.\<close>

definition escaped_rune :: "nat \<Rightarrow> string \<Rightarrow> string \<times> string" where
  "escaped_rune u rest =
    (if high_surrogate u \<or> low_surrogate u then
       (case (if take 2 rest = [CHR 0x5C, CHR ''u''] then hex4 (drop 2 rest) else None) of
          Some (v, rest') \<Rightarrow>
            if high_surrogate u \<and> low_surrogate v
            then (utf8_encode (0x10000 + (u - 0xD800) * 1024 + (v - 0xDC00)), rest')
            else (replacement, rest)
        | None \<Rightarrow> (replacement, rest))
     else (utf8_encode u, rest))"

lemma escaped_rune_shorter: "length (snd (escaped_rune u rest)) \<le> length rest"
  by (auto simp: escaped_rune_def dest: hex4_shorter split: option.splits)

text \<open>The body of a string literal, after its opening quote, and what follows the closing one.\<close>

function read_string :: "string \<Rightarrow> (string \<times> string) option" where
  "read_string [] = None"
| "read_string (c # cs) =
    (if c = CHR 0x22 then Some ([], cs)
     else if c = CHR 0x5C then
       (case cs of
          [] \<Rightarrow> None
        | e # es \<Rightarrow>
            if e = CHR ''u'' then
              (case hex4 es of
                 None \<Rightarrow> None
               | Some (u, rest) \<Rightarrow>
                   map_option (map_prod (append (fst (escaped_rune u rest))) id)
                     (read_string (snd (escaped_rune u rest))))
            else (case simple_escape e of
                    None \<Rightarrow> None
                  | Some x \<Rightarrow> map_option (map_prod (Cons x) id) (read_string es)))
     else if code c < 0x20 then None
     else if utf8_width (c # cs) = 0 then map_option (map_prod (append replacement) id) (read_string cs)
     else map_option (map_prod (append (take (utf8_width (c # cs)) (c # cs))) id)
            (read_string (drop (utf8_width (c # cs) - 1) cs)))"
  by pat_completeness auto
termination
  by (relation "measure length")
    (auto dest!: hex4_shorter
       intro!: le_imp_less_Suc[OF order.trans[OF escaped_rune_shorter]])

lemma utf8_width_take: "0 < utf8_width s \<Longrightarrow> utf8_width (take (utf8_width s) s @ r) = utf8_width s"
  by (cases s) (auto simp: utf8_width.simps conts_def second_ok_def hd_append split: option.splits if_splits)

declare code_char_of [simp]

lemma char_of_code [simp]: "char_of (code c) = c"
  by (simp add: code_def)

lemma hex_value_digit: "n < 16 \<Longrightarrow> hex_value (hex_digit n) = Some n"
  by (auto simp: hex_value_def hex_digit_def is_digit_def)

lemma read_escape_ascii:
  assumes "code c < 0x80"
  shows "read_string (escape_ascii c @ r) = map_option (map_prod (Cons c) id) (read_string r)"
proof -
  have hx: "hex_value CHR ''0'' = Some 0" by code_simp
  have "(code c div 16) < 16" "code c mod 16 < 16" using assms by auto
  moreover have "code c div 16 * 16 + code c mod 16 = code c" by simp
  moreover have "\<not> high_surrogate (code c)" "\<not> low_surrogate (code c)"
    using assms by (auto simp: high_surrogate_def low_surrogate_def)
  ultimately have hex: "hex4 (''00'' @ [hex_digit (code c div 16), hex_digit (code c mod 16)] @ r) = Some (code c, r)"
    "escaped_rune (code c) r = ([c], r)"
    using assms by (simp_all add: hex4_def hx hex_value_digit escaped_rune_def utf8_encode_def)
  show ?thesis
    using assms hex
    by (auto simp: escape_ascii_def simple_escape_def map_prod_def option.map_comp split: if_splits)
qed

lemma separator_cases:
  assumes "line_separator (c # cs)"
  obtains rest where "c # cs = [CHR 0xE2, CHR 0x80, CHR 0xA8] @ rest"
    | rest where "c # cs = [CHR 0xE2, CHR 0x80, CHR 0xA9] @ rest"
  using assms unfolding line_separator_def by (metis append_take_drop_id)

lemma separator_rune:
  "d \<in> {CHR 0xA8, CHR 0xA9} \<Longrightarrow> code d mod 16 < 16 \<and> 0x2020 + code d mod 16 < 0xD800 \<and>
     utf8_encode (0x2020 + code d mod 16) = [CHR 0xE2, CHR 0x80, d] \<and> utf8_width ([CHR 0xE2, CHR 0x80, d] @ rest) = 3"
  by (auto simp: utf8_width.simps utf8_encode_def code_def rune_class_def between_def second_ok_def conts_def char_of_def bit_0)

lemma read_separator:
  assumes "d \<in> {CHR 0xA8, CHR 0xA9}"
  shows "read_string ([CHR 0x5C] @ ''u202'' @ [hex_digit (code d mod 16)] @ r)
     = map_option (map_prod (append [CHR 0xE2, CHR 0x80, d]) id) (read_string r)"
proof -
  have hx: "hex_value CHR ''2'' = Some 2" "hex_value CHR ''0'' = Some 0" by code_simp+
  have h: "hex4 (''202'' @ [hex_digit (code d mod 16)] @ r) = Some (0x2020 + code d mod 16, r)"
    by (simp add: hex4_def hx hex_value_digit)
  have "escaped_rune (0x2020 + code d mod 16) r = ([CHR 0xE2, CHR 0x80, d], r)"
    using separator_rune[OF assms, of r]
    by (simp add: escaped_rune_def high_surrogate_def low_surrogate_def)
  with h show ?thesis by simp
qed

lemma valid_utf8_step:
  "valid_utf8 (c # cs) \<Longrightarrow> 0 < utf8_width (c # cs) \<and> valid_utf8 (drop (utf8_width (c # cs) - 1) cs)"
  by (subst (asm) valid_utf8.simps) (auto simp: drop_Cons' split: if_splits)

text \<open>Reading back what was written gives the string, for every valid UTF-8 string.\<close>

lemma read_escape:
  "valid_utf8 s \<Longrightarrow> read_string (escape s @ CHR 0x22 # r) = Some (s, r)"
proof (induction s rule: escape.induct)
  case (2 c cs)
  let ?n = "utf8_width (c # cs)"
  note v = valid_utf8_step[OF "2.prems"]
  consider (ascii) "code c < 0x80" | (sep) "\<not> code c < 0x80" "line_separator (c # cs)"
    | (plain) "\<not> code c < 0x80" "\<not> line_separator (c # cs)" by blast
  then show ?case
  proof cases
    case ascii
    with v have "valid_utf8 cs" by simp
    with 2(1) ascii show ?thesis by (simp add: read_escape_ascii)
  next
    case sep
    from sep(2) obtain d rest where d: "c # cs = [CHR 0xE2, CHR 0x80, d] @ rest" "d \<in> {CHR 0xA8, CHR 0xA9}"
      by (cases rule: separator_cases) auto
    then have n: "?n = 3" using separator_rune[OF d(2)] by metis
    with v d(1) have "valid_utf8 (drop 2 cs)" "cs ! 1 = d" "drop 2 cs = rest" by auto
    with 2(3)[OF sep(1) _ sep(2)] n sep d read_separator[OF d(2), of "escape rest @ CHR 0x22 # r"]
    show ?thesis by simp
  next
    case plain
    have n: "0 < ?n" using v by simp
    with 2(4)[OF plain(1) _ plain(2)] v have IH: "read_string (escape (drop (?n - 1) cs) @ CHR 0x22 # r) = Some (drop (?n - 1) cs, r)"
      by simp
    define t where "t = escape (drop (?n - 1) cs) @ CHR 0x22 # r"
    have tk: "take ?n (c # cs) = c # take (?n - 1) cs" using n by (cases ?n) auto
    have w: "utf8_width (c # take (?n - 1) cs @ t) = ?n"
      using utf8_width_take[of "c # cs" t] n unfolding tk by simp
    have len: "length (take (?n - 1) cs) = ?n - 1" using utf8_width_le[of "c # cs"] by simp
    have ne: "c \<noteq> CHR 0x22" "c \<noteq> CHR 0x5C" "\<not> code c < 0x20" using plain(1) by (auto simp: code_def)
    have "read_string (c # take (?n - 1) cs @ t) = Some (take ?n (c # cs) @ drop (?n - 1) cs, r)"
      using ne n w len IH unfolding t_def[symmetric] tk
      by (simp add: take_Cons')
    moreover have "take ?n (c # cs) @ drop (?n - 1) cs = c # cs" unfolding tk by simp
    ultimately show ?thesis
      using plain n by (simp add: tk t_def del: read_string.simps)
  qed
qed simp

section \<open>Values\<close>

datatype json = JNull | JBool bool | JNum string | JStr string | JArr "json list" | JObj "(string \<times> json) list"

definition is_space :: "char \<Rightarrow> bool" where
  "is_space c \<longleftrightarrow> c = CHR '' '' \<or> c = CHR 0x09 \<or> c = CHR 0x0A \<or> c = CHR 0x0D"

definition skip_space :: "string \<Rightarrow> string" where
  "skip_space s = dropWhile is_space s"

text \<open>
  Numbers: an optional sign, an integer without leading zeros, an optional fraction and an optional
  exponent. Each part is split off the input, or fails.
\<close>

definition digits :: "string \<Rightarrow> (string \<times> string) option" where
  "digits s = (let d = takeWhile is_digit s in if d = [] then None else Some (d, dropWhile is_digit s))"

definition int_part :: "string \<Rightarrow> (string \<times> string) option" where
  "int_part s = (if take 1 s = ''0'' then Some (''0'', drop 1 s) else digits s)"

definition frac_part :: "string \<Rightarrow> (string \<times> string) option" where
  "frac_part s =
    (if take 1 s = ''.'' then map_option (map_prod (Cons CHR ''.'') id) (digits (drop 1 s)) else Some ([], s))"

definition exp_part :: "string \<Rightarrow> (string \<times> string) option" where
  "exp_part s =
    (if take 1 s = ''e'' \<or> take 1 s = ''E'' then
       (if take 1 (drop 1 s) = ''+'' \<or> take 1 (drop 1 s) = ''-''
        then map_option (map_prod (append (take 2 s)) id) (digits (drop 2 s))
        else map_option (map_prod (append (take 1 s)) id) (digits (drop 1 s)))
     else Some ([], s))"

definition read_number :: "string \<Rightarrow> (string \<times> string) option" where
  "read_number s =
    (let sign = (if take 1 s = ''-'' then ''-'' else '''') in
     case int_part (drop (length sign) s) of
       None \<Rightarrow> None
     | Some (i, r1) \<Rightarrow>
       (case frac_part r1 of
          None \<Rightarrow> None
        | Some (f, r2) \<Rightarrow>
          (case exp_part r2 of
             None \<Rightarrow> None
           | Some (e, r3) \<Rightarrow> Some (sign @ i @ f @ e, r3))))"

text \<open>
  The scanner allows 10000 open arrays and objects; \<open>depth\<close> counts those that may still be opened. The
  recursion is bounded by the length of the input through \<open>fuel\<close>: every call consumes a byte.
\<close>

fun read_value :: "nat \<Rightarrow> int \<Rightarrow> string \<Rightarrow> (json \<times> string) option"
  and read_elements :: "nat \<Rightarrow> int \<Rightarrow> string \<Rightarrow> (json list \<times> string) option"
  and read_members :: "nat \<Rightarrow> int \<Rightarrow> string \<Rightarrow> ((string \<times> json) list \<times> string) option" where
  "read_value 0 depth s = None"
| "read_value (Suc fuel) depth s =
    (case skip_space s of
       [] \<Rightarrow> None
     | c # cs \<Rightarrow>
         if c = CHR 0x22 then map_option (map_prod JStr id) (read_string cs)
         else if c = CHR 0x7B then
           (if depth \<le> 0 then None
            else if take 1 (skip_space cs) = [CHR 0x7D] then Some (JObj [], drop 1 (skip_space cs))
            else map_option (map_prod JObj id) (read_members fuel (depth - 1) cs))
         else if c = CHR 0x5B then
           (if depth \<le> 0 then None
            else if take 1 (skip_space cs) = [CHR 0x5D] then Some (JArr [], drop 1 (skip_space cs))
            else map_option (map_prod JArr id) (read_elements fuel (depth - 1) cs))
         else if take 4 (c # cs) = ''true'' then Some (JBool True, drop 3 cs)
         else if take 5 (c # cs) = ''false'' then Some (JBool False, drop 4 cs)
         else if take 4 (c # cs) = ''null'' then Some (JNull, drop 3 cs)
         else map_option (map_prod JNum id) (read_number (c # cs)))"
| "read_elements 0 depth s = None"
| "read_elements (Suc fuel) depth s =
    (case read_value fuel depth s of
       None \<Rightarrow> None
     | Some (v, r) \<Rightarrow>
         (case skip_space r of
            [] \<Rightarrow> None
          | c # cs \<Rightarrow>
              if c = CHR '','' then map_option (map_prod (Cons v) id) (read_elements fuel depth cs)
              else if c = CHR 0x5D then Some ([v], cs)
              else None))"
| "read_members 0 depth s = None"
| "read_members (Suc fuel) depth s =
    (case skip_space s of
       [] \<Rightarrow> None
     | q # qs \<Rightarrow>
         if q \<noteq> CHR 0x22 then None
         else (case read_string qs of
            None \<Rightarrow> None
          | Some (k, r1) \<Rightarrow>
              if take 1 (skip_space r1) \<noteq> '':'' then None
              else (case read_value fuel depth (drop 1 (skip_space r1)) of
                 None \<Rightarrow> None
               | Some (v, r2) \<Rightarrow>
                   (case skip_space r2 of
                      [] \<Rightarrow> None
                    | c # cs \<Rightarrow>
                        if c = CHR '','' then map_option (map_prod (Cons (k, v)) id) (read_members fuel depth cs)
                        else if c = CHR 0x7D then Some ([(k, v)], cs)
                        else None))))"

text \<open>A document is one value and nothing but space after it.\<close>

definition parse_json :: "string \<Rightarrow> json option" where
  "parse_json s =
    (case read_value (Suc (length s)) 10000 s of
       None \<Rightarrow> None
     | Some (v, r) \<Rightarrow> if skip_space r = [] then Some v else None)"

section \<open>Writing values\<close>

fun join_with :: "char \<Rightarrow> string list \<Rightarrow> string" where
  "join_with c [] = []"
| "join_with c [s] = s"
| "join_with c (s # ss) = s @ c # join_with c ss"

text \<open>The writers for strings and string-keyed maps; the entries of a map come in byte order of the keys.\<close>

definition members_text :: "('v \<Rightarrow> string) \<Rightarrow> (string \<times> 'v) list \<Rightarrow> string" where
  "members_text f kvs = join_with CHR '','' (map (\<lambda>(k, v). quoted k @ '':'' @ f v) kvs)"

definition write_object :: "('v \<Rightarrow> string) \<Rightarrow> (string \<times> 'v) list \<Rightarrow> string" where
  "write_object f kvs = CHR 0x7B # members_text f kvs @ [CHR 0x7D]"

definition marshal_map :: "('v \<Rightarrow> string) \<Rightarrow> (string, 'v) gomap \<Rightarrow> string" where
  "marshal_map f m = write_object f (sort_key fst m)"

section \<open>Conversion to Go values\<close>

text \<open>
  \<open>Unmarshal\<close> into a string, a map and a struct with one field, each a function of the old value of
  the variable; \<open>None\<close> is an error. \<open>null\<close> leaves a string or struct as it is and makes a map nil, which
  reads like the empty one; the elements of a map start from their zero value. A field name matches up
  to simple case folding: besides the ASCII pairs, U+212A folds to \<open>K\<close> and U+017F to \<open>S\<close>.
\<close>

type_synonym 'a decoder = "'a \<Rightarrow> json \<Rightarrow> 'a option"

fun into_string :: "string decoder" where
  "into_string old JNull = Some old"
| "into_string old (JStr s) = Some s"
| "into_string old v = None"

fun collect :: "'a decoder \<Rightarrow> 'a \<Rightarrow> (string \<times> json) list \<Rightarrow> (string, 'a) gomap \<Rightarrow> (string, 'a) gomap option" where
  "collect f zero [] m = Some m"
| "collect f zero ((k, v) # kvs) m =
     (case f zero v of None \<Rightarrow> None | Some a \<Rightarrow> collect f zero kvs (AList.update k a m))"

fun into_map :: "'a decoder \<Rightarrow> 'a \<Rightarrow> (string, 'a) gomap decoder" where
  "into_map f zero old JNull = Some []"
| "into_map f zero old (JObj kvs) = collect f zero kvs old"
| "into_map f zero old v = None"

definition upper_ascii :: "char \<Rightarrow> char" where
  "upper_ascii c = (if is_lower c then char_of (code c - 32) else c)"

function fold_name :: "string \<Rightarrow> string" where
  "fold_name [] = []"
| "fold_name (c # cs) =
     (if c = CHR 0xC5 \<and> take 1 cs = [CHR 0xBF] then CHR ''S'' # fold_name (drop 1 cs)
      else if c = CHR 0xE2 \<and> take 2 cs = [CHR 0x84, CHR 0xAA] then CHR ''K'' # fold_name (drop 2 cs)
      else upper_ascii c # fold_name cs)"
  by pat_completeness auto
termination
  by (relation "measure length") auto

fun set_field :: "string \<Rightarrow> 'a decoder \<Rightarrow> (string \<times> json) list \<Rightarrow> 'a \<Rightarrow> 'a option" where
  "set_field name f [] old = Some old"
| "set_field name f ((k, v) # kvs) old =
     (if fold_name k \<noteq> fold_name name then set_field name f kvs old
      else case f old v of None \<Rightarrow> None | Some a \<Rightarrow> set_field name f kvs a)"

fun into_struct :: "string \<Rightarrow> 'a decoder \<Rightarrow> 'a decoder" where
  "into_struct name f old JNull = Some old"
| "into_struct name f old (JObj kvs) = set_field name f kvs old"
| "into_struct name f old v = None"

definition unmarshal :: "'a decoder \<Rightarrow> 'a \<Rightarrow> string \<Rightarrow> 'a option" where
  "unmarshal f zero s = Option.bind (parse_json s) (f zero)"

section \<open>Round trips\<close>

text \<open>
  The interface of a codec: a writer and a decoder such that every text the writer produces for a good
  value is read back, whatever follows it, as a tree the decoder turns into what it keeps of the value
  (maps come back with their keys in order, a struct keeps one member of an object). Strings are
  a codec, and maps and one-field structs over a codec are.
\<close>

locale json_codec =
  fixes enc :: "'b \<Rightarrow> string" and dec :: "'a decoder" and zero :: 'a and good :: "'b \<Rightarrow> bool"
    and norm :: "'b \<Rightarrow> 'a" and nesting :: int
  assumes nesting_pos: "0 \<le> nesting"
    and read_enc: "good a \<Longrightarrow> nesting \<le> depth \<Longrightarrow> length (enc a) \<le> fuel \<Longrightarrow>
      \<exists>v. read_value fuel depth (enc a @ r) = Some (v, r) \<and> dec zero v = Some (norm a)"
begin

lemma unmarshal_enc:
  assumes "good a" "nesting \<le> 10000"
  shows "unmarshal dec zero (enc a) = Some (norm a)"
proof -
  obtain v where "read_value (Suc (length (enc a))) 10000 (enc a @ []) = Some (v, [])" "dec zero v = Some (norm a)"
    using read_enc[of a 10000 "Suc (length (enc a))" "[]"] assms by auto
  then show ?thesis by (simp add: unmarshal_def parse_json_def skip_space_def del: read_value.simps)
qed

end

lemma read_quoted:
  "valid_utf8 s \<Longrightarrow> 0 < fuel \<Longrightarrow> read_value fuel depth (quoted s @ r) = Some (JStr s, r)"
proof -
  assume v: "valid_utf8 s" and "0 < fuel"
  then obtain n where "fuel = Suc n" by (cases fuel) auto
  moreover have "skip_space (CHR 0x22 # x) = CHR 0x22 # x" for x
    by (simp add: skip_space_def is_space_def)
  ultimately show ?thesis using read_escape[OF v, of r] by (simp add: quoted_def)
qed

interpretation str: json_codec quoted into_string "''''" valid_utf8 id 0
proof unfold_locales
  fix s :: string and depth fuel r
  assume "valid_utf8 s" "length (quoted s) \<le> fuel"
  then show "\<exists>v. read_value fuel depth (quoted s @ r) = Some (v, r) \<and> into_string '''' v = Some (id s)"
    using read_quoted[of s fuel depth r] by (simp add: quoted_def del: read_value.simps)
qed simp

lemma join_with_Cons: "join_with c (s # ss) = s @ (if ss = [] then [] else c # join_with c ss)"
  by (cases ss) auto

lemma members_text_Cons:
  "members_text f ((k, v) # kvs) =
     CHR 0x22 # escape k @ CHR 0x22 # CHR '':'' # f v @ (if kvs = [] then [] else CHR '','' # members_text f kvs)"
  by (simp add: members_text_def join_with_Cons quoted_def)

lemma map_of_sort_key [simp]: "gomap_wf m \<Longrightarrow> map_of (sort_key fst m) = map_of m"
  by (intro map_of_inject_set[THEN iffD2]) (auto simp: gomap_wf_def distinct_map distinct_sort inj_on_def)

context json_codec
begin

text \<open>The members of an object, up to and including the closing brace.\<close>

lemma read_members_enc:
  assumes "kvs \<noteq> []" "\<And>k a. (k, a) \<in> set kvs \<Longrightarrow> valid_utf8 k \<and> good a" "nesting \<le> depth"
    and "length (members_text enc kvs) < fuel"
  shows "\<exists>vs. read_members fuel depth (members_text enc kvs @ CHR 0x7D # r) = Some (vs, r)
     \<and> list_all2 (\<lambda>(k, a) (k', v). k' = k \<and> dec zero v = Some (norm a)) kvs vs"
  using assms
proof (induction kvs arbitrary: fuel)
  case (Cons kv kvs)
  obtain k a where kv: "kv = (k, a)" by (cases kv)
  obtain n where n: "fuel = Suc n" using Cons.prems(4) by (cases fuel) auto
  let ?rest = "if kvs = [] then CHR 0x7D # r else CHR '','' # members_text enc kvs @ CHR 0x7D # r"
  have ka: "valid_utf8 k" "good a" using Cons.prems(2)[of k a] kv by auto
  have tx: "members_text enc (kv # kvs) @ CHR 0x7D # r =
     CHR 0x22 # escape k @ CHR 0x22 # CHR '':'' # enc a @ ?rest"
    by (simp add: kv members_text_Cons)
  have len: "length (enc a) \<le> n" "kvs \<noteq> [] \<Longrightarrow> length (members_text enc kvs) < n"
    using Cons.prems(4) n by (auto simp: kv members_text_Cons)
  obtain v where v: "read_value n depth (enc a @ ?rest) = Some (v, ?rest)" "dec zero v = Some (norm a)"
    using read_enc[OF ka(2) Cons.prems(3) len(1), of ?rest] by blast
  have sk: "skip_space (CHR 0x22 # x) = CHR 0x22 # x" "skip_space (CHR '':'' # x) = CHR '':'' # x"
    "skip_space (CHR 0x7D # x) = CHR 0x7D # x" "skip_space (CHR '','' # x) = CHR '','' # x" for x
    by (simp_all add: skip_space_def is_space_def)
  show ?case
  proof (cases "kvs = []")
    case True
    then show ?thesis unfolding tx n using v ka kv by (simp add: sk read_escape)
  next
    case False
    obtain vs where vs: "read_members n depth (members_text enc kvs @ CHR 0x7D # r) = Some (vs, r)"
      "list_all2 (\<lambda>(k, a) (k', v). k' = k \<and> dec zero v = Some (norm a)) kvs vs"
      using Cons.IH[OF False _ Cons.prems(3) len(2)[OF False]] Cons.prems(2) by auto
    with False show ?thesis unfolding tx n using v ka kv by (simp add: sk read_escape)
  qed
qed simp

lemma read_object_enc:
  assumes "\<And>k a. (k, a) \<in> set kvs \<Longrightarrow> valid_utf8 k \<and> good a" "nesting + 1 \<le> depth" "length (write_object enc kvs) \<le> fuel"
  shows "\<exists>vs. read_value fuel depth (write_object enc kvs @ r) = Some (JObj vs, r)
     \<and> list_all2 (\<lambda>(k, a) (k', v). k' = k \<and> dec zero v = Some (norm a)) kvs vs"
proof -
  obtain n where n: "fuel = Suc n" using assms(3) by (cases fuel) (auto simp: write_object_def)
  have sk: "skip_space (CHR 0x7B # x) = CHR 0x7B # x" "skip_space (CHR 0x22 # x) = CHR 0x22 # x"
    "skip_space (CHR 0x7D # x) = CHR 0x7D # x" for x
    by (simp_all add: skip_space_def is_space_def)
  have d: "\<not> depth \<le> 0" using assms(2) nesting_pos by simp
  show ?thesis
  proof (cases "kvs = []")
    case True
    then show ?thesis using n d by (simp add: write_object_def members_text_def sk)
  next
    case False
    have "length (members_text enc kvs) < n"
      using assms(3) n by (simp add: write_object_def)
    then obtain vs where vs: "read_members n (depth - 1) (members_text enc kvs @ CHR 0x7D # r) = Some (vs, r)"
      "list_all2 (\<lambda>(k, a) (k', v). k' = k \<and> dec zero v = Some (norm a)) kvs vs"
      using read_members_enc[OF False assms(1), of "depth - 1" n r] assms(2) by auto
    obtain x xs where "kvs = x # xs" using False by (cases kvs) auto
    then obtain t where t: "members_text enc kvs @ CHR 0x7D # r = CHR 0x22 # t"
      by (cases x) (auto simp: members_text_Cons)
    show ?thesis using vs d unfolding n by (simp add: write_object_def sk t)
  qed
qed

lemma collect_decoded:
  "list_all2 (\<lambda>(k, a) (k', v). k' = k \<and> dec zero v = Some (norm a)) kvs vs \<Longrightarrow>
   collect dec zero vs m = Some (fold (\<lambda>(k, a). AList.update k a) (map (\<lambda>(k, a). (k, norm a)) kvs) m)"
  by (induction kvs vs arbitrary: m rule: list_all2_induct) auto

lemma map_codec:
  "json_codec (marshal_map enc) (into_map dec zero) [] (\<lambda>m. gomap_wf m \<and> list_all (\<lambda>(k, a). valid_utf8 k \<and> good a) m)
     (\<lambda>m. map (\<lambda>(k, a). (k, norm a)) (sort_key fst m)) (nesting + 1)"
proof
  show "0 \<le> nesting + 1" using nesting_pos by simp
next
  fix m :: "(string, 'b) gomap" and depth fuel r
  let ?kvs = "sort_key fst m"
  assume m: "gomap_wf m \<and> list_all (\<lambda>(k, a). valid_utf8 k \<and> good a) m" and d: "nesting + 1 \<le> depth"
    and f: "length (marshal_map enc m) \<le> fuel"
  have "\<And>k a. (k, a) \<in> set ?kvs \<Longrightarrow> valid_utf8 k \<and> good a" using m by (auto simp: list_all_iff)
  then obtain vs where vs: "read_value fuel depth (marshal_map enc m @ r) = Some (JObj vs, r)"
    "list_all2 (\<lambda>(k, a) (k', v). k' = k \<and> dec zero v = Some (norm a)) ?kvs vs"
    using read_object_enc[of ?kvs depth fuel r] d f by (auto simp: marshal_map_def)
  have "distinct (map fst ?kvs)"
    using m by (simp add: gomap_wf_def distinct_map distinct_sort inj_on_def)
  then have dd: "distinct (map fst (map (\<lambda>(k, a). (k, norm a)) ?kvs))"
    by (simp add: comp_def case_prod_unfold)
  have "into_map dec zero [] (JObj vs) = Some (map (\<lambda>(k, a). (k, norm a)) ?kvs)"
    using collect_decoded[OF vs(2), of "[]"] fold_update_fresh[OF dd, of "[]"] by simp
  with vs(1) show "\<exists>v. read_value fuel depth (marshal_map enc m @ r) = Some (v, r) \<and>
      into_map dec zero [] v = Some (map (\<lambda>(k, a). (k, norm a)) ?kvs)" by blast
qed

lemma struct_codec:
  assumes "valid_utf8 name"
  shows "json_codec (\<lambda>a. write_object enc [(name, a)]) (into_struct name dec) zero good norm (nesting + 1)"
proof
  show "0 \<le> nesting + 1" using nesting_pos by simp
next
  fix a :: 'b and depth fuel r
  assume a: "good a" and d: "nesting + 1 \<le> depth" and f: "length (write_object enc [(name, a)]) \<le> fuel"
  obtain vs where vs: "read_value fuel depth (write_object enc [(name, a)] @ r) = Some (JObj vs, r)"
    "list_all2 (\<lambda>(k, a) (k', v). k' = k \<and> dec zero v = Some (norm a)) [(name, a)] vs"
    using read_object_enc[of "[(name, a)]" depth fuel r] assms a d f by auto
  then obtain v where "vs = [(name, v)]" "dec zero v = Some (norm a)"
    by (auto simp: list_all2_Cons1)
  with vs(1) show "\<exists>v. read_value fuel depth (write_object enc [(name, a)] @ r) = Some (v, r) \<and>
      into_struct name dec zero v = Some (norm a)" by auto
qed

lemma set_field_decoded:
  "list_all2 (\<lambda>(k, a) (k', v). k' = k \<and> dec zero v = Some (norm a)) kvs vs \<Longrightarrow> distinct (map fst kvs) \<Longrightarrow>
   (\<And>k. k \<in> set (map fst kvs) \<Longrightarrow> fold_name k = fold_name name \<Longrightarrow> k = name) \<Longrightarrow> name \<notin> set (map fst kvs) \<or> old = zero \<Longrightarrow>
   set_field name dec vs old = Some (case map_of kvs name of None \<Rightarrow> old | Some a \<Rightarrow> norm a)"
proof (induction kvs vs arbitrary: old rule: list_all2_induct)
  case (Cons x xs y ys)
  obtain k a v where xy: "x = (k, a)" "y = (k, v)" "dec zero v = Some (norm a)" using Cons(1) by (cases x; cases y) auto
  have xs: "\<And>k. k \<in> set (map fst xs) \<Longrightarrow> fold_name k = fold_name name \<Longrightarrow> k = name" using Cons.prems(2) by simp
  show ?case
  proof (cases "k = name")
    case True
    then have n: "map_of xs name = None" "name \<notin> set (map fst xs)" using Cons.prems(1) xy by (auto simp: map_of_eq_None_iff)
    have "set_field name dec ys (norm a) = Some (norm a)" using Cons.IH[OF _ xs] n Cons.prems(1) by auto
    with True xy Cons.prems(3) show ?thesis by auto
  next
    case False
    then have "fold_name k \<noteq> fold_name name" using Cons.prems(2)[of k] xy by auto
    then have "set_field name dec (y # ys) old = set_field name dec ys old" using xy by simp
    also have "\<dots> = Some (case map_of xs name of None \<Rightarrow> old | Some a \<Rightarrow> norm a)"
      using Cons.prems(1,3) xy by (intro Cons.IH[OF _ xs]) auto
    finally show ?thesis using False xy by simp
  qed
qed simp

text \<open>A struct that keeps one member of an object written from a map.\<close>

lemma field_codec:
  "json_codec (marshal_map enc) (into_struct name dec) zero
     (\<lambda>m. gomap_wf m \<and> list_all (\<lambda>(k, a). valid_utf8 k \<and> good a \<and> (fold_name k = fold_name name \<longrightarrow> k = name)) m)
     (\<lambda>m. case map_of m name of None \<Rightarrow> zero | Some a \<Rightarrow> norm a) (nesting + 1)"
proof
  show "0 \<le> nesting + 1" using nesting_pos by simp
next
  fix m :: "(string, 'b) gomap" and depth fuel r
  let ?kvs = "sort_key fst m"
  assume m: "gomap_wf m \<and> list_all (\<lambda>(k, a). valid_utf8 k \<and> good a \<and> (fold_name k = fold_name name \<longrightarrow> k = name)) m"
    and d: "nesting + 1 \<le> depth" and f: "length (marshal_map enc m) \<le> fuel"
  have ok: "\<And>k a. (k, a) \<in> set ?kvs \<Longrightarrow> valid_utf8 k \<and> good a" using m by (auto simp: list_all_iff)
  have nm: "\<And>k. k \<in> set (map fst ?kvs) \<Longrightarrow> fold_name k = fold_name name \<Longrightarrow> k = name" using m by (force simp: list_all_iff)
  obtain vs where vs: "read_value fuel depth (marshal_map enc m @ r) = Some (JObj vs, r)"
    "list_all2 (\<lambda>(k, a) (k', v). k' = k \<and> dec zero v = Some (norm a)) ?kvs vs"
    using read_object_enc[of ?kvs depth fuel r, OF ok d] f unfolding marshal_map_def by blast
  have wf: "gomap_wf m" using m by blast
  then have "distinct (map fst ?kvs)" by (simp add: gomap_wf_def distinct_map distinct_sort inj_on_def)
  from set_field_decoded[OF vs(2) this nm, of zero]
  have "set_field name dec vs zero = Some (case map_of ?kvs name of None \<Rightarrow> zero | Some a \<Rightarrow> norm a)" by blast
  then have "into_struct name dec zero (JObj vs) = Some (case map_of m name of None \<Rightarrow> zero | Some a \<Rightarrow> norm a)"
    unfolding map_of_sort_key[OF wf] by simp
  with vs(1) show "\<exists>v. read_value fuel depth (marshal_map enc m @ r) = Some (v, r) \<and>
      into_struct name dec zero v = Some (case map_of m name of None \<Rightarrow> zero | Some a \<Rightarrow> norm a)" by blast
qed

end

lemma valid_utf8_ascii: "list_all (\<lambda>c. code c < 0x80) s \<Longrightarrow> valid_utf8 s"
proof (induction s)
  case Nil then show ?case by (simp add: valid_utf8.simps)
next
  case (Cons c s)
  then have "utf8_width (c # s) = 1" "valid_utf8 s" by simp_all
  then show ?case by (subst valid_utf8.simps) simp
qed

end
