(* ===== verification/Core_Types.thy ===== *)
theory Core_Types
  imports API_Types
begin

text \<open>
  The Kubernetes core objects the operator creates and reads: config maps, secrets and pods, with the
  fields the operator sets or looks at.
\<close>

record ConfigMap =
  cm_meta :: object_meta
  cm_Data :: "(string, string) gomap"

record Secret =
  sec_meta :: object_meta
  sec_Type :: string
  sec_Data :: "(string, string) gomap"

record EnvVar =
  ev_Name :: string
  ev_Value :: string

datatype volume_source = ConfigMapVolume string | EmptyDirVolume

record Volume =
  vol_Name :: string
  vol_Source :: volume_source

record VolumeMount =
  vm_Name :: string
  vm_MountPath :: string
  vm_SubPath :: string

record Container =
  con_Name :: string
  con_Image :: string
  con_Env :: "EnvVar list"
  con_VolumeMounts :: "VolumeMount list"
  con_ImagePullPolicy :: string

record ContainerStateTerminated =
  term_ExitCode :: int
  term_Reason :: string
  term_Message :: string

record ContainerStateWaiting =
  wait_Reason :: string
  wait_Message :: string

record ContainerStatus =
  cs_Terminated :: "ContainerStateTerminated option"
  cs_Waiting :: "ContainerStateWaiting option"

record Pod =
  pod_meta :: object_meta
  pod_ServiceAccountName :: string
  pod_RestartPolicy :: string
  pod_ImagePullSecrets :: "string list"
  pod_RunAsUser :: int
  pod_RunAsGroup :: int
  pod_FSGroup :: int
  pod_Containers :: "Container list"
  pod_Volumes :: "Volume list"
  pod_Phase :: string
  pod_ContainerStatuses :: "ContainerStatus list"

text \<open>The settings of krknctl that the controllers read.\<close>

record krknctl_config =
  cfg_KubeconfigPath :: string
  cfg_QuayHost :: string
  cfg_QuayOrg :: string
  cfg_QuayScenarioRegistry :: string

end
