(* ===== verification/Managed_Clusters.thy ===== *)
theory Managed_Clusters
  imports Json Core_Types
begin

text \<open>
  The \<open>managed-clusters\<close> document, through which the providers of target clusters hand kubeconfigs to
  the rest of the operator: an object of providers, each an object of clusters, each an object of
  strings. The target request controller writes it (\<open>map[string]map[string]map[string]string\<close>); the
  scenario run controller and the REST API read the member \<open>kubeconfig\<close> of the innermost objects.
\<close>

type_synonym managed_clusters = "(string, (string, (string, string) gomap) gomap) gomap"

definition encode_managed_clusters :: "managed_clusters \<Rightarrow> string" where
  "encode_managed_clusters = marshal_map (marshal_map (marshal_map quoted))"

definition decode_managed_clusters :: "string \<Rightarrow> (string, (string, string) gomap) gomap option" where
  "decode_managed_clusters = unmarshal (into_map (into_map (into_struct ''kubeconfig'' into_string) '''') []) []"

text \<open>Documents that survive the way: valid UTF-8, and no second spelling of \<open>kubeconfig\<close>.\<close>

definition good_entry :: "(string, string) gomap \<Rightarrow> bool" where
  "good_entry e \<longleftrightarrow> gomap_wf e \<and>
     list_all (\<lambda>(k, v). valid_utf8 k \<and> valid_utf8 v \<and> (fold_name k = fold_name ''kubeconfig'' \<longrightarrow> k = ''kubeconfig'')) e"

definition good_clusters :: "(string, (string, string) gomap) gomap \<Rightarrow> bool" where
  "good_clusters cs \<longleftrightarrow> gomap_wf cs \<and> list_all (\<lambda>(k, e). valid_utf8 k \<and> good_entry e) cs"

definition good_document :: "managed_clusters \<Rightarrow> bool" where
  "good_document m \<longleftrightarrow> gomap_wf m \<and> list_all (\<lambda>(k, cs). valid_utf8 k \<and> good_clusters cs) m"

definition kubeconfig_of :: "(string, string) gomap \<Rightarrow> string" where
  "kubeconfig_of e = (case map_of e ''kubeconfig'' of None \<Rightarrow> '''' | Some s \<Rightarrow> s)"

definition clusters_view :: "(string, (string, string) gomap) gomap \<Rightarrow> (string, string) gomap" where
  "clusters_view cs = map (\<lambda>(c, e). (c, kubeconfig_of e)) (sort_key fst cs)"

interpretation entry: json_codec "marshal_map quoted" "into_struct ''kubeconfig'' into_string" "''''"
  good_entry kubeconfig_of 1
proof -
  have "good_entry = (\<lambda>m. gomap_wf m \<and> list_all (\<lambda>(k, a). valid_utf8 k \<and> valid_utf8 a \<and>
      (fold_name k = fold_name ''kubeconfig'' \<longrightarrow> k = ''kubeconfig'')) m)"
    by (simp add: good_entry_def fun_eq_iff)
  moreover have "kubeconfig_of = (\<lambda>m. case map_of m ''kubeconfig'' of None \<Rightarrow> '''' | Some a \<Rightarrow> id a)"
    by (simp add: kubeconfig_of_def fun_eq_iff split: option.splits)
  ultimately show "json_codec (marshal_map quoted) (into_struct ''kubeconfig'' into_string) '''' good_entry kubeconfig_of 1"
    using str.field_codec[of "''kubeconfig''"] by simp
qed

interpretation clusters: json_codec "marshal_map (marshal_map quoted)"
  "into_map (into_struct ''kubeconfig'' into_string) ''''" "[]" good_clusters clusters_view 2
proof -
  have "good_clusters = (\<lambda>m. gomap_wf m \<and> list_all (\<lambda>(k, a). valid_utf8 k \<and> good_entry a) m)"
    "clusters_view = (\<lambda>m. map (\<lambda>(k, a). (k, kubeconfig_of a)) (sort_key fst m))"
    by (simp_all add: good_clusters_def clusters_view_def fun_eq_iff)
  then show "json_codec (marshal_map (marshal_map quoted)) (into_map (into_struct ''kubeconfig'' into_string) '''') [] good_clusters clusters_view 2"
    using entry.map_codec by simp
qed

interpretation document: json_codec encode_managed_clusters
  "into_map (into_map (into_struct ''kubeconfig'' into_string) '''') []" "[]" good_document
  "\<lambda>m. map (\<lambda>(p, cs). (p, clusters_view cs)) (sort_key fst m)" 3
proof -
  have "good_document = (\<lambda>m. gomap_wf m \<and> list_all (\<lambda>(k, a). valid_utf8 k \<and> good_clusters a) m)"
    by (simp add: good_document_def fun_eq_iff)
  then show "json_codec encode_managed_clusters (into_map (into_map (into_struct ''kubeconfig'' into_string) '''') []) [] good_document
     (\<lambda>m. map (\<lambda>(p, cs). (p, clusters_view cs)) (sort_key fst m)) 3"
    unfolding encode_managed_clusters_def using clusters.map_codec by simp
qed

text \<open>What a reader of the document finds for a provider and a cluster.\<close>

definition lookup_kubeconfig :: "(string, (string, string) gomap) gomap \<Rightarrow> string \<Rightarrow> string \<Rightarrow> string option" where
  "lookup_kubeconfig m provider cluster = Option.bind (map_of m provider) (\<lambda>cs. map_of cs cluster)"

lemma map_of_clusters_view: "gomap_wf cs \<Longrightarrow> map_of (clusters_view cs) c = map_option kubeconfig_of (map_of cs c)"
  by (simp add: clusters_view_def map_of_map_snd)

lemma decode_encode_managed:
  assumes "good_document m"
  shows "\<exists>d. decode_managed_clusters (encode_managed_clusters m) = Some d \<and>
    (\<forall>p. map_of d p = map_option clusters_view (map_of m p))"
proof -
  have "gomap_wf m" using assms by (simp add: good_document_def)
  then have "map_of (map (\<lambda>(p, cs). (p, clusters_view cs)) (sort_key fst m)) p = map_option clusters_view (map_of m p)" for p
    by (simp add: map_of_map_snd)
  then show ?thesis
    using document.unmarshal_enc[OF assms] unfolding decode_managed_clusters_def by auto
qed

lemma good_document_lookup:
  "good_document m \<Longrightarrow> map_of m p = Some cs \<Longrightarrow> good_clusters cs"
  by (auto simp: good_document_def list_all_iff dest: map_of_SomeD)

lemma lookup_decoded:
  assumes "good_document m"
  shows "\<exists>d. decode_managed_clusters (encode_managed_clusters m) = Some d \<and>
    lookup_kubeconfig d p c = map_option kubeconfig_of (Option.bind (map_of m p) (\<lambda>cs. map_of cs c))"
proof -
  obtain d where d: "decode_managed_clusters (encode_managed_clusters m) = Some d"
    "\<And>p. map_of d p = map_option clusters_view (map_of m p)" using decode_encode_managed[OF assms] by blast
  have "gomap_wf cs" if "map_of m p = Some cs" for cs
    using good_document_lookup[OF assms that] by (simp add: good_clusters_def)
  with d show ?thesis
    by (cases "map_of m p") (auto simp: lookup_kubeconfig_def map_of_clusters_view)
qed

end
