(* ===== verification/Go_Std.thy ===== *)
theory Go_Std
  imports Prelude "HOL-Library.Word"
begin

text \<open>
  What the operator uses of Go's standard library beside \<open>strings\<close>: decimal formatting
  (\<open>fmt\<close>'s \<open>%d\<close>), 64-bit signed arithmetic, differences of instants, \<open>time.ParseDuration\<close> and
  \<open>encoding/base64\<close>.
\<close>

section \<open>Signed 64-bit integers\<close>

text \<open>The value of an \<open>int64\<close> computation whose mathematical result is \<open>x\<close>.\<close>

definition wrap64 :: "int \<Rightarrow> int" where
  "wrap64 x = sint (word_of_int x :: 64 word)"

text \<open>\<open>1 << n\<close> as an \<open>int64\<close>: the bit leaves the word at 64.\<close>

definition shl64 :: "nat \<Rightarrow> int" where
  "shl64 n = sint (push_bit n 1 :: 64 word)"

lemma wrap64_id: "- (2 ^ 63) \<le> x \<Longrightarrow> x < 2 ^ 63 \<Longrightarrow> wrap64 x = x"
  unfolding wrap64_def by (simp add: sint_sbintrunc' signed_take_bit_int_eq_self)

lemma wrap64_bounds: "- (2 ^ 63) \<le> wrap64 x \<and> wrap64 x < 2 ^ 63"
  using sint_ge[of "word_of_int x :: 64 word"] sint_lt[of "word_of_int x :: 64 word"]
  by (simp add: wrap64_def)

lemma shl64_small: "n < 63 \<Longrightarrow> shl64 n = 2 ^ n"
proof -
  assume n: "n < 63"
  have "(push_bit n 1 :: 64 word) = word_of_int (2 ^ n)" by (simp add: push_bit_eq_mult)
  moreover have "(2::int) ^ n < 2 ^ 63" using n by (intro power_strict_increasing) simp_all
  moreover have "- (2 ^ 63) \<le> (2::int) ^ n" by (rule order_trans[of _ 0]) simp_all
  ultimately show ?thesis
    using wrap64_id[of "2 ^ n"] unfolding shl64_def wrap64_def by simp
qed

lemma shl64_large: "64 \<le> n \<Longrightarrow> shl64 n = 0"
proof -
  assume "64 \<le> n"
  then have "(push_bit n 1 :: 64 word) = 0"
    by (simp add: push_bit_eq_mult)
  then show ?thesis unfolding shl64_def by (simp only: sint_0)
qed

lemma wrap64_code [code]: "wrap64 x = (x + 9223372036854775808) mod 18446744073709551616 - 9223372036854775808"
  unfolding wrap64_def by (simp add: sint_sbintrunc' signed_take_bit_eq_take_bit_shift take_bit_eq_mod)

lemma shl64_code [code]:
  "shl64 n = (if n < 63 then 2 ^ n else if n = 63 then - 9223372036854775808 else 0)"
proof -
  have "shl64 63 = wrap64 (2 ^ 63)"
    unfolding shl64_def wrap64_def by (simp add: push_bit_eq_mult)
  then have "shl64 63 = - 9223372036854775808" by (simp add: wrap64_code)
  then show ?thesis using shl64_small[of n] shl64_large[of n] by (cases "n < 63"; cases "n = 63") auto
qed
text \<open>\<open>Time.Sub\<close> saturates.\<close>

definition time_sub :: "int \<Rightarrow> int \<Rightarrow> int" where
  "time_sub t u = max (- (2 ^ 63)) (min (2 ^ 63 - 1) (t - u))"

section \<open>Decimal text\<close>

fun nat_digits :: "nat \<Rightarrow> string" where
  "nat_digits n = (if n < 10 then [char_of (48 + n)] else nat_digits (n div 10) @ [char_of (48 + n mod 10)])"

declare nat_digits.simps [simp del]

definition itoa :: "int \<Rightarrow> string" where
  "itoa i = (if i < 0 then ''-'' @ nat_digits (nat (- i)) else nat_digits (nat i))"

definition digits_value :: "string \<Rightarrow> nat" where
  "digits_value s = foldl (\<lambda>a c. a * 10 + (code c - 48)) 0 s"

lemma digits_value_nat_digits [simp]: "digits_value (nat_digits n) = n"
proof (induction n rule: nat_digits.induct)
  case (1 n)
  show ?case
  proof (cases "n < 10")
    case True
    then show ?thesis by (simp add: nat_digits.simps[of n] digits_value_def code_char_of)
  next
    case False
    with 1 show ?thesis
      by (subst nat_digits.simps) (simp add: digits_value_def code_char_of)
  qed
qed

lemma nat_digits_inject [simp]: "nat_digits m = nat_digits n \<longleftrightarrow> m = n"
  by (metis digits_value_nat_digits)

section \<open>time.ParseDuration\<close>

definition unit_ns :: "string \<Rightarrow> int option" where
  "unit_ns u = map_of [(''ns'', 1), (''us'', 1000), (CHR 0xC2 # CHR 0xB5 # ''s'', 1000),
     (CHR 0xCE # CHR 0xBC # ''s'', 1000), (''ms'', 1000000), (''s'', 1000000000),
     (''m'', 60000000000), (''h'', 3600000000000)] u"

fun leadingInt :: "string \<Rightarrow> int \<Rightarrow> (int \<times> string) option" where
  "leadingInt [] x = Some (x, [])"
| "leadingInt (c # cs) x =
     (if \<not> is_digit c then Some (x, c # cs)
      else if 2 ^ 63 div 10 < x then None
      else let y = x * 10 + (int (code c) - 48) in if 2 ^ 63 < y then None else leadingInt cs y)"

fun leadingFraction :: "string \<Rightarrow> bool \<Rightarrow> int \<Rightarrow> int \<Rightarrow> int \<times> int \<times> string" where
  "leadingFraction [] overflow x scale = (x, scale, [])"
| "leadingFraction (c # cs) overflow x scale =
     (if \<not> is_digit c then (x, scale, c # cs)
      else if overflow \<or> (2 ^ 63 - 1) div 10 < x then leadingFraction cs True x scale
      else let y = x * 10 + (int (code c) - 48)
           in if 2 ^ 63 < y then leadingFraction cs True x scale
              else leadingFraction cs False y (scale * 10))"

definition unit_char :: "char \<Rightarrow> bool" where
  "unit_char c \<longleftrightarrow> c \<noteq> CHR ''.'' \<and> \<not> is_digit c"

text \<open>
  The loop over the segments \<open><int>.<fraction><unit>\<close>. \<open>frac f unit scale\<close> is the floating point
  expression \<open>uint64(float64(f) * (float64(unit) / scale))\<close> of the fraction.
\<close>

lemma dropWhile_shorter: "takeWhile P s \<noteq> [] \<Longrightarrow> length (dropWhile P s) < length s"
  by (cases s) (auto simp: length_dropWhile_le less_Suc_eq_le split: if_splits)

lemma leadingInt_length: "leadingInt s x = Some (v, r) \<Longrightarrow> length r \<le> length s"
  by (induction s x rule: leadingInt.induct) (auto simp: Let_def split: if_splits)

lemma leadingFraction_length: "leadingFraction s b x k = (f, sc, r) \<Longrightarrow> length r \<le> length s"
  by (induction s b x k rule: leadingFraction.induct)
    (fastforce simp: Let_def split: if_splits)+

definition parse_fraction :: "string \<Rightarrow> int \<times> int \<times> string" where
  "parse_fraction s = (if take 1 s = ''.'' then leadingFraction (drop 1 s) False 0 1 else (0, 1, s))"

lemma parse_fraction_length: "parse_fraction s = (f, sc, r) \<Longrightarrow> length r \<le> length s"
  by (auto simp: parse_fraction_def dest: leadingFraction_length split: if_splits)

definition parse_segment :: "(int \<Rightarrow> int \<Rightarrow> int \<Rightarrow> int) \<Rightarrow> string \<Rightarrow> (int \<times> string) option" where
  "parse_segment frac s =
    (if \<not> (hd s = CHR ''.'' \<or> is_digit (hd s)) then None
     else case leadingInt s 0 of
       None \<Rightarrow> None
     | Some (v, s1) \<Rightarrow>
       (case parse_fraction s1 of (f, scale, s2) \<Rightarrow>
         if length s1 = length s \<and> length s1 - 1 \<le> length s2 then None
         else let u = takeWhile unit_char s2
         in if u = [] then None
         else case unit_ns u of
           None \<Rightarrow> None
         | Some unit \<Rightarrow>
           if 2 ^ 63 div unit < v then None
           else let v' = (if 0 < f then (v * unit + frac f unit scale) mod 2 ^ 64 else v * unit)
           in if 0 < f \<and> 2 ^ 63 < v' then None else Some (v', dropWhile unit_char s2)))"

lemma parse_segment_shorter:
  assumes "parse_segment frac s = Some (v, r)"
  shows "length r < length s"
proof -
  obtain v0 s1 f scale s2 where "leadingInt s 0 = Some (v0, s1)" "parse_fraction s1 = (f, scale, s2)"
    and "takeWhile unit_char s2 \<noteq> []" "r = dropWhile unit_char s2"
    using assms by (auto simp: parse_segment_def Let_def split: if_splits option.splits prod.splits)
  then show ?thesis
    using dropWhile_shorter[of unit_char s2] leadingInt_length parse_fraction_length by fastforce
qed

function parse_segments :: "(int \<Rightarrow> int \<Rightarrow> int \<Rightarrow> int) \<Rightarrow> string \<Rightarrow> int \<Rightarrow> int option" where
  "parse_segments frac s d =
    (if s = [] then Some d
     else case parse_segment frac s of
       None \<Rightarrow> None
     | Some (v, r) \<Rightarrow>
         let d' = (d + v) mod 2 ^ 64 in if 2 ^ 63 < d' then None else parse_segments frac r d')"
  by pat_completeness auto
termination
  by (relation "measure (\<lambda>(frac, s, d). length s)") (auto dest: parse_segment_shorter)

declare parse_segments.simps [simp del]

lemma parse_segments_bound:
  "0 \<le> d \<Longrightarrow> d \<le> 2 ^ 63 \<Longrightarrow> parse_segments frac s d = Some r \<Longrightarrow> 0 \<le> r \<and> r \<le> 2 ^ 63"
proof (induction frac s d rule: parse_segments.induct)
  case (1 frac s d)
  show ?case
  proof (cases "s = []")
    case True
    with "1.prems" show ?thesis by (simp add: parse_segments.simps)
  next
    case False
    with "1.prems" obtain v t where p: "parse_segment frac s = Some (v, t)"
      and le: "\<not> 2 ^ 63 < (d + v) mod 2 ^ 64" and r: "parse_segments frac t ((d + v) mod 2 ^ 64) = Some r"
      by (subst (asm) parse_segments.simps) (auto simp: Let_def split: option.splits if_splits)
    from "1.IH"[OF False p refl refl le _ _ r] le show ?thesis by simp
  qed
qed

definition ParseDuration :: "(int \<Rightarrow> int \<Rightarrow> int \<Rightarrow> int) \<Rightarrow> string \<Rightarrow> int option" where
  "ParseDuration frac orig =
    (let neg = (take 1 orig = ''-'');
         s = (if take 1 orig \<in> {''-'', ''+''} then drop 1 orig else orig)
     in if s = ''0'' then Some 0
        else if s = '''' then None
        else case parse_segments frac s 0 of
          None \<Rightarrow> None
        | Some d \<Rightarrow> if neg then Some (wrap64 (- d))
                    else if 2 ^ 63 - 1 < d then None else Some d)"

lemma ParseDuration_bound:
  assumes "ParseDuration frac s = Some r"
  shows "- (2 ^ 63) \<le> r \<and> r < 2 ^ 63"
proof (cases "r = 0")
  case False
  then obtain d t where "parse_segments frac t 0 = Some d" and r: "r = wrap64 (- d) \<or> (r = d \<and> d \<le> 2 ^ 63 - 1)"
    using assms by (auto simp: ParseDuration_def Let_def split: if_splits option.splits)
  then have "0 \<le> d" using parse_segments_bound[of 0 frac t d] by simp
  with r wrap64_bounds[of "- d"] show ?thesis by auto
qed simp

section \<open>Base64\<close>

definition b64_alphabet :: string where
  "b64_alphabet = ''ABCDEFGHIJKLMNOPQRSTUVWXYZabcdefghijklmnopqrstuvwxyz0123456789+/''"

definition b64_char :: "nat \<Rightarrow> char" where
  "b64_char n = b64_alphabet ! n"

definition b64_value :: "char \<Rightarrow> nat option" where
  "b64_value c = map_of (zip b64_alphabet [0..<64]) c"

fun b64_encode :: "string \<Rightarrow> string" where
  "b64_encode [] = []"
| "b64_encode [a] = [b64_char (code a div 4), b64_char (code a mod 4 * 16), CHR ''='', CHR ''='']"
| "b64_encode [a, b] = [b64_char (code a div 4), b64_char (code a mod 4 * 16 + code b div 16),
     b64_char (code b mod 16 * 4), CHR ''='']"
| "b64_encode (a # b # c # s) = b64_char (code a div 4) # b64_char (code a mod 4 * 16 + code b div 16) #
     b64_char (code b mod 16 * 4 + code c div 64) # b64_char (code c mod 64) # b64_encode s"

text \<open>
  \<open>StdEncoding.DecodeString\<close>: line breaks are skipped, padding closes the last group of four, and the
  unused low bits of a padded group are not checked.
\<close>

definition byte1 :: "nat \<Rightarrow> nat \<Rightarrow> char" where
  "byte1 v w = char_of (v * 4 + w div 16)"

definition byte2 :: "nat \<Rightarrow> nat \<Rightarrow> char" where
  "byte2 w x = char_of (w mod 16 * 16 + x div 4)"

definition byte3 :: "nat \<Rightarrow> nat \<Rightarrow> char" where
  "byte3 x y = char_of (x mod 4 * 64 + y)"

fun b64_groups :: "string \<Rightarrow> string option" where
  "b64_groups [] = Some []"
| "b64_groups (a # b # c # d # s) =
     (case (b64_value a, b64_value b) of
        (Some v, Some w) \<Rightarrow>
          if c = CHR ''='' then (if d = CHR ''='' \<and> s = [] then Some [byte1 v w] else None)
          else (case b64_value c of
              None \<Rightarrow> None
            | Some x \<Rightarrow>
              if d = CHR ''='' then (if s = [] then Some [byte1 v w, byte2 w x] else None)
              else (case (b64_value d, b64_groups s) of
                  (Some y, Some r) \<Rightarrow> Some (byte1 v w # byte2 w x # byte3 x y # r)
                | _ \<Rightarrow> None))
      | _ \<Rightarrow> None)"
| "b64_groups _ = None"

definition b64_decode :: "string \<Rightarrow> string option" where
  "b64_decode s = b64_groups (filter (\<lambda>c. c \<noteq> CHR 0x0A \<and> c \<noteq> CHR 0x0D) s)"

lemma b64_alphabet_facts:
  "distinct b64_alphabet" "length b64_alphabet = 64" "CHR ''='' \<notin> set b64_alphabet"
  "CHR 0x0A \<notin> set b64_alphabet" "CHR 0x0D \<notin> set b64_alphabet"
  by (simp_all add: b64_alphabet_def)

lemma b64_char_in: "n < 64 \<Longrightarrow> b64_char n \<in> set b64_alphabet"
  using b64_alphabet_facts(2) by (simp add: b64_char_def)

lemma b64_char_facts:
  "n < 64 \<Longrightarrow> b64_value (b64_char n) = Some n"
  "n < 64 \<Longrightarrow> b64_char n \<noteq> CHR ''=''"
  "n < 64 \<Longrightarrow> b64_char n \<noteq> CHR 0x0A \<and> b64_char n \<noteq> CHR 0x0D"
proof -
  assume n: "n < 64"
  show "b64_value (b64_char n) = Some n"
    using n b64_alphabet_facts(1,2) map_of_zip_nth[of b64_alphabet "[0..<64]" n]
    by (simp add: b64_value_def b64_char_def)
  show "b64_char n \<noteq> CHR ''=''" "b64_char n \<noteq> CHR 0x0A \<and> b64_char n \<noteq> CHR 0x0D"
    using b64_char_in[OF n] b64_alphabet_facts(3-5) by metis+
qed

lemma code_less: "code c < 256"
  by (simp add: code_def)

lemma b64_groups_encode: "b64_groups (b64_encode s) = Some s"
proof (induction s rule: b64_encode.induct)
  case (2 a)
  have "code a div 4 < 64" "code a mod 4 * 16 < 64" using code_less[of a] by auto
  then show ?case by (simp add: b64_char_facts byte1_def code_def)
next
  case (3 a b)
  let ?w = "code a mod 4 * 16 + code b div 16" and ?x = "code b mod 16 * 4"
  have l: "code a div 4 < 64" "?w < 64" "?x < 64" using code_less[of a] code_less[of b] by linarith+
  have "code a div 4 * 4 + ?w div 16 = code a" "?w mod 16 * 16 + ?x div 4 = code b"
    using code_less[of b] by (auto simp: algebra_simps)
  with l show ?case by (simp add: b64_char_facts byte1_def byte2_def code_def)
next
  case (4 a b c s)
  let ?w = "code a mod 4 * 16 + code b div 16" and ?x = "code b mod 16 * 4 + code c div 64" and ?y = "code c mod 64"
  have l: "code a div 4 < 64" "?w < 64" "?x < 64" "?y < 64"
    using code_less[of a] code_less[of b] code_less[of c] by linarith+
  have "code a div 4 * 4 + ?w div 16 = code a" "?w mod 16 * 16 + ?x div 4 = code b" "?x mod 4 * 64 + ?y = code c"
    using code_less[of b] code_less[of c] by (auto simp: algebra_simps)
  with l 4 show ?case by (simp add: b64_char_facts byte1_def byte2_def byte3_def code_def)
qed simp

lemma b64_encode_no_breaks: "c \<in> set (b64_encode s) \<Longrightarrow> c \<noteq> CHR 0x0A \<and> c \<noteq> CHR 0x0D"
proof (induction s rule: b64_encode.induct)
  case (2 a)
  have "code a div 4 < 64" "code a mod 4 * 16 < 64" using code_less[of a] by auto
  with 2 show ?case by (auto simp: b64_char_facts)
next
  case (3 a b)
  have "code a div 4 < 64" "code a mod 4 * 16 + code b div 16 < 64" "code b mod 16 * 4 < 64"
    using code_less[of a] code_less[of b] by linarith+
  with 3 show ?case by (auto simp: b64_char_facts)
next
  case (4 a b c' s)
  have "code a div 4 < 64" "code a mod 4 * 16 + code b div 16 < 64" "code b mod 16 * 4 + code c' div 64 < 64"
    "code c' mod 64 < 64"
    using code_less[of a] code_less[of b] code_less[of c'] by linarith+
  with 4 show ?case by (auto simp: b64_char_facts)
qed simp

lemma b64_decode_encode [simp]: "b64_decode (b64_encode s) = Some s"
proof -
  have "filter (\<lambda>c. c \<noteq> CHR 0x0A \<and> c \<noteq> CHR 0x0D) (b64_encode s) = b64_encode s"
    using b64_encode_no_breaks by (intro filter_True) blast
  then show ?thesis unfolding b64_decode_def by (simp only: b64_groups_encode)
qed

end
