(* ===== verification/Scenario_Resources.thy ===== *)
theory Scenario_Resources
  imports Managed_Clusters Go_Std
begin

text \<open>
  The first half of \<open>src/internal/controller/krknscenariorun_controller.go\<close>: naming, the resources a
  scenario pod needs, the pod itself, and what is deleted again when a step fails. The Kubernetes API,
  the clock, the id generator, krknctl's configuration and the JSON codec are fields of a client
  record; every call threads the client's world.
\<close>

section \<open>The client\<close>

record 'w scenario_client =
  sc_Namespace :: string
  sc_GetRun :: "string \<Rightarrow> string \<Rightarrow> 'w \<Rightarrow> (api_error + KrknScenarioRun) \<times> 'w"
  sc_StatusUpdate :: "KrknScenarioRun \<Rightarrow> 'w \<Rightarrow> api_error option \<times> 'w"
  sc_GetSecret :: "string \<Rightarrow> string \<Rightarrow> 'w \<Rightarrow> (api_error + Secret) \<times> 'w"
  sc_GetTargetRequest :: "string \<Rightarrow> string \<Rightarrow> 'w \<Rightarrow> (api_error + KrknTargetRequest) \<times> 'w"
  sc_GetPod :: "string \<Rightarrow> string \<Rightarrow> 'w \<Rightarrow> (api_error + Pod) \<times> 'w"
  sc_CreateConfigMap :: "ConfigMap \<Rightarrow> 'w \<Rightarrow> api_error option \<times> 'w"
  sc_CreateSecret :: "Secret \<Rightarrow> 'w \<Rightarrow> api_error option \<times> 'w"
  sc_CreatePod :: "Pod \<Rightarrow> 'w \<Rightarrow> api_error option \<times> 'w"
  sc_DeleteConfigMap :: "string \<Rightarrow> string \<Rightarrow> 'w \<Rightarrow> api_error option \<times> 'w"
  sc_DeleteSecret :: "string \<Rightarrow> string \<Rightarrow> 'w \<Rightarrow> api_error option \<times> 'w"
  sc_OwnConfigMap :: "KrknScenarioRun \<Rightarrow> ConfigMap \<Rightarrow> string + ConfigMap"
  sc_OwnSecret :: "KrknScenarioRun \<Rightarrow> Secret \<Rightarrow> string + Secret"
  sc_OwnPod :: "KrknScenarioRun \<Rightarrow> Pod \<Rightarrow> string + Pod"
  sc_Now :: "'w \<Rightarrow> time \<times> 'w"
  sc_NewUUID :: "'w \<Rightarrow> string \<times> 'w"
  sc_LoadConfig :: "string + krknctl_config"
  sc_JSONErrorText :: "string \<Rightarrow> string"
  sc_ErrorText :: "api_error \<Rightarrow> string"
  sc_DecodeErrorText :: "string \<Rightarrow> string"
  sc_DurationFraction :: "int \<Rightarrow> int \<Rightarrow> int \<Rightarrow> int"

datatype kubeconfig_error =
    FetchSecretFailed api_error
  | ManagedClustersMissing
  | ManagedClustersInvalid string
  | ProviderMissing string
  | ClusterMissing string string

datatype job_error =
    LoadConfigFailed string
  | KubeconfigFailed string kubeconfig_error
  | KubeconfigUndecodable string
  | FileUndecodable string string
  | OwnerFailed string string
  | CreateFailed string api_error

section \<open>Error texts\<close>

fun kubeconfig_error_text :: "'w scenario_client \<Rightarrow> kubeconfig_error \<Rightarrow> string" where
  "kubeconfig_error_text C (FetchSecretFailed e) = ''failed to fetch secret: '' @ sc_ErrorText C e"
| "kubeconfig_error_text C ManagedClustersMissing = ''managed-clusters not found in secret''"
| "kubeconfig_error_text C (ManagedClustersInvalid e) = ''failed to parse managed-clusters JSON: '' @ e"
| "kubeconfig_error_text C (ProviderMissing p) = ''provider '' @ [CHR 0x27] @ p @ [CHR 0x27] @ '' not found in managed-clusters''"
| "kubeconfig_error_text C (ClusterMissing c p) = ''cluster '' @ [CHR 0x27] @ c @ [CHR 0x27] @ '' not found in '' @ p"

fun job_error_text :: "'w scenario_client \<Rightarrow> job_error \<Rightarrow> string" where
  "job_error_text C (LoadConfigFailed e) = ''failed to load krknctl config: '' @ e"
| "job_error_text C (KubeconfigFailed p e) =
     ''failed to get kubeconfig from provider '' @ p @ '': '' @ kubeconfig_error_text C e"
| "job_error_text C (KubeconfigUndecodable s) = ''failed to decode kubeconfig: '' @ sc_DecodeErrorText C s"
| "job_error_text C (FileUndecodable f s) =
     ''failed to decode file content for '' @ [CHR 0x27] @ f @ [CHR 0x27] @ '': '' @ sc_DecodeErrorText C s"
| "job_error_text C (OwnerFailed k e) = ''failed to set owner reference on '' @ k @ '': '' @ e"
| "job_error_text C (CreateFailed k e) = ''failed to create '' @ k @ '': '' @ sc_ErrorText C e"

section \<open>Names, labels and images\<close>

definition getOwnerLabel :: "KrknScenarioRun \<Rightarrow> string" where
  "getOwnerLabel run =
    (if OwnerUserID (sr_Spec run) = '''' then ''''
     else to_lower (replace_all (replace_all (OwnerUserID (sr_Spec run)) CHR ''@'' CHR ''-'') CHR ''.'' CHR ''-''))"

definition buildContainerImage :: "KrknScenarioRunSpec \<Rightarrow> krknctl_config \<Rightarrow> string" where
  "buildContainerImage spec config =
    (if RegistryURL spec \<noteq> '''' \<and> ScenarioRepository spec \<noteq> ''''
     then RegistryURL spec @ ''/'' @ ScenarioRepository spec @ '':'' @ ScenarioImage spec
     else let scenarioTag =
            (if has_prefix (ScenarioImage spec) (cfg_QuayScenarioRegistry config @ '':'')
             then trim_prefix (ScenarioImage spec) (cfg_QuayScenarioRegistry config @ '':'')
             else ScenarioImage spec)
       in cfg_QuayHost config @ ''/'' @ cfg_QuayOrg config @ ''/'' @ cfg_QuayScenarioRegistry config @ '':'' @ scenarioTag)"

definition job_labels :: "KrknScenarioRun \<Rightarrow> string \<Rightarrow> string \<Rightarrow> (string, string) gomap" where
  "job_labels run jobID clusterName =
     [(''krkn-job-id'', jobID), (''krkn-scenario-run'', Name (sr_meta run)),
      (''krkn-scenario-name'', ScenarioName (sr_Spec run)), (''krkn-cluster-name'', clusterName),
      (''krkn-target-request'', TargetRequestID (sr_Spec run))] @
     (if getOwnerLabel run \<noteq> '''' then [(''krkn.krkn-chaos.dev/owner-user'', getOwnerLabel run)] else [])"

definition cluster_url :: "KrknTargetRequest option \<Rightarrow> string \<Rightarrow> string \<Rightarrow> string" where
  "cluster_url tr providerName clusterName =
    (case tr of
       None \<Rightarrow> ''''
     | Some t \<Rightarrow>
       (case map_of (trs_TargetData (tr_Status t)) providerName of
          None \<Rightarrow> ''''
        | Some targets \<Rightarrow>
          (case List.find (\<lambda>c. ct_ClusterName c = clusterName) targets of
             None \<Rightarrow> '''' | Some c \<Rightarrow> ct_ClusterAPIURL c)))"

definition getKubeconfigFromProvider ::
  "'w scenario_client \<Rightarrow> string \<Rightarrow> string \<Rightarrow> string \<Rightarrow> 'w \<Rightarrow> (kubeconfig_error + string) \<times> 'w" where
  "getKubeconfigFromProvider C targetID providerName clusterName w =
    (case sc_GetSecret C (sc_Namespace C) targetID w of
       (Inl e, w') \<Rightarrow> (Inl (FetchSecretFailed e), w')
     | (Inr secret, w') \<Rightarrow>
       (case map_of (sec_Data secret) ''managed-clusters'' of
          None \<Rightarrow> Inl ManagedClustersMissing
        | Some bytes \<Rightarrow>
          (case decode_managed_clusters bytes of
             None \<Rightarrow> Inl (ManagedClustersInvalid (sc_JSONErrorText C bytes))
           | Some managedClusters \<Rightarrow>
             (case map_of managedClusters providerName of
                None \<Rightarrow> Inl (ProviderMissing providerName)
              | Some providerClusters \<Rightarrow>
                (case map_of providerClusters clusterName of
                   None \<Rightarrow> Inl (ClusterMissing clusterName providerName)
                 | Some kubeconfig \<Rightarrow> Inr kubeconfig))), w'))"

section \<open>Creating and cleaning up the resources of a job\<close>

record preparedJobResources =
  jobID :: string
  pr_clusterName :: string
  pr_clusterAPIURL :: string
  pr_containerImage :: string
  pr_kubeconfigPath :: string
  volumes :: "Volume list"
  volumeMounts :: "VolumeMount list"
  envVars :: "EnvVar list"
  imagePullSecrets :: "string list"
  createdConfigMaps :: "string list"
  createdSecrets :: "string list"

text \<open>Deletion of everything created so far; errors of single deletions are ignored or logged.\<close>

fun delete_config_maps :: "'w scenario_client \<Rightarrow> string list \<Rightarrow> 'w \<Rightarrow> 'w" where
  "delete_config_maps C [] w = w"
| "delete_config_maps C (n # ns) w = delete_config_maps C ns (snd (sc_DeleteConfigMap C (sc_Namespace C) n w))"

fun delete_secrets :: "'w scenario_client \<Rightarrow> string list \<Rightarrow> 'w \<Rightarrow> 'w" where
  "delete_secrets C [] w = w"
| "delete_secrets C (n # ns) w = delete_secrets C ns (snd (sc_DeleteSecret C (sc_Namespace C) n w))"

definition cleanup :: "'w scenario_client \<Rightarrow> string list \<Rightarrow> string list \<Rightarrow> 'w \<Rightarrow> 'w" where
  "cleanup C cms secrets w = delete_secrets C secrets (delete_config_maps C cms w)"

definition cleanupPreparedResources :: "'w scenario_client \<Rightarrow> preparedJobResources \<Rightarrow> 'w \<Rightarrow> 'w" where
  "cleanupPreparedResources C res w = cleanup C (createdConfigMaps res) (createdSecrets res) w"

definition config_map_for ::
  "'w scenario_client \<Rightarrow> KrknScenarioRun \<Rightarrow> string \<Rightarrow> string \<Rightarrow> string \<Rightarrow> string \<Rightarrow> string \<Rightarrow> ConfigMap" where
  "config_map_for C run jid clusterName name key content =
     \<lparr>cm_meta = meta_of name (sc_Namespace C) (job_labels run jid clusterName), cm_Data = [(key, content)]\<rparr>"

definition file_config_map_name :: "string \<Rightarrow> FileMount \<Rightarrow> string" where
  "file_config_map_name jid file =
     ''krkn-job-'' @ jid @ ''-file-'' @ replace_all (replace_all (fm_Name file) CHR ''/'' CHR ''-'') CHR ''.'' CHR ''-''"

text \<open>The loop over the user's files: the config maps created so far, or the error after the cleanup.\<close>

fun create_file_config_maps ::
  "'w scenario_client \<Rightarrow> KrknScenarioRun \<Rightarrow> string \<Rightarrow> string \<Rightarrow> FileMount list \<Rightarrow> string list \<Rightarrow> 'w \<Rightarrow>
     (job_error + string list) \<times> 'w" where
  "create_file_config_maps C run jid clusterName [] created w = (Inr created, w)"
| "create_file_config_maps C run jid clusterName (file # files) created w =
    (case b64_decode (fm_Content file) of
       None \<Rightarrow> (Inl (FileUndecodable (fm_Name file) (fm_Content file)), cleanup C created [] w)
     | Some content \<Rightarrow>
       (case sc_OwnConfigMap C run (config_map_for C run jid clusterName (file_config_map_name jid file) (fm_Name file) content) of
          Inl e \<Rightarrow> (Inl (OwnerFailed ''file ConfigMap'' e), cleanup C created [] w)
        | Inr cm \<Rightarrow>
          (case sc_CreateConfigMap C cm w of
             (Some e, w') \<Rightarrow> (Inl (CreateFailed ''file ConfigMap'' e), cleanup C created [] w')
           | (None, w') \<Rightarrow>
               create_file_config_maps C run jid clusterName files (created @ [file_config_map_name jid file]) w')))"

definition registry_auth :: "KrknScenarioRunSpec \<Rightarrow> string" where
  "registry_auth spec =
    (if Token spec \<noteq> '''' then b64_encode (Token spec)
     else if Username spec \<noteq> '''' \<and> Password spec \<noteq> '''' then b64_encode (Username spec @ '':'' @ Password spec)
     else '''')"

definition docker_config_json :: "string \<Rightarrow> string \<Rightarrow> string" where
  "docker_config_json registryURL auth =
     marshal_map (marshal_map (marshal_map quoted)) [(''auths'', [(registryURL, [(''auth'', auth)])])]"

definition image_pull_secret :: "'w scenario_client \<Rightarrow> KrknScenarioRun \<Rightarrow> string \<Rightarrow> string \<Rightarrow> Secret" where
  "image_pull_secret C run jid clusterName =
     \<lparr>sec_meta = meta_of (''krkn-job-'' @ jid @ ''-registry'') (sc_Namespace C) (job_labels run jid clusterName),
      sec_Type = ''kubernetes.io/dockerconfigjson'',
      sec_Data = [(''.dockerconfigjson'',
        docker_config_json (RegistryURL (sr_Spec run)) (registry_auth (sr_Spec run)))]\<rparr>"

text \<open>Pull secrets of the pod, and the secrets created for it.\<close>

definition prepare_pull_secrets ::
  "'w scenario_client \<Rightarrow> KrknScenarioRun \<Rightarrow> string \<Rightarrow> string \<Rightarrow> string list \<Rightarrow> 'w \<Rightarrow>
     (job_error + string list \<times> string list) \<times> 'w" where
  "prepare_pull_secrets C run jid clusterName cms w =
    (let spec = sr_Spec run in
     if RegistryName spec \<noteq> '''' then (Inr ([RegistryName spec], []), w)
     else if RegistryURL spec \<noteq> '''' \<and> ScenarioRepository spec \<noteq> '''' then
       (case sc_OwnSecret C run (image_pull_secret C run jid clusterName) of
          Inl e \<Rightarrow> (Inl (OwnerFailed ''imagePullSecret'' e), cleanup C cms [] w)
        | Inr secret \<Rightarrow>
          (case sc_CreateSecret C secret w of
             (Some e, w') \<Rightarrow> (Inl (CreateFailed ''ImagePullSecret'' e), cleanup C cms [] w')
           | (None, w') \<Rightarrow>
               (Inr ([''krkn-job-'' @ jid @ ''-registry''], [''krkn-job-'' @ jid @ ''-registry'']), w')))
     else (Inr ([], []), w))"

definition file_volume :: "nat \<times> FileMount \<times> string \<Rightarrow> Volume" where
  "file_volume = (\<lambda>(i, file, cm). \<lparr>vol_Name = ''file-'' @ nat_digits i, vol_Source = ConfigMapVolume cm\<rparr>)"

definition file_mount :: "nat \<times> FileMount \<times> string \<Rightarrow> VolumeMount" where
  "file_mount = (\<lambda>(i, file, cm).
     \<lparr>vm_Name = ''file-'' @ nat_digits i, vm_MountPath = fm_MountPath file, vm_SubPath = fm_Name file\<rparr>)"

definition build_volumes :: "string \<Rightarrow> FileMount list \<Rightarrow> string list \<Rightarrow> Volume list" where
  "build_volumes kubeconfigCM files fileCMs =
     [\<lparr>vol_Name = ''kubeconfig'', vol_Source = ConfigMapVolume kubeconfigCM\<rparr>] @
     map file_volume (enumerate 0 (zip files fileCMs)) @
     [\<lparr>vol_Name = ''tmp'', vol_Source = EmptyDirVolume\<rparr>]"

definition build_volume_mounts :: "string \<Rightarrow> FileMount list \<Rightarrow> string list \<Rightarrow> VolumeMount list" where
  "build_volume_mounts kubeconfigPath files fileCMs =
     [\<lparr>vm_Name = ''kubeconfig'', vm_MountPath = kubeconfigPath, vm_SubPath = ''config''\<rparr>] @
     map file_mount (enumerate 0 (zip files fileCMs)) @
     [\<lparr>vm_Name = ''tmp'', vm_MountPath = ''/tmp'', vm_SubPath = ''''\<rparr>]"

text \<open>The container image: complete already when a graph run made the scenario run.\<close>

definition job_image :: "KrknScenarioRun \<Rightarrow> krknctl_config \<Rightarrow> string" where
  "job_image run config =
    (if map_of (Labels (sr_meta run)) ''krkn.dev/graph-run'' \<noteq> None then ScenarioImage (sr_Spec run)
     else buildContainerImage (sr_Spec run) config)"

definition prepare_from_kubeconfig ::
  "'w scenario_client \<Rightarrow> KrknScenarioRun \<Rightarrow> string \<Rightarrow> string \<Rightarrow> krknctl_config \<Rightarrow> string \<Rightarrow> string \<Rightarrow> string \<Rightarrow> 'w \<Rightarrow>
     (job_error + preparedJobResources) \<times> 'w" where
  "prepare_from_kubeconfig C run jid clusterName config kubeconfigPath kubeconfig url w =
    (let cmName = ''krkn-job-'' @ jid @ ''-kubeconfig'' in
     case sc_OwnConfigMap C run (config_map_for C run jid clusterName cmName ''config'' kubeconfig) of
       Inl e \<Rightarrow> (Inl (OwnerFailed ''kubeconfig ConfigMap'' e), w)
     | Inr cm \<Rightarrow>
       (case sc_CreateConfigMap C cm w of
          (Some e, w1) \<Rightarrow> (Inl (CreateFailed ''kubeconfig ConfigMap'' e), w1)
        | (None, w1) \<Rightarrow>
          (case create_file_config_maps C run jid clusterName (Files (sr_Spec run)) [cmName] w1 of
             (Inl e, w2) \<Rightarrow> (Inl e, w2)
           | (Inr cms, w2) \<Rightarrow>
             (case prepare_pull_secrets C run jid clusterName cms w2 of
                (Inl e, w3) \<Rightarrow> (Inl e, w3)
              | (Inr (pulls, secrets), w3) \<Rightarrow>
                  (Inr \<lparr>jobID = jid, pr_clusterName = clusterName, pr_clusterAPIURL = url,
                     pr_containerImage = job_image run config, pr_kubeconfigPath = kubeconfigPath,
                     volumes = build_volumes cmName (Files (sr_Spec run)) (tl cms),
                     volumeMounts = build_volume_mounts kubeconfigPath (Files (sr_Spec run)) (tl cms),
                     envVars = map (\<lambda>(k, v). \<lparr>ev_Name = k, ev_Value = v\<rparr>) (Environment (sr_Spec run)),
                     imagePullSecrets = pulls, createdConfigMaps = cms, createdSecrets = secrets\<rparr>, w3)))))"

definition prepareJobResources ::
  "'w scenario_client \<Rightarrow> KrknScenarioRun \<Rightarrow> string \<Rightarrow> string \<Rightarrow> 'w \<Rightarrow> (job_error + preparedJobResources) \<times> 'w" where
  "prepareJobResources C run providerName clusterName w =
    (case sc_NewUUID C w of (jid, w1) \<Rightarrow>
      (case sc_LoadConfig C of
         Inl e \<Rightarrow> (Inl (LoadConfigFailed e), w1)
       | Inr config \<Rightarrow>
         (let kubeconfigPath = (if KubeconfigPath (sr_Spec run) = '''' then cfg_KubeconfigPath config
                                else KubeconfigPath (sr_Spec run))
          in case getKubeconfigFromProvider C (TargetRequestID (sr_Spec run)) providerName clusterName w1 of
               (Inl e, w2) \<Rightarrow> (Inl (KubeconfigFailed providerName e), w2)
             | (Inr kubeconfigBase64, w2) \<Rightarrow>
               (case b64_decode kubeconfigBase64 of
                  None \<Rightarrow> (Inl (KubeconfigUndecodable kubeconfigBase64), w2)
                | Some kubeconfig \<Rightarrow>
                  (case sc_GetTargetRequest C (sc_Namespace C) (TargetRequestID (sr_Spec run)) w2 of
                     (tr, w3) \<Rightarrow>
                       prepare_from_kubeconfig C run jid clusterName config kubeconfigPath kubeconfig
                         (cluster_url (case tr of Inl e \<Rightarrow> None | Inr t \<Rightarrow> Some t) providerName clusterName) w3)))))"

section \<open>The scenario pod\<close>

definition scenario_pod :: "'w scenario_client \<Rightarrow> KrknScenarioRun \<Rightarrow> preparedJobResources \<Rightarrow> Pod" where
  "scenario_pod C run res =
     \<lparr>pod_meta = meta_of (''krkn-job-'' @ jobID res) (sc_Namespace C)
        ((''app'', ''krkn-scenario'') # job_labels run (jobID res) (pr_clusterName res)),
      pod_ServiceAccountName = ''krkn-operator-krkn-scenario-runner'', pod_RestartPolicy = ''Never'',
      pod_ImagePullSecrets = imagePullSecrets res,
      pod_RunAsUser = 1001, pod_RunAsGroup = 1001, pod_FSGroup = 1001,
      pod_Containers = [\<lparr>con_Name = ''scenario'', con_Image = pr_containerImage res, con_Env = envVars res,
         con_VolumeMounts = volumeMounts res, con_ImagePullPolicy = ''Always''\<rparr>],
      pod_Volumes = volumes res, pod_Phase = '''', pod_ContainerStatuses = []\<rparr>"

definition retried_job :: "preparedJobResources \<Rightarrow> time \<Rightarrow> ClusterJobStatus \<Rightarrow> ClusterJobStatus" where
  "retried_job res now job = job\<lparr>JobID := jobID res, PodName := ''krkn-job-'' @ jobID res,
     ContainerImage := pr_containerImage res, Phase := ''Pending'', StartTime := Some now,
     CompletionTime := None, Message := ''''\<rparr>"

definition new_job :: "string \<Rightarrow> preparedJobResources \<Rightarrow> time \<Rightarrow> ClusterJobStatus" where
  "new_job providerName res now =
     \<lparr>ProviderName = providerName, ClusterName = pr_clusterName res, ClusterAPIURL = pr_clusterAPIURL res,
      JobID = jobID res, PodName = ''krkn-job-'' @ jobID res, ContainerImage = pr_containerImage res,
      Phase = ''Pending'', StartTime = Some now, CompletionTime = None, Message = '''', RetryCount = 0,
      MaxRetries = 0, CancelRequested = False, LastRetryTime = None, FailureReason = ''''\<rparr>"

abbreviation jobs :: "KrknScenarioRun \<Rightarrow> ClusterJobStatus list" where
  "jobs run \<equiv> ClusterJobs (sr_Status run)"

definition set_jobs :: "ClusterJobStatus list \<Rightarrow> KrknScenarioRun \<Rightarrow> KrknScenarioRun" where
  "set_jobs js run = run\<lparr>sr_Status := (sr_Status run)\<lparr>ClusterJobs := js\<rparr>\<rparr>"

definition executeScenarioPod ::
  "'w scenario_client \<Rightarrow> KrknScenarioRun \<Rightarrow> string \<Rightarrow> preparedJobResources \<Rightarrow> nat option \<Rightarrow> 'w \<Rightarrow>
     job_error option \<times> KrknScenarioRun \<times> 'w" where
  "executeScenarioPod C run providerName res existingJobIndex w =
    (case sc_OwnPod C run (scenario_pod C run res) of
       Inl e \<Rightarrow> (Some (OwnerFailed ''pod'' e), run, cleanupPreparedResources C res w)
     | Inr pod \<Rightarrow>
       (case sc_CreatePod C pod w of
          (Some e, w1) \<Rightarrow> (Some (CreateFailed ''pod'' e), run, cleanupPreparedResources C res w1)
        | (None, w1) \<Rightarrow>
          (case sc_Now C w1 of (now, w2) \<Rightarrow>
            (None,
             set_jobs (case existingJobIndex of
                 Some i \<Rightarrow> (jobs run)[i := retried_job res now (jobs run ! i)]
               | None \<Rightarrow> jobs run @ [new_job providerName res now]) run,
             w2))))"

fun find_index :: "('a \<Rightarrow> bool) \<Rightarrow> 'a list \<Rightarrow> nat option" where
  "find_index P [] = None"
| "find_index P (x # xs) = (if P x then Some 0 else map_option Suc (find_index P xs))"

definition createClusterJob ::
  "'w scenario_client \<Rightarrow> KrknScenarioRun \<Rightarrow> string \<Rightarrow> string \<Rightarrow> 'w \<Rightarrow> job_error option \<times> KrknScenarioRun \<times> 'w" where
  "createClusterJob C run providerName clusterName w =
    (let existingJobIndex = find_index (\<lambda>job. ClusterName job = clusterName \<and> Phase job = ''Retrying'') (jobs run)
     in case prepareJobResources C run providerName clusterName w of
          (Inl e, w1) \<Rightarrow> (Some e, run, w1)
        | (Inr res, w1) \<Rightarrow> executeScenarioPod C run providerName res existingJobIndex w1)"

section \<open>What a job leaves behind\<close>

text \<open>
  Creations that the API accepted and deletions that were requested, recorded beside the world of any
  client.
\<close>

datatype resource = ConfigMapRes string | SecretRes string | PodRes string

datatype scenario_event = Created resource | Deleted resource | WroteStatus KrknScenarioRun

definition log_created :: "('w \<Rightarrow> api_error option \<times> 'w) \<Rightarrow> resource \<Rightarrow> 'w \<times> scenario_event list \<Rightarrow>
    api_error option \<times> 'w \<times> scenario_event list" where
  "log_created f r wl = (case f (fst wl) of
     (None, w') \<Rightarrow> (None, w', snd wl @ [Created r]) | (Some e, w') \<Rightarrow> (Some e, w', snd wl))"

definition log_event :: "('w \<Rightarrow> 'a \<times> 'w) \<Rightarrow> scenario_event list \<Rightarrow> 'w \<times> scenario_event list \<Rightarrow>
    'a \<times> 'w \<times> scenario_event list" where
  "log_event f es wl = (case f (fst wl) of (r, w') \<Rightarrow> (r, w', snd wl @ es))"

definition recorded :: "'w scenario_client \<Rightarrow> ('w \<times> scenario_event list) scenario_client" where
  "recorded C = \<lparr>sc_Namespace = sc_Namespace C,
     sc_GetRun = (\<lambda>ns n. log_event (sc_GetRun C ns n) []),
     sc_StatusUpdate = (\<lambda>run. log_event (sc_StatusUpdate C run) [WroteStatus run]),
     sc_GetSecret = (\<lambda>ns n. log_event (sc_GetSecret C ns n) []),
     sc_GetTargetRequest = (\<lambda>ns n. log_event (sc_GetTargetRequest C ns n) []),
     sc_GetPod = (\<lambda>ns n. log_event (sc_GetPod C ns n) []),
     sc_CreateConfigMap = (\<lambda>cm. log_created (sc_CreateConfigMap C cm) (ConfigMapRes (Name (cm_meta cm)))),
     sc_CreateSecret = (\<lambda>s. log_created (sc_CreateSecret C s) (SecretRes (Name (sec_meta s)))),
     sc_CreatePod = (\<lambda>p. log_created (sc_CreatePod C p) (PodRes (Name (pod_meta p)))),
     sc_DeleteConfigMap = (\<lambda>ns n. log_event (sc_DeleteConfigMap C ns n) [Deleted (ConfigMapRes n)]),
     sc_DeleteSecret = (\<lambda>ns n. log_event (sc_DeleteSecret C ns n) [Deleted (SecretRes n)]),
     sc_OwnConfigMap = sc_OwnConfigMap C, sc_OwnSecret = sc_OwnSecret C, sc_OwnPod = sc_OwnPod C,
     sc_Now = log_event (sc_Now C) [], sc_NewUUID = log_event (sc_NewUUID C) [],
     sc_LoadConfig = sc_LoadConfig C, sc_JSONErrorText = sc_JSONErrorText C, sc_ErrorText = sc_ErrorText C,
     sc_DecodeErrorText = sc_DecodeErrorText C, sc_DurationFraction = sc_DurationFraction C\<rparr>"

lemma recorded_simps [simp]:
  "sc_Namespace (recorded C) = sc_Namespace C"
  "sc_GetRun (recorded C) ns n = log_event (sc_GetRun C ns n) []"
  "sc_StatusUpdate (recorded C) run = log_event (sc_StatusUpdate C run) [WroteStatus run]"
  "sc_GetSecret (recorded C) ns n = log_event (sc_GetSecret C ns n) []"
  "sc_GetTargetRequest (recorded C) ns n = log_event (sc_GetTargetRequest C ns n) []"
  "sc_GetPod (recorded C) ns n = log_event (sc_GetPod C ns n) []"
  "sc_CreateConfigMap (recorded C) cm = log_created (sc_CreateConfigMap C cm) (ConfigMapRes (Name (cm_meta cm)))"
  "sc_CreateSecret (recorded C) s = log_created (sc_CreateSecret C s) (SecretRes (Name (sec_meta s)))"
  "sc_CreatePod (recorded C) p = log_created (sc_CreatePod C p) (PodRes (Name (pod_meta p)))"
  "sc_DeleteConfigMap (recorded C) ns n = log_event (sc_DeleteConfigMap C ns n) [Deleted (ConfigMapRes n)]"
  "sc_DeleteSecret (recorded C) ns n = log_event (sc_DeleteSecret C ns n) [Deleted (SecretRes n)]"
  "sc_OwnConfigMap (recorded C) = sc_OwnConfigMap C" "sc_OwnSecret (recorded C) = sc_OwnSecret C"
  "sc_OwnPod (recorded C) = sc_OwnPod C"
  "sc_Now (recorded C) = log_event (sc_Now C) []" "sc_NewUUID (recorded C) = log_event (sc_NewUUID C) []"
  "sc_LoadConfig (recorded C) = sc_LoadConfig C"
  "sc_JSONErrorText (recorded C) = sc_JSONErrorText C"
  "sc_DurationFraction (recorded C) = sc_DurationFraction C"
  by (simp_all add: recorded_def)

text \<open>The resources that exist after the recorded events and were created by them.\<close>

fun outstanding :: "resource set \<Rightarrow> scenario_event list \<Rightarrow> resource set" where
  "outstanding S [] = S"
| "outstanding S (Created r # es) = outstanding (insert r S) es"
| "outstanding S (Deleted r # es) = outstanding (S - {r}) es"
| "outstanding S (WroteStatus run # es) = outstanding S es"

lemma outstanding_append [simp]: "outstanding S (es @ fs) = outstanding (outstanding S es) fs"
  by (induction S es rule: outstanding.induct) simp_all

lemma outstanding_created [simp]: "outstanding S (map (\<lambda>n. Created (f n)) ns) = S \<union> f ` set ns"
  by (induction ns arbitrary: S) auto

lemma outstanding_deleted [simp]: "outstanding S (map (\<lambda>n. Deleted (f n)) ns) = S - f ` set ns"
  by (induction ns arbitrary: S) auto

text \<open>
  \<open>controllerutil.SetControllerReference\<close> adds an owner reference and leaves the name alone.
\<close>

definition keeps_names :: "'w scenario_client \<Rightarrow> bool" where
  "keeps_names C \<longleftrightarrow>
     (\<forall>run cm cm'. sc_OwnConfigMap C run cm = Inr cm' \<longrightarrow> Name (cm_meta cm') = Name (cm_meta cm)) \<and>
     (\<forall>run s s'. sc_OwnSecret C run s = Inr s' \<longrightarrow> Name (sec_meta s') = Name (sec_meta s)) \<and>
     (\<forall>run p p'. sc_OwnPod C run p = Inr p' \<longrightarrow> Name (pod_meta p') = Name (pod_meta p))"

lemma cleanup_log:
  "snd (cleanup (recorded C) cms secrets wl) =
     snd wl @ map (\<lambda>n. Deleted (ConfigMapRes n)) cms @ map (\<lambda>n. Deleted (SecretRes n)) secrets"
proof -
  have "snd (delete_config_maps (recorded C) cms wl) = snd wl @ map (\<lambda>n. Deleted (ConfigMapRes n)) cms" for wl
    by (induction cms arbitrary: wl) (auto simp: log_event_def split: prod.splits)
  moreover have "snd (delete_secrets (recorded C) secrets wl) = snd wl @ map (\<lambda>n. Deleted (SecretRes n)) secrets" for wl
    by (induction secrets arbitrary: wl) (auto simp: log_event_def split: prod.splits)
  ultimately show ?thesis by (simp add: cleanup_def)
qed

lemma log_created_cases:
  assumes "log_created f r wl = (res, wl')"
  shows "(res = None \<and> snd wl' = snd wl @ [Created r]) \<or> (\<exists>e. res = Some e \<and> snd wl' = snd wl)"
  using assms by (auto simp: log_created_def split: prod.splits option.splits)

text \<open>The file loop creates a prefix of the config maps; on an error all of them are deleted again.\<close>

lemma create_file_config_maps_log:
  assumes "keeps_names C"
    and "create_file_config_maps (recorded C) run jid c files created wl = (r, wl')"
  shows "\<exists>new. case r of
      Inr cms \<Rightarrow> cms = created @ new \<and> length new = length files \<and>
        snd wl' = snd wl @ map (\<lambda>n. Created (ConfigMapRes n)) new
    | Inl e \<Rightarrow> snd wl' = snd wl @ map (\<lambda>n. Created (ConfigMapRes n)) new @ map (\<lambda>n. Deleted (ConfigMapRes n)) (created @ new)"
  using assms(2)
proof (induction files arbitrary: created wl)
  case (Cons f files)
  let ?n = "file_config_map_name jid f"
  show ?case
  proof (cases "\<exists>content cm. b64_decode (fm_Content f) = Some content \<and>
      sc_OwnConfigMap C run (config_map_for C run jid c ?n (fm_Name f) content) = Inr cm")
    case False
    then have "\<exists>e. r = Inl e \<and> wl' = cleanup (recorded C) created [] wl"
      using Cons.prems by (auto simp: config_map_for_def split: option.splits sum.splits)
    then show ?thesis by (auto simp: cleanup_log intro!: exI[of _ "[]"])
  next
    case True
    then obtain content cm where own: "b64_decode (fm_Content f) = Some content"
      "sc_OwnConfigMap C run (config_map_for C run jid c ?n (fm_Name f) content) = Inr cm" by blast
    then have n: "Name (cm_meta cm) = ?n"
      using assms(1) unfolding keeps_names_def by (fastforce simp: config_map_for_def meta_of_def)
    have cf: "config_map_for (recorded C) run jid c ?n (fm_Name f) content = config_map_for C run jid c ?n (fm_Name f) content"
      by (simp add: config_map_for_def)
    obtain a wl1 where cr: "log_created (sc_CreateConfigMap C cm) (ConfigMapRes ?n) wl = (a, wl1)" by (metis surj_pair)
    from log_created_cases[OF cr] show ?thesis
    proof
      assume ok: "a = None \<and> snd wl1 = snd wl @ [Created (ConfigMapRes ?n)]"
      then have "create_file_config_maps (recorded C) run jid c files (created @ [?n]) wl1 = (r, wl')"
        using Cons.prems own cr by (simp add: cf n)
      from Cons.IH[OF this] obtain new where "case r of
          Inr cms \<Rightarrow> cms = (created @ [?n]) @ new \<and> length new = length files \<and>
            snd wl' = snd wl1 @ map (\<lambda>n. Created (ConfigMapRes n)) new
        | Inl e \<Rightarrow> snd wl' = snd wl1 @ map (\<lambda>n. Created (ConfigMapRes n)) new @ map (\<lambda>n. Deleted (ConfigMapRes n)) ((created @ [?n]) @ new)"
        by blast
      with ok show ?thesis by (intro exI[of _ "?n # new"]) (auto split: sum.splits)
    next
      assume bad: "\<exists>e. a = Some e \<and> snd wl1 = snd wl"
      then obtain e where "r = Inl e" "wl' = cleanup (recorded C) created [] wl1"
        using Cons.prems own cr by (auto simp: cf n)
      with bad show ?thesis by (auto simp: cleanup_log intro!: exI[of _ "[]"])
    qed
  qed
qed (auto intro!: exI[of _ "[]"])

definition prepared_set :: "preparedJobResources \<Rightarrow> resource set" where
  "prepared_set res = ConfigMapRes ` set (createdConfigMaps res) \<union> SecretRes ` set (createdSecrets res)"

definition is_pod :: "scenario_event \<Rightarrow> bool" where
  "is_pod e \<longleftrightarrow> (\<exists>n. e = Created (PodRes n))"

lemma is_pod_code [code]:
  "is_pod e = (case e of Created r \<Rightarrow> (case r of PodRes n \<Rightarrow> True | _ \<Rightarrow> False) | _ \<Rightarrow> False)"
  by (auto simp: is_pod_def split: scenario_event.splits resource.splits)

lemma prepare_pull_secrets_log:
  assumes "keeps_names C" and "prepare_pull_secrets (recorded C) run jid c cms wl = (r, wl')"
  shows "case r of
      Inr (pulls, secrets) \<Rightarrow> snd wl' = snd wl @ map (\<lambda>n. Created (SecretRes n)) secrets
    | Inl e \<Rightarrow> snd wl' = snd wl @ map (\<lambda>n. Deleted (ConfigMapRes n)) cms"
proof -
  let ?spec = "sr_Spec run" and ?s = "image_pull_secret (recorded C) run jid c"
  have nm: "Name (sec_meta s) = ''krkn-job-'' @ jid @ ''-registry''" if "sc_OwnSecret C run ?s = Inr s" for s
    using assms(1) that unfolding keeps_names_def by (fastforce simp: image_pull_secret_def meta_of_def)
  consider (saved) "RegistryName ?spec \<noteq> ''''" | (none) "RegistryName ?spec = ''''" "\<not> (RegistryURL ?spec \<noteq> '''' \<and> ScenarioRepository ?spec \<noteq> '''')"
    | (owner) e where "RegistryName ?spec = ''''" "RegistryURL ?spec \<noteq> '''' \<and> ScenarioRepository ?spec \<noteq> ''''" "sc_OwnSecret C run ?s = Inl e"
    | (create) s where "RegistryName ?spec = ''''" "RegistryURL ?spec \<noteq> '''' \<and> ScenarioRepository ?spec \<noteq> ''''" "sc_OwnSecret C run ?s = Inr s"
    by (cases "sc_OwnSecret C run ?s") blast+
  then show ?thesis
  proof cases
    case (create s)
    obtain a wl1 where cr: "log_created (sc_CreateSecret C s) (SecretRes (Name (sec_meta s))) wl = (a, wl1)" by (metis surj_pair)
    from log_created_cases[OF cr] show ?thesis
      using assms(2) create cr nm by (auto simp: prepare_pull_secrets_def Let_def cleanup_log)
  qed (use assms(2) in \<open>auto simp: prepare_pull_secrets_def Let_def cleanup_log\<close>)
qed

lemma prepare_from_kubeconfig_log:
  assumes "keeps_names C"
    and "prepare_from_kubeconfig (recorded C) run jid c config path kc url wl = (r, wl')"
  shows "\<exists>es. snd wl' = snd wl @ es \<and> list_all (\<lambda>e. \<not> is_pod e) es \<and> (case r of
      Inr res \<Rightarrow> (\<forall>S. outstanding S es = S \<union> prepared_set res) \<and> jobID res = jid \<and> pr_clusterName res = c
    | Inl e \<Rightarrow> (\<forall>S. outstanding S es \<subseteq> S))"
proof -
  let ?n = "''krkn-job-'' @ jid @ ''-kubeconfig''"
  let ?cm = "config_map_for (recorded C) run jid c ?n ''config'' kc"
  show ?thesis
  proof (cases "sc_OwnConfigMap C run ?cm")
    case (Inl e)
    with assms(2) show ?thesis by (auto simp: prepare_from_kubeconfig_def Let_def)
  next
    case (Inr cm)
    then have n: "Name (cm_meta cm) = ?n"
      using assms(1) unfolding keeps_names_def by (fastforce simp: config_map_for_def meta_of_def)
    obtain a wl1 where cr: "log_created (sc_CreateConfigMap C cm) (ConfigMapRes ?n) wl = (a, wl1)" by (metis surj_pair)
    show ?thesis
    proof (cases a)
      case (Some e)
      with assms(2) Inr cr n log_created_cases[OF cr] show ?thesis
        by (auto simp: prepare_from_kubeconfig_def Let_def)
    next
      case None
      with log_created_cases[OF cr] have l1: "snd wl1 = snd wl @ [Created (ConfigMapRes ?n)]" by simp
      obtain f wl2 where f: "create_file_config_maps (recorded C) run jid c (Files (sr_Spec run)) [?n] wl1 = (f, wl2)" by (metis surj_pair)
      note F = create_file_config_maps_log[OF assms(1) f]
      show ?thesis
      proof (cases f)
        case fe: (Inl e)
        with assms(2) Inr cr n None f have "r = Inl e" "wl' = wl2"
          by (simp_all add: prepare_from_kubeconfig_def Let_def)
        with F fe l1 show ?thesis
          by (auto simp: list_all_iff is_pod_def)
      next
        case fi: (Inr cms)
        with F obtain new where cms: "cms = ?n # new" "snd wl2 = snd wl1 @ map (\<lambda>n. Created (ConfigMapRes n)) new" by auto
        obtain p wl3 where p: "prepare_pull_secrets (recorded C) run jid c cms wl2 = (p, wl3)" by (metis surj_pair)
        note P = prepare_pull_secrets_log[OF assms(1) p]
        show ?thesis
        proof (cases p)
          case (Inl e)
          with assms(2) \<open>sc_OwnConfigMap C run ?cm = Inr cm\<close> cr n None f fi p have "r = Inl e" "wl' = wl3"
            by (simp_all add: prepare_from_kubeconfig_def Let_def)
          with P Inl l1 cms show ?thesis by (auto simp: list_all_iff is_pod_def)
        next
          case (Inr ps)
          obtain pulls secrets where ps: "ps = (pulls, secrets)" by fastforce
          with Inr assms(2) \<open>sc_OwnConfigMap C run ?cm = Inr cm\<close> cr n None f fi p have "wl' = wl3"
            "\<exists>res. r = Inr res \<and> createdConfigMaps res = cms \<and> createdSecrets res = secrets \<and> jobID res = jid \<and> pr_clusterName res = c"
            by (auto simp: prepare_from_kubeconfig_def Let_def)
          with P Inr ps l1 cms show ?thesis
            by (auto simp: list_all_iff is_pod_def prepared_set_def)
        qed
      qed
    qed
  qed
qed

lemma log_event_eq: "log_event f es wl = (r, wl') \<Longrightarrow> snd wl' = snd wl @ es"
  by (auto simp: log_event_def split: prod.splits)

lemma getKubeconfigFromProvider_log:
  "getKubeconfigFromProvider (recorded C) t p c wl = (r, wl') \<Longrightarrow> snd wl' = snd wl"
  by (auto simp: getKubeconfigFromProvider_def split: prod.splits sum.splits dest!: log_event_eq)

text \<open>Everything before the first creation only reads.\<close>

lemma prepareJobResources_shape:
  assumes "prepareJobResources (recorded C) run p c wl = (r, wl')"
  shows "(\<exists>e. r = Inl e \<and> snd wl' = snd wl) \<or>
    (\<exists>jid config path kc url wl1. snd wl1 = snd wl \<and>
       prepare_from_kubeconfig (recorded C) run jid c config path kc url wl1 = (r, wl'))"
proof -
  obtain jid wl1 where u: "log_event (sc_NewUUID C) [] wl = (jid, wl1)" by (metis surj_pair)
  show ?thesis
  proof (cases "sc_LoadConfig C")
    case (Inl e)
    with assms u log_event_eq[OF u] show ?thesis by (auto simp: prepareJobResources_def)
  next
    case (Inr config)
    obtain k wl2 where k: "getKubeconfigFromProvider (recorded C) (TargetRequestID (sr_Spec run)) p c wl1 = (k, wl2)" by (metis surj_pair)
    obtain t wl3 where t: "log_event (sc_GetTargetRequest C (sc_Namespace C) (TargetRequestID (sr_Spec run))) [] wl2 = (t, wl3)" by (metis surj_pair)
    have l: "snd wl2 = snd wl" "snd wl3 = snd wl"
      using log_event_eq[OF u] getKubeconfigFromProvider_log[OF k] log_event_eq[OF t] by simp_all
    have r: "(r, wl') = (case k of Inl e \<Rightarrow> (Inl (KubeconfigFailed p e), wl2)
        | Inr kb \<Rightarrow> (case b64_decode kb of None \<Rightarrow> (Inl (KubeconfigUndecodable kb), wl2)
          | Some kc \<Rightarrow> prepare_from_kubeconfig (recorded C) run jid c config
              (if KubeconfigPath (sr_Spec run) = '''' then cfg_KubeconfigPath config else KubeconfigPath (sr_Spec run)) kc
              (cluster_url (case t of Inl e \<Rightarrow> None | Inr x \<Rightarrow> Some x) p c) wl3))"
      unfolding assms[symmetric] using u Inr k t
      by (simp add: prepareJobResources_def cong: sum.case_cong option.case_cong)
    show ?thesis
    proof (cases "\<exists>kb kc. k = Inr kb \<and> b64_decode kb = Some kc")
      case False
      with r l show ?thesis by (auto split: sum.splits option.splits)
    next
      case True
      then obtain kb kc where k': "k = Inr kb" "b64_decode kb = Some kc" by blast
      note r' = r[unfolded k'(1) sum.case k'(2) option.case, symmetric]
      show ?thesis using l(2) r' by (intro disjI2 exI conjI)
    qed
  qed
qed

lemma prepareJobResources_log:
  assumes "keeps_names C" and "prepareJobResources (recorded C) run p c wl = (r, wl')"
  shows "\<exists>es. snd wl' = snd wl @ es \<and> list_all (\<lambda>e. \<not> is_pod e) es \<and> (case r of
      Inr res \<Rightarrow> (\<forall>S. outstanding S es = S \<union> prepared_set res) \<and> pr_clusterName res = c
    | Inl e \<Rightarrow> (\<forall>S. outstanding S es \<subseteq> S))"
  using prepareJobResources_shape[OF assms(2)]
proof (elim disjE exE conjE)
  fix jid config path kc url wl1
  assume l: "snd wl1 = snd wl" and p: "prepare_from_kubeconfig (recorded C) run jid c config path kc url wl1 = (r, wl')"
  from prepare_from_kubeconfig_log[OF assms(1) p] show ?thesis
    unfolding l by (auto split: sum.splits)
qed auto

lemma executeScenarioPod_log:
  assumes "keeps_names C" and "executeScenarioPod (recorded C) run provider res i wl = (err, run', wl')"
  shows "case err of
      Some e \<Rightarrow> run' = run \<and> snd wl' = snd wl @ map (\<lambda>n. Deleted (ConfigMapRes n)) (createdConfigMaps res) @
        map (\<lambda>n. Deleted (SecretRes n)) (createdSecrets res)
    | None \<Rightarrow> \<exists>now. snd wl' = snd wl @ [Created (PodRes (''krkn-job-'' @ jobID res))] \<and>
        run' = set_jobs (case i of None \<Rightarrow> jobs run @ [new_job provider res now]
          | Some i \<Rightarrow> (jobs run)[i := retried_job res now (jobs run ! i)]) run"
proof (cases "sc_OwnPod C run (scenario_pod (recorded C) run res)")
  case (Inl e)
  with assms(2) show ?thesis
    by (auto simp: executeScenarioPod_def cleanupPreparedResources_def cleanup_log)
next
  case (Inr pod)
  then have n: "Name (pod_meta pod) = ''krkn-job-'' @ jobID res"
    using assms(1) unfolding keeps_names_def by (fastforce simp: scenario_pod_def meta_of_def)
  obtain a wl1 where cr: "log_created (sc_CreatePod C pod) (PodRes (Name (pod_meta pod))) wl = (a, wl1)" by (metis surj_pair)
  obtain now wl2 where t: "log_event (sc_Now C) [] wl1 = (now, wl2)" by (metis surj_pair)
  show ?thesis
    using log_created_cases[OF cr] log_event_eq[OF t] assms(2) Inr cr t n
    by (auto simp: executeScenarioPod_def cleanupPreparedResources_def cleanup_log)
qed

text \<open>
  C3. No leak: a failed attempt to start the job of a cluster leaves the status alone, creates no pod,
  and every config map and secret it created has been deleted again; a successful attempt creates
  exactly one pod, the one named in the job entry, keeps exactly the prepared resources, and either
  appends a fresh entry for the cluster or renews the entry that was waiting for a retry.
\<close>

theorem createClusterJob_outcome:
  assumes "keeps_names C" and "createClusterJob (recorded C) run provider cluster (w, []) = (err, run', w', log)"
  shows "case err of
      Some e \<Rightarrow> run' = run \<and> outstanding {} log = {} \<and> filter is_pod log = []
    | None \<Rightarrow> \<exists>res now. filter is_pod log = [Created (PodRes (''krkn-job-'' @ jobID res))] \<and>
        outstanding {} log = insert (PodRes (''krkn-job-'' @ jobID res)) (prepared_set res) \<and>
        run' = set_jobs (case find_index (\<lambda>job. ClusterName job = cluster \<and> Phase job = ''Retrying'') (jobs run) of
           None \<Rightarrow> jobs run @ [new_job provider res now]
         | Some i \<Rightarrow> (jobs run)[i := retried_job res now (jobs run ! i)]) run \<and>
        pr_clusterName res = cluster"
proof -
  obtain r wl1 where p: "prepareJobResources (recorded C) run provider cluster (w, []) = (r, wl1)" by (metis surj_pair)
  from prepareJobResources_log[OF assms(1) p] obtain es where es: "snd wl1 = es" "filter is_pod es = []"
    and R: "case r of Inr res \<Rightarrow> (\<forall>S. outstanding S es = S \<union> prepared_set res) \<and> pr_clusterName res = cluster
      | Inl e \<Rightarrow> (\<forall>S. outstanding S es \<subseteq> S)" by (auto simp: list_all_iff filter_empty_conv)
  show ?thesis
  proof (cases r)
    case (Inl e)
    with assms(2) p have "err = Some e" "run' = run" "(w', log) = wl1" by (auto simp: createClusterJob_def)
    moreover have "outstanding {} es = {}" using R Inl by auto
    ultimately show ?thesis using es by auto
  next
    case (Inr res)
    let ?i = "find_index (\<lambda>job. ClusterName job = cluster \<and> Phase job = ''Retrying'') (jobs run)"
    have x: "executeScenarioPod (recorded C) run provider res ?i wl1 = (err, run', w', log)"
      using assms(2) p Inr by (simp add: createClusterJob_def)
    note L = executeScenarioPod_log[OF assms(1) x] and R' = R[unfolded Inr sum.case]
    show ?thesis
    proof (cases err)
      case (Some e)
      with L es R' show ?thesis by (auto simp: filter_empty_conv is_pod_def prepared_set_def)
    next
      case None
      with L es R' show ?thesis by (auto simp: is_pod_def)
    qed
  qed
qed

text \<open>A concrete client: an API that serves one provider and refuses pods when told to.\<close>

definition sample_config :: krknctl_config where
  "sample_config = \<lparr>cfg_KubeconfigPath = ''/home/krkn/.kube/config'', cfg_QuayHost = ''quay.io'',
     cfg_QuayOrg = ''krkn-chaos'', cfg_QuayScenarioRegistry = ''krkn-hub''\<rparr>"

definition sample_request :: KrknTargetRequest where
  "sample_request = \<lparr>tr_meta = meta_of ''req-1'' ''krkn'' [], tr_UUID = ''req-1'',
     tr_Status = \<lparr>trs_Status = ''Completed'', trs_TargetData = [(''krkn-operator'',
       [\<lparr>ct_ClusterName = ''c1'', ct_ClusterAPIURL = ''https://c1''\<rparr>, \<lparr>ct_ClusterName = ''c2'', ct_ClusterAPIURL = ''https://c2''\<rparr>])],
       trs_Completed = None\<rparr>\<rparr>"

definition sample_pod :: "string \<Rightarrow> string \<Rightarrow> Pod" where
  "sample_pod name phase = \<lparr>pod_meta = meta_of name ''krkn'' [], pod_ServiceAccountName = '''', pod_RestartPolicy = ''Never'',
     pod_ImagePullSecrets = [], pod_RunAsUser = 1001, pod_RunAsGroup = 1001, pod_FSGroup = 1001, pod_Containers = [],
     pod_Volumes = [], pod_Phase = phase, pod_ContainerStatuses = []\<rparr>"

definition sample_scenario_client :: "KrknScenarioRun \<Rightarrow> (string \<Rightarrow> string) \<Rightarrow> api_error option \<Rightarrow> nat scenario_client" where
  "sample_scenario_client run pod_phase refusal = \<lparr>sc_Namespace = ''krkn'', sc_GetRun = (\<lambda>_ _ w. (Inr run, w)),
     sc_StatusUpdate = (\<lambda>_ w. (None, w)),
     sc_GetSecret = (\<lambda>_ n w. (Inr \<lparr>sec_meta = meta_of n ''krkn'' [], sec_Type = ''Opaque'', sec_Data = [(''managed-clusters'',
       encode_managed_clusters [(''krkn-operator'', [(''c1'', [(''kubeconfig'', ''YWJj'')]), (''c2'', [(''kubeconfig'', ''YWJj'')])])])]\<rparr>, w)),
     sc_GetTargetRequest = (\<lambda>_ _ w. (Inr sample_request, w)),
     sc_GetPod = (\<lambda>_ n w. (Inr (sample_pod n (pod_phase n)), w)),
     sc_CreateConfigMap = (\<lambda>_ w. (None, w)), sc_CreateSecret = (\<lambda>_ w. (None, w)), sc_CreatePod = (\<lambda>_ w. (refusal, w)),
     sc_DeleteConfigMap = (\<lambda>_ _ w. (None, w)), sc_DeleteSecret = (\<lambda>_ _ w. (None, w)),
     sc_OwnConfigMap = (\<lambda>_ cm. Inr cm), sc_OwnSecret = (\<lambda>_ s. Inr s), sc_OwnPod = (\<lambda>_ p. Inr p),
     sc_Now = (\<lambda>w. (1000, w)), sc_NewUUID = (\<lambda>w. (nat_digits w, Suc w)), sc_LoadConfig = Inr sample_config,
     sc_JSONErrorText = (\<lambda>_. ''bad JSON''), sc_ErrorText = (\<lambda>_. ''error''), sc_DecodeErrorText = (\<lambda>_. ''bad''),
     sc_DurationFraction = (\<lambda>f u s. f * u div s)\<rparr>"

lemma sample_keeps_names: "keeps_names (sample_scenario_client run ph e)"
  by (simp add: keeps_names_def sample_scenario_client_def)

definition zero_spec :: KrknScenarioRunSpec where
  "zero_spec = \<lparr>TargetRequestID = ''req-1'', OwnerUserID = ''a.b@x.io'', TargetClusters = [(''krkn-operator'', [''c1'', ''c2''])],
     ScenarioName = ''dummy'', ScenarioImage = ''krkn-hub:dummy'', KubeconfigPath = '''',
     Files = [\<lparr>fm_Name = ''a.txt'', fm_Content = ''YWJj'', fm_MountPath = ''/a''\<rparr>], Environment = [(''K'', ''V'')],
     RegistryURL = ''r.io'', ScenarioRepository = ''repo'', Token = ''t'', Username = '''', Password = '''', RegistryName = '''',
     spec_MaxRetries = 2, RetryBackoff = ''exponential'', RetryDelay = ''1s''\<rparr>"

definition sample_run :: "string \<Rightarrow> ClusterJobStatus list \<Rightarrow> KrknScenarioRun" where
  "sample_run phase js = \<lparr>sr_meta = meta_of ''run-1'' ''krkn'' [], sr_Spec = zero_spec,
     sr_Status = \<lparr>sr_Phase = phase, TotalTargets = 2, SuccessfulJobs = 0, FailedJobs = 0, RunningJobs = 0,
       ClusterJobs = js, Conditions = None\<rparr>\<rparr>"

theorem createClusterJob_outcome_witness:
  "\<exists>e w' log. createClusterJob (recorded (sample_scenario_client (sample_run '''' []) (\<lambda>_. ''Running'') (Some AlreadyExists)))
       (sample_run '''' []) ''krkn-operator'' ''c1'' (7, []) = (Some e, sample_run '''' [], w', log) \<and>
     length log = 6 \<and> outstanding {} log = {}"
proof -
  let ?C = "sample_scenario_client (sample_run '''' []) (\<lambda>_. ''Running'') (Some AlreadyExists)"
  let ?r = "createClusterJob (recorded ?C) (sample_run '''' []) ''krkn-operator'' ''c1'' (7, [])"
  obtain err run' w' log where r: "?r = (err, run', w', log)" by (metis surj_pair)
  have "fst ?r \<noteq> None" "length (snd (snd (snd ?r))) = 6" by code_simp+
  with r obtain e where e: "err = Some e" and "length log = 6" by auto
  with createClusterJob_outcome[OF sample_keeps_names r] r show ?thesis by auto
qed

end
