(* ===== verification/Scenario_Run_Controller.thy ===== *)
theory Scenario_Run_Controller
  imports Scenario_Resources
begin

text \<open>
  The second half of \<open>src/internal/controller/krknscenariorun_controller.go\<close>: the life of the cluster
  jobs (pod phases, retries with back-off, cancellation), the overall status, the comparison of
  statuses, and the reconcile loop. A run-time panic of the Go code (a nil start time, a negative shift
  count) is an error value.
\<close>

datatype scenario_error = ScenarioApi api_error | NilDereference | NegativeShift

type_synonym 'w job_outcome = "scenario_error option \<times> KrknScenarioRun \<times> 'w"

section \<open>Pods and single jobs\<close>

definition setCompletionTime :: "'w scenario_client \<Rightarrow> ClusterJobStatus \<Rightarrow> 'w \<Rightarrow> ClusterJobStatus \<times> 'w" where
  "setCompletionTime C job w =
    (if CompletionTime job = None then (case sc_Now C w of (now, w') \<Rightarrow> (job\<lparr>CompletionTime := Some now\<rparr>, w'))
     else (job, w))"

definition extractPodErrorMessage :: "Pod \<Rightarrow> string" where
  "extractPodErrorMessage pod =
    (case pod_ContainerStatuses pod of
       [] \<Rightarrow> ''''
     | cs # _ \<Rightarrow>
       (case cs_Terminated cs of
          Some t \<Rightarrow> term_Reason t @ '': '' @ term_Message t
        | None \<Rightarrow> (case cs_Waiting cs of Some v \<Rightarrow> wait_Reason v @ '': '' @ wait_Message v | None \<Rightarrow> '''')))"

definition extractFailureReason :: "Pod \<Rightarrow> string" where
  "extractFailureReason pod =
    (case pod_ContainerStatuses pod of
       [] \<Rightarrow> ''PodNotScheduled''
     | cs # _ \<Rightarrow>
       (case cs_Terminated cs of
          Some t \<Rightarrow>
            (if term_ExitCode t = 137 then ''OOMKilled''
             else if term_ExitCode t = 143 then ''SIGTERM''
             else if term_Reason t = ''Error'' then ''ContainerError''
             else term_Reason t)
        | None \<Rightarrow> (case cs_Waiting cs of Some v \<Rightarrow> wait_Reason v | None \<Rightarrow> ''Unknown'')))"

definition terminal_job :: "ClusterJobStatus \<Rightarrow> bool" where
  "terminal_job job \<longleftrightarrow> Phase job = ''Succeeded'' \<or> Phase job = ''Cancelled'' \<or> Phase job = ''MaxRetriesExceeded''"

definition shouldRetryJob :: "ClusterJobStatus \<Rightarrow> int \<Rightarrow> bool" where
  "shouldRetryJob job maxRetries =
    (if CancelRequested job then False
     else if terminal_job job then False
     else RetryCount job < (if maxRetries = 0 then 3 else maxRetries))"

definition calculateRetryDelay ::
  "(int \<Rightarrow> int \<Rightarrow> int \<Rightarrow> int) \<Rightarrow> int \<Rightarrow> string \<Rightarrow> string \<Rightarrow> scenario_error + duration" where
  "calculateRetryDelay frac retryCount backoffType delayStr =
    (let baseDelay =
       (if delayStr \<noteq> '''' then (case ParseDuration frac delayStr of Some d \<Rightarrow> d | None \<Rightarrow> 10 * second)
        else 10 * second)
     in if backoffType = ''exponential'' then
          (if retryCount < 0 then Inl NegativeShift
           else Inr (wrap64 (baseDelay * shl64 (nat retryCount))))
        else Inr baseDelay)"

definition jobExistsForCluster :: "KrknScenarioRun \<Rightarrow> string \<Rightarrow> bool" where
  "jobExistsForCluster run clusterName =
    (case List.find (\<lambda>job. ClusterName job = clusterName) (jobs run) of
       None \<Rightarrow> False
     | Some job \<Rightarrow> Phase job \<noteq> ''Retrying'')"

section \<open>One step of a job\<close>

definition put_job :: "nat \<Rightarrow> ClusterJobStatus \<Rightarrow> KrknScenarioRun \<Rightarrow> KrknScenarioRun" where
  "put_job i job run = set_jobs ((jobs run)[i := job]) run"

definition pod_not_found :: "'w scenario_client \<Rightarrow> nat \<Rightarrow> KrknScenarioRun \<Rightarrow> 'w \<Rightarrow> KrknScenarioRun \<times> 'w" where
  "pod_not_found C i run w =
    (let job = jobs run ! i;
         (recent, w1) =
           (case (Phase job = ''Pending'', StartTime job) of
              (True, Some start) \<Rightarrow> (case sc_Now C w of (now, w') \<Rightarrow> (time_sub now start < 30 * second, w'))
            | _ \<Rightarrow> (False, w))
     in if recent then (run, w1)
        else case sc_Now C w1 of (now, w2) \<Rightarrow>
          (put_job i (job\<lparr>Phase := ''Failed'', Message := ''Pod not found'', FailureReason := ''PodNotFound'',
             CompletionTime := Some now\<rparr>) run, w2))"

definition invalid_job ::
  "'w scenario_client \<Rightarrow> nat \<Rightarrow> string \<Rightarrow> ClusterJobStatus \<Rightarrow> KrknScenarioRun \<Rightarrow> 'w \<Rightarrow> 'w job_outcome" where
  "invalid_job C i msg job run w =
    (case setCompletionTime C (job\<lparr>Phase := ''Failed'', Message := msg, FailureReason := ''InvalidJobState''\<rparr>) w of
       (job', w') \<Rightarrow> (None, put_job i job' run, w'))"

text \<open>The retry itself, for a job that is entitled to one and whose back-off has passed.\<close>

definition retry_job :: "'w scenario_client \<Rightarrow> nat \<Rightarrow> ClusterJobStatus \<Rightarrow> time \<Rightarrow> KrknScenarioRun \<Rightarrow> 'w \<Rightarrow> 'w job_outcome" where
  "retry_job C i job0 now run0 w =
    (let job = job0\<lparr>Phase := ''Retrying'', RetryCount := RetryCount job0 + 1, LastRetryTime := Some now\<rparr>;
         run = put_job i job run0
     in if ProviderName job = '''' then invalid_job C i ''Retry failed: ProviderName is empty'' job run w
        else if ClusterName job = '''' then invalid_job C i ''Retry failed: ClusterName is empty'' job run w
        else case createClusterJob C run (ProviderName job) (ClusterName job) w of
            (None, run', w') \<Rightarrow> (None, run', w')
          | (Some e, run', w') \<Rightarrow>
              (case setCompletionTime C ((jobs run' ! i)\<lparr>Phase := ''Failed'', Message := ''Retry failed: '' @ job_error_text C e\<rparr>) w' of
                 (job', w'') \<Rightarrow> (None, put_job i job' run', w'')))"

definition effective_max_retries :: "KrknScenarioRun \<Rightarrow> ClusterJobStatus \<Rightarrow> int" where
  "effective_max_retries run job =
    (if MaxRetries job = 0 then (if spec_MaxRetries (sr_Spec run) = 0 then 3 else spec_MaxRetries (sr_Spec run))
     else MaxRetries job)"

definition decide_retry :: "'w scenario_client \<Rightarrow> nat \<Rightarrow> ClusterJobStatus \<Rightarrow> KrknScenarioRun \<Rightarrow> 'w \<Rightarrow> 'w job_outcome" where
  "decide_retry C i job run w =
    (if shouldRetryJob job (MaxRetries job) then
       (case calculateRetryDelay (sc_DurationFraction C) (RetryCount job)
               (RetryBackoff (sr_Spec run)) (RetryDelay (sr_Spec run)) of
          Inl e \<Rightarrow> (Some e, run, w)
        | Inr delay \<Rightarrow>
          (case sc_Now C w of (now, w1) \<Rightarrow>
            (case LastRetryTime job of
               Some lastRetry \<Rightarrow> if time_sub now lastRetry < delay then (None, run, w1) else retry_job C i job now run w1
             | None \<Rightarrow> retry_job C i job now run w1)))
     else if CancelRequested job then (None, put_job i (job\<lparr>Phase := ''Cancelled''\<rparr>) run, w)
     else (None, put_job i (job\<lparr>Phase := ''MaxRetriesExceeded''\<rparr>) run, w))"

definition pod_failed :: "'w scenario_client \<Rightarrow> nat \<Rightarrow> Pod \<Rightarrow> KrknScenarioRun \<Rightarrow> 'w \<Rightarrow> 'w job_outcome" where
  "pod_failed C i pod run w =
    (case setCompletionTime C ((jobs run ! i)\<lparr>Phase := ''Failed'', Message := extractPodErrorMessage pod,
             FailureReason := extractFailureReason pod\<rparr>) w of
       (job1, w1) \<Rightarrow>
         (let job = job1\<lparr>MaxRetries := effective_max_retries run job1\<rparr>
          in decide_retry C i job (put_job i job run) w1))"

definition backfill_image :: "Pod \<Rightarrow> ClusterJobStatus \<Rightarrow> ClusterJobStatus" where
  "backfill_image pod job =
    (if ContainerImage job = '''' \<and> pod_Containers pod \<noteq> []
     then job\<lparr>ContainerImage := con_Image (hd (pod_Containers pod))\<rparr> else job)"

definition pod_found :: "'w scenario_client \<Rightarrow> nat \<Rightarrow> Pod \<Rightarrow> KrknScenarioRun \<Rightarrow> 'w \<Rightarrow> 'w job_outcome" where
  "pod_found C i pod run0 w =
    (let job = backfill_image pod (jobs run0 ! i); run = put_job i job run0
     in if pod_Phase pod = ''Pending'' then (None, put_job i (job\<lparr>Phase := ''Pending''\<rparr>) run, w)
        else if pod_Phase pod = ''Running'' then (None, put_job i (job\<lparr>Phase := ''Running''\<rparr>) run, w)
        else if pod_Phase pod = ''Succeeded'' then
          (case setCompletionTime C (job\<lparr>Phase := ''Succeeded''\<rparr>) w of
             (job', w') \<Rightarrow> ((if StartTime job' = None then Some NilDereference else None), put_job i job' run, w'))
        else if pod_Phase pod = ''Failed'' then pod_failed C i pod run w
        else if pod_Phase pod = ''Unknown'' then
          (case setCompletionTime C (job\<lparr>Phase := ''Failed'', Message := ''Pod in unknown state'', FailureReason := ''PodUnknown''\<rparr>) w of
             (job', w') \<Rightarrow> (None, put_job i job' run, w'))
        else (None, run, w))"

definition skip_job :: "ClusterJobStatus \<Rightarrow> bool" where
  "skip_job job \<longleftrightarrow> terminal_job job \<or> (Phase job = ''Failed'' \<and> MaxRetries job \<le> RetryCount job \<and> \<not> CancelRequested job)"

definition update_job :: "'w scenario_client \<Rightarrow> nat \<Rightarrow> KrknScenarioRun \<Rightarrow> 'w \<Rightarrow> 'w job_outcome" where
  "update_job C i run w =
    (if skip_job (jobs run ! i) then (None, run, w)
     else case sc_GetPod C (sc_Namespace C) (PodName (jobs run ! i)) w of
         (Inl NotFound, w1) \<Rightarrow> (case pod_not_found C i run w1 of (run', w2) \<Rightarrow> (None, run', w2))
       | (Inl e, w1) \<Rightarrow> (None, run, w1)
       | (Inr pod, w1) \<Rightarrow> pod_found C i pod run w1)"

fun update_from :: "'w scenario_client \<Rightarrow> nat \<Rightarrow> nat \<Rightarrow> KrknScenarioRun \<Rightarrow> 'w \<Rightarrow> 'w job_outcome" where
  "update_from C i 0 run w = (None, run, w)"
| "update_from C i (Suc n) run w =
     (case update_job C i run w of
        (Some e, run', w') \<Rightarrow> (Some e, run', w')
      | (None, run', w') \<Rightarrow> update_from C (Suc i) n run' w')"

definition updateClusterJobStatuses :: "'w scenario_client \<Rightarrow> KrknScenarioRun \<Rightarrow> 'w \<Rightarrow> 'w job_outcome" where
  "updateClusterJobStatuses C run w = update_from C 0 (length (jobs run)) run w"

section \<open>Overall status\<close>

definition count_jobs :: "string list \<Rightarrow> ClusterJobStatus list \<Rightarrow> int" where
  "count_jobs phases js = int (length (filter (\<lambda>job. Phase job \<in> set phases) js))"

definition overall_phase :: "int \<Rightarrow> int \<Rightarrow> int \<Rightarrow> int \<Rightarrow> int \<Rightarrow> string" where
  "overall_phase totalJobs successfulJobs failedJobs runningJobs pendingJobs =
    (if totalJobs = 0 then ''Pending''
     else if runningJobs > 0 \<or> pendingJobs > 0 then ''Running''
     else if failedJobs = totalJobs then ''Failed''
     else if successfulJobs = totalJobs then ''Succeeded''
     else ''PartiallyFailed'')"

definition calculateOverallStatus :: "KrknScenarioRun \<Rightarrow> KrknScenarioRun" where
  "calculateOverallStatus run =
    (let js = jobs run;
         successfulJobs = count_jobs [''Succeeded''] js;
         failedJobs = count_jobs [''Failed'', ''Cancelled'', ''MaxRetriesExceeded''] js;
         runningJobs = count_jobs [''Running'', ''Retrying''] js;
         pendingJobs = count_jobs [''Pending''] js
     in run\<lparr>sr_Status := (sr_Status run)\<lparr>SuccessfulJobs := successfulJobs, FailedJobs := failedJobs,
          RunningJobs := runningJobs,
          sr_Phase := overall_phase (int (length js)) successfulJobs failedJobs runningJobs pendingJobs\<rparr>\<rparr>)"

section \<open>Comparison of statuses\<close>

definition timeEqual :: "time option \<Rightarrow> time option \<Rightarrow> bool" where
  "timeEqual t1 t2 = (case (t1, t2) of (None, None) \<Rightarrow> True | (Some a, Some b) \<Rightarrow> a = b | _ \<Rightarrow> False)"

definition jobStatusEqual :: "ClusterJobStatus \<Rightarrow> ClusterJobStatus \<Rightarrow> bool" where
  "jobStatusEqual old new =
    (if ClusterName old \<noteq> ClusterName new \<or> JobID old \<noteq> JobID new \<or> PodName old \<noteq> PodName new \<or>
        Phase old \<noteq> Phase new \<or> Message old \<noteq> Message new \<or> RetryCount old \<noteq> RetryCount new \<or>
        MaxRetries old \<noteq> MaxRetries new \<or> CancelRequested old \<noteq> CancelRequested new \<or>
        FailureReason old \<noteq> FailureReason new then False
     else if \<not> timeEqual (StartTime old) (StartTime new) \<or> \<not> timeEqual (CompletionTime old) (CompletionTime new) \<or>
        \<not> timeEqual (LastRetryTime old) (LastRetryTime new) then False
     else True)"

definition statusEqual :: "KrknScenarioRunStatus \<Rightarrow> KrknScenarioRunStatus \<Rightarrow> bool" where
  "statusEqual old new =
    (if sr_Phase old \<noteq> sr_Phase new then False
     else if TotalTargets old \<noteq> TotalTargets new then False
     else if SuccessfulJobs old \<noteq> SuccessfulJobs new then False
     else if FailedJobs old \<noteq> FailedJobs new then False
     else if RunningJobs old \<noteq> RunningJobs new then False
     else if length (ClusterJobs old) \<noteq> length (ClusterJobs new) then False
     else if \<not> list_all (\<lambda>(a, b). jobStatusEqual a b) (zip (ClusterJobs old) (ClusterJobs new)) then False
     else Conditions old = Conditions new)"

definition countJobPhaseChanges :: "ClusterJobStatus list \<Rightarrow> ClusterJobStatus list \<Rightarrow> int" where
  "countJobPhaseChanges oldJobs newJobs =
     int (length (filter (\<lambda>(a, b). Phase a \<noteq> Phase b) (zip oldJobs newJobs)))"

definition arrow :: string where
  "arrow = [CHR 0xE2, CHR 0x86, CHR 0x92]"

definition count_change :: "string \<Rightarrow> int \<Rightarrow> int \<Rightarrow> string list" where
  "count_change name oldVal newVal =
     (if oldVal \<noteq> newVal then [name @ '':'' @ itoa oldVal @ arrow @ itoa newVal] else [])"

fun join :: "string \<Rightarrow> string list \<Rightarrow> string" where
  "join sep [] = ''''"
| "join sep [s] = s"
| "join sep (s # t # ss) = s @ sep @ join sep (t # ss)"

definition detectStatusChanges :: "KrknScenarioRunStatus \<Rightarrow> KrknScenarioRunStatus \<Rightarrow> string" where
  "detectStatusChanges old new =
    (let phaseChanges = countJobPhaseChanges (ClusterJobs old) (ClusterJobs new);
         newJobs = int (length (ClusterJobs new)) - int (length (ClusterJobs old));
         changes =
           (if sr_Phase old \<noteq> sr_Phase new then [''phase:'' @ sr_Phase old @ arrow @ sr_Phase new] else []) @
           count_change ''successful'' (SuccessfulJobs old) (SuccessfulJobs new) @
           count_change ''failed'' (FailedJobs old) (FailedJobs new) @
           count_change ''running'' (RunningJobs old) (RunningJobs new) @
           (if phaseChanges > 0 then [itoa phaseChanges @ '' job phase changes''] else []) @
           (if newJobs > 0 then [''+'' @ itoa newJobs @ '' new jobs''] else [])
     in if changes = [] then ''unknown changes'' else join '', '' changes)"

section \<open>Reconcile\<close>

definition targets :: "KrknScenarioRun \<Rightarrow> (string \<times> string) list" where
  "targets run = concat (map (\<lambda>(providerName, clusterNames). map (Pair providerName) clusterNames)
     (TargetClusters (sr_Spec run)))"

text \<open>The loop over the targets: an error of one cluster is logged and the others go on.\<close>

fun create_jobs :: "'w scenario_client \<Rightarrow> (string \<times> string) list \<Rightarrow> KrknScenarioRun \<Rightarrow> 'w \<Rightarrow> KrknScenarioRun \<times> 'w" where
  "create_jobs C [] run w = (run, w)"
| "create_jobs C ((providerName, clusterName) # ts) run w =
     (if jobExistsForCluster run clusterName then create_jobs C ts run w
      else case createClusterJob C run providerName clusterName w of
          (err, run', w') \<Rightarrow> create_jobs C ts run' w')"

definition init_status :: "KrknScenarioRun \<Rightarrow> KrknScenarioRun" where
  "init_status run = run\<lparr>sr_Status := (sr_Status run)\<lparr>sr_Phase := ''Pending'',
     TotalTargets := int (length (targets run)), ClusterJobs := []\<rparr>\<rparr>"

definition reconcile_jobs :: "'w scenario_client \<Rightarrow> KrknScenarioRun \<Rightarrow> 'w \<Rightarrow> (ctrl_result \<times> scenario_error option) \<times> 'w" where
  "reconcile_jobs C run w =
    (case create_jobs C (targets run) run w of (run1, w1) \<Rightarrow>
      (case updateClusterJobStatuses C run1 w1 of
         (Some e, run2, w2) \<Rightarrow> ((no_requeue, Some e), w2)
       | (None, run2, w2) \<Rightarrow>
         (let run3 = calculateOverallStatus run2;
              result = (if RunningJobs (sr_Status run3) > 0 then requeue_after (10 * second) else no_requeue)
          in if \<not> statusEqual (sr_Status run1) (sr_Status run3) then
               (case sc_StatusUpdate C run3 w2 of
                  (Some e, w3) \<Rightarrow> ((no_requeue, Some (ScenarioApi e)), w3)
                | (None, w3) \<Rightarrow> ((result, None), w3))
             else ((result, None), w2))))"

definition Reconcile :: "'w scenario_client \<Rightarrow> string \<Rightarrow> string \<Rightarrow> 'w \<Rightarrow> (ctrl_result \<times> scenario_error option) \<times> 'w" where
  "Reconcile C ns name w =
    (case sc_GetRun C ns name w of
       (Inl NotFound, w1) \<Rightarrow> ((no_requeue, None), w1)
     | (Inl e, w1) \<Rightarrow> ((no_requeue, Some (ScenarioApi e)), w1)
     | (Inr run, w1) \<Rightarrow>
        if sr_Phase (sr_Status run) = '''' then
          (case sc_StatusUpdate C (init_status run) w1 of
             (Some e, w2) \<Rightarrow> ((no_requeue, Some (ScenarioApi e)), w2)
           | (None, w2) \<Rightarrow> reconcile_jobs C (init_status run) w2)
        else reconcile_jobs C run w1)"

section \<open>How a job may change\<close>

text \<open>
  The retry budget, and the changes that reconciling may make to one job: its identity stays, a
  finished job stays as it is, the retry counter never falls, it is untouched once cancellation has
  been requested, and the budget is kept.
\<close>

definition retry_ok :: "ClusterJobStatus \<Rightarrow> bool" where
  "retry_ok job \<longleftrightarrow> 0 \<le> RetryCount job \<and> (RetryCount job = 0 \<or> RetryCount job \<le> MaxRetries job)"

definition job_evolves :: "ClusterJobStatus \<Rightarrow> ClusterJobStatus \<Rightarrow> bool" where
  "job_evolves a b \<longleftrightarrow>
     ProviderName b = ProviderName a \<and> ClusterName b = ClusterName a \<and> ClusterAPIURL b = ClusterAPIURL a \<and>
     CancelRequested b = CancelRequested a \<and>
     (terminal_job a \<longrightarrow> b = a) \<and> RetryCount a \<le> RetryCount b \<and>
     (CancelRequested a \<longrightarrow> RetryCount b = RetryCount a) \<and> (retry_ok a \<longrightarrow> retry_ok b) \<and>
     (StartTime a \<noteq> None \<longrightarrow> StartTime b \<noteq> None)"

lemma job_evolves_refl [simp]: "job_evolves a a"
  by (simp add: job_evolves_def)

lemma job_evolves_trans [trans]: "job_evolves a b \<Longrightarrow> job_evolves b c \<Longrightarrow> job_evolves a c"
  by (auto simp: job_evolves_def)

lemma jobs_set_jobs [simp]:
  "jobs (set_jobs js run) = js" "sr_Spec (set_jobs js run) = sr_Spec run" "sr_meta (set_jobs js run) = sr_meta run"
  "set_jobs js (set_jobs js' run) = set_jobs js run" "set_jobs (jobs run) run = run"
  by (simp_all add: set_jobs_def)

lemma put_job_simps [simp]:
  "jobs (put_job i job run) = (jobs run)[i := job]" "sr_Spec (put_job i job run) = sr_Spec run"
  "put_job i job (put_job i job' run) = put_job i job run"
  by (simp_all add: put_job_def)

text \<open>A change of a run: jobs evolve in place and fresh ones are appended; nothing else moves.\<close>

definition fresh_job :: "ClusterJobStatus \<Rightarrow> bool" where
  "fresh_job job \<longleftrightarrow> RetryCount job = 0 \<and> StartTime job \<noteq> None \<and> \<not> CancelRequested job"

definition run_evolves :: "KrknScenarioRun \<Rightarrow> KrknScenarioRun \<Rightarrow> bool" where
  "run_evolves run run' \<longleftrightarrow> run' = set_jobs (jobs run') run \<and>
     list_all2 job_evolves (jobs run) (take (length (jobs run)) (jobs run'))"

lemma run_evolves_refl [simp]: "run_evolves run run"
  by (simp add: run_evolves_def list_all2_refl)

lemma run_evolves_nth:
  "run_evolves run run' \<longleftrightarrow> run' = set_jobs (jobs run') run \<and> length (jobs run) \<le> length (jobs run') \<and>
     (\<forall>i < length (jobs run). job_evolves (jobs run ! i) (jobs run' ! i))"
  by (auto simp: run_evolves_def list_all2_conv_all_nth)

lemma run_evolves_trans [trans]:
  assumes "run_evolves a b" "run_evolves b c" shows "run_evolves a c"
proof -
  have b: "b = set_jobs (jobs b) a" and c: "c = set_jobs (jobs c) b" using assms run_evolves_nth by blast+
  have "set_jobs (jobs c) b = set_jobs (jobs c) a" by (subst b) simp
  with c have "c = set_jobs (jobs c) a" by (rule trans)
  moreover have l: "length (jobs a) \<le> length (jobs b)" "length (jobs b) \<le> length (jobs c)"
    using assms run_evolves_nth by blast+
  moreover have "job_evolves (jobs a ! i) (jobs c ! i)" if i: "i < length (jobs a)" for i
  proof -
    have "job_evolves (jobs a ! i) (jobs b ! i)" using assms(1) i run_evolves_nth by blast
    also have "job_evolves (jobs b ! i) (jobs c ! i)"
      using assms(2) i l(1) run_evolves_nth order_less_le_trans by blast
    finally show ?thesis .
  qed
  ultimately show ?thesis unfolding run_evolves_nth by simp
qed

lemma run_evolves_put:
  assumes "i < length (jobs run)" and "job_evolves (jobs run ! i) job"
  shows "run_evolves run (put_job i job run)"
  using assms by (auto simp: run_evolves_nth nth_list_update put_job_def)

lemma find_index_Some:
  "find_index P xs = Some i \<Longrightarrow> i < length xs \<and> P (xs ! i) \<and> (\<forall>j < i. \<not> P (xs ! j))"
proof (induction xs arbitrary: i)
  case (Cons x xs)
  show ?case
  proof (cases "P x")
    case False
    with Cons.prems obtain k where "find_index P xs = Some k" "i = Suc k" by auto
    with Cons.IH[of k] False show ?thesis by (auto simp: nth_Cons split: nat.splits)
  qed (use Cons.prems in auto)
qed simp

lemma find_index_None: "find_index P xs = None \<longleftrightarrow> (\<forall>x \<in> set xs. \<not> P x)"
  by (induction xs) auto

lemma retried_job_evolves: "Phase job = ''Retrying'' \<Longrightarrow> job_evolves job (retried_job res now job)"
  by (simp add: job_evolves_def retried_job_def terminal_job_def retry_ok_def)

lemma createClusterJob_shape:
  assumes "createClusterJob C run p c w = (err, run', w')"
  shows "run' = run \<or> (\<exists>res now. pr_clusterName res = c \<and> err = None \<and>
     run' = set_jobs (case find_index (\<lambda>job. ClusterName job = c \<and> Phase job = ''Retrying'') (jobs run) of
           None \<Rightarrow> jobs run @ [new_job p res now]
         | Some i \<Rightarrow> (jobs run)[i := retried_job res now (jobs run ! i)]) run)"
proof -
  have cn: "pr_clusterName res = c" if "prepareJobResources C run p c w = (Inr res, w1)" for res w1
    using that by (auto simp: prepareJobResources_def prepare_from_kubeconfig_def Let_def
        split: prod.splits sum.splits option.splits)
  show ?thesis
    using assms cn
    by (auto simp: createClusterJob_def executeScenarioPod_def split: prod.splits sum.splits option.splits)
qed

lemma createClusterJob_evolves:
  assumes "createClusterJob C run p c w = (err, run', w')"
  shows "run_evolves run run'"
  using createClusterJob_shape[OF assms]
proof (elim disjE exE conjE)
  fix res now
  assume r: "run' = set_jobs (case find_index (\<lambda>job. ClusterName job = c \<and> Phase job = ''Retrying'') (jobs run) of
           None \<Rightarrow> jobs run @ [new_job p res now]
         | Some i \<Rightarrow> (jobs run)[i := retried_job res now (jobs run ! i)]) run"
  show ?thesis
  proof (cases "find_index (\<lambda>job. ClusterName job = c \<and> Phase job = ''Retrying'') (jobs run)")
    case None
    with r show ?thesis by (simp add: run_evolves_nth nth_append)
  next
    case (Some i)
    with r find_index_Some[OF Some] retried_job_evolves show ?thesis
      by (auto simp: run_evolves_nth nth_list_update)
  qed
qed simp

text \<open>The update loop changes jobs in place.\<close>

definition run_updates :: "KrknScenarioRun \<Rightarrow> KrknScenarioRun \<Rightarrow> bool" where
  "run_updates run run' \<longleftrightarrow> run_evolves run run' \<and> length (jobs run') = length (jobs run)"

lemma run_updates_refl [simp]: "run_updates run run"
  by (simp add: run_updates_def)

lemma run_updates_trans: "run_updates a b \<Longrightarrow> run_updates b c \<Longrightarrow> run_updates a c"
  unfolding run_updates_def using run_evolves_trans by metis

lemma run_updates_put:
  assumes "i < length (jobs run)" and "job_evolves (jobs run ! i) job"
  shows "run_updates run (put_job i job run)"
  using run_evolves_put[OF assms] by (simp add: run_updates_def)

lemma createClusterJob_updates:
  assumes "createClusterJob C run p c w = (err, run', w')" and "job \<in> set (jobs run)"
    and "ClusterName job = c" and "Phase job = ''Retrying''"
  shows "run_updates run run'"
proof -
  have "find_index (\<lambda>job. ClusterName job = c \<and> Phase job = ''Retrying'') (jobs run) \<noteq> None"
    using assms(2-4) unfolding find_index_None by blast
  then have "length (jobs run') = length (jobs run)"
    using createClusterJob_shape[OF assms(1)] by auto
  with createClusterJob_evolves[OF assms(1)] show ?thesis by (simp add: run_updates_def)
qed

lemma setCompletionTime_shape:
  "setCompletionTime C job w = (job', w') \<Longrightarrow> \<exists>t. job' = job\<lparr>CompletionTime := t\<rparr>"
  by (auto simp: setCompletionTime_def split: if_splits prod.splits intro: exI[of _ "CompletionTime job"])

text \<open>Changes of a job that leaves its counters, identity and start time alone.\<close>

lemma job_evolves_fields:
  assumes "\<not> terminal_job a" and "ProviderName b = ProviderName a" "ClusterName b = ClusterName a"
    "ClusterAPIURL b = ClusterAPIURL a" "CancelRequested b = CancelRequested a" "RetryCount b = RetryCount a"
    "StartTime b = StartTime a" and "MaxRetries b = MaxRetries a \<or> MaxRetries a = 0"
  shows "job_evolves a b"
  using assms by (auto simp: job_evolves_def retry_ok_def)

lemma pod_not_found_updates:
  assumes "pod_not_found C i run w = (run', w')" and "i < length (jobs run)" and "\<not> terminal_job (jobs run ! i)"
  shows "run_updates run run'"
proof -
  have "run' = run \<or> (\<exists>now. run' = put_job i ((jobs run ! i)\<lparr>Phase := ''Failed'', Message := ''Pod not found'',
      FailureReason := ''PodNotFound'', CompletionTime := Some now\<rparr>) run)"
    using assms(1) by (auto simp: pod_not_found_def Let_def split: prod.splits if_splits bool.splits option.splits)
  then show ?thesis
    using run_updates_put[OF assms(2) job_evolves_fields[OF assms(3)]] by auto
qed

lemma invalid_job_updates:
  assumes "invalid_job C i msg job run w = (err, run', w')" and "i < length (jobs run)"
    and "jobs run ! i = job" and "\<not> terminal_job job"
  shows "run_updates run run'"
proof -
  obtain job' w1 where s: "setCompletionTime C (job\<lparr>Phase := ''Failed'', Message := msg, FailureReason := ''InvalidJobState''\<rparr>) w = (job', w1)"
    by (metis surj_pair)
  with assms(1) have "run' = put_job i job' run" by (simp add: invalid_job_def)
  then show ?thesis
    using run_updates_put[OF assms(2) job_evolves_fields, of job'] setCompletionTime_shape[OF s] assms(3,4) by auto
qed

lemma retry_job_updates:
  assumes "retry_job C i job0 now run0 w = (err, run', w')" and i: "i < length (jobs run0)"
    and "jobs run0 ! i = job0" "\<not> terminal_job job0" "\<not> CancelRequested job0" "RetryCount job0 < MaxRetries job0"
  shows "run_updates run0 run'"
proof -
  define job where "job = job0\<lparr>Phase := ''Retrying'', RetryCount := RetryCount job0 + 1, LastRetryTime := Some now\<rparr>"
  define run where "run = put_job i job run0"
  have ev: "run_updates run0 run"
    using run_updates_put[OF i, of job] assms(3-6) by (simp add: run_def job_def job_evolves_def retry_ok_def)
  have at: "i < length (jobs run)" "jobs run ! i = job" "\<not> terminal_job job"
    using i by (simp_all add: run_def job_def terminal_job_def)
  show ?thesis
  proof (cases "ProviderName job = '''' \<or> ClusterName job = ''''")
    case True
    then obtain msg where "invalid_job C i msg job run w = (err, run', w')"
      using assms(1) by (auto simp: retry_job_def Let_def job_def[symmetric] run_def[symmetric] split: if_splits)
    from run_updates_trans[OF ev invalid_job_updates[OF this at]] show ?thesis .
  next
    case False
    obtain e run1 w1 where c: "createClusterJob C run (ProviderName job) (ClusterName job) w = (e, run1, w1)" by (metis surj_pair)
    have "job \<in> set (jobs run)" using at(1,2) nth_mem by blast
    then have ev1: "run_updates run run1"
      using createClusterJob_updates[OF c, of job] by (simp add: job_def)
    show ?thesis
    proof (cases e)
      case None
      with assms(1) False c have "run' = run1"
        by (simp add: retry_job_def Let_def job_def[symmetric] run_def[symmetric])
      with ev ev1 run_updates_trans show ?thesis by blast
    next
      case (Some x)
      with createClusterJob_shape[OF c] have r1: "run1 = run" by auto
      obtain job' w2 where s: "setCompletionTime C ((jobs run ! i)\<lparr>Phase := ''Failed'', Message := ''Retry failed: '' @ job_error_text C x\<rparr>) w1 = (job', w2)"
        by (metis surj_pair)
      with assms(1) False c Some r1 have "run' = put_job i job' run"
        by (simp add: retry_job_def Let_def job_def[symmetric] run_def[symmetric])
      moreover have "job_evolves job job'"
        using setCompletionTime_shape[OF s] at(2,3) by (intro job_evolves_fields) auto
      ultimately have "run_updates run run'" using run_updates_put[OF at(1)] at(2) by simp
      with ev run_updates_trans show ?thesis by blast
    qed
  qed
qed

lemma decide_retry_updates:
  assumes "decide_retry C i job run w = (err, run', w')" and i: "i < length (jobs run)" and at: "jobs run ! i = job"
    and nt: "\<not> terminal_job job" and m: "MaxRetries job \<noteq> 0"
  shows "run_updates run run'"
proof (cases "shouldRetryJob job (MaxRetries job)")
  case False
  have "run_updates run (put_job i (job\<lparr>Phase := p\<rparr>) run)" for p
    using nt at by (intro run_updates_put[OF i] job_evolves_fields) simp_all
  with False assms(1) show ?thesis by (auto simp: decide_retry_def split: if_splits)
next
  case True
  then have ok: "\<not> CancelRequested job" "RetryCount job < MaxRetries job"
    using m by (auto simp: shouldRetryJob_def split: if_splits)
  have "run' = run \<or> (\<exists>now w2. retry_job C i job now run w2 = (err, run', w'))"
    using assms(1) True by (auto simp: decide_retry_def split: sum.splits prod.splits option.splits if_splits)
  then show ?thesis using retry_job_updates[OF _ i at nt ok] by auto
qed

lemma pod_failed_updates:
  assumes "pod_failed C i pod run w = (err, run', w')" and i: "i < length (jobs run)" and nt: "\<not> terminal_job (jobs run ! i)"
  shows "run_updates run run'"
proof -
  let ?j0 = "(jobs run ! i)\<lparr>Phase := ''Failed'', Message := extractPodErrorMessage pod, FailureReason := extractFailureReason pod\<rparr>"
  obtain job1 w1 where s: "setCompletionTime C ?j0 w = (job1, w1)" by (metis surj_pair)
  obtain t where job1: "job1 = ?j0\<lparr>CompletionTime := t\<rparr>" using setCompletionTime_shape[OF s] by blast
  define job where "job = job1\<lparr>MaxRetries := effective_max_retries run job1\<rparr>"
  have d: "decide_retry C i job (put_job i job run) w1 = (err, run', w')"
    using assms(1) s by (simp add: pod_failed_def Let_def job_def)
  have "MaxRetries job \<noteq> 0" "\<not> terminal_job job"
    by (simp_all add: job_def job1 effective_max_retries_def terminal_job_def)
  then have "run_updates (put_job i job run) run'"
    using decide_retry_updates[OF d] i by simp
  moreover have "run_updates run (put_job i job run)"
    by (intro run_updates_put[OF i] job_evolves_fields[OF nt]) (simp_all add: job_def job1 effective_max_retries_def)
  ultimately show ?thesis using run_updates_trans by blast
qed

lemma pod_found_updates:
  assumes "pod_found C i pod run w = (err, run', w')" and i: "i < length (jobs run)" and nt: "\<not> terminal_job (jobs run ! i)"
  shows "run_updates run run'"
proof -
  define job where "job = backfill_image pod (jobs run ! i)"
  define run1 where "run1 = put_job i job run"
  have jf: "ProviderName job = ProviderName (jobs run ! i)" "ClusterName job = ClusterName (jobs run ! i)"
    "ClusterAPIURL job = ClusterAPIURL (jobs run ! i)" "CancelRequested job = CancelRequested (jobs run ! i)"
    "RetryCount job = RetryCount (jobs run ! i)" "StartTime job = StartTime (jobs run ! i)"
    "MaxRetries job = MaxRetries (jobs run ! i)" "Phase job = Phase (jobs run ! i)"
    by (simp_all add: job_def backfill_image_def)
  have nt1: "\<not> terminal_job job" using nt jf(8) by (simp add: terminal_job_def)
  have ev1: "run_updates run run1"
    unfolding run1_def by (intro run_updates_put[OF i] job_evolves_fields[OF nt]) (simp_all add: jf)
  have at: "i < length (jobs run1)" "jobs run1 ! i = job" using i by (simp_all add: run1_def)
  have upd: "run_updates run (put_job i job' run1)"
    if "ProviderName job' = ProviderName job" "ClusterName job' = ClusterName job" "ClusterAPIURL job' = ClusterAPIURL job"
      "CancelRequested job' = CancelRequested job" "RetryCount job' = RetryCount job" "StartTime job' = StartTime job"
      "MaxRetries job' = MaxRetries job" for job'
    using that run_updates_trans[OF ev1 run_updates_put[OF at(1), of job']] nt1 at(2) by (simp add: job_evolves_fields)
  have sc: "run_updates run (put_job i job' run1)"
    if "setCompletionTime C (job\<lparr>Phase := ph, Message := ms, FailureReason := fr\<rparr>) w0 = (job', w1)" for job' ph ms fr w0 w1
    using setCompletionTime_shape[OF that] by (intro upd) auto
  have scs: "run_updates run (put_job i job' run1)"
    if "setCompletionTime C (job\<lparr>Phase := ph\<rparr>) w0 = (job', w1)" for job' ph w0 w1
    using setCompletionTime_shape[OF that] by (intro upd) auto
  have pf: "run_updates run run'" if "pod_failed C i pod run1 w = (err, run', w')"
    using run_updates_trans[OF ev1 pod_failed_updates[OF that at(1)]] nt1 at(2) by simp
  have P: "pod_found C i pod run w = (err, run', w')" by fact
  note P = P[unfolded pod_found_def Let_def, folded job_def, folded run1_def]
  consider "pod_Phase pod = ''Pending''" | "pod_Phase pod = ''Running''" | "pod_Phase pod = ''Succeeded''"
    | "pod_Phase pod = ''Failed''" | "pod_Phase pod = ''Unknown''"
    | "pod_Phase pod \<notin> {''Pending'', ''Running'', ''Succeeded'', ''Failed'', ''Unknown''}" by blast
  then show ?thesis
  proof cases
    case 3
    with P show ?thesis by (auto split: prod.splits dest: scs)
  next
    case 5
    with P show ?thesis by (auto split: prod.splits dest: sc)
  qed (use P ev1 pf upd in auto)
qed

lemma update_job_updates:
  assumes "update_job C i run w = (err, run', w')" and i: "i < length (jobs run)"
  shows "run_updates run run'"
proof (cases "skip_job (jobs run ! i)")
  case True
  with assms(1) show ?thesis by (simp add: update_job_def)
next
  case False
  then have nt: "\<not> terminal_job (jobs run ! i)" by (simp add: skip_job_def)
  obtain r w1 where g: "sc_GetPod C (sc_Namespace C) (PodName (jobs run ! i)) w = (r, w1)" by fastforce
  show ?thesis
  proof (cases r)
    case (Inr pod)
    with False g assms(1) have "pod_found C i pod run w1 = (err, run', w')" by (simp add: update_job_def)
    from pod_found_updates[OF this i nt] show ?thesis .
  next
    case (Inl e)
    show ?thesis
    proof (cases "e = NotFound")
      case True
      obtain run1 w2 where "pod_not_found C i run w1 = (run1, w2)" by fastforce
      with pod_not_found_updates[OF this i nt] True Inl False g assms(1) show ?thesis by (simp add: update_job_def)
    next
      case other: False
      with Inl False g assms(1) have "run' = run" by (cases e) (auto simp: update_job_def)
      then show ?thesis by simp
    qed
  qed
qed

lemma update_from_updates:
  assumes "update_from C i n run w = (err, run', w')" and "i + n \<le> length (jobs run)"
  shows "run_updates run run'"
  using assms
proof (induction C i n run w rule: update_from.induct)
  case (2 C i n run w)
  obtain e run1 w1 where u: "update_job C i run w = (e, run1, w1)" by (metis surj_pair)
  have ev: "run_updates run run1" using update_job_updates[OF u] "2.prems"(2) by simp
  show ?case
  proof (cases e)
    case None
    with u "2.prems"(1) have rest: "update_from C (Suc i) n run1 w1 = (err, run', w')" by simp
    have "Suc i + n \<le> length (jobs run1)" using "2.prems"(2) ev by (simp add: run_updates_def)
    from run_updates_trans[OF ev "2.IH"[OF u[symmetric] None refl rest this]] show ?thesis .
  next
    case (Some x)
    with u "2.prems"(1) ev show ?thesis by simp
  qed
qed simp

lemma create_jobs_evolves: "create_jobs C ts run w = (run', w') \<Longrightarrow> run_evolves run run'"
proof (induction C ts run w rule: create_jobs.induct)
  case (2 C p c ts run w)
  obtain e run1 w1 where c: "createClusterJob C run p c w = (e, run1, w1)" by (metis surj_pair)
  show ?case
  proof (cases "jobExistsForCluster run c")
    case False
    with "2.prems" c have "create_jobs C ts run1 w1 = (run', w')" by simp
    from "2.IH"(2)[OF False c[symmetric] refl this] createClusterJob_evolves[OF c] run_evolves_trans show ?thesis by blast
  qed (use 2 in auto)
qed simp

section \<open>The statuses a reconcile writes\<close>

definition written :: "scenario_event list \<Rightarrow> KrknScenarioRun list" where
  "written log = concat (map (\<lambda>e. case e of WroteStatus run \<Rightarrow> [run] | _ \<Rightarrow> []) log)"

lemma written_simps [simp]:
  "written [] = []" "written (xs @ ys) = written xs @ written ys" "written (Created r # es) = written es"
  "written (Deleted r # es) = written es" "written (WroteStatus run # es) = run # written es"
  by (simp_all add: written_def)

lemma written_mem: "run \<in> set (written log) \<longleftrightarrow> WroteStatus run \<in> set log"
  by (induction log) (auto simp: written_def split: scenario_event.split)

text \<open>Everything but the status update itself writes no status.\<close>

lemma log_created_written: "log_created f r wl = (a, wl') \<Longrightarrow> written (snd wl') = written (snd wl)"
  by (auto dest: log_created_cases)

lemma log_event_written: "log_event f [] wl = (a, wl') \<Longrightarrow> written (snd wl') = written (snd wl)"
  by (auto dest: log_event_eq)

lemma map_deleted_written [simp]: "written (map (\<lambda>n. Deleted (f n)) ns) = []"
  by (induction ns) simp_all

lemma cleanup_written [simp]: "written (snd (cleanup (recorded C) cms secrets wl)) = written (snd wl)"
  by (simp add: cleanup_log)

lemma create_file_config_maps_written:
  "create_file_config_maps (recorded C) run jid c fs created wl = (r, wl') \<Longrightarrow> written (snd wl') = written (snd wl)"
proof (induction fs arbitrary: created wl)
  case (Cons f fs)
  then show ?case
    by (auto split: option.splits sum.splits prod.splits dest!: log_created_written)
qed simp

lemma prepare_pull_secrets_written:
  "prepare_pull_secrets (recorded C) run jid c cms wl = (r, wl') \<Longrightarrow> written (snd wl') = written (snd wl)"
  by (auto simp: prepare_pull_secrets_def Let_def split: option.splits sum.splits prod.splits if_splits
      dest!: log_created_written)

lemma prepare_from_kubeconfig_written:
  "prepare_from_kubeconfig (recorded C) run jid c config path kc url wl = (r, wl') \<Longrightarrow> written (snd wl') = written (snd wl)"
  by (auto simp: prepare_from_kubeconfig_def Let_def split: option.splits sum.splits prod.splits
      dest!: log_created_written create_file_config_maps_written prepare_pull_secrets_written)

lemma prepareJobResources_written:
  "prepareJobResources (recorded C) run p c wl = (r, wl') \<Longrightarrow> written (snd wl') = written (snd wl)"
  by (auto dest!: prepareJobResources_shape prepare_from_kubeconfig_written)

lemma createClusterJob_written:
  "createClusterJob (recorded C) run p c wl = (e, run', wl') \<Longrightarrow> written (snd wl') = written (snd wl)"
  by (auto simp: createClusterJob_def executeScenarioPod_def cleanupPreparedResources_def
      split: option.splits sum.splits prod.splits
      dest!: log_created_written log_event_written prepareJobResources_written)

lemma setCompletionTime_written:
  "setCompletionTime (recorded C) job wl = (job', wl') \<Longrightarrow> written (snd wl') = written (snd wl)"
  by (auto simp: setCompletionTime_def split: if_splits prod.splits dest!: log_event_written)

lemma retry_job_written:
  "retry_job (recorded C) i job now run wl = (e, run', wl') \<Longrightarrow> written (snd wl') = written (snd wl)"
  by (auto simp: retry_job_def invalid_job_def Let_def split: if_splits prod.splits option.splits
      dest!: setCompletionTime_written createClusterJob_written)

lemma decide_retry_written:
  "decide_retry (recorded C) i job run wl = (e, run', wl') \<Longrightarrow> written (snd wl') = written (snd wl)"
  by (auto simp: decide_retry_def split: if_splits prod.splits option.splits sum.splits
      dest!: log_event_written retry_job_written)

lemma pod_found_written:
  "pod_found (recorded C) i pod run wl = (e, run', wl') \<Longrightarrow> written (snd wl') = written (snd wl)"
  by (auto simp: pod_found_def pod_failed_def Let_def split: if_splits prod.splits
      dest!: setCompletionTime_written decide_retry_written)

lemma pod_not_found_written:
  "pod_not_found (recorded C) i run wl = (run', wl') \<Longrightarrow> written (snd wl') = written (snd wl)"
  by (auto simp: pod_not_found_def Let_def split: if_splits prod.splits option.splits bool.splits
      dest!: log_event_written)

lemma update_job_written:
  "update_job (recorded C) i run wl = (e, run', wl') \<Longrightarrow> written (snd wl') = written (snd wl)"
  by (auto simp: update_job_def split: if_splits prod.splits sum.splits api_error.splits
      dest!: log_event_written pod_found_written pod_not_found_written)

lemma update_from_written:
  "update_from (recorded C) i n run wl = (e, run', wl') \<Longrightarrow> written (snd wl') = written (snd wl)"
  by (induction n arbitrary: i run wl) (auto split: prod.splits option.splits dest!: update_job_written)

lemma create_jobs_written:
  "create_jobs (recorded C) ts run wl = (run', wl') \<Longrightarrow> written (snd wl') = written (snd wl)"
proof (induction ts arbitrary: run wl)
  case (Cons t ts)
  obtain p c where t: "t = (p, c)" by fastforce
  with Cons show ?case by (auto split: if_splits prod.splits dest!: createClusterJob_written)
qed simp

lemma reconcile_jobs_written:
  assumes "reconcile_jobs (recorded C) run wl = (res, wl')"
  shows "\<exists>run1 wl1 e run2 wl2. create_jobs (recorded C) (targets run) run wl = (run1, wl1) \<and>
     updateClusterJobStatuses (recorded C) run1 wl1 = (e, run2, wl2) \<and>
     written (snd wl') = written (snd wl) @
       (if e = None \<and> \<not> statusEqual (sr_Status run1) (sr_Status (calculateOverallStatus run2))
        then [calculateOverallStatus run2] else []) \<and>
     (\<forall>x. e = Some x \<longrightarrow> snd res = Some x) \<and> (e = None \<longrightarrow> snd res = None \<or> (\<exists>a. snd res = Some (ScenarioApi a)))"
proof -
  obtain run1 wl1 where c: "create_jobs (recorded C) (targets run) run wl = (run1, wl1)" by (metis surj_pair)
  obtain e run2 wl2 where u: "updateClusterJobStatuses (recorded C) run1 wl1 = (e, run2, wl2)" by (metis surj_pair)
  obtain a wl3 where s: "log_event (sc_StatusUpdate C (calculateOverallStatus run2)) [WroteStatus (calculateOverallStatus run2)] wl2 = (a, wl3)"
    by (metis surj_pair)
  have w: "written (snd wl2) = written (snd wl)"
    using create_jobs_written[OF c] update_from_written[OF u[unfolded updateClusterJobStatuses_def]] by simp
  show ?thesis
    using assms c u s w log_event_eq[OF s]
    by (intro exI[of _ run1] exI[of _ wl1] exI[of _ e] exI[of _ run2] exI[of _ wl2])
      (auto simp: reconcile_jobs_def Let_def split: option.splits if_splits)
qed

text \<open>
  Well-formed runs: one job per cluster, the retry budget kept, every job started.
\<close>

definition well_formed :: "KrknScenarioRun \<Rightarrow> bool" where
  "well_formed run \<longleftrightarrow> distinct (map ClusterName (jobs run)) \<and>
     (\<forall>job \<in> set (jobs run). retry_ok job \<and> StartTime job \<noteq> None)"

lemma run_updates_well_formed:
  assumes "run_updates run run'" and "well_formed run"
  shows "well_formed run'"
proof -
  have l: "length (jobs run') = length (jobs run)"
    and ev: "\<And>i. i < length (jobs run) \<Longrightarrow> job_evolves (jobs run ! i) (jobs run' ! i)"
    using assms(1) by (auto simp: run_updates_def run_evolves_nth)
  have "map ClusterName (jobs run') = map ClusterName (jobs run)"
    using l ev by (auto simp: list_eq_iff_nth_eq job_evolves_def)
  moreover have "retry_ok job \<and> StartTime job \<noteq> None" if "job \<in> set (jobs run')" for job
  proof -
    from that obtain i where i: "i < length (jobs run')" "job = jobs run' ! i" by (metis in_set_conv_nth)
    then have "retry_ok (jobs run ! i)" "StartTime (jobs run ! i) \<noteq> None"
      using assms(2) l by (auto simp: well_formed_def)
    with ev[of i] i l show ?thesis by (simp add: job_evolves_def)
  qed
  ultimately show ?thesis using assms(2) by (simp add: well_formed_def)
qed

lemma new_job_simps [simp]:
  "ClusterName (new_job p res now) = pr_clusterName res" "retry_ok (new_job p res now)"
  "StartTime (new_job p res now) = Some now"
  by (simp_all add: new_job_def retry_ok_def)

lemma createClusterJob_well_formed:
  assumes "createClusterJob C run p c w = (err, run', w')" and "well_formed run" and "\<not> jobExistsForCluster run c"
  shows "well_formed run'"
proof (cases "\<exists>job \<in> set (jobs run). ClusterName job = c")
  case True
  then obtain job where j: "List.find (\<lambda>job. ClusterName job = c) (jobs run) = Some job"
    by (cases "List.find (\<lambda>job. ClusterName job = c) (jobs run)") (auto simp: find_None_iff)
  with assms(3) have "Phase job = ''Retrying''" by (simp add: jobExistsForCluster_def)
  with find_SomeD[OF j] createClusterJob_updates[OF assms(1), of job] assms(2) run_updates_well_formed show ?thesis by blast
next
  case False
  then have "find_index (\<lambda>job. ClusterName job = c \<and> Phase job = ''Retrying'') (jobs run) = None"
    unfolding find_index_None by blast
  moreover have "c \<notin> set (map ClusterName (jobs run))" using False by auto
  ultimately show ?thesis
    using createClusterJob_shape[OF assms(1)] assms(2) by (auto simp: well_formed_def)
qed

lemma create_jobs_well_formed:
  "create_jobs C ts run w = (run', w') \<Longrightarrow> well_formed run \<Longrightarrow> well_formed run'"
proof (induction C ts run w rule: create_jobs.induct)
  case (2 C p c ts run w)
  obtain e run1 w1 where c: "createClusterJob C run p c w = (e, run1, w1)" by (metis surj_pair)
  show ?case
  proof (cases "jobExistsForCluster run c")
    case False
    with 2(3) c have "create_jobs C ts run1 w1 = (run', w')" by simp
    from "2.IH"(2)[OF False c[symmetric] refl this] createClusterJob_well_formed[OF c _ False] 2(4) show ?thesis by blast
  qed (use 2 in auto)
qed simp

lemma calculateOverallStatus_frame [simp]:
  "jobs (calculateOverallStatus run) = jobs run" "sr_Spec (calculateOverallStatus run) = sr_Spec run"
  "well_formed (calculateOverallStatus run) = well_formed run"
  by (simp_all add: calculateOverallStatus_def Let_def well_formed_def)

lemma well_formed_init [simp]: "well_formed (init_status run)" "jobs (init_status run) = []" "sr_Spec (init_status run) = sr_Spec run"
  by (simp_all add: well_formed_def init_status_def)

text \<open>What a reconcile writes, seen from the fetched run.\<close>

lemma Reconcile_written:
  assumes "Reconcile (recorded C) ns name (w, []) = (res, w', log)" and "sc_GetRun C ns name w = (Inr run, w1)"
    and "WroteStatus r \<in> set log"
  shows "(sr_Phase (sr_Status run) = [] \<and> r = init_status run) \<or>
    (\<exists>run0 wl0 run1 wl1 run2 wl2. run0 = (if sr_Phase (sr_Status run) = '''' then init_status run else run) \<and>
       create_jobs (recorded C) (targets run0) run0 wl0 = (run1, wl1) \<and>
       updateClusterJobStatuses (recorded C) run1 wl1 = (None, run2, wl2) \<and> r = calculateOverallStatus run2)"
proof -
  let ?run0 = "if sr_Phase (sr_Status run) = '''' then init_status run else run"
  have "\<exists>wl0. (\<forall>x \<in> set (written (snd wl0)). sr_Phase (sr_Status run) = [] \<and> x = init_status run) \<and>
     (reconcile_jobs (recorded C) ?run0 wl0 = (res, w', log) \<or> (w', log) = wl0)"
  proof (cases "sr_Phase (sr_Status run) = ''''")
    case False
    with assms(1,2) show ?thesis by (intro exI[of _ "(w1, [])"]) (simp add: Reconcile_def log_event_def)
  next
    case True
    obtain a wl1 where s: "log_event (sc_StatusUpdate C (init_status run)) [WroteStatus (init_status run)] (w1, []) = (a, wl1)"
      by (metis surj_pair)
    with True assms(1,2) log_event_eq[OF s] show ?thesis
      by (intro exI[of _ wl1]) (cases a; auto simp: Reconcile_def log_event_def[of "sc_GetRun C ns name"])
  qed
  then obtain wl0 where wl0: "\<forall>x \<in> set (written (snd wl0)). sr_Phase (sr_Status run) = [] \<and> x = init_status run"
    "reconcile_jobs (recorded C) ?run0 wl0 = (res, w', log) \<or> (w', log) = wl0" by blast
  show ?thesis
  proof (cases "(w', log) = wl0")
    case True
    with wl0(1) assms(3) show ?thesis by (auto simp: written_mem)
  next
    case False
    with wl0(2) have "reconcile_jobs (recorded C) ?run0 wl0 = (res, w', log)" by simp
    from reconcile_jobs_written[OF this] obtain run1 wl1 e run2 wl2 where
      c: "create_jobs (recorded C) (targets ?run0) ?run0 wl0 = (run1, wl1)"
      and u: "updateClusterJobStatuses (recorded C) run1 wl1 = (e, run2, wl2)"
      and l: "written log = written (snd wl0) @
       (if e = None \<and> \<not> statusEqual (sr_Status run1) (sr_Status (calculateOverallStatus run2))
        then [calculateOverallStatus run2] else [])" by auto
    from assms(3) have "r \<in> set (written log)" by (simp add: written_mem)
    with l wl0(1) have "(sr_Phase (sr_Status run) = [] \<and> r = init_status run) \<or> (e = None \<and> r = calculateOverallStatus run2)"
      by (auto split: if_splits)
    with c u show ?thesis by blast
  qed
qed

text \<open>
  C4. The invariant of scenario runs: when the fetched run has at most one job per cluster, every job
  within its retry budget (never more retries than the maximum recorded for it) and started, then so
  has every status the reconcile writes, whatever the API answers.
\<close>

theorem Reconcile_keeps_well_formed:
  assumes "Reconcile (recorded C) ns name (w, []) = (res, w', log)" and "sc_GetRun C ns name w = (Inr run, w1)"
    and "well_formed run" and "WroteStatus r \<in> set log"
  shows "well_formed r"
  using Reconcile_written[OF assms(1,2,4)]
proof (elim disjE exE conjE)
  fix run0 wl0 run1 wl1 run2 wl2
  assume r0: "run0 = (if sr_Phase (sr_Status run) = '''' then init_status run else run)"
    and c: "create_jobs (recorded C) (targets run0) run0 wl0 = (run1, wl1)"
    and u: "updateClusterJobStatuses (recorded C) run1 wl1 = (None, run2, wl2)" and r: "r = calculateOverallStatus run2"
  have "well_formed run0" using r0 assms(3) by simp
  with create_jobs_well_formed[OF c] have "well_formed run1" by simp
  with run_updates_well_formed update_from_updates[OF u[unfolded updateClusterJobStatuses_def]] r
  show ?thesis by auto
qed simp

text \<open>
  C27. What a reconcile may do to the jobs of an initialized run: the jobs stay at their positions and
  keep provider, cluster and API address; finished ones (succeeded, cancelled, retries exhausted) are
  unchanged; retry counters never fall and do not move once cancellation was requested. New jobs are
  only appended.
\<close>

theorem Reconcile_jobs_evolve:
  assumes "Reconcile (recorded C) ns name (w, []) = (res, w', log)" and "sc_GetRun C ns name w = (Inr run, w1)"
    and "sr_Phase (sr_Status run) \<noteq> ''''" and "WroteStatus r \<in> set log" and "i < length (jobs run)"
  shows "i < length (jobs r) \<and> sr_Spec r = sr_Spec run \<and>
    ProviderName (jobs r ! i) = ProviderName (jobs run ! i) \<and> ClusterName (jobs r ! i) = ClusterName (jobs run ! i) \<and>
    ClusterAPIURL (jobs r ! i) = ClusterAPIURL (jobs run ! i) \<and>
    (Phase (jobs run ! i) \<in> {''Succeeded'', ''Cancelled'', ''MaxRetriesExceeded''} \<longrightarrow> jobs r ! i = jobs run ! i) \<and>
    RetryCount (jobs run ! i) \<le> RetryCount (jobs r ! i) \<and>
    (CancelRequested (jobs run ! i) \<longrightarrow> RetryCount (jobs r ! i) = RetryCount (jobs run ! i))"
proof -
  from Reconcile_written[OF assms(1,2,4)] assms(3) obtain wl0 run1 wl1 run2 wl2 where
    c: "create_jobs (recorded C) (targets run) run wl0 = (run1, wl1)"
    and u: "updateClusterJobStatuses (recorded C) run1 wl1 = (None, run2, wl2)" and r: "r = calculateOverallStatus run2"
    by auto
  have "run_evolves run1 run2"
    using update_from_updates[OF u[unfolded updateClusterJobStatuses_def]] by (simp add: run_updates_def)
  with run_evolves_trans[OF create_jobs_evolves[OF c]] have ev: "run_evolves run run2" .
  then have "sr_Spec run2 = sr_Spec run" unfolding run_evolves_nth by (metis jobs_set_jobs(2))
  moreover have "i < length (jobs run2)" "job_evolves (jobs run ! i) (jobs run2 ! i)"
    using ev assms(5) unfolding run_evolves_nth by auto
  ultimately show ?thesis using r by (auto simp: job_evolves_def terminal_job_def)
qed

section \<open>No panics\<close>

lemma retry_job_no_error: "retry_job C i job now run w = (err, run', w') \<Longrightarrow> err = None"
  by (auto simp: retry_job_def invalid_job_def Let_def split: if_splits prod.splits option.splits)

lemma decide_retry_no_error:
  "decide_retry C i job run w = (err, run', w') \<Longrightarrow> 0 \<le> RetryCount job \<Longrightarrow> err = None"
  by (auto simp: decide_retry_def calculateRetryDelay_def Let_def
      split: if_splits prod.splits option.splits sum.splits dest: retry_job_no_error)

lemma pod_failed_no_error:
  assumes "pod_failed C i pod run w = (err, run', w')" and "0 \<le> RetryCount (jobs run ! i)"
  shows "err = None"
proof -
  let ?j0 = "(jobs run ! i)\<lparr>Phase := ''Failed'', Message := extractPodErrorMessage pod, FailureReason := extractFailureReason pod\<rparr>"
  obtain job1 w1 where s: "setCompletionTime C ?j0 w = (job1, w1)" by (metis surj_pair)
  obtain t where job1: "job1 = ?j0\<lparr>CompletionTime := t\<rparr>" using setCompletionTime_shape[OF s] by blast
  with assms s show ?thesis
    by (auto simp: pod_failed_def Let_def dest: decide_retry_no_error)
qed

lemma pod_found_no_error:
  assumes "pod_found C i pod run w = (err, run', w')" and "i < length (jobs run)"
    and "0 \<le> RetryCount (jobs run ! i)" and "StartTime (jobs run ! i) \<noteq> None"
  shows "err = None"
proof -
  let ?job = "backfill_image pod (jobs run ! i)"
  have f: "RetryCount ?job = RetryCount (jobs run ! i)" "StartTime ?job = StartTime (jobs run ! i)"
    by (simp_all add: backfill_image_def)
  have "err = None" if "pod_failed C i pod (put_job i ?job run) w = (err, run', w')"
    using pod_failed_no_error[OF that] assms(2,3) f by simp
  moreover have "StartTime job' \<noteq> None" if "setCompletionTime C (?job\<lparr>Phase := ''Succeeded''\<rparr>) w = (job', w1)" for job' w1
    using setCompletionTime_shape[OF that] assms(4) f by auto
  ultimately show ?thesis
    using assms(1) by (auto simp: pod_found_def Let_def split: if_splits prod.splits)
qed

lemma update_job_no_error:
  assumes "update_job C i run w = (err, run', w')" and "i < length (jobs run)" and "well_formed run"
  shows "err = None"
proof -
  have "0 \<le> RetryCount (jobs run ! i)" "StartTime (jobs run ! i) \<noteq> None"
    using assms(2,3) nth_mem by (auto simp: well_formed_def retry_ok_def)
  with assms(1,2) show ?thesis
    by (auto simp: update_job_def split: if_splits prod.splits sum.splits api_error.splits dest: pod_found_no_error)
qed

lemma update_from_no_error:
  assumes "update_from C i n run w = (err, run', w')" and "i + n \<le> length (jobs run)" and "well_formed run"
  shows "err = None"
  using assms
proof (induction C i n run w rule: update_from.induct)
  case (2 C i n run w)
  obtain e run1 w1 where u: "update_job C i run w = (e, run1, w1)" by (metis surj_pair)
  have e: "e = None" using update_job_no_error[OF u] "2.prems"(2,3) by simp
  have up: "run_updates run run1" using update_job_updates[OF u] "2.prems"(2) by simp
  have rest: "update_from C (Suc i) n run1 w1 = (err, run', w')" using "2.prems"(1) u e by simp
  have "Suc i + n \<le> length (jobs run1)" using up "2.prems"(2) by (simp add: run_updates_def)
  with "2.IH"[OF u[symmetric] e refl rest] run_updates_well_formed[OF up "2.prems"(3)] show ?case by simp
qed simp

text \<open>
  C28. On well-formed runs the reconcile loop never panics: neither the nil start time of a succeeded
  job nor a negative shift count in the back-off can be reached; the only errors are those of the API.
\<close>

theorem Reconcile_never_panics:
  assumes "Reconcile C ns name w = ((result, Some e), w')"
    and "\<And>run w1. sc_GetRun C ns name w = (Inr run, w1) \<Longrightarrow> well_formed run"
  shows "\<exists>a. e = ScenarioApi a"
proof -
  have jobs: "\<exists>a. e = ScenarioApi a" if wf: "well_formed run" and rj: "reconcile_jobs C run w0 = ((result, Some e), w')" for run w0
  proof -
    obtain run1 w1 where c: "create_jobs C (targets run) run w0 = (run1, w1)" by (metis surj_pair)
    obtain x run2 w2 where u: "updateClusterJobStatuses C run1 w1 = (x, run2, w2)" by (metis surj_pair)
    have "x = None"
      using update_from_no_error[OF u[unfolded updateClusterJobStatuses_def]] create_jobs_well_formed[OF c wf] by simp
    with rj c u show ?thesis
      by (auto simp: reconcile_jobs_def Let_def split: if_splits prod.splits option.splits)
  qed
  obtain g w1 where g: "sc_GetRun C ns name w = (g, w1)" by fastforce
  show ?thesis
  proof (cases g)
    case (Inl x)
    with assms(1) g show ?thesis by (cases x) (auto simp: Reconcile_def)
  next
    case (Inr run)
    with assms g jobs[of run] jobs[of "init_status run"] show ?thesis
      by (auto simp: Reconcile_def split: if_splits prod.splits option.splits)
  qed
qed

section \<open>Concrete runs\<close>

definition running_job :: "string \<Rightarrow> string \<Rightarrow> ClusterJobStatus" where
  "running_job c phase = \<lparr>ProviderName = ''krkn-operator'', ClusterName = c, ClusterAPIURL = ''https://'' @ c, JobID = ''j-'' @ c,
     PodName = ''krkn-job-j-'' @ c, ContainerImage = ''img'', Phase = phase, StartTime = Some 5, CompletionTime = None,
     Message = '''', RetryCount = 0, MaxRetries = 0, CancelRequested = False, LastRetryTime = None, FailureReason = ''''\<rparr>"

definition events_of :: "KrknScenarioRun \<Rightarrow> (string \<Rightarrow> string) \<Rightarrow> scenario_event list" where
  "events_of run ph = snd (snd (Reconcile (recorded (sample_scenario_client run ph None)) ''krkn'' ''run-1'' (7, [])))"

lemma Reconcile_events_of:
  "\<exists>res w'. Reconcile (recorded (sample_scenario_client run ph None)) ''krkn'' ''run-1'' (7, []) = (res, w', events_of run ph)"
  by (metis events_of_def prod.collapse)

lemma sample_GetRun: "sc_GetRun (sample_scenario_client run ph e) ns name w = (Inr run, w)"
  by (simp add: sample_scenario_client_def)

theorem Reconcile_keeps_well_formed_witness:
  "\<exists>r. WroteStatus r \<in> set (events_of (sample_run '''' []) (\<lambda>_. ''Running'')) \<and> jobs r \<noteq> [] \<and> well_formed r"
proof -
  let ?run = "sample_run '''' []" and ?ph = "\<lambda>_::string. ''Running''"
  have "length (written (events_of ?run ?ph)) = 2" "jobs (written (events_of ?run ?ph) ! 1) \<noteq> []" by code_simp+
  then obtain r where r: "WroteStatus r \<in> set (events_of ?run ?ph)" "jobs r \<noteq> []"
    by (metis lessI nth_mem numeral_2_eq_2 One_nat_def written_mem)
  obtain res w' where R: "Reconcile (recorded (sample_scenario_client ?run ?ph None)) ''krkn'' ''run-1'' (7, []) = (res, w', events_of ?run ?ph)"
    using Reconcile_events_of by blast
  have "well_formed ?run" by (simp add: well_formed_def sample_run_def)
  from Reconcile_keeps_well_formed[OF R sample_GetRun this r(1)] r show ?thesis by blast
qed

theorem Reconcile_jobs_evolve_witness:
  "\<exists>r. WroteStatus r \<in> set (events_of (sample_run ''Running'' [running_job ''c1'' ''Succeeded'', running_job ''c2'' ''Running'']) (\<lambda>_. ''Running'')) \<and>
     jobs r ! 0 = running_job ''c1'' ''Succeeded''"
proof -
  let ?run = "sample_run ''Running'' [running_job ''c1'' ''Succeeded'', running_job ''c2'' ''Running'']" and ?ph = "\<lambda>_::string. ''Running''"
  have "length (written (events_of ?run ?ph)) = 1" by code_simp
  then obtain r where r: "WroteStatus r \<in> set (events_of ?run ?ph)" by (metis length_greater_0_conv less_one list.set_intros(1) neq_Nil_conv written_mem)
  obtain res w' where R: "Reconcile (recorded (sample_scenario_client ?run ?ph None)) ''krkn'' ''run-1'' (7, []) = (res, w', events_of ?run ?ph)"
    using Reconcile_events_of by blast
  have "sr_Phase (sr_Status ?run) \<noteq> ''''" "0 < length (jobs ?run)" by (simp_all add: sample_run_def)
  from Reconcile_jobs_evolve[OF R sample_GetRun this(1) r this(2)] r show ?thesis
    by (auto simp: sample_run_def running_job_def)
qed

theorem Reconcile_never_panics_witness:
  "\<exists>a w'. Reconcile ((sample_scenario_client (sample_run ''Running'' [running_job ''c1'' ''Running'', running_job ''c2'' ''Pending'']) (\<lambda>_. ''Succeeded'') None)
       \<lparr>sc_StatusUpdate := \<lambda>_ w. (Some Conflict, w)\<rparr>) ''krkn'' ''run-1'' 7 = ((no_requeue, Some (ScenarioApi a)), w')"
proof -
  let ?run = "sample_run ''Running'' [running_job ''c1'' ''Running'', running_job ''c2'' ''Pending'']"
  let ?C = "(sample_scenario_client ?run (\<lambda>_. ''Succeeded'') None)\<lparr>sc_StatusUpdate := \<lambda>_ w. (Some Conflict, w)\<rparr>"
  obtain result err w' where r: "Reconcile ?C ''krkn'' ''run-1'' 7 = ((result, err), w')" by (metis surj_pair)
  have "fst (fst (Reconcile ?C ''krkn'' ''run-1'' 7)) = no_requeue" "snd (fst (Reconcile ?C ''krkn'' ''run-1'' 7)) \<noteq> None" by code_simp+
  with r obtain e where e: "Reconcile ?C ''krkn'' ''run-1'' 7 = ((no_requeue, Some e), w')" by auto
  have wf: "well_formed ?run" by code_simp
  have "\<And>run w1. sc_GetRun ?C ''krkn'' ''run-1'' 7 = (Inr run, w1) \<Longrightarrow> well_formed run"
    using wf by (simp add: sample_scenario_client_def)
  from Reconcile_never_panics[OF e this] e show ?thesis by auto
qed

end
