(* ===== verification/Scenario_Status.thy ===== *)
theory Scenario_Status
  imports Scenario_Run_Controller
begin

text \<open>
  The arithmetic and the summaries of the scenario run controller: overall status, retry delay, the
  comparison that decides whether a status is written, and the runs on which these parts combine badly.
\<close>

section \<open>Overall status\<close>

lemma count_jobs_pos: "0 < count_jobs ps js \<longleftrightarrow> (\<exists>job \<in> set js. Phase job \<in> set ps)"
  by (auto simp: count_jobs_def filter_empty_conv)

lemma count_jobs_all: "count_jobs ps js = int (length js) \<longleftrightarrow> (\<forall>job \<in> set js. Phase job \<in> set ps)"
proof -
  have "count_jobs ps js = int (length js) \<longleftrightarrow> filter (\<lambda>job. Phase job \<in> set ps) js = js"
    unfolding count_jobs_def by (metis filter_cong filter_True length_filter_less less_irrefl of_nat_eq_iff filter_id_conv)
  then show ?thesis by (simp add: filter_id_conv)
qed

text \<open>
  The overall phase of a scenario run summarises the jobs it has: \<open>Running\<close> exactly while a job is
  running, retrying or pending; otherwise \<open>Succeeded\<close> exactly when there are jobs and all succeeded,
  \<open>Failed\<close> exactly when there are jobs and all of them failed, were cancelled or ran out of retries,
  \<open>Pending\<close> exactly when there is no job. Targets, conditions and jobs are untouched, and a target that
  never got a job has no influence.
\<close>

theorem calculateOverallStatus_correct:
  "let st = sr_Status run; st' = sr_Status (calculateOverallStatus run); active = {''Running'', ''Retrying'', ''Pending''};
       phases = Phase ` set (ClusterJobs st)
   in st' = st\<lparr>sr_Phase := sr_Phase st', SuccessfulJobs := count_jobs [''Succeeded''] (ClusterJobs st),
        FailedJobs := count_jobs [''Failed'', ''Cancelled'', ''MaxRetriesExceeded''] (ClusterJobs st),
        RunningJobs := count_jobs [''Running'', ''Retrying''] (ClusterJobs st)\<rparr> \<and>
      (sr_Phase st' = ''Pending'' \<longleftrightarrow> phases = {}) \<and>
      (sr_Phase st' = ''Running'' \<longleftrightarrow> phases \<inter> active \<noteq> {}) \<and>
      (sr_Phase st' = ''Succeeded'' \<longleftrightarrow> phases = {''Succeeded''}) \<and>
      (sr_Phase st' = ''Failed'' \<longleftrightarrow> phases \<noteq> {} \<and> phases \<subseteq> {''Failed'', ''Cancelled'', ''MaxRetriesExceeded''})"
proof -
  let ?js = "jobs run"
  define ph where "ph = sr_Phase (sr_Status (calculateOverallStatus run))"
  have st: "sr_Status (calculateOverallStatus run) = (sr_Status run)\<lparr>sr_Phase := ph,
      SuccessfulJobs := count_jobs [''Succeeded''] ?js, FailedJobs := count_jobs [''Failed'', ''Cancelled'', ''MaxRetriesExceeded''] ?js,
      RunningJobs := count_jobs [''Running'', ''Retrying''] ?js\<rparr>"
    by (simp add: ph_def calculateOverallStatus_def Let_def)
  have ph: "ph = (if ?js = [] then ''Pending''
      else if (\<exists>job \<in> set ?js. Phase job \<in> {''Running'', ''Retrying''}) \<or> (\<exists>job \<in> set ?js. Phase job = ''Pending'') then ''Running''
      else if \<forall>job \<in> set ?js. Phase job \<in> {''Failed'', ''Cancelled'', ''MaxRetriesExceeded''} then ''Failed''
      else if \<forall>job \<in> set ?js. Phase job = ''Succeeded'' then ''Succeeded'' else ''PartiallyFailed'')"
    unfolding ph_def calculateOverallStatus_def Let_def overall_phase_def
    using count_jobs_pos[of "[''Running'', ''Retrying'']" ?js] count_jobs_pos[of "[''Pending'']" ?js]
      count_jobs_all[of "[''Failed'', ''Cancelled'', ''MaxRetriesExceeded'']" ?js] count_jobs_all[of "[''Succeeded'']" ?js]
    by simp blast
  have "?js = [] \<or> (\<exists>job. job \<in> set ?js)" by (cases ?js) auto
  then show ?thesis
    unfolding Let_def st ph by (auto simp: image_iff split: if_splits) metis+
qed

section \<open>Retry delay\<close>

text \<open>
  C29. The back-off: with a fixed policy the delay is the configured one (10 seconds when absent or
  unreadable); with the exponential policy it is the base times \<open>2 ^ retryCount\<close> as long as the product
  fits 64 bits; from \<open>retryCount = 64\<close> on it is zero.
\<close>

definition base_delay :: "(int \<Rightarrow> int \<Rightarrow> int \<Rightarrow> int) \<Rightarrow> string \<Rightarrow> duration" where
  "base_delay frac s = (case ParseDuration frac s of Some d \<Rightarrow> d | None \<Rightarrow> 10 * second)"

theorem calculateRetryDelay_value:
  assumes "0 \<le> n"
  shows "(backoff \<noteq> ''exponential'' \<longrightarrow> calculateRetryDelay frac n backoff s = Inr (base_delay frac s)) \<and>
    (0 \<le> base_delay frac s \<and> base_delay frac s * 2 ^ nat n < 2 ^ 63 \<and> n < 63 \<longrightarrow>
       calculateRetryDelay frac n ''exponential'' s = Inr (base_delay frac s * 2 ^ nat n)) \<and>
    (64 \<le> n \<longrightarrow> calculateRetryDelay frac n ''exponential'' s = Inr 0)"
proof -
  have b: "(if s \<noteq> '''' then (case ParseDuration frac s of Some d \<Rightarrow> d | None \<Rightarrow> 10 * second) else 10 * second) = base_delay frac s"
    by (simp add: base_delay_def ParseDuration_def)
  have e: "calculateRetryDelay frac n ''exponential'' s = Inr (wrap64 (base_delay frac s * shl64 (nat n)))"
    using assms by (simp add: calculateRetryDelay_def b Let_def del: if_split)
  have "wrap64 (base_delay frac s * 2 ^ nat n) = base_delay frac s * 2 ^ nat n"
    if "0 \<le> base_delay frac s" "base_delay frac s * 2 ^ nat n < 2 ^ 63"
    using that by (intro wrap64_id) (auto intro: order_trans[of _ 0])
  moreover have "wrap64 0 = 0" by (simp add: wrap64_code)
  ultimately show ?thesis
    using assms shl64_small[of "nat n"] shl64_large[of "nat n"] unfolding e
    by (auto simp: calculateRetryDelay_def b Let_def nat_less_iff le_nat_iff)
qed

theorem calculateRetryDelay_value_witness:
  "calculateRetryDelay (\<lambda>f u s. f * u div s) 2 ''exponential'' ''1m30s'' = Inr (360 * second)"
proof -
  let ?f = "\<lambda>f u s. f * u div s :: int"
  have "base_delay ?f ''1m30s'' = 90 * second" by code_simp
  with calculateRetryDelay_value[of 2 _ ?f "''1m30s''"] show ?thesis by (simp add: second_def)
qed

text \<open>
  Where the product does not fit, the back-off collapses: with the default base of 10 seconds the
  thirtieth retry has a negative delay, so it is not delayed at all.
\<close>

theorem calculateRetryDelay_overflow:
  "\<exists>d. calculateRetryDelay frac 30 ''exponential'' '''' = Inr d \<and> d < 0"
proof -
  have "wrap64 (10 * second * shl64 30) < 0" by code_simp
  then show ?thesis by (simp add: calculateRetryDelay_def)
qed

section \<open>Comparison of statuses\<close>

lemma timeEqual_eq [simp]: "timeEqual a b \<longleftrightarrow> a = b"
  by (simp add: timeEqual_def split: option.splits)

definition compared_job :: "ClusterJobStatus \<Rightarrow> ClusterJobStatus" where
  "compared_job job = job\<lparr>ProviderName := '''', ClusterAPIURL := '''', ContainerImage := ''''\<rparr>"

lemma jobStatusEqual_iff: "jobStatusEqual a b \<longleftrightarrow> compared_job a = compared_job b"
  by (cases a; cases b) (auto simp: jobStatusEqual_def compared_job_def)

text \<open>
  C30. The comparison that decides whether a status is written is equality of everything but three
  fields of the jobs, provider name, API address and container image. (So a change of those alone, such
  as the back-filled container image of a legacy run, is never persisted.)
\<close>

theorem statusEqual_iff:
  "statusEqual old new \<longleftrightarrow>
     old\<lparr>ClusterJobs := map compared_job (ClusterJobs old)\<rparr> = new\<lparr>ClusterJobs := map compared_job (ClusterJobs new)\<rparr>"
proof -
  have jobs_eq: "length xs = length ys \<Longrightarrow> list_all (\<lambda>(a, b). jobStatusEqual a b) (zip xs ys) \<longleftrightarrow> map compared_job xs = map compared_job ys" for xs ys
    by (induction xs ys rule: list_induct2) (simp_all add: jobStatusEqual_iff)
  have rec_eq: "old\<lparr>ClusterJobs := xs\<rparr> = new\<lparr>ClusterJobs := ys\<rparr> \<longleftrightarrow> sr_Phase old = sr_Phase new \<and> TotalTargets old = TotalTargets new \<and>
      SuccessfulJobs old = SuccessfulJobs new \<and> FailedJobs old = FailedJobs new \<and> RunningJobs old = RunningJobs new \<and>
      xs = ys \<and> Conditions old = Conditions new" for xs ys
    by (cases old; cases new) simp
  show ?thesis
  proof (cases "length (ClusterJobs old) = length (ClusterJobs new)")
    case True
    show ?thesis unfolding rec_eq statusEqual_def jobs_eq[OF True] using True by simp
  next
    case False
    then have "map compared_job (ClusterJobs old) \<noteq> map compared_job (ClusterJobs new)" by (metis length_map)
    with False show ?thesis unfolding rec_eq statusEqual_def by simp
  qed
qed

section \<open>Two runs that lose their way\<close>

text \<open>
  A job that is created by a later reconcile is not persisted when nothing else changes: here the
  job of \<open>c1\<close> is running and the one of \<open>c2\<close> could not be created before. The reconcile creates a pod for
  \<open>c2\<close>, compares the status only from then on, finds no change and writes nothing, so the next reconcile
  starts from the same stored run and creates another pod.
\<close>

definition half_started_run :: KrknScenarioRun where
  "half_started_run = calculateOverallStatus (sample_run ''Running'' [running_job ''c1'' ''Running''])"

theorem Reconcile_forgets_new_job:
  "written (events_of half_started_run (\<lambda>n. if n = ''krkn-job-j-c1'' then ''Running'' else ''Pending'')) = [] \<and>
   filter is_pod (events_of half_started_run (\<lambda>n. if n = ''krkn-job-j-c1'' then ''Running'' else ''Pending'')) = [Created (PodRes ''krkn-job-7'')]"
  by code_simp

text \<open>
  A job waiting for its back-off ends the run: it has retries left, but while it waits it is stored
  as \<open>Failed\<close>, the run is reported \<open>Failed\<close> and the reconcile asks for no requeue, although the code
  means to look again on the next reconcile.
\<close>

definition waiting_run :: KrknScenarioRun where
  "waiting_run = (sample_run ''Running'' [(running_job ''c1'' ''Running'')\<lparr>RetryCount := 1, MaxRetries := 3, LastRetryTime := Some 900\<rparr>])
     \<lparr>sr_Spec := zero_spec\<lparr>TargetClusters := [(''krkn-operator'', [''c1''])]\<rparr>\<rparr>"

theorem Reconcile_backoff_ends_run:
  "case Reconcile (recorded (sample_scenario_client waiting_run (\<lambda>_. ''Failed'') None)) ''krkn'' ''run-1'' (7, []) of
     (res, w', log) \<Rightarrow> res = (no_requeue, None) \<and> map (sr_Phase \<circ> sr_Status) (written log) = [''Failed''] \<and>
       map (\<lambda>r. map (\<lambda>job. (Phase job, RetryCount job, MaxRetries job)) (jobs r)) (written log) = [[(''Failed'', 1, 3)]]"
  by code_simp

end
