(* ===== verification/Terminal.thy ===== *)
theory Terminal
  imports Prelude
begin

text \<open>
  The command filter of the web terminal, \<open>src/pkg/terminal\<close>: the whitelist (\<open>commands.go\<close>), the
  tokenizer and parser (\<open>parser.go\<close>) and the validation of a parsed command (\<open>whitelist.go\<close>). The
  tokenizer tests its input against ASCII characters only, so a loop over the bytes of a UTF-8
  string cuts it where the loop over its runes does.
\<close>

section \<open>The whitelist\<close>

record SubcommandSpec =
  sub_Name :: string
  sub_Description :: string

record CommandSpec =
  cmd_Name :: string
  cmd_Description :: string
  AllowedSubcommands :: "SubcommandSpec list"

record BlockedFlagSpec =
  flag_Name :: string
  flag_Description :: string

definition subcommand_specs :: "SubcommandSpec list" where
  "subcommand_specs = map (\<lambda>(n, d). \<lparr>sub_Name = n, sub_Description = d\<rparr>)
    [(''get'', ''Display one or many resources''),
     (''describe'', ''Show details of a specific resource''),
     (''logs'', ''Print container logs''),
     (''top'', ''Display resource usage (CPU/Memory)''),
     (''explain'', ''Get documentation for a resource''),
     (''version'', ''Print client and server version information''),
     (''api-resources'', ''Print supported API resources''),
     (''api-versions'', ''Print supported API versions''),
     (''cluster-info'', ''Display cluster information'')]"

definition AvailableCommands :: "(string, CommandSpec) gomap" where
  "AvailableCommands =
    [(''kubectl'', \<lparr>cmd_Name = ''kubectl'', cmd_Description = ''Kubernetes command-line tool'',
        AllowedSubcommands = subcommand_specs\<rparr>),
     (''oc'', \<lparr>cmd_Name = ''oc'', cmd_Description = ''OpenShift command-line tool'',
        AllowedSubcommands = subcommand_specs\<rparr>)]"

definition BlockedFlagsSpec :: "BlockedFlagSpec list" where
  "BlockedFlagsSpec = map (\<lambda>(n, d). \<lparr>flag_Name = n, flag_Description = d\<rparr>)
    [(''watch'', ''Streaming flag blocked in v1 - requires WebSocket/SSE''),
     (''w'', ''Short form of --watch''),
     (''follow'', ''Streaming flag blocked in v1 - requires WebSocket/SSE''),
     (''f'', ''Short form of --follow''),
     (''watch-only'', ''Streaming flag blocked in v1 - requires WebSocket/SSE'')]"

definition BlockedFlags :: "string list" where
  "BlockedFlags = [''watch'', ''w'', ''follow'', ''f'', ''watch-only'']"

definition IsCommandAllowed :: "string \<Rightarrow> bool" where
  "IsCommandAllowed command \<longleftrightarrow> map_of AvailableCommands command \<noteq> None"

definition IsSubcommandAllowed :: "string \<Rightarrow> string \<Rightarrow> bool" where
  "IsSubcommandAllowed command subcommand =
    (case map_of AvailableCommands command of
       None \<Rightarrow> False
     | Some cmdSpec \<Rightarrow> list_ex (\<lambda>sc. sub_Name sc = subcommand) (AllowedSubcommands cmdSpec))"

definition GetAllowedCommands :: "CommandSpec list" where
  "GetAllowedCommands = map snd AvailableCommands"

definition GetBlockedFlags :: "BlockedFlagSpec list" where
  "GetBlockedFlags = BlockedFlagsSpec"

section \<open>Tokens\<close>

datatype parse_error = EmptyCommand | UnclosedQuote | NoTokens

abbreviation dquote :: char where "dquote \<equiv> CHR 0x22"
abbreviation squote :: char where "squote \<equiv> CHR 0x27"
abbreviation tab :: char where "tab \<equiv> CHR 0x09"

definition is_quote :: "char \<Rightarrow> bool" where
  "is_quote r \<longleftrightarrow> r = dquote \<or> r = squote"

definition is_blank :: "char \<Rightarrow> bool" where
  "is_blank r \<longleftrightarrow> r = CHR '' '' \<or> r = tab"

definition flush :: "string \<Rightarrow> string list \<Rightarrow> string list" where
  "flush current tokens = (if current \<noteq> [] then tokens @ [current] else tokens)"

text \<open>
  The loop of \<open>tokenize\<close>. The quote state is the open quote character, or \<open>None\<close> outside quotes
  (\<open>inQuote\<close> and \<open>quoteChar\<close> change together).
\<close>

fun tokenize_loop :: "string \<Rightarrow> char option \<Rightarrow> string \<Rightarrow> string list \<Rightarrow> parse_error + string list" where
  "tokenize_loop [] q current tokens =
     (if q \<noteq> None then Inl UnclosedQuote else Inr (flush current tokens))"
| "tokenize_loop (r # rs) q current tokens =
     (if is_quote r then
        (case q of
           None \<Rightarrow> tokenize_loop rs (Some r) current tokens
         | Some c \<Rightarrow> if r = c then tokenize_loop rs None current tokens
                     else tokenize_loop rs q (current @ [r]) tokens)
      else if is_blank r then
        (if q \<noteq> None then tokenize_loop rs q (current @ [r]) tokens
         else tokenize_loop rs q [] (flush current tokens))
      else tokenize_loop rs q (current @ [r]) tokens)"

definition tokenize :: "string \<Rightarrow> parse_error + string list" where
  "tokenize s = tokenize_loop s None [] []"

section \<open>Parsed commands\<close>

text \<open>The name, the value (empty when absent) and whether there is one; the cut is at the first \<open>=\<close>.\<close>

definition parseLongFlag :: "string \<Rightarrow> string \<times> string \<times> bool" where
  "parseLongFlag token =
    (let flag = trim_prefix token ''--''
     in if CHR ''='' \<in> set flag
        then (takeWhile (\<lambda>c. c \<noteq> CHR ''='') flag, drop 1 (dropWhile (\<lambda>c. c \<noteq> CHR ''='') flag), True)
        else (flag, '''', False))"

record ParsedCommand =
  Command :: string
  Subcommand :: string
  Args :: "string list"
  Flags :: "(string, string) gomap"
  BooleanFlags :: "string list"

definition put_flag :: "string \<Rightarrow> string \<Rightarrow> ParsedCommand \<Rightarrow> ParsedCommand" where
  "put_flag n v cmd = cmd\<lparr>Flags := AList.update n v (Flags cmd)\<rparr>"

definition add_boolean :: "string \<Rightarrow> ParsedCommand \<Rightarrow> ParsedCommand" where
  "add_boolean n cmd = cmd\<lparr>BooleanFlags := BooleanFlags cmd @ [n]\<rparr>"

text \<open>The rest of the tokens has a first one that may be the value of a flag.\<close>

definition value_next :: "string list \<Rightarrow> bool" where
  "value_next rest \<longleftrightarrow> rest \<noteq> [] \<and> \<not> has_prefix (hd rest) ''-''"

function parse_rest :: "string list \<Rightarrow> ParsedCommand \<Rightarrow> ParsedCommand" where
  "parse_rest [] cmd = cmd"
| "parse_rest (token # rest) cmd =
    (if has_prefix token ''--'' then
       (case parseLongFlag token of
          (flagName, flagValue, hasValue) \<Rightarrow>
            if hasValue then parse_rest rest (put_flag flagName flagValue cmd)
            else if value_next rest then parse_rest (drop 1 rest) (put_flag flagName (hd rest) cmd)
            else parse_rest rest (add_boolean flagName cmd))
     else if has_prefix token ''-'' \<and> length token > 1 then
       (let flagName = trim_prefix token ''-''
        in if value_next rest then parse_rest (drop 1 rest) (put_flag flagName (hd rest) cmd)
           else parse_rest rest (add_boolean flagName cmd))
     else parse_rest rest (cmd\<lparr>Args := Args cmd @ [token]\<rparr>))"
  by pat_completeness auto
termination
  by (relation "measure (\<lambda>(ts, _). length ts)") auto

definition parse_tokens :: "string list \<Rightarrow> parse_error + ParsedCommand" where
  "parse_tokens tokens =
    (case tokens of
       [] \<Rightarrow> Inl NoTokens
     | [c] \<Rightarrow> Inr \<lparr>Command = c, Subcommand = '''', Args = [], Flags = [], BooleanFlags = []\<rparr>
     | c # sc # rest \<Rightarrow>
         Inr (parse_rest rest \<lparr>Command = c, Subcommand = sc, Args = [], Flags = [], BooleanFlags = []\<rparr>))"

definition ParseCommand :: "string \<Rightarrow> parse_error + ParsedCommand" where
  "ParseCommand cmdString =
    (if cmdString = '''' then Inl EmptyCommand
     else case tokenize cmdString of Inl e \<Rightarrow> Inl e | Inr tokens \<Rightarrow> parse_tokens tokens)"

section \<open>Validation\<close>

datatype command_error = ErrCommandNotFound | ErrCommandNotPermitted

definition ValidateCommand :: "ParsedCommand \<Rightarrow> command_error option" where
  "ValidateCommand cmd =
    (if \<not> IsCommandAllowed (Command cmd) then Some ErrCommandNotFound
     else if Subcommand cmd \<noteq> '''' \<and> \<not> IsSubcommandAllowed (Command cmd) (Subcommand cmd)
     then Some ErrCommandNotPermitted
     else if list_ex (\<lambda>blockedFlag. list_ex (\<lambda>flag. flag = blockedFlag) (BooleanFlags cmd) \<or>
                        map_of (Flags cmd) blockedFlag \<noteq> None) BlockedFlags
     then Some ErrCommandNotPermitted
     else None)"

definition IsStreamingFlag :: "string \<Rightarrow> bool" where
  "IsStreamingFlag flagName \<longleftrightarrow> list_ex (\<lambda>blocked. to_lower (trim_left flagName ''-'') = blocked) BlockedFlags"

section \<open>The command that is executed\<close>

text \<open>
  The data provider (\<open>src/krkn-operator-data-provider/server.py\<close>) builds the argument vector again
  from the parsed parts. Python's \<open>len\<close> counts code points.
\<close>

definition rune_count :: "string \<Rightarrow> nat" where
  "rune_count s = length (filter (\<lambda>c. \<not> is_continuation c) s)"

definition flag_token :: "string \<Rightarrow> string" where
  "flag_token key = (if rune_count key = 1 then ''-'' else ''--'') @ key"

definition argv :: "string \<Rightarrow> ParsedCommand \<Rightarrow> string list" where
  "argv kubeconfig cmd =
     [Command cmd, Subcommand cmd] @ Args cmd
     @ concat (map (\<lambda>(key, v). [flag_token key, v]) (Flags cmd))
     @ map flag_token (BooleanFlags cmd)
     @ [''--kubeconfig='' @ kubeconfig]"

section \<open>Tokenizing\<close>

lemma tokenize_plain:
  "list_all (\<lambda>c. \<not> is_quote c \<and> \<not> is_blank c) s \<Longrightarrow>
   tokenize_loop (s @ rest) None current tokens = tokenize_loop rest None (current @ s) tokens"
  by (induction s arbitrary: current) auto

lemma tokenize_quoted:
  "c \<notin> set s \<Longrightarrow> tokenize_loop (s @ rest) (Some c) current tokens = tokenize_loop rest (Some c) (current @ s) tokens"
  by (induction s arbitrary: current) auto

text \<open>Writing a token between quotes, and a command line from its tokens.\<close>

definition quote :: "char \<Rightarrow> string \<Rightarrow> string" where
  "quote c s = c # s @ [c]"

definition command_line :: "(char \<times> string) list \<Rightarrow> string" where
  "command_line ts = concat (map (\<lambda>(c, s). quote c s @ '' '') ts)"

lemma tokenize_loop_quote:
  assumes "is_quote c" "c \<notin> set s"
  shows "tokenize_loop (quote c s @ rest) None current tokens = tokenize_loop rest None (current @ s) tokens"
  using assms by (simp add: quote_def tokenize_quoted)

lemma tokenize_command_line:
  "list_all (\<lambda>(c, s). is_quote c \<and> c \<notin> set s \<and> s \<noteq> []) ts \<Longrightarrow>
   tokenize_loop (command_line ts) None [] tokens = Inr (tokens @ map snd ts)"
proof (induction ts arbitrary: tokens)
  case Nil
  then show ?case by (simp add: command_line_def flush_def)
next
  case (Cons t ts)
  obtain c s where t: "t = (c, s)" by (cases t)
  with Cons.prems have "is_quote c" "c \<notin> set s" "s \<noteq> []" by auto
  moreover have "command_line (t # ts) = quote c s @ '' '' @ command_line ts"
    by (simp add: command_line_def t)
  ultimately show ?case
    using Cons t by (simp add: tokenize_loop_quote flush_def is_quote_def is_blank_def)
qed

text \<open>No token is empty and, outside quotes, no token holds a blank or a quote.\<close>

lemma tokenize_loop_nonempty:
  "tokenize_loop s q current tokens = Inr ts \<Longrightarrow> [] \<notin> set tokens \<Longrightarrow> [] \<notin> set ts"
  by (induction s q current tokens rule: tokenize_loop.induct)
    (auto simp: flush_def split: if_splits option.splits)

lemma tokenize_loop_unquoted:
  "list_all (\<lambda>c. \<not> is_quote c) s \<Longrightarrow>
   tokenize_loop s None current tokens \<noteq> Inl e"
  by (induction s arbitrary: current tokens) auto

section \<open>Flags\<close>

definition flag_names :: "ParsedCommand \<Rightarrow> string set" where
  "flag_names cmd = set (BooleanFlags cmd) \<union> dom (map_of (Flags cmd))"

text \<open>The name under which a token of the command line is recorded when it is read as a flag.\<close>

definition flag_of :: "string \<Rightarrow> string" where
  "flag_of t = (if has_prefix t ''--'' then takeWhile (\<lambda>c. c \<noteq> CHR ''='') (drop 2 t) else drop 1 t)"

definition is_flag :: "string \<Rightarrow> bool" where
  "is_flag t \<longleftrightarrow> has_prefix t ''-'' \<and> length t > 1"

lemma flag_names_put [simp]: "flag_names (put_flag n v cmd) = insert n (flag_names cmd)"
  by (auto simp: flag_names_def put_flag_def alist.get_put)

lemma flag_names_add [simp]: "flag_names (add_boolean n cmd) = insert n (flag_names cmd)"
  by (auto simp: flag_names_def add_boolean_def)

lemma flag_names_arg [simp]: "flag_names (cmd\<lparr>Args := a\<rparr>) = flag_names cmd"
  by (simp add: flag_names_def)

lemma has_prefix_dash2: "has_prefix t ''--'' \<Longrightarrow> is_flag t"
  by (cases t; cases "tl t") (auto simp: is_flag_def has_prefix_def)

lemma takeWhile_absent: "x \<notin> set s \<Longrightarrow> takeWhile (\<lambda>c. c \<noteq> x) s = s"
  by (auto simp: takeWhile_eq_all_conv)

lemma parseLongFlag_name: "has_prefix t ''--'' \<Longrightarrow> fst (parseLongFlag t) = flag_of t"
  by (simp add: parseLongFlag_def flag_of_def trim_prefix_def Let_def numeral_2_eq_2 takeWhile_absent)

text \<open>
  The flag names a parse records are exactly those of the tokens that look like flags: none is
  swallowed as the value of another flag.
\<close>

lemma flag_names_parse_rest:
  "flag_names (parse_rest ts cmd) = flag_names cmd \<union> flag_of ` {t \<in> set ts. is_flag t}"
proof (induction ts cmd rule: parse_rest.induct)
  case (2 t rest cmd)
  have nf: "\<not> is_flag (hd rest)" if "value_next rest"
    using that by (simp add: value_next_def is_flag_def)
  have skip: "flag_of ` {x \<in> set (drop 1 rest). is_flag x} = flag_of ` {x \<in> set rest. is_flag x}" if "value_next rest"
    using that nf[OF that] by (cases rest) (auto simp: value_next_def)
  consider (long) "has_prefix t ''--''" | (short) "\<not> has_prefix t ''--''" "is_flag t"
    | (arg) "\<not> has_prefix t ''--''" "\<not> is_flag t" by blast
  then show ?case
  proof cases
    case long
    obtain n v b where p: "parseLongFlag t = (n, v, b)" by (metis surj_pair)
    with long have n: "n = flag_of t" by (metis fst_conv parseLongFlag_name)
    note IH = "2.IH"(1,2,3)[OF long p[symmetric] refl]
    have "is_flag t" using long by (rule has_prefix_dash2)
    with long p n IH skip show ?thesis by (auto simp: image_iff)
  next
    case short
    then have n: "trim_prefix t ''-'' = flag_of t"
      by (simp add: is_flag_def flag_of_def trim_prefix_def)
    from short have c: "has_prefix t ''-'' \<and> length t > 1" by (simp add: is_flag_def)
    note IH = "2.IH"(4,5)[OF short(1) c refl]
    from short c n IH skip show ?thesis by (auto simp: image_iff Let_def)
  next
    case arg
    then have c: "\<not> (has_prefix t ''-'' \<and> length t > 1)" by (simp add: is_flag_def)
    note IH = "2.IH"(6)[OF arg(1) c]
    with arg c show ?thesis by (auto simp: image_iff)
  qed
qed simp

lemma parse_rest_keeps [simp]:
  "Command (parse_rest ts cmd) = Command cmd" "Subcommand (parse_rest ts cmd) = Subcommand cmd"
  by (induction ts cmd rule: parse_rest.induct)
    (auto simp: put_flag_def add_boolean_def Let_def split: prod.splits)

section \<open>What validation accepts\<close>

abbreviation permitted_subcommands :: "string set" where
  "permitted_subcommands \<equiv> {''get'', ''describe'', ''logs'', ''top'', ''explain'', ''version'',
     ''api-resources'', ''api-versions'', ''cluster-info''}"

abbreviation blocked_names :: "string set" where
  "blocked_names \<equiv> {''watch'', ''w'', ''follow'', ''f'', ''watch-only''}"

lemma IsCommandAllowed_iff: "IsCommandAllowed c \<longleftrightarrow> c \<in> {''kubectl'', ''oc''}"
  by (auto simp: IsCommandAllowed_def AvailableCommands_def)

lemma IsSubcommandAllowed_iff:
  "IsCommandAllowed c \<Longrightarrow> IsSubcommandAllowed c s \<longleftrightarrow> s \<in> permitted_subcommands"
  by (auto simp: IsSubcommandAllowed_def IsCommandAllowed_iff AvailableCommands_def subcommand_specs_def)

lemma blocked_iff:
  "list_ex (\<lambda>b. list_ex (\<lambda>flag. flag = b) (BooleanFlags cmd) \<or> map_of (Flags cmd) b \<noteq> None) BlockedFlags
   \<longleftrightarrow> flag_names cmd \<inter> blocked_names \<noteq> {}"
  by (auto simp: BlockedFlags_def flag_names_def list_ex_iff)

text \<open>
  \<open>ValidateCommand\<close> accepts exactly the commands whose program is \<open>kubectl\<close> or \<open>oc\<close>, whose
  subcommand is absent or one of the nine read-only ones, and none of whose flags, with a value or
  without, is recorded under a streaming name; it reports \<open>ErrCommandNotFound\<close> exactly for another
  program.
\<close>

theorem ValidateCommand_correct:
  "(ValidateCommand cmd = None \<longleftrightarrow>
      Command cmd \<in> {''kubectl'', ''oc''} \<and> Subcommand cmd \<in> insert '''' permitted_subcommands \<and>
      flag_names cmd \<inter> blocked_names = {}) \<and>
   (ValidateCommand cmd = Some ErrCommandNotFound \<longleftrightarrow> Command cmd \<notin> {''kubectl'', ''oc''})"
  unfolding ValidateCommand_def blocked_iff
  using IsCommandAllowed_iff[of "Command cmd"] IsSubcommandAllowed_iff[of "Command cmd" "Subcommand cmd"]
  by (cases "Subcommand cmd = ''''"; cases "IsCommandAllowed (Command cmd)") auto

lemma ValidateCommand_NoneD:
  assumes "ValidateCommand cmd = None"
  shows "Command cmd \<in> {''kubectl'', ''oc''}"
    and "Subcommand cmd \<noteq> '''' \<Longrightarrow> Subcommand cmd \<in> permitted_subcommands"
    and "flag_names cmd \<inter> blocked_names = {}"
  using assms unfolding ValidateCommand_def blocked_iff
  by (auto simp: IsCommandAllowed_iff IsSubcommandAllowed_iff split: if_splits)

text \<open>A successful parse comes from at least one token; the third and later ones are read in the loop.\<close>

lemma ParseCommand_tokens:
  assumes "ParseCommand s = Inr cmd"
  obtains ts where "tokenize s = Inr ts" "ts \<noteq> []" "Command cmd = hd ts"
    "flag_names cmd = flag_of ` {t \<in> set (drop 2 ts). is_flag t}"
    "Subcommand cmd = (if length ts = 1 then '''' else ts ! 1)"
    "length ts = 1 \<or> cmd = parse_rest (drop 2 ts) \<lparr>Command = hd ts, Subcommand = ts ! 1, Args = [], Flags = [], BooleanFlags = []\<rparr>"
    "length ts \<noteq> 1 \<or> cmd = \<lparr>Command = hd ts, Subcommand = '''', Args = [], Flags = [], BooleanFlags = []\<rparr>"
proof -
  from assms obtain ts where ts: "tokenize s = Inr ts" "parse_tokens ts = Inr cmd"
    by (auto simp: ParseCommand_def split: if_splits sum.splits)
  have none: "flag_names \<lparr>Command = a, Subcommand = b, Args = [], Flags = [], BooleanFlags = []\<rparr> = {}" for a b
    by (simp add: flag_names_def)
  show thesis using ts
    by (intro that[of ts])
      (auto simp: parse_tokens_def flag_names_parse_rest none split: list.splits)
qed

text \<open>
  What an accepted command line looks like: its first token is \<open>kubectl\<close> or \<open>oc\<close>, its second, if
  there is one, a read-only subcommand, and no later token is one of the streaming flags in any
  spelling the parser knows (\<open>-w\<close>, \<open>--watch\<close>, \<open>--watch=...\<close>, and so on): no flag token is hidden by
  being read as the value of another flag.
\<close>

theorem accepted_command_line:
  assumes "ParseCommand s = Inr cmd" and "ValidateCommand cmd = None"
  shows "\<exists>ts. tokenize s = Inr ts \<and> hd ts \<in> {''kubectl'', ''oc''}
     \<and> set (take 1 (drop 1 ts)) \<subseteq> permitted_subcommands
     \<and> {t \<in> set (drop 2 ts). is_flag t \<and> flag_of t \<in> blocked_names} = {}"
proof -
  obtain ts where ts: "tokenize s = Inr ts" "ts \<noteq> []" "Command cmd = hd ts"
    "flag_names cmd = flag_of ` {t \<in> set (drop 2 ts). is_flag t}"
    "Subcommand cmd = (if length ts = 1 then '''' else ts ! 1)"
    by (rule ParseCommand_tokens[OF assms(1)]) (rule that)
  have ne: "[] \<notin> set ts" using ts(1) tokenize_loop_nonempty[of s None "[]" "[]" ts] by (simp add: tokenize_def)
  have "set (take 1 (drop 1 ts)) \<subseteq> permitted_subcommands"
  proof (cases "length ts = 1")
    case False
    then obtain a b cs where abc: "ts = a # b # cs" using ts(2) by (cases ts; cases "tl ts") auto
    with ts(5) ne have "Subcommand cmd = b" "b \<noteq> ''''" by auto
    with abc ValidateCommand_NoneD(2)[OF assms(2)] show ?thesis by auto
  qed (cases ts; simp)
  moreover have "{t \<in> set (drop 2 ts). is_flag t \<and> flag_of t \<in> blocked_names} = {}"
    using ts(4) ValidateCommand_NoneD(3)[OF assms(2)] by blast
  ultimately show ?thesis using ts(1,3) ValidateCommand_NoneD(1)[OF assms(2)] by auto
qed

theorem accepted_command_line_witness:
  "\<exists>ts. tokenize ''kubectl get pods -n default --output=yaml'' = Inr ts \<and> hd ts \<in> {''kubectl'', ''oc''}
     \<and> set (take 1 (drop 1 ts)) \<subseteq> permitted_subcommands
     \<and> {t \<in> set (drop 2 ts). is_flag t \<and> flag_of t \<in> blocked_names} = {}"
proof (rule accepted_command_line)
  show "ParseCommand ''kubectl get pods -n default --output=yaml'' =
    Inr \<lparr>Command = ''kubectl'', Subcommand = ''get'', Args = [''pods''],
      Flags = [(''n'', ''default''), (''output'', ''yaml'')], BooleanFlags = []\<rparr>" by code_simp
  show "ValidateCommand \<lparr>Command = ''kubectl'', Subcommand = ''get'', Args = [''pods''],
      Flags = [(''n'', ''default''), (''output'', ''yaml'')], BooleanFlags = []\<rparr> = None" by code_simp
qed

section \<open>What the data provider runs\<close>

text \<open>
  Two spellings of a flag token do not survive the way through the parser and back: a value written
  with \<open>=\<close> that itself starts with a dash becomes a token of its own, and a token with one dash and
  an \<open>=\<close> comes back with two dashes. All other flag tokens are plain.
\<close>

definition plain_flag :: "string \<Rightarrow> bool" where
  "plain_flag t \<longleftrightarrow>
    (if has_prefix t ''--'' then \<not> has_prefix (fst (snd (parseLongFlag t))) ''-''
     else is_flag t \<longrightarrow> CHR ''='' \<notin> set t)"

definition clean :: "ParsedCommand \<Rightarrow> bool" where
  "clean cmd \<longleftrightarrow> list_all (\<lambda>a. \<not> is_flag a) (Args cmd) \<and>
     list_all (\<lambda>(k, v). CHR ''='' \<notin> set k \<and> \<not> is_flag v) (Flags cmd) \<and>
     list_all (\<lambda>k. CHR ''='' \<notin> set k) (BooleanFlags cmd)"

lemma clean_put: "clean cmd \<Longrightarrow> CHR ''='' \<notin> set k \<Longrightarrow> \<not> is_flag v \<Longrightarrow> clean (put_flag k v cmd)"
  by (simp add: clean_def put_flag_def list_all_update)

lemma clean_add: "clean cmd \<Longrightarrow> CHR ''='' \<notin> set k \<Longrightarrow> clean (add_boolean k cmd)"
  by (simp add: clean_def add_boolean_def)

lemma clean_arg: "clean cmd \<Longrightarrow> \<not> is_flag a \<Longrightarrow> clean (cmd\<lparr>Args := Args cmd @ [a]\<rparr>)"
  by (simp add: clean_def)

lemma flag_of_no_eq: "plain_flag t \<Longrightarrow> is_flag t \<Longrightarrow> CHR ''='' \<notin> set (flag_of t)"
  by (auto simp: plain_flag_def flag_of_def dest: set_takeWhileD in_set_dropD)

lemma clean_parse_rest: "list_all plain_flag ts \<Longrightarrow> clean cmd \<Longrightarrow> clean (parse_rest ts cmd)"
proof (induction ts cmd rule: parse_rest.induct)
  case (2 t rest cmd)
  have nf: "\<not> is_flag (hd rest)" if "value_next rest"
    using that by (simp add: value_next_def is_flag_def)
  have dr: "list_all plain_flag (drop 1 rest)" using "2.prems"(1) by (cases rest) auto
  have pl: "plain_flag t" "list_all plain_flag rest" using "2.prems"(1) by auto
  consider (long) "has_prefix t ''--''" | (short) "\<not> has_prefix t ''--''" "is_flag t"
    | (arg) "\<not> has_prefix t ''--''" "\<not> is_flag t" by blast
  then show ?case
  proof cases
    case long
    obtain n v b where p: "parseLongFlag t = (n, v, b)" by (metis surj_pair)
    with long have "n = flag_of t" by (metis fst_conv parseLongFlag_name)
    with flag_of_no_eq[OF pl(1) has_prefix_dash2[OF long]] have n: "CHR ''='' \<notin> set n" by simp
    from pl(1) long p have v: "\<not> is_flag v" by (simp add: plain_flag_def is_flag_def)
    note IH = "2.IH"(1,2,3)[OF long p[symmetric] refl]
    show ?thesis
      using long p n v nf dr pl(2) IH clean_put[OF "2.prems"(2) n] clean_add[OF "2.prems"(2) n] by simp
  next
    case short
    then have e: "trim_prefix t ''-'' = flag_of t"
      by (simp add: is_flag_def flag_of_def trim_prefix_def)
    have n: "CHR ''='' \<notin> set (flag_of t)" using flag_of_no_eq[OF pl(1) short(2)] .
    from short have c: "has_prefix t ''-'' \<and> length t > 1" by (simp add: is_flag_def)
    note IH = "2.IH"(4,5)[OF short(1) c refl]
    show ?thesis
      using short c e n nf dr pl(2) IH clean_put[OF "2.prems"(2) n] clean_add[OF "2.prems"(2) n]
      by (simp add: Let_def)
  next
    case arg
    then have c: "\<not> (has_prefix t ''-'' \<and> length t > 1)" by (simp add: is_flag_def)
    note IH = "2.IH"(6)[OF arg(1) c]
    with arg c pl(2) clean_arg[OF "2.prems"(2) arg(2)] show ?thesis by auto
  qed
qed simp

lemma blocked_head: "n \<in> blocked_names \<Longrightarrow> n \<noteq> [] \<and> \<not> is_continuation (hd n)"
  by (auto simp: is_continuation_def code_def)

text \<open>The token written for a recorded name that is not blocked is not a blocked flag.\<close>

lemma flag_token_not_blocked:
  assumes k: "CHR ''='' \<notin> set k" "k \<notin> blocked_names"
  shows "flag_of (flag_token k) \<notin> blocked_names"
proof (cases "rune_count k = 1 \<and> has_prefix k ''-''")
  case True
  then obtain k' where k': "k = CHR ''-'' # k'" by (cases k) (auto simp: has_prefix_def)
  with True have cont: "c \<in> set k' \<Longrightarrow> is_continuation c" for c
    by (auto simp: rune_count_def is_continuation_def code_def filter_empty_conv)
  have "flag_of (flag_token k) = k'"
    using True k k' by (simp add: flag_of_def flag_token_def has_prefix_def takeWhile_absent)
  with cont show ?thesis using blocked_head[of k'] by (cases k') auto
next
  case False
  then have "flag_of (flag_token k) = k"
    using k by (cases k) (auto simp: flag_of_def flag_token_def has_prefix_def takeWhile_absent)
  with k(2) show ?thesis by simp
qed

lemma blocked_not_flag: "t \<in> {''kubectl'', ''oc''} \<union> insert '''' permitted_subcommands \<Longrightarrow> \<not> is_flag t"
  by (auto simp: is_flag_def has_prefix_def)

text \<open>
  When every flag token of the command line is plain, the argument vector the data provider
  builds for an accepted command runs \<open>kubectl\<close> or \<open>oc\<close> with a read-only subcommand (or none) and holds
  no streaming flag in any position and spelling.
\<close>

theorem argv_has_no_streaming_flag:
  assumes "ParseCommand s = Inr cmd" and "ValidateCommand cmd = None"
    and "tokenize s = Inr ts" and "list_all plain_flag (drop 2 ts)"
  shows "take 1 (argv kc cmd) = take 1 ts
     \<and> argv kc cmd ! 1 \<in> insert '''' permitted_subcommands
     \<and> filter (\<lambda>t. is_flag t \<and> flag_of t \<in> blocked_names) (argv kc cmd) = []"
proof -
  obtain ts' where ts': "tokenize s = Inr ts'" "ts' \<noteq> []" "Command cmd = hd ts'"
    "length ts' = 1 \<or> cmd = parse_rest (drop 2 ts') \<lparr>Command = hd ts', Subcommand = ts' ! 1, Args = [], Flags = [], BooleanFlags = []\<rparr>"
    "length ts' \<noteq> 1 \<or> cmd = \<lparr>Command = hd ts', Subcommand = '''', Args = [], Flags = [], BooleanFlags = []\<rparr>"
    using ParseCommand_tokens[OF assms(1)] by metis
  with assms(3) have e: "ts' = ts" by simp
  have base: "clean \<lparr>Command = a, Subcommand = b, Args = [], Flags = [], BooleanFlags = []\<rparr>" for a b
    by (simp add: clean_def)
  have cl: "clean cmd"
    using ts'(4,5) clean_parse_rest[OF assms(4) base] base unfolding e by metis
  note ok = ValidateCommand_NoneD[OF assms(2)]
  have names: "k \<in> flag_names cmd \<Longrightarrow> k \<notin> blocked_names" for k using ok(3) by blast
  have sub: "Subcommand cmd \<in> insert '''' permitted_subcommands" using ok(2) by blast
  have bad: "\<not> (is_flag t \<and> flag_of t \<in> blocked_names)" if t: "t \<in> set (argv kc cmd)" for t
  proof -
    consider "t \<in> {Command cmd, Subcommand cmd}" | "t \<in> set (Args cmd)"
      | k v where "(k, v) \<in> set (Flags cmd)" "t = flag_token k \<or> t = v"
      | k where "k \<in> set (BooleanFlags cmd)" "t = flag_token k" | "t = ''--kubeconfig='' @ kc"
      using t by (auto simp: argv_def)
    then show ?thesis
    proof cases
      case 1 then show ?thesis using blocked_not_flag ok(1) sub by blast
    next
      case 2 then show ?thesis using cl by (auto simp: clean_def list_all_iff)
    next
      case (3 k v)
      have "k \<in> flag_names cmd" using 3(1) by (force simp: flag_names_def dom_map_of_conv_image_fst)
      with 3 cl names[of k] flag_token_not_blocked[of k] show ?thesis
        by (auto simp: clean_def list_all_iff)
    next
      case (4 k)
      then have "k \<in> flag_names cmd" by (simp add: flag_names_def)
      with 4 cl names[of k] flag_token_not_blocked[of k] show ?thesis
        by (auto simp: clean_def list_all_iff)
    next
      case 5 then show ?thesis by (simp add: flag_of_def has_prefix_def)
    qed
  qed
  have "take 1 (argv kc cmd) = take 1 ts"
    using ts'(2,3) e by (cases ts) (simp_all add: argv_def)
  moreover have "argv kc cmd ! 1 \<in> insert '''' permitted_subcommands" using sub by (simp add: argv_def)
  moreover have "filter (\<lambda>t. is_flag t \<and> flag_of t \<in> blocked_names) (argv kc cmd) = []"
    using bad by (auto simp: filter_empty_conv)
  ultimately show ?thesis by blast
qed

definition sample_command :: ParsedCommand where
  "sample_command = \<lparr>Command = ''oc'', Subcommand = ''get'', Args = [''pods''],
     Flags = [(''n'', ''default'')], BooleanFlags = [''A'', ''show-labels'']\<rparr>"

theorem argv_has_no_streaming_flag_witness:
  "take 1 (argv ''k'' sample_command) = [''oc'']
     \<and> argv ''k'' sample_command ! 1 \<in> insert '''' permitted_subcommands
     \<and> filter (\<lambda>t. is_flag t \<and> flag_of t \<in> blocked_names) (argv ''k'' sample_command) = []"
proof -
  let ?ts = "[''oc'', ''get'', ''pods'', ''-n'', ''default'', ''-A'', ''--show-labels'']"
  have "ParseCommand ''oc get pods -n default -A --show-labels'' = Inr sample_command" by code_simp
  moreover have "ValidateCommand sample_command = None" by code_simp
  moreover have "tokenize ''oc get pods -n default -A --show-labels'' = Inr ?ts" by code_simp
  moreover have "list_all plain_flag (drop 2 ?ts)" by code_simp
  ultimately show ?thesis using argv_has_no_streaming_flag[of _ sample_command ?ts "''k''"] by simp
qed

text \<open>
  Both exceptions are real: an accepted command line whose parts the data provider puts together
  again as \<open>--watch\<close> after a switch that takes no argument, and one that comes back as
  \<open>--watch=true\<close>.
\<close>

theorem argv_streaming_flag_smuggled:
  "(\<exists>cmd. ParseCommand ''kubectl get pods --show-labels=--watch'' = Inr cmd \<and> ValidateCommand cmd = None \<and>
      argv ''k'' cmd = [''kubectl'', ''get'', ''pods'', ''--show-labels'', ''--watch'', ''--kubeconfig=k'']) \<and>
   (\<exists>cmd. ParseCommand ''kubectl get pods -watch=true'' = Inr cmd \<and> ValidateCommand cmd = None \<and>
      argv ''k'' cmd = [''kubectl'', ''get'', ''pods'', ''--watch=true'', ''--kubeconfig=k''])"
proof (intro conjI exI)
  let ?c = "\<lparr>Command = ''kubectl'', Subcommand = ''get'', Args = [''pods''],
     Flags = [(''show-labels'', ''--watch'')], BooleanFlags = []\<rparr>"
  let ?d = "\<lparr>Command = ''kubectl'', Subcommand = ''get'', Args = [''pods''],
     Flags = [], BooleanFlags = [''watch=true'']\<rparr>"
  show "ParseCommand ''kubectl get pods --show-labels=--watch'' = Inr ?c" by code_simp
  show "ValidateCommand ?c = None" by code_simp
  show "argv ''k'' ?c = [''kubectl'', ''get'', ''pods'', ''--show-labels'', ''--watch'', ''--kubeconfig=k'']"
    by code_simp
  show "ParseCommand ''kubectl get pods -watch=true'' = Inr ?d" by code_simp
  show "ValidateCommand ?d = None" by code_simp
  show "argv ''k'' ?d = [''kubectl'', ''get'', ''pods'', ''--watch=true'', ''--kubeconfig=k'']" by code_simp
qed

end
