(* ===== verification/Group_Auth.thy ===== *)
theory Group_Auth
  imports Samples
begin

text \<open>
  Group based authorization: \<open>src/pkg/groupauth\<close> (actions, group labels, permission aggregation,
  validation of scenario runs) and the permission checks of \<open>src/internal/api/authorization.go\<close>. The
  API is read only here; a request sees one answer per object.
\<close>

section \<open>Actions and labels\<close>

definition ActionView :: string where "ActionView = ''view''"
definition ActionRun :: string where "ActionRun = ''run''"
definition ActionCancel :: string where "ActionCancel = ''cancel''"

definition GroupLabelPrefix :: string where
  "GroupLabelPrefix = ''group.krkn.krkn-chaos.dev/''"

definition IsValidAction :: "string \<Rightarrow> bool" where
  "IsValidAction action \<longleftrightarrow> action = ActionView \<or> action = ActionRun \<or> action = ActionCancel"

definition group_byte :: "char \<Rightarrow> bool" where
  "group_byte c \<longleftrightarrow> is_lower c \<or> is_upper c \<or> is_digit c \<or> c \<in> {CHR ''-'', CHR ''_'', CHR ''.''}"

text \<open>The regular expression replacement: every run of other characters becomes one hyphen.\<close>

function collapse_invalid :: "string \<Rightarrow> string" where
  "collapse_invalid [] = []"
| "collapse_invalid (c # cs) =
     (if group_byte c then c # collapse_invalid cs
      else CHR ''-'' # collapse_invalid (dropWhile (\<lambda>c. \<not> group_byte c) cs))"
  by pat_completeness auto
termination
  by (relation "measure length") (auto simp: length_dropWhile_le less_Suc_eq_le)

definition SanitizeGroupName :: "string \<Rightarrow> string" where
  "SanitizeGroupName groupName = to_lower (trim (collapse_invalid groupName) ''-_.'')"

definition GroupLabelKey :: "string \<Rightarrow> string" where
  "GroupLabelKey groupName = GroupLabelPrefix @ SanitizeGroupName groupName"

definition ExtractGroupNamesFromLabels :: "(string, string) gomap \<Rightarrow> string list" where
  "ExtractGroupNamesFromLabels labels =
     map (\<lambda>(key, v). trim_prefix key GroupLabelPrefix)
       (filter (\<lambda>(key, v). has_prefix key GroupLabelPrefix \<and> v = ''true'') labels)"

definition sanitizeUserID :: "string \<Rightarrow> string" where
  "sanitizeUserID email =
     ''krknuser-'' @ to_lower (replace_all (replace_all email CHR ''@'' CHR ''-'') CHR ''.'' CHR ''-'')"

section \<open>Permissions\<close>

record auth_client =
  ac_Namespace :: string
  ac_GetUser :: "string \<Rightarrow> string \<Rightarrow> api_error + KrknUser"
  ac_GetGroup :: "string \<Rightarrow> string \<Rightarrow> api_error + KrknUserGroup"
  ac_GetTargetRequest :: "string \<Rightarrow> string \<Rightarrow> api_error + KrknTargetRequest"
  ac_ListUsers :: "string \<Rightarrow> (string \<times> string) list \<Rightarrow> api_error + KrknUser list"

definition GetUserGroups :: "auth_client \<Rightarrow> string \<Rightarrow> string \<Rightarrow> api_error + KrknUserGroup list" where
  "GetUserGroups C userID ns =
    (case ac_GetUser C ns (sanitizeUserID userID) of
       Inl e \<Rightarrow> Inl e
     | Inr user \<Rightarrow>
       (let groupNames = ExtractGroupNamesFromLabels (Labels (user_meta user))
        in if groupNames = [] then Inr []
           else Inr (concat (map (\<lambda>n. case ac_GetGroup C ns n of Inl e \<Rightarrow> [] | Inr g \<Rightarrow> [g]) groupNames))))"

definition add_action :: "string \<Rightarrow> string list \<Rightarrow> string list" where
  "add_action a acts = (if a \<in> set acts then acts else acts @ [a])"

definition add_permissions :: "KrknUserGroup \<Rightarrow> (string, string list) gomap \<Rightarrow> (string, string list) gomap" where
  "add_permissions grp m =
     fold (\<lambda>(url, acts) m. AList.update url (fold add_action acts (get_list m url)) m)
       (ug_ClusterPermissions grp) m"

definition AggregateClusterPermissions :: "KrknUserGroup list \<Rightarrow> (string, string list) gomap" where
  "AggregateClusterPermissions userGroups = fold add_permissions userGroups []"

definition hasAction :: "string list \<Rightarrow> string \<Rightarrow> bool" where
  "hasAction actions requiredAction \<longleftrightarrow> list_ex (\<lambda>a. a = requiredAction) actions"

definition CanPerformAction :: "KrknUserGroup list \<Rightarrow> string \<Rightarrow> string \<Rightarrow> bool" where
  "CanPerformAction userGroups clusterAPIURL action =
    (case map_of (AggregateClusterPermissions userGroups) clusterAPIURL of
       None \<Rightarrow> False
     | Some allowed \<Rightarrow> list_ex (\<lambda>a. a = action) allowed)"

definition HasClusterPermission :: "auth_client \<Rightarrow> string \<Rightarrow> string \<Rightarrow> string \<Rightarrow> string \<Rightarrow> api_error + bool" where
  "HasClusterPermission C userID ns clusterAPIURL action =
    (case GetUserGroups C userID ns of
       Inl e \<Rightarrow> Inl e
     | Inr groups \<Rightarrow> if groups = [] then Inr False else Inr (CanPerformAction groups clusterAPIURL action))"

definition CountGroupMembers :: "auth_client \<Rightarrow> string \<Rightarrow> string \<Rightarrow> api_error + int" where
  "CountGroupMembers C groupName ns =
    (case ac_ListUsers C ns [(GroupLabelKey groupName, ''true'')] of
       Inl e \<Rightarrow> Inl e | Inr users \<Rightarrow> Inr (int (length users)))"

section \<open>Validation of a scenario run\<close>

datatype access_error =
    GroupsUnavailable api_error
  | NoGroups string
  | UnknownCluster string string
  | NotPermitted string string string

definition buildClusterAPIURLMap :: "KrknTargetRequest \<Rightarrow> (string, string) gomap" where
  "buildClusterAPIURLMap tr =
     fold (\<lambda>c m. AList.update (ct_ClusterName c) (ct_ClusterAPIURL c) m)
       (concat (map snd (trs_TargetData (tr_Status tr)))) []"

fun check_clusters ::
  "string \<Rightarrow> (string, string list) gomap \<Rightarrow> (string, string) gomap \<Rightarrow> (string \<times> string) list \<Rightarrow> access_error option" where
  "check_clusters userID permissions urls [] = None"
| "check_clusters userID permissions urls ((provider, clusterName) # rest) =
     (case map_of urls clusterName of
        None \<Rightarrow> Some (UnknownCluster clusterName provider)
      | Some apiURL \<Rightarrow>
          if \<not> hasAction (get_list permissions apiURL) ActionRun then Some (NotPermitted userID clusterName apiURL)
          else check_clusters userID permissions urls rest)"

definition target_pairs :: "target_clusters \<Rightarrow> (string \<times> string) list" where
  "target_pairs targetClusters = concat (map (\<lambda>(p, cs). map (Pair p) cs) targetClusters)"

definition ValidateScenarioRunAccess ::
  "auth_client \<Rightarrow> string \<Rightarrow> string \<Rightarrow> target_clusters \<Rightarrow> KrknTargetRequest \<Rightarrow> access_error option" where
  "ValidateScenarioRunAccess C userID ns targetClusters targetRequest =
    (case GetUserGroups C userID ns of
       Inl e \<Rightarrow> Some (GroupsUnavailable e)
     | Inr groups \<Rightarrow>
         if groups = [] then Some (NoGroups userID)
         else check_clusters userID (AggregateClusterPermissions groups)
                (buildClusterAPIURLMap targetRequest) (target_pairs targetClusters))"

definition FilterClustersByPermission ::
  "auth_client \<Rightarrow> string \<Rightarrow> string \<Rightarrow> (string, ClusterTarget list) gomap \<Rightarrow> string \<Rightarrow>
     api_error + (string, ClusterTarget list) gomap" where
  "FilterClustersByPermission C userID ns targetData requiredAction =
    (case GetUserGroups C userID ns of
       Inl e \<Rightarrow> Inl e
     | Inr groups \<Rightarrow>
         if groups = [] then Inr []
         else let permissions = AggregateClusterPermissions groups
           in Inr (filter (\<lambda>(p, cs). cs \<noteq> [])
                (map (\<lambda>(p, cs). (p, filter (\<lambda>c. hasAction (get_list permissions (ct_ClusterAPIURL c)) requiredAction) cs))
                  targetData)))"

section \<open>Requests\<close>

text \<open>The claims of the authenticated user, absent when the middleware did not run.\<close>

record token_claims =
  cl_UserID :: string
  cl_Role :: string
  cl_Name :: string
  cl_Surname :: string
  cl_Organization :: string

definition IsAdmin :: "token_claims option \<Rightarrow> bool" where
  "IsAdmin claims = (case claims of None \<Rightarrow> False | Some c \<Rightarrow> cl_Role c = ''admin'')"

text \<open>A denial is the status code, error and message of the response; \<open>None\<close> lets the request through.\<close>

type_synonym denial = "(int \<times> string \<times> string) option"

definition requireAdminForMethods :: "token_claims option \<Rightarrow> string \<Rightarrow> string list \<Rightarrow> denial" where
  "requireAdminForMethods claims rmethod methods =
    (if rmethod \<notin> set methods then None
     else if \<not> IsAdmin claims then Some (403, ''forbidden'', ''This operation requires admin privileges'')
     else None)"

definition checkScenarioRunGroupAccess :: "auth_client \<Rightarrow> string \<Rightarrow> KrknScenarioRun \<Rightarrow> string \<Rightarrow> api_error + bool" where
  "checkScenarioRunGroupAccess C userID run requiredAction =
    (case GetUserGroups C userID (ac_Namespace C) of
       Inl e \<Rightarrow> Inl e
     | Inr groups \<Rightarrow>
         if groups = [] then Inr False
         else Inr (list_ex (\<lambda>job. ClusterAPIURL job \<noteq> '''' \<and> CanPerformAction groups (ClusterAPIURL job) requiredAction)
                (ClusterJobs (sr_Status run))))"

definition checkScenarioRunAccessWithAction ::
  "auth_client \<Rightarrow> token_claims option \<Rightarrow> KrknScenarioRun \<Rightarrow> string \<Rightarrow> string \<Rightarrow> denial" where
  "checkScenarioRunAccessWithAction C claims run requiredAction actionName =
    (case claims of
       None \<Rightarrow> Some (401, ''unauthorized'', ''No authentication claims found'')
     | Some c \<Rightarrow>
         if IsAdmin claims then None
         else if ClusterJobs (sr_Status run) = [] then
           Some (403, ''forbidden'', ''Access denied. This scenario run has no jobs'')
         else case checkScenarioRunGroupAccess C (cl_UserID c) run requiredAction of
             Inl e \<Rightarrow> Some (500, ''internal_error'', ''Failed to validate access'')
           | Inr hasAccess \<Rightarrow>
               if \<not> hasAccess then Some (403, ''forbidden'',
                 ''Access denied. You do not have permission to '' @ actionName @ '' this scenario run'')
               else None)"

definition checkScenarioRunAccess :: "auth_client \<Rightarrow> token_claims option \<Rightarrow> KrknScenarioRun \<Rightarrow> denial" where
  "checkScenarioRunAccess C claims run = checkScenarioRunAccessWithAction C claims run ActionView ''view''"

definition checkScenarioRunCancelAccess ::
  "auth_client \<Rightarrow> token_claims option \<Rightarrow> string \<Rightarrow> KrknScenarioRun \<Rightarrow> api_error + bool" where
  "checkScenarioRunCancelAccess C claims userID run =
    (if IsAdmin claims then Inr True
     else case GetUserGroups C userID (ac_Namespace C) of
         Inl e \<Rightarrow> Inl e
       | Inr groups \<Rightarrow>
           if groups = [] then Inr False
           else Inr (list_all (\<lambda>job. ClusterAPIURL job = '''' \<or> CanPerformAction groups (ClusterAPIURL job) ActionCancel)
                  (ClusterJobs (sr_Status run))))"

definition filterScenarioRunsByGroupPermission ::
  "auth_client \<Rightarrow> KrknScenarioRun list \<Rightarrow> token_claims option \<Rightarrow> KrknScenarioRun list" where
  "filterScenarioRunsByGroupPermission C runs claims =
    (case claims of
       None \<Rightarrow> runs
     | Some c \<Rightarrow>
         if cl_Role c = ''admin'' then runs
         else filter (\<lambda>run. checkScenarioRunGroupAccess C (cl_UserID c) run ActionView = Inr True) runs)"

definition filterJobsByPermission ::
  "ClusterJobStatus list \<Rightarrow> KrknUserGroup list \<Rightarrow> string \<Rightarrow> ClusterJobStatus list" where
  "filterJobsByPermission js groups requiredAction =
     filter (\<lambda>job. ClusterAPIURL job \<noteq> '''' \<and> CanPerformAction groups (ClusterAPIURL job) requiredAction) js"

definition checkJobAccess ::
  "auth_client \<Rightarrow> token_claims option \<Rightarrow> ClusterJobStatus \<Rightarrow> string \<Rightarrow> string \<Rightarrow> denial" where
  "checkJobAccess C claims job requiredAction actionName =
    (case claims of
       None \<Rightarrow> Some (401, ''unauthorized'', ''No authentication claims found'')
     | Some c \<Rightarrow>
         if IsAdmin claims then None
         else if ClusterAPIURL job = '''' then Some (403, ''forbidden'', ''Access denied. Job has no cluster API URL'')
         else case HasClusterPermission C (cl_UserID c) (ac_Namespace C) (ClusterAPIURL job) requiredAction of
             Inl e \<Rightarrow> Some (500, ''internal_error'', ''Failed to validate access'')
           | Inr hasAccess \<Rightarrow>
               if \<not> hasAccess then Some (403, ''forbidden'',
                 ''Access denied. You do not have permission to '' @ actionName @ '' this job'')
               else None)"

definition checkGraphRunGroupAccess :: "auth_client \<Rightarrow> string \<Rightarrow> KrknGraphRun \<Rightarrow> string \<Rightarrow> api_error + bool" where
  "checkGraphRunGroupAccess C userID graphRun requiredAction =
    (case GetUserGroups C userID (ac_Namespace C) of
       Inl e \<Rightarrow> Inl e
     | Inr groups \<Rightarrow>
         if groups = [] then Inr False
         else case ac_GetTargetRequest C (ac_Namespace C) (gspec_TargetRequestID (gr_Spec graphRun)) of
             Inl e \<Rightarrow> Inl e
           | Inr tr \<Rightarrow>
               Inr (list_ex (\<lambda>(provider, cluster).
                   list_ex (\<lambda>t. ct_ClusterName t = cluster \<and> CanPerformAction groups (ct_ClusterAPIURL t) requiredAction)
                     (get_list (trs_TargetData (tr_Status tr)) provider))
                 (target_pairs (gspec_TargetClusters (gr_Spec graphRun)))))"

definition filterGraphRunsByGroupPermission ::
  "auth_client \<Rightarrow> KrknGraphRun list \<Rightarrow> token_claims option \<Rightarrow> KrknGraphRun list" where
  "filterGraphRunsByGroupPermission C runs claims =
    (case claims of
       None \<Rightarrow> runs
     | Some c \<Rightarrow>
         if cl_Role c = ''admin'' then runs
         else filter (\<lambda>run. checkGraphRunGroupAccess C (cl_UserID c) run ActionView = Inr True) runs)"

section \<open>Aggregation is the union of the groups\<close>

definition granted :: "KrknUserGroup list \<Rightarrow> string \<Rightarrow> string \<Rightarrow> bool" where
  "granted groups url a \<longleftrightarrow> (\<exists>g \<in> set groups. \<exists>acts. (url, acts) \<in> set (ug_ClusterPermissions g) \<and> a \<in> set acts)"

lemma set_add_actions: "set (fold add_action acts xs) = set acts \<union> set xs"
  by (induction acts arbitrary: xs) (auto simp: add_action_def)

lemma set_add_permissions:
  "set (get_list (fold (\<lambda>(url, acts) m. AList.update url (fold add_action acts (get_list m url)) m) ps m) url) =
     {a. \<exists>acts. (url, acts) \<in> set ps \<and> a \<in> set acts} \<union> set (get_list m url)"
proof (induction ps arbitrary: m)
  case (Cons p ps)
  obtain u acts where p: "p = (u, acts)" by fastforce
  show ?case
    unfolding p using Cons.IH by (cases "u = url") (auto simp: get_list_update set_add_actions)
qed simp

lemma set_AggregateClusterPermissions:
  "a \<in> set (get_list (AggregateClusterPermissions groups) url) \<longleftrightarrow> granted groups url a"
proof -
  have "set (get_list (fold add_permissions groups m) url) = {a. granted groups url a} \<union> set (get_list m url)" for m
  proof (induction groups arbitrary: m)
    case (Cons g groups)
    have "set (get_list (fold add_permissions (g # groups) m) url) =
        {a. granted groups url a} \<union> {a. \<exists>acts. (url, acts) \<in> set (ug_ClusterPermissions g) \<and> a \<in> set acts} \<union> set (get_list m url)"
      using Cons.IH[of "add_permissions g m"] unfolding add_permissions_def set_add_permissions by (simp add: Un_assoc)
    then show ?case by (auto simp: granted_def)
  qed (auto simp: granted_def)
  from this[of "[]"] show ?thesis by (auto simp: AggregateClusterPermissions_def)
qed

lemma hasAction_iff: "hasAction acts a \<longleftrightarrow> a \<in> set acts"
  by (auto simp: hasAction_def list_ex_iff)

lemma CanPerformAction_iff: "CanPerformAction groups url a \<longleftrightarrow> granted groups url a"
proof -
  have "CanPerformAction groups url a \<longleftrightarrow> a \<in> set (get_list (AggregateClusterPermissions groups) url)"
    by (auto simp: CanPerformAction_def get_list_def list_ex_iff split: option.splits)
  then show ?thesis by (simp add: set_AggregateClusterPermissions)
qed

text \<open>
  The interface the checks rely on: a permission test that grants nothing to no group and never takes
  a permission away when groups are added. What follows for the quantified checks on jobs is proved
  once.
\<close>

locale permission_test =
  fixes can :: "'g list \<Rightarrow> string \<Rightarrow> string \<Rightarrow> bool"
  assumes can_Nil: "\<not> can [] url a"
    and can_mono: "set gs \<subseteq> set hs \<Longrightarrow> can gs url a \<Longrightarrow> can hs url a"
begin

definition on_some :: "'g list \<Rightarrow> string \<Rightarrow> string list \<Rightarrow> bool" where
  "on_some gs a urls \<longleftrightarrow> list_ex (\<lambda>url. url \<noteq> '''' \<and> can gs url a) urls"

definition on_all :: "'g list \<Rightarrow> string \<Rightarrow> string list \<Rightarrow> bool" where
  "on_all gs a urls \<longleftrightarrow> list_all (\<lambda>url. url = '''' \<or> can gs url a) urls"

lemma on_some_Nil: "\<not> on_some [] a urls"
  by (simp add: on_some_def list_ex_iff can_Nil)

lemma on_some_mono: "set gs \<subseteq> set hs \<Longrightarrow> on_some gs a urls \<Longrightarrow> on_some hs a urls"
  using can_mono by (auto simp: on_some_def list_ex_iff)

lemma on_all_mono: "set gs \<subseteq> set hs \<Longrightarrow> on_all gs a urls \<Longrightarrow> on_all hs a urls"
  using can_mono by (auto simp: on_all_def list_all_iff)

lemma on_all_imp_some: "on_all gs a urls \<Longrightarrow> \<exists>url \<in> set urls. url \<noteq> '''' \<Longrightarrow> on_some gs a urls"
  by (auto simp: on_all_def on_some_def list_all_iff list_ex_iff)

end

interpretation grp: permission_test CanPerformAction
  by unfold_locales (auto simp: CanPerformAction_iff granted_def)

section \<open>Properties\<close>

text \<open>
  A user may perform an action on a cluster exactly when one of the groups lists the action for the
  cluster's API address; the deduplicating aggregation neither adds nor loses a permission.
\<close>

theorem CanPerformAction_union:
  "(CanPerformAction groups url a \<longleftrightarrow>
      (\<exists>g \<in> set groups. \<exists>acts. (url, acts) \<in> set (ug_ClusterPermissions g) \<and> a \<in> set acts)) \<and>
   (a \<in> set (get_list (AggregateClusterPermissions groups) url) \<longleftrightarrow> CanPerformAction groups url a) \<and>
   (hasAction (get_list (AggregateClusterPermissions groups) url) a \<longleftrightarrow> CanPerformAction groups url a)"
  unfolding hasAction_iff set_AggregateClusterPermissions CanPerformAction_iff granted_def by blast

lemma check_clusters_None:
  "check_clusters userID perms urls ts = None \<longleftrightarrow>
     (\<forall>(p, c) \<in> set ts. \<exists>url. map_of urls c = Some url \<and> hasAction (get_list perms url) ActionRun)"
  by (induction userID perms urls ts rule: check_clusters.induct) (auto split: option.splits)

lemma target_pairs_iff: "(p, c) \<in> set (target_pairs tcs) \<longleftrightarrow> (\<exists>cs. (p, cs) \<in> set tcs \<and> c \<in> set cs)"
  by (auto simp: target_pairs_def)

text \<open>The map of API addresses is keyed by cluster name alone; with unique names it is the right one.\<close>

definition request_clusters :: "KrknTargetRequest \<Rightarrow> ClusterTarget list" where
  "request_clusters tr = concat (map snd (trs_TargetData (tr_Status tr)))"

lemma buildClusterAPIURLMap_unique:
  assumes "distinct (map ct_ClusterName (request_clusters tr))" and "t \<in> set (request_clusters tr)"
  shows "map_of (buildClusterAPIURLMap tr) (ct_ClusterName t) = Some (ct_ClusterAPIURL t)"
proof -
  have f: "map_of (fold (\<lambda>c m. AList.update (ct_ClusterName c) (ct_ClusterAPIURL c) m) cs m) n =
      (case List.find (\<lambda>c. ct_ClusterName c = n) cs of Some c \<Rightarrow> Some (ct_ClusterAPIURL c) | None \<Rightarrow> map_of m n)"
    if "distinct (map ct_ClusterName cs)" for cs m n
    using that
  proof (induction cs arbitrary: m)
    case (Cons c cs)
    have "List.find (\<lambda>c'. ct_ClusterName c' = ct_ClusterName c) cs = None"
      using Cons.prems by (auto simp: find_None_iff image_iff)
    with Cons show ?case by (auto simp: alist.get_put split: option.splits)
  qed simp
  have "List.find (\<lambda>c. ct_ClusterName c = ct_ClusterName t) cs = Some t"
    if "distinct (map ct_ClusterName cs)" "t \<in> set cs" for cs
    using that by (induction cs) (auto simp: image_iff)
  with assms f[OF assms(1), of "[]" "ct_ClusterName t"] show ?thesis
    by (simp add: buildClusterAPIURLMap_def request_clusters_def)
qed

text \<open>Every address in the map is the one of some cluster of that name.\<close>

lemma buildClusterAPIURLMap_mem:
  assumes "map_of (buildClusterAPIURLMap tr) n = Some url"
  shows "\<exists>t \<in> set (request_clusters tr). ct_ClusterName t = n \<and> ct_ClusterAPIURL t = url"
proof -
  have "map_of (fold (\<lambda>c m. AList.update (ct_ClusterName c) (ct_ClusterAPIURL c) m) cs m) n = Some url \<Longrightarrow>
      map_of m n = Some url \<or> (\<exists>t \<in> set cs. ct_ClusterName t = n \<and> ct_ClusterAPIURL t = url)" for cs m
  proof (induction cs arbitrary: m)
    case (Cons c cs)
    then show ?case
      using Cons.IH[of "AList.update (ct_ClusterName c) (ct_ClusterAPIURL c) m"] by (auto simp: alist.get_put split: if_splits)
  qed simp
  from this[of "request_clusters tr" "[]"] show ?thesis using assms by (simp add: buildClusterAPIURLMap_def request_clusters_def)
qed

text \<open>
  What a permission to start a run means, without the code's tables: the groups of the user can be read, there is at least one, and
  for every cluster name of the request one of the clusters of that name in the target request carries the run permission.
\<close>

definition may_run_on :: "auth_client \<Rightarrow> string \<Rightarrow> string \<Rightarrow> target_clusters \<Rightarrow> KrknTargetRequest \<Rightarrow> bool" where
  "may_run_on C userID ns targetClusters tr \<longleftrightarrow>
    (\<exists>groups. GetUserGroups C userID ns = Inr groups \<and> groups \<noteq> [] \<and>
       (\<forall>(p, cs) \<in> set targetClusters. \<forall>c \<in> set cs.
          \<exists>t \<in> set (request_clusters tr). ct_ClusterName t = c \<and> CanPerformAction groups (ct_ClusterAPIURL t) ActionRun))"

lemma ValidateScenarioRunAccess_None:
  "ValidateScenarioRunAccess C userID ns targetClusters tr = None \<longleftrightarrow>
    (\<exists>groups. GetUserGroups C userID ns = Inr groups \<and> groups \<noteq> [] \<and>
       (\<forall>(p, cs) \<in> set targetClusters. \<forall>c \<in> set cs.
          \<exists>url. map_of (buildClusterAPIURLMap tr) c = Some url \<and> CanPerformAction groups url ActionRun))"
proof -
  have "check_clusters userID (AggregateClusterPermissions groups) urls (target_pairs targetClusters) = None \<longleftrightarrow>
      (\<forall>(p, cs) \<in> set targetClusters. \<forall>c \<in> set cs. \<exists>url. map_of urls c = Some url \<and> CanPerformAction groups url ActionRun)" for groups urls
    unfolding check_clusters_None
    by (fastforce simp: target_pairs_iff hasAction_iff set_AggregateClusterPermissions CanPerformAction_iff)
  then show ?thesis by (auto simp: ValidateScenarioRunAccess_def split: sum.splits)
qed

lemma ValidateScenarioRunAccess_may_run:
  "ValidateScenarioRunAccess C userID ns targetClusters tr = None \<Longrightarrow> may_run_on C userID ns targetClusters tr"
  unfolding ValidateScenarioRunAccess_None may_run_on_def by (fast dest: buildClusterAPIURLMap_mem)

text \<open>
  C14. Access control of scenario runs. When cluster names are unique across the providers of the target request, validation accepts a
  request exactly when the groups of the user can be read, there is at least one, and every cluster name of the request is the name of a cluster of
  the target request whose API address carries the run permission in some group. (The provider under which the request names a cluster is not compared;
  what acceptance means for duplicate names is in \<open>ValidateScenarioRunAccess_may_run\<close> and \<open>ValidateScenarioRunAccess_provider_confusion\<close>.)
\<close>

theorem ValidateScenarioRunAccess_exact:
  assumes "distinct (map ct_ClusterName (request_clusters tr))"
  shows "ValidateScenarioRunAccess C userID ns targetClusters tr = None \<longleftrightarrow>
    (\<exists>groups. GetUserGroups C userID ns = Inr groups \<and> groups \<noteq> [] \<and>
       (\<forall>(p, cs) \<in> set targetClusters. \<forall>c \<in> set cs. \<exists>t \<in> set (request_clusters tr). ct_ClusterName t = c \<and>
          (\<exists>g \<in> set groups. \<exists>acts. (ct_ClusterAPIURL t, acts) \<in> set (ug_ClusterPermissions g) \<and> ''run'' \<in> set acts)))"
proof -
  have "(\<exists>url. map_of (buildClusterAPIURLMap tr) c = Some url \<and> CanPerformAction groups url ActionRun) \<longleftrightarrow>
      (\<exists>t \<in> set (request_clusters tr). ct_ClusterName t = c \<and> granted groups (ct_ClusterAPIURL t) ''run'')" for c groups
    using buildClusterAPIURLMap_mem buildClusterAPIURLMap_unique[OF assms] by (fastforce simp: CanPerformAction_iff ActionRun_def)
  then show ?thesis unfolding ValidateScenarioRunAccess_None granted_def by simp
qed

text \<open>A user in one group, and an API that knows both.\<close>

definition sample_group :: "(string, string list) gomap \<Rightarrow> KrknUserGroup" where
  "sample_group perms = \<lparr>ug_meta = meta_of ''ops'' ''krkn'' [], ug_Name = ''ops'', ug_Description = '''', ug_ClusterPermissions = perms\<rparr>"

definition sample_auth_client :: "(string, string list) gomap \<Rightarrow> KrknTargetRequest \<Rightarrow> auth_client" where
  "sample_auth_client perms tr = \<lparr>ac_Namespace = ''krkn'',
     ac_GetUser = (\<lambda>ns n. if n = ''krknuser-a-b-x-io'' then Inr \<lparr>user_meta = meta_of n ns [(GroupLabelKey ''ops'', ''true'')],
       user_Spec = \<lparr>us_UserID = ''a.b@x.io'', us_Name = ''A'', us_Surname = ''B'', us_Organization = '''', us_Role = ''user'', us_PasswordSecretRef = ''s''\<rparr>,
       user_Active = True, user_Created = 0, user_LastLogin = 0\<rparr> else Inl NotFound),
     ac_GetGroup = (\<lambda>ns n. if n = ''ops'' then Inr (sample_group perms) else Inl NotFound),
     ac_GetTargetRequest = (\<lambda>ns n. Inr tr), ac_ListUsers = (\<lambda>ns ls. Inr [])\<rparr>"

definition two_provider_request :: KrknTargetRequest where
  "two_provider_request = \<lparr>tr_meta = meta_of ''req-1'' ''krkn'' [], tr_UUID = ''req-1'',
     tr_Status = \<lparr>trs_Status = ''Completed'', trs_TargetData =
       [(''p1'', [\<lparr>ct_ClusterName = ''c1'', ct_ClusterAPIURL = ''https://p1''\<rparr>]),
        (''p2'', [\<lparr>ct_ClusterName = ''c1'', ct_ClusterAPIURL = ''https://p2''\<rparr>])], trs_Completed = None\<rparr>\<rparr>"

definition unique_names_request :: KrknTargetRequest where
  "unique_names_request = two_provider_request\<lparr>tr_Status := (tr_Status two_provider_request)\<lparr>trs_TargetData :=
     [(''p1'', [\<lparr>ct_ClusterName = ''c1'', ct_ClusterAPIURL = ''https://p1''\<rparr>]),
      (''p2'', [\<lparr>ct_ClusterName = ''c2'', ct_ClusterAPIURL = ''https://p2''\<rparr>])]\<rparr>\<rparr>"

text \<open>With the permission on \<open>c2\<close> only, a run on \<open>c2\<close> is accepted and a run on both clusters is not.\<close>

theorem ValidateScenarioRunAccess_exact_witness:
  "let C = sample_auth_client [(''https://p2'', [''view'', ''run''])] unique_names_request
   in ValidateScenarioRunAccess C ''a.b@x.io'' ''krkn'' [(''p2'', [''c2''])] unique_names_request = None \<and>
      ValidateScenarioRunAccess C ''a.b@x.io'' ''krkn'' [(''p1'', [''c1'']), (''p2'', [''c2''])] unique_names_request \<noteq> None"
proof -
  let ?C = "sample_auth_client [(''https://p2'', [''view'', ''run''])] unique_names_request"
  let ?g = "sample_group [(''https://p2'', [''view'', ''run''])]"
  have d: "distinct (map ct_ClusterName (request_clusters unique_names_request))" by code_simp
  have g: "GetUserGroups ?C ''a.b@x.io'' ''krkn'' = Inr [?g]" by code_simp
  have c: "request_clusters unique_names_request = [\<lparr>ct_ClusterName = ''c1'', ct_ClusterAPIURL = ''https://p1''\<rparr>,
      \<lparr>ct_ClusterName = ''c2'', ct_ClusterAPIURL = ''https://p2''\<rparr>]" by code_simp
  show ?thesis
    unfolding Let_def ValidateScenarioRunAccess_exact[OF d] g c by (simp add: sample_group_def)
qed

text \<open>
  Without unique names the check can look at the wrong cluster: here the user may run scenarios on
  the cluster \<open>c1\<close> of \<open>p2\<close> only, and is allowed to run on the cluster \<open>c1\<close> of \<open>p1\<close>.
\<close>

theorem ValidateScenarioRunAccess_provider_confusion:
  "\<exists>C userID tr t groups. GetUserGroups C userID ''krkn'' = Inr groups \<and>
     t \<in> set (get_list (trs_TargetData (tr_Status tr)) ''p1'') \<and>
     \<not> CanPerformAction groups (ct_ClusterAPIURL t) ActionRun \<and>
     ValidateScenarioRunAccess C userID ''krkn'' [(''p1'', [ct_ClusterName t])] tr = None"
proof -
  let ?C = "sample_auth_client [(''https://p2'', [''run''])] two_provider_request" and ?u = "''a.b@x.io''"
    and ?t = "\<lparr>ct_ClusterName = ''c1'', ct_ClusterAPIURL = ''https://p1''\<rparr>"
  have "GetUserGroups ?C ?u ''krkn'' = Inr [sample_group [(''https://p2'', [''run''])]]"
    "?t \<in> set (get_list (trs_TargetData (tr_Status two_provider_request)) ''p1'')"
    "\<not> CanPerformAction [sample_group [(''https://p2'', [''run''])]] (ct_ClusterAPIURL ?t) ActionRun"
    "ValidateScenarioRunAccess ?C ?u ''krkn'' [(''p1'', [ct_ClusterName ?t])] two_provider_request = None"
    by code_simp+
  then show ?thesis by blast
qed

lemma checkScenarioRunGroupAccess_some:
  "checkScenarioRunGroupAccess C userID run a =
    (case GetUserGroups C userID (ac_Namespace C) of Inl e \<Rightarrow> Inl e
     | Inr groups \<Rightarrow> Inr (grp.on_some groups a (map ClusterAPIURL (ClusterJobs (sr_Status run)))))"
  using grp.can_Nil
  by (auto simp: checkScenarioRunGroupAccess_def grp.on_some_def list_ex_iff split: sum.splits)

text \<open>
  Opening a scenario run: an authenticated user gets through exactly as admin or with the view
  permission on the cluster of some job, and the listing shows an authenticated user exactly the runs
  that can be opened (an admin sees all; without claims nothing can be opened).
\<close>

theorem checkScenarioRunAccess_iff:
  "(checkScenarioRunAccess C claims run = None \<longleftrightarrow>
      (\<exists>c. claims = Some c \<and> (cl_Role c = ''admin'' \<or>
         (\<exists>groups. GetUserGroups C (cl_UserID c) (ac_Namespace C) = Inr groups \<and>
            (\<exists>job \<in> set (ClusterJobs (sr_Status run)). ClusterAPIURL job \<noteq> '''' \<and>
               CanPerformAction groups (ClusterAPIURL job) ActionView))))) \<and>
   set (filterScenarioRunsByGroupPermission C runs (Some cl)) = {r \<in> set runs. checkScenarioRunAccess C (Some cl) r = None}"
proof -
  have some: "grp.on_some groups a (map ClusterAPIURL js) \<longleftrightarrow> (\<exists>job \<in> set js. ClusterAPIURL job \<noteq> '''' \<and> CanPerformAction groups (ClusterAPIURL job) a)"
    for groups a js by (auto simp: grp.on_some_def list_ex_iff)
  have acc: "checkScenarioRunAccess C (Some c) r = None \<longleftrightarrow> cl_Role c = ''admin'' \<or> checkScenarioRunGroupAccess C (cl_UserID c) r ActionView = Inr True" for c r
    by (auto simp: checkScenarioRunAccess_def checkScenarioRunAccessWithAction_def IsAdmin_def
        checkScenarioRunGroupAccess_some grp.on_some_def split: sum.splits)
  have "checkScenarioRunGroupAccess C u r a = Inr True \<longleftrightarrow> (\<exists>groups. GetUserGroups C u (ac_Namespace C) = Inr groups \<and>
      (\<exists>job \<in> set (ClusterJobs (sr_Status r)). ClusterAPIURL job \<noteq> '''' \<and> CanPerformAction groups (ClusterAPIURL job) a))" for u r a
    by (auto simp: checkScenarioRunGroupAccess_some some split: sum.splits)
  with acc have "checkScenarioRunAccess C claims run = None \<longleftrightarrow> (\<exists>c. claims = Some c \<and> (cl_Role c = ''admin'' \<or>
         (\<exists>groups. GetUserGroups C (cl_UserID c) (ac_Namespace C) = Inr groups \<and>
            (\<exists>job \<in> set (ClusterJobs (sr_Status run)). ClusterAPIURL job \<noteq> '''' \<and>
               CanPerformAction groups (ClusterAPIURL job) ActionView))))"
    by (cases claims) (simp_all add: checkScenarioRunAccess_def checkScenarioRunAccessWithAction_def)
  moreover have "set (filterScenarioRunsByGroupPermission C runs (Some cl)) = {r \<in> set runs. checkScenarioRunAccess C (Some cl) r = None}"
    unfolding acc by (auto simp: filterScenarioRunsByGroupPermission_def)
  ultimately show ?thesis by blast
qed

lemma checkScenarioRunCancelAccess_all:
  "checkScenarioRunCancelAccess C claims userID run = Inr True \<longleftrightarrow> IsAdmin claims \<or>
     (\<exists>groups. GetUserGroups C userID (ac_Namespace C) = Inr groups \<and> groups \<noteq> [] \<and>
        grp.on_all groups ActionCancel (map ClusterAPIURL (ClusterJobs (sr_Status run))))"
  by (auto simp: checkScenarioRunCancelAccess_def grp.on_all_def list_all_iff split: sum.splits)

text \<open>
  Joining further groups never takes access away: whoever may view or cancel a run, or see a job,
  still may when the API reports more groups for the user.
\<close>

theorem more_groups_keep_access:
  assumes "GetUserGroups C u (ac_Namespace C) = Inr gs" and "GetUserGroups C' u (ac_Namespace C') = Inr hs"
    and "set gs \<subseteq> set hs"
  shows "(checkScenarioRunGroupAccess C u run a = Inr True \<longrightarrow> checkScenarioRunGroupAccess C' u run a = Inr True) \<and>
    (checkScenarioRunCancelAccess C claims u run = Inr True \<longrightarrow> checkScenarioRunCancelAccess C' claims u run = Inr True) \<and>
    set (filterJobsByPermission js gs a) \<subseteq> set (filterJobsByPermission js hs a)"
proof -
  have "checkScenarioRunGroupAccess C' u run a = Inr True" if "checkScenarioRunGroupAccess C u run a = Inr True"
    using that assms grp.on_some_mono[OF assms(3)] by (simp add: checkScenarioRunGroupAccess_some)
  moreover have "checkScenarioRunCancelAccess C' claims u run = Inr True" if "checkScenarioRunCancelAccess C claims u run = Inr True"
    using that assms grp.on_all_mono[OF assms(3)] unfolding checkScenarioRunCancelAccess_all by auto
  moreover have "set (filterJobsByPermission js gs a) \<subseteq> set (filterJobsByPermission js hs a)"
    using grp.can_mono[OF assms(3)] by (auto simp: filterJobsByPermission_def)
  ultimately show ?thesis by blast
qed

definition job_at :: "string \<Rightarrow> ClusterJobStatus" where
  "job_at url = \<lparr>ProviderName = ''p1'', ClusterName = ''c1'', ClusterAPIURL = url, JobID = ''j'', PodName = ''p'', ContainerImage = '''',
     Phase = ''Running'', StartTime = None, CompletionTime = None, Message = '''', RetryCount = 0, MaxRetries = 0,
     CancelRequested = False, LastRetryTime = None, FailureReason = ''''\<rparr>"

theorem more_groups_keep_access_witness:
  "set (filterJobsByPermission [job_at ''https://p2''] [sample_group [(''https://p2'', [''view''])]] ''view'') \<subseteq>
     set (filterJobsByPermission [job_at ''https://p2''] [sample_group [], sample_group [(''https://p2'', [''view''])]] ''view'')"
proof -
  let ?C = "sample_auth_client [(''https://p2'', [''view''])] two_provider_request" and ?g = "sample_group [(''https://p2'', [''view''])]"
  let ?u = "\<lparr>user_meta = meta_of ''krknuser-a-b-x-io'' ''krkn'' [(GroupLabelKey ''none'', ''true''), (GroupLabelKey ''ops'', ''true'')],
       user_Spec = \<lparr>us_UserID = ''a.b@x.io'', us_Name = ''A'', us_Surname = ''B'', us_Organization = '''', us_Role = ''user'', us_PasswordSecretRef = ''s''\<rparr>,
       user_Active = True, user_Created = 0, user_LastLogin = 0\<rparr>"
  let ?D = "?C\<lparr>ac_GetUser := \<lambda>_ _. Inr ?u, ac_GetGroup := \<lambda>_ n. if n = ''ops'' then Inr ?g else Inr (sample_group [])\<rparr>"
  have "GetUserGroups ?C ''a.b@x.io'' (ac_Namespace ?C) = Inr [?g]" "GetUserGroups ?D ''a.b@x.io'' (ac_Namespace ?D) = Inr [sample_group [], ?g]"
    by code_simp+
  from more_groups_keep_access[OF this] show ?thesis by auto
qed

text \<open>
  Cancelling skips jobs without an API address, viewing does not: a run all of whose jobs lack the
  address can be cancelled by any member of any group, who cannot even view it.
\<close>

theorem cancel_without_addresses:
  assumes "GetUserGroups C (cl_UserID c) (ac_Namespace C) = Inr groups" and "groups \<noteq> []" and "cl_Role c \<noteq> ''admin''"
    and "\<forall>job \<in> set (ClusterJobs (sr_Status run)). ClusterAPIURL job = ''''"
  shows "checkScenarioRunCancelAccess C (Some c) (cl_UserID c) run = Inr True \<and> checkScenarioRunAccess C (Some c) run \<noteq> None"
proof -
  have "checkScenarioRunGroupAccess C (cl_UserID c) run ActionView = Inr False"
    using assms by (auto simp: checkScenarioRunGroupAccess_def list_ex_iff)
  with assms show ?thesis
    by (auto simp: checkScenarioRunCancelAccess_def checkScenarioRunAccess_def checkScenarioRunAccessWithAction_def
        IsAdmin_def list_all_iff)
qed

theorem cancel_without_addresses_witness:
  "checkScenarioRunCancelAccess (sample_auth_client [] two_provider_request)
     (Some \<lparr>cl_UserID = ''a.b@x.io'', cl_Role = ''user'', cl_Name = '''', cl_Surname = '''', cl_Organization = ''''\<rparr>) ''a.b@x.io''
     (blank_run [job_at '''']) = Inr True"
proof -
  let ?C = "sample_auth_client [] two_provider_request"
  have "GetUserGroups ?C ''a.b@x.io'' (ac_Namespace ?C) = Inr [sample_group []]" by code_simp
  from cancel_without_addresses[of ?C "\<lparr>cl_UserID = ''a.b@x.io'', cl_Role = ''user'', cl_Name = '''', cl_Surname = '''', cl_Organization = ''''\<rparr>"]
    this show ?thesis by (simp add: job_at_def blank_run_def)
qed

end
