(* ===== verification/Kubeconfig.thy ===== *)
theory Kubeconfig
  imports Managed_Clusters Go_Std
begin

text \<open>
  Generation, inspection and storage of kubeconfigs (\<open>src/internal/kubeconfig/generator.go\<close>). Reading and
  writing the YAML is \<open>clientcmd\<close> of client-go and a parameter.
\<close>

record kube_cluster =
  kc_Server :: string
  kc_InsecureSkipTLSVerify :: bool
  kc_CertificateAuthorityData :: string

record kube_auth =
  ka_Token :: string
  ka_Username :: string
  ka_Password :: string

record kube_context =
  kx_Cluster :: string
  kx_AuthInfo :: string

record kube_config =
  kcfg_Clusters :: "(string, kube_cluster) gomap"
  kcfg_AuthInfos :: "(string, kube_auth) gomap"
  kcfg_Contexts :: "(string, kube_context) gomap"
  kcfg_CurrentContext :: string

record clientcmd =
  cc_Write :: "kube_config \<Rightarrow> string + string"
  cc_Load :: "string \<Rightarrow> string + kube_config"

datatype kube_error =
    WriteFailed string
  | NotBase64
  | LoadFailed string
  | NoCurrentContext
  | ContextMissing string
  | ClusterNotInConfig string
  | ServerEmpty
  | NoClusters
  | NoUsers
  | NoContexts
  | SecretDataInvalid
  | KubeconfigEmpty

definition config_for :: "string \<Rightarrow> string \<Rightarrow> string \<Rightarrow> bool \<Rightarrow> kube_auth \<Rightarrow> kube_config" where
  "config_for clusterName apiURL caBundle insecureSkipTLS auth =
     \<lparr>kcfg_Clusters = [(clusterName, \<lparr>kc_Server = apiURL, kc_InsecureSkipTLSVerify = insecureSkipTLS,
        kc_CertificateAuthorityData = (if caBundle \<noteq> '''' \<and> \<not> insecureSkipTLS then caBundle else '''')\<rparr>)],
      kcfg_AuthInfos = [(clusterName @ ''-user'', auth)],
      kcfg_Contexts = [(clusterName @ ''-context'', \<lparr>kx_Cluster = clusterName, kx_AuthInfo = clusterName @ ''-user''\<rparr>)],
      kcfg_CurrentContext = clusterName @ ''-context''\<rparr>"

definition write_config :: "clientcmd \<Rightarrow> kube_config \<Rightarrow> kube_error + string" where
  "write_config K config = (case cc_Write K config of Inl e \<Rightarrow> Inl (WriteFailed e) | Inr bytes \<Rightarrow> Inr (b64_encode bytes))"

definition GenerateFromToken :: "clientcmd \<Rightarrow> string \<Rightarrow> string \<Rightarrow> string \<Rightarrow> string \<Rightarrow> bool \<Rightarrow> kube_error + string" where
  "GenerateFromToken K clusterName apiURL caBundle token insecureSkipTLS =
     write_config K (config_for clusterName apiURL caBundle insecureSkipTLS
       \<lparr>ka_Token = token, ka_Username = '''', ka_Password = ''''\<rparr>)"

definition GenerateFromCredentials ::
  "clientcmd \<Rightarrow> string \<Rightarrow> string \<Rightarrow> string \<Rightarrow> string \<Rightarrow> string \<Rightarrow> bool \<Rightarrow> kube_error + string" where
  "GenerateFromCredentials K clusterName apiURL caBundle username password insecureSkipTLS =
     write_config K (config_for clusterName apiURL caBundle insecureSkipTLS
       \<lparr>ka_Token = '''', ka_Username = username, ka_Password = password\<rparr>)"

definition load_config :: "clientcmd \<Rightarrow> string \<Rightarrow> kube_error + kube_config" where
  "load_config K kubeconfigBase64 =
    (case b64_decode kubeconfigBase64 of
       None \<Rightarrow> Inl NotBase64
     | Some bytes \<Rightarrow> (case cc_Load K bytes of Inl e \<Rightarrow> Inl (LoadFailed e) | Inr config \<Rightarrow> Inr config))"

definition ExtractAPIURL :: "clientcmd \<Rightarrow> string \<Rightarrow> kube_error + string" where
  "ExtractAPIURL K kubeconfigBase64 =
    (case load_config K kubeconfigBase64 of
       Inl e \<Rightarrow> Inl e
     | Inr config \<Rightarrow>
         if kcfg_CurrentContext config = '''' then Inl NoCurrentContext
         else case map_of (kcfg_Contexts config) (kcfg_CurrentContext config) of
             None \<Rightarrow> Inl (ContextMissing (kcfg_CurrentContext config))
           | Some ctx \<Rightarrow>
             (case map_of (kcfg_Clusters config) (kx_Cluster ctx) of
                None \<Rightarrow> Inl (ClusterNotInConfig (kx_Cluster ctx))
              | Some cluster \<Rightarrow> if kc_Server cluster = '''' then Inl ServerEmpty else Inr (kc_Server cluster)))"

definition Validate :: "clientcmd \<Rightarrow> string \<Rightarrow> kube_error option" where
  "Validate K kubeconfigBase64 =
    (case load_config K kubeconfigBase64 of
       Inl e \<Rightarrow> Some e
     | Inr config \<Rightarrow>
         if kcfg_Clusters config = [] then Some NoClusters
         else if kcfg_AuthInfos config = [] then Some NoUsers
         else if kcfg_Contexts config = [] then Some NoContexts
         else if kcfg_CurrentContext config = '''' then Some NoCurrentContext
         else if map_of (kcfg_Contexts config) (kcfg_CurrentContext config) = None
         then Some (ContextMissing (kcfg_CurrentContext config))
         else None)"

section \<open>Storage in a secret\<close>

definition MarshalSecretData :: "string \<Rightarrow> string" where
  "MarshalSecretData kubeconfigBase64 = write_object quoted [(''kubeconfig'', kubeconfigBase64)]"

definition UnmarshalSecretData :: "string \<Rightarrow> kube_error + string" where
  "UnmarshalSecretData secretBytes =
    (case unmarshal (into_struct ''kubeconfig'' into_string) '''' secretBytes of
       None \<Rightarrow> Inl SecretDataInvalid
     | Some k \<Rightarrow> if k = '''' then Inl KubeconfigEmpty else Inr k)"

lemma valid_utf8_kubeconfig: "valid_utf8 ''kubeconfig''"
  by (rule valid_utf8_ascii) code_simp

interpretation secret_data: json_codec "\<lambda>k. write_object quoted [(''kubeconfig'', k)]"
  "into_struct ''kubeconfig'' into_string" "''''" valid_utf8 id 1
  using str.struct_codec[OF valid_utf8_kubeconfig] by simp

lemma UnmarshalSecretData_Marshal:
  "valid_utf8 k \<Longrightarrow> k \<noteq> '''' \<Longrightarrow> UnmarshalSecretData (MarshalSecretData k) = Inr k"
  using secret_data.unmarshal_enc[of k]
  by (simp add: UnmarshalSecretData_def MarshalSecretData_def)

text \<open>Base64 text is ASCII.\<close>

lemma b64_char_ascii: "n < 64 \<Longrightarrow> code (b64_char n) < 0x80"
proof -
  have "list_all (\<lambda>c. code c < 0x80) b64_alphabet" by code_simp
  then show "n < 64 \<Longrightarrow> code (b64_char n) < 0x80" using b64_char_in by (auto simp: list_all_iff)
qed

lemma b64_encode_ascii: "list_all (\<lambda>c. code c < 0x80) (b64_encode s)"
proof (induction s rule: b64_encode.induct)
  case (2 a)
  have "code a div 4 < 64" "code a mod 4 * 16 < 64" using code_less[of a] by auto
  then show ?case by (simp add: b64_char_ascii) code_simp
next
  case (3 a b)
  have "code a div 4 < 64" "code a mod 4 * 16 + code b div 16 < 64" "code b mod 16 * 4 < 64"
    using code_less[of a] code_less[of b] by linarith+
  then show ?case by (simp add: b64_char_ascii) code_simp
next
  case (4 a b c s)
  have "code a div 4 < 64" "code a mod 4 * 16 + code b div 16 < 64" "code b mod 16 * 4 + code c div 64 < 64" "code c mod 64 < 64"
    using code_less[of a] code_less[of b] code_less[of c] by linarith+
  with 4 show ?case by (simp add: b64_char_ascii)
qed simp

lemma b64_encode_utf8 [simp]: "valid_utf8 (b64_encode s)"
  by (rule valid_utf8_ascii) (rule b64_encode_ascii)

text \<open>
  The kubeconfigs the operator writes for its targets are good ones: when \<open>clientcmd\<close> reads back
  the configuration it wrote, a generated kubeconfig passes \<open>Validate\<close>, its API address is the one it was
  generated for, and storing it in a secret and reading it from there gives it back.
\<close>

theorem generated_kubeconfig:
  assumes "GenerateFromToken K name url ca token insecure = Inr k \<or>
      GenerateFromCredentials K name url ca user password insecure = Inr k"
    and "\<And>config bytes. cc_Write K config = Inr bytes \<Longrightarrow> cc_Load K bytes = Inr config"
    and "url \<noteq> ''''" and "k \<noteq> ''''"
  shows "Validate K k = None \<and> ExtractAPIURL K k = Inr url \<and> UnmarshalSecretData (MarshalSecretData k) = Inr k"
proof -
  obtain auth bytes where w: "cc_Write K (config_for name url ca insecure auth) = Inr bytes" "k = b64_encode bytes"
    using assms(1)
    by (auto simp: GenerateFromToken_def GenerateFromCredentials_def write_config_def split: sum.splits)
  then have "load_config K k = Inr (config_for name url ca insecure auth)"
    using assms(2) by (simp add: load_config_def)
  then have "Validate K k = None" "ExtractAPIURL K k = Inr url"
    using assms(3) by (simp_all add: Validate_def ExtractAPIURL_def config_for_def)
  moreover have "UnmarshalSecretData (MarshalSecretData k) = Inr k"
    using w(2) assms(4) by (simp add: UnmarshalSecretData_Marshal)
  ultimately show ?thesis by blast
qed

text \<open>A client that knows one configuration.\<close>

definition sample_kube_config :: kube_config where
  "sample_kube_config = config_for ''c1'' ''https://c1:6443'' '''' True \<lparr>ka_Token = ''t'', ka_Username = '''', ka_Password = ''''\<rparr>"

definition sample_clientcmd :: clientcmd where
  "sample_clientcmd =
     \<lparr>cc_Write = (\<lambda>c. if c = sample_kube_config then Inr ''apiVersion: v1'' else Inl ''unsupported''),
      cc_Load = (\<lambda>s. if s = ''apiVersion: v1'' then Inr sample_kube_config else Inl ''cannot parse'')\<rparr>"

theorem generated_kubeconfig_witness:
  "\<exists>k. GenerateFromToken sample_clientcmd ''c1'' ''https://c1:6443'' '''' ''t'' True = Inr k \<and>
     Validate sample_clientcmd k = None \<and> ExtractAPIURL sample_clientcmd k = Inr ''https://c1:6443'' \<and>
     UnmarshalSecretData (MarshalSecretData k) = Inr k"
proof -
  let ?k = "b64_encode ''apiVersion: v1''"
  have g: "GenerateFromToken sample_clientcmd ''c1'' ''https://c1:6443'' '''' ''t'' True = Inr ?k"
    by (simp add: GenerateFromToken_def write_config_def sample_clientcmd_def sample_kube_config_def)
  moreover have "cc_Write sample_clientcmd config = Inr bytes \<Longrightarrow> cc_Load sample_clientcmd bytes = Inr config" for config bytes
    by (auto simp: sample_clientcmd_def split: if_splits)
  moreover have "?k \<noteq> ''''" by code_simp
  ultimately show ?thesis
    using generated_kubeconfig[OF disjI1[OF g]] by simp
qed

end
