(* ===== verification/Terminal_API.thy ===== *)
theory Terminal_API
  imports Terminal Group_Auth Kubeconfig Scenario_Resources
begin

text \<open>
  The terminal of the REST API: \<open>src/internal/api/terminal_handlers.go\<close>, \<open>terminal_types.go\<close>,
  \<open>terminal_available_commands.go\<close> and the kubeconfig lookup of \<open>kubeconfig_helpers.go\<close>. The handler decodes
  the request, checks the permission on the cluster, looks the kubeconfig up, parses and validates the
  command and sends it to the data provider. The Kubernetes API only reads here and gives one answer per
  object; the data provider is a call that changes the world.
\<close>

section \<open>Requests and the client\<close>

record TerminalRequest =
  trq_ClusterID :: string
  trq_UUID :: string
  trq_Command :: string

record TerminalResponse =
  trp_StdoutBase64 :: string
  trp_StderrBase64 :: string
  trp_ExitCode :: int
  trp_Error :: string

record ExecuteKubectlRequest =
  ek_KubeconfigBase64 :: string
  ek_Command :: string
  ek_Subcommand :: string
  ek_Args :: "string list"
  ek_Flags :: "(string, string) gomap"
  ek_BooleanFlags :: "string list"
  ek_TimeoutSeconds :: int

record ExecuteKubectlResponse =
  er_StdoutBase64 :: string
  er_StderrBase64 :: string
  er_ExitCode :: int
  er_Error :: string

datatype lookup_error =
    TargetFetchFailed api_error
  | SecretFetchFailed api_error
  | KubeconfigNotInSecret
  | KubeconfigUnreadable kube_error
  | ManagedClustersNotInSecret
  | ManagedClustersUnreadable
  | AcmNotFound
  | ClusterNotInAcm string
  | RequestFetchFailed api_error
  | ClusterNotInRequest string
  | InsufficientParameters

record 'w terminal_client =
  tm_Namespace :: string
  tm_Auth :: auth_client
  tm_GetOperatorTarget :: "string \<Rightarrow> string \<Rightarrow> api_error + KrknOperatorTarget"
  tm_GetSecret :: "string \<Rightarrow> string \<Rightarrow> api_error + Secret"
  tm_ExecuteKubectl :: "ExecuteKubectlRequest \<Rightarrow> 'w \<Rightarrow> (string + ExecuteKubectlResponse) \<times> 'w"
  tm_LookupText :: "lookup_error \<Rightarrow> string"
  tm_ParseText :: "parse_error \<Rightarrow> string"

text \<open>The first JSON value of the body; what follows it is not read.\<close>

definition decode_first :: "'a decoder \<Rightarrow> 'a \<Rightarrow> string \<Rightarrow> 'a option" where
  "decode_first f zero body = Option.bind (read_value (Suc (length body)) 10000 body) (\<lambda>(v, r). f zero v)"

definition decode_terminal_request :: "string \<Rightarrow> TerminalRequest option" where
  "decode_terminal_request body =
    (case (decode_first (into_struct ''cluster_id'' into_string) '''' body,
           decode_first (into_struct ''uuid'' into_string) '''' body,
           decode_first (into_struct ''command'' into_string) '''' body) of
       (Some c, Some u, Some d) \<Rightarrow> Some \<lparr>trq_ClusterID = c, trq_UUID = u, trq_Command = d\<rparr>
     | _ \<Rightarrow> None)"

section \<open>Fields of a string\<close>

text \<open>The width of the space at the head of a string: \<open>unicode.IsSpace\<close> on valid UTF-8; 0 when there is none.\<close>

definition space_width :: "string \<Rightarrow> nat" where
  "space_width s =
    (case s of
       [] \<Rightarrow> 0
     | c # cs \<Rightarrow>
         if c \<in> {CHR 0x09, CHR 0x0A, CHR 0x0B, CHR 0x0C, CHR 0x0D, CHR 0x20} then 1
         else if c = CHR 0xC2 \<and> take 1 cs \<in> {[CHR 0x85], [CHR 0xA0]} then 2
         else if c = CHR 0xE1 \<and> take 2 cs = [CHR 0x9A, CHR 0x80] then 3
         else if c = CHR 0xE2 \<and> length cs \<ge> 2 \<and> hd cs = CHR 0x80 \<and>
                 (let d = code (cs ! 1) in 0x80 \<le> d \<and> d \<le> 0x8A \<or> d = 0xA8 \<or> d = 0xA9 \<or> d = 0xAF) then 3
         else if c = CHR 0xE2 \<and> take 2 cs = [CHR 0x81, CHR 0x9F] then 3
         else if c = CHR 0xE3 \<and> take 2 cs = [CHR 0x80, CHR 0x80] then 3
         else 0)"

lemma space_width_Nil [simp]: "space_width [] = 0"
  by (simp add: space_width_def)

function skip_spaces :: "string \<Rightarrow> string" where
  "skip_spaces s = (if space_width s = 0 then s else skip_spaces (drop (space_width s) s))"
  by pat_completeness auto
termination
proof (relation "measure length")
  show "(drop (space_width s) s, s) \<in> measure length" if "space_width s \<noteq> 0" for s
    using that by (cases s) auto
qed simp

declare skip_spaces.simps [simp del]

fun take_field :: "string \<Rightarrow> string" where
  "take_field [] = []"
| "take_field (c # cs) = (if space_width (c # cs) \<noteq> 0 then [] else c # take_field cs)"

lemma length_skip_spaces: "length (skip_spaces s) \<le> length s"
proof (induction s rule: skip_spaces.induct)
  case (1 s)
  show ?case
  proof (cases "space_width s = 0")
    case False
    with 1 have "length (skip_spaces (drop (space_width s) s)) \<le> length s" by (auto intro: le_trans)
    with False show ?thesis by (subst skip_spaces.simps) simp
  qed (simp add: skip_spaces.simps[of s])
qed

lemma space_width_skip_spaces [simp]: "space_width (skip_spaces s) = 0"
proof (induction s rule: skip_spaces.induct)
  case (1 s)
  then show ?case by (subst skip_spaces.simps) simp
qed

lemma take_field_nonempty: "s \<noteq> [] \<Longrightarrow> space_width s = 0 \<Longrightarrow> take_field s \<noteq> []"
  by (cases s) auto

text \<open>\<open>strings.Fields\<close>; \<open>strings.TrimSpace\<close> before it removes only space that it skips anyway.\<close>

function string_fields :: "string \<Rightarrow> string list" where
  "string_fields s =
    (let s' = skip_spaces s
     in if s' = [] then [] else take_field s' # string_fields (drop (length (take_field s')) s'))"
  by pat_completeness auto
termination
proof (relation "measure length")
  fix s s' assume "s' = skip_spaces s" "s' \<noteq> []"
  then have "take_field s' \<noteq> []" using take_field_nonempty by simp
  then have "length (drop (length (take_field s')) s') < length s'" using \<open>s' \<noteq> []\<close> by simp
  also have "\<dots> \<le> length s" using \<open>s' = skip_spaces s\<close> length_skip_spaces by simp
  finally show "(drop (length (take_field s')) s', s) \<in> measure length" by simp
qed simp

declare string_fields.simps [simp del]

section \<open>Kubeconfig lookup\<close>

definition getKubeconfigFromOperatorTarget :: "'w terminal_client \<Rightarrow> string \<Rightarrow> lookup_error + string" where
  "getKubeconfigFromOperatorTarget C targetUUID =
    (case tm_GetOperatorTarget C (tm_Namespace C) targetUUID of
       Inl e \<Rightarrow> Inl (TargetFetchFailed e)
     | Inr target \<Rightarrow>
       (case tm_GetSecret C (tm_Namespace C) (ots_SecretUUID (ot_Spec target)) of
          Inl e \<Rightarrow> Inl (SecretFetchFailed e)
        | Inr secret \<Rightarrow>
          (case map_of (sec_Data secret) ''kubeconfig'' of
             None \<Rightarrow> Inl KubeconfigNotInSecret
           | Some d \<Rightarrow> (case UnmarshalSecretData d of Inl e \<Rightarrow> Inl (KubeconfigUnreadable e) | Inr k \<Rightarrow> Inr k))))"

definition getKubeconfigFromTargetRequest :: "'w terminal_client \<Rightarrow> string \<Rightarrow> string \<Rightarrow> lookup_error + string" where
  "getKubeconfigFromTargetRequest C targetID clusterName =
    (case tm_GetSecret C (tm_Namespace C) targetID of
       Inl e \<Rightarrow> Inl (SecretFetchFailed e)
     | Inr secret \<Rightarrow>
       (case map_of (sec_Data secret) ''managed-clusters'' of
          None \<Rightarrow> Inl ManagedClustersNotInSecret
        | Some bytes \<Rightarrow>
          (case decode_managed_clusters bytes of
             None \<Rightarrow> Inl ManagedClustersUnreadable
           | Some managedClusters \<Rightarrow>
             (case map_of managedClusters ''krkn-operator-acm'' of
                None \<Rightarrow> Inl AcmNotFound
              | Some acmClusters \<Rightarrow>
                (case map_of acmClusters clusterName of
                   None \<Rightarrow> Inl (ClusterNotInAcm clusterName)
                 | Some k \<Rightarrow> Inr k)))))"

text \<open>The clusters of all providers of a request, in the order in which the maps are iterated.\<close>

definition getClusterAPIURL :: "'w terminal_client \<Rightarrow> string \<Rightarrow> string \<Rightarrow> string \<Rightarrow> lookup_error + string" where
  "getClusterAPIURL C targetUUID targetID clusterName =
    (let legacy =
       (if targetID \<noteq> '''' \<and> clusterName \<noteq> '''' then
          (case ac_GetTargetRequest (tm_Auth C) (tm_Namespace C) targetID of
             Inl e \<Rightarrow> Inl (RequestFetchFailed e)
           | Inr targetRequest \<Rightarrow>
             (case List.find (\<lambda>c. ct_ClusterName c = clusterName) (concat (map snd (trs_TargetData (tr_Status targetRequest)))) of
                None \<Rightarrow> Inl (ClusterNotInRequest clusterName)
              | Some cluster \<Rightarrow> Inr (ct_ClusterAPIURL cluster)))
        else Inl InsufficientParameters)
     in if targetUUID \<noteq> '''' then
          (case tm_GetOperatorTarget C (tm_Namespace C) targetUUID of
             Inl e \<Rightarrow> if targetID = '''' \<or> clusterName = '''' then Inl (TargetFetchFailed e) else legacy
           | Inr target \<Rightarrow> Inr (ots_ClusterAPIURL (ot_Spec target)))
        else legacy)"

definition getKubeconfig :: "'w terminal_client \<Rightarrow> string \<Rightarrow> string \<Rightarrow> string \<Rightarrow> lookup_error + string" where
  "getKubeconfig C targetUUID targetID clusterName =
    (let legacy =
       (if targetID \<noteq> '''' \<and> clusterName \<noteq> '''' then getKubeconfigFromTargetRequest C targetID clusterName
        else Inl InsufficientParameters)
     in if targetUUID \<noteq> '''' then
          (case getKubeconfigFromOperatorTarget C targetUUID of
             Inr k \<Rightarrow> Inr k
           | Inl e \<Rightarrow> if targetID = '''' \<or> clusterName = '''' then Inl e else legacy)
        else legacy)"

section \<open>The handlers\<close>

datatype 'a reply =
    Failure (reply_code: int) (reply_error: string) (reply_message: string)
  | Body (reply_code: int) (reply_body: 'a)

definition GetAvailableCommands :: "CommandSpec list reply" where
  "GetAvailableCommands = Body 200 GetAllowedCommands"

definition kubectl_request :: "string \<Rightarrow> ParsedCommand \<Rightarrow> ExecuteKubectlRequest" where
  "kubectl_request kubeconfigBase64 cmd =
     \<lparr>ek_KubeconfigBase64 = kubeconfigBase64, ek_Command = Command cmd, ek_Subcommand = Subcommand cmd, ek_Args = Args cmd,
      ek_Flags = Flags cmd, ek_BooleanFlags = BooleanFlags cmd, ek_TimeoutSeconds = 120\<rparr>"

definition executeKubectlViaGRPC ::
  "'w terminal_client \<Rightarrow> string \<Rightarrow> ParsedCommand \<Rightarrow> 'w \<Rightarrow> (string + TerminalResponse) \<times> 'w" where
  "executeKubectlViaGRPC C kubeconfigBase64 cmd w =
    (case tm_ExecuteKubectl C (kubectl_request kubeconfigBase64 cmd) w of
       (Inl e, w') \<Rightarrow> (Inl e, w')
     | (Inr g, w') \<Rightarrow>
         (Inr \<lparr>trp_StdoutBase64 = er_StdoutBase64 g, trp_StderrBase64 = er_StderrBase64 g, trp_ExitCode = er_ExitCode g,
               trp_Error = er_Error g\<rparr>, w'))"

text \<open>The permission check of the terminal: \<open>None\<close> lets the request through.\<close>

definition terminal_access :: "'w terminal_client \<Rightarrow> token_claims option \<Rightarrow> TerminalRequest \<Rightarrow> denial" where
  "terminal_access C claims req =
    (case claims of
       None \<Rightarrow> None
     | Some c \<Rightarrow>
         if IsAdmin claims then None
         else (case getClusterAPIURL C '''' (trq_UUID req) (trq_ClusterID req) of
             Inl e \<Rightarrow> Some (500, ''internal_error'', ''Failed to validate cluster permissions'')
           | Inr clusterAPIURL \<Rightarrow>
             (case HasClusterPermission (tm_Auth C) (cl_UserID c) (tm_Namespace C) clusterAPIURL ActionRun of
                Inl e \<Rightarrow> Some (500, ''internal_error'', ''Failed to validate access permissions'')
              | Inr hasPermission \<Rightarrow>
                  if hasPermission then None
                  else Some (403, ''forbidden'', ''You do not have run permission on this cluster''))))"

definition execution_reply :: "string + TerminalResponse \<Rightarrow> TerminalResponse reply" where
  "execution_reply r =
    (case r of
       Inl e \<Rightarrow> Failure 500 ''execution_error'' ''Command execution failed''
     | Inr response \<Rightarrow>
         if trp_Error response \<noteq> '''' then
           (if trp_Error response = ''not_found'' then Failure 404 ''not_found'' ''Command not found on server''
            else if trp_Error response = ''timeout'' then Failure 408 ''timeout'' ''Command execution timed out''
            else Failure 500 ''execution_error'' ''Command execution failed'')
         else if trp_ExitCode response > 0 then Body 400 (response\<lparr>trp_Error := ''command_failed''\<rparr>)
         else Body 200 response)"

definition ExecuteTerminal :: "'w terminal_client \<Rightarrow> token_claims option \<Rightarrow> string \<Rightarrow> 'w \<Rightarrow> TerminalResponse reply \<times> 'w" where
  "ExecuteTerminal C claims body w =
    (case decode_terminal_request body of
       None \<Rightarrow> (Failure 400 ''invalid_request'' ''Invalid JSON request body'', w)
     | Some req \<Rightarrow>
       if trq_ClusterID req = '''' \<or> trq_UUID req = '''' \<or> trq_Command req = ''''
       then (Failure 400 ''invalid_request'' ''cluster_id, uuid, and command are required'', w)
       else (case terminal_access C claims req of
           Some (status, e, m) \<Rightarrow> (Failure status e m, w)
         | None \<Rightarrow>
           (let cmdTokens = string_fields (trq_Command req)
            in if cmdTokens = [] \<or> \<not> IsCommandAllowed (hd cmdTokens)
               then (Failure 404 ''not_found'' ''Command must be kubectl or oc'', w)
               else (case getKubeconfig C '''' (trq_UUID req) (trq_ClusterID req) of
                   Inl e \<Rightarrow> (Failure 404 ''not_found'' (''Failed to get kubeconfig: '' @ tm_LookupText C e), w)
                 | Inr kubeconfigBase64 \<Rightarrow>
                   (case ParseCommand (trq_Command req) of
                      Inl e \<Rightarrow> (Failure 400 ''invalid_command'' (''Failed to parse command: '' @ tm_ParseText C e), w)
                    | Inr parsedCmd \<Rightarrow>
                      (case ValidateCommand parsedCmd of
                         Some ErrCommandNotFound \<Rightarrow> (Failure 404 ''not_found'' ''Command must be kubectl or oc'', w)
                       | Some ErrCommandNotPermitted \<Rightarrow> (Failure 403 ''not_permitted'' ''Command not permitted'', w)
                       | None \<Rightarrow>
                         (case executeKubectlViaGRPC C kubeconfigBase64 parsedCmd w of
                            (r, w') \<Rightarrow> (execution_reply r, w'))))))))"

section \<open>What reaches the data provider\<close>

text \<open>A client whose world is the list of requests sent to the data provider.\<close>

definition sending :: "'w terminal_client \<Rightarrow> (ExecuteKubectlRequest \<Rightarrow> string + ExecuteKubectlResponse) \<Rightarrow> ExecuteKubectlRequest list terminal_client" where
  "sending C answer = \<lparr>tm_Namespace = tm_Namespace C, tm_Auth = tm_Auth C, tm_GetOperatorTarget = tm_GetOperatorTarget C,
     tm_GetSecret = tm_GetSecret C, tm_ExecuteKubectl = (\<lambda>r sent. (answer r, sent @ [r])), tm_LookupText = tm_LookupText C,
     tm_ParseText = tm_ParseText C\<rparr>"

lemma sending_simps [simp]:
  "tm_Namespace (sending C a) = tm_Namespace C" "tm_Auth (sending C a) = tm_Auth C"
  "tm_GetSecret (sending C a) = tm_GetSecret C" "tm_ExecuteKubectl (sending C a) r sent = (a r, sent @ [r])"
  by (simp_all add: sending_def)

text \<open>What the handler has made sure of when it sends a request.\<close>

definition may_run :: "'w terminal_client \<Rightarrow> token_claims option \<Rightarrow> string \<Rightarrow> string \<Rightarrow> bool" where
  "may_run C claims uuid cluster \<longleftrightarrow>
    (case claims of None \<Rightarrow> True | Some c \<Rightarrow> cl_Role c = ''admin'' \<or>
       (\<exists>tr ct groups. ac_GetTargetRequest (tm_Auth C) (tm_Namespace C) uuid = Inr tr \<and> ct \<in> set (request_clusters tr) \<and>
          ct_ClusterName ct = cluster \<and> GetUserGroups (tm_Auth C) (cl_UserID c) (tm_Namespace C) = Inr groups \<and>
          granted groups (ct_ClusterAPIURL ct) ActionRun))"

definition acm_kubeconfig :: "'w terminal_client \<Rightarrow> string \<Rightarrow> string \<Rightarrow> string \<Rightarrow> bool" where
  "acm_kubeconfig C uuid cluster k \<longleftrightarrow>
    (\<exists>s bytes d. tm_GetSecret C (tm_Namespace C) uuid = Inr s \<and> map_of (sec_Data s) ''managed-clusters'' = Some bytes \<and>
       decode_managed_clusters bytes = Some d \<and> lookup_kubeconfig d ''krkn-operator-acm'' cluster = Some k)"

lemma terminal_access_None:
  assumes "terminal_access C claims req = None" "trq_UUID req \<noteq> ''''" "trq_ClusterID req \<noteq> ''''"
  shows "may_run C claims (trq_UUID req) (trq_ClusterID req)"
proof (cases claims)
  case (Some c)
  show ?thesis
  proof (cases "cl_Role c = ''admin''")
    case True
    with Some show ?thesis by (simp add: may_run_def)
  next
    case False
    with assms Some obtain url where u: "getClusterAPIURL C '''' (trq_UUID req) (trq_ClusterID req) = Inr url"
      "HasClusterPermission (tm_Auth C) (cl_UserID c) (tm_Namespace C) url ActionRun = Inr True"
      by (auto simp: terminal_access_def IsAdmin_def split: sum.splits if_splits)
    from u(1) assms(2,3) obtain tr ct where "ac_GetTargetRequest (tm_Auth C) (tm_Namespace C) (trq_UUID req) = Inr tr"
      "List.find (\<lambda>c. ct_ClusterName c = trq_ClusterID req) (request_clusters tr) = Some ct" "ct_ClusterAPIURL ct = url"
      by (auto simp: getClusterAPIURL_def request_clusters_def split: sum.splits option.splits)
    moreover from this(2) have "ct \<in> set (request_clusters tr)" "ct_ClusterName ct = trq_ClusterID req" by (auto dest: find_SomeD)
    moreover from u(2) obtain groups where "GetUserGroups (tm_Auth C) (cl_UserID c) (tm_Namespace C) = Inr groups" "granted groups url ActionRun"
      by (auto simp: HasClusterPermission_def CanPerformAction_iff split: sum.splits if_splits)
    ultimately show ?thesis using Some unfolding may_run_def by auto
  qed
qed (simp add: may_run_def)

lemma getKubeconfig_acm:
  assumes "getKubeconfig C '''' uuid cluster = Inr k"
  shows "acm_kubeconfig C uuid cluster k"
  using assms
  by (auto simp: getKubeconfig_def getKubeconfigFromTargetRequest_def acm_kubeconfig_def lookup_kubeconfig_def
      split: sum.splits option.splits if_splits)

lemma ExecuteTerminal_sends:
  assumes "ExecuteTerminal (sending C answer) claims body sent = (reply, sent')"
  shows "(sent' = sent \<and> reply_code reply \<noteq> 200) \<or>
    (\<exists>req k cmd. decode_terminal_request body = Some req \<and> trq_UUID req \<noteq> '''' \<and> trq_ClusterID req \<noteq> '''' \<and>
       terminal_access (sending C answer) claims req = None \<and> getKubeconfig (sending C answer) '''' (trq_UUID req) (trq_ClusterID req) = Inr k \<and>
       ParseCommand (trq_Command req) = Inr cmd \<and> ValidateCommand cmd = None \<and> sent' = sent @ [kubectl_request k cmd])"
proof (cases "decode_terminal_request body")
  case (Some req)
  let ?C = "sending C answer"
  have denied: "status \<noteq> 200" if "terminal_access ?C claims req = Some (status, e, m)" for status e m
    using that by (auto simp: terminal_access_def split: option.splits sum.splits if_splits)
  have exec: "executeKubectlViaGRPC ?C k cmd sent = (r, s) \<Longrightarrow> s = sent @ [kubectl_request k cmd]" for k cmd r s
    by (auto simp: executeKubectlViaGRPC_def split: sum.splits)
  show ?thesis
  proof (cases "trq_ClusterID req = '''' \<or> trq_UUID req = '''' \<or> trq_Command req = ''''")
    case False
    note req = Some False
    show ?thesis
    proof (cases "terminal_access ?C claims req")
      case None
      note acc = None
      show ?thesis
      proof (cases "string_fields (trq_Command req) = [] \<or> \<not> IsCommandAllowed (hd (string_fields (trq_Command req)))")
        case False
        show ?thesis
          using assms req acc False
          by (auto simp: ExecuteTerminal_def dest!: exec split: sum.splits option.splits command_error.splits prod.splits)
      qed (use assms req acc in \<open>auto simp: ExecuteTerminal_def\<close>)
    next
      case (Some d)
      obtain status e m where "d = (status, e, m)" by (cases d)
      with assms req Some denied[of status e m] show ?thesis by (auto simp: ExecuteTerminal_def)
    qed
  qed (use assms Some in \<open>auto simp: ExecuteTerminal_def\<close>)
qed (use assms in \<open>auto simp: ExecuteTerminal_def\<close>)

text \<open>
  C5. The terminal sends at most one request to the data provider, and only this: the parsed command,
  which is \<open>kubectl\<close> or \<open>oc\<close> with a permitted subcommand and no streaming flag, together with the kubeconfig
  that the document of the request holds for the named cluster; and the caller is an administrator,
  or is in a group that may run on a cluster of that name in the request, or the request carries no
  claims. In every other case nothing is sent and the reply is an error.
\<close>

theorem terminal_sends_only_permitted:
  assumes "ExecuteTerminal (sending C answer) claims body [] = (reply, sent)"
  shows "(sent = [] \<and> reply_code reply \<noteq> 200) \<or>
    (\<exists>req k cmd. sent = [kubectl_request k cmd] \<and> decode_terminal_request body = Some req \<and>
       may_run C claims (trq_UUID req) (trq_ClusterID req) \<and> acm_kubeconfig C (trq_UUID req) (trq_ClusterID req) k \<and>
       ParseCommand (trq_Command req) = Inr cmd \<and> Command cmd \<in> {''kubectl'', ''oc''} \<and>
       Subcommand cmd \<in> insert '''' permitted_subcommands \<and> flag_names cmd \<inter> blocked_names = {})"
  using ExecuteTerminal_sends[OF assms]
proof
  assume "\<exists>req k cmd. decode_terminal_request body = Some req \<and> trq_UUID req \<noteq> '''' \<and> trq_ClusterID req \<noteq> '''' \<and>
       terminal_access (sending C answer) claims req = None \<and> getKubeconfig (sending C answer) '''' (trq_UUID req) (trq_ClusterID req) = Inr k \<and>
       ParseCommand (trq_Command req) = Inr cmd \<and> ValidateCommand cmd = None \<and> sent = [] @ [kubectl_request k cmd]"
  then obtain req k cmd where r: "decode_terminal_request body = Some req" "trq_UUID req \<noteq> ''''" "trq_ClusterID req \<noteq> ''''"
    "terminal_access (sending C answer) claims req = None" "getKubeconfig (sending C answer) '''' (trq_UUID req) (trq_ClusterID req) = Inr k"
    "ParseCommand (trq_Command req) = Inr cmd" "ValidateCommand cmd = None" "sent = [kubectl_request k cmd]" by auto
  have "may_run C claims (trq_UUID req) (trq_ClusterID req)"
    using terminal_access_None[OF r(4,2,3)] unfolding may_run_def sending_simps .
  moreover have "acm_kubeconfig C (trq_UUID req) (trq_ClusterID req) k"
    using getKubeconfig_acm[OF r(5)] by (simp add: acm_kubeconfig_def)
  ultimately show ?thesis using r(1,6,8) ValidateCommand_NoneD[OF r(7)] by blast
qed simp

text \<open>Two providers with a cluster of the same name; the user may run on the one of \<open>krkn-operator\<close> only.\<close>

definition shared_name_request :: KrknTargetRequest where
  "shared_name_request = \<lparr>tr_meta = meta_of ''req-1'' ''krkn'' [], tr_UUID = ''req-1'',
     tr_Status = \<lparr>trs_Status = ''Completed'', trs_TargetData =
       [(''krkn-operator'', [\<lparr>ct_ClusterName = ''c1'', ct_ClusterAPIURL = ''https://dev''\<rparr>]),
        (''krkn-operator-acm'', [\<lparr>ct_ClusterName = ''c1'', ct_ClusterAPIURL = ''https://prod''\<rparr>])], trs_Completed = None\<rparr>\<rparr>"

definition sample_terminal :: "unit terminal_client" where
  "sample_terminal = \<lparr>tm_Namespace = ''krkn'', tm_Auth = sample_auth_client [(''https://dev'', [''run''])] shared_name_request,
     tm_GetOperatorTarget = (\<lambda>_ _. Inl NotFound),
     tm_GetSecret = (\<lambda>_ _. Inr \<lparr>sec_meta = meta_of ''req-1'' ''krkn'' [], sec_Type = '''', sec_Data = [(''managed-clusters'',
       encode_managed_clusters [(''krkn-operator'', [(''c1'', [(''kubeconfig'', ''b64-dev'')])]),
                                (''krkn-operator-acm'', [(''c1'', [(''kubeconfig'', ''b64-prod'')])])])]\<rparr>),
     tm_ExecuteKubectl = (\<lambda>_ w. (Inl ''unavailable'', w)), tm_LookupText = (\<lambda>_. ''''), tm_ParseText = (\<lambda>_. '''')\<rparr>"

definition sample_user :: token_claims where
  "sample_user = \<lparr>cl_UserID = ''a.b@x.io'', cl_Role = ''user'', cl_Name = '''', cl_Surname = '''', cl_Organization = ''''\<rparr>"

definition sample_body :: string where
  "sample_body = marshal_map quoted [(''cluster_id'', ''c1''), (''uuid'', ''req-1''), (''command'', ''kubectl get pods -A'')]"

definition empty_answer :: "ExecuteKubectlRequest \<Rightarrow> string + ExecuteKubectlResponse" where
  "empty_answer r = Inr \<lparr>er_StdoutBase64 = '''', er_StderrBase64 = '''', er_ExitCode = 0, er_Error = ''''\<rparr>"

theorem terminal_sends_only_permitted_witness:
  "\<exists>reply sent req k cmd. ExecuteTerminal (sending sample_terminal empty_answer) (Some sample_user) sample_body [] = (reply, sent) \<and>
     sent = [kubectl_request k cmd] \<and> decode_terminal_request sample_body = Some req \<and>
     may_run sample_terminal (Some sample_user) (trq_UUID req) (trq_ClusterID req)"
proof -
  let ?E = "ExecuteTerminal (sending sample_terminal empty_answer) (Some sample_user) sample_body []"
  obtain reply sent where E: "?E = (reply, sent)" by (metis surj_pair)
  have "length (snd ?E) = 1" by code_simp
  with E have "sent \<noteq> []" by auto
  with E terminal_sends_only_permitted[OF E] show ?thesis by metis
qed

text \<open>
  The permission is checked on one cluster and the command runs on another: the address comes from
  the first cluster of that name under any provider, the kubeconfig always from \<open>krkn-operator-acm\<close>. Here the user may
  run on the \<open>c1\<close> of \<open>krkn-operator\<close> but not on the \<open>c1\<close> of \<open>krkn-operator-acm\<close>, and the command is sent
  with the kubeconfig of the latter.
\<close>

theorem terminal_runs_on_other_cluster:
  "HasClusterPermission (tm_Auth sample_terminal) (cl_UserID sample_user) ''krkn'' ''https://prod'' ActionRun = Inr False \<and>
   (case ExecuteTerminal (sending sample_terminal empty_answer) (Some sample_user) sample_body [] of
      (reply, sent) \<Rightarrow> reply_code reply = 200 \<and> map ek_KubeconfigBase64 sent = [''b64-prod''])"
  by code_simp

end
