(* ===== verification/Effects.thy ===== *)
theory Effects
  imports API_Types
begin

text \<open>
  Sequences of API calls with early return. A step runs on a world and either hands a value to the next
  step or ends the function with its result (the left injection). The rules below are a small Hoare
  logic for such steps: \<open>valid_eff P m Q E\<close> says that from a world with \<open>P\<close> the step \<open>m\<close> ends with \<open>Q\<close> of its
  value, or with \<open>E\<close> of the early result.
\<close>

type_synonym ('w, 'e, 'a) eff = "'w \<Rightarrow> ('e + 'a) \<times> 'w"

definition ret :: "'a \<Rightarrow> ('w, 'e, 'a) eff" where
  "ret x = (\<lambda>w. (Inr x, w))"

definition stop :: "'e \<Rightarrow> ('w, 'e, 'a) eff" where
  "stop e = (\<lambda>w. (Inl e, w))"

definition bind_eff :: "('w, 'e, 'a) eff \<Rightarrow> ('a \<Rightarrow> ('w, 'e, 'b) eff) \<Rightarrow> ('w, 'e, 'b) eff" where
  "bind_eff m f = (\<lambda>w. case m w of (Inl e, w') \<Rightarrow> (Inl e, w') | (Inr x, w') \<Rightarrow> f x w')"

text \<open>A call whose error ends the function with a result that depends on the error.\<close>

definition call :: "('w \<Rightarrow> ('x + 'a) \<times> 'w) \<Rightarrow> ('x \<Rightarrow> 'e) \<Rightarrow> ('w, 'e, 'a) eff" where
  "call m h = (\<lambda>w. case m w of (Inl x, w') \<Rightarrow> (Inl (h x), w') | (Inr a, w') \<Rightarrow> (Inr a, w'))"

definition call_opt :: "('w \<Rightarrow> 'x option \<times> 'w) \<Rightarrow> ('x \<Rightarrow> 'e) \<Rightarrow> ('w, 'e, unit) eff" where
  "call_opt m h = (\<lambda>w. case m w of (Some x, w') \<Rightarrow> (Inl (h x), w') | (None, w') \<Rightarrow> (Inr (), w'))"

lemma bind_ret [simp]: "bind_eff (ret x) f = f x"
  by (simp add: bind_eff_def ret_def)

lemma bind_stop [simp]: "bind_eff (stop e) f = stop e"
  by (simp add: bind_eff_def stop_def)

lemma bind_assoc: "bind_eff (bind_eff m f) g = bind_eff m (\<lambda>x. bind_eff (f x) g)"
  by (auto simp: bind_eff_def fun_eq_iff split: prod.splits sum.splits)

definition valid_eff ::
  "('w \<Rightarrow> bool) \<Rightarrow> ('w, 'e, 'a) eff \<Rightarrow> ('a \<Rightarrow> 'w \<Rightarrow> bool) \<Rightarrow> ('e \<Rightarrow> 'w \<Rightarrow> bool) \<Rightarrow> bool" where
  "valid_eff P m Q E \<longleftrightarrow> (\<forall>w. P w \<longrightarrow> (case m w of (Inl e, w') \<Rightarrow> E e w' | (Inr x, w') \<Rightarrow> Q x w'))"

named_theorems eff_rules \<open>Hoare rules for steps with early return\<close>

lemma valid_effI:
  "(\<And>w e w'. P w \<Longrightarrow> m w = (Inl e, w') \<Longrightarrow> E e w') \<Longrightarrow> (\<And>w x w'. P w \<Longrightarrow> m w = (Inr x, w') \<Longrightarrow> Q x w') \<Longrightarrow>
   valid_eff P m Q E"
  by (auto simp: valid_eff_def split: prod.splits sum.splits)

lemma valid_effL:
  assumes "valid_eff P m Q E" "P w" "m w = (Inl e, w')"
  shows "E e w'"
  using assms(1)[unfolded valid_eff_def, rule_format, OF assms(2)] assms(3) by simp

lemma valid_effR:
  assumes "valid_eff P m Q E" "P w" "m w = (Inr x, w')"
  shows "Q x w'"
  using assms(1)[unfolded valid_eff_def, rule_format, OF assms(2)] assms(3) by simp

lemma valid_bind [eff_rules]:
  assumes m: "valid_eff P m R E" and f: "\<And>x. valid_eff (R x) (f x) Q E"
  shows "valid_eff P (bind_eff m f) Q E"
proof (rule valid_effI)
  fix w e w' assume "P w" "bind_eff m f w = (Inl e, w')"
  then show "E e w'"
    using valid_effL[OF m, of w] valid_effR[OF m, of w] valid_effL[OF f]
    by (auto simp: bind_eff_def split: prod.splits sum.splits)
next
  fix w x w' assume "P w" "bind_eff m f w = (Inr x, w')"
  then show "Q x w'"
    using valid_effR[OF m, of w] valid_effR[OF f]
    by (auto simp: bind_eff_def split: prod.splits sum.splits)
qed

lemma valid_ret [eff_rules]: "(\<And>w. P w \<Longrightarrow> Q x w) \<Longrightarrow> valid_eff P (ret x) Q E"
  by (simp add: valid_eff_def ret_def)

lemma valid_stop [eff_rules]: "(\<And>w. P w \<Longrightarrow> E e w) \<Longrightarrow> valid_eff P (stop e) Q E"
  by (simp add: valid_eff_def stop_def)

lemma valid_if [eff_rules]:
  "(b \<Longrightarrow> valid_eff P m Q E) \<Longrightarrow> (\<not> b \<Longrightarrow> valid_eff P n Q E) \<Longrightarrow> valid_eff P (if b then m else n) Q E"
  by simp

lemma valid_option [eff_rules]:
  "(x = None \<Longrightarrow> valid_eff P m Q E) \<Longrightarrow> (\<And>a. x = Some a \<Longrightarrow> valid_eff P (f a) Q E) \<Longrightarrow>
   valid_eff P (case x of None \<Rightarrow> m | Some a \<Rightarrow> f a) Q E"
  by (cases x) simp_all

lemma valid_call:
  "(\<And>w x w'. P w \<Longrightarrow> m w = (Inl x, w') \<Longrightarrow> E (h x) w') \<Longrightarrow>
   (\<And>w a w'. P w \<Longrightarrow> m w = (Inr a, w') \<Longrightarrow> Q a w') \<Longrightarrow> valid_eff P (call m h) Q E"
  by (auto simp: valid_eff_def call_def split: prod.splits sum.splits)

lemma valid_call_opt:
  "(\<And>w x w'. P w \<Longrightarrow> m w = (Some x, w') \<Longrightarrow> E (h x) w') \<Longrightarrow>
   (\<And>w w'. P w \<Longrightarrow> m w = (None, w') \<Longrightarrow> Q () w') \<Longrightarrow> valid_eff P (call_opt m h) Q E"
  by (auto simp: valid_eff_def call_opt_def split: prod.splits option.splits)

lemma valid_weaken:
  assumes "valid_eff P' m Q' E'" "\<And>w. P w \<Longrightarrow> P' w" "\<And>x w. Q' x w \<Longrightarrow> Q x w" "\<And>e w. E' e w \<Longrightarrow> E e w"
  shows "valid_eff P m Q E"
proof (rule valid_effI)
  show "E e w'" if "P w" "m w = (Inl e, w')" for w e w'
    using assms(4)[OF valid_effL[OF assms(1) assms(2)[OF that(1)] that(2)]] .
  show "Q x w'" if "P w" "m w = (Inr x, w')" for w x w'
    using assms(3)[OF valid_effR[OF assms(1) assms(2)[OF that(1)] that(2)]] .
qed

text \<open>The end of a reconcile function: running off the end is success without a requeue.\<close>

definition finish :: "('w, ctrl_result \<times> 'x option, unit) eff \<Rightarrow> 'w \<Rightarrow> (ctrl_result \<times> 'x option) \<times> 'w" where
  "finish m w = (case m w of (Inl r, w') \<Rightarrow> (r, w') | (Inr u, w') \<Rightarrow> ((no_requeue, None), w'))"

lemma finish_valid:
  assumes "valid_eff P m (\<lambda>_. Q) (\<lambda>_. Q)" and "P w" and "finish m w = (r, w')"
  shows "Q w'"
proof (cases "fst (m w)")
  case (Inl e)
  then have "m w = (Inl e, w')" using assms(3) by (cases "m w") (simp add: finish_def)
  then show ?thesis using valid_effL[OF assms(1,2)] by blast
next
  case (Inr u)
  then have "m w = (Inr u, w')" using assms(3) by (cases "m w") (simp add: finish_def)
  then show ?thesis using valid_effR[OF assms(1,2)] by blast
qed

end
