(* ===== verification/Provider.thy ===== *)
theory Provider
  imports Effects Json Go_Std
begin

text \<open>
  Target providers: the helpers of the controllers (\<open>src/internal/controller/provider_helpers.go\<close>) and the
  package \<open>src/pkg/provider\<close>, that is clean-up of old requests, registration with its heartbeat, and
  provider configuration requests.
\<close>

section \<open>Active providers\<close>

definition checkProviderActive ::
  "('w \<Rightarrow> (api_error + KrknOperatorTargetProvider list) \<times> 'w) \<Rightarrow> string \<Rightarrow> 'w \<Rightarrow>
     (api_error + bool \<times> KrknOperatorTargetProvider list) \<times> 'w" where
  "checkProviderActive list_providers operatorName w =
    (case list_providers w of
       (Inl e, w') \<Rightarrow> (Inl e, w')
     | (Inr providers, w') \<Rightarrow>
         (Inr (case List.find (\<lambda>p. op_OperatorName p = operatorName) providers of
                 None \<Rightarrow> (False, providers)
               | Some thisProvider \<Rightarrow> (op_Active thisProvider, providers)), w'))"

definition countActiveProviders :: "KrknOperatorTargetProvider list \<Rightarrow> int \<times> string list" where
  "countActiveProviders providers =
     (int (length (filter op_Active providers)), map op_OperatorName (filter op_Active providers))"

text \<open>The condition of \<open>checkCompletion\<close> in both controllers that collect contributions.\<close>

definition all_contributed :: "KrknOperatorTargetProvider list \<Rightarrow> (string, 'd) gomap \<Rightarrow> bool" where
  "all_contributed providers contributions \<longleftrightarrow>
     (let activeProviders = fst (countActiveProviders providers); contributorCount = int (length contributions)
      in activeProviders > 0 \<and> contributorCount \<ge> activeProviders)"

text \<open>\<open>isConflictError\<close> looks at the text of the error.\<close>

definition isConflictError :: "(api_error \<Rightarrow> string) \<Rightarrow> api_error \<Rightarrow> bool" where
  "isConflictError error_text e \<longleftrightarrow> contains_str (error_text e) ''the object has been modified''"

section \<open>Clean-up of old resources\<close>

datatype cleanup_error = EmptyNamespace | NonPositiveAge | ListFailed api_error

definition expired :: "('o \<Rightarrow> time option) \<Rightarrow> time \<Rightarrow> 'o \<Rightarrow> bool" where
  "expired getCreatedTime cutoff obj = (case getCreatedTime obj of None \<Rightarrow> False | Some t \<Rightarrow> \<not> t > cutoff)"

fun delete_expired ::
  "('o \<Rightarrow> 'w \<Rightarrow> api_error option \<times> 'w) \<Rightarrow> ('o \<Rightarrow> time option) \<Rightarrow> time \<Rightarrow> 'o list \<Rightarrow> 'w \<Rightarrow> int \<times> 'w" where
  "delete_expired del getCreatedTime cutoff [] w = (0, w)"
| "delete_expired del getCreatedTime cutoff (obj # items) w =
    (if \<not> expired getCreatedTime cutoff obj then delete_expired del getCreatedTime cutoff items w
     else case del obj w of
         (Some e, w') \<Rightarrow> delete_expired del getCreatedTime cutoff items w'
       | (None, w') \<Rightarrow> (case delete_expired del getCreatedTime cutoff items w' of (n, w'') \<Rightarrow> (n + 1, w'')))"

text \<open>
  The checks for nil arguments, which the two callers pass as literals, and the recovery from panics of
  the extractor, which is a total function here, have no counterpart.
\<close>

definition CleanupOldResources ::
  "('w \<Rightarrow> (api_error + 'o list) \<times> 'w) \<Rightarrow> ('w \<Rightarrow> time \<times> 'w) \<Rightarrow> ('o \<Rightarrow> 'w \<Rightarrow> api_error option \<times> 'w) \<Rightarrow>
     string \<Rightarrow> int \<Rightarrow> ('o \<Rightarrow> time option) \<Rightarrow> 'w \<Rightarrow> (cleanup_error + int) \<times> 'w" where
  "CleanupOldResources list_all_in clock del namespace olderThanSeconds getCreatedTime w =
    (if namespace = '''' then (Inl EmptyNamespace, w)
     else if olderThanSeconds \<le> 0 then (Inl NonPositiveAge, w)
     else case list_all_in w of
         (Inl e, w1) \<Rightarrow> (Inl (ListFailed e), w1)
       | (Inr items, w1) \<Rightarrow>
         (case clock w1 of
            (now, w2) \<Rightarrow>
              (case delete_expired del getCreatedTime (now + wrap64 (wrap64 (- olderThanSeconds) * second)) items w2 of
                 (n, w3) \<Rightarrow> (Inr n, w3))))"

section \<open>Registration\<close>

record ProviderRegistration =
  reg_namespace :: string
  reg_providerName :: string
  reg_heartbeatInterval :: duration

record registration_config =
  rc_ProviderName :: string
  rc_HeartbeatInterval :: duration
  rc_Namespace :: string

definition NewProviderRegistrationWithConfig :: "registration_config \<Rightarrow> ProviderRegistration" where
  "NewProviderRegistrationWithConfig cfg =
     \<lparr>reg_namespace = rc_Namespace cfg,
      reg_providerName = (if rc_ProviderName cfg = '''' then ''krkn-operator'' else rc_ProviderName cfg),
      reg_heartbeatInterval = (if rc_HeartbeatInterval cfg = 0 then 30 * second else rc_HeartbeatInterval cfg)\<rparr>"

definition NewProviderRegistration :: "string \<Rightarrow> ProviderRegistration" where
  "NewProviderRegistration namespace = NewProviderRegistrationWithConfig
     \<lparr>rc_ProviderName = ''krkn-operator'', rc_HeartbeatInterval = 30 * second, rc_Namespace = namespace\<rparr>"

record 'w provider_client =
  pv_Get :: "string \<Rightarrow> string \<Rightarrow> 'w \<Rightarrow> (api_error + KrknOperatorTargetProvider) \<times> 'w"
  pv_Create :: "KrknOperatorTargetProvider \<Rightarrow> 'w \<Rightarrow> api_error option \<times> 'w"
  pv_Update :: "KrknOperatorTargetProvider \<Rightarrow> 'w \<Rightarrow> api_error option \<times> 'w"
  pv_UpdateStatus :: "KrknOperatorTargetProvider \<Rightarrow> 'w \<Rightarrow> api_error option \<times> 'w"
  pv_Now :: "'w \<Rightarrow> time \<times> 'w"

text \<open>The mutation passed to \<open>controllerutil.CreateOrUpdate\<close>; a zero timestamp is 0.\<close>

definition activate_provider ::
  "'w provider_client \<Rightarrow> ProviderRegistration \<Rightarrow> KrknOperatorTargetProvider \<Rightarrow> 'w \<Rightarrow> KrknOperatorTargetProvider \<times> 'w" where
  "activate_provider C p provider w =
    (let provider' = provider\<lparr>op_OperatorName := reg_providerName p, op_Active := True\<rparr>
     in if op_Timestamp provider' = 0 then (case pv_Now C w of (now, w') \<Rightarrow> (provider'\<lparr>op_Timestamp := now\<rparr>, w'))
        else (provider', w))"

definition ensureProvider :: "'w provider_client \<Rightarrow> ProviderRegistration \<Rightarrow> 'w \<Rightarrow> api_error option \<times> 'w" where
  "ensureProvider C p w =
    (case pv_Get C (reg_namespace p) (reg_providerName p) w of
       (Inl e, w1) \<Rightarrow>
         if e \<noteq> NotFound then (Some e, w1)
         else (case activate_provider C p \<lparr>op_meta = meta_of (reg_providerName p) (reg_namespace p) [],
                 op_OperatorName = '''', op_Active = False, op_Timestamp = 0\<rparr> w1 of
             (provider, w2) \<Rightarrow> pv_Create C provider w2)
     | (Inr existing, w1) \<Rightarrow>
         (case activate_provider C p existing w1 of
            (provider, w2) \<Rightarrow> if provider = existing then (None, w2) else pv_Update C provider w2))"

definition updateHeartbeat :: "'w provider_client \<Rightarrow> ProviderRegistration \<Rightarrow> 'w \<Rightarrow> api_error option \<times> 'w" where
  "updateHeartbeat C p w =
    (case pv_Get C (reg_namespace p) (reg_providerName p) w of
       (Inl e, w1) \<Rightarrow> (Some e, w1)
     | (Inr provider, w1) \<Rightarrow>
         (case pv_Now C w1 of (now, w2) \<Rightarrow> pv_UpdateStatus C (provider\<lparr>op_Timestamp := now\<rparr>) w2))"

definition deactivateProvider :: "'w provider_client \<Rightarrow> ProviderRegistration \<Rightarrow> 'w \<Rightarrow> api_error option \<times> 'w" where
  "deactivateProvider C p w =
    (case pv_Get C (reg_namespace p) (reg_providerName p) w of
       (Inl e, w1) \<Rightarrow> (if e = NotFound then None else Some e, w1)
     | (Inr provider, w1) \<Rightarrow> pv_Update C (provider\<lparr>op_Active := False\<rparr>) w1)"

text \<open>What the select statement of the heartbeat loop receives, one after the other.\<close>

datatype loop_event = Tick | ContextDone

fun heartbeat_loop :: "'w provider_client \<Rightarrow> ProviderRegistration \<Rightarrow> loop_event list \<Rightarrow> 'w \<Rightarrow> 'w" where
  "heartbeat_loop C p [] w = w"
| "heartbeat_loop C p (Tick # es) w = heartbeat_loop C p es (snd (updateHeartbeat C p w))"
| "heartbeat_loop C p (ContextDone # es) w = snd (deactivateProvider C p w)"

definition Start :: "'w provider_client \<Rightarrow> ProviderRegistration \<Rightarrow> loop_event list \<Rightarrow> 'w \<Rightarrow> api_error option \<times> 'w" where
  "Start C p es w =
    (case ensureProvider C p w of
       (Some e, w1) \<Rightarrow> (Some e, w1)
     | (None, w1) \<Rightarrow> (None, heartbeat_loop C p es w1))"

section \<open>Provider configuration requests\<close>

definition UUIDLabel :: string where
  "UUIDLabel = ''krkn.krkn-chaos.dev/uuid''"

datatype config_error =
    NamespaceEmpty
  | OperatorNameEmpty
  | ConfigMapNameEmpty
  | SchemaNotJSON
  | ConfigCreateFailed api_error
  | ConfigUpdateFailed api_error

definition CreateProviderConfigRequest ::
  "('w \<Rightarrow> string \<times> 'w) \<Rightarrow> (KrknOperatorTargetProviderConfig \<Rightarrow> 'w \<Rightarrow> api_error option \<times> 'w) \<Rightarrow>
     string \<Rightarrow> string \<Rightarrow> 'w \<Rightarrow> (config_error + string) \<times> 'w" where
  "CreateProviderConfigRequest newUUID create namespace name w =
    (if namespace = '''' then (Inl NamespaceEmpty, w)
     else case newUUID w of
       (uuid, w1) \<Rightarrow>
         (case create \<lparr>pc_meta = meta_of (if name = '''' then uuid else name) namespace [(UUIDLabel, uuid)],
             pc_UUID = uuid, pc_Status = '''', pc_ConfigData = [], pc_Created = None, pc_Completed = None\<rparr> w1 of
            (Some e, w2) \<Rightarrow> (Inl (ConfigCreateFailed e), w2)
          | (None, w2) \<Rightarrow> (Inr uuid, w2)))"

text \<open>
  \<open>json.Unmarshal\<close> into an empty interface accepts every well-formed document whose numbers fit a
  \<open>float64\<close>: a literal overflows from \<open>2 ^ 1024 - 2 ^ 970\<close> on, half way from the largest number to the next.
\<close>

fun digits_nat :: "nat \<Rightarrow> string \<Rightarrow> nat" where
  "digits_nat acc [] = acc"
| "digits_nat acc (c # cs) = digits_nat (if is_digit c then acc * 10 + (code c - 48) else acc) cs"

definition number_fits :: "string \<Rightarrow> bool" where
  "number_fits s =
    (let mantissa = takeWhile (\<lambda>c. c \<noteq> CHR ''e'' \<and> c \<noteq> CHR ''E'') s;
         exponent = drop (Suc (length mantissa)) s;
         fraction = length (drop 1 (dropWhile (\<lambda>c. c \<noteq> CHR ''.'') mantissa));
         m = digits_nat 0 mantissa;
         e = (if take 1 exponent = ''-'' then - int (digits_nat 0 exponent) else int (digits_nat 0 exponent)) - int fraction;
         bound = 2 ^ 1024 - 2 ^ 970
     in m = 0 \<or> (if e \<ge> 0 then m * 10 ^ nat e < bound else m < bound * 10 ^ nat (- e)))"

fun interface_ok :: "json \<Rightarrow> bool" where
  "interface_ok (JNum s) = number_fits s"
| "interface_ok (JArr vs) = list_all interface_ok vs"
| "interface_ok (JObj kvs) = list_all (\<lambda>kv. interface_ok (snd kv)) kvs"
| "interface_ok v = True"

definition valid_json :: "string \<Rightarrow> bool" where
  "valid_json s = (case parse_json s of None \<Rightarrow> False | Some v \<Rightarrow> interface_ok v)"

text \<open>\<open>retry.RetryOnConflict\<close> with \<open>DefaultRetry\<close>: at most five attempts while the error is a conflict.\<close>

fun retry_on_conflict :: "nat \<Rightarrow> ('w \<Rightarrow> api_error option \<times> 'w) \<Rightarrow> 'w \<Rightarrow> api_error option \<times> 'w" where
  "retry_on_conflict 0 fn w = (None, w)"
| "retry_on_conflict (Suc n) fn w =
    (case fn w of
       (Some Conflict, w') \<Rightarrow> if n = 0 then (Some Conflict, w') else retry_on_conflict n fn w'
     | r \<Rightarrow> r)"

definition put_config_data ::
  "string \<Rightarrow> ProviderConfigData \<Rightarrow> KrknOperatorTargetProviderConfig \<Rightarrow> KrknOperatorTargetProviderConfig" where
  "put_config_data operatorName d config = config\<lparr>pc_ConfigData := AList.update operatorName d (pc_ConfigData config)\<rparr>"

definition UpdateProviderConfig ::
  "(string \<Rightarrow> string \<Rightarrow> 'w \<Rightarrow> (api_error + KrknOperatorTargetProviderConfig) \<times> 'w) \<Rightarrow>
   (KrknOperatorTargetProviderConfig \<Rightarrow> 'w \<Rightarrow> api_error option \<times> 'w) \<Rightarrow>
     KrknOperatorTargetProviderConfig \<Rightarrow> string \<Rightarrow> string \<Rightarrow> string \<Rightarrow> string \<Rightarrow> 'w \<Rightarrow> config_error option \<times> 'w" where
  "UpdateProviderConfig get update_status config operatorName configMapName namespace jsonSchema w =
    (if operatorName = '''' then (Some OperatorNameEmpty, w)
     else if configMapName = '''' then (Some ConfigMapNameEmpty, w)
     else if namespace = '''' then (Some NamespaceEmpty, w)
     else if jsonSchema \<noteq> '''' \<and> \<not> valid_json jsonSchema then (Some SchemaNotJSON, w)
     else case retry_on_conflict 5 (\<lambda>w.
           (case get (Namespace (pc_meta config)) (Name (pc_meta config)) w of
              (Inl e, w1) \<Rightarrow> (Some e, w1)
            | (Inr latestConfig, w1) \<Rightarrow>
                update_status (put_config_data operatorName
                  \<lparr>pcd_ConfigMap = configMapName, pcd_Namespace = namespace, pcd_ConfigSchema = jsonSchema\<rparr> latestConfig) w1)) w of
         (Some e, w') \<Rightarrow> (Some (ConfigUpdateFailed e), w')
       | (None, w') \<Rightarrow> (None, w'))"

section \<open>Lemmas\<close>

lemma checkProviderActive_sound:
  "checkProviderActive l op w = (Inr (True, ps), w') \<Longrightarrow> \<exists>p \<in> set ps. op_OperatorName p = op \<and> op_Active p"
  by (auto simp: checkProviderActive_def split: prod.splits sum.splits option.splits dest!: find_SomeD)

text \<open>
  Counting is enough when nobody else contributed: if every contributor is an active provider, then
  \<open>all_contributed\<close> means that every active provider has contributed.
\<close>

lemma all_contributed_sound:
  assumes "all_contributed ps m" and "gomap_wf m"
    and "fst ` set m \<subseteq> op_OperatorName ` set (filter op_Active ps)"
  shows "op_OperatorName ` set (filter op_Active ps) = fst ` set m"
proof -
  let ?A = "op_OperatorName ` set (filter op_Active ps)"
  have "card ?A \<le> length (filter op_Active ps)"
    by (metis card_length length_map list.set_map)
  also have "\<dots> \<le> length m"
    using assms(1) by (simp add: all_contributed_def countActiveProviders_def)
  also have "\<dots> = card (fst ` set m)"
    using assms(2) by (metis distinct_card gomap_wf_def length_map list.set_map)
  finally have "card ?A \<le> card (fst ` set m)" .
  then show ?thesis
    using assms(3) card_seteq[of ?A "fst ` set m"] by simp
qed

text \<open>On a client that logs its deletions, the expired objects are deleted, in order, and nothing else.\<close>

lemma delete_expired_log:
  assumes del: "\<And>x w log. \<exists>r w'. del x (w, log) = (r, w', log @ [ev x])"
    and "delete_expired del created cutoff items (w, log) = (n, w', log')"
  shows "log' = log @ map ev (filter (expired created cutoff) items) \<and> 0 \<le> n \<and>
     n \<le> int (length (filter (expired created cutoff) items))"
  using assms(2)
proof (induction items arbitrary: w log n w' log')
  case (Cons x items)
  show ?case
  proof (cases "expired created cutoff x")
    case False
    with Cons show ?thesis by simp
  next
    case True
    obtain r w1 where d: "del x (w, log) = (r, w1, log @ [ev x])" using del by blast
    obtain n2 w2 log2 where s: "delete_expired del created cutoff items (w1, log @ [ev x]) = (n2, w2, log2)"
      by (metis surj_pair)
    note IH = Cons.IH[OF s]
    show ?thesis using Cons.prems True d s IH by (cases r) auto
  qed
qed simp

lemma retry_on_conflict_last:
  assumes "retry_on_conflict (Suc n) fn w = (r, w')"
  shows "\<exists>u. fn u = (r, w')"
  using assms
proof (induction n arbitrary: w)
  case (Suc n)
  obtain q u where f: "fn w = (q, u)" by fastforce
  show ?case
  proof (cases "q = Some Conflict")
    case True
    with Suc f show ?thesis by simp
  next
    case False
    then have "(r, w') = (q, u)" using Suc.prems f by (simp split: option.splits api_error.splits)
    then show ?thesis using f by auto
  qed
qed (auto split: prod.splits option.splits api_error.splits)

section \<open>The contribution protocol\<close>

text \<open>
  Target requests and provider configuration requests are filled by several operators the same way.
  The interface: single changes of a request keep its identity, never lose a contributor or a
  completion, are made by operators out of a given set, and complete a request only when its
  contributions are enough. The laws are discharged for both kinds of request; what follows for
  sequences of changes is proved here once.
\<close>

locale contribution_protocol =
  fixes step :: "'r \<Rightarrow> 'r \<Rightarrow> bool"
    and status :: "'r \<Rightarrow> string"
    and contributions :: "'r \<Rightarrow> (string, 'd) gomap"
    and identity :: "'r \<Rightarrow> 'i"
    and operators :: "string set"
    and enough :: "(string, 'd) gomap \<Rightarrow> bool"
  assumes step_identity: "step r r' \<Longrightarrow> identity r' = identity r"
    and step_completed: "step r r' \<Longrightarrow> status r = ''Completed'' \<Longrightarrow> status r' = ''Completed''"
    and step_wf: "step r r' \<Longrightarrow> gomap_wf (contributions r) \<Longrightarrow> gomap_wf (contributions r')"
    and step_grows: "step r r' \<Longrightarrow> dom (map_of (contributions r)) \<subseteq> dom (map_of (contributions r'))"
    and step_operators: "step r r' \<Longrightarrow> dom (map_of (contributions r')) \<subseteq> dom (map_of (contributions r)) \<union> operators"
    and step_enough: "step r r' \<Longrightarrow> status r' = ''Completed'' \<Longrightarrow> status r = ''Completed'' \<or> enough (contributions r)"
begin

lemma steps_identity: "step\<^sup>*\<^sup>* r r' \<Longrightarrow> identity r' = identity r"
  by (induction rule: rtranclp_induct) (simp_all add: step_identity)

lemma steps_completed: "step\<^sup>*\<^sup>* r r' \<Longrightarrow> status r = ''Completed'' \<Longrightarrow> status r' = ''Completed''"
  by (induction rule: rtranclp_induct) (simp_all add: step_completed)

lemma steps_wf: "step\<^sup>*\<^sup>* r r' \<Longrightarrow> gomap_wf (contributions r) \<Longrightarrow> gomap_wf (contributions r')"
  by (induction rule: rtranclp_induct) (simp_all add: step_wf)

lemma steps_grow: "step\<^sup>*\<^sup>* r r' \<Longrightarrow> dom (map_of (contributions r)) \<subseteq> dom (map_of (contributions r'))"
  by (induction rule: rtranclp_induct) (auto dest!: step_grows)

lemma steps_operators:
  "step\<^sup>*\<^sup>* r r' \<Longrightarrow> dom (map_of (contributions r')) \<subseteq> dom (map_of (contributions r)) \<union> operators"
proof (induction rule: rtranclp_induct)
  case (step s t)
  with step_operators[OF step.hyps(2)] show ?case by blast
qed simp

text \<open>A request that got completed had enough contributions at some moment on the way.\<close>

lemma steps_enough:
  assumes "step\<^sup>*\<^sup>* r r'" "status r \<noteq> ''Completed''" "status r' = ''Completed''"
  shows "\<exists>s. step\<^sup>*\<^sup>* r s \<and> step\<^sup>*\<^sup>* s r' \<and> enough (contributions s)"
  using assms
proof (induction rule: rtranclp_induct)
  case (step s t)
  show ?case
  proof (cases "status s = ''Completed''")
    case True
    from step.IH[OF step.prems(1) True] obtain u where "step\<^sup>*\<^sup>* r u" "step\<^sup>*\<^sup>* u s" "enough (contributions u)" by blast
    with step.hyps(2) show ?thesis by (meson rtranclp.rtrancl_into_rtrancl)
  next
    case False
    then have "enough (contributions s)" using step_enough[OF step.hyps(2) step.prems(2)] by simp
    with step.hyps show ?thesis by blast
  qed
qed simp

end

end
