(* ===== verification/Target_Request.thy ===== *)
theory Target_Request
  imports Provider Kubeconfig
begin

text \<open>
  The controller of target requests (\<open>src/internal/controller/krkntargetrequest_controller.go\<close>): it adds the
  ready targets of this operator to the status of a request, writes their kubeconfigs into the
  \<open>managed-clusters\<close> secret and completes the request when enough providers have contributed. Several
  operators run the same controller on the same requests.
\<close>

section \<open>The client\<close>

record 'w target_client =
  tg_OperatorName :: string
  tg_OperatorNamespace :: string
  tg_GetRequest :: "string \<Rightarrow> string \<Rightarrow> 'w \<Rightarrow> (api_error + KrknTargetRequest) \<times> 'w"
  tg_UpdateRequest :: "KrknTargetRequest \<Rightarrow> 'w \<Rightarrow> api_error option \<times> 'w"
  tg_UpdateStatus :: "KrknTargetRequest \<Rightarrow> 'w \<Rightarrow> api_error option \<times> 'w"
  tg_ListProviders :: "'w \<Rightarrow> (api_error + KrknOperatorTargetProvider list) \<times> 'w"
  tg_ListTargets :: "string \<Rightarrow> 'w \<Rightarrow> (api_error + KrknOperatorTarget list) \<times> 'w"
  tg_GetSecret :: "string \<Rightarrow> string \<Rightarrow> 'w \<Rightarrow> (api_error + Secret) \<times> 'w"
  tg_CreateSecret :: "Secret \<Rightarrow> 'w \<Rightarrow> api_error option \<times> 'w"
  tg_UpdateSecret :: "Secret \<Rightarrow> 'w \<Rightarrow> api_error option \<times> 'w"
  tg_OwnSecret :: "KrknTargetRequest \<Rightarrow> Secret \<Rightarrow> string + Secret"
  tg_ListRequests :: "string \<Rightarrow> 'w \<Rightarrow> (api_error + KrknTargetRequest list) \<times> 'w"
  tg_DeleteRequest :: "KrknTargetRequest \<Rightarrow> 'w \<Rightarrow> api_error option \<times> 'w"
  tg_Now :: "'w \<Rightarrow> time \<times> 'w"
  tg_ErrorText :: "api_error \<Rightarrow> string"

text \<open>
  Errors of the controller. \<open>NilMapWrite\<close> is the panic of an assignment to a nil map: a secret without
  data is fetched with a nil map, and the document \<open>null\<close> decodes to one.
\<close>

datatype target_error = TargetApi api_error | SecretFailed string api_error | OwnerRefFailed string | NilMapWrite

definition CleanupThresholdSeconds :: int where
  "CleanupThresholdSeconds = 3600"

section \<open>Changes to a request\<close>

definition set_uuid_label :: "KrknTargetRequest \<Rightarrow> KrknTargetRequest" where
  "set_uuid_label r = r\<lparr>tr_meta := (tr_meta r)\<lparr>Labels := AList.update UUIDLabel (tr_UUID r) (Labels (tr_meta r))\<rparr>\<rparr>"

definition ensureUUIDLabel :: "'w target_client \<Rightarrow> KrknTargetRequest \<Rightarrow> 'w \<Rightarrow> api_error option \<times> 'w" where
  "ensureUUIDLabel C r w =
    (if map_of (Labels (tr_meta r)) UUIDLabel = None then tg_UpdateRequest C (set_uuid_label r) w else (None, w))"

definition init_request :: "KrknTargetRequest \<Rightarrow> KrknTargetRequest" where
  "init_request r = r\<lparr>tr_Status := (tr_Status r)\<lparr>trs_Status := ''pending''\<rparr>\<rparr>"

definition initializeStatus :: "'w target_client \<Rightarrow> KrknTargetRequest \<Rightarrow> 'w \<Rightarrow> api_error option \<times> 'w" where
  "initializeStatus C r w =
    (if trs_Status (tr_Status r) = '''' then tg_UpdateStatus C (init_request r) w else (None, w))"

definition buildClusterTargets :: "KrknOperatorTarget list \<Rightarrow> ClusterTarget list" where
  "buildClusterTargets targets =
     map (\<lambda>t. \<lparr>ct_ClusterName = ots_ClusterName (ot_Spec t), ct_ClusterAPIURL = ots_ClusterAPIURL (ot_Spec t)\<rparr>)
       (filter ot_Ready targets)"

definition put_target_data :: "string \<Rightarrow> ClusterTarget list \<Rightarrow> KrknTargetRequest \<Rightarrow> KrknTargetRequest" where
  "put_target_data operatorName clusterTargets r =
     r\<lparr>tr_Status := (tr_Status r)\<lparr>trs_TargetData := AList.update operatorName clusterTargets (trs_TargetData (tr_Status r))\<rparr>\<rparr>"

definition updateTargetData :: "'w target_client \<Rightarrow> KrknTargetRequest \<Rightarrow> ClusterTarget list \<Rightarrow> 'w \<Rightarrow> api_error option \<times> 'w" where
  "updateTargetData C r clusterTargets w = tg_UpdateStatus C (put_target_data (tg_OperatorName C) clusterTargets r) w"

definition complete_request :: "time \<Rightarrow> KrknTargetRequest \<Rightarrow> KrknTargetRequest" where
  "complete_request now r = r\<lparr>tr_Status := (tr_Status r)\<lparr>trs_Status := ''Completed'', trs_Completed := Some now\<rparr>\<rparr>"

definition checkCompletion ::
  "'w target_client \<Rightarrow> KrknTargetRequest \<Rightarrow> KrknOperatorTargetProvider list \<Rightarrow> 'w \<Rightarrow> api_error option \<times> 'w" where
  "checkCompletion C r providers w =
    (if all_contributed providers (trs_TargetData (tr_Status r))
     then (case tg_Now C w of (now, w') \<Rightarrow> tg_UpdateStatus C (complete_request now r) w')
     else (None, w))"

section \<open>The managed-clusters secret\<close>

text \<open>
  The document of an existing secret: \<open>None\<close> is the nil map; an unreadable document counts as empty.
  (An inner \<open>null\<close> reads as the empty map; it is written back as an empty object, which every reader
  takes for the same.)
\<close>

definition decode_document :: "string \<Rightarrow> managed_clusters option" where
  "decode_document = unmarshal (into_map (into_map (into_map into_string '''') []) []) []"

definition read_document :: "Secret option \<Rightarrow> managed_clusters option" where
  "read_document secret =
    (case secret of
       None \<Rightarrow> Some []
     | Some s \<Rightarrow>
         (case map_of (sec_Data s) ''managed-clusters'' of
            None \<Rightarrow> Some []
          | Some bytes \<Rightarrow>
              if bytes = [] then Some []
              else (case decode_document bytes of
                  None \<Rightarrow> Some []
                | Some m \<Rightarrow> if parse_json bytes = Some JNull then None else Some m)))"

definition cluster_entry :: "KrknOperatorTarget \<Rightarrow> string \<Rightarrow> (string, string) gomap" where
  "cluster_entry t kubeconfigBase64 =
     [(''cluster-name'', ots_ClusterName (ot_Spec t)), (''cluster-api'', ots_ClusterAPIURL (ot_Spec t)),
      (''kubeconfig'', kubeconfigBase64)]"

text \<open>The kubeconfig of a target, where its secret holds one.\<close>

definition target_kubeconfig :: "'w target_client \<Rightarrow> KrknOperatorTarget \<Rightarrow> 'w \<Rightarrow> string option \<times> 'w" where
  "target_kubeconfig C t w =
    (case tg_GetSecret C (tg_OperatorNamespace C) (ots_SecretUUID (ot_Spec t)) w of
       (Inl e, w') \<Rightarrow> (None, w')
     | (Inr targetSecret, w') \<Rightarrow>
         (case map_of (sec_Data targetSecret) ''kubeconfig'' of
            None \<Rightarrow> (None, w')
          | Some d \<Rightarrow> (case UnmarshalSecretData d of Inl e \<Rightarrow> (None, w') | Inr k \<Rightarrow> (Some k, w'))))"

fun add_targets ::
  "'w target_client \<Rightarrow> KrknOperatorTarget list \<Rightarrow> (string, (string, string) gomap) gomap \<Rightarrow> 'w \<Rightarrow>
     (string, (string, string) gomap) gomap \<times> 'w" where
  "add_targets C [] clusters w = (clusters, w)"
| "add_targets C (t # targets) clusters w =
    (if \<not> ot_Ready t then add_targets C targets clusters w
     else case target_kubeconfig C t w of
         (None, w') \<Rightarrow> add_targets C targets clusters w'
       | (Some k, w') \<Rightarrow>
           add_targets C targets (AList.update (ots_ClusterName (ot_Spec t)) (cluster_entry t k) clusters) w')"

definition put_document :: "string \<Rightarrow> Secret \<Rightarrow> Secret option" where
  "put_document bytes s =
    (if sec_Data s = [] then None
     else Some (s\<lparr>sec_Data := AList.update ''managed-clusters'' bytes (sec_Data s)\<rparr>))"

definition update_secret :: "'w target_client \<Rightarrow> KrknTargetRequest \<Rightarrow> string \<Rightarrow> string \<Rightarrow> Secret \<Rightarrow> 'w \<Rightarrow> target_error option \<times> 'w" where
  "update_secret C r what bytes s w =
    (case put_document bytes s of
       None \<Rightarrow> (Some NilMapWrite, w)
     | Some s' \<Rightarrow>
         (case tg_OwnSecret C r s' of
            Inl e \<Rightarrow> (Some (OwnerRefFailed e), w)
          | Inr owned \<Rightarrow>
              (case tg_UpdateSecret C owned w of
                 (Some e, w') \<Rightarrow> (Some (SecretFailed what e), w')
               | (None, w') \<Rightarrow> (None, w'))))"

definition new_secret :: "'w target_client \<Rightarrow> KrknTargetRequest \<Rightarrow> string \<Rightarrow> Secret" where
  "new_secret C r bytes =
     \<lparr>sec_meta = meta_of (tr_UUID r) (tg_OperatorNamespace C) [(''krkn.krkn-chaos.dev/target-request'', tr_UUID r)],
      sec_Type = '''', sec_Data = [(''managed-clusters'', bytes)]\<rparr>"

definition create_secret :: "'w target_client \<Rightarrow> KrknTargetRequest \<Rightarrow> string \<Rightarrow> 'w \<Rightarrow> target_error option \<times> 'w" where
  "create_secret C r bytes w =
    (case tg_OwnSecret C r (new_secret C r bytes) of
       Inl e \<Rightarrow> (Some (OwnerRefFailed e), w)
     | Inr owned \<Rightarrow>
         (case tg_CreateSecret C owned w of
            (None, w1) \<Rightarrow> (None, w1)
          | (Some e, w1) \<Rightarrow>
              if e \<noteq> AlreadyExists then (Some (SecretFailed ''failed to create Secret'' e), w1)
              else (case tg_GetSecret C (tg_OperatorNamespace C) (tr_UUID r) w1 of
                  (Inl e, w2) \<Rightarrow> (Some (SecretFailed ''failed to refetch Secret after AlreadyExists'' e), w2)
                | (Inr s, w2) \<Rightarrow> update_secret C r ''failed to update Secret after AlreadyExists'' bytes s w2)))"

definition writeManagedClustersSecret ::
  "'w target_client \<Rightarrow> KrknTargetRequest \<Rightarrow> KrknOperatorTarget list \<Rightarrow> 'w \<Rightarrow> target_error option \<times> 'w" where
  "writeManagedClustersSecret C r targets w =
    (case tg_GetSecret C (tg_OperatorNamespace C) (tr_UUID r) w of
       (g, w1) \<Rightarrow>
         (case g of
            Inl e \<Rightarrow> if e \<noteq> NotFound then (Some (SecretFailed ''failed to get Secret'' e), w1)
              else (case add_targets C targets [] w1 of
                 (clusters, w2) \<Rightarrow> create_secret C r (encode_managed_clusters [(tg_OperatorName C, clusters)]) w2)
          | Inr s \<Rightarrow>
              (case read_document (Some s) of
                 None \<Rightarrow> (Some NilMapWrite, w1)
               | Some doc \<Rightarrow>
                   (case add_targets C targets (get_list doc (tg_OperatorName C)) w1 of
                      (clusters, w2) \<Rightarrow>
                        update_secret C r ''failed to update Secret''
                          (encode_managed_clusters (AList.update (tg_OperatorName C) clusters doc)) s w2))))"

section \<open>Reconcile\<close>

type_synonym target_result = "ctrl_result \<times> target_error option"

definition api_failure :: "api_error \<Rightarrow> target_result" where
  "api_failure e = (no_requeue, Some (TargetApi e))"

text \<open>A write whose conflicts are requeued after 100 milliseconds.\<close>

definition guarded :: "'w target_client \<Rightarrow> ('w \<Rightarrow> api_error option \<times> 'w) \<Rightarrow> ('w, target_result, unit) eff" where
  "guarded C m = call_opt m (\<lambda>e. if isConflictError (tg_ErrorText C) e then (requeue_after 100000000, None) else api_failure e)"

definition request_created :: "KrknTargetRequest \<Rightarrow> time option" where
  "request_created r = (if trs_Status (tr_Status r) = ''Completed'' then Some (CreationTimestamp (tr_meta r)) else None)"

definition cleanup_requests :: "'w target_client \<Rightarrow> ('w, target_result, unit) eff" where
  "cleanup_requests C w =
     (Inr (), snd (CleanupOldResources (tg_ListRequests C (tg_OperatorNamespace C)) (tg_Now C) (tg_DeleteRequest C)
        (tg_OperatorNamespace C) CleanupThresholdSeconds request_created w))"

definition reconcile_active ::
  "'w target_client \<Rightarrow> string \<Rightarrow> string \<Rightarrow> KrknTargetRequest \<Rightarrow> KrknOperatorTargetProvider list \<Rightarrow> ('w, target_result, unit) eff" where
  "reconcile_active C ns name r0 providers =
    (let refetch = call (tg_GetRequest C ns name) api_failure in
     bind_eff (guarded C (ensureUUIDLabel C r0)) (\<lambda>_.
     bind_eff refetch (\<lambda>r1.
     bind_eff (guarded C (initializeStatus C r1)) (\<lambda>_.
     bind_eff refetch (\<lambda>r2.
     bind_eff (call (tg_ListTargets C (tg_OperatorNamespace C)) api_failure) (\<lambda>targets.
     bind_eff (guarded C (updateTargetData C r2 (buildClusterTargets targets))) (\<lambda>_.
     bind_eff refetch (\<lambda>r3.
     bind_eff (call_opt (writeManagedClustersSecret C r3 targets) (\<lambda>e. (no_requeue, Some e))) (\<lambda>_.
     bind_eff refetch (\<lambda>r4.
     bind_eff (guarded C (checkCompletion C r4 providers)) (\<lambda>_.
     cleanup_requests C)))))))))))"

definition Reconcile :: "'w target_client \<Rightarrow> string \<Rightarrow> string \<Rightarrow> 'w \<Rightarrow> target_result \<times> 'w" where
  "Reconcile C ns name = finish
    (bind_eff (call (tg_GetRequest C ns name) (\<lambda>e. if e = NotFound then (no_requeue, None) else api_failure e)) (\<lambda>r0.
     if trs_Status (tr_Status r0) = ''Completed'' then stop (no_requeue, None)
     else bind_eff (call (checkProviderActive (tg_ListProviders C) (tg_OperatorName C)) api_failure) (\<lambda>ap.
       if \<not> fst ap then stop (no_requeue, None) else reconcile_active C ns name r0 (snd ap))))"

end
