(* ===== verification/Target_Protocol.thy ===== *)
theory Target_Protocol
  imports Target_Request
begin

text \<open>
  What the target request controller may do to a request, as a step relation; every write of the
  reconcile loop is such a step from the request fetched last, whatever the API answers. On this rest
  the properties of requests that several operators work on.
\<close>

abbreviation target_data :: "KrknTargetRequest \<Rightarrow> (string, ClusterTarget list) gomap" where
  "target_data r \<equiv> trs_TargetData (tr_Status r)"

abbreviation request_status :: "KrknTargetRequest \<Rightarrow> string" where
  "request_status r \<equiv> trs_Status (tr_Status r)"

definition active_operators :: "KrknOperatorTargetProvider list \<Rightarrow> string set" where
  "active_operators ps = op_OperatorName ` set (filter op_Active ps)"

inductive request_step :: "KrknOperatorTargetProvider list \<Rightarrow> string \<Rightarrow> KrknTargetRequest \<Rightarrow> KrknTargetRequest \<Rightarrow> bool"
  for ps operator where
  label: "map_of (Labels (tr_meta r)) UUIDLabel = None \<Longrightarrow> request_step ps operator r (set_uuid_label r)"
| init: "request_status r = '''' \<Longrightarrow> request_step ps operator r (init_request r)"
| contribute: "operator \<in> active_operators ps \<Longrightarrow> request_step ps operator r (put_target_data operator cts r)"
| complete: "all_contributed ps (target_data r) \<Longrightarrow> request_step ps operator r (complete_request now r)"

inductive_cases request_stepE: "request_step ps operator r r'"

text \<open>A change of a request by any of the operators.\<close>

definition request_change :: "KrknOperatorTargetProvider list \<Rightarrow> KrknTargetRequest \<Rightarrow> KrknTargetRequest \<Rightarrow> bool" where
  "request_change ps r r' \<longleftrightarrow> (\<exists>operator. request_step ps operator r r')"

lemmas request_changes = set_uuid_label_def init_request_def put_target_data_def complete_request_def

interpretation target: contribution_protocol "request_change ps" request_status target_data tr_UUID "active_operators ps"
  "all_contributed ps" for ps
  by unfold_locales
    (auto simp: request_change_def request_changes alist.get_put alist.wf_put elim!: request_stepE split: if_splits)

section \<open>What the client observes\<close>

datatype target_event =
    SawRequest KrknTargetRequest
  | SawProviders "KrknOperatorTargetProvider list"
  | WroteRequest KrknTargetRequest
  | WroteSecret Secret
  | DeletedRequest KrknTargetRequest

definition saw :: "('w \<Rightarrow> ('e + 'a) \<times> 'w) \<Rightarrow> ('a \<Rightarrow> 'ev) \<Rightarrow> 'w \<times> 'ev list \<Rightarrow> ('e + 'a) \<times> 'w \<times> 'ev list" where
  "saw m ev = (\<lambda>(w, log). case m w of (r, w') \<Rightarrow> (r, w', log @ (case r of Inl e \<Rightarrow> [] | Inr a \<Rightarrow> [ev a])))"

definition did :: "('w \<Rightarrow> 'a \<times> 'w) \<Rightarrow> 'ev list \<Rightarrow> 'w \<times> 'ev list \<Rightarrow> 'a \<times> 'w \<times> 'ev list" where
  "did m evs = (\<lambda>(w, log). case m w of (r, w') \<Rightarrow> (r, w', log @ evs))"

definition observed :: "'w target_client \<Rightarrow> ('w \<times> target_event list) target_client" where
  "observed C = \<lparr>tg_OperatorName = tg_OperatorName C, tg_OperatorNamespace = tg_OperatorNamespace C,
     tg_GetRequest = (\<lambda>ns n. saw (tg_GetRequest C ns n) SawRequest),
     tg_UpdateRequest = (\<lambda>r. did (tg_UpdateRequest C r) [WroteRequest r]),
     tg_UpdateStatus = (\<lambda>r. did (tg_UpdateStatus C r) [WroteRequest r]),
     tg_ListProviders = saw (tg_ListProviders C) SawProviders,
     tg_ListTargets = (\<lambda>ns. did (tg_ListTargets C ns) []),
     tg_GetSecret = (\<lambda>ns n. did (tg_GetSecret C ns n) []),
     tg_CreateSecret = (\<lambda>s. did (tg_CreateSecret C s) [WroteSecret s]),
     tg_UpdateSecret = (\<lambda>s. did (tg_UpdateSecret C s) [WroteSecret s]),
     tg_OwnSecret = tg_OwnSecret C,
     tg_ListRequests = (\<lambda>ns. did (tg_ListRequests C ns) []),
     tg_DeleteRequest = (\<lambda>r. did (tg_DeleteRequest C r) [DeletedRequest r]),
     tg_Now = did (tg_Now C) [], tg_ErrorText = tg_ErrorText C\<rparr>"

lemma observed_simps [simp]:
  "tg_OperatorName (observed C) = tg_OperatorName C"
  "tg_OperatorNamespace (observed C) = tg_OperatorNamespace C"
  "tg_GetRequest (observed C) ns n = saw (tg_GetRequest C ns n) SawRequest"
  "tg_UpdateRequest (observed C) r = did (tg_UpdateRequest C r) [WroteRequest r]"
  "tg_UpdateStatus (observed C) r = did (tg_UpdateStatus C r) [WroteRequest r]"
  "tg_ListProviders (observed C) = saw (tg_ListProviders C) SawProviders"
  "tg_ListTargets (observed C) ns = did (tg_ListTargets C ns) []"
  "tg_GetSecret (observed C) ns n = did (tg_GetSecret C ns n) []"
  "tg_CreateSecret (observed C) s = did (tg_CreateSecret C s) [WroteSecret s]"
  "tg_UpdateSecret (observed C) s = did (tg_UpdateSecret C s) [WroteSecret s]"
  "tg_OwnSecret (observed C) = tg_OwnSecret C"
  "tg_ListRequests (observed C) ns = did (tg_ListRequests C ns) []"
  "tg_DeleteRequest (observed C) r = did (tg_DeleteRequest C r) [DeletedRequest r]"
  "tg_Now (observed C) = did (tg_Now C) []"
  "tg_ErrorText (observed C) = tg_ErrorText C"
  by (simp_all add: observed_def)

text \<open>The request fetched last and the providers listed last.\<close>

fun last_request :: "target_event list \<Rightarrow> KrknTargetRequest option \<Rightarrow> KrknTargetRequest option" where
  "last_request [] r = r"
| "last_request (SawRequest r # es) _ = last_request es (Some r)"
| "last_request (_ # es) r = last_request es r"

fun last_providers :: "target_event list \<Rightarrow> KrknOperatorTargetProvider list \<Rightarrow> KrknOperatorTargetProvider list" where
  "last_providers [] ps = ps"
| "last_providers (SawProviders ps # es) _ = last_providers es ps"
| "last_providers (_ # es) ps = last_providers es ps"

text \<open>Every write of the log is a step from the request fetched last.\<close>

inductive legal :: "string \<Rightarrow> target_event list \<Rightarrow> bool" for operator where
  legal_Nil: "legal operator []"
| legal_snoc: "legal operator log \<Longrightarrow>
    (\<And>r'. e = WroteRequest r' \<Longrightarrow>
       \<exists>r. last_request log None = Some r \<and> request_step (last_providers log []) operator r r') \<Longrightarrow>
    legal operator (log @ [e])"

section \<open>Every write is a step\<close>

lemma last_request_append [simp]: "last_request (a @ b) r = last_request b (last_request a r)"
  by (induction a r rule: last_request.induct) auto

lemma last_providers_append [simp]: "last_providers (a @ b) ps = last_providers b (last_providers a ps)"
  by (induction a ps rule: last_providers.induct) auto

definition silent :: "target_event \<Rightarrow> bool" where
  "silent e \<longleftrightarrow> (case e of WroteSecret s \<Rightarrow> True | DeletedRequest r \<Rightarrow> True | _ \<Rightarrow> False)"

definition follows :: "string \<Rightarrow> KrknTargetRequest \<Rightarrow> KrknOperatorTargetProvider list \<Rightarrow> 'w \<times> target_event list \<Rightarrow> bool" where
  "follows operator r ps = (\<lambda>(w, log). legal operator log \<and> last_request log None = Some r \<and> last_providers log [] = ps)"

abbreviation legal_log :: "string \<Rightarrow> 'w \<times> target_event list \<Rightarrow> bool" where
  "legal_log operator \<equiv> (\<lambda>(w, log). legal operator log)"

lemma follows_legal [elim]: "follows operator r ps wl \<Longrightarrow> legal_log operator wl"
  by (auto simp: follows_def)

lemma silent_append:
  "list_all silent evs \<Longrightarrow> legal operator log \<Longrightarrow>
   legal operator (log @ evs) \<and> last_request evs r = r \<and> last_providers evs ps = ps"
proof (induction evs rule: rev_induct)
  case (snoc e evs)
  then have "legal operator (log @ evs)" "last_request evs r = r" "last_providers evs ps = ps" by auto
  with snoc.prems show ?case
    using legal_snoc[of operator "log @ evs" e] by (cases e) (auto simp: silent_def)
qed simp

text \<open>Operations that only read, or write only secrets.\<close>

definition quiet :: "('w \<times> target_event list \<Rightarrow> 'a \<times> 'w \<times> target_event list) \<Rightarrow> bool" where
  "quiet m \<longleftrightarrow> (\<forall>w log. \<exists>a w' evs. m (w, log) = (a, w', log @ evs) \<and> list_all silent evs)"

lemma quietE:
  assumes "quiet m"
  obtains a w' evs where "m (w, log) = (a, w', log @ evs)" "list_all silent evs"
  using assms unfolding quiet_def by blast

lemma quiet_did: "list_all silent evs \<Longrightarrow> quiet (did m evs)"
  by (auto simp: quiet_def did_def split: prod.splits)

lemma quiet_const: "quiet (\<lambda>wl. (a, wl))"
  unfolding quiet_def
proof (intro allI)
  fix w and log :: "target_event list"
  show "\<exists>b w' evs. (a, w, log) = (b, w', log @ evs) \<and> list_all silent evs"
    by (intro exI[of _ a] exI[of _ w] exI[of _ "[]"]) simp
qed

lemma quiet_bind:
  assumes "quiet m" "\<And>a. quiet (f a)"
  shows "quiet (\<lambda>wl. case m wl of (a, wl') \<Rightarrow> f a wl')"
  unfolding quiet_def
proof (intro allI)
  fix w log
  obtain a w1 evs1 where m: "m (w, log) = (a, w1, log @ evs1)" "list_all silent evs1" by (rule quietE[OF assms(1)])
  obtain b w2 evs2 where "f a (w1, log @ evs1) = (b, w2, (log @ evs1) @ evs2)" "list_all silent evs2"
    by (rule quietE[OF assms(2)])
  with m show "\<exists>b w' evs. (case m (w, log) of (a, wl') \<Rightarrow> f a wl') = (b, w', log @ evs) \<and> list_all silent evs"
    by (intro exI[of _ b] exI[of _ w2] exI[of _ "evs1 @ evs2"]) simp
qed

lemma follows_quiet:
  "quiet m \<Longrightarrow> follows operator r ps wl \<Longrightarrow> follows operator r ps (snd (m wl))"
proof -
  assume m: "quiet m" and f: "follows operator r ps wl"
  obtain w log where wl: "wl = (w, log)" by (cases wl)
  obtain a w' evs where "m (w, log) = (a, w', log @ evs)" "list_all silent evs" by (rule quietE[OF m])
  with f wl silent_append[of evs operator log "Some r" ps] show "follows operator r ps (snd (m wl))"
    by (auto simp: follows_def)
qed

lemma quiet_case_sum: "(\<And>x. quiet (f x)) \<Longrightarrow> (\<And>y. quiet (g y)) \<Longrightarrow> quiet (case s of Inl x \<Rightarrow> f x | Inr y \<Rightarrow> g y)"
  by (cases s) simp_all

lemma quiet_case_option: "quiet f \<Longrightarrow> (\<And>y. quiet (g y)) \<Longrightarrow> quiet (case s of None \<Rightarrow> f | Some y \<Rightarrow> g y)"
  by (cases s) simp_all

lemma quiet_target_kubeconfig: "quiet (target_kubeconfig (observed C) t)"
proof -
  have eq: "target_kubeconfig (observed C) t = (\<lambda>wl. case did (tg_GetSecret C (tg_OperatorNamespace C) (ots_SecretUUID (ot_Spec t))) [] wl of
      (a, wl') \<Rightarrow> (case a of Inl e \<Rightarrow> (\<lambda>wl'. (None, wl')) | Inr s \<Rightarrow>
        (case map_of (sec_Data s) ''kubeconfig'' of None \<Rightarrow> (\<lambda>wl'. (None, wl'))
         | Some d \<Rightarrow> (case UnmarshalSecretData d of Inl e \<Rightarrow> (\<lambda>wl'. (None, wl')) | Inr k \<Rightarrow> (\<lambda>wl'. (Some k, wl'))))) wl')"
    by (auto simp: target_kubeconfig_def fun_eq_iff split: prod.splits sum.splits option.splits)
  show ?thesis unfolding eq
    by (intro quiet_bind quiet_did quiet_case_sum quiet_case_option quiet_const) simp
qed

lemma quiet_add_targets: "quiet (add_targets (observed C) targets clusters)"
proof (induction targets arbitrary: clusters)
  case (Cons t targets)
  have eq: "add_targets (observed C) (t # targets) clusters = (if \<not> ot_Ready t then add_targets (observed C) targets clusters
      else (\<lambda>wl. case target_kubeconfig (observed C) t wl of (a, wl') \<Rightarrow>
        (case a of None \<Rightarrow> add_targets (observed C) targets clusters
         | Some k \<Rightarrow> add_targets (observed C) targets (AList.update (ots_ClusterName (ot_Spec t)) (cluster_entry t k) clusters)) wl'))"
    by (auto simp: fun_eq_iff split: prod.splits option.splits)
  show ?case unfolding eq using Cons
    by (auto intro!: quiet_bind quiet_target_kubeconfig quiet_case_option)
next
  case Nil
  have "add_targets (observed C) [] clusters = (\<lambda>wl. (clusters, wl))" by (simp add: fun_eq_iff)
  then show ?case by (simp add: quiet_const)
qed

lemma quiet_update_secret: "quiet (update_secret (observed C) r what bytes s)"
proof -
  have eq: "update_secret (observed C) r what bytes s =
    (case put_document bytes s of None \<Rightarrow> (\<lambda>wl. (Some NilMapWrite, wl))
     | Some s' \<Rightarrow> (case tg_OwnSecret C r s' of Inl e \<Rightarrow> (\<lambda>wl. (Some (OwnerRefFailed e), wl))
       | Inr owned \<Rightarrow> (\<lambda>wl. case did (tg_UpdateSecret C owned) [WroteSecret owned] wl of
           (a, wl') \<Rightarrow> (case a of None \<Rightarrow> (\<lambda>wl'. (None, wl')) | Some e \<Rightarrow> (\<lambda>wl'. (Some (SecretFailed what e), wl'))) wl')))"
    by (auto simp: update_secret_def fun_eq_iff split: prod.splits sum.splits option.splits)
  show ?thesis unfolding eq
    by (intro quiet_bind quiet_did quiet_case_sum quiet_case_option quiet_const) (simp add: silent_def)
qed

lemma quiet_create_secret: "quiet (create_secret (observed C) r bytes)"
proof -
  have eq: "create_secret (observed C) r bytes =
    (case tg_OwnSecret C r (new_secret C r bytes) of Inl e \<Rightarrow> (\<lambda>wl. (Some (OwnerRefFailed e), wl))
     | Inr owned \<Rightarrow> (\<lambda>wl. case did (tg_CreateSecret C owned) [WroteSecret owned] wl of (a, wl') \<Rightarrow>
         (case a of None \<Rightarrow> (\<lambda>wl'. (None, wl'))
          | Some e \<Rightarrow> (if e \<noteq> AlreadyExists then (\<lambda>wl'. (Some (SecretFailed ''failed to create Secret'' e), wl'))
             else (\<lambda>wl'. case did (tg_GetSecret C (tg_OperatorNamespace C) (tr_UUID r)) [] wl' of (b, wl'') \<Rightarrow>
               (case b of Inl e \<Rightarrow> (\<lambda>wl''. (Some (SecretFailed ''failed to refetch Secret after AlreadyExists'' e), wl''))
                | Inr s \<Rightarrow> update_secret (observed C) r ''failed to update Secret after AlreadyExists'' bytes s) wl''))) wl'))"
    by (auto simp: create_secret_def new_secret_def fun_eq_iff split: prod.splits sum.splits option.splits)
  have if_quiet: "quiet f \<Longrightarrow> quiet g \<Longrightarrow> quiet (if b then f else g)" for b f g by simp
  show ?thesis unfolding eq
    by (intro quiet_bind quiet_did quiet_case_sum quiet_case_option quiet_const if_quiet quiet_update_secret) (simp_all add: silent_def)
qed

lemma quiet_write_secret: "quiet (writeManagedClustersSecret (observed C) r targets)"
proof -
  have eq: "writeManagedClustersSecret (observed C) r targets =
    (\<lambda>wl. case did (tg_GetSecret C (tg_OperatorNamespace C) (tr_UUID r)) [] wl of (g, wl') \<Rightarrow>
      (case g of Inl e \<Rightarrow> (if e \<noteq> NotFound then (\<lambda>wl'. (Some (SecretFailed ''failed to get Secret'' e), wl'))
         else (\<lambda>wl'. case add_targets (observed C) targets [] wl' of (clusters, wl'') \<Rightarrow>
            create_secret (observed C) r (encode_managed_clusters [(tg_OperatorName C, clusters)]) wl''))
       | Inr s \<Rightarrow> (case read_document (Some s) of None \<Rightarrow> (\<lambda>wl'. (Some NilMapWrite, wl'))
         | Some doc \<Rightarrow> (\<lambda>wl'. case add_targets (observed C) targets (get_list doc (tg_OperatorName C)) wl' of (clusters, wl'') \<Rightarrow>
            update_secret (observed C) r ''failed to update Secret''
              (encode_managed_clusters (AList.update (tg_OperatorName C) clusters doc)) s wl''))) wl')"
    by (auto simp: writeManagedClustersSecret_def fun_eq_iff split: prod.splits sum.splits option.splits)
  have if_quiet: "quiet f \<Longrightarrow> quiet g \<Longrightarrow> quiet (if b then f else g)" for b f g by simp
  show ?thesis unfolding eq
    by (intro quiet_bind quiet_did quiet_case_sum quiet_case_option quiet_const if_quiet quiet_update_secret
        quiet_create_secret quiet_add_targets) simp_all
qed

lemma valid_quiet_call:
  "quiet m \<Longrightarrow> valid_eff (follows operator r ps) (call m h) (\<lambda>_. follows operator r ps) (\<lambda>_. legal_log operator)"
  by (rule valid_call) (metis follows_legal follows_quiet snd_conv)+

lemma valid_quiet_call_opt:
  "quiet m \<Longrightarrow> valid_eff (follows operator r ps) (call_opt m h) (\<lambda>_. follows operator r ps) (\<lambda>_. legal_log operator)"
  by (rule valid_call_opt) (metis follows_legal follows_quiet snd_conv)+

lemma valid_refetch:
  "valid_eff (follows operator r ps) (call (saw m SawRequest) h) (\<lambda>r'. follows operator r' ps) (\<lambda>_. legal_log operator)"
proof (rule valid_call)
  fix wl x wl' assume f: "follows operator r ps wl" and m: "saw m SawRequest wl = (Inl x, wl')"
  then show "legal_log operator wl'" by (auto simp: saw_def follows_def split: prod.splits sum.splits)
next
  fix wl r' wl' assume f: "follows operator r ps wl" and m: "saw m SawRequest wl = (Inr r', wl')"
  obtain w log where wl: "wl = (w, log)" by (cases wl)
  from m wl have "snd wl' = log @ [SawRequest r']" by (auto simp: saw_def split: prod.splits sum.splits)
  moreover have "legal operator (log @ [SawRequest r'])"
    using f wl legal_snoc[of operator log] by (auto simp: follows_def)
  ultimately show "follows operator r' ps wl'" using f wl by (cases wl') (auto simp: follows_def)
qed

text \<open>A write of a request that is one step from the request fetched last.\<close>

lemma valid_write:
  assumes "request_step ps operator r r'"
  shows "valid_eff (follows operator r ps) (guarded C (did m [WroteRequest r'])) (\<lambda>_. follows operator r ps) (\<lambda>_. legal_log operator)"
proof -
  have "follows operator r ps wl'" if f: "follows operator r ps wl" and m: "did m [WroteRequest r'] wl = (x, wl')" for wl x wl'
  proof -
    obtain w log where wl: "wl = (w, log)" by (cases wl)
    from m wl have "snd wl' = log @ [WroteRequest r']" by (auto simp: did_def split: prod.splits)
    moreover have "legal operator (log @ [WroteRequest r'])"
      using f wl assms by (auto simp: follows_def intro!: legal_snoc)
    ultimately show ?thesis using f wl by (cases wl') (auto simp: follows_def)
  qed
  then show ?thesis unfolding guarded_def by (intro valid_call_opt) (metis follows_legal)+
qed

lemma valid_skip: "valid_eff (follows operator r ps) (guarded C (\<lambda>wl. (None, wl))) (\<lambda>_. follows operator r ps) (\<lambda>_. legal_log operator)"
  unfolding guarded_def by (intro valid_call_opt) auto

lemma valid_ensureUUIDLabel:
  "valid_eff (follows operator r ps) (guarded (observed C) (ensureUUIDLabel (observed C) r)) (\<lambda>_. follows operator r ps) (\<lambda>_. legal_log operator)"
proof (cases "map_of (Labels (tr_meta r)) UUIDLabel = None")
  case True
  then have "ensureUUIDLabel (observed C) r = did (tg_UpdateRequest C (set_uuid_label r)) [WroteRequest (set_uuid_label r)]"
    by (simp add: ensureUUIDLabel_def fun_eq_iff)
  with valid_write[OF request_step.label[OF True]] show ?thesis by simp
next
  case False
  then have "ensureUUIDLabel (observed C) r = (\<lambda>wl. (None, wl))" by (auto simp: ensureUUIDLabel_def fun_eq_iff)
  then show ?thesis by (simp add: valid_skip)
qed

lemma valid_initializeStatus:
  "valid_eff (follows operator r ps) (guarded (observed C) (initializeStatus (observed C) r)) (\<lambda>_. follows operator r ps) (\<lambda>_. legal_log operator)"
proof (cases "request_status r = ''''")
  case True
  then have "initializeStatus (observed C) r = did (tg_UpdateStatus C (init_request r)) [WroteRequest (init_request r)]"
    by (simp add: initializeStatus_def fun_eq_iff)
  with valid_write[OF request_step.init[OF True]] show ?thesis by simp
next
  case False
  then have "initializeStatus (observed C) r = (\<lambda>wl. (None, wl))" by (simp add: initializeStatus_def fun_eq_iff)
  then show ?thesis by (simp add: valid_skip)
qed

lemma valid_updateTargetData:
  assumes "tg_OperatorName C = operator" "operator \<in> active_operators ps"
  shows "valid_eff (follows operator r ps) (guarded (observed C) (updateTargetData (observed C) r cts)) (\<lambda>_. follows operator r ps) (\<lambda>_. legal_log operator)"
proof -
  have "updateTargetData (observed C) r cts = did (tg_UpdateStatus C (put_target_data operator cts r)) [WroteRequest (put_target_data operator cts r)]"
    using assms(1) by (simp add: updateTargetData_def fun_eq_iff)
  with valid_write[OF request_step.contribute[OF assms(2)]] show ?thesis by simp
qed

lemma valid_checkCompletion:
  "valid_eff (follows operator r ps) (guarded (observed C) (checkCompletion (observed C) r ps)) (\<lambda>_. follows operator r ps) (\<lambda>_. legal_log operator)"
proof (cases "all_contributed ps (target_data r)")
  case True
  have "checkCompletion (observed C) r ps = (\<lambda>wl. case did (tg_Now C) [] wl of (now, wl') \<Rightarrow>
      did (tg_UpdateStatus C (complete_request now r)) [WroteRequest (complete_request now r)] wl')"
    using True by (simp add: checkCompletion_def fun_eq_iff)
  then have eq: "guarded (observed C) (checkCompletion (observed C) r ps) = (\<lambda>wl. case did (tg_Now C) [] wl of (now, wl') \<Rightarrow>
      guarded (observed C) (did (tg_UpdateStatus C (complete_request now r)) [WroteRequest (complete_request now r)]) wl')"
    by (auto simp: guarded_def call_opt_def fun_eq_iff split: prod.splits)
  show ?thesis unfolding eq
  proof (rule valid_effI)
    fix wl e wl'' assume f: "follows operator r ps wl"
      and g: "(case did (tg_Now C) [] wl of (now, wl') \<Rightarrow> guarded (observed C)
         (did (tg_UpdateStatus C (complete_request now r)) [WroteRequest (complete_request now r)]) wl') = (Inl e, wl'')"
    obtain now wl' where n: "did (tg_Now C) [] wl = (now, wl')" by (metis surj_pair)
    have "follows operator r ps wl'" using follows_quiet[OF quiet_did f, of "[]" "tg_Now C"] n by simp
    from valid_effL[OF valid_write[OF request_step.complete[OF True]] this] g n show "legal_log operator wl''" by simp
  next
    fix wl x wl'' assume f: "follows operator r ps wl"
      and g: "(case did (tg_Now C) [] wl of (now, wl') \<Rightarrow> guarded (observed C)
         (did (tg_UpdateStatus C (complete_request now r)) [WroteRequest (complete_request now r)]) wl') = (Inr x, wl'')"
    obtain now wl' where n: "did (tg_Now C) [] wl = (now, wl')" by (metis surj_pair)
    have "follows operator r ps wl'" using follows_quiet[OF quiet_did f, of "[]" "tg_Now C"] n by simp
    from valid_effR[OF valid_write[OF request_step.complete[OF True]] this] g n show "follows operator r ps wl''" by simp
  qed
next
  case False
  then have "checkCompletion (observed C) r ps = (\<lambda>wl. (None, wl))" by (simp add: checkCompletion_def fun_eq_iff)
  then show ?thesis by (simp add: valid_skip)
qed

lemma quiet_cleanup:
  "quiet (CleanupOldResources (tg_ListRequests (observed C) ns') (tg_Now (observed C)) (tg_DeleteRequest (observed C)) ns age created)"
proof -
  have del: "quiet (delete_expired (\<lambda>r. did (tg_DeleteRequest C r) [DeletedRequest r]) created cutoff items)" for cutoff items
  proof (induction items)
    case (Cons x items)
    let ?D = "\<lambda>r. did (tg_DeleteRequest C r) [DeletedRequest r]"
    have eq: "delete_expired ?D created cutoff (x # items) = (if \<not> expired created cutoff x then delete_expired ?D created cutoff items
       else (\<lambda>wl. case ?D x wl of (a, wl') \<Rightarrow> (case a of None \<Rightarrow> (\<lambda>wl'. case delete_expired ?D created cutoff items wl' of (n, wl'') \<Rightarrow> (\<lambda>wl''. (n + 1, wl'')) wl'')
          | Some e \<Rightarrow> delete_expired ?D created cutoff items) wl'))"
      by (auto simp: fun_eq_iff split: prod.splits option.splits)
    show ?case unfolding eq using Cons
      by (auto intro!: quiet_bind quiet_did quiet_case_option quiet_const simp: silent_def)
  next
    case Nil
    have "delete_expired (\<lambda>r. did (tg_DeleteRequest C r) [DeletedRequest r]) created cutoff [] = (\<lambda>wl. (0, wl))" by (simp add: fun_eq_iff)
    then show ?case by (simp add: quiet_const)
  qed
  let ?D = "\<lambda>r. did (tg_DeleteRequest C r) [DeletedRequest r]"
  have D: "tg_DeleteRequest (observed C) = ?D" by (simp add: observed_def)
  have eq: "CleanupOldResources (tg_ListRequests (observed C) ns') (tg_Now (observed C)) (tg_DeleteRequest (observed C)) ns age created =
    (if ns = '''' then (\<lambda>wl. (Inl EmptyNamespace, wl)) else if age \<le> 0 then (\<lambda>wl. (Inl NonPositiveAge, wl))
     else (\<lambda>wl. case did (tg_ListRequests C ns') [] wl of (l, wl1) \<Rightarrow>
       (case l of Inl e \<Rightarrow> (\<lambda>wl1. (Inl (ListFailed e), wl1))
        | Inr items \<Rightarrow> (\<lambda>wl1. case did (tg_Now C) [] wl1 of (now, wl2) \<Rightarrow>
            (\<lambda>wl2. case delete_expired ?D created (now + wrap64 (wrap64 (- age) * second)) items wl2 of (n, wl3) \<Rightarrow> (\<lambda>wl3. (Inr n, wl3)) wl3) wl2)) wl1))"
    by (auto simp: CleanupOldResources_def D fun_eq_iff split: prod.splits sum.splits)
  have if_quiet: "quiet f \<Longrightarrow> quiet g \<Longrightarrow> quiet (if b then f else g)" for b f g by simp
  show ?thesis unfolding eq
    by (intro if_quiet quiet_bind quiet_did quiet_case_sum quiet_const del) simp_all
qed

lemma valid_cleanup:
  "valid_eff (follows operator r ps) (cleanup_requests (observed C)) (\<lambda>_. legal_log operator) (\<lambda>_. legal_log operator)"
proof (rule valid_effI)
  fix wl x wl' assume f: "follows operator r ps wl" and c: "cleanup_requests (observed C) wl = (Inr x, wl')"
  from c follows_quiet[OF quiet_cleanup f] have "follows operator r ps wl'"
    by (auto simp: cleanup_requests_def simp del: observed_simps)
  then show "legal_log operator wl'" by (rule follows_legal)
qed (simp add: cleanup_requests_def)

lemma valid_reconcile_active:
  assumes op: "tg_OperatorName C = operator" "operator \<in> active_operators ps"
  shows "valid_eff (follows operator r ps) (reconcile_active (observed C) ns name r ps) (\<lambda>_. legal_log operator) (\<lambda>_. legal_log operator)"
  unfolding reconcile_active_def Let_def observed_simps(3)
  apply (rule valid_bind[OF valid_ensureUUIDLabel])
  apply (rule valid_bind[OF valid_refetch])
  apply (rule valid_bind[OF valid_initializeStatus])
  apply (rule valid_bind[OF valid_refetch])
  apply (rule valid_bind[OF valid_quiet_call], simp add: quiet_did)
  apply (rule valid_bind[OF valid_updateTargetData[OF op]])
  apply (rule valid_bind[OF valid_refetch])
  apply (rule valid_bind[OF valid_quiet_call_opt[OF quiet_write_secret]])
  apply (rule valid_bind[OF valid_refetch])
  apply (rule valid_bind[OF valid_checkCompletion])
  apply (rule valid_cleanup)
  done

lemma legal_first: "legal operator [SawRequest r]"
  using legal_snoc[OF legal_Nil, of "SawRequest r"] by simp

text \<open>
  C6. Every write of the reconcile loop to a request is one of the allowed steps, taken from the request
  fetched last and the provider list read in the same run: setting a missing label, initializing an
  empty status, entering the targets of this operator while its provider is active, and completing a
  request that has enough contributions. This holds whatever the API answers.
\<close>

theorem Reconcile_writes_are_steps:
  "legal (tg_OperatorName C) (snd (snd (Reconcile (observed C) ns name (w, []))))"
proof -
  let ?op = "tg_OperatorName C" and ?start = "\<lambda>wl :: 'a \<times> target_event list. snd wl = []"
  define get where "get = saw (tg_GetRequest C ns name) SawRequest"
  have first: "valid_eff ?start (call get h) (\<lambda>r. follows ?op r []) (\<lambda>_. legal_log ?op)" for h
    by (rule valid_call)
      (auto simp: get_def saw_def follows_def legal_Nil legal_first split: prod.splits sum.splits)
  let ?check = "checkProviderActive (saw (tg_ListProviders C) SawProviders) ?op"
  have check: "valid_eff (follows ?op r []) (call ?check h)
      (\<lambda>ap wl. follows ?op r (snd ap) wl \<and> (fst ap \<longrightarrow> ?op \<in> active_operators (snd ap))) (\<lambda>_. legal_log ?op)" for r h
  proof (rule valid_call)
    fix wl x wl' assume f: "follows ?op r [] wl" and c: "?check wl = (Inl x, wl')"
    then show "legal_log ?op wl'" by (auto simp: checkProviderActive_def saw_def follows_def split: prod.splits sum.splits)
  next
    fix wl ap wl' assume f: "follows ?op r [] wl" and c: "?check wl = (Inr ap, wl')"
    obtain w log where wl: "wl = (w, log)" by (cases wl)
    obtain b ps where ap: "ap = (b, ps)" by (cases ap)
    from c wl ap have l: "snd wl' = log @ [SawProviders ps]"
      by (auto simp: checkProviderActive_def saw_def split: prod.splits sum.splits option.splits)
    have "legal ?op (log @ [SawProviders ps])" using f wl legal_snoc[of ?op log] by (auto simp: follows_def)
    moreover have "b \<longrightarrow> ?op \<in> active_operators ps"
      using checkProviderActive_sound[of "saw (tg_ListProviders C) SawProviders" ?op wl ps wl'] c ap
      by (cases b) (auto simp: active_operators_def image_iff)
    ultimately show "follows ?op r (snd ap) wl' \<and> (fst ap \<longrightarrow> ?op \<in> active_operators (snd ap))"
      using f wl l ap by (cases wl') (auto simp: follows_def)
  qed
  have rest: "valid_eff (\<lambda>wl. follows ?op r (snd ap) wl \<and> (fst ap \<longrightarrow> ?op \<in> active_operators (snd ap)))
      (if \<not> fst ap then stop (no_requeue, None) else reconcile_active (observed C) ns name r (snd ap))
      (\<lambda>_. legal_log ?op) (\<lambda>_. legal_log ?op)" for r ap
  proof (cases "fst ap \<and> ?op \<in> active_operators (snd ap)")
    case True
    then show ?thesis using valid_weaken[OF valid_reconcile_active[of C ?op "snd ap" r ns name]] by fastforce
  next
    case False
    then show ?thesis by (intro valid_effI) (auto simp: stop_def follows_def split: if_splits)
  qed
  have "valid_eff ?start
     (bind_eff (call get (\<lambda>e. if e = NotFound then (no_requeue, None) else api_failure e)) (\<lambda>r0.
      if request_status r0 = ''Completed'' then stop (no_requeue, None)
      else bind_eff (call ?check api_failure) (\<lambda>ap.
        if \<not> fst ap then stop (no_requeue, None) else reconcile_active (observed C) ns name r0 (snd ap))))
     (\<lambda>_. legal_log ?op) (\<lambda>_. legal_log ?op)"
    by (rule valid_bind[OF first], rule valid_if, rule valid_stop, erule follows_legal, rule valid_bind[OF check], rule rest)
  moreover obtain r w' where R: "Reconcile (observed C) ns name (w, []) = (r, w')" by (metis surj_pair)
  ultimately have "legal_log ?op w'"
    unfolding Reconcile_def observed_simps get_def by (intro finish_valid[of ?start _ "legal_log ?op" "(w, [])" r]) simp_all
  then show ?thesis using R by (cases w') simp
qed

section \<open>Completion\<close>

text \<open>
  C7. With a fixed set of active providers, a request that starts without contributions and is completed
  by any sequence of steps of any operators, in any order, holds the targets of every active provider,
  keeps its UUID, and stays completed.
\<close>

theorem completed_request_is_complete:
  assumes "(request_change ps)\<^sup>*\<^sup>* r r'" and "request_status r \<noteq> ''Completed''" and "target_data r = []"
    and "request_status r' = ''Completed''" and "(request_change ps)\<^sup>*\<^sup>* r' r''"
  shows "active_operators ps \<subseteq> dom (map_of (target_data r')) \<and> tr_UUID r' = tr_UUID r \<and>
    request_status r'' = ''Completed'' \<and> dom (map_of (target_data r')) \<subseteq> dom (map_of (target_data r''))"
proof -
  obtain s where s: "(request_change ps)\<^sup>*\<^sup>* r s" "(request_change ps)\<^sup>*\<^sup>* s r'" "all_contributed ps (target_data s)"
    using target.steps_enough[OF assms(1,2,4)] by blast
  have "gomap_wf (target_data s)" using target.steps_wf[OF s(1)] assms(3) by simp
  moreover have "fst ` set (target_data s) \<subseteq> op_OperatorName ` set (filter op_Active ps)"
    using target.steps_operators[OF s(1)] assms(3) by (simp add: dom_map_of_conv_image_fst active_operators_def)
  ultimately have "active_operators ps = dom (map_of (target_data s))"
    using all_contributed_sound[OF s(3)] unfolding active_operators_def dom_map_of_conv_image_fst by blast
  with target.steps_grow[OF s(2)] target.steps_identity[OF assms(1)] target.steps_completed[OF assms(5,4)]
    target.steps_grow[OF assms(5)]
  show ?thesis by blast
qed

definition sample_provider :: "string \<Rightarrow> bool \<Rightarrow> KrknOperatorTargetProvider" where
  "sample_provider n active = \<lparr>op_meta = meta_of n ''krkn'' [], op_OperatorName = n, op_Active = active, op_Timestamp = 1\<rparr>"

definition pending_request :: "(string, ClusterTarget list) gomap \<Rightarrow> KrknTargetRequest" where
  "pending_request td = \<lparr>tr_meta = meta_of ''req-1'' ''krkn'' [(UUIDLabel, ''req-1'')], tr_UUID = ''req-1'',
     tr_Status = \<lparr>trs_Status = ''pending'', trs_TargetData = td, trs_Completed = None\<rparr>\<rparr>"

theorem completed_request_is_complete_witness:
  "let ps = [sample_provider ''A'' True, sample_provider ''B'' True];
       r = complete_request 5 (put_target_data ''B'' [] (put_target_data ''A'' [] (pending_request [])))
   in active_operators ps \<subseteq> dom (map_of (target_data r)) \<and> request_status r = ''Completed''"
proof -
  let ?ps = "[sample_provider ''A'' True, sample_provider ''B'' True]"
  let ?new = "pending_request []" and ?one = "put_target_data ''A'' [] (pending_request [])"
  let ?two = "put_target_data ''B'' [] ?one" and ?r = "complete_request 5 (put_target_data ''B'' [] ?one)"
  have "''A'' \<in> active_operators ?ps" "''B'' \<in> active_operators ?ps" by (simp_all add: active_operators_def sample_provider_def)
  moreover have "all_contributed ?ps (target_data ?two)" by code_simp
  ultimately have "request_change ?ps ?new ?one" "request_change ?ps ?one ?two" "request_change ?ps ?two ?r"
    unfolding request_change_def by (blast intro: request_step.intros)+
  then have "(request_change ?ps)\<^sup>*\<^sup>* ?new ?r" by (meson converse_rtranclp_into_rtranclp r_into_rtranclp)
  moreover have "request_status ?new \<noteq> ''Completed''" "target_data ?new = []" "request_status ?r = ''Completed''" by code_simp+
  ultimately show ?thesis using completed_request_is_complete[of ?ps ?new ?r ?r] by (simp add: Let_def)
qed

text \<open>A client of a store that holds one request and one secret.\<close>

type_synonym request_store = "KrknTargetRequest \<times> Secret option"

definition store_client :: "string \<Rightarrow> KrknOperatorTargetProvider list \<Rightarrow> KrknOperatorTarget list \<Rightarrow>
    (string \<Rightarrow> Secret option) \<Rightarrow> request_store target_client" where
  "store_client operator ps targets secrets = \<lparr>tg_OperatorName = operator, tg_OperatorNamespace = ''krkn'',
     tg_GetRequest = (\<lambda>_ _ (r, s). (Inr r, r, s)), tg_UpdateRequest = (\<lambda>r' (r, s). (None, r', s)),
     tg_UpdateStatus = (\<lambda>r' (r, s). (None, r', s)), tg_ListProviders = (\<lambda>w. (Inr ps, w)),
     tg_ListTargets = (\<lambda>_ w. (Inr targets, w)),
     tg_GetSecret = (\<lambda>_ n (r, s). (case (if n = tr_UUID r then s else secrets n) of None \<Rightarrow> Inl NotFound | Some x \<Rightarrow> Inr x, r, s)),
     tg_CreateSecret = (\<lambda>x (r, s). (None, r, Some x)), tg_UpdateSecret = (\<lambda>x (r, s). (None, r, Some x)),
     tg_OwnSecret = (\<lambda>_ x. Inr x), tg_ListRequests = (\<lambda>_ w. (Inr [], w)), tg_DeleteRequest = (\<lambda>_ w. (None, w)),
     tg_Now = (\<lambda>w. (7, w)), tg_ErrorText = (\<lambda>_. ''error'')\<rparr>"

text \<open>
  The providers are counted, not compared: a contribution of an operator that is no longer active
  stands in for a missing one. Here \<open>A\<close> has contributed and was deactivated, \<open>B\<close> and \<open>C\<close> are active, and the
  reconcile of \<open>B\<close> completes the request without the targets of \<open>C\<close>.
\<close>

theorem Reconcile_completes_without_provider:
  "case Reconcile (store_client ''B'' [sample_provider ''A'' False, sample_provider ''B'' True, sample_provider ''C'' True] [] (\<lambda>_. None))
       ''krkn'' ''req-1'' (pending_request [(''A'', [])], None) of
     (res, r, s) \<Rightarrow> res = (no_requeue, None) \<and> request_status r = ''Completed'' \<and> map_of (target_data r) ''C'' = None"
  by code_simp

end
