(* ===== verification/Json_Utf8.thy ===== *)
theory Json_Utf8
  imports Json
begin

text \<open>Every string that comes out of a JSON document is valid UTF-8, whatever the bytes of the document.\<close>

lemma utf8_width_append: "0 < utf8_width s \<Longrightarrow> utf8_width (s @ r) = utf8_width s"
  by (cases s) (auto simp: utf8_width.simps conts_def second_ok_def split: option.splits if_splits)

lemma valid_utf8_append: "valid_utf8 a \<Longrightarrow> valid_utf8 b \<Longrightarrow> valid_utf8 (a @ b)"
proof (induction a rule: valid_utf8.induct)
  case (1 s)
  show ?case
  proof (cases "s = []")
    case False
    then have w: "0 < utf8_width s" "valid_utf8 (drop (utf8_width s) s)"
      using "1.prems"(1) valid_utf8.simps[of s] by (auto split: if_splits)
    with 1 False have IH: "valid_utf8 (drop (utf8_width s) s @ b)" by simp
    have "drop (utf8_width s) (s @ b) = drop (utf8_width s) s @ b" using utf8_width_le[of s] by simp
    with IH w False utf8_width_append[of s b] show ?thesis
      by (subst valid_utf8.simps) simp
  qed (use 1 in simp)
qed

lemma valid_utf8_rune:
  assumes "0 < utf8_width s"
  shows "valid_utf8 (take (utf8_width s) s)"
proof -
  let ?t = "take (utf8_width s) s"
  have "utf8_width ?t = utf8_width s" using utf8_width_take[OF assms, of "[]"] by simp
  moreover have "?t \<noteq> []" "drop (utf8_width s) ?t = []" using assms utf8_width_le[of s] by auto
  ultimately show ?thesis using assms by (subst valid_utf8.simps) (simp add: valid_utf8.simps[of "[]"])
qed

lemma valid_utf8_single: "s \<noteq> [] \<Longrightarrow> utf8_width s = length s \<Longrightarrow> valid_utf8 s"
  using valid_utf8_rune[of s] by simp

lemma valid_replacement: "valid_utf8 replacement"
  by (rule valid_utf8_single) code_simp+

lemma valid_utf8_encode:
  assumes "u < 0x110000" "\<not> high_surrogate u" "\<not> low_surrogate u"
  shows "valid_utf8 (utf8_encode u)"
proof (rule valid_utf8_single)
  show "utf8_encode u \<noteq> []" by (simp add: utf8_encode_def)
  consider "u < 0x80" | "0x80 \<le> u" "u < 0x800" | "0x800 \<le> u" "u < 0x10000" | "0x10000 \<le> u" by linarith
  then show "utf8_width (utf8_encode u) = length (utf8_encode u)"
  proof cases
    case 1
    then show ?thesis by (simp add: utf8_encode_def utf8_width.simps rune_class_def)
  next
    case 2
    then have "2 \<le> u div 64" "u div 64 < 32" by linarith+
    with 2 show ?thesis
      by (simp add: utf8_encode_def utf8_width.simps rune_class_def between_def second_ok_def conts_def)
  next
    case 3
    define a b c where abc: "a = u div 4096" "b = u div 64 mod 64" "c = u mod 64"
    have r: "a < 16" "b < 64" "c < 64" using 3 abc by auto
    have "u div 4096 = u div 64 div 64" by (simp flip: div_mult2_eq)
    then have u: "u = a * 4096 + b * 64 + c"
      using div_mult_mod_eq[of u 64] div_mult_mod_eq[of "u div 64" 64] unfolding abc by linarith
    have lo: "a = 0 \<Longrightarrow> 32 \<le> b" using 3(1) u r by linarith
    have hi: "a = 13 \<Longrightarrow> b \<le> 31"
      using assms(2,3) u r unfolding high_surrogate_def low_surrogate_def by linarith
    have e: "utf8_encode u = [char_of (0xE0 + a), char_of (0x80 + b), char_of (0x80 + c)]"
      using 3 abc by (simp add: utf8_encode_def)
    have "rune_class (char_of (0xE0 + a)) = Some (2, if a = 0 then 0xA0 else 0x80, if a = 13 then 0x9F else 0xBF)"
      using r by (simp add: rune_class_def between_def)
    then show ?thesis unfolding e using r lo hi
      by (simp add: utf8_width.simps between_def second_ok_def conts_def numeral_2_eq_2)
  next
    case 4
    define a b c d where abcd: "a = u div 262144" "b = u div 4096 mod 64" "c = u div 64 mod 64" "d = u mod 64"
    have r: "a < 5" "b < 64" "c < 64" "d < 64" using 4 assms(1) abcd by auto
    have "u div 4096 = u div 64 div 64" "u div 262144 = u div 4096 div 64" by (simp_all flip: div_mult2_eq)
    then have u: "u = a * 262144 + b * 4096 + c * 64 + d"
      using div_mult_mod_eq[of u 64] div_mult_mod_eq[of "u div 64" 64] div_mult_mod_eq[of "u div 4096" 64]
      unfolding abcd by linarith
    have lo: "a = 0 \<Longrightarrow> 16 \<le> b" using 4 u r by linarith
    have hi: "a = 4 \<Longrightarrow> b \<le> 15" using assms(1) u r by linarith
    have e: "utf8_encode u = [char_of (0xF0 + a), char_of (0x80 + b), char_of (0x80 + c), char_of (0x80 + d)]"
      using 4 abcd by (simp add: utf8_encode_def)
    have "rune_class (char_of (0xF0 + a)) = Some (3, if a = 0 then 0x90 else 0x80, if a = 4 then 0x8F else 0xBF)"
      using r by (auto simp: rune_class_def between_def)
    then show ?thesis unfolding e using r lo hi
      by (simp add: utf8_width.simps between_def second_ok_def conts_def numeral_3_eq_3)
  qed
qed

lemma hex4_bound: "hex4 s = Some (u, r) \<Longrightarrow> u < 0x10000"
proof -
  have h: "hex_value c = Some n \<Longrightarrow> n < 16" for c n
    by (auto simp: hex_value_def is_digit_def split: if_splits)
  assume "hex4 s = Some (u, r)"
  then show ?thesis
    by (auto simp: hex4_def split: list.splits option.splits dest!: h)
qed

lemma valid_escaped_rune: "u < 0x10000 \<Longrightarrow> valid_utf8 (fst (escaped_rune u r))"
proof -
  assume u: "u < 0x10000"
  have pair: "valid_utf8 (utf8_encode (0x10000 + (u - 0xD800) * 1024 + (v - 0xDC00)))" if "high_surrogate u" "low_surrogate v" for v
    using that by (intro valid_utf8_encode) (auto simp: high_surrogate_def low_surrogate_def)
  show ?thesis
    using u pair valid_replacement valid_utf8_encode[of u]
    by (auto simp: escaped_rune_def split: option.splits)
qed

lemma simple_escape_ascii: "simple_escape e = Some c \<Longrightarrow> code c < 0x80"
  by (auto simp: simple_escape_def code_def split: if_splits)

lemma valid_utf8_Cons: "code c < 0x80 \<Longrightarrow> valid_utf8 s \<Longrightarrow> valid_utf8 (c # s)"
  by (subst valid_utf8.simps) simp

lemma read_string_valid: "read_string s = Some (t, r) \<Longrightarrow> valid_utf8 t"
proof (induction s arbitrary: t r rule: read_string.induct)
  case (2 c cs)
  let ?n = "utf8_width (c # cs)"
  consider (quote) "c = CHR 0x22" | (esc) "c = CHR 0x5C" | (bad) "code c < 0x20" "c \<noteq> CHR 0x22" "c \<noteq> CHR 0x5C"
    | (invalid) "c \<noteq> CHR 0x22" "c \<noteq> CHR 0x5C" "\<not> code c < 0x20" "?n = 0"
    | (rune) "c \<noteq> CHR 0x22" "c \<noteq> CHR 0x5C" "\<not> code c < 0x20" "0 < ?n" by blast
  then show ?case
  proof cases
    case quote
    with "2.prems" show ?thesis by (auto simp: valid_utf8.simps)
  next
    case esc
    with "2.prems" obtain e es where es: "cs = e # es" by (auto split: list.splits)
    show ?thesis
    proof (cases "e = CHR ''u''")
      case True
      with "2.prems" esc es obtain u rest t' where h: "hex4 es = Some (u, rest)"
        "read_string (snd (escaped_rune u rest)) = Some (t', r)" "t = fst (escaped_rune u rest) @ t'"
        by (auto split: option.splits)
      have "valid_utf8 t'" using 2(1)[OF _ esc es True h(1) refl h(2)] esc by simp
      with h(1,3) show ?thesis using valid_escaped_rune[OF hex4_bound[OF h(1)]] valid_utf8_append by blast
    next
      case False
      with "2.prems" esc es obtain x t' where h: "simple_escape e = Some x" "read_string es = Some (t', r)" "t = x # t'"
        by (auto split: option.splits)
      have "valid_utf8 t'" using 2(2)[OF _ esc es False h(1,2)] esc by simp
      with h show ?thesis using valid_utf8_Cons[OF simple_escape_ascii[OF h(1)]] by blast
    qed
  next
    case bad
    with "2.prems" show ?thesis by simp
  next
    case invalid
    with "2.prems" obtain t' where "read_string cs = Some (t', r)" "t = replacement @ t'" by auto
    with 2(3)[OF invalid(1-4)] show ?thesis using valid_utf8_append[OF valid_replacement] by blast
  next
    case rune
    then have n: "?n \<noteq> 0" by simp
    with rune "2.prems" obtain t' where t': "read_string (drop (?n - 1) cs) = Some (t', r)" "t = take ?n (c # cs) @ t'" by auto
    with 2(4)[OF rune(1-3) n] show ?thesis using valid_utf8_append[OF valid_utf8_rune[OF rune(4)]] by blast
  qed
qed simp

fun json_utf8 :: "json \<Rightarrow> bool" where
  "json_utf8 (JStr s) = valid_utf8 s"
| "json_utf8 (JArr vs) = list_all json_utf8 vs"
| "json_utf8 (JObj kvs) = list_all (\<lambda>kv. valid_utf8 (fst kv) \<and> json_utf8 (snd kv)) kvs"
| "json_utf8 v = True"

lemma read_value_utf8:
  "read_value fuel depth s = Some (v, r) \<Longrightarrow> json_utf8 v"
  "read_elements fuel depth s = Some (vs, r) \<Longrightarrow> list_all json_utf8 vs"
  "read_members fuel depth s = Some (kvs, r) \<Longrightarrow> list_all (\<lambda>kv. valid_utf8 (fst kv) \<and> json_utf8 (snd kv)) kvs"
proof (induction fuel depth s and fuel depth s and fuel depth s arbitrary: v r and vs r and kvs r
    rule: read_value_read_elements_read_members.induct)
  case (2 fuel depth s)
  then show ?case by (auto split: list.splits if_splits dest: read_string_valid)
next
  case (4 fuel depth s)
  then show ?case by (auto split: list.splits if_splits option.splits)
next
  case (6 fuel depth s)
  then show ?case
    by (auto split: list.splits if_splits option.splits) (erule read_string_valid)+
qed simp_all

lemma parse_json_utf8: "parse_json s = Some v \<Longrightarrow> json_utf8 v"
  by (auto simp: parse_json_def split: option.splits if_splits simp del: read_value.simps dest: read_value_utf8)

end
