(* ===== verification/Kubeconfig_Delivery.thy ===== *)
theory Kubeconfig_Delivery
  imports Samples Target_Protocol Json_Utf8 Scenario_Resources
begin

text \<open>
  The way of a kubeconfig through the operator: the target request controller reads it from the secret of
  the target and writes it into the managed-clusters document, the scenario run controller reads it out
  of the document. Both ends are the model of the source; what passes between them are the bytes.
\<close>

section \<open>What a decoded document looks like\<close>

text \<open>
  A decoder whose results satisfy a predicate wherever the tree holds valid UTF-8 only, as every
  parsed document does; a map over such a decoder is one.
\<close>

locale utf8_decoder =
  fixes dec :: "'a decoder" and zero :: 'a and P :: "'a \<Rightarrow> bool"
  assumes sound: "json_utf8 v \<Longrightarrow> dec zero v = Some a \<Longrightarrow> P a"
begin

lemma collect_utf8:
  "list_all (\<lambda>kv. valid_utf8 (fst kv) \<and> json_utf8 (snd kv)) kvs \<Longrightarrow> collect dec zero kvs m = Some m' \<Longrightarrow>
    gomap_wf m \<Longrightarrow> list_all (\<lambda>(k, a). valid_utf8 k \<and> P a) m \<Longrightarrow> gomap_wf m' \<and> list_all (\<lambda>(k, a). valid_utf8 k \<and> P a) m'"
proof (induction kvs arbitrary: m)
  case (Cons kv kvs)
  obtain k v where kv: "kv = (k, v)" by (cases kv)
  with Cons.prems obtain a where a: "dec zero v = Some a" "collect dec zero kvs (AList.update k a m) = Some m'"
    by (auto split: option.splits)
  show ?case
    using Cons.prems kv a(1) sound[of v a] by (intro Cons.IH[OF _ a(2)]) (auto simp: alist.wf_put intro: list_all_update)
qed simp

lemma map_decoder: "utf8_decoder (into_map dec zero) [] (\<lambda>m. gomap_wf m \<and> list_all (\<lambda>(k, a). valid_utf8 k \<and> P a) m)"
proof
  fix v m
  assume v: "json_utf8 v" "into_map dec zero [] v = Some m"
  show "gomap_wf m \<and> list_all (\<lambda>(k, a). valid_utf8 k \<and> P a) m"
  proof (cases v)
    case (JObj kvs)
    with v show ?thesis using collect_utf8[of kvs "[]" m] by simp
  qed (use v in simp_all)
qed

lemma unmarshal_sound: "unmarshal dec zero s = Some a \<Longrightarrow> P a"
  using sound by (auto simp: unmarshal_def bind_eq_Some_conv dest: parse_json_utf8)

end

lemma valid_utf8_Nil: "valid_utf8 ''''"
  by (simp add: valid_utf8.simps)

interpretation utf8_string: utf8_decoder into_string "''''" valid_utf8
proof
  show "valid_utf8 a" if "json_utf8 v" "into_string '''' v = Some a" for v a
    using that valid_utf8_Nil by (cases v) auto
qed
lemma set_field_utf8:
  "list_all (\<lambda>kv. valid_utf8 (fst kv) \<and> json_utf8 (snd kv)) kvs \<Longrightarrow> set_field name into_string kvs old = Some s \<Longrightarrow>
   valid_utf8 old \<Longrightarrow> valid_utf8 s"
proof (induction kvs arbitrary: old)
  case (Cons kv kvs)
  then obtain k v where kv: "kv = (k, v)" "json_utf8 v" "list_all (\<lambda>kv. valid_utf8 (fst kv) \<and> json_utf8 (snd kv)) kvs"
    by (cases kv) auto
  have "valid_utf8 s'" if "into_string old v = Some s'" for s' using that kv(2) Cons.prems(3) by (cases v) auto
  with Cons.prems kv show ?case by (auto split: if_splits option.splits intro: Cons.IH[OF kv(3)])
qed simp

interpretation utf8_field: utf8_decoder "into_struct ''kubeconfig'' into_string" "''''" valid_utf8
proof
  show "valid_utf8 a" if "json_utf8 v" "into_struct ''kubeconfig'' into_string '''' v = Some a" for v a
    using that valid_utf8_Nil by (cases v) (auto dest: set_field_utf8)
qed

lemma UnmarshalSecretData_utf8: "UnmarshalSecretData d = Inr k \<Longrightarrow> valid_utf8 k"
  by (auto simp: UnmarshalSecretData_def split: option.splits if_splits dest: utf8_field.unmarshal_sound)
text \<open>No entry of a document spells its member \<open>kubeconfig\<close> in a second way, such as \<open>KubeConfig\<close>.\<close>

definition single_spelling :: "managed_clusters \<Rightarrow> bool" where
  "single_spelling doc \<longleftrightarrow> list_all (\<lambda>(p, cs). list_all (\<lambda>(c, e). list_all (\<lambda>(k, v).
     fold_name k = fold_name ''kubeconfig'' \<longrightarrow> k = ''kubeconfig'') e) cs) doc"

interpretation utf8_entry: utf8_decoder "into_map into_string ''''" "[]"
  "\<lambda>e. gomap_wf e \<and> list_all (\<lambda>(k, s). valid_utf8 k \<and> valid_utf8 s) e"
  by (rule utf8_string.map_decoder)

interpretation utf8_clusters: utf8_decoder "into_map (into_map into_string '''') []" "[]"
  "\<lambda>cs. gomap_wf cs \<and> list_all (\<lambda>(k, e). valid_utf8 k \<and>
     (gomap_wf e \<and> list_all (\<lambda>(k, s). valid_utf8 k \<and> valid_utf8 s) e)) cs"
  by (rule utf8_entry.map_decoder)

interpretation utf8_document: utf8_decoder "into_map (into_map (into_map into_string '''') []) []" "[]"
  "\<lambda>doc. gomap_wf doc \<and> list_all (\<lambda>(k, cs). valid_utf8 k \<and> (gomap_wf cs \<and> list_all (\<lambda>(k, e). valid_utf8 k \<and>
     (gomap_wf e \<and> list_all (\<lambda>(k, s). valid_utf8 k \<and> valid_utf8 s) e)) cs)) doc"
  by (rule utf8_clusters.map_decoder)

lemmas decode_document_utf8 = utf8_document.unmarshal_sound[folded decode_document_def]
lemma good_read_document: "read_document s = Some doc \<Longrightarrow> single_spelling doc \<Longrightarrow> good_document doc"
proof -
  assume r: "read_document s = Some doc" and sp: "single_spelling doc"
  have "doc = [] \<or> (\<exists>bytes. decode_document bytes = Some doc)"
    using r by (auto simp: read_document_def split: option.splits if_splits)
  then show ?thesis
  proof
    assume "\<exists>bytes. decode_document bytes = Some doc"
    then have u: "gomap_wf doc" "list_all (\<lambda>(k, cs). valid_utf8 k \<and> (gomap_wf cs \<and> list_all (\<lambda>(k, e). valid_utf8 k \<and>
        (gomap_wf e \<and> list_all (\<lambda>(k, s). valid_utf8 k \<and> valid_utf8 s) e)) cs)) doc"
      using decode_document_utf8 by blast+
    have "good_clusters cs" if "(p, cs) \<in> set doc" for p cs
      unfolding good_clusters_def good_entry_def list_all_iff
      using that u(2) sp unfolding single_spelling_def list_all_iff by (fastforce simp del: fold_name.simps)
    with u show ?thesis by (auto simp: good_document_def list_all_iff)
  qed (simp add: good_document_def)
qed

section \<open>What the request controller adds\<close>

definition kubeconfig_in :: "(string \<Rightarrow> api_error + Secret) \<Rightarrow> KrknOperatorTarget \<Rightarrow> string option" where
  "kubeconfig_in secrets t =
    (case secrets (ots_SecretUUID (ot_Spec t)) of Inl e \<Rightarrow> None
     | Inr s \<Rightarrow> (case map_of (sec_Data s) ''kubeconfig'' of None \<Rightarrow> None
        | Some d \<Rightarrow> (case UnmarshalSecretData d of Inl e \<Rightarrow> None | Inr k \<Rightarrow> Some k)))"

abbreviation target_cluster :: "KrknOperatorTarget \<Rightarrow> string" where
  "target_cluster t \<equiv> ots_ClusterName (ot_Spec t)"

fun delivered :: "(string \<Rightarrow> api_error + Secret) \<Rightarrow> KrknOperatorTarget list \<Rightarrow> (string, (string, string) gomap) gomap \<Rightarrow>
    (string, (string, string) gomap) gomap" where
  "delivered secrets [] clusters = clusters"
| "delivered secrets (t # targets) clusters =
    (case if ot_Ready t then kubeconfig_in secrets t else None of
       None \<Rightarrow> delivered secrets targets clusters
     | Some k \<Rightarrow> delivered secrets targets (AList.update (target_cluster t) (cluster_entry t k) clusters))"

lemma add_targets_delivered:
  assumes "\<And>n. tg_GetSecret C (tg_OperatorNamespace C) n w = (secrets n, w)"
  shows "add_targets C targets clusters w = (delivered secrets targets clusters, w)"
proof -
  have "target_kubeconfig C t w = (kubeconfig_in secrets t, w)" for t
    using assms by (auto simp: target_kubeconfig_def kubeconfig_in_def split: option.splits sum.splits)
  then show ?thesis by (induction targets arbitrary: clusters) (auto split: option.splits)
qed

text \<open>The kubeconfigs that the ready targets of a cluster name have, in the order of the targets; the last one is delivered.\<close>

definition offers :: "(string \<Rightarrow> api_error + Secret) \<Rightarrow> KrknOperatorTarget list \<Rightarrow> string \<Rightarrow> string list" where
  "offers secrets targets c = List.map_filter (kubeconfig_in secrets) (filter (\<lambda>t. ot_Ready t \<and> target_cluster t = c) targets)"

lemma delivered_kubeconfig:
  "map_option kubeconfig_of (map_of (delivered secrets targets cs) c) =
   (if offers secrets targets c = [] then map_option kubeconfig_of (map_of cs c) else Some (last (offers secrets targets c)))"
proof (induction targets arbitrary: cs)
  case (Cons t targets)
  have "kubeconfig_of (cluster_entry t k) = k" for k by (simp add: kubeconfig_of_def cluster_entry_def)
  with Cons show ?case by (auto simp: offers_def List.map_filter_def alist.get_put iff del: map_option_eq_Some split: option.splits)
qed (simp add: offers_def List.map_filter_def)

section \<open>What a reader finds afterwards\<close>

definition utf8_target :: "KrknOperatorTarget \<Rightarrow> bool" where
  "utf8_target t \<longleftrightarrow> valid_utf8 (ots_ClusterName (ot_Spec t)) \<and> valid_utf8 (ots_ClusterAPIURL (ot_Spec t))"

lemma good_cluster_entry:
  assumes "utf8_target t" "valid_utf8 k"
  shows "good_entry (cluster_entry t k)"
proof -
  have "valid_utf8 ''cluster-name''" "valid_utf8 ''cluster-api''" "valid_utf8 ''kubeconfig''"
    by (rule valid_utf8_ascii, code_simp)+
  moreover have "fold_name ''cluster-name'' \<noteq> fold_name ''kubeconfig''" "fold_name ''cluster-api'' \<noteq> fold_name ''kubeconfig''"
    by code_simp+
  ultimately show ?thesis
    using assms by (simp add: good_entry_def cluster_entry_def utf8_target_def gomap_wf_def)
qed

lemma kubeconfig_in_utf8: "kubeconfig_in secrets t = Some k \<Longrightarrow> valid_utf8 k"
  by (auto simp: kubeconfig_in_def split: sum.splits option.splits dest: UnmarshalSecretData_utf8)

lemma good_delivered: "good_clusters cs \<Longrightarrow> list_all utf8_target targets \<Longrightarrow> good_clusters (delivered secrets targets cs)"
proof (induction targets arbitrary: cs)
  case (Cons t targets)
  have "good_clusters (AList.update (target_cluster t) (cluster_entry t k) cs)" if "kubeconfig_in secrets t = Some k" for k
    using Cons.prems good_cluster_entry[of t k] kubeconfig_in_utf8[OF that]
    by (auto simp: good_clusters_def alist.wf_put utf8_target_def intro: list_all_update)
  with Cons show ?case by (auto split: option.splits if_splits)
qed simp

text \<open>The document the controller writes, and a reader of the secret that holds it.\<close>

definition document_after :: "string \<Rightarrow> (string \<Rightarrow> api_error + Secret) \<Rightarrow> KrknOperatorTarget list \<Rightarrow> managed_clusters \<Rightarrow> managed_clusters" where
  "document_after operator secrets targets doc =
     AList.update operator (delivered secrets targets (get_list doc operator)) doc"

lemma good_document_after:
  assumes "good_document doc" "valid_utf8 operator" "list_all utf8_target targets"
  shows "good_document (document_after operator secrets targets doc)"
proof -
  have "good_clusters (get_list doc operator)"
    using good_document_lookup[OF assms(1)] by (auto simp: get_list_def good_clusters_def split: option.splits)
  from good_delivered[OF this assms(3), of secrets] show ?thesis
    using assms by (auto simp: document_after_def good_document_def alist.wf_put intro: list_all_update)
qed

lemma read_written:
  assumes "good_document doc" "map_of (sec_Data s) ''managed-clusters'' = Some (encode_managed_clusters doc)"
    "sc_GetSecret S (sc_Namespace S) target v = (Inr s, v')"
  shows "case map_option kubeconfig_of (Option.bind (map_of doc p) (\<lambda>cs. map_of cs c)) of
      Some k \<Rightarrow> getKubeconfigFromProvider S target p c v = (Inr k, v')
    | None \<Rightarrow> getKubeconfigFromProvider S target p c v \<in> {(Inl (ProviderMissing p), v'), (Inl (ClusterMissing c p), v')}"
proof -
  obtain d where d: "decode_managed_clusters (encode_managed_clusters doc) = Some d"
    "lookup_kubeconfig d p c = map_option kubeconfig_of (Option.bind (map_of doc p) (\<lambda>cs. map_of cs c))"
    using lookup_decoded[OF assms(1)] by blast
  show ?thesis
    unfolding d(2)[symmetric] using assms(2,3) d(1)
    by (auto simp: getKubeconfigFromProvider_def lookup_kubeconfig_def split: option.splits)
qed

text \<open>What a reader finds for a provider and a cluster: for the operator itself the last offer, otherwise what the document held.\<close>

definition readable ::
  "string \<Rightarrow> (string \<Rightarrow> api_error + Secret) \<Rightarrow> KrknOperatorTarget list \<Rightarrow> managed_clusters \<Rightarrow> string \<Rightarrow> string \<Rightarrow> string option" where
  "readable operator secrets targets doc p c =
    (if p = operator \<and> offers secrets targets c \<noteq> [] then Some (last (offers secrets targets c))
     else map_option kubeconfig_of (Option.bind (map_of doc p) (\<lambda>cs. map_of cs c)))"

lemma readable_document_after:
  "map_option kubeconfig_of (Option.bind (map_of (document_after operator secrets targets doc) p) (\<lambda>cs. map_of cs c)) =
   readable operator secrets targets doc p c"
  using delivered_kubeconfig[of secrets targets "get_list doc operator" c]
  by (auto simp: document_after_def readable_def alist.get_put get_list_def split: option.splits if_splits)

text \<open>Whatever branch the write takes, the secret it ends in holds the document of the first read.\<close>

definition found_secret :: "api_error + Secret \<Rightarrow> Secret option" where
  "found_secret g = (case g of Inl e \<Rightarrow> None | Inr s \<Rightarrow> Some s)"

definition carries :: "string \<Rightarrow> target_event list \<Rightarrow> bool" where
  "carries bytes log \<longleftrightarrow> (\<exists>s. log \<noteq> [] \<and> last log = WroteSecret s \<and> map_of (sec_Data s) ''managed-clusters'' = Some bytes)"

lemma carries_snoc [simp]:
  "carries bytes (log @ [WroteSecret s]) \<longleftrightarrow> map_of (sec_Data s) ''managed-clusters'' = Some bytes"
  by (simp add: carries_def)

lemma update_secret_carries:
  assumes "\<And>s s'. tg_OwnSecret C r s = Inr s' \<Longrightarrow> sec_Data s' = sec_Data s"
    "update_secret (observed C) r what bytes s wl = (None, wl')"
  shows "carries bytes (snd wl')"
  using assms
  by (cases wl) (auto simp: update_secret_def put_document_def did_def alist.get_put
      split: option.splits sum.splits prod.splits if_splits)

lemma create_secret_carries:
  assumes own: "\<And>s s'. tg_OwnSecret C r s = Inr s' \<Longrightarrow> sec_Data s' = sec_Data s"
    and "create_secret (observed C) r bytes wl = (None, wl')"
  shows "carries bytes (snd wl')"
proof -
  have u: "update_secret (observed C) r what bytes s wl = (None, wl') \<Longrightarrow> carries bytes (snd wl')" for what s wl
    using own by (rule update_secret_carries)
  show ?thesis
    using assms(2) own[of "new_secret (observed C) r bytes"]
    by (cases wl) (auto simp: create_secret_def did_def new_secret_def
      split: option.splits sum.splits prod.splits if_splits dest: u)
qed

lemma write_carries:
  assumes reads: "\<And>n. tg_GetSecret C (tg_OperatorNamespace C) n w = (secrets n, w)"
    and own: "\<And>s s'. tg_OwnSecret C r s = Inr s' \<Longrightarrow> sec_Data s' = sec_Data s"
    and doc: "read_document (found_secret (secrets (tr_UUID r))) = Some doc"
    and ok: "writeManagedClustersSecret (observed C) r targets (w, []) = (None, wl')"
  shows "carries (encode_managed_clusters (document_after (tg_OperatorName C) secrets targets doc)) (snd wl')"
proof -
  have rd: "tg_GetSecret (observed C) (tg_OperatorNamespace (observed C)) n (w, []) = (secrets n, w, [])" for n
    using reads by (simp add: did_def)
  note add = add_targets_delivered[of "observed C" "(w, [])" secrets, OF rd]
  show ?thesis
  proof (cases "secrets (tr_UUID r)")
    case (Inl e)
    then have "doc = []" using doc by (simp add: found_secret_def read_document_def)
    moreover from Inl ok rd add have "create_secret (observed C) r
        (encode_managed_clusters [(tg_OperatorName C, delivered secrets targets [])]) (w, []) = (None, wl')"
      by (auto simp: writeManagedClustersSecret_def split: if_splits)
    ultimately show ?thesis
      using create_secret_carries[OF own] by (simp add: document_after_def get_list_def)
  next
    case (Inr s)
    with doc ok rd add have "update_secret (observed C) r ''failed to update Secret''
        (encode_managed_clusters (document_after (tg_OperatorName C) secrets targets doc)) s (w, []) = (None, wl')"
      by (auto simp: writeManagedClustersSecret_def found_secret_def document_after_def)
    with own show ?thesis by (rule update_secret_carries)
  qed
qed

text \<open>
  C2. What the target request controller has written, the scenario run controller reads: once the managed-clusters secret of a request
  has been written, a lookup for a provider and a cluster gives, if the provider is the operator and a ready target of that cluster
  name has a kubeconfig in its own secret, the kubeconfig of the last such target of the list; in every other case what the document
  that was read before the write held for them, be it of another provider or an older entry of the operator; and an error that says
  that the provider or the cluster is missing if it held nothing. A secret that was not there at the read counts as an empty document, also if
  another operator creates it before the write: what that operator wrote is then not found any more. The
  assumptions are that the secrets do not change while they are read, that the owner reference leaves the data alone, that names and URLs
  are valid UTF-8 (the API server speaks JSON), and that the existing document has no second spelling of its member.
\<close>

theorem written_kubeconfigs_are_read_back:
  assumes "\<And>n. tg_GetSecret C (tg_OperatorNamespace C) n w = (secrets n, w)"
    and "\<And>s s'. tg_OwnSecret C r s = Inr s' \<Longrightarrow> sec_Data s' = sec_Data s"
    and "read_document (found_secret (secrets (tr_UUID r))) = Some doc"
    and "single_spelling doc" "valid_utf8 (tg_OperatorName C)" "list_all utf8_target targets"
    and "writeManagedClustersSecret (observed C) r targets (w, []) = (None, w', log)"
    and "last log = WroteSecret s" "sc_GetSecret S (sc_Namespace S) (tr_UUID r) v = (Inr s, v')"
  shows "case readable (tg_OperatorName C) secrets targets doc p c of
      Some k \<Rightarrow> getKubeconfigFromProvider S (tr_UUID r) p c v = (Inr k, v')
    | None \<Rightarrow> getKubeconfigFromProvider S (tr_UUID r) p c v \<in> {(Inl (ProviderMissing p), v'), (Inl (ClusterMissing c p), v')}"
proof -
  let ?after = "document_after (tg_OperatorName C) secrets targets doc"
  have good: "good_document ?after"
    using good_document_after good_read_document assms(3-6) by blast
  have bytes: "map_of (sec_Data s) ''managed-clusters'' = Some (encode_managed_clusters ?after)"
    using write_carries[OF assms(1-3,7)] assms(8) by (auto simp: carries_def)
  show ?thesis using read_written[OF good bytes assms(9)] unfolding readable_document_after .
qed

section \<open>Concrete requests\<close>

definition ready_target :: KrknOperatorTarget where
  "ready_target = \<lparr>ot_meta = meta_of ''t1'' ''krkn'' [],
     ot_Spec = \<lparr>ots_UUID = ''t1'', ots_ClusterName = ''c1'', ots_ClusterAPIURL = ''https://c1:6443'', ots_SecretType = ''kubeconfig'',
       ots_SecretUUID = ''s1'', ots_CABundle = '''', ots_InsecureSkipTLSVerify = False\<rparr>,
     ot_Ready = True, ot_LastUpdated = 1\<rparr>"

definition target_secret :: Secret where
  "target_secret = \<lparr>sec_meta = meta_of ''s1'' ''krkn'' [], sec_Type = '''', sec_Data = [(''kubeconfig'', MarshalSecretData ''b64-c1'')]\<rparr>"

definition document_secret :: "managed_clusters \<Rightarrow> Secret" where
  "document_secret doc = \<lparr>sec_meta = meta_of ''req-1'' ''krkn'' [], sec_Type = '''',
     sec_Data = [(''managed-clusters'', encode_managed_clusters doc)]\<rparr>"

definition other_document :: managed_clusters where
  "other_document = [(''acm'', [(''c9'', [(''kubeconfig'', ''b64-c9'')])])]"

definition sample_store :: "request_store target_client" where
  "sample_store = store_client ''krkn-operator'' [] [ready_target] (\<lambda>n. if n = ''s1'' then Some target_secret else None)"

definition secret_reader :: "Secret option \<Rightarrow> nat scenario_client" where
  "secret_reader s = (sample_scenario_client (blank_run []) (\<lambda>_. ''Running'') None)
     \<lparr>sc_GetSecret := (\<lambda>ns n w. (case s of None \<Rightarrow> Inl NotFound | Some x \<Rightarrow> Inr x, w))\<rparr>"

definition stored_secrets :: "Secret option \<Rightarrow> string \<Rightarrow> api_error + Secret" where
  "stored_secrets s n = (case (if n = ''req-1'' then s else if n = ''s1'' then Some target_secret else None) of
     None \<Rightarrow> Inl NotFound | Some x \<Rightarrow> Inr x)"

theorem written_kubeconfigs_are_read_back_witness:
  "\<exists>w' log s. writeManagedClustersSecret (observed sample_store) (pending_request []) [ready_target]
       ((pending_request [], Some (document_secret other_document)), []) = (None, w', log) \<and> last log = WroteSecret s \<and>
     getKubeconfigFromProvider (secret_reader (Some s)) ''req-1'' ''krkn-operator'' ''c1'' 0 = (Inr ''b64-c1'', 0) \<and>
     getKubeconfigFromProvider (secret_reader (Some s)) ''req-1'' ''acm'' ''c9'' 0 = (Inr ''b64-c9'', 0)"
proof -
  let ?r = "pending_request []" and ?w = "(pending_request [], Some (document_secret other_document))"
  let ?W = "writeManagedClustersSecret (observed sample_store) ?r [ready_target] (?w, [])"
  obtain res w' log where W: "?W = (res, w', log)" by (metis surj_pair)
  have "fst ?W = None \<and> (case last (snd (snd ?W)) of WroteSecret s \<Rightarrow> True | _ \<Rightarrow> False)" by code_simp
  with W obtain s where s: "?W = (None, w', log)" "last log = WroteSecret s" by (auto split: target_event.splits)
  have reads: "tg_GetSecret sample_store (tg_OperatorNamespace sample_store) n ?w = (stored_secrets (Some (document_secret other_document)) n, ?w)" for n
    by (simp add: sample_store_def store_client_def stored_secrets_def pending_request_def)
  have own: "\<And>x x'. tg_OwnSecret sample_store ?r x = Inr x' \<Longrightarrow> sec_Data x' = sec_Data x"
    by (simp add: sample_store_def store_client_def)
  have doc: "read_document (found_secret (stored_secrets (Some (document_secret other_document)) (tr_UUID ?r))) = Some other_document"
    "single_spelling other_document" "valid_utf8 (tg_OperatorName sample_store)" "list_all utf8_target [ready_target]"
    by code_simp+
  have S: "sc_GetSecret (secret_reader (Some s)) (sc_Namespace (secret_reader (Some s))) (tr_UUID ?r) 0 = (Inr s, 0)"
    by (simp add: secret_reader_def)
  note T = written_kubeconfigs_are_read_back[OF reads own doc s S]
  have "tr_UUID ?r = ''req-1''"
    "readable (tg_OperatorName sample_store) (stored_secrets (Some (document_secret other_document))) [ready_target] other_document ''krkn-operator'' ''c1'' = Some ''b64-c1''"
    "readable (tg_OperatorName sample_store) (stored_secrets (Some (document_secret other_document))) [ready_target] other_document ''acm'' ''c9'' = Some ''b64-c9''"
    by code_simp+
  with T[of "''krkn-operator''" "''c1''"] T[of "''acm''" "''c9''"] s show ?thesis by auto
qed

definition racing_store :: "request_store target_client" where
  "racing_store = sample_store\<lparr>tg_CreateSecret := (\<lambda>x (r, s). (Some AlreadyExists, r, Some (document_secret other_document)))\<rparr>"

text \<open>
  A lost creation race drops the clusters of the winner: another operator creates the secret between
  the read and the creation, and its document is overwritten by the one computed for an empty secret, not merged.
  Before the write a reader finds the other operator's cluster; afterwards the provider is unknown.
\<close>

theorem writeManagedClustersSecret_race_drops_clusters:
  "fst (getKubeconfigFromProvider (secret_reader (Some (document_secret other_document))) ''req-1'' ''acm'' ''c9'' 0) = Inr ''b64-c9'' \<and>
   (case writeManagedClustersSecret racing_store (pending_request []) [ready_target] (pending_request [], None) of
      (res, r, s) \<Rightarrow> res = None \<and>
        fst (getKubeconfigFromProvider (secret_reader s) ''req-1'' ''acm'' ''c9'' 0) = Inl (ProviderMissing ''acm''))"
  by code_simp

end
