(* ===== verification/Provider_Config.thy ===== *)
theory Provider_Config
  imports Target_Protocol
begin

text \<open>
  The controller of provider configuration requests
  (\<open>src/internal/controller/krknoperatortargetproviderconfig_controller.go\<close>): the second instance of the
  contribution protocol. Each operator enters a marker once, and the request is completed when enough
  providers have contributed.
\<close>

section \<open>The controller\<close>

record 'w config_client =
  cf_OperatorName :: string
  cf_OperatorNamespace :: string
  cf_Get :: "string \<Rightarrow> string \<Rightarrow> 'w \<Rightarrow> (api_error + KrknOperatorTargetProviderConfig) \<times> 'w"
  cf_Update :: "KrknOperatorTargetProviderConfig \<Rightarrow> 'w \<Rightarrow> api_error option \<times> 'w"
  cf_UpdateStatus :: "KrknOperatorTargetProviderConfig \<Rightarrow> 'w \<Rightarrow> api_error option \<times> 'w"
  cf_ListProviders :: "'w \<Rightarrow> (api_error + KrknOperatorTargetProvider list) \<times> 'w"
  cf_ListConfigs :: "string \<Rightarrow> 'w \<Rightarrow> (api_error + KrknOperatorTargetProviderConfig list) \<times> 'w"
  cf_Delete :: "KrknOperatorTargetProviderConfig \<Rightarrow> 'w \<Rightarrow> api_error option \<times> 'w"
  cf_Now :: "'w \<Rightarrow> time \<times> 'w"
  cf_ErrorText :: "api_error \<Rightarrow> string"

type_synonym config_result = "ctrl_result \<times> api_error option"

definition label_config :: "KrknOperatorTargetProviderConfig \<Rightarrow> KrknOperatorTargetProviderConfig" where
  "label_config c = c\<lparr>pc_meta := (pc_meta c)\<lparr>Labels := AList.update UUIDLabel (pc_UUID c) (Labels (pc_meta c))\<rparr>\<rparr>"

definition ensureUUIDLabel :: "'w config_client \<Rightarrow> KrknOperatorTargetProviderConfig \<Rightarrow> 'w \<Rightarrow> api_error option \<times> 'w" where
  "ensureUUIDLabel C c w =
    (if map_of (Labels (pc_meta c)) UUIDLabel = None then cf_Update C (label_config c) w else (None, w))"

definition init_config :: "time \<Rightarrow> KrknOperatorTargetProviderConfig \<Rightarrow> KrknOperatorTargetProviderConfig" where
  "init_config now c = c\<lparr>pc_Status := ''pending'', pc_Created := Some now\<rparr>"

definition initializeStatus :: "'w config_client \<Rightarrow> KrknOperatorTargetProviderConfig \<Rightarrow> 'w \<Rightarrow> api_error option \<times> 'w" where
  "initializeStatus C c w =
    (if pc_Status c = '''' then (case cf_Now C w of (now, w') \<Rightarrow> cf_UpdateStatus C (init_config now c) w') else (None, w))"

definition complete_config :: "time \<Rightarrow> KrknOperatorTargetProviderConfig \<Rightarrow> KrknOperatorTargetProviderConfig" where
  "complete_config now c = c\<lparr>pc_Status := ''Completed'', pc_Completed := Some now\<rparr>"

definition checkCompletion ::
  "'w config_client \<Rightarrow> KrknOperatorTargetProviderConfig \<Rightarrow> KrknOperatorTargetProvider list \<Rightarrow> 'w \<Rightarrow> api_error option \<times> 'w" where
  "checkCompletion C c providers w =
    (if all_contributed providers (pc_ConfigData c)
     then (case cf_Now C w of (now, w') \<Rightarrow> cf_UpdateStatus C (complete_config now c) w')
     else (None, w))"

text \<open>The empty contribution of this operator.\<close>

definition config_marker :: "string \<Rightarrow> ProviderConfigData" where
  "config_marker ns = \<lparr>pcd_ConfigMap = '''', pcd_Namespace = ns, pcd_ConfigSchema = ''''\<rparr>"

definition config_failure :: "api_error \<Rightarrow> config_result" where
  "config_failure e = (no_requeue, Some e)"

definition guarded_config :: "'w config_client \<Rightarrow> ctrl_result \<Rightarrow> ('w \<Rightarrow> api_error option \<times> 'w) \<Rightarrow> ('w, config_result, unit) eff" where
  "guarded_config C retry m = call_opt m (\<lambda>e. if isConflictError (cf_ErrorText C) e then (retry, None) else config_failure e)"

definition config_created :: "KrknOperatorTargetProviderConfig \<Rightarrow> time option" where
  "config_created c = (if pc_Status c = ''Completed'' then pc_Created c else None)"

definition cleanup_configs :: "'w config_client \<Rightarrow> ('w, config_result, unit) eff" where
  "cleanup_configs C w =
     (Inr (), snd (CleanupOldResources (cf_ListConfigs C (cf_OperatorNamespace C)) (cf_Now C) (cf_Delete C)
        (cf_OperatorNamespace C) CleanupThresholdSeconds config_created w))"

text \<open>Steps 5.5 to 5.7; the two jumps to the completion check are the branches that write nothing.\<close>

definition contribute_config ::
  "'w config_client \<Rightarrow> ('w, config_result, KrknOperatorTargetProviderConfig) eff \<Rightarrow> KrknOperatorTargetProviderConfig \<Rightarrow>
     ('w, config_result, unit) eff" where
  "contribute_config C refetch c =
    bind_eff (call (checkProviderActive (cf_ListProviders C) (cf_OperatorName C)) config_failure) (\<lambda>ap.
      if \<not> fst ap then ret ()
      else if map_of (pc_ConfigData c) (cf_OperatorName C) \<noteq> None then ret ()
      else
        bind_eff (guarded_config C requeue_now (cf_UpdateStatus C
          (put_config_data (cf_OperatorName C) (config_marker (cf_OperatorNamespace C)) c))) (\<lambda>_.
        bind_eff refetch (\<lambda>_. ret ())))"

definition Reconcile :: "'w config_client \<Rightarrow> string \<Rightarrow> string \<Rightarrow> 'w \<Rightarrow> config_result \<times> 'w" where
  "Reconcile C ns name =
    (let refetch = call (cf_Get C ns name) config_failure in
     finish
      (bind_eff (call (cf_Get C ns name) (\<lambda>e. if e = NotFound then (no_requeue, None) else config_failure e)) (\<lambda>c0.
       if pc_Status c0 = ''Completed'' then stop (no_requeue, None)
       else
       bind_eff (call (cf_ListProviders C) config_failure) (\<lambda>providers.
       bind_eff (guarded_config C (requeue_after 100000000) (ensureUUIDLabel C c0)) (\<lambda>_.
       bind_eff refetch (\<lambda>c1.
       bind_eff (guarded_config C (requeue_after 100000000) (initializeStatus C c1)) (\<lambda>_.
       bind_eff refetch (\<lambda>c2.
       bind_eff (contribute_config C refetch c2) (\<lambda>_.
       bind_eff refetch (\<lambda>c3.
       bind_eff (guarded_config C (requeue_after 100000000) (checkCompletion C c3 providers)) (\<lambda>_.
       cleanup_configs C)))))))))))"

section \<open>The protocol\<close>

text \<open>The same changes as of a target request, and the second discharge of the laws of the protocol.\<close>

inductive config_step :: "KrknOperatorTargetProvider list \<Rightarrow> KrknOperatorTargetProviderConfig \<Rightarrow> KrknOperatorTargetProviderConfig \<Rightarrow> bool"
  for ps where
  label: "map_of (Labels (pc_meta c)) UUIDLabel = None \<Longrightarrow> config_step ps c (label_config c)"
| init: "pc_Status c = '''' \<Longrightarrow> config_step ps c (init_config now c)"
| contribute: "operator \<in> active_operators ps \<Longrightarrow> map_of (pc_ConfigData c) operator = None \<Longrightarrow>
    config_step ps c (put_config_data operator d c)"
| complete: "all_contributed ps (pc_ConfigData c) \<Longrightarrow> config_step ps c (complete_config now c)"

inductive_cases config_stepE: "config_step ps c c'"

lemmas config_changes = label_config_def init_config_def put_config_data_def complete_config_def

interpretation config: contribution_protocol "config_step ps" pc_Status pc_ConfigData pc_UUID "active_operators ps"
  "all_contributed ps" for ps
  by unfold_locales (auto simp: config_changes alist.get_put alist.wf_put elim!: config_stepE split: if_splits)

section \<open>A run on a store without failures\<close>

definition operator_active :: "KrknOperatorTargetProvider list \<Rightarrow> string \<Rightarrow> bool" where
  "operator_active ps operator = (case List.find (\<lambda>p. op_OperatorName p = operator) ps of None \<Rightarrow> False | Some p \<Rightarrow> op_Active p)"

definition config_store :: "string \<Rightarrow> string \<Rightarrow> KrknOperatorTargetProvider list \<Rightarrow> time \<Rightarrow> KrknOperatorTargetProviderConfig config_client" where
  "config_store operator ns ps now = \<lparr>cf_OperatorName = operator, cf_OperatorNamespace = ns,
     cf_Get = (\<lambda>_ _ c. (Inr c, c)), cf_Update = (\<lambda>c' c. (None, c')), cf_UpdateStatus = (\<lambda>c' c. (None, c')),
     cf_ListProviders = (\<lambda>c. (Inr ps, c)), cf_ListConfigs = (\<lambda>_ c. (Inr [], c)), cf_Delete = (\<lambda>_ c. (None, c)),
     cf_Now = (\<lambda>c. (now, c)), cf_ErrorText = (\<lambda>_. ''error'')\<rparr>"

text \<open>What a run is to do, as a function on the request.\<close>

definition labelled :: "KrknOperatorTargetProviderConfig \<Rightarrow> KrknOperatorTargetProviderConfig" where
  "labelled c = (if map_of (Labels (pc_meta c)) UUIDLabel = None then label_config c else c)"

definition initialized :: "time \<Rightarrow> KrknOperatorTargetProviderConfig \<Rightarrow> KrknOperatorTargetProviderConfig" where
  "initialized now c = (if pc_Status c = '''' then init_config now c else c)"

definition contributed :: "string \<Rightarrow> string \<Rightarrow> KrknOperatorTargetProvider list \<Rightarrow> KrknOperatorTargetProviderConfig \<Rightarrow> KrknOperatorTargetProviderConfig" where
  "contributed operator ns ps c =
    (if operator_active ps operator \<and> map_of (pc_ConfigData c) operator = None
     then put_config_data operator (config_marker ns) c else c)"

definition checked :: "KrknOperatorTargetProvider list \<Rightarrow> time \<Rightarrow> KrknOperatorTargetProviderConfig \<Rightarrow> KrknOperatorTargetProviderConfig" where
  "checked ps now c = (if all_contributed ps (pc_ConfigData c) then complete_config now c else c)"

definition settled :: "string \<Rightarrow> string \<Rightarrow> KrknOperatorTargetProvider list \<Rightarrow> time \<Rightarrow> KrknOperatorTargetProviderConfig \<Rightarrow> KrknOperatorTargetProviderConfig" where
  "settled operator ns ps now c =
    (if pc_Status c = ''Completed'' then c
     else checked ps now (contributed operator ns ps (initialized now (labelled c))))"

lemma Reconcile_store:
  "Reconcile (config_store operator ns ps now) rns name c = ((no_requeue, None), settled operator ns ps now c)"
proof -
  let ?C = "config_store operator ns ps now"
  have g: "guarded_config ?C q (\<lambda>w. (None, f w)) = (\<lambda>w. (Inr (), f w))" for q f
    by (simp add: guarded_config_def call_opt_def fun_eq_iff)
  have l: "ensureUUIDLabel ?C c = (\<lambda>w. (None, if map_of (Labels (pc_meta c)) UUIDLabel = None then label_config c else w))"
    "initializeStatus ?C c = (\<lambda>w. (None, if pc_Status c = '''' then init_config now c else w))"
    "Provider_Config.checkCompletion ?C c qs = (\<lambda>w. (None, if all_contributed qs (pc_ConfigData c) then complete_config now c else w))" for c qs
    by (auto simp: ensureUUIDLabel_def initializeStatus_def checkCompletion_def config_store_def fun_eq_iff)
  have p: "checkProviderActive (cf_ListProviders ?C) (cf_OperatorName ?C) = (\<lambda>w. (Inr (operator_active ps operator, ps), w))"
    by (auto simp: checkProviderActive_def operator_active_def config_store_def fun_eq_iff split: option.splits)
  have u: "cf_UpdateStatus ?C c' = (\<lambda>w. (None, c'))" for c' by (simp add: config_store_def)
  have r: "call (cf_Get ?C rns name) h = (\<lambda>w. (Inr w, w))" "call (cf_ListProviders ?C) h = (\<lambda>w. (Inr ps, w))" for h
    by (simp_all add: call_def config_store_def fun_eq_iff)
  have k: "cleanup_configs ?C = (\<lambda>w. (Inr (), w))"
    by (simp add: cleanup_configs_def CleanupOldResources_def config_store_def fun_eq_iff)
  have t: "contribute_config ?C (\<lambda>w. (Inr w, w)) c = (\<lambda>w. (Inr (), if operator_active ps operator \<and> map_of (pc_ConfigData c) operator = None
      then put_config_data operator (config_marker ns) c else w))" for c
    unfolding contribute_config_def p u
    by (auto simp: guarded_config_def call_opt_def call_def bind_eff_def ret_def config_store_def fun_eq_iff)
  show ?thesis
    unfolding Reconcile_def Let_def l g r k t
    by (simp add: finish_def bind_eff_def stop_def settled_def checked_def contributed_def initialized_def labelled_def)
qed

lemma operator_active_sound: "operator_active ps operator \<Longrightarrow> operator \<in> active_operators ps"
  by (auto simp: operator_active_def active_operators_def split: option.splits dest!: find_SomeD)

lemma settled_steps: "(config_step ps)\<^sup>*\<^sup>* c (settled operator ns ps now c)"
proof -
  have "(config_step ps)\<^sup>*\<^sup>* c (labelled c)" "(config_step ps)\<^sup>*\<^sup>* c (initialized now c)" "(config_step ps)\<^sup>*\<^sup>* c (checked ps now c)"
    "(config_step ps)\<^sup>*\<^sup>* c (contributed operator ns ps c)" for c
    by (auto simp: labelled_def initialized_def checked_def contributed_def
        intro!: r_into_rtranclp config_step.intros operator_active_sound)
  note steps = this
  have "(config_step ps)\<^sup>*\<^sup>* c (checked ps now (contributed operator ns ps (initialized now (labelled c))))"
    by (rule rtranclp_trans[OF rtranclp_trans[OF rtranclp_trans[OF steps(1) steps(2)] steps(4)] steps(3)])
  then show ?thesis unfolding settled_def by simp
qed

text \<open>Runs of the controllers of several operators, one after the other.\<close>

definition reconcile_runs ::
  "KrknOperatorTargetProvider list \<Rightarrow> string \<Rightarrow> string \<Rightarrow> (string \<times> time) list \<Rightarrow> KrknOperatorTargetProviderConfig \<Rightarrow> KrknOperatorTargetProviderConfig" where
  "reconcile_runs ps ns name runs c =
     foldl (\<lambda>c (operator, now). snd (Reconcile (config_store operator ns ps now) ns name c)) c runs"

lemma reconcile_runs_snoc [simp]:
  "reconcile_runs ps ns name (runs @ [(operator, now)]) c = settled operator ns ps now (reconcile_runs ps ns name runs c)"
  by (simp add: reconcile_runs_def Reconcile_store)

lemma reconcile_runs_steps: "(config_step ps)\<^sup>*\<^sup>* c (reconcile_runs ps ns name runs c)"
proof (induction runs rule: rev_induct)
  case (snoc x runs)
  then show ?case using settled_steps by (cases x) (auto intro: rtranclp_trans)
qed (simp add: reconcile_runs_def)

lemma operator_active_complete:
  "distinct (map op_OperatorName ps) \<Longrightarrow> operator \<in> active_operators ps \<Longrightarrow> operator_active ps operator"
proof (induction ps)
  case (Cons p ps)
  then show ?case
    by (cases "op_OperatorName p = operator") (auto simp: operator_active_def active_operators_def image_iff split: if_splits)
qed (simp add: active_operators_def)

lemma all_contributed_iff:
  assumes "distinct (map op_OperatorName ps)" "filter op_Active ps \<noteq> []" "gomap_wf m" "dom (map_of m) \<subseteq> active_operators ps"
  shows "all_contributed ps m \<longleftrightarrow> active_operators ps \<subseteq> dom (map_of m)"
proof
  assume "all_contributed ps m"
  with all_contributed_sound[OF this assms(3)] assms(4) show "active_operators ps \<subseteq> dom (map_of m)"
    by (auto simp: active_operators_def dom_map_of_conv_image_fst)
next
  let ?act = "filter op_Active ps"
  assume "active_operators ps \<subseteq> dom (map_of m)"
  then have "card (active_operators ps) \<le> card (fst ` set m)" by (simp add: card_mono dom_map_of_conv_image_fst)
  moreover have "distinct (map op_OperatorName ?act)" using assms(1) by (simp add: distinct_map_filter)
  then have "card (active_operators ps) = length ?act"
    unfolding active_operators_def by (metis distinct_card length_map list.set_map)
  moreover have "card (fst ` set m) \<le> length m" by (metis card_length length_map list.set_map)
  ultimately show "all_contributed ps m"
    using assms(2) by (cases ?act) (auto simp: all_contributed_def countActiveProviders_def Let_def)
qed

definition tracks :: "KrknOperatorTargetProvider list \<Rightarrow> string set \<Rightarrow> KrknOperatorTargetProviderConfig \<Rightarrow> bool" where
  "tracks ps S c \<longleftrightarrow> gomap_wf (pc_ConfigData c) \<and> dom (map_of (pc_ConfigData c)) = S \<inter> active_operators ps \<and>
     (pc_Status c = ''Completed'' \<longleftrightarrow> active_operators ps \<subseteq> S)"

lemma settled_tracks:
  assumes "distinct (map op_OperatorName ps)" "filter op_Active ps \<noteq> []" "tracks ps S c"
  shows "tracks ps (insert operator S) (settled operator ns ps now c)"
proof (cases "pc_Status c = ''Completed''")
  case True
  with assms(3) show ?thesis by (auto simp: tracks_def settled_def)
next
  case False
  define c3 where "c3 = contributed operator ns ps (initialized now (labelled c))"
  have act: "operator_active ps operator \<longleftrightarrow> operator \<in> active_operators ps"
    using operator_active_sound operator_active_complete[OF assms(1)] by blast
  have "pc_ConfigData (initialized now (labelled c)) = pc_ConfigData c" "pc_Status (initialized now (labelled c)) \<noteq> ''Completed''"
    using False by (simp_all add: initialized_def labelled_def config_changes)
  then have c3: "gomap_wf (pc_ConfigData c3)" "dom (map_of (pc_ConfigData c3)) = insert operator S \<inter> active_operators ps"
      "pc_Status c3 \<noteq> ''Completed''"
    using assms(3) act by (auto simp: c3_def contributed_def put_config_data_def tracks_def alist.wf_put update_conv' split: if_splits)
  moreover have "all_contributed ps (pc_ConfigData c3) \<longleftrightarrow> active_operators ps \<subseteq> insert operator S"
    using all_contributed_iff[OF assms(1,2) c3(1)] c3(2) by auto
  moreover have "settled operator ns ps now c = checked ps now c3" using False by (simp add: settled_def c3_def)
  ultimately show ?thesis by (auto simp: tracks_def checked_def complete_config_def)
qed


definition new_config :: KrknOperatorTargetProviderConfig where
  "new_config = \<lparr>pc_meta = meta_of ''cfg-1'' ''krkn'' [], pc_UUID = ''cfg-1'', pc_Status = '''', pc_ConfigData = [],
     pc_Created = None, pc_Completed = None\<rparr>"


text \<open>
  The controller counts and does not compare: \<open>A\<close> has contributed and is deactivated, and the next run completes the request without the
  active operator \<open>B\<close>.
\<close>

theorem config_completes_without_operator:
  "let c = reconcile_runs [sample_provider ''A'' True, sample_provider ''B'' True] ''krkn'' ''cfg-1'' [(''A'', 1)] new_config;
       c' = reconcile_runs [sample_provider ''A'' False, sample_provider ''B'' True] ''krkn'' ''cfg-1'' [(''A'', 2)] c
   in pc_Status c \<noteq> ''Completed'' \<and> pc_Status c' = ''Completed'' \<and> map fst (pc_ConfigData c') = [''A'']"
  by code_simp

section \<open>Clean-up\<close>

text \<open>
  The clean-up at the end of a reconcile of a target request deletes exactly the listed requests that
  are completed and were created an hour ago or earlier, in the order of the list, and writes nothing;
  a request that still waits for contributions is never deleted. The hypotheses name the list and the
  clock reading that the API returned.
\<close>

theorem cleanup_requests_exact:
  assumes "tg_OperatorNamespace C \<noteq> ''''"
    and "tg_ListRequests C (tg_OperatorNamespace C) w = (Inr items, w1)" and "tg_Now C w1 = (now, w2)"
  shows "snd (snd (cleanup_requests (observed C) (w, log))) =
    log @ map DeletedRequest (filter (\<lambda>r. request_status r = ''Completed'' \<and> CreationTimestamp (tr_meta r) \<le> now - 3600 * second) items)"
proof -
  let ?D = "tg_DeleteRequest (observed C)" and ?cut = "now + wrap64 (wrap64 (- CleanupThresholdSeconds) * second)"
  have cut: "?cut = now - 3600 * second" by (simp add: CleanupThresholdSeconds_def second_def wrap64_def)
  have D: "\<exists>r w'. ?D x (w, log) = (r, w', log @ [DeletedRequest x])" for x w log
    by (cases "tg_DeleteRequest C x w") (auto simp: did_def)
  obtain n w3 log3 where d: "delete_expired ?D request_created ?cut items (w2, log) = (n, w3, log3)" by (metis surj_pair)
  have "snd (snd (cleanup_requests (observed C) (w, log))) = log3"
    using assms d by (simp add: cleanup_requests_def CleanupOldResources_def did_def CleanupThresholdSeconds_def)
  moreover have "expired request_created (now - 3600 * second) =
      (\<lambda>r. request_status r = ''Completed'' \<and> CreationTimestamp (tr_meta r) \<le> now - 3600 * second)"
    by (auto simp: expired_def request_created_def fun_eq_iff)
  ultimately show ?thesis using delete_expired_log[OF D d] unfolding cut by simp
qed

definition aged_request :: "string \<Rightarrow> string \<Rightarrow> time \<Rightarrow> KrknTargetRequest" where
  "aged_request n status created = \<lparr>tr_meta = (meta_of n ''krkn'' [])\<lparr>CreationTimestamp := created\<rparr>, tr_UUID = n,
     tr_Status = \<lparr>trs_Status = status, trs_TargetData = [], trs_Completed = None\<rparr>\<rparr>"

theorem cleanup_requests_exact_witness:
  "let old = aged_request ''r1'' ''Completed'' 0; young = aged_request ''r2'' ''Completed'' (100 * second);
       waiting = aged_request ''r3'' ''pending'' 0;
       C = (store_client ''A'' [] [] (\<lambda>_. None))\<lparr>tg_ListRequests := (\<lambda>_ w. (Inr [old, young, waiting], w)),
              tg_Now := (\<lambda>w. (3650 * second, w))\<rparr>
   in snd (snd (cleanup_requests (observed C) ((pending_request [], None), []))) = [DeletedRequest old]"
  (is "let old = ?old; young = ?young; waiting = ?waiting; C = ?C old young waiting in _")
proof -
  let ?S = "?C ?old ?young ?waiting" and ?w = "(pending_request [], None) :: request_store"
  have "tg_OperatorNamespace ?S \<noteq> ''''" "tg_ListRequests ?S (tg_OperatorNamespace ?S) ?w = (Inr [?old, ?young, ?waiting], ?w)"
    "tg_Now ?S ?w = (3650 * second, ?w)" by (simp_all add: store_client_def)
  from cleanup_requests_exact[OF this, of "[]"] show ?thesis
    by (simp add: Let_def aged_request_def second_def)
qed

end
