(* ===== verification/Registry.thy ===== *)
theory Registry
  imports Kubeconfig Group_Auth
begin

text \<open>
  Private container registries: \<open>src/pkg/registry\<close>. A registry is a secret of type \<open>dockerconfigjson\<close>; labels
  carry the authentication type and the groups, annotations the address and the repository, and the
  credentials are a Docker configuration with one entry.
\<close>

section \<open>Labels and annotations\<close>

definition AppNameLabel :: string where "AppNameLabel = ''app.kubernetes.io/name''"
definition AppComponentLabel :: string where "AppComponentLabel = ''app.kubernetes.io/component''"
definition AuthTypeLabel :: string where "AuthTypeLabel = ''registry.krkn.krkn-chaos.dev/auth-type''"
definition AvailableToAllLabel :: string where "AvailableToAllLabel = ''registry.krkn.krkn-chaos.dev/available-to-all''"
definition RegistryURLAnnotation :: string where "RegistryURLAnnotation = ''registry.krkn.krkn-chaos.dev/registry-url''"
definition ScenarioRepositoryAnnotation :: string where
  "ScenarioRepositoryAnnotation = ''registry.krkn.krkn-chaos.dev/scenario-repository''"
definition DescriptionAnnotation :: string where "DescriptionAnnotation = ''registry.krkn.krkn-chaos.dev/description''"
definition SkipTLSAnnotation :: string where "SkipTLSAnnotation = ''registry.krkn.krkn-chaos.dev/skip-tls''"
definition InsecureAnnotation :: string where "InsecureAnnotation = ''registry.krkn.krkn-chaos.dev/insecure''"
definition CreatedByAnnotation :: string where "CreatedByAnnotation = ''registry.krkn.krkn-chaos.dev/created-by''"
definition CreatedAtAnnotation :: string where "CreatedAtAnnotation = ''registry.krkn.krkn-chaos.dev/created-at''"
definition UpdatedByAnnotation :: string where "UpdatedByAnnotation = ''registry.krkn.krkn-chaos.dev/updated-by''"
definition UpdatedAtAnnotation :: string where "UpdatedAtAnnotation = ''registry.krkn.krkn-chaos.dev/updated-at''"
definition AppName :: string where "AppName = ''krkn-operator''"
definition ComponentRegistry :: string where "ComponentRegistry = ''registry''"
definition AuthTypeToken :: string where "AuthTypeToken = ''token''"
definition AuthTypePassword :: string where "AuthTypePassword = ''password''"

lemmas registry_keys = AppNameLabel_def AppComponentLabel_def AuthTypeLabel_def AvailableToAllLabel_def
  RegistryURLAnnotation_def ScenarioRepositoryAnnotation_def DescriptionAnnotation_def SkipTLSAnnotation_def
  InsecureAnnotation_def CreatedByAnnotation_def CreatedAtAnnotation_def UpdatedByAnnotation_def UpdatedAtAnnotation_def
  AppName_def ComponentRegistry_def AuthTypeToken_def AuthTypePassword_def

text \<open>An absent key of a map of strings reads as the empty string.\<close>

definition get_str :: "('k, string) gomap \<Rightarrow> 'k \<Rightarrow> string" where
  "get_str m k = (case map_of m k of None \<Rightarrow> '''' | Some v \<Rightarrow> v)"

lemma get_str_update: "get_str (AList.update k v m) k' = (if k' = k then v else get_str m k')"
  by (simp add: get_str_def alist.get_put)

lemma get_str_delete: "get_str (AList.delete k m) k' = (if k' = k then '''' else get_str m k')"
  by (simp add: get_str_def alist.get_del)

definition bool_text :: "bool \<Rightarrow> string" where
  "bool_text b = (if b then ''true'' else ''false'')"

definition BuildRegistryLabels :: "string \<Rightarrow> string list \<Rightarrow> bool \<Rightarrow> (string, string) gomap" where
  "BuildRegistryLabels authType groups availableToAll =
    (let labels = [(AppNameLabel, AppName), (AppComponentLabel, ComponentRegistry), (AuthTypeLabel, authType)];
         labels' = (if availableToAll then AList.update AvailableToAllLabel ''true'' labels else labels)
     in fold (\<lambda>groupName ls. AList.update (GroupLabelKey groupName) ''true'' ls) groups labels')"

text \<open>The time of the call, in RFC 3339, is an argument.\<close>

definition BuildRegistryAnnotations ::
  "string \<Rightarrow> string \<Rightarrow> string \<Rightarrow> bool \<Rightarrow> bool \<Rightarrow> string \<Rightarrow> string \<Rightarrow> (string, string) gomap" where
  "BuildRegistryAnnotations registryURL scenarioRepo description skipTLS insecure createdBy now =
    (let annotations = [(RegistryURLAnnotation, registryURL), (ScenarioRepositoryAnnotation, scenarioRepo),
        (SkipTLSAnnotation, bool_text skipTLS), (InsecureAnnotation, bool_text insecure),
        (CreatedByAnnotation, createdBy), (CreatedAtAnnotation, now)]
     in if description \<noteq> '''' then AList.update DescriptionAnnotation description annotations else annotations)"

definition UpdateRegistryAnnotations ::
  "(string, string) gomap \<Rightarrow> string \<Rightarrow> string \<Rightarrow> string \<Rightarrow> bool \<Rightarrow> bool \<Rightarrow> string \<Rightarrow> string \<Rightarrow> (string, string) gomap" where
  "UpdateRegistryAnnotations existing registryURL scenarioRepo description skipTLS insecure updatedBy now =
    (let updated = fold (\<lambda>(k, v). AList.update k v) existing [];
         updated' = fold (\<lambda>(k, v). AList.update k v)
           [(RegistryURLAnnotation, registryURL), (ScenarioRepositoryAnnotation, scenarioRepo),
            (SkipTLSAnnotation, bool_text skipTLS), (InsecureAnnotation, bool_text insecure),
            (UpdatedByAnnotation, updatedBy), (UpdatedAtAnnotation, now)] updated
     in if description \<noteq> '''' then AList.update DescriptionAnnotation description updated'
        else AList.delete DescriptionAnnotation updated')"

definition ExtractGroupsFromLabels :: "(string, string) gomap \<Rightarrow> string list" where
  "ExtractGroupsFromLabels labels =
     map (\<lambda>(key, v). trim_prefix key GroupLabelPrefix)
       (filter (\<lambda>(key, v). has_prefix key GroupLabelPrefix \<and> v = ''true'') labels)"

section \<open>The Docker configuration\<close>

text \<open>\<open>DockerConfig\<close> is a struct with one map of structs with one string.\<close>

type_synonym docker_auths = "(string, string) gomap"

definition marshal_docker_config :: "docker_auths \<Rightarrow> string" where
  "marshal_docker_config auths =
     write_object (marshal_map (\<lambda>auth. write_object quoted [(''auth'', auth)])) [(''auths'', auths)]"

definition unmarshal_docker_config :: "string \<Rightarrow> docker_auths option" where
  "unmarshal_docker_config = unmarshal (into_struct ''auths'' (into_map (into_struct ''auth'' into_string) '''')) []"

datatype registry_error =
    InvalidSecretType string
  | NotRegistrySecret
  | MissingLabel string
  | MissingAnnotation string
  | MissingDockerConfig
  | DockerConfigInvalid
  | NoAuthEntry string
  | AuthUndecodable
  | AuthFormatInvalid
  | CredentialsRequired

record RegistryV2 =
  rv_Username :: "string option"
  rv_Password :: "string option"
  rv_Token :: "string option"
  rv_RegistryURL :: string
  rv_ScenarioRepository :: string
  rv_SkipTLS :: bool
  rv_Insecure :: bool

definition dockerconfigjson_type :: string where
  "dockerconfigjson_type = ''kubernetes.io/dockerconfigjson''"

definition DockerConfigJsonKey :: string where
  "DockerConfigJsonKey = ''.dockerconfigjson''"

abbreviation labels_of :: "Secret \<Rightarrow> (string, string) gomap" where
  "labels_of s \<equiv> Labels (sec_meta s)"

abbreviation annotations_of :: "Secret \<Rightarrow> (string, string) gomap" where
  "annotations_of s \<equiv> Annotations (sec_meta s)"

definition ExtractRegistryV2FromSecret :: "Secret \<Rightarrow> registry_error + RegistryV2" where
  "ExtractRegistryV2FromSecret secret =
    (if sec_Type secret \<noteq> dockerconfigjson_type then Inl (InvalidSecretType (sec_Type secret))
     else if get_str (labels_of secret) AppComponentLabel \<noteq> ComponentRegistry then Inl NotRegistrySecret
     else let registryURL = get_str (annotations_of secret) RegistryURLAnnotation;
              scenarioRepo = get_str (annotations_of secret) ScenarioRepositoryAnnotation
      in if registryURL = '''' then Inl (MissingAnnotation RegistryURLAnnotation)
         else if scenarioRepo = '''' then Inl (MissingAnnotation ScenarioRepositoryAnnotation)
         else case map_of (sec_Data secret) DockerConfigJsonKey of
             None \<Rightarrow> Inl MissingDockerConfig
           | Some dockerConfigJSON \<Rightarrow>
             (case unmarshal_docker_config dockerConfigJSON of
                None \<Rightarrow> Inl DockerConfigInvalid
              | Some auths \<Rightarrow>
                (case map_of auths registryURL of
                   None \<Rightarrow> Inl (NoAuthEntry registryURL)
                 | Some auth \<Rightarrow>
                   (case b64_decode auth of
                      None \<Rightarrow> Inl AuthUndecodable
                    | Some decodedAuth \<Rightarrow>
                        if CHR '':'' \<notin> set decodedAuth then Inl AuthFormatInvalid
                        else let username = takeWhile (\<lambda>c. c \<noteq> CHR '':'') decodedAuth;
                                 password = drop 1 (dropWhile (\<lambda>c. c \<noteq> CHR '':'') decodedAuth)
                          in Inr \<lparr>rv_Username = Some username, rv_Password = Some password,
                               rv_Token = (if get_str (labels_of secret) AuthTypeLabel = AuthTypeToken then Some password else None),
                               rv_RegistryURL = registryURL, rv_ScenarioRepository = scenarioRepo,
                               rv_SkipTLS = (get_str (annotations_of secret) SkipTLSAnnotation = ''true''),
                               rv_Insecure = (get_str (annotations_of secret) InsecureAnnotation = ''true'')\<rparr>))))"

definition BuildDockerConfigJSON :: "string \<Rightarrow> string \<Rightarrow> string \<Rightarrow> registry_error + string" where
  "BuildDockerConfigJSON registryURL username password =
    (if username = '''' \<or> password = '''' then Inl CredentialsRequired
     else Inr (marshal_docker_config [(registryURL, b64_encode (username @ '':'' @ password))]))"

definition required_annotations :: "string list" where
  "required_annotations = [RegistryURLAnnotation, ScenarioRepositoryAnnotation, SkipTLSAnnotation, InsecureAnnotation,
     CreatedByAnnotation, CreatedAtAnnotation]"

text \<open>The required labels are a map; its order here is that of the literal.\<close>

definition ValidateRegistrySecret :: "Secret \<Rightarrow> registry_error option" where
  "ValidateRegistrySecret secret =
    (if sec_Type secret \<noteq> dockerconfigjson_type then Some (InvalidSecretType (sec_Type secret))
     else case List.find (\<lambda>(key, v). map_of (labels_of secret) key \<noteq> Some v)
         [(AppNameLabel, AppName), (AppComponentLabel, ComponentRegistry)] of
       Some (key, _) \<Rightarrow> Some (MissingLabel key)
     | None \<Rightarrow>
       (case List.find (\<lambda>key. map_of (annotations_of secret) key = None) required_annotations of
          Some key \<Rightarrow> Some (MissingAnnotation key)
        | None \<Rightarrow>
          (case map_of (sec_Data secret) DockerConfigJsonKey of
             None \<Rightarrow> Some MissingDockerConfig
           | Some dockerConfigJSON \<Rightarrow>
             (case unmarshal_docker_config dockerConfigJSON of
                None \<Rightarrow> Some DockerConfigInvalid
              | Some auths \<Rightarrow>
                (case map_of auths (get_str (annotations_of secret) RegistryURLAnnotation) of
                   None \<Rightarrow> Some (NoAuthEntry (get_str (annotations_of secret) RegistryURLAnnotation))
                 | Some auth \<Rightarrow>
                   (case b64_decode auth of
                      None \<Rightarrow> Some AuthUndecodable
                    | Some decodedAuth \<Rightarrow> if CHR '':'' \<notin> set decodedAuth then Some AuthFormatInvalid else None))))))"

section \<open>Round trips\<close>

lemma valid_utf8_auth: "valid_utf8 ''auth''" "valid_utf8 ''auths''"
  by (rule valid_utf8_ascii, code_simp)+

interpretation auth_entry: json_codec "\<lambda>auth. write_object quoted [(''auth'', auth)]" "into_struct ''auth'' into_string" "''''" valid_utf8 id 1
  using str.struct_codec[OF valid_utf8_auth(1)] by simp

interpretation auth_map: json_codec "marshal_map (\<lambda>auth. write_object quoted [(''auth'', auth)])"
  "into_map (into_struct ''auth'' into_string) ''''" "[]"
  "\<lambda>m. gomap_wf m \<and> list_all (\<lambda>(k, a). valid_utf8 k \<and> valid_utf8 a) m"
  "\<lambda>m. map (\<lambda>(k, a). (k, id a)) (sort_key fst m)" 2
  using auth_entry.map_codec by simp

interpretation docker_config: json_codec marshal_docker_config
  "into_struct ''auths'' (into_map (into_struct ''auth'' into_string) '''')" "[]"
  "\<lambda>m. gomap_wf m \<and> list_all (\<lambda>(k, a). valid_utf8 k \<and> valid_utf8 a) m"
  "\<lambda>m. map (\<lambda>(k, a). (k, id a)) (sort_key fst m)" 3
proof -
  have "marshal_docker_config = (\<lambda>auths. write_object (marshal_map (\<lambda>auth. write_object quoted [(''auth'', auth)])) [(''auths'', auths)])"
    by (simp add: marshal_docker_config_def fun_eq_iff)
  then show "json_codec marshal_docker_config (into_struct ''auths'' (into_map (into_struct ''auth'' into_string) '''')) []
     (\<lambda>m. gomap_wf m \<and> list_all (\<lambda>(k, a). valid_utf8 k \<and> valid_utf8 a) m) (\<lambda>m. map (\<lambda>(k, a). (k, id a)) (sort_key fst m)) 3"
    using auth_map.struct_codec[OF valid_utf8_auth(2)] by simp
qed

lemma unmarshal_marshal_docker:
  "valid_utf8 url \<Longrightarrow> unmarshal_docker_config (marshal_docker_config [(url, b64_encode s)]) = Some [(url, b64_encode s)]"
  using docker_config.unmarshal_enc[of "[(url, b64_encode s)]"]
  by (simp add: unmarshal_docker_config_def gomap_wf_def b64_encode_utf8)

end
