(* ===== verification/Registry_API.thy ===== *)
theory Registry_API
  imports Registry Terminal_API
begin

text \<open>
  The registry endpoints of the REST API: \<open>src/internal/api/registry_handlers.go\<close>. A handler gets the
  claims of the caller, the path and the decoded body (or the text of the decoding error). Reads give
  one answer per object; creations, updates and deletions change the world. A handler that panics
  (assignment to a nil map) gives no reply.
\<close>

section \<open>Requests and the client\<close>

record CreateRegistryRequest =
  crq_Name :: string
  crq_RegistryURL :: string
  crq_ScenarioRepository :: string
  crq_AuthType :: string
  crq_Username :: string
  crq_Password :: string
  crq_SkipTLS :: bool
  crq_Insecure :: bool
  crq_Description :: string
  crq_Groups :: "string list"
  crq_AvailableToAll :: bool

record UpdateRegistryRequest =
  urq_RegistryURL :: string
  urq_ScenarioRepository :: string
  urq_AuthType :: string
  urq_Username :: string
  urq_Password :: string
  urq_SkipTLS :: bool
  urq_Insecure :: bool
  urq_Description :: string
  urq_Groups :: "string list"
  urq_AvailableToAll :: bool

record RegistryResponse =
  rr_Name :: string
  rr_RegistryURL :: string
  rr_ScenarioRepository :: string
  rr_AuthType :: string
  rr_Description :: string
  rr_Groups :: "string list"
  rr_AvailableToAll :: bool
  rr_SkipTLS :: bool
  rr_Insecure :: bool
  rr_CreatedAt :: string
  rr_CreatedBy :: string
  rr_UpdatedAt :: string
  rr_UpdatedBy :: string

record RegistryInfo =
  ri_Name :: string
  ri_RegistryURL :: string
  ri_ScenarioRepository :: string
  ri_Description :: string

datatype registry_body =
    Message string
  | MessageNamed string string
  | RegistryBody RegistryResponse
  | RegistryList "RegistryResponse list" int
  | AvailableList "RegistryInfo list"

record 'w registry_client =
  rg_Namespace :: string
  rg_Auth :: auth_client
  rg_GetSecret :: "string \<Rightarrow> string \<Rightarrow> api_error + Secret"
  rg_ListSecrets :: "string \<Rightarrow> (string, string) gomap \<Rightarrow> api_error + Secret list"
  rg_Create :: "Secret \<Rightarrow> 'w \<Rightarrow> api_error option \<times> 'w"
  rg_Update :: "Secret \<Rightarrow> 'w \<Rightarrow> api_error option \<times> 'w"
  rg_Delete :: "Secret \<Rightarrow> 'w \<Rightarrow> api_error option \<times> 'w"
  rg_Now :: string
  rg_ErrorText :: "api_error \<Rightarrow> string"

section \<open>Helpers\<close>

definition RegistriesPath :: string where
  "RegistriesPath = ''/api/v1/registries''"

definition extractPathSuffix :: "string \<Rightarrow> string \<Rightarrow> string + string" where
  "extractPathSuffix path prefix =
    (if length path \<le> length prefix then Inl ''path parameter is required''
     else let suffix = drop (length prefix) path
       in if suffix = '''' then Inl ''path parameter cannot be empty'' else Inr suffix)"

definition in_quotes :: "string \<Rightarrow> string" where
  "in_quotes s = CHR 0x27 # s @ [CHR 0x27]"

definition registryExists :: "'w registry_client \<Rightarrow> string \<Rightarrow> bool" where
  "registryExists C name =
    (case rg_GetSecret C (rg_Namespace C) name of
       Inl e \<Rightarrow> False
     | Inr secret \<Rightarrow> get_str (labels_of secret) AppComponentLabel = ComponentRegistry)"

text \<open>The error is the one of the API, or \<open>None\<close> when the secret is not a registry.\<close>

definition loadRegistrySecret :: "'w registry_client \<Rightarrow> string \<Rightarrow> api_error option + Secret" where
  "loadRegistrySecret C name =
    (case rg_GetSecret C (rg_Namespace C) name of
       Inl e \<Rightarrow> Inl (Some e)
     | Inr secret \<Rightarrow>
         if get_str (labels_of secret) AppComponentLabel \<noteq> ComponentRegistry then Inl None else Inr secret)"

definition canAccessRegistry :: "'w registry_client \<Rightarrow> token_claims option \<Rightarrow> Secret \<Rightarrow> bool" where
  "canAccessRegistry C claims secret =
    (case claims of
       None \<Rightarrow> False
     | Some c \<Rightarrow>
         if IsAdmin claims then True
         else if get_str (labels_of secret) AvailableToAllLabel = ''true'' then True
         else (case GetUserGroups (rg_Auth C) (cl_UserID c) (rg_Namespace C) of
             Inl e \<Rightarrow> False
           | Inr userGroups \<Rightarrow>
               list_ex (\<lambda>sg. list_ex (\<lambda>ug. Name (ug_meta ug) = sg) userGroups) (ExtractGroupsFromLabels (labels_of secret))))"

definition buildRegistryResponse :: "Secret \<Rightarrow> RegistryResponse" where
  "buildRegistryResponse secret =
     \<lparr>rr_Name = Name (sec_meta secret), rr_RegistryURL = get_str (annotations_of secret) RegistryURLAnnotation,
      rr_ScenarioRepository = get_str (annotations_of secret) ScenarioRepositoryAnnotation,
      rr_AuthType = get_str (labels_of secret) AuthTypeLabel,
      rr_Description = get_str (annotations_of secret) DescriptionAnnotation,
      rr_Groups = ExtractGroupsFromLabels (labels_of secret),
      rr_AvailableToAll = (get_str (labels_of secret) AvailableToAllLabel = ''true''),
      rr_SkipTLS = (get_str (annotations_of secret) SkipTLSAnnotation = ''true''),
      rr_Insecure = (get_str (annotations_of secret) InsecureAnnotation = ''true''),
      rr_CreatedAt = get_str (annotations_of secret) CreatedAtAnnotation,
      rr_CreatedBy = get_str (annotations_of secret) CreatedByAnnotation,
      rr_UpdatedAt = get_str (annotations_of secret) UpdatedAtAnnotation,
      rr_UpdatedBy = get_str (annotations_of secret) UpdatedByAnnotation\<rparr>"

definition buildRegistryInfo :: "Secret \<Rightarrow> RegistryInfo" where
  "buildRegistryInfo secret =
     \<lparr>ri_Name = Name (sec_meta secret), ri_RegistryURL = get_str (annotations_of secret) RegistryURLAnnotation,
      ri_ScenarioRepository = get_str (annotations_of secret) ScenarioRepositoryAnnotation,
      ri_Description = get_str (annotations_of secret) DescriptionAnnotation\<rparr>"

fun check_groups :: "'w registry_client \<Rightarrow> string list \<Rightarrow> string option" where
  "check_groups C [] = None"
| "check_groups C (groupName # groups) =
    (case ac_GetGroup (rg_Auth C) (rg_Namespace C) groupName of
       Inl e \<Rightarrow> Some (if e = NotFound then ''group '' @ in_quotes groupName @ '' does not exist''
                   else ''failed to validate group '' @ in_quotes groupName @ '': '' @ rg_ErrorText C e)
     | Inr g \<Rightarrow> check_groups C groups)"

definition check_target :: "string \<Rightarrow> string \<Rightarrow> string \<Rightarrow> string option" where
  "check_target registryURL scenarioRepository authType =
    (if registryURL = '''' then Some ''registryUrl is required''
     else if scenarioRepository = '''' then Some ''scenarioRepository is required''
     else if \<not> contains_str scenarioRepository ''/'' then
       Some (''scenarioRepository must be in format '' @ in_quotes ''org/repo'')
     else if authType \<noteq> AuthTypeToken \<and> authType \<noteq> AuthTypePassword then
       Some (''authType must be '' @ in_quotes AuthTypeToken @ '' or '' @ in_quotes AuthTypePassword)
     else None)"

definition validateCreateRegistryRequest :: "'w registry_client \<Rightarrow> CreateRegistryRequest \<Rightarrow> string option" where
  "validateCreateRegistryRequest C req =
    (if crq_Name req = '''' then Some ''name is required''
     else case check_target (crq_RegistryURL req) (crq_ScenarioRepository req) (crq_AuthType req) of
       Some e \<Rightarrow> Some e
     | None \<Rightarrow>
         if crq_Username req = '''' \<or> crq_Password req = '''' then Some ''username and password are required''
         else check_groups C (crq_Groups req))"

definition validateUpdateRegistryRequest :: "'w registry_client \<Rightarrow> UpdateRegistryRequest \<Rightarrow> string option" where
  "validateUpdateRegistryRequest C req =
    (case check_target (urq_RegistryURL req) (urq_ScenarioRepository req) (urq_AuthType req) of
       Some e \<Rightarrow> Some e
     | None \<Rightarrow>
         if (urq_Username req \<noteq> '''' \<or> urq_Password req \<noteq> '''') \<and> (urq_Username req = '''' \<or> urq_Password req = '''')
         then Some ''both username and password must be provided together''
         else check_groups C (urq_Groups req))"

section \<open>Handlers\<close>

definition admin_required :: "'a reply" where
  "admin_required = Failure 403 ''forbidden'' ''This operation requires admin privileges''"

definition load_failure :: "string \<Rightarrow> api_error option \<Rightarrow> 'a reply" where
  "load_failure registryName e =
    (if e = Some NotFound then Failure 404 ''not_found'' (''Registry '' @ in_quotes registryName @ '' not found'')
     else Failure 500 ''internal_error'' ''Failed to get registry'')"

definition caller :: "token_claims option \<Rightarrow> string" where
  "caller claims = (case claims of None \<Rightarrow> '''' | Some c \<Rightarrow> cl_UserID c)"

definition registry_secret :: "'w registry_client \<Rightarrow> token_claims option \<Rightarrow> CreateRegistryRequest \<Rightarrow> string \<Rightarrow> Secret" where
  "registry_secret C claims req dockerConfigJSON =
     \<lparr>sec_meta = (meta_of (crq_Name req) (rg_Namespace C)
          (BuildRegistryLabels (crq_AuthType req) (crq_Groups req) (crq_AvailableToAll req)))
        \<lparr>Annotations := BuildRegistryAnnotations (crq_RegistryURL req) (crq_ScenarioRepository req) (crq_Description req)
           (crq_SkipTLS req) (crq_Insecure req) (caller claims) (rg_Now C)\<rparr>,
      sec_Type = dockerconfigjson_type, sec_Data = [(DockerConfigJsonKey, dockerConfigJSON)]\<rparr>"

definition CreateRegistry ::
  "'w registry_client \<Rightarrow> token_claims option \<Rightarrow> string + CreateRegistryRequest \<Rightarrow> 'w \<Rightarrow> registry_body reply \<times> 'w" where
  "CreateRegistry C claims body w =
    (if \<not> IsAdmin claims then (admin_required, w)
     else case body of
       Inl e \<Rightarrow> (Failure 400 ''bad_request'' (''Invalid request body: '' @ e), w)
     | Inr req \<Rightarrow>
       (case validateCreateRegistryRequest C req of
          Some e \<Rightarrow> (Failure 400 ''bad_request'' e, w)
        | None \<Rightarrow>
          if registryExists C (crq_Name req)
          then (Failure 400 ''bad_request'' (''Registry '' @ in_quotes (crq_Name req) @ '' already exists''), w)
          else (case BuildDockerConfigJSON (crq_RegistryURL req) (crq_Username req) (crq_Password req) of
              Inl e \<Rightarrow> (Failure 500 ''internal_error'' ''Failed to create registry configuration'', w)
            | Inr dockerConfigJSON \<Rightarrow>
              (case rg_Create C (registry_secret C claims req dockerConfigJSON) w of
                 (Some e, w') \<Rightarrow> (Failure 500 ''internal_error'' ''Failed to create registry'', w')
               | (None, w') \<Rightarrow> (Body 201 (MessageNamed ''Registry created successfully'' (crq_Name req)), w')))))"

definition registry_labels :: "(string, string) gomap" where
  "registry_labels = [(AppNameLabel, AppName), (AppComponentLabel, ComponentRegistry)]"

definition ListRegistries :: "'w registry_client \<Rightarrow> token_claims option \<Rightarrow> registry_body reply" where
  "ListRegistries C claims =
    (if \<not> IsAdmin claims then admin_required
     else case rg_ListSecrets C (rg_Namespace C) registry_labels of
       Inl e \<Rightarrow> Failure 500 ''internal_error'' ''Failed to list registries''
     | Inr secrets \<Rightarrow> Body 200 (RegistryList (map buildRegistryResponse secrets) (int (length secrets))))"

definition GetRegistry :: "'w registry_client \<Rightarrow> token_claims option \<Rightarrow> string \<Rightarrow> registry_body reply" where
  "GetRegistry C claims path =
    (if \<not> IsAdmin claims then admin_required
     else case extractPathSuffix path (RegistriesPath @ ''/'') of
       Inl e \<Rightarrow> Failure 400 ''bad_request'' ''Invalid registry name in path''
     | Inr registryName \<Rightarrow>
       (case loadRegistrySecret C registryName of
          Inl e \<Rightarrow> load_failure registryName e
        | Inr secret \<Rightarrow> Body 200 (RegistryBody (buildRegistryResponse secret))))"

definition update_credentials :: "UpdateRegistryRequest \<Rightarrow> Secret \<Rightarrow> registry_error + string \<times> string" where
  "update_credentials req secret =
    (if urq_Username req \<noteq> '''' \<and> urq_Password req \<noteq> '''' then Inr (urq_Username req, urq_Password req)
     else case ExtractRegistryV2FromSecret secret of
       Inl e \<Rightarrow> Inl e
     | Inr existingRegistry \<Rightarrow>
         Inr (case rv_Username existingRegistry of None \<Rightarrow> urq_Username req | Some u \<Rightarrow> u,
              case rv_Password existingRegistry of None \<Rightarrow> urq_Password req | Some p \<Rightarrow> p))"

definition updated_secret ::
  "'w registry_client \<Rightarrow> token_claims option \<Rightarrow> UpdateRegistryRequest \<Rightarrow> string \<Rightarrow> Secret \<Rightarrow> Secret" where
  "updated_secret C claims req dockerConfigJSON secret =
     secret\<lparr>sec_meta := (sec_meta secret)
        \<lparr>Labels := BuildRegistryLabels (urq_AuthType req) (urq_Groups req) (urq_AvailableToAll req),
         Annotations := UpdateRegistryAnnotations (annotations_of secret) (urq_RegistryURL req) (urq_ScenarioRepository req)
           (urq_Description req) (urq_SkipTLS req) (urq_Insecure req) (caller claims) (rg_Now C)\<rparr>,
       sec_Data := AList.update DockerConfigJsonKey dockerConfigJSON (sec_Data secret)\<rparr>"

definition UpdateRegistry ::
  "'w registry_client \<Rightarrow> token_claims option \<Rightarrow> string \<Rightarrow> string + UpdateRegistryRequest \<Rightarrow> 'w \<Rightarrow> registry_body reply option \<times> 'w" where
  "UpdateRegistry C claims path body w =
    (if \<not> IsAdmin claims then (Some admin_required, w)
     else case extractPathSuffix path (RegistriesPath @ ''/'') of
       Inl e \<Rightarrow> (Some (Failure 400 ''bad_request'' ''Invalid registry name in path''), w)
     | Inr registryName \<Rightarrow>
       (case body of
          Inl e \<Rightarrow> (Some (Failure 400 ''bad_request'' (''Invalid request body: '' @ e)), w)
        | Inr req \<Rightarrow>
          (case validateUpdateRegistryRequest C req of
             Some e \<Rightarrow> (Some (Failure 400 ''bad_request'' e), w)
           | None \<Rightarrow>
             (case loadRegistrySecret C registryName of
                Inl e \<Rightarrow> (Some (load_failure registryName e), w)
              | Inr secret \<Rightarrow>
                (case update_credentials req secret of
                   Inl e \<Rightarrow> (Some (Failure 500 ''internal_error'' ''Failed to extract existing credentials''), w)
                 | Inr (username, password) \<Rightarrow>
                   (case BuildDockerConfigJSON (urq_RegistryURL req) username password of
                      Inl e \<Rightarrow> (Some (Failure 500 ''internal_error'' ''Failed to update registry configuration''), w)
                    | Inr dockerConfigJSON \<Rightarrow>
                      if sec_Data secret = [] then (None, w)
                      else (case rg_Update C (updated_secret C claims req dockerConfigJSON secret) w of
                          (Some e, w') \<Rightarrow> (Some (Failure 500 ''internal_error'' ''Failed to update registry''), w')
                        | (None, w') \<Rightarrow> (Some (Body 200 (MessageNamed ''Registry updated successfully'' registryName)), w'))))))))"

definition DeleteRegistry :: "'w registry_client \<Rightarrow> token_claims option \<Rightarrow> string \<Rightarrow> 'w \<Rightarrow> registry_body reply \<times> 'w" where
  "DeleteRegistry C claims path w =
    (if \<not> IsAdmin claims then (admin_required, w)
     else case extractPathSuffix path (RegistriesPath @ ''/'') of
       Inl e \<Rightarrow> (Failure 400 ''bad_request'' ''Invalid registry name in path'', w)
     | Inr registryName \<Rightarrow>
       (case loadRegistrySecret C registryName of
          Inl e \<Rightarrow> (load_failure registryName e, w)
        | Inr secret \<Rightarrow>
          (case rg_Delete C secret w of
             (Some e, w') \<Rightarrow> (Failure 500 ''internal_error'' ''Failed to delete registry'', w')
           | (None, w') \<Rightarrow> (Body 200 (Message ''Registry deleted successfully''), w'))))"

definition ListAvailableRegistries :: "'w registry_client \<Rightarrow> token_claims option \<Rightarrow> registry_body reply" where
  "ListAvailableRegistries C claims =
    (case claims of
       None \<Rightarrow> Failure 401 ''unauthorized'' ''Authentication required''
     | Some c \<Rightarrow>
       (case rg_ListSecrets C (rg_Namespace C) registry_labels of
          Inl e \<Rightarrow> Failure 500 ''internal_error'' ''Failed to list registries''
        | Inr secrets \<Rightarrow>
            if IsAdmin claims then Body 200 (AvailableList (map buildRegistryInfo secrets))
            else Body 200 (AvailableList (map buildRegistryInfo (filter (canAccessRegistry C claims) secrets)))))"

text \<open>The router; the body is decoded by the handler that wants it.\<close>

definition RegistriesRouter ::
  "'w registry_client \<Rightarrow> token_claims option \<Rightarrow> string \<Rightarrow> string \<Rightarrow> string + CreateRegistryRequest \<Rightarrow>
     string + UpdateRegistryRequest \<Rightarrow> 'w \<Rightarrow> registry_body reply option \<times> 'w" where
  "RegistriesRouter C claims rmethod path create_body update_body w =
    (let normalizedPath = (if path \<noteq> [] \<and> last path = CHR ''/'' then butlast path else path)
     in if normalizedPath = RegistriesPath then
          (if rmethod = ''GET'' then (Some (ListRegistries C claims), w)
           else if rmethod = ''POST'' then (case CreateRegistry C claims create_body w of (r, w') \<Rightarrow> (Some r, w'))
           else (Some (Failure 405 ''method_not_allowed'' (''Only GET and POST are allowed on '' @ RegistriesPath)), w))
        else if has_prefix path (RegistriesPath @ ''/'') then
          (if rmethod = ''GET'' then (Some (GetRegistry C claims path), w)
           else if rmethod = ''PUT'' then UpdateRegistry C claims path update_body w
           else if rmethod = ''DELETE'' then (case DeleteRegistry C claims path w of (r, w') \<Rightarrow> (Some r, w'))
           else (Some (Failure 405 ''method_not_allowed'' ''Invalid method for registry endpoint''), w))
        else (Some (Failure 404 ''not_found'' ''Endpoint not found''), w))"

section \<open>Labels and groups\<close>

lemma map_of_group_labels:
  "\<not> has_prefix k GroupLabelPrefix \<Longrightarrow>
   map_of (fold (\<lambda>g ls. AList.update (GroupLabelKey g) ''true'' ls) groups ls) k = map_of ls k"
  by (induction groups arbitrary: ls) (auto simp: alist.get_put GroupLabelKey_def)

lemma registry_key_not_group:
  "k \<in> {AppNameLabel, AppComponentLabel, AuthTypeLabel, AvailableToAllLabel} \<Longrightarrow> \<not> has_prefix k GroupLabelPrefix"
  by (auto simp: registry_keys GroupLabelPrefix_def has_prefix_def)

lemma BuildRegistryLabels_lookup:
  "map_of (BuildRegistryLabels authType groups availableToAll) AppNameLabel = Some AppName"
  "map_of (BuildRegistryLabels authType groups availableToAll) AppComponentLabel = Some ComponentRegistry"
  "map_of (BuildRegistryLabels authType groups availableToAll) AuthTypeLabel = Some authType"
  "map_of (BuildRegistryLabels authType groups availableToAll) AvailableToAllLabel = (if availableToAll then Some ''true'' else None)"
proof -
  have k: "AppNameLabel \<noteq> AppComponentLabel" "AppNameLabel \<noteq> AuthTypeLabel" "AppNameLabel \<noteq> AvailableToAllLabel"
    "AppComponentLabel \<noteq> AuthTypeLabel" "AppComponentLabel \<noteq> AvailableToAllLabel" "AuthTypeLabel \<noteq> AvailableToAllLabel"
    by (simp_all add: registry_keys)
  note s = BuildRegistryLabels_def Let_def map_of_group_labels[OF registry_key_not_group]
  show "map_of (BuildRegistryLabels authType groups availableToAll) AppNameLabel = Some AppName"
    "map_of (BuildRegistryLabels authType groups availableToAll) AppComponentLabel = Some ComponentRegistry"
    "map_of (BuildRegistryLabels authType groups availableToAll) AuthTypeLabel = Some authType"
    "map_of (BuildRegistryLabels authType groups availableToAll) AvailableToAllLabel = (if availableToAll then Some ''true'' else None)"
    using k by (auto simp: s alist.get_put)
qed

lemma group_labels_wf:
  "gomap_wf ls \<Longrightarrow> gomap_wf (fold (\<lambda>g ls. AList.update (GroupLabelKey g) ''true'' ls) groups ls)"
  by (induction groups arbitrary: ls) (auto simp: alist.wf_put)

lemma map_of_group_labels_group:
  "has_prefix k GroupLabelPrefix \<Longrightarrow>
   map_of (fold (\<lambda>g ls. AList.update (GroupLabelKey g) ''true'' ls) groups ls) k =
     (if k \<in> GroupLabelKey ` set groups then Some ''true'' else map_of ls k)"
  by (induction groups arbitrary: ls) (auto simp: alist.get_put)

lemma ExtractGroups_set:
  "gomap_wf ls \<Longrightarrow> set (ExtractGroupsFromLabels ls) = {g. map_of ls (GroupLabelPrefix @ g) = Some ''true''}"
proof -
  assume wf: "gomap_wf ls"
  have "g \<in> set (ExtractGroupsFromLabels ls) \<longleftrightarrow> (GroupLabelPrefix @ g, ''true'') \<in> set ls" for g
    by (force simp: ExtractGroupsFromLabels_def image_iff dest!: has_prefix_split)
  then show ?thesis using gomap_wf_lookup[OF wf] by auto
qed

lemma ExtractGroups_Build:
  "set (ExtractGroupsFromLabels (BuildRegistryLabels authType groups availableToAll)) = SanitizeGroupName ` set groups"
proof -
  define ls where "ls = (if availableToAll then AList.update AvailableToAllLabel ''true''
      [(AppNameLabel, AppName), (AppComponentLabel, ComponentRegistry), (AuthTypeLabel, authType)]
    else [(AppNameLabel, AppName), (AppComponentLabel, ComponentRegistry), (AuthTypeLabel, authType)])"
  have b: "BuildRegistryLabels authType groups availableToAll = fold (\<lambda>g ls. AList.update (GroupLabelKey g) ''true'' ls) groups ls"
    by (simp add: BuildRegistryLabels_def ls_def)
  have wf: "gomap_wf ls" by (auto simp: ls_def gomap_wf_def registry_keys)
  have "map_of ls k = None" if "has_prefix k GroupLabelPrefix" for k
  proof -
    have "k \<notin> {AppNameLabel, AppComponentLabel, AuthTypeLabel, AvailableToAllLabel}" using that registry_key_not_group by blast
    then show ?thesis by (auto simp: ls_def alist.get_put)
  qed
  moreover have "GroupLabelPrefix @ g \<in> GroupLabelKey ` set groups \<longleftrightarrow> g \<in> SanitizeGroupName ` set groups" for g
    by (auto simp: GroupLabelKey_def)
  ultimately have "map_of (BuildRegistryLabels authType groups availableToAll) (GroupLabelPrefix @ g) =
      (if g \<in> SanitizeGroupName ` set groups then Some ''true'' else None)" for g
    unfolding b map_of_group_labels_group[OF has_prefix_append] by simp
  then show ?thesis using ExtractGroups_set[OF group_labels_wf[OF wf], of groups] unfolding b[symmetric] by auto
qed

text \<open>Names of Kubernetes objects are kept by the sanitizer: lower case letters, digits, hyphens and dots, with an alphanumeric first and last.\<close>

definition object_name :: "string \<Rightarrow> bool" where
  "object_name s \<longleftrightarrow> s \<noteq> '''' \<and> list_all (\<lambda>c. is_lower c \<or> is_digit c \<or> c = CHR ''-'' \<or> c = CHR ''.'') s \<and>
     hd s \<notin> set ''-_.'' \<and> last s \<notin> set ''-_.''"

lemma collapse_valid: "list_all group_byte s \<Longrightarrow> collapse_invalid s = s"
  by (induction s) auto

lemma SanitizeGroupName_object_name:
  assumes "object_name s"
  shows "SanitizeGroupName s = s"
proof -
  have "list_all group_byte s" using assms by (auto simp: object_name_def group_byte_def list_all_iff)
  then have "collapse_invalid s = s" by (rule collapse_valid)
  moreover have "trim s ''-_.'' = s" using assms by (intro trim_id) (auto simp: object_name_def)
  moreover have "to_lower s = s"
  proof -
    have l: "code c < 128 \<and> \<not> is_upper c" if "c \<in> set s" for c
    proof -
      from assms that have "is_lower c \<or> is_digit c \<or> c = CHR ''-'' \<or> c = CHR ''.''" by (auto simp: object_name_def list_all_iff)
      then show ?thesis by (auto simp: is_lower_def is_digit_def is_upper_def code_def)
    qed
    then have "to_lower s = map lower_ascii s" by (intro to_lower_ascii) simp
    also have "\<dots> = s" using l by (intro map_idI) simp
    finally show ?thesis .
  qed
  ultimately show ?thesis by (simp add: SanitizeGroupName_def)
qed

section \<open>Round trip of a created registry\<close>

datatype registry_event = CreatedSecret Secret | UpdatedSecret Secret | DeletedSecret Secret

text \<open>A client that logs what is sent to the API server.\<close>

definition logging :: "'w registry_client \<Rightarrow> (registry_event \<Rightarrow> api_error option) \<Rightarrow> registry_event list registry_client" where
  "logging C answer = \<lparr>rg_Namespace = rg_Namespace C, rg_Auth = rg_Auth C, rg_GetSecret = rg_GetSecret C, rg_ListSecrets = rg_ListSecrets C,
     rg_Create = (\<lambda>s log. (answer (CreatedSecret s), log @ [CreatedSecret s])),
     rg_Update = (\<lambda>s log. (answer (UpdatedSecret s), log @ [UpdatedSecret s])),
     rg_Delete = (\<lambda>s log. (answer (DeletedSecret s), log @ [DeletedSecret s])), rg_Now = rg_Now C, rg_ErrorText = rg_ErrorText C\<rparr>"

definition registry_of :: "CreateRegistryRequest \<Rightarrow> RegistryV2" where
  "registry_of req = \<lparr>rv_Username = Some (crq_Username req), rv_Password = Some (crq_Password req),
     rv_Token = (if crq_AuthType req = AuthTypeToken then Some (crq_Password req) else None),
     rv_RegistryURL = crq_RegistryURL req, rv_ScenarioRepository = crq_ScenarioRepository req,
     rv_SkipTLS = crq_SkipTLS req, rv_Insecure = crq_Insecure req\<rparr>"

text \<open>What is read back of a request: user name and password are stored joined by a colon and split at the first one.\<close>

definition read_back :: "CreateRegistryRequest \<Rightarrow> RegistryV2" where
  "read_back req = (let joined = crq_Username req @ '':'' @ crq_Password req
     in registry_of (req\<lparr>crq_Username := takeWhile (\<lambda>c. c \<noteq> CHR '':'') joined, crq_Password := drop 1 (dropWhile (\<lambda>c. c \<noteq> CHR '':'') joined)\<rparr>))"

lemma BuildRegistryAnnotations_lookup:
  "map_of (BuildRegistryAnnotations url repo desc skip insec by now) RegistryURLAnnotation = Some url"
  "map_of (BuildRegistryAnnotations url repo desc skip insec by now) ScenarioRepositoryAnnotation = Some repo"
  "map_of (BuildRegistryAnnotations url repo desc skip insec by now) SkipTLSAnnotation = Some (bool_text skip)"
  "map_of (BuildRegistryAnnotations url repo desc skip insec by now) InsecureAnnotation = Some (bool_text insec)"
  "map_of (BuildRegistryAnnotations url repo desc skip insec by now) CreatedByAnnotation = Some by"
  "map_of (BuildRegistryAnnotations url repo desc skip insec by now) CreatedAtAnnotation = Some now"
  unfolding BuildRegistryAnnotations_def Let_def by (simp_all add: registry_keys alist.get_put)

lemma takeWhile_colon: "CHR '':'' \<notin> set u \<Longrightarrow> takeWhile (\<lambda>c. c \<noteq> CHR '':'') (u @ CHR '':'' # p) = u"
  "CHR '':'' \<notin> set u \<Longrightarrow> dropWhile (\<lambda>c. c \<noteq> CHR '':'') (u @ CHR '':'' # p) = CHR '':'' # p"
  by (induction u) auto

lemma extract_created:
  assumes "valid_utf8 (crq_RegistryURL req)" "crq_RegistryURL req \<noteq> ''''" "crq_ScenarioRepository req \<noteq> ''''"
    and d: "d = marshal_docker_config [(crq_RegistryURL req, b64_encode (crq_Username req @ '':'' @ crq_Password req))]"
  shows "ValidateRegistrySecret (registry_secret C claims req d) = None"
    and "ExtractRegistryV2FromSecret (registry_secret C claims req d) = Inr (read_back req)"
proof -
  note u = unmarshal_marshal_docker[OF assms(1), folded d]
  have t: "bool_text b = ''true'' \<longleftrightarrow> b" for b by (simp add: bool_text_def)
  show "ValidateRegistrySecret (registry_secret C claims req d) = None"
    by (simp add: ValidateRegistrySecret_def registry_secret_def meta_of_def BuildRegistryLabels_lookup BuildRegistryAnnotations_lookup
        required_annotations_def get_str_def d u[unfolded d])
  show "ExtractRegistryV2FromSecret (registry_secret C claims req d) = Inr (read_back req)"
    using assms(2,3)
    by (simp add: ExtractRegistryV2FromSecret_def registry_secret_def meta_of_def BuildRegistryLabels_lookup BuildRegistryAnnotations_lookup
        get_str_def d u[unfolded d] registry_of_def read_back_def t Let_def)
qed

lemma read_back_exact: "CHR '':'' \<notin> set (crq_Username req) \<Longrightarrow> read_back req = registry_of req"
  by (simp add: read_back_def registry_of_def takeWhile_colon Let_def)

lemma CreateRegistry_creates:
  assumes "CreateRegistry (logging C answer) claims body [] = (reply, log)"
  shows "(log = [] \<and> reply_code reply \<noteq> 201) \<or>
    (\<exists>req d. body = Inr req \<and> IsAdmin claims \<and> validateCreateRegistryRequest (logging C answer) req = None \<and>
       BuildDockerConfigJSON (crq_RegistryURL req) (crq_Username req) (crq_Password req) = Inr d \<and>
       log = [CreatedSecret (registry_secret (logging C answer) claims req d)])"
  using assms
  by (auto simp: CreateRegistry_def logging_def admin_required_def split: sum.splits option.splits if_splits)

text \<open>
  C31. A registry that is created can be used: the handler creates at most one secret, only for an
  administrator, and the secret passes the validation of registry secrets; extraction returns the address, repository
  and flags of the request, and of its credentials what is before and after the first colon of user name and password joined by
  a colon; so for a user name without a colon it returns exactly the credentials and the token of the request.
  In every other case nothing is created and the reply is an error. The hypothesis is that the address is valid UTF-8, as in every
  request body.
\<close>

theorem CreateRegistry_extract:
  assumes "CreateRegistry (logging C answer) claims body [] = (reply, log)"
    and "\<And>req. body = Inr req \<Longrightarrow> valid_utf8 (crq_RegistryURL req)"
  shows "(log = [] \<and> reply_code reply \<noteq> 201) \<or>
    (\<exists>req s. body = Inr req \<and> log = [CreatedSecret s] \<and> IsAdmin claims \<and> Name (sec_meta s) = crq_Name req \<and>
       ValidateRegistrySecret s = None \<and> ExtractRegistryV2FromSecret s = Inr (read_back req) \<and>
       (CHR '':'' \<notin> set (crq_Username req) \<longrightarrow> read_back req = registry_of req))"
  using CreateRegistry_creates[OF assms(1)]
proof
  assume "\<exists>req d. body = Inr req \<and> IsAdmin claims \<and> validateCreateRegistryRequest (logging C answer) req = None \<and>
       BuildDockerConfigJSON (crq_RegistryURL req) (crq_Username req) (crq_Password req) = Inr d \<and>
       log = [CreatedSecret (registry_secret (logging C answer) claims req d)]"
  then obtain req d where r: "body = Inr req" "IsAdmin claims" "validateCreateRegistryRequest (logging C answer) req = None"
    "BuildDockerConfigJSON (crq_RegistryURL req) (crq_Username req) (crq_Password req) = Inr d"
    "log = [CreatedSecret (registry_secret (logging C answer) claims req d)]" by blast
  have f: "crq_RegistryURL req \<noteq> ''''" "crq_ScenarioRepository req \<noteq> ''''"
    using r(3) by (auto simp: validateCreateRegistryRequest_def check_target_def split: option.splits if_splits)
  have d: "d = marshal_docker_config [(crq_RegistryURL req, b64_encode (crq_Username req @ '':'' @ crq_Password req))]"
    using r(4) by (simp add: BuildDockerConfigJSON_def split: if_splits)
  note e = extract_created[OF assms(2)[OF r(1)] f d, of "logging C answer" claims]
  have "Name (sec_meta (registry_secret (logging C answer) claims req d)) = crq_Name req"
    by (simp add: registry_secret_def meta_of_def)
  with r(1,2,5) e show ?thesis
    by (intro disjI2 exI[of _ req] exI[of _ "registry_secret (logging C answer) claims req d"]) (simp add: read_back_exact)
qed simp

section \<open>Updates keep credentials\<close>

lemma UpdateRegistryAnnotations_lookup:
  "map_of (UpdateRegistryAnnotations old url repo desc skip insec by now) RegistryURLAnnotation = Some url"
  "map_of (UpdateRegistryAnnotations old url repo desc skip insec by now) ScenarioRepositoryAnnotation = Some repo"
  unfolding UpdateRegistryAnnotations_def Let_def by (simp_all add: registry_keys alist.get_put alist.get_del)

lemma extract_username:
  "ExtractRegistryV2FromSecret s = Inr r \<Longrightarrow>
   sec_Type s = dockerconfigjson_type \<and> (\<exists>u p. rv_Username r = Some u \<and> rv_Password r = Some p \<and> CHR '':'' \<notin> set u)"
  by (auto simp: ExtractRegistryV2FromSecret_def Let_def split: if_splits option.splits dest: set_takeWhileD)

lemma extract_updated:
  assumes "valid_utf8 (urq_RegistryURL req)" "urq_RegistryURL req \<noteq> ''''" "urq_ScenarioRepository req \<noteq> ''''" "CHR '':'' \<notin> set u"
    and "sec_Type old = dockerconfigjson_type" and d: "d = marshal_docker_config [(urq_RegistryURL req, b64_encode (u @ '':'' @ p))]"
  shows "\<exists>r. ExtractRegistryV2FromSecret (updated_secret C claims req d old) = Inr r \<and>
    rv_Username r = Some u \<and> rv_Password r = Some p \<and> rv_RegistryURL r = urq_RegistryURL req"
proof -
  note un = unmarshal_marshal_docker[OF assms(1), of "u @ '':'' @ p"]
  show ?thesis
    using assms(2-5)
    by (simp add: ExtractRegistryV2FromSecret_def updated_secret_def BuildRegistryLabels_lookup UpdateRegistryAnnotations_lookup
        get_str_def alist.get_put d un[simplified] takeWhile_colon Let_def)
qed

lemma UpdateRegistry_updates:
  assumes "UpdateRegistry (logging C answer) claims path (Inr req) [] = (reply, log)" "log \<noteq> []"
  shows "\<exists>name old u p d. extractPathSuffix path (RegistriesPath @ ''/'') = Inr name \<and> loadRegistrySecret (logging C answer) name = Inr old \<and>
    IsAdmin claims \<and> validateUpdateRegistryRequest (logging C answer) req = None \<and> update_credentials req old = Inr (u, p) \<and>
    BuildDockerConfigJSON (urq_RegistryURL req) u p = Inr d \<and> log = [UpdatedSecret (updated_secret (logging C answer) claims req d old)]"
  using assms
  by (auto simp: UpdateRegistry_def logging_def split: sum.splits option.splits if_splits prod.splits)

text \<open>
  An update without credentials keeps them: the secret sent to the API server yields the user name and the
  password of the stored secret, under the new address.
\<close>

theorem UpdateRegistry_keeps_credentials:
  assumes "UpdateRegistry (logging C answer) claims path (Inr req) [] = (reply, log)" and "log \<noteq> []"
    and "urq_Username req = ''''" and "valid_utf8 (urq_RegistryURL req)"
  shows "\<exists>old new r r'. log = [UpdatedSecret new] \<and> (\<exists>name. rg_GetSecret C (rg_Namespace C) name = Inr old) \<and>
    ExtractRegistryV2FromSecret old = Inr r \<and> ExtractRegistryV2FromSecret new = Inr r' \<and>
    rv_Username r' = rv_Username r \<and> rv_Password r' = rv_Password r \<and> rv_RegistryURL r' = urq_RegistryURL req"
proof -
  obtain name old u p d where r: "loadRegistrySecret (logging C answer) name = Inr old"
    "validateUpdateRegistryRequest (logging C answer) req = None" "update_credentials req old = Inr (u, p)"
    "BuildDockerConfigJSON (urq_RegistryURL req) u p = Inr d"
    "log = [UpdatedSecret (updated_secret (logging C answer) claims req d old)]"
    using UpdateRegistry_updates[OF assms(1,2)] by blast
  obtain v where v: "ExtractRegistryV2FromSecret old = Inr v" "rv_Username v = Some u" "rv_Password v = Some p"
    using r(3) assms(3) by (auto simp: update_credentials_def split: sum.splits dest: extract_username)
  have f: "urq_RegistryURL req \<noteq> ''''" "urq_ScenarioRepository req \<noteq> ''''"
    using r(2) by (auto simp: validateUpdateRegistryRequest_def check_target_def split: option.splits if_splits)
  have d: "d = marshal_docker_config [(urq_RegistryURL req, b64_encode (u @ '':'' @ p))]"
    using r(4) by (simp add: BuildDockerConfigJSON_def split: if_splits)
  have g: "rg_GetSecret C (rg_Namespace C) name = Inr old"
    using r(1) by (auto simp: loadRegistrySecret_def logging_def split: sum.splits if_splits)
  have "CHR '':'' \<notin> set u" "sec_Type old = dockerconfigjson_type" using extract_username[OF v(1)] v(2) by auto
  from extract_updated[OF assms(4) f this d, of "logging C answer" claims] v g r(5) show ?thesis by auto
qed

section \<open>Access to a created registry\<close>

text \<open>
  A registry created for a list of groups is accessible exactly to those it was created for: an
  authenticated user who is not an administrator may use it exactly when it is available to all or
  one of the groups of the user is in the list. The hypothesis says that the groups have names of
  Kubernetes objects.
\<close>

theorem created_registry_access:
  assumes "CreateRegistry (logging C answer) claims (Inr req) [] = (reply, [CreatedSecret s])"
    and "list_all object_name (crq_Groups req)"
    and "GetUserGroups (rg_Auth C) (cl_UserID user) (rg_Namespace C) = Inr groups" and "cl_Role user \<noteq> ''admin''"
  shows "canAccessRegistry C (Some user) s \<longleftrightarrow>
    crq_AvailableToAll req \<or> (\<exists>g\<in>set groups. Name (ug_meta g) \<in> set (crq_Groups req))"
proof -
  obtain d where s: "s = registry_secret (logging C answer) claims req d"
    using CreateRegistry_creates[OF assms(1)] by auto
  then have l: "labels_of s = BuildRegistryLabels (crq_AuthType req) (crq_Groups req) (crq_AvailableToAll req)"
    by (simp add: registry_secret_def meta_of_def)
  have "SanitizeGroupName ` set (crq_Groups req) = set (crq_Groups req)"
    using assms(2) SanitizeGroupName_object_name by (auto simp: list_all_iff image_iff)
  then have "set (ExtractGroupsFromLabels (labels_of s)) = set (crq_Groups req)" using ExtractGroups_Build l by simp
  moreover have "get_str (labels_of s) AvailableToAllLabel = ''true'' \<longleftrightarrow> crq_AvailableToAll req"
    using BuildRegistryLabels_lookup(4) l by (simp add: get_str_def)
  ultimately show ?thesis
    using assms(3,4) by (auto simp: canAccessRegistry_def IsAdmin_def list_ex_iff)
qed

section \<open>Concrete requests\<close>

definition sample_registry_client :: "unit registry_client" where
  "sample_registry_client = \<lparr>rg_Namespace = ''krkn'', rg_Auth = sample_auth_client [] two_provider_request,
     rg_GetSecret = (\<lambda>_ _. Inl NotFound), rg_ListSecrets = (\<lambda>_ _. Inr []), rg_Create = (\<lambda>_ w. (None, w)), rg_Update = (\<lambda>_ w. (None, w)),
     rg_Delete = (\<lambda>_ w. (None, w)), rg_Now = ''2025-01-01T00:00:00Z'', rg_ErrorText = (\<lambda>_. ''error'')\<rparr>"

definition sample_registry_request :: "string \<Rightarrow> CreateRegistryRequest" where
  "sample_registry_request username = \<lparr>crq_Name = ''quay'', crq_RegistryURL = ''quay.io'', crq_ScenarioRepository = ''org/repo'',
     crq_AuthType = ''token'', crq_Username = username, crq_Password = ''secret'', crq_SkipTLS = False, crq_Insecure = True,
     crq_Description = '''', crq_Groups = [''ops''], crq_AvailableToAll = False\<rparr>"

definition sample_admin :: token_claims where
  "sample_admin = \<lparr>cl_UserID = ''admin@x.io'', cl_Role = ''admin'', cl_Name = '''', cl_Surname = '''', cl_Organization = ''''\<rparr>"

theorem CreateRegistry_extract_witness:
  "\<exists>reply s. CreateRegistry (logging sample_registry_client (\<lambda>_. None)) (Some sample_admin) (Inr (sample_registry_request ''bot'')) [] = (reply, [CreatedSecret s]) \<and>
     ExtractRegistryV2FromSecret s = Inr (registry_of (sample_registry_request ''bot''))"
proof -
  let ?E = "CreateRegistry (logging sample_registry_client (\<lambda>_. None)) (Some sample_admin) (Inr (sample_registry_request ''bot'')) []"
  obtain reply log where E: "?E = (reply, log)" by (metis surj_pair)
  have "length (snd ?E) = 1" "valid_utf8 (crq_RegistryURL (sample_registry_request ''bot''))" "CHR '':'' \<notin> set (crq_Username (sample_registry_request ''bot''))"
    by code_simp+
  with E CreateRegistry_extract[OF E] show ?thesis by auto
qed

theorem created_registry_access_witness:
  "\<exists>reply s. CreateRegistry (logging sample_registry_client (\<lambda>_. None)) (Some sample_admin) (Inr (sample_registry_request ''bot'')) [] = (reply, [CreatedSecret s]) \<and>
     canAccessRegistry sample_registry_client (Some sample_user) s"
proof -
  let ?E = "CreateRegistry (logging sample_registry_client (\<lambda>_. None)) (Some sample_admin) (Inr (sample_registry_request ''bot'')) []"
  obtain reply log where E: "?E = (reply, log)" by (metis surj_pair)
  have "case snd ?E of [CreatedSecret s] \<Rightarrow> True | _ \<Rightarrow> False" by code_simp
  with E obtain s where s: "?E = (reply, [CreatedSecret s])" by (auto split: list.splits registry_event.splits)
  have f: "list_all object_name (crq_Groups (sample_registry_request ''bot''))"
    "GetUserGroups (rg_Auth sample_registry_client) (cl_UserID sample_user) (rg_Namespace sample_registry_client) = Inr [sample_group []]"
    "cl_Role sample_user \<noteq> ''admin''" "Name (ug_meta (sample_group [])) \<in> set (crq_Groups (sample_registry_request ''bot''))" by code_simp+
  with s created_registry_access[OF s f(1-3)] show ?thesis by auto
qed

text \<open>
  A user name with a colon is accepted and stored, but read back cut at the colon, with the rest in
  front of the password.
\<close>

theorem CreateRegistry_colon_in_username:
  "case CreateRegistry (logging sample_registry_client (\<lambda>_. None)) (Some sample_admin) (Inr (sample_registry_request ''robot:ci'')) [] of
     (reply, log) \<Rightarrow> reply_code reply = 201 \<and>
       (case log of [CreatedSecret s] \<Rightarrow>
          (case ExtractRegistryV2FromSecret s of
             Inr r \<Rightarrow> rv_Username r = Some ''robot'' \<and> rv_Password r = Some ''ci:secret''
           | Inl e \<Rightarrow> False)
        | _ \<Rightarrow> False)"
  by code_simp

end
