(* ===== verification/Logged_Calls.thy ===== *)
theory Logged_Calls
  imports Effects
begin

text \<open>
  Handlers of the REST API as sequences of calls, and reasoning about the calls they make. \<open>noting\<close> adds a log to a
  call; \<open>ensures m Q E log\<close> says that \<open>m\<close>, started after the calls in \<open>log\<close>, ends with \<open>Q\<close> of its value and the
  log, or with \<open>E\<close> of its early reply and the log, whatever the calls answer. The rules compute backwards,
  so that the log of a path through a handler is a concrete list.
\<close>

definition run_handler :: "('w, 'r, 'r) eff \<Rightarrow> 'w \<Rightarrow> 'r \<times> 'w" where
  "run_handler m w = (case m w of (Inl r, w') \<Rightarrow> (r, w') | (Inr r, w') \<Rightarrow> (r, w'))"

definition step :: "('w \<Rightarrow> 'a \<times> 'w) \<Rightarrow> ('w, 'e, 'a) eff" where
  "step f w = (case f w of (a, w') \<Rightarrow> (Inr a, w'))"

definition noting :: "('w \<Rightarrow> 'a \<times> 'w) \<Rightarrow> ('a \<Rightarrow> 'e) \<Rightarrow> 'w \<times> 'e list \<Rightarrow> 'a \<times> ('w \<times> 'e list)" where
  "noting f ev = (\<lambda>(w, log). case f w of (a, w') \<Rightarrow> (a, (w', log @ [ev a])))"

text \<open>A call that is not logged only moves the world below the log.\<close>

definition silently :: "('w \<Rightarrow> 'a \<times> 'w) \<Rightarrow> 'w \<times> 'e list \<Rightarrow> 'a \<times> ('w \<times> 'e list)" where
  "silently f = (\<lambda>(w, log). case f w of (a, w') \<Rightarrow> (a, (w', log)))"

definition ensures ::
  "('w \<times> 'l list, 'r, 'a) eff \<Rightarrow> ('a \<Rightarrow> 'l list \<Rightarrow> bool) \<Rightarrow> ('r \<Rightarrow> 'l list \<Rightarrow> bool) \<Rightarrow> 'l list \<Rightarrow> bool" where
  "ensures m Q E log \<longleftrightarrow> (\<forall>w. case m (w, log) of (Inl r, s) \<Rightarrow> E r (snd s) | (Inr x, s) \<Rightarrow> Q x (snd s))"

named_theorems ensures_rules \<open>backward rules for handlers\<close>

lemma ensures_ret [ensures_rules]: "Q x log \<Longrightarrow> ensures (ret x) Q E log"
  by (simp add: ensures_def ret_def)

lemma ensures_stop [ensures_rules]: "E r log \<Longrightarrow> ensures (stop r) Q E log"
  by (simp add: ensures_def stop_def)

lemma ensures_bind [ensures_rules]: "ensures m (\<lambda>x. ensures (f x) Q E) E log \<Longrightarrow> ensures (bind_eff m f) Q E log"
  by (fastforce simp: ensures_def bind_eff_def split: prod.splits sum.splits)

lemma ensures_if [ensures_rules]:
  "(b \<Longrightarrow> ensures m Q E log) \<Longrightarrow> (\<not> b \<Longrightarrow> ensures n Q E log) \<Longrightarrow> ensures (if b then m else n) Q E log"
  by simp

lemma ensures_option [ensures_rules]:
  "(x = None \<Longrightarrow> ensures m Q E log) \<Longrightarrow> (\<And>a. x = Some a \<Longrightarrow> ensures (f a) Q E log) \<Longrightarrow>
   ensures (case x of None \<Rightarrow> m | Some a \<Rightarrow> f a) Q E log"
  by (cases x) simp_all

lemma ensures_sum [ensures_rules]:
  "(\<And>e. x = Inl e \<Longrightarrow> ensures (f e) Q E log) \<Longrightarrow> (\<And>a. x = Inr a \<Longrightarrow> ensures (g a) Q E log) \<Longrightarrow>
   ensures (case x of Inl e \<Rightarrow> f e | Inr a \<Rightarrow> g a) Q E log"
  by (cases x) simp_all

lemma ensures_list [ensures_rules]:
  "(xs = [] \<Longrightarrow> ensures m Q E log) \<Longrightarrow> (\<And>y ys. xs = y # ys \<Longrightarrow> ensures (f y ys) Q E log) \<Longrightarrow>
   ensures (case xs of [] \<Rightarrow> m | y # ys \<Rightarrow> f y ys) Q E log"
  by (cases xs) simp_all

lemma ensures_let [ensures_rules]: "(\<And>x. x = a \<Longrightarrow> ensures (f x) Q E log) \<Longrightarrow> ensures (Let a f) Q E log"
  by simp

lemma ensures_step [ensures_rules]: "(\<And>a. Q a (log @ [ev a])) \<Longrightarrow> ensures (step (noting f ev)) Q E log"
  by (simp add: ensures_def step_def noting_def split: prod.splits)

lemma ensures_call [ensures_rules]:
  "(\<And>e. E (h e) (log @ [ev (Inl e)])) \<Longrightarrow> (\<And>a. Q a (log @ [ev (Inr a)])) \<Longrightarrow> ensures (call (noting f ev) h) Q E log"
  by (simp add: ensures_def call_def noting_def split: prod.splits sum.splits)

lemma ensures_call_opt [ensures_rules]:
  "(\<And>e. E (h e) (log @ [ev (Some e)])) \<Longrightarrow> Q () (log @ [ev None]) \<Longrightarrow> ensures (call_opt (noting f ev) h) Q E log"
  by (simp add: ensures_def call_opt_def noting_def split: prod.splits option.splits)

text \<open>A part of the program in place of a single call.\<close>

lemma ensures_call_eff:
  "ensures m Q (\<lambda>e. E (h e)) log \<Longrightarrow> ensures (call m h) Q E log"
  by (fastforce simp: ensures_def call_def split: prod.splits sum.splits)

lemma ensures_step_eff:
  assumes "ensures m (\<lambda>x. Q (Inr x)) (\<lambda>e. Q (Inl e)) log"
  shows "ensures (step m) Q E log"
  unfolding ensures_def
proof
  fix w
  from assms show "case step m (w, log) of (Inl r, s) \<Rightarrow> E r (snd s) | (Inr x, s) \<Rightarrow> Q x (snd s)"
    by (cases "fst (m (w, log))") (auto simp: ensures_def step_def split: prod.splits dest!: spec[of _ w])
qed

lemma ensures_mono:
  "ensures m Q' E' log \<Longrightarrow> (\<And>x l. Q' x l \<Longrightarrow> Q x l) \<Longrightarrow> (\<And>r l. E' r l \<Longrightarrow> E r l) \<Longrightarrow> ensures m Q E log"
  by (fastforce simp: ensures_def split: prod.splits sum.splits)

lemma run_handler_ensures:
  assumes "ensures m Q Q log"
  shows "case run_handler m (w, log) of (r, (w', log')) \<Rightarrow> Q r log'"
  using assms by (auto simp: run_handler_def ensures_def split: prod.splits sum.splits dest!: spec[of _ w])

end
