(* ===== verification/Config_Store.thy ===== *)
theory Config_Store
  imports Core_Types Logged_Calls
begin

text \<open>
  The configuration of the operator: the key-value store (\<open>src/pkg/configstore\<close>), the config map it is filled from
  (\<open>src/pkg/configmap/sync.go\<close>) and its initialization when the manager starts (\<open>src/cmd/main.go\<close>). Every operation of the store holds
  its lock, so an operation is one step.
\<close>

section \<open>The store\<close>

record Store =
  kv_m :: "(string, string) gomap"

text \<open>The single instance is made on first use.\<close>

definition kv_Get :: "Store option \<Rightarrow> Store" where
  "kv_Get instance' = (case instance' of None \<Rightarrow> \<lparr>kv_m = []\<rparr> | Some s \<Rightarrow> s)"

definition GetValue :: "Store \<Rightarrow> string \<Rightarrow> string option" where
  "GetValue s key = map_of (kv_m s) key"

definition SetValue :: "string \<Rightarrow> string \<Rightarrow> Store \<Rightarrow> Store" where
  "SetValue key v s = s\<lparr>kv_m := AList.update key v (kv_m s)\<rparr>"

definition kv_Delete :: "string \<Rightarrow> Store \<Rightarrow> Store" where
  "kv_Delete key s = s\<lparr>kv_m := AList.delete key (kv_m s)\<rparr>"

definition Exists :: "Store \<Rightarrow> string \<Rightarrow> bool" where
  "Exists s key = (map_of (kv_m s) key \<noteq> None)"

definition Snapshot :: "Store \<Rightarrow> (string, string) gomap" where
  "Snapshot s = fold (\<lambda>(k, v). AList.update k v) (kv_m s) []"

interpretation kv: go_map GetValue SetValue kv_Delete "\<lambda>s. gomap_wf (kv_m s)"
  by unfold_locales (auto simp: GetValue_def SetValue_def kv_Delete_def alist.get_put alist.get_del alist.wf_put alist.wf_del)

section \<open>Config maps\<close>

text \<open>Pointers may be nil; the error is its text.\<close>

definition SyncConfigMapToStore :: "ConfigMap option \<Rightarrow> Store option \<Rightarrow> string + Store" where
  "SyncConfigMapToStore configMap store =
    (case configMap of
       None \<Rightarrow> Inl ''configMap is nil''
     | Some cm \<Rightarrow>
       (case store of
          None \<Rightarrow> Inl ''store is nil''
        | Some s \<Rightarrow> Inr (fold (\<lambda>(k, v). SetValue k v) (cm_Data cm) s)))"

definition WriteConfigMapData :: "ConfigMap option \<Rightarrow> (string, string) gomap option \<Rightarrow> string + ConfigMap" where
  "WriteConfigMapData configMap data =
    (case configMap of
       None \<Rightarrow> Inl ''configMap is nil''
     | Some cm \<Rightarrow>
       (case data of
          None \<Rightarrow> Inl ''data is nil''
        | Some d \<Rightarrow> Inr (cm\<lparr>cm_Data := fold (\<lambda>(k, v). AList.update k v) d (cm_Data cm)\<rparr>)))"

section \<open>Initialization\<close>

text \<open>The result is the instance of the store after the start; no error stops the manager.\<close>

definition ConfigStoreInitializer_Start ::
  "(string \<Rightarrow> string \<Rightarrow> 'w \<Rightarrow> (api_error + ConfigMap) \<times> 'w) \<Rightarrow> string \<Rightarrow> Store option \<Rightarrow> 'w \<Rightarrow> Store option \<times> 'w" where
  "ConfigStoreInitializer_Start get namespace instance' w =
    (case get namespace ''krkn-operator-config'' w of
       (Inl e, w') \<Rightarrow> (instance', w')
     | (Inr cm, w') \<Rightarrow>
       (case SyncConfigMapToStore (Some cm) (Some (kv_Get instance')) of
          Inl e \<Rightarrow> (Some (kv_Get instance'), w')
        | Inr s \<Rightarrow> (Some s, w')))"

section \<open>What was written is what is read\<close>

lemma WriteConfigMapData_value:
  assumes "WriteConfigMapData (Some cm) (Some d) = Inr cm'"
  shows "cm_meta cm' = cm_meta cm \<and> (gomap_wf d \<longrightarrow> map_of (cm_Data cm') = map_of (cm_Data cm) ++ map_of d) \<and>
    (gomap_wf (cm_Data cm) \<longrightarrow> gomap_wf (cm_Data cm'))"
  using assms alist.copy_loop_wf[of "cm_Data cm" d] alist.copy_loop_distinct[of d "cm_Data cm"]
  by (auto simp: WriteConfigMapData_def gomap_wf_def)

lemma SyncConfigMapToStore_value:
  assumes "SyncConfigMapToStore (Some cm) (Some s) = Inr s'" "gomap_wf (cm_Data cm)"
  shows "GetValue s' = GetValue s ++ map_of (cm_Data cm)"
  using assms by (auto simp: SyncConfigMapToStore_def gomap_wf_def kv.copy_loop_distinct)

lemma Snapshot_value: "gomap_wf (kv_m s) \<Longrightarrow> map_of (Snapshot s) = GetValue s"
  by (auto simp: Snapshot_def GetValue_def gomap_wf_def alist.copy_loop_distinct fun_eq_iff)

lemma Exists_iff: "Exists s k \<longleftrightarrow> k \<in> dom (GetValue s)"
  by (auto simp: Exists_def GetValue_def)

end
