(* ===== verification/Auth.thy ===== *)
theory Auth
  imports Go_Std Group_Auth Json Core_Types
begin

text \<open>
  Authentication: \<open>src/pkg/auth\<close>. Passwords (\<open>password.go\<close>), tokens (\<open>jwt.go\<close>), the HTTP middleware
  (\<open>middleware.go\<close>) and the signing key that all replicas share (\<open>secret_manager.go\<close>). The hash function and
  the token library are parameters; what the theorems need of them is stated as \<open>bcrypt_law\<close> and \<open>jwt_law\<close>.
\<close>

section \<open>Passwords\<close>

definition MinPasswordLength :: nat where
  "MinPasswordLength = 8"

text \<open>\<open>bcrypt\<close>: hashing draws a salt, so it acts on the world; comparison says whether there was no error.\<close>

record 'w bcrypt =
  bc_Generate :: "string \<Rightarrow> 'w \<Rightarrow> (string + string) \<times> 'w"
  bc_Compare :: "string \<Rightarrow> string \<Rightarrow> bool"

definition password_too_short :: string where
  "password_too_short = ''password must be at least '' @ nat_digits MinPasswordLength @ '' characters''"

definition HashPassword :: "'w bcrypt \<Rightarrow> string \<Rightarrow> 'w \<Rightarrow> (string + string) \<times> 'w" where
  "HashPassword B password w =
    (if length password < MinPasswordLength then (Inl password_too_short, w)
     else case bc_Generate B password w of
       (Inl e, w') \<Rightarrow> (Inl (''failed to hash password: '' @ e), w')
     | (Inr h, w') \<Rightarrow> (Inr h, w'))"

definition VerifyPassword :: "'w bcrypt \<Rightarrow> string \<Rightarrow> string \<Rightarrow> bool" where
  "VerifyPassword B password h = bc_Compare B h password"

definition ValidatePassword :: "string \<Rightarrow> string option" where
  "ValidatePassword password = (if length password < MinPasswordLength then Some password_too_short else None)"

text \<open>What bcrypt promises: a hash matches the password it was made from.\<close>

definition bcrypt_law :: "'w bcrypt \<Rightarrow> bool" where
  "bcrypt_law B \<longleftrightarrow> (\<forall>p w h w'. bc_Generate B p w = (Inr h, w') \<longrightarrow> bc_Compare B h p)"

lemma HashPassword_verifies:
  "bcrypt_law B \<Longrightarrow> HashPassword B p w = (Inr h, w') \<Longrightarrow> VerifyPassword B p h"
  by (auto simp: HashPassword_def VerifyPassword_def bcrypt_law_def split: if_splits prod.splits sum.splits)

section \<open>Tokens\<close>

record Claims = token_claims +
  cl_ExpiresAt :: "time option"
  cl_IssuedAt :: "time option"
  cl_NotBefore :: "time option"
  cl_Issuer :: string
  cl_Subject :: string

datatype signing_method = HMAC string | OtherMethod string

text \<open>
  The token library: signing, and parsing with a function that chooses the key from the method of the
  token. Parsing checks the signature and, at the given time, the validity of the claims.
\<close>

record jwt_lib =
  jl_Sign :: "signing_method \<Rightarrow> Claims \<Rightarrow> string \<Rightarrow> string + string"
  jl_Parse :: "string \<Rightarrow> (signing_method \<Rightarrow> string + string) \<Rightarrow> time \<Rightarrow> string + bool \<times> Claims"

record TokenGenerator =
  tg_secretKey :: string
  tg_tokenDuration :: duration
  tg_issuer :: string

datatype token_error = SignFailed string | ParseFailed string | InvalidToken | CannotRefresh token_error

abbreviation SigningMethodHS256 :: signing_method where
  "SigningMethodHS256 \<equiv> HMAC ''HS256''"

definition NewTokenGenerator :: "string \<Rightarrow> duration \<Rightarrow> string \<Rightarrow> TokenGenerator" where
  "NewTokenGenerator secretKey tokenDuration issuer =
     \<lparr>tg_secretKey = secretKey, tg_tokenDuration = tokenDuration, tg_issuer = issuer\<rparr>"

text \<open>\<open>jwt.NewNumericDate\<close> cuts a time to seconds.\<close>

definition NewNumericDate :: "time \<Rightarrow> time" where
  "NewNumericDate t = t div second * second"

definition new_claims :: "TokenGenerator \<Rightarrow> time \<Rightarrow> string \<Rightarrow> string \<Rightarrow> string \<Rightarrow> string \<Rightarrow> string \<Rightarrow> Claims" where
  "new_claims tg now userID role name surname organization =
     \<lparr>cl_UserID = userID, cl_Role = role, cl_Name = name, cl_Surname = surname, cl_Organization = organization,
      cl_ExpiresAt = Some (NewNumericDate (now + tg_tokenDuration tg)), cl_IssuedAt = Some (NewNumericDate now),
      cl_NotBefore = Some (NewNumericDate now), cl_Issuer = tg_issuer tg, cl_Subject = userID\<rparr>"

definition GenerateToken ::
  "jwt_lib \<Rightarrow> TokenGenerator \<Rightarrow> time \<Rightarrow> string \<Rightarrow> string \<Rightarrow> string \<Rightarrow> string \<Rightarrow> string \<Rightarrow> token_error + string" where
  "GenerateToken J tg now userID role name surname organization =
    (case jl_Sign J SigningMethodHS256 (new_claims tg now userID role name surname organization) (tg_secretKey tg) of
       Inl e \<Rightarrow> Inl (SignFailed e)
     | Inr signedToken \<Rightarrow> Inr signedToken)"

definition key_for :: "TokenGenerator \<Rightarrow> signing_method \<Rightarrow> string + string" where
  "key_for tg m =
    (case m of HMAC _ \<Rightarrow> Inr (tg_secretKey tg) | OtherMethod alg \<Rightarrow> Inl (''unexpected signing method: '' @ alg))"

definition ValidateToken :: "jwt_lib \<Rightarrow> TokenGenerator \<Rightarrow> time \<Rightarrow> string \<Rightarrow> token_error + Claims" where
  "ValidateToken J tg now tokenString =
    (case jl_Parse J tokenString (key_for tg) now of
       Inl e \<Rightarrow> Inl (ParseFailed e)
     | Inr (valid, claims) \<Rightarrow> if \<not> valid then Inl InvalidToken else Inr claims)"

definition RefreshToken :: "jwt_lib \<Rightarrow> TokenGenerator \<Rightarrow> time \<Rightarrow> string \<Rightarrow> token_error + string" where
  "RefreshToken J tg now tokenString =
    (case ValidateToken J tg now tokenString of
       Inl e \<Rightarrow> Inl (CannotRefresh e)
     | Inr claims \<Rightarrow>
         GenerateToken J tg now (cl_UserID claims) (cl_Role claims) (cl_Name claims) (cl_Surname claims) (cl_Organization claims))"

definition token_IsAdmin :: "jwt_lib \<Rightarrow> TokenGenerator \<Rightarrow> time \<Rightarrow> string \<Rightarrow> token_error + bool" where
  "token_IsAdmin J tg now tokenString =
    (case ValidateToken J tg now tokenString of
       Inl e \<Rightarrow> Inl e
     | Inr claims \<Rightarrow> Inr (cl_Role claims = ''admin''))"

subsection \<open>The contract of the library\<close>

text \<open>
  A token carries its claims in JSON, so strings must be UTF-8 and times whole seconds. A token signed
  with HS256 is accepted with the same key exactly from its start to before its end.
\<close>

definition whole :: "time option \<Rightarrow> bool" where
  "whole t = (case t of None \<Rightarrow> True | Some x \<Rightarrow> x mod second = 0)"

definition portable_claims :: "Claims \<Rightarrow> bool" where
  "portable_claims c \<longleftrightarrow> list_all valid_utf8
      [cl_UserID c, cl_Role c, cl_Name c, cl_Surname c, cl_Organization c, cl_Issuer c, cl_Subject c] \<and>
    list_all whole [cl_ExpiresAt c, cl_IssuedAt c, cl_NotBefore c]"

definition claims_valid_at :: "Claims \<Rightarrow> time \<Rightarrow> bool" where
  "claims_valid_at c t \<longleftrightarrow> (case cl_ExpiresAt c of None \<Rightarrow> True | Some e \<Rightarrow> t < e) \<and>
     (case cl_NotBefore c of None \<Rightarrow> True | Some b \<Rightarrow> b \<le> t)"

definition jwt_law :: "jwt_lib \<Rightarrow> bool" where
  "jwt_law J \<longleftrightarrow> (\<forall>c key tok kf t. portable_claims c \<longrightarrow> jl_Sign J SigningMethodHS256 c key = Inr tok \<longrightarrow>
     kf SigningMethodHS256 = Inr key \<longrightarrow>
     (if claims_valid_at c t then jl_Parse J tok kf t = Inr (True, c) else \<exists>e. jl_Parse J tok kf t = Inl e))"

lemma seconds_le: "now div second * second \<le> t \<longleftrightarrow> now div second \<le> t div second"
  unfolding second_def by linarith

lemma validate_generated:
  assumes law: "jwt_law J" and g: "GenerateToken J tg now u r n s g = Inr tok"
    and utf: "list_all valid_utf8 [u, r, n, s, g, tg_issuer tg]"
  shows "if now div second \<le> t div second \<and> t < NewNumericDate (now + tg_tokenDuration tg)
    then ValidateToken J tg t tok = Inr (new_claims tg now u r n s g) else \<exists>e. ValidateToken J tg t tok = Inl e"
proof -
  let ?c = "new_claims tg now u r n s g"
  have sign: "jl_Sign J SigningMethodHS256 ?c (tg_secretKey tg) = Inr tok"
    using g by (simp add: GenerateToken_def split: sum.splits)
  have port: "portable_claims ?c"
    using utf by (simp add: portable_claims_def new_claims_def whole_def NewNumericDate_def)
  have key: "key_for tg SigningMethodHS256 = Inr (tg_secretKey tg)" by (simp add: key_for_def)
  have v: "claims_valid_at ?c t \<longleftrightarrow> now div second \<le> t div second \<and> t < NewNumericDate (now + tg_tokenDuration tg)"
    by (auto simp: claims_valid_at_def new_claims_def NewNumericDate_def seconds_le)
  show ?thesis
    using law[unfolded jwt_law_def, rule_format, OF port sign, of "key_for tg" t] key unfolding v
    by (auto simp: ValidateToken_def split: if_splits)
qed

lemma validate_generated_user:
  assumes "jwt_law J" and "GenerateToken J tg now u r n s g = Inr tok"
    and "list_all valid_utf8 [u, r, n, s, g, tg_issuer tg]" and "now \<le> t" and "t < NewNumericDate (now + tg_tokenDuration tg)"
  shows "ValidateToken J tg t tok = Inr (new_claims tg now u r n s g)"
  using validate_generated[OF assms(1-3), of t] assms(4,5) by (simp add: zdiv_mono1 second_def)

section \<open>The middleware\<close>

text \<open>
  The token generator is loaded on first use, from the state \<open>'s\<close> the loader reads, and kept. A refusal is the
  status code, error and message of the response.
\<close>

record 's Middleware =
  mw_tokenGen :: "TokenGenerator option"
  mw_tokenGenLoader :: "('s \<Rightarrow> TokenGenerator option) option"

definition NewMiddleware :: "TokenGenerator \<Rightarrow> 's Middleware" where
  "NewMiddleware tokenGen = \<lparr>mw_tokenGen = Some tokenGen, mw_tokenGenLoader = None\<rparr>"

definition NewLazyMiddleware :: "('s \<Rightarrow> TokenGenerator option) \<Rightarrow> 's Middleware" where
  "NewLazyMiddleware loader = \<lparr>mw_tokenGen = None, mw_tokenGenLoader = Some loader\<rparr>"

definition BearerPrefix :: string where
  "BearerPrefix = ''Bearer ''"

definition lazy_load :: "'s Middleware \<Rightarrow> 's \<Rightarrow> 's Middleware" where
  "lazy_load m s =
    (case mw_tokenGen m of
       Some _ \<Rightarrow> m
     | None \<Rightarrow> (case mw_tokenGenLoader m of None \<Rightarrow> m | Some load \<Rightarrow> m\<lparr>mw_tokenGen := load s\<rparr>))"

definition check_header :: "jwt_lib \<Rightarrow> TokenGenerator \<Rightarrow> time \<Rightarrow> string \<Rightarrow> (int \<times> string \<times> string) + Claims" where
  "check_header J tokenGen now authHeader =
    (if authHeader = '''' then Inl (401, ''unauthorized'', ''Missing authorization token'')
     else if \<not> has_prefix authHeader BearerPrefix
     then Inl (401, ''unauthorized'', ''Invalid authorization header format. Expected: Bearer <token>'')
     else case ValidateToken J tokenGen now (trim_prefix authHeader BearerPrefix) of
       Inl e \<Rightarrow> Inl (401, ''unauthorized'', ''Invalid or expired token'')
     | Inr claims \<Rightarrow> Inr claims)"

definition RequireAuth ::
  "jwt_lib \<Rightarrow> 's Middleware \<Rightarrow> 's \<Rightarrow> time \<Rightarrow> string \<Rightarrow> ((int \<times> string \<times> string) + Claims) \<times> 's Middleware" where
  "RequireAuth J m s now authHeader =
    (let m' = lazy_load m s
     in case mw_tokenGen m' of
       None \<Rightarrow> (Inl (500, ''internal_error'', ''Authentication system not ready''), m')
     | Some tokenGen \<Rightarrow> (check_header J tokenGen now authHeader, m'))"

definition RequireRole :: "string \<Rightarrow> Claims option \<Rightarrow> denial" where
  "RequireRole role claims =
    (case claims of
       None \<Rightarrow> Some (401, ''unauthorized'', ''No authentication claims found'')
     | Some c \<Rightarrow> if cl_Role c \<noteq> role then Some (403, ''forbidden'', ''Insufficient permissions'') else None)"

definition RequireAnyRole :: "string list \<Rightarrow> Claims option \<Rightarrow> denial" where
  "RequireAnyRole roles claims =
    (case claims of
       None \<Rightarrow> Some (401, ''unauthorized'', ''No authentication claims found'')
     | Some c \<Rightarrow> if list_ex (\<lambda>role. cl_Role c = role) roles then None
                else Some (403, ''forbidden'', ''Insufficient permissions''))"

lemma check_header_iff:
  "check_header J tg now header = Inr c \<longleftrightarrow> (\<exists>tok. header = BearerPrefix @ tok \<and> ValidateToken J tg now tok = Inr c)"
proof -
  have "BearerPrefix \<noteq> []" by (simp add: BearerPrefix_def)
  then show ?thesis by (auto simp: check_header_def split: sum.splits dest!: has_prefix_split)
qed
lemma lazy_load_keeps: "mw_tokenGen m = Some tg \<Longrightarrow> lazy_load m s = m"
  by (simp add: lazy_load_def)

section \<open>The signing key\<close>

definition JWTSecretName :: string where
  "JWTSecretName = ''krkn-operator-jwt''"

definition JWTSecretKey :: string where
  "JWTSecretKey = ''jwt-secret''"

definition JWTSecretLength :: nat where
  "JWTSecretLength = 32"

record SecretManager =
  sm_namespace :: string
  sm_tokenDuration :: duration
  sm_issuer :: string
  sm_secret :: string
  sm_ready :: bool

definition NewSecretManager :: "string \<Rightarrow> duration \<Rightarrow> string \<Rightarrow> SecretManager" where
  "NewSecretManager ns tokenDuration issuer =
     \<lparr>sm_namespace = ns, sm_tokenDuration = tokenDuration, sm_issuer = issuer, sm_secret = '''', sm_ready = False\<rparr>"

text \<open>
  The calls of the manager: reading and creating secrets, random bytes, and waiting, which says whether the
  time elapsed (and not the context was cancelled).
\<close>

record 'w jwt_client =
  jc_Get :: "string \<Rightarrow> string \<Rightarrow> 'w \<Rightarrow> (api_error + Secret) \<times> 'w"
  jc_Create :: "Secret \<Rightarrow> 'w \<Rightarrow> api_error option \<times> 'w"
  jc_Random :: "nat \<Rightarrow> 'w \<Rightarrow> (string + string) \<times> 'w"
  jc_Wait :: "duration \<Rightarrow> 'w \<Rightarrow> bool \<times> 'w"

datatype secret_error =
    KeyMissing
  | KeyTooShort nat
  | GetFailed api_error
  | RandomFailed string
  | CreateFailed api_error
  | RetrieveFailed api_error
  | AttemptsFailed int secret_error
  | ContextDone
  | Unreachable

definition secret_key :: "Secret \<Rightarrow> secret_error + string" where
  "secret_key secret =
    (case map_of (sec_Data secret) JWTSecretKey of
       None \<Rightarrow> Inl KeyMissing
     | Some jwtSecret \<Rightarrow>
         if length jwtSecret < JWTSecretLength then Inl (KeyTooShort (length jwtSecret)) else Inr jwtSecret)"

definition generateRandomSecret :: "'w jwt_client \<Rightarrow> nat \<Rightarrow> 'w \<Rightarrow> (string + string) \<times> 'w" where
  "generateRandomSecret C n w =
    (case jc_Random C n w of
       (Inl e, w') \<Rightarrow> (Inl (''failed to read random bytes: '' @ e), w')
     | (Inr bytes, w') \<Rightarrow> (Inr bytes, w'))"

definition jwt_secret :: "SecretManager \<Rightarrow> string \<Rightarrow> Secret" where
  "jwt_secret s randomSecret =
     \<lparr>sec_meta = meta_of JWTSecretName (sm_namespace s)
        [(''app.kubernetes.io/name'', ''krkn-operator''), (''app.kubernetes.io/component'', ''authentication'')],
      sec_Type = ''Opaque'', sec_Data = [(JWTSecretKey, randomSecret)]\<rparr>"

definition create_secret :: "'w jwt_client \<Rightarrow> SecretManager \<Rightarrow> string \<Rightarrow> 'w \<Rightarrow> (secret_error + string) \<times> 'w" where
  "create_secret C s randomSecret w =
    (case jc_Create C (jwt_secret s randomSecret) w of
       (None, w') \<Rightarrow> (Inr randomSecret, w')
     | (Some e, w') \<Rightarrow>
         if e = AlreadyExists then
           (case jc_Get C (sm_namespace s) JWTSecretName w' of
              (Inl getErr, w'') \<Rightarrow> (Inl (RetrieveFailed getErr), w'')
            | (Inr secret, w'') \<Rightarrow> (secret_key secret, w''))
         else (Inl (CreateFailed e), w'))"

definition loadOrCreateSecret :: "'w jwt_client \<Rightarrow> SecretManager \<Rightarrow> 'w \<Rightarrow> (secret_error + string) \<times> 'w" where
  "loadOrCreateSecret C s w =
    (case jc_Get C (sm_namespace s) JWTSecretName w of
       (Inr secret, w') \<Rightarrow> (secret_key secret, w')
     | (Inl e, w') \<Rightarrow>
         if e \<noteq> NotFound then (Inl (GetFailed e), w')
         else (case generateRandomSecret C JWTSecretLength w' of
             (Inl e, w'') \<Rightarrow> (Inl (RandomFailed e), w'')
           | (Inr randomSecret, w'') \<Rightarrow> create_secret C s randomSecret w''))"

text \<open>The first argument after the manager counts the attempts that are left.\<close>

fun attempts :: "'w jwt_client \<Rightarrow> SecretManager \<Rightarrow> nat \<Rightarrow> int \<Rightarrow> duration \<Rightarrow> 'w \<Rightarrow> (secret_error + string) \<times> 'w" where
  "attempts C s 0 maxRetries backoff w = (Inl Unreachable, w)"
| "attempts C s (Suc left) maxRetries backoff w =
    (case loadOrCreateSecret C s w of
       (Inr secret, w') \<Rightarrow> (Inr secret, w')
     | (Inl e, w') \<Rightarrow>
         if left = 0 then (Inl (AttemptsFailed maxRetries e), w')
         else (case jc_Wait C backoff w' of
             (False, w'') \<Rightarrow> (Inl ContextDone, w'')
           | (True, w'') \<Rightarrow>
               let doubled = wrap64 (backoff * 2)
               in attempts C s left maxRetries (if doubled > 30 * second then 30 * second else doubled) w''))"

definition loadOrCreateSecretWithRetry ::
  "'w jwt_client \<Rightarrow> SecretManager \<Rightarrow> int \<Rightarrow> duration \<Rightarrow> 'w \<Rightarrow> (secret_error + string) \<times> 'w" where
  "loadOrCreateSecretWithRetry C s maxRetries initialBackoff w =
     attempts C s (nat maxRetries) maxRetries initialBackoff w"

text \<open>\<open>Start\<close> up to the point where it waits for the end of the manager.\<close>

definition Start :: "'w jwt_client \<Rightarrow> SecretManager \<Rightarrow> 'w \<Rightarrow> (secret_error + SecretManager) \<times> 'w" where
  "Start C s w =
    (case loadOrCreateSecretWithRetry C s 10 second w of
       (Inl e, w') \<Rightarrow> (Inl e, w')
     | (Inr secret, w') \<Rightarrow> (Inr (s\<lparr>sm_secret := secret, sm_ready := True\<rparr>), w'))"

definition GetTokenGenerator :: "SecretManager \<Rightarrow> TokenGenerator option" where
  "GetTokenGenerator s =
    (if \<not> sm_ready s then None else Some (NewTokenGenerator (sm_secret s) (sm_tokenDuration s) (sm_issuer s)))"

definition IsReady :: "SecretManager \<Rightarrow> bool" where
  "IsReady s = sm_ready s"

section \<open>Replicas agree on the key\<close>

text \<open>
  What the replicas rely on: there is one history of the cluster, in which a stored key secret stays as it is;
  a secret that was read is the stored one, a creation that succeeded stored its data, and the random
  source fills the buffer. Other replicas act inside the calls, so each call may end in any later state;
  reads may fail or miss the secret at any time.
\<close>

definition secret_store :: "'w jwt_client \<Rightarrow> string \<Rightarrow> ('w \<Rightarrow> Secret option) \<Rightarrow> ('w \<Rightarrow> 'w \<Rightarrow> bool) \<Rightarrow> bool" where
  "secret_store C ns stored later \<longleftrightarrow> reflp later \<and> transp later \<and>
    (\<forall>w w' x. later w w' \<longrightarrow> stored w = Some x \<longrightarrow> stored w' = Some x) \<and>
    (\<forall>n m w. later w (snd (jc_Get C n m w))) \<and> (\<forall>x w. later w (snd (jc_Create C x w))) \<and>
    (\<forall>n w. later w (snd (jc_Random C n w))) \<and> (\<forall>d w. later w (snd (jc_Wait C d w))) \<and>
    (\<forall>w x. fst (jc_Get C ns JWTSecretName w) = Inr x \<longrightarrow> stored (snd (jc_Get C ns JWTSecretName w)) = Some x) \<and>
    (\<forall>x w. fst (jc_Create C x w) = None \<longrightarrow> Name (sec_meta x) = JWTSecretName \<longrightarrow> Namespace (sec_meta x) = ns \<longrightarrow>
       (\<exists>y. stored (snd (jc_Create C x w)) = Some y \<and> sec_Data y = sec_Data x)) \<and>
    (\<forall>n w b. fst (jc_Random C n w) = Inr b \<longrightarrow> length b = n)"

lemma secret_store_rules:
  assumes "secret_store C ns stored later"
  shows later_refl: "later w w"
    and later_trans: "later w w' \<Longrightarrow> later w' w'' \<Longrightarrow> later w w''"
    and stored_later: "later w w' \<Longrightarrow> stored w = Some x \<Longrightarrow> stored w' = Some x"
    and get_later: "jc_Get C n m w = (r, w') \<Longrightarrow> later w w'"
    and create_later: "jc_Create C z w = (e, w') \<Longrightarrow> later w w'"
    and random_later: "jc_Random C k w = (b, w') \<Longrightarrow> later w w'"
    and wait_later: "jc_Wait C d w = (t, w') \<Longrightarrow> later w w'"
    and get_stored: "jc_Get C ns JWTSecretName w = (Inr x, w') \<Longrightarrow> stored w' = Some x"
    and create_stored: "jc_Create C z w = (None, w') \<Longrightarrow> Name (sec_meta z) = JWTSecretName \<Longrightarrow> Namespace (sec_meta z) = ns \<Longrightarrow>
       \<exists>y. stored w' = Some y \<and> sec_Data y = sec_Data z"
    and random_length: "jc_Random C k w = (Inr bs, w') \<Longrightarrow> length bs = k"
  using assms unfolding secret_store_def by (auto dest: reflpD transpD, (metis fst_conv snd_conv)+)

definition holds_key :: "('w \<Rightarrow> Secret option) \<Rightarrow> 'w \<Rightarrow> string \<Rightarrow> bool" where
  "holds_key stored w k \<longleftrightarrow> (\<exists>x. stored w = Some x \<and> secret_key x = Inr k)"

lemma secret_key_cong: "sec_Data x = sec_Data y \<Longrightarrow> secret_key x = secret_key y"
  by (simp add: secret_key_def)

lemma secret_key_new: "length k = JWTSecretLength \<Longrightarrow> secret_key (jwt_secret s k) = Inr k"
  by (simp add: secret_key_def jwt_secret_def)

lemma create_secret_stored:
  assumes S: "secret_store C (sm_namespace s) stored later" and r: "create_secret C s k w = (r, w')" and k: "length k = JWTSecretLength"
  shows "later w w' \<and> (\<forall>k. r = Inr k \<longrightarrow> holds_key stored w' k)"
proof -
  obtain e w1 where c: "jc_Create C (jwt_secret s k) w = (e, w1)" by (metis surj_pair)
  note l = create_later[OF S c]
  show ?thesis
  proof (cases e)
    case None
    then obtain y where "stored w1 = Some y" "sec_Data y = sec_Data (jwt_secret s k)"
      using create_stored[OF S c[unfolded None]] by (auto simp: jwt_secret_def meta_of_def)
    then have "holds_key stored w1 k" using secret_key_cong secret_key_new[OF k] unfolding holds_key_def by metis
    then show ?thesis using r c None l by (auto simp: create_secret_def)
  next
    case (Some e')
    show ?thesis
      using r c Some l get_later[OF S] get_stored[OF S] later_trans[OF S]
      by (auto simp: create_secret_def holds_key_def split: if_splits prod.splits sum.splits)
  qed
qed

lemma loadOrCreateSecret_stored:
  assumes S: "secret_store C (sm_namespace s) stored later" and r: "loadOrCreateSecret C s w = (r, w')"
  shows "later w w' \<and> (\<forall>k. r = Inr k \<longrightarrow> holds_key stored w' k)"
proof -
  obtain x w1 where g: "jc_Get C (sm_namespace s) JWTSecretName w = (x, w1)" by (metis surj_pair)
  note l = get_later[OF S g]
  show ?thesis
  proof (cases "x = Inl NotFound")
    case True
    obtain b w2 where b: "jc_Random C JWTSecretLength w1 = (b, w2)" by (metis surj_pair)
    note l2 = later_trans[OF S l random_later[OF S b]]
    show ?thesis
    proof (cases b)
      case (Inl e)
      then show ?thesis using r g True b l2 by (auto simp: loadOrCreateSecret_def generateRandomSecret_def)
    next
      case (Inr k)
      then have "create_secret C s k w2 = (r, w')"
        using r g True b by (simp add: loadOrCreateSecret_def generateRandomSecret_def)
      then show ?thesis
        using create_secret_stored[OF S] random_length[OF S b[unfolded Inr]] later_trans[OF S l2] by metis
    qed
  next
    case False
    then show ?thesis
      using r g l get_stored[OF S] by (auto simp: loadOrCreateSecret_def holds_key_def split: sum.splits)
  qed
qed

lemma attempts_stored:
  assumes S: "secret_store C (sm_namespace s) stored later" and "attempts C s n m b w = (r, w')"
  shows "later w w' \<and> (\<forall>k. r = Inr k \<longrightarrow> holds_key stored w' k)"
  using assms(2)
proof (induction n arbitrary: b w)
  case 0
  then show ?case using later_refl[OF S] by auto
next
  case (Suc n)
  obtain x w1 where l: "loadOrCreateSecret C s w = (x, w1)" by (metis surj_pair)
  note L = loadOrCreateSecret_stored[OF S l]
  obtain t w2 where t: "jc_Wait C b w1 = (t, w2)" by (metis surj_pair)
  note T = wait_later[OF S t]
  show ?case
  proof (cases "\<exists>e. x = Inl e \<and> n \<noteq> 0 \<and> t")
    case True
    then have "attempts C s n m (if wrap64 (b * 2) > 30 * second then 30 * second else wrap64 (b * 2)) w2 = (r, w')"
      using Suc.prems l t by (auto simp: Let_def)
    from Suc.IH[OF this] show ?thesis using L T later_trans[OF S] by blast
  next
    case False
    then have "r = x \<and> w' = w1 \<or> (\<exists>e. r = Inl e) \<and> (w' = w1 \<or> w' = w2)"
      using Suc.prems l t by (cases x; cases t) (auto split: if_splits)
    then show ?thesis using L T later_trans[OF S] by blast
  qed
qed

text \<open>
  C17. All replicas work with the same signing key: two managers that have started hold the same key, of at
  least 32 bytes, so a token issued by one replica is accepted by the other until it expires, with the data
  of the user. This holds for every interleaving of the replicas, including the race in which both find no
  secret, and whatever calls fail in between.
\<close>

theorem replicas_accept_tokens:
  assumes "secret_store C1 ns stored later" and "secret_store C2 ns stored later"
    and "Start C1 (NewSecretManager ns d issuer) w1 = (Inr m1, w1')" and "Start C2 (NewSecretManager ns d issuer) w2 = (Inr m2, w2')"
    and "later w1' w2' \<or> later w2' w1'" and "jwt_law J"
    and "GetTokenGenerator m1 = Some tg" and "GenerateToken J tg now user role name surname org = Inr tok"
    and "list_all valid_utf8 [user, role, name, surname, org, issuer]" and "now \<le> t" and "t < NewNumericDate (now + d)"
  shows "GetTokenGenerator m2 = Some tg \<and> JWTSecretLength \<le> length (tg_secretKey tg) \<and>
    fst (RequireAuth J (NewLazyMiddleware GetTokenGenerator) m2 t (BearerPrefix @ tok)) =
      Inr (new_claims tg now user role name surname org)"
proof -
  have start: "\<exists>k. m = (NewSecretManager ns d issuer)\<lparr>sm_secret := k, sm_ready := True\<rparr> \<and> holds_key stored w' k"
    if "secret_store C ns stored later" "Start C (NewSecretManager ns d issuer) w = (Inr m, w')" for C m w w'
    using that attempts_stored[of C "NewSecretManager ns d issuer" stored later]
    by (fastforce simp: Start_def loadOrCreateSecretWithRetry_def NewSecretManager_def split: prod.splits sum.splits)
  obtain k1 k2 where m: "m1 = (NewSecretManager ns d issuer)\<lparr>sm_secret := k1, sm_ready := True\<rparr>"
    "m2 = (NewSecretManager ns d issuer)\<lparr>sm_secret := k2, sm_ready := True\<rparr>" and k: "holds_key stored w1' k1" "holds_key stored w2' k2"
    using start[OF assms(1,3)] start[OF assms(2,4)] by blast
  have "k1 = k2" using k assms(5) stored_later[OF assms(1)] by (fastforce simp: holds_key_def)
  have "JWTSecretLength \<le> length k1" using k(1) by (auto simp: holds_key_def secret_key_def split: option.splits if_splits)
  have tg: "tg = NewTokenGenerator k1 d issuer"
    using assms(7) by (simp add: m GetTokenGenerator_def NewSecretManager_def split: if_splits)
  then have g2: "GetTokenGenerator m2 = Some tg" using \<open>k1 = k2\<close> by (simp add: m GetTokenGenerator_def NewSecretManager_def)
  have "ValidateToken J tg t tok = Inr (new_claims tg now user role name surname org)"
    using validate_generated_user[OF assms(6,8)] assms(9-11) by (simp add: tg NewTokenGenerator_def)
  then have "check_header J tg t (BearerPrefix @ tok) = Inr (new_claims tg now user role name surname org)"
    by (simp add: check_header_iff)
  then show ?thesis
    using g2 \<open>JWTSecretLength \<le> length k1\<close>
    by (simp add: RequireAuth_def lazy_load_def NewLazyMiddleware_def tg NewTokenGenerator_def)
qed

section \<open>Attempts and back-off\<close>

text \<open>The same client with a record of its calls and their answers.\<close>

datatype key_event =
    KeyRead string string "api_error + Secret"
  | KeyDrawn nat "string + string"
  | KeyCreated Secret "api_error option"
  | Waited duration bool

definition log_key_calls :: "'w jwt_client \<Rightarrow> ('w \<times> key_event list) jwt_client" where
  "log_key_calls C = \<lparr>jc_Get = (\<lambda>ns n (w, l). case jc_Get C ns n w of (r, w') \<Rightarrow> (r, (w', l @ [KeyRead ns n r]))),
     jc_Create = (\<lambda>x (w, l). case jc_Create C x w of (r, w') \<Rightarrow> (r, (w', l @ [KeyCreated x r]))),
     jc_Random = (\<lambda>n (w, l). case jc_Random C n w of (r, w') \<Rightarrow> (r, (w', l @ [KeyDrawn n r]))),
     jc_Wait = (\<lambda>d (w, l). case jc_Wait C d w of (r, w') \<Rightarrow> (r, (w', l @ [Waited d r])))\<rparr>"

text \<open>
  One attempt, read off its calls: the stored key if the secret can be read; if there is none, the random key once it is
  stored; and the key of whoever stored one first, if the creation comes too late.
\<close>

fun attempt_of :: "SecretManager \<Rightarrow> key_event list \<Rightarrow> (secret_error + string) option" where
  "attempt_of s (KeyRead ns n x # evs) =
    (if ns \<noteq> sm_namespace s \<or> n \<noteq> JWTSecretName then None
     else case (x, evs) of
         (Inr secret, []) \<Rightarrow> Some (secret_key secret)
       | (Inl NotFound, [KeyDrawn m (Inl e)]) \<Rightarrow>
           if m = JWTSecretLength then Some (Inl (RandomFailed (''failed to read random bytes: '' @ e))) else None
       | (Inl NotFound, KeyDrawn m (Inr k) # KeyCreated y c # later) \<Rightarrow>
           if m \<noteq> JWTSecretLength \<or> y \<noteq> jwt_secret s k then None
           else (case (c, later) of
               (None, []) \<Rightarrow> Some (Inr k)
             | (Some AlreadyExists, [KeyRead ns' n' z]) \<Rightarrow>
                 if ns' \<noteq> sm_namespace s \<or> n' \<noteq> JWTSecretName then None
                 else Some (case z of Inl e \<Rightarrow> Inl (RetrieveFailed e) | Inr secret \<Rightarrow> secret_key secret)
             | (Some e, []) \<Rightarrow> if e = AlreadyExists then None else Some (Inl (CreateFailed e))
             | _ \<Rightarrow> None)
       | (Inl e, []) \<Rightarrow> if e = NotFound then None else Some (Inl (GetFailed e))
       | _ \<Rightarrow> None)"
| "attempt_of s _ = None"

lemma loadOrCreateSecret_attempt:
  assumes "loadOrCreateSecret (log_key_calls C) s (w, log) = (r, (w', log'))"
  shows "\<exists>evs. log' = log @ evs \<and> attempt_of s evs = Some r"
  using assms
  by (auto simp: loadOrCreateSecret_def create_secret_def generateRandomSecret_def log_key_calls_def
      split: prod.splits sum.splits option.splits if_splits api_error.splits)

definition backoff_at :: "nat \<Rightarrow> duration" where
  "backoff_at i = min (2 ^ i) 30 * second"

lemma backoff_at_Suc:
  "(if wrap64 (backoff_at i * 2) > 30 * second then 30 * second else wrap64 (backoff_at i * 2)) = backoff_at (Suc i)"
proof -
  have "0 \<le> backoff_at i" "backoff_at i \<le> 30 * second" by (auto simp: backoff_at_def second_def)
  then have "wrap64 (backoff_at i * 2) = backoff_at i * 2" by (intro wrap64_id) (auto simp: second_def)
  then show ?thesis by (auto simp: backoff_at_def second_def min_def)
qed

text \<open>The calls of several attempts, the waits between them doubling from the i-th on.\<close>

fun with_waits :: "nat \<Rightarrow> key_event list list \<Rightarrow> key_event list" where
  "with_waits i [] = []"
| "with_waits i [a] = a"
| "with_waits i (a # as) = a @ Waited (backoff_at i) True # with_waits (Suc i) as"

lemma with_waits_Cons: "as \<noteq> [] \<Longrightarrow> with_waits i (a # as) = a @ Waited (backoff_at i) True # with_waits (Suc i) as"
  by (cases as) simp_all

definition attempt_failed :: "SecretManager \<Rightarrow> key_event list \<Rightarrow> bool" where
  "attempt_failed s a \<longleftrightarrow> (\<exists>e. attempt_of s a = Some (Inl e))"

text \<open>Attempts as they are made from the i-th on with k left, their result and their calls.\<close>

definition retried :: "SecretManager \<Rightarrow> nat \<Rightarrow> nat \<Rightarrow> key_event list list \<Rightarrow> (secret_error + string) \<Rightarrow> key_event list \<Rightarrow> bool" where
  "retried s i k as r log \<longleftrightarrow> as \<noteq> [] \<and> length as \<le> k \<and> list_all (attempt_failed s) (butlast as) \<and>
    (case r of
       Inr key \<Rightarrow> attempt_of s (last as) = Some (Inr key) \<and> log = with_waits i as
     | Inl (AttemptsFailed n e) \<Rightarrow> n = 10 \<and> length as = k \<and> attempt_of s (last as) = Some (Inl e) \<and> log = with_waits i as
     | Inl ContextDone \<Rightarrow> length as < k \<and> attempt_failed s (last as) \<and>
         log = with_waits i as @ [Waited (backoff_at (i + length as - 1)) False]
     | _ \<Rightarrow> False)"

lemma retried_Cons:
  assumes "attempt_of s a = Some (Inl e)" "retried s (Suc i) k as r log"
  shows "retried s i (Suc k) (a # as) r (a @ Waited (backoff_at i) True # log)"
  using assms
  by (auto simp: retried_def with_waits_Cons attempt_failed_def split: sum.splits secret_error.splits)

lemma attempts_retried:
  assumes "0 < k" "attempts (log_key_calls C) s k 10 (backoff_at i) (w, log) = (r, (w', log'))"
  shows "\<exists>as evs. log' = log @ evs \<and> retried s i k as r evs"
  using assms
proof (induction k arbitrary: i w log)
  case (Suc k)
  obtain x w1 log1 where l: "loadOrCreateSecret (log_key_calls C) s (w, log) = (x, (w1, log1))" by (metis surj_pair)
  obtain a where a: "log1 = log @ a" "attempt_of s a = Some x" using loadOrCreateSecret_attempt[OF l] by blast
  show ?case
  proof (cases "\<exists>e. x = Inl e \<and> k \<noteq> 0")
    case False
    then show ?thesis
      using Suc.prems l a by (intro exI[of _ "[a]"] exI[of _ a]) (cases x, auto simp: retried_def)
  next
    case True
    then obtain e where e: "x = Inl e" "k \<noteq> 0" by blast
    obtain t w2 where t: "jc_Wait C (backoff_at i) w1 = (t, w2)" by (metis surj_pair)
    then have wt: "jc_Wait (log_key_calls C) (backoff_at i) (w1, log1) = (t, (w2, log1 @ [Waited (backoff_at i) t]))"
      by (simp add: log_key_calls_def)
    show ?thesis
    proof (cases t)
      case False
      then show ?thesis
        using Suc.prems l a e wt
        by (intro exI[of _ "[a]"] exI[of _ "a @ [Waited (backoff_at i) False]"]) (auto simp: retried_def attempt_failed_def)
    next
      case True
      then have "attempts (log_key_calls C) s k 10 (backoff_at (Suc i)) (w2, log1 @ [Waited (backoff_at i) True]) = (r, (w', log'))"
        using Suc.prems l e wt backoff_at_Suc[of i] by (simp add: Let_def)
      from Suc.IH[OF _ this] e(2) obtain as evs where
        evs: "log' = (log1 @ [Waited (backoff_at i) True]) @ evs" "retried s (Suc i) k as r evs" by auto
      show ?thesis
        using retried_Cons[OF _ evs(2)] a e evs(1)
        by (intro exI[of _ "a # as"] exI[of _ "a @ Waited (backoff_at i) True # evs"]) auto
    qed
  qed
qed simp

text \<open>
  C32. Whatever the API server answers, starting the manager makes at least one and at most ten attempts to read or create the key, of which all
  but the last fail, with a wait after each failed one, the i-th of 2 to the power i seconds (from 0) capped at 30. It returns the key of the first
  attempt that succeeds; it gives up only after ten failed attempts, or when the context ends during a wait. An attempt is one read
  of the secret, if there is none the creation of one, and if that comes too late a second read.
\<close>

theorem Start_attempts:
  "case Start (log_key_calls C) s (w, []) of (r, (w', log)) \<Rightarrow>
     (\<exists>as. as \<noteq> [] \<and> length as \<le> 10 \<and> list_all (attempt_failed s) (butlast as) \<and>
       (case r of
          Inr m \<Rightarrow> (\<exists>key. attempt_of s (last as) = Some (Inr key) \<and> m = s\<lparr>sm_secret := key, sm_ready := True\<rparr>) \<and> log = with_waits 0 as
        | Inl (AttemptsFailed n e) \<Rightarrow> n = 10 \<and> length as = 10 \<and> attempt_of s (last as) = Some (Inl e) \<and> log = with_waits 0 as
        | Inl ContextDone \<Rightarrow> length as < 10 \<and> attempt_failed s (last as) \<and>
            log = with_waits 0 as @ [Waited (min (2 ^ (length as - 1)) 30 * second) False]
        | _ \<Rightarrow> False))"
proof -
  obtain x w' log where x: "attempts (log_key_calls C) s 10 10 (backoff_at 0) (w, []) = (x, (w', log))" by (metis surj_pair)
  have b: "backoff_at 0 = second" by (simp add: backoff_at_def)
  obtain as where "retried s 0 10 as x log" using attempts_retried[OF _ x] by auto
  moreover have "Start (log_key_calls C) s (w, []) = (case x of Inl e \<Rightarrow> Inl e | Inr key \<Rightarrow> Inr (s\<lparr>sm_secret := key, sm_ready := True\<rparr>), (w', log))"
    using x by (simp add: Start_def loadOrCreateSecretWithRetry_def b split: sum.splits)
  ultimately show ?thesis
    by (cases x) (auto simp: retried_def backoff_at_def split: secret_error.splits intro!: exI[of _ as])
qed

section \<open>A store and a token library\<close>

definition sample_issuer :: string where
  "sample_issuer = ''krkn-operator''"

definition day :: duration where
  "day = 24 * 3600 * second"

definition sample_claims :: "string \<Rightarrow> Claims" where
  "sample_claims user = new_claims (NewTokenGenerator '''' day sample_issuer) 0 user ''admin'' ''Ada'' ''Byron'' ''''"

definition sample_jwt :: jwt_lib where
  "sample_jwt = \<lparr>jl_Sign = (\<lambda>m c key. if c = sample_claims (cl_UserID c) then Inr (cl_UserID c) else Inl ''unsupported''),
     jl_Parse = (\<lambda>tok kf t. case kf SigningMethodHS256 of Inl e \<Rightarrow> Inl e
       | Inr key \<Rightarrow> if claims_valid_at (sample_claims tok) t then Inr (True, sample_claims tok) else Inl ''token is expired'')\<rparr>"

lemma sample_jwt_law: "jwt_law sample_jwt"
  by (auto simp: jwt_law_def sample_jwt_def split: if_splits)

definition secret_cell :: "Secret option jwt_client" where
  "secret_cell = \<lparr>jc_Get = (\<lambda>ns n w. (if ns = ''krkn'' \<and> n = JWTSecretName then case w of None \<Rightarrow> Inl NotFound | Some x \<Rightarrow> Inr x else Inl NotFound, w)),
     jc_Create = (\<lambda>x w. if Namespace (sec_meta x) = ''krkn'' \<and> Name (sec_meta x) = JWTSecretName
        then case w of None \<Rightarrow> (None, Some x) | Some y \<Rightarrow> (Some AlreadyExists, w) else (Some (OtherError ''forbidden''), w)),
     jc_Random = (\<lambda>n w. (Inr (replicate n CHR ''k''), w)), jc_Wait = (\<lambda>d w. (True, w))\<rparr>"

lemma secret_cell_store: "secret_store secret_cell ''krkn'' (\<lambda>w. w) (\<lambda>w w'. w = None \<or> w = w')"
  by (auto simp: secret_store_def secret_cell_def reflp_def transp_def split: option.splits if_splits)

theorem replicas_accept_tokens_witness:
  "\<exists>m1 m2 c w. Start secret_cell (NewSecretManager ''krkn'' day sample_issuer) None = (Inr m1, w) \<and>
     Start secret_cell (NewSecretManager ''krkn'' day sample_issuer) w = (Inr m2, w) \<and>
     fst (RequireAuth sample_jwt (NewLazyMiddleware GetTokenGenerator) m2 second (BearerPrefix @ ''a@x.io'')) = Inr c \<and> cl_UserID c = ''a@x.io''"
proof -
  let ?s = "NewSecretManager ''krkn'' day sample_issuer"
  let ?m = "?s\<lparr>sm_secret := replicate 32 CHR ''k'', sm_ready := True\<rparr>"
  let ?x = "Some (jwt_secret ?s (replicate 32 CHR ''k''))"
  have s: "Start secret_cell ?s None = (Inr ?m, ?x)" "Start secret_cell ?s ?x = (Inr ?m, ?x)" by code_simp+
  have g: "GetTokenGenerator ?m = Some (NewTokenGenerator (replicate 32 CHR ''k'') day sample_issuer)" by code_simp
  have t: "GenerateToken sample_jwt (NewTokenGenerator (replicate 32 CHR ''k'') day sample_issuer) 0 ''a@x.io'' ''admin'' ''Ada'' ''Byron'' '''' = Inr ''a@x.io''"
    by code_simp
  have u: "list_all valid_utf8 [''a@x.io'', ''admin'', ''Ada'', ''Byron'', '''', sample_issuer]" by code_simp
  have "(0::int) \<le> second" "second < NewNumericDate (0 + day)" by code_simp+
  from replicas_accept_tokens[OF secret_cell_store secret_cell_store s _ sample_jwt_law g t u this]
  show ?thesis using s by (auto simp: new_claims_def)
qed

end
