(* ===== verification/Go_Text.thy ===== *)
theory Go_Text
  imports Go_Std Json
begin

text \<open>More of the Go library on text: \<open>strconv.Atoi\<close> and \<open>ParseBool\<close>, suffixes, and replacement rune by rune.\<close>

definition has_suffix :: "string \<Rightarrow> string \<Rightarrow> bool" where
  "has_suffix s p \<longleftrightarrow> length p \<le> length s \<and> drop (length s - length p) s = p"

definition trim_suffix :: "string \<Rightarrow> string \<Rightarrow> string" where
  "trim_suffix s p = (if has_suffix s p then take (length s - length p) s else s)"

lemma has_suffix_append [simp]: "has_suffix (s @ p) p"
  by (simp add: has_suffix_def)

lemma trim_suffix_append [simp]: "trim_suffix (s @ p) p = s"
  by (simp add: trim_suffix_def)

lemma has_suffix_split: "has_suffix s p \<Longrightarrow> \<exists>t. s = t @ p"
  unfolding has_suffix_def by (metis append_take_drop_id)

text \<open>A decimal number with an optional sign, within 64 bits.\<close>

definition Atoi :: "string \<Rightarrow> int option" where
  "Atoi s =
    (let neg = has_prefix s ''-'';
         ds = (if neg \<or> has_prefix s ''+'' then drop 1 s else s);
         v = (if neg then - int (digits_value ds) else int (digits_value ds))
     in if ds = '''' \<or> \<not> list_all is_digit ds then None
        else if - (2 ^ 63) \<le> v \<and> v < 2 ^ 63 then Some v else None)"

lemma Atoi_bounds: "Atoi s = Some v \<Longrightarrow> - (2 ^ 63) \<le> v \<and> v < 2 ^ 63"
  by (auto simp: Atoi_def Let_def split: if_splits)

definition ParseBool :: "string \<Rightarrow> bool option" where
  "ParseBool s =
    (if s \<in> {''1'', ''t'', ''T'', ''TRUE'', ''true'', ''True''} then Some True
     else if s \<in> {''0'', ''f'', ''F'', ''FALSE'', ''false'', ''False''} then Some False
     else None)"

text \<open>
  \<open>regexp.ReplaceAllString\<close> of a negated class of ASCII bytes by one byte: every rune outside the class becomes the
  byte, a byte that is no valid rune too.
\<close>

function replace_runes :: "(char \<Rightarrow> bool) \<Rightarrow> char \<Rightarrow> string \<Rightarrow> string" where
  "replace_runes ok r [] = []"
| "replace_runes ok r (c # cs) =
    (if ok c then c # replace_runes ok r cs else r # replace_runes ok r (drop (utf8_width (c # cs) - 1) cs))"
  by pat_completeness auto
termination
  by (relation "measure (\<lambda>(ok, r, s). length s)") auto

lemma replace_runes_ok: "(\<And>c. c \<in> set s \<Longrightarrow> ok c) \<Longrightarrow> replace_runes ok r s = s"
  by (induction ok r s rule: replace_runes.induct) auto

lemma set_replace_runes: "ok r \<Longrightarrow> c \<in> set (replace_runes ok r s) \<Longrightarrow> ok c"
  by (induction ok r s rule: replace_runes.induct) (auto split: if_splits)

end
