(* ===== verification/Auth_API.thy ===== *)
theory Auth_API
  imports Auth Go_Text Logged_Calls Registry_API
begin

text \<open>
  Registration and login: \<open>src/internal/api/auth_handlers.go\<close>, with the client calls that the user handlers share.
  A handler is a sequence of calls that ends early with a reply. Every call changes the world; creations and
  updates give back the object the API server stored.
\<close>

section \<open>The client\<close>

record 'w user_client =
  uc_Namespace :: string
  uc_ListUsers :: "string option \<Rightarrow> (string, string) gomap \<Rightarrow> 'w \<Rightarrow> (api_error + KrknUser list) \<times> 'w"
  uc_GetSecret :: "string \<Rightarrow> string \<Rightarrow> 'w \<Rightarrow> (api_error + Secret) \<times> 'w"
  uc_CreateSecret :: "Secret \<Rightarrow> (string, string) gomap \<Rightarrow> 'w \<Rightarrow> api_error option \<times> 'w"
  uc_UpdateSecret :: "Secret \<Rightarrow> 'w \<Rightarrow> api_error option \<times> 'w"
  uc_DeleteSecret :: "string \<Rightarrow> string \<Rightarrow> 'w \<Rightarrow> api_error option \<times> 'w"
  uc_CreateUser :: "KrknUser \<Rightarrow> 'w \<Rightarrow> (api_error + KrknUser) \<times> 'w"
  uc_UpdateUser :: "KrknUser \<Rightarrow> 'w \<Rightarrow> (api_error + KrknUser) \<times> 'w"
  uc_UpdateUserStatus :: "KrknUser \<Rightarrow> 'w \<Rightarrow> (api_error + KrknUser) \<times> 'w"
  uc_DeleteUser :: "KrknUser \<Rightarrow> 'w \<Rightarrow> api_error option \<times> 'w"
  uc_Now :: "'w \<Rightarrow> time \<times> 'w"
  uc_ErrorText :: "api_error \<Rightarrow> string"

text \<open>
  A list is of one namespace, or of all, with labels to match. A secret is created with its data and its
  \<open>StringData\<close>, which the server stores as data.
\<close>

section \<open>Names and labels\<close>

definition AdminRoleLabel :: string where
  "AdminRoleLabel = ''krkn.krkn-chaos.dev/role''"

definition UserAccountLabel :: string where
  "UserAccountLabel = ''krkn.krkn-chaos.dev/user-account''"

definition admin_labels :: "(string, string) gomap" where
  "admin_labels = [(AdminRoleLabel, ''admin''), (UserAccountLabel, ''true'')]"

definition name_byte :: "char \<Rightarrow> bool" where
  "name_byte c \<longleftrightarrow> is_lower c \<or> is_digit c \<or> c = CHR ''-''"

definition sanitizeResourceName :: "string \<Rightarrow> string" where
  "sanitizeResourceName name =
    (let sanitized = to_lower name;
         dashed = replace_all (replace_all sanitized CHR ''@'' CHR ''-'') CHR ''.'' CHR ''-'';
         replaced = replace_runes name_byte CHR ''-'' dashed;
         trimmed = trim replaced ''-''
     in if length trimmed > 63 then trim_right (take 63 trimmed) ''-'' else trimmed)"

definition hour :: duration where
  "hour = 3600 * second"

definition getTokenDuration :: "string \<Rightarrow> duration" where
  "getTokenDuration expiryHoursStr =
    (if expiryHoursStr = '''' then 24 * hour
     else case Atoi expiryHoursStr of
       None \<Rightarrow> 24 * hour
     | Some expiryHours \<Rightarrow> if expiryHours \<le> 0 then 24 * hour else wrap64 (expiryHours * hour))"

section \<open>Requests\<close>

record RegisterRequest =
  rq_UserID :: string
  rq_Password :: string
  rq_Name :: string
  rq_Surname :: string
  rq_Organization :: string
  rq_Role :: string

record LoginRequest =
  lq_UserID :: string
  lq_Password :: string

text \<open>\<open>ExpiresAt\<close> is the instant; the response carries its RFC 3339 text.\<close>

record LoginResponse =
  lr_Token :: string
  lr_ExpiresAt :: time
  lr_UserID :: string
  lr_Role :: string
  lr_Name :: string
  lr_Surname :: string

datatype auth_body =
    IsRegisteredResponse bool
  | RegisterResponse string string string
  | LoginBody LoginResponse

definition method_not_allowed :: "string \<Rightarrow> 'a reply" where
  "method_not_allowed m = Failure 405 ''method_not_allowed'' (''Only '' @ m @ '' method is allowed'')"

definition internal_error :: "string \<Rightarrow> 'a reply" where
  "internal_error msg = Failure 500 ''internal_error'' msg"

definition validation_error :: "string \<Rightarrow> 'a reply" where
  "validation_error msg = Failure 400 ''validation_error'' msg"

section \<open>Handlers\<close>

definition IsRegistered :: "'w user_client \<Rightarrow> string \<Rightarrow> 'w \<Rightarrow> auth_body reply \<times> 'w" where
  "IsRegistered C rmethod = run_handler
    (if rmethod \<noteq> ''GET'' then ret (method_not_allowed ''GET'')
     else bind_eff (call (uc_ListUsers C None admin_labels) (\<lambda>e. internal_error ''Failed to check admin registration status''))
       (\<lambda>users. ret (Body 200 (IsRegisteredResponse (users \<noteq> [])))))"

text \<open>The checks of a new account that need no call.\<close>

definition check_account :: "string \<Rightarrow> string \<Rightarrow> string \<Rightarrow> string \<Rightarrow> string \<Rightarrow> 'a reply option" where
  "check_account userID password name surname role =
    (if userID = '''' \<or> password = '''' \<or> name = '''' \<or> surname = '''' \<or> role = ''''
     then Some (validation_error ''UserID, password, name, surname, and role are required'')
     else if role \<noteq> ''user'' \<and> role \<noteq> ''admin''
     then Some (validation_error (''Role must be either '' @ in_quotes ''user'' @ '' or '' @ in_quotes ''admin''))
     else case ValidatePassword password of
       Some e \<Rightarrow> Some (validation_error (''Password validation failed: '' @ e))
     | None \<Rightarrow> None)"

definition password_secret :: "'w user_client \<Rightarrow> string \<Rightarrow> Secret" where
  "password_secret C secretName =
     \<lparr>sec_meta = meta_of secretName (uc_Namespace C)
        [(''app.kubernetes.io/name'', ''krkn-operator''), (''app.kubernetes.io/component'', ''authentication''),
         (''krkn.krkn-chaos.dev/password'', ''true'')],
      sec_Type = ''Opaque'', sec_Data = []\<rparr>"

text \<open>
  Storing the password secret: an existing one is deleted and created anew. The arguments are the
  messages of the three failures.
\<close>

definition put_password ::
  "'w user_client \<Rightarrow> Secret \<Rightarrow> (string, string) gomap \<Rightarrow> string \<Rightarrow> string \<Rightarrow> (api_error \<Rightarrow> string) \<Rightarrow> ('w, 'a reply, unit) eff" where
  "put_password C secret stringData del_msg again_msg create_msg =
     bind_eff (step (uc_CreateSecret C secret stringData)) (\<lambda>res.
       case res of
         None \<Rightarrow> ret ()
       | Some e \<Rightarrow>
           if e = AlreadyExists then
             bind_eff (call_opt (uc_DeleteSecret C (Namespace (sec_meta secret)) (Name (sec_meta secret))) (\<lambda>_. internal_error del_msg)) (\<lambda>_.
               call_opt (uc_CreateSecret C secret stringData) (\<lambda>_. internal_error again_msg))
           else stop (internal_error (create_msg e)))"

definition new_user :: "'w user_client \<Rightarrow> string \<Rightarrow> RegisterRequest \<Rightarrow> string \<Rightarrow> KrknUser" where
  "new_user C userName req secretName =
     \<lparr>user_meta = meta_of userName (uc_Namespace C) [(UserAccountLabel, ''true''), (AdminRoleLabel, rq_Role req)],
      user_Spec = \<lparr>us_UserID = rq_UserID req, us_Name = rq_Name req, us_Surname = rq_Surname req,
        us_Organization = rq_Organization req, us_Role = rq_Role req, us_PasswordSecretRef = secretName\<rparr>,
      user_Active = False, user_Created = 0, user_LastLogin = 0\<rparr>"

text \<open>Creating the user; when that fails the secret is removed, whatever that call says.\<close>

definition create_user :: "'w user_client \<Rightarrow> Secret \<Rightarrow> KrknUser \<Rightarrow> ('w, 'a reply, KrknUser) eff" where
  "create_user C secret user =
     bind_eff (step (uc_CreateUser C user)) (\<lambda>res.
       case res of
         Inr stored \<Rightarrow> ret stored
       | Inl e \<Rightarrow>
           bind_eff (step (uc_DeleteSecret C (Namespace (sec_meta secret)) (Name (sec_meta secret))))
             (\<lambda>_. stop (internal_error ''Failed to create user'')))"

definition activate :: "'w user_client \<Rightarrow> KrknUser \<Rightarrow> ('w, 'a reply, unit) eff" where
  "activate C user =
     bind_eff (step (uc_Now C)) (\<lambda>now.
       bind_eff (step (uc_UpdateUserStatus C (user\<lparr>user_Active := True, user_Created := now, user_LastLogin := 0\<rparr>)))
         (\<lambda>_. ret ()))"

definition Register :: "'w user_client \<Rightarrow> 'w bcrypt \<Rightarrow> string \<Rightarrow> string + RegisterRequest \<Rightarrow> 'w \<Rightarrow> auth_body reply \<times> 'w" where
  "Register C B rmethod body = run_handler
    (if rmethod \<noteq> ''POST'' then ret (method_not_allowed ''POST'')
     else case body of
       Inl e \<Rightarrow> ret (Failure 400 ''invalid_request'' ''Invalid request body'')
     | Inr req \<Rightarrow>
       (case check_account (rq_UserID req) (rq_Password req) (rq_Name req) (rq_Surname req) (rq_Role req) of
          Some failure \<Rightarrow> ret failure
        | None \<Rightarrow>
          bind_eff (call (uc_ListUsers C None admin_labels) (\<lambda>e. internal_error ''Failed to verify admin status'')) (\<lambda>admins.
          if admins \<noteq> [] then
            stop (Failure 403 ''registration_closed''
              ''Initial admin registration is complete. New users must be created by an admin using POST /api/v1/users'')
          else if rq_Role req \<noteq> ''admin'' then stop (validation_error ''First user must have admin role'')
          else
          bind_eff (call (uc_ListUsers C (Some (uc_Namespace C)) []) (\<lambda>e. internal_error ''Failed to check existing users'')) (\<lambda>existing.
          if list_ex (\<lambda>user. us_UserID (user_Spec user) = rq_UserID req) existing then
            stop (Failure 409 ''user_exists'' (''User with email '' @ rq_UserID req @ '' already exists''))
          else
          bind_eff (call (HashPassword B (rq_Password req)) (\<lambda>e. internal_error ''Failed to process password'')) (\<lambda>passwordHash.
          let secretName = ''krknuser-password-'' @ sanitizeResourceName (rq_UserID req);
              secret = password_secret C secretName
          in bind_eff (put_password C secret [(''passwordHash'', passwordHash)] ''Failed to clean up existing credentials''
               ''Failed to create user credentials'' (\<lambda>_. ''Failed to create user credentials'')) (\<lambda>_.
             bind_eff (create_user C secret (new_user C (''krknuser-'' @ sanitizeResourceName (rq_UserID req)) req secretName)) (\<lambda>user.
             bind_eff (activate C user) (\<lambda>_.
             ret (Body 201 (RegisterResponse ''User registered successfully'' (rq_UserID req) (rq_Role req)))))))))))"

definition find_user :: "string \<Rightarrow> KrknUser list \<Rightarrow> KrknUser option" where
  "find_user userID users = List.find (\<lambda>user. us_UserID (user_Spec user) = userID) users"

text \<open>The second half of \<open>Login\<close>, once the password matched.\<close>

definition issue_token ::
  "'w user_client \<Rightarrow> jwt_lib \<Rightarrow> SecretManager \<Rightarrow> duration \<Rightarrow> KrknUser \<Rightarrow> ('w, auth_body reply, auth_body reply) eff" where
  "issue_token C J sm tokenDuration user =
    (case GetTokenGenerator sm of
       None \<Rightarrow> stop (internal_error ''Failed to generate token'')
     | Some tokenGen \<Rightarrow>
       bind_eff (step (uc_Now C)) (\<lambda>now.
       (let spec = user_Spec user
        in case GenerateToken J tokenGen now (us_UserID spec) (us_Role spec) (us_Name spec) (us_Surname spec) (us_Organization spec) of
          Inl e \<Rightarrow> stop (internal_error ''Failed to generate token'')
        | Inr token \<Rightarrow>
          bind_eff (step (uc_Now C)) (\<lambda>now2.
          bind_eff (step (uc_UpdateUserStatus C (user\<lparr>user_LastLogin := now2\<rparr>))) (\<lambda>res.
          bind_eff (step (uc_Now C)) (\<lambda>now3.
          let spec' = user_Spec (case res of Inl e \<Rightarrow> user | Inr u \<Rightarrow> u)
          in ret (Body 200 (LoginBody \<lparr>lr_Token = token, lr_ExpiresAt = now3 + tokenDuration, lr_UserID = us_UserID spec',
               lr_Role = us_Role spec', lr_Name = us_Name spec', lr_Surname = us_Surname spec'\<rparr>))))))))"

definition Login ::
  "'w user_client \<Rightarrow> 'w bcrypt \<Rightarrow> jwt_lib \<Rightarrow> SecretManager \<Rightarrow> duration \<Rightarrow> string \<Rightarrow> string + LoginRequest \<Rightarrow> 'w \<Rightarrow> auth_body reply \<times> 'w" where
  "Login C B J sm tokenDuration rmethod body = run_handler
    (if rmethod \<noteq> ''POST'' then ret (method_not_allowed ''POST'')
     else case body of
       Inl e \<Rightarrow> ret (Failure 400 ''invalid_request'' ''Invalid request body'')
     | Inr req \<Rightarrow>
       if lq_UserID req = '''' \<or> lq_Password req = '''' then ret (validation_error ''UserID and password are required'')
       else
       bind_eff (call (uc_ListUsers C (Some (uc_Namespace C)) []) (\<lambda>e. internal_error ''Failed to authenticate'')) (\<lambda>users.
       case find_user (lq_UserID req) users of
         None \<Rightarrow> stop (Failure 401 ''invalid_credentials'' ''Invalid email or password'')
       | Some user \<Rightarrow>
         if \<not> user_Active user then stop (Failure 401 ''account_disabled'' ''User account is disabled'')
         else
         bind_eff (call (uc_GetSecret C (uc_Namespace C) (us_PasswordSecretRef (user_Spec user))) (\<lambda>e. internal_error ''Failed to authenticate'')) (\<lambda>secret.
         case map_of (sec_Data secret) ''passwordHash'' of
           None \<Rightarrow> stop (internal_error ''Failed to authenticate'')
         | Some passwordHash \<Rightarrow>
             if \<not> VerifyPassword B (lq_Password req) passwordHash
             then stop (Failure 401 ''invalid_credentials'' ''Invalid email or password'')
             else issue_token C J sm tokenDuration user)))"

section \<open>Logging the calls\<close>

datatype user_event =
    ListedUsers "string option" "(string, string) gomap" "api_error + KrknUser list"
  | ReadSecret string string "api_error + Secret"
  | SecretCreate Secret "(string, string) gomap" "api_error option"
  | SecretUpdate Secret "api_error option"
  | SecretDelete string string "api_error option"
  | UserCreate KrknUser "api_error + KrknUser"
  | UserUpdate KrknUser "api_error + KrknUser"
  | UserStatus KrknUser "api_error + KrknUser"
  | UserDelete KrknUser "api_error option"
  | ClockRead time

definition logged_users :: "'w user_client \<Rightarrow> ('w \<times> user_event list) user_client" where
  "logged_users C = \<lparr>uc_Namespace = uc_Namespace C,
     uc_ListUsers = (\<lambda>n ls. noting (uc_ListUsers C n ls) (ListedUsers n ls)),
     uc_GetSecret = (\<lambda>ns n. noting (uc_GetSecret C ns n) (ReadSecret ns n)),
     uc_CreateSecret = (\<lambda>x sd. noting (uc_CreateSecret C x sd) (SecretCreate x sd)),
     uc_UpdateSecret = (\<lambda>x. noting (uc_UpdateSecret C x) (SecretUpdate x)),
     uc_DeleteSecret = (\<lambda>ns n. noting (uc_DeleteSecret C ns n) (SecretDelete ns n)),
     uc_CreateUser = (\<lambda>u. noting (uc_CreateUser C u) (UserCreate u)),
     uc_UpdateUser = (\<lambda>u. noting (uc_UpdateUser C u) (UserUpdate u)),
     uc_UpdateUserStatus = (\<lambda>u. noting (uc_UpdateUserStatus C u) (UserStatus u)),
     uc_DeleteUser = (\<lambda>u. noting (uc_DeleteUser C u) (UserDelete u)),
     uc_Now = noting (uc_Now C) ClockRead, uc_ErrorText = uc_ErrorText C\<rparr>"

text \<open>Hashing is not logged; it only moves the world below the log.\<close>

definition unlogged :: "'w bcrypt \<Rightarrow> ('w \<times> 'e list) bcrypt" where
  "unlogged B = \<lparr>bc_Generate = (\<lambda>p. silently (bc_Generate B p)), bc_Compare = bc_Compare B\<rparr>"

lemma logged_users_simps [simp]:
  "uc_Namespace (logged_users C) = uc_Namespace C"
  "uc_ListUsers (logged_users C) n ls = noting (uc_ListUsers C n ls) (ListedUsers n ls)"
  "uc_GetSecret (logged_users C) ns m = noting (uc_GetSecret C ns m) (ReadSecret ns m)"
  "uc_CreateSecret (logged_users C) x sd = noting (uc_CreateSecret C x sd) (SecretCreate x sd)"
  "uc_UpdateSecret (logged_users C) x = noting (uc_UpdateSecret C x) (SecretUpdate x)"
  "uc_DeleteSecret (logged_users C) ns m = noting (uc_DeleteSecret C ns m) (SecretDelete ns m)"
  "uc_CreateUser (logged_users C) u = noting (uc_CreateUser C u) (UserCreate u)"
  "uc_UpdateUser (logged_users C) u = noting (uc_UpdateUser C u) (UserUpdate u)"
  "uc_UpdateUserStatus (logged_users C) u = noting (uc_UpdateUserStatus C u) (UserStatus u)"
  "uc_DeleteUser (logged_users C) u = noting (uc_DeleteUser C u) (UserDelete u)"
  "uc_Now (logged_users C) = noting (uc_Now C) ClockRead"
  "uc_ErrorText (logged_users C) = uc_ErrorText C"
  by (simp_all add: logged_users_def)

lemma VerifyPassword_unlogged [simp]: "VerifyPassword (unlogged B) p h = VerifyPassword B p h"
  by (simp add: VerifyPassword_def unlogged_def)

lemma ensures_hash [ensures_rules]:
  assumes "\<And>e. E (h e) log" and "\<And>k. (bcrypt_law B \<Longrightarrow> VerifyPassword B p k) \<Longrightarrow> Q k log"
  shows "ensures (call (HashPassword (unlogged B) p) h) Q E log"
proof -
  have "case HashPassword (unlogged B) p (w, log) of (Inl e, s) \<Rightarrow> snd s = log | (Inr k, s) \<Rightarrow> snd s = log \<and> (\<exists>w'. HashPassword B p w = (Inr k, w'))" for w
    by (auto simp: HashPassword_def unlogged_def silently_def split: prod.splits sum.splits)
  then show ?thesis
    using assms HashPassword_verifies
    by (fastforce simp: ensures_def call_def split: prod.splits sum.splits)
qed

section \<open>Registration\<close>

text \<open>
  What a log of \<open>Register\<close> looks like: a user is created only after no administrator was found, as an administrator;
  success means a user was created; a failed creation is followed by the removal of the password.
\<close>

definition registration_ok :: "string \<Rightarrow> auth_body reply \<Rightarrow> user_event list \<Rightarrow> bool" where
  "registration_ok ns r log \<longleftrightarrow>
    (\<forall>u x. UserCreate u x \<in> set log \<longrightarrow> ListedUsers None admin_labels (Inr []) \<in> set log \<and> us_Role (user_Spec u) = ''admin'') \<and>
    (reply_code r = 201 \<longrightarrow> (\<exists>u v. UserCreate u (Inr v) \<in> set log)) \<and>
    (\<forall>u e. UserCreate u (Inl e) \<in> set log \<longrightarrow>
       (\<exists>x. last log = SecretDelete ns (us_PasswordSecretRef (user_Spec u)) x) \<and> reply_code r = 500)"

lemmas failure_defs = internal_error_def validation_error_def method_not_allowed_def

lemma check_account_code: "check_account u p n s r = Some f \<Longrightarrow> reply_code f = 400"
  by (auto simp: check_account_def failure_defs split: if_splits option.splits)

lemma ensures_put_password:
  assumes "\<And>l. (\<forall>u x. UserCreate u x \<notin> set l) \<Longrightarrow> Q () (log @ l)"
    and "\<And>l msg. (\<forall>u x. UserCreate u x \<notin> set l) \<Longrightarrow> E (internal_error msg) (log @ l)"
  shows "ensures (put_password (logged_users C) s sd m1 m2 m3) Q E log"
  unfolding put_password_def logged_users_simps
  by (intro ensures_rules) (auto intro: assms)


section \<open>Login\<close>

text \<open>What a log of a successful \<open>Login\<close> shows: the user, the password and the token.\<close>

definition login_ok ::
  "string \<Rightarrow> 'w bcrypt \<Rightarrow> jwt_lib \<Rightarrow> TokenGenerator \<Rightarrow> LoginRequest \<Rightarrow> string \<Rightarrow> user_event list \<Rightarrow> KrknUser \<Rightarrow> time \<Rightarrow> bool" where
  "login_ok ns B J tg req tok log user now \<longleftrightarrow>
    (\<exists>users secret h. ListedUsers (Some ns) [] (Inr users) \<in> set log \<and> find_user (lq_UserID req) users = Some user \<and>
       user_Active user \<and> ReadSecret ns (us_PasswordSecretRef (user_Spec user)) (Inr secret) \<in> set log \<and>
       map_of (sec_Data secret) ''passwordHash'' = Some h \<and> VerifyPassword B (lq_Password req) h) \<and>
    ClockRead now \<in> set log \<and>
    GenerateToken J tg now (us_UserID (user_Spec user)) (us_Role (user_Spec user)) (us_Name (user_Spec user))
      (us_Surname (user_Spec user)) (us_Organization (user_Spec user)) = Inr tok"

lemma Login_log:
  "case Login (logged_users C) (unlogged B) J sm d rmethod (Inr req) (w, []) of
     (r, (w', log)) \<Rightarrow> (\<forall>resp. r = Body 200 (LoginBody resp) \<longrightarrow>
       (\<exists>tg user now. GetTokenGenerator sm = Some tg \<and> login_ok (uc_Namespace C) B J tg req (lr_Token resp) log user now))"
  unfolding Login_def
  by (rule run_handler_ensures, unfold logged_users_simps issue_token_def VerifyPassword_unlogged sum.case, intro ensures_rules)
    (simp_all add: login_ok_def failure_defs, auto)

text \<open>Strings of objects that came as JSON are UTF-8.\<close>

definition utf8_user :: "KrknUser \<Rightarrow> bool" where
  "utf8_user u \<longleftrightarrow> list_all valid_utf8 [us_UserID (user_Spec u), us_Role (user_Spec u), us_Name (user_Spec u),
     us_Surname (user_Spec u), us_Organization (user_Spec u)]"

abbreviation claims_of :: "TokenGenerator \<Rightarrow> time \<Rightarrow> KrknUser \<Rightarrow> Claims" where
  "claims_of tg now u \<equiv> new_claims tg now (us_UserID (user_Spec u)) (us_Role (user_Spec u)) (us_Name (user_Spec u))
     (us_Surname (user_Spec u)) (us_Organization (user_Spec u))"

text \<open>
  C33. A token that \<open>Login\<close> gives out belongs to an active user whose stored hash matched the password of the
  request, and from then on the middleware accepts it with the data of that user until the lifetime of the
  secret manager is over, and refuses it afterwards. The hypotheses are the contract of the token library
  and that the strings of the users are UTF-8.
\<close>

theorem Login_token_accepted:
  assumes "Login (logged_users C) (unlogged B) J sm d ''POST'' (Inr req) (w, []) = (Body 200 (LoginBody resp), (w', log))"
    and "jwt_law J" and "valid_utf8 (sm_issuer sm)"
    and "\<And>users. ListedUsers (Some (uc_Namespace C)) [] (Inr users) \<in> set log \<Longrightarrow> list_all utf8_user users"
  shows "\<exists>tg user now. GetTokenGenerator sm = Some tg \<and> login_ok (uc_Namespace C) B J tg req (lr_Token resp) log user now \<and>
    (\<forall>t\<ge>now. fst (RequireAuth J (NewLazyMiddleware GetTokenGenerator) sm t (BearerPrefix @ lr_Token resp)) =
       (if t < NewNumericDate (now + sm_tokenDuration sm) then Inr (claims_of tg now user)
        else Inl (401, ''unauthorized'', ''Invalid or expired token'')))"
proof -
  obtain tg user now where tg: "GetTokenGenerator sm = Some tg"
    and ok: "login_ok (uc_Namespace C) B J tg req (lr_Token resp) log user now"
    using Login_log[where C=C and B=B and J=J and sm=sm and d=d and req=req and w=w and rmethod="''POST''"] assms(1) by auto
  have d: "tg_tokenDuration tg = sm_tokenDuration sm" "tg_issuer tg = sm_issuer sm"
    using tg by (auto simp: GetTokenGenerator_def NewTokenGenerator_def split: if_splits)
  have "utf8_user user"
    using ok assms(4) by (auto simp: login_ok_def find_user_def list_all_iff dest!: find_SomeD)
  then have u: "list_all valid_utf8 [us_UserID (user_Spec user), us_Role (user_Spec user), us_Name (user_Spec user),
      us_Surname (user_Spec user), us_Organization (user_Spec user), tg_issuer tg]"
    using assms(3) by (simp add: utf8_user_def d)
  have "fst (RequireAuth J (NewLazyMiddleware GetTokenGenerator) sm t (BearerPrefix @ lr_Token resp)) =
       (if t < NewNumericDate (now + sm_tokenDuration sm) then Inr (claims_of tg now user)
        else Inl (401, ''unauthorized'', ''Invalid or expired token''))" if "now \<le> t" for t
  proof -
    have "now div second \<le> t div second" using that by (simp add: zdiv_mono1 second_def)
    then show ?thesis
      using validate_generated[OF assms(2) _ u, of now "lr_Token resp" t] ok tg
      by (auto simp: login_ok_def d RequireAuth_def lazy_load_def NewLazyMiddleware_def check_header_def BearerPrefix_def
          has_prefix_def trim_prefix_def split: if_splits)
  qed
  then show ?thesis using tg ok by blast
qed

section \<open>The lifetime of tokens\<close>

lemma getTokenDuration_value:
  assumes "Atoi s = Some n" "0 < n" "n \<le> 2562047"
  shows "getTokenDuration s = n * hour \<and> 0 < getTokenDuration s"
proof -
  have "wrap64 (n * hour) = n * hour" using assms(2,3) by (intro wrap64_id) (simp_all add: hour_def second_def)
  moreover have "Atoi '''' = None" by code_simp
  then have "s \<noteq> ''''" using assms(1) by auto
  ultimately show ?thesis using assms by (simp add: getTokenDuration_def hour_def second_def)
qed

text \<open>The product of hours is not checked: from 2562048 hours on the duration is negative, and every token is born expired.\<close>

theorem getTokenDuration_overflow: "getTokenDuration ''2562048'' < 0"
  by code_simp

end
