(* ===== verification/User_Store.thy ===== *)
theory User_Store
  imports Auth_API
begin

text \<open>
  A Kubernetes API server as far as the user handlers see it: users and secrets by namespace and name, names
  unique, \<open>StringData\<close> stored as data, and the status of a user a subresource that creation and update leave
  alone. It instantiates the client for theorems about several requests in a row, and for witnesses.
\<close>

record user_store =
  st_Users :: "KrknUser list"
  st_Secrets :: "Secret list"
  st_Time :: time

abbreviation user_at :: "string \<Rightarrow> string \<Rightarrow> KrknUser \<Rightarrow> bool" where
  "user_at ns n u \<equiv> Namespace (user_meta u) = ns \<and> Name (user_meta u) = n"

abbreviation secret_at :: "string \<Rightarrow> string \<Rightarrow> Secret \<Rightarrow> bool" where
  "secret_at ns n s \<equiv> Namespace (sec_meta s) = ns \<and> Name (sec_meta s) = n"

abbreviation same_user :: "KrknUser \<Rightarrow> KrknUser \<Rightarrow> bool" where
  "same_user u \<equiv> user_at (Namespace (user_meta u)) (Name (user_meta u))"

abbreviation same_secret :: "Secret \<Rightarrow> Secret \<Rightarrow> bool" where
  "same_secret s \<equiv> secret_at (Namespace (sec_meta s)) (Name (sec_meta s))"

definition listed :: "string option \<Rightarrow> (string, string) gomap \<Rightarrow> KrknUser \<Rightarrow> bool" where
  "listed n ls u \<longleftrightarrow> (case n of None \<Rightarrow> True | Some ns \<Rightarrow> Namespace (user_meta u) = ns) \<and>
     list_all (\<lambda>(k, v). map_of (Labels (user_meta u)) k = Some v) ls"

definition store_create_secret :: "Secret \<Rightarrow> (string, string) gomap \<Rightarrow> user_store \<Rightarrow> api_error option \<times> user_store" where
  "store_create_secret s sd K =
    (if list_ex (same_secret s) (st_Secrets K) then (Some AlreadyExists, K)
     else (None, K\<lparr>st_Secrets := st_Secrets K @ [s\<lparr>sec_Data := fold (\<lambda>(k, v). AList.update k v) sd (sec_Data s)\<rparr>]\<rparr>))"

definition store_update_secret :: "Secret \<Rightarrow> user_store \<Rightarrow> api_error option \<times> user_store" where
  "store_update_secret s K =
    (if list_ex (same_secret s) (st_Secrets K)
     then (None, K\<lparr>st_Secrets := map (\<lambda>x. if same_secret s x then s else x) (st_Secrets K)\<rparr>) else (Some NotFound, K))"

definition store_delete_secret :: "string \<Rightarrow> string \<Rightarrow> user_store \<Rightarrow> api_error option \<times> user_store" where
  "store_delete_secret ns n K =
    (if list_ex (secret_at ns n) (st_Secrets K)
     then (None, K\<lparr>st_Secrets := filter (\<lambda>x. \<not> secret_at ns n x) (st_Secrets K)\<rparr>) else (Some NotFound, K))"

definition store_create_user :: "KrknUser \<Rightarrow> user_store \<Rightarrow> (api_error + KrknUser) \<times> user_store" where
  "store_create_user u K =
    (if list_ex (same_user u) (st_Users K) then (Inl AlreadyExists, K)
     else let v = u\<lparr>user_Active := False, user_Created := 0, user_LastLogin := 0\<rparr>
       in (Inr v, K\<lparr>st_Users := st_Users K @ [v]\<rparr>))"

definition with_status :: "KrknUser \<Rightarrow> KrknUser \<Rightarrow> KrknUser" where
  "with_status u s = u\<lparr>user_Active := user_Active s, user_Created := user_Created s, user_LastLogin := user_LastLogin s\<rparr>"

definition store_change_user :: "(KrknUser \<Rightarrow> KrknUser) \<Rightarrow> KrknUser \<Rightarrow> user_store \<Rightarrow> (api_error + KrknUser) \<times> user_store" where
  "store_change_user f u K =
    (case List.find (same_user u) (st_Users K) of
       None \<Rightarrow> (Inl NotFound, K)
     | Some old \<Rightarrow> (Inr (f old), K\<lparr>st_Users := map (\<lambda>x. if same_user u x then f x else x) (st_Users K)\<rparr>))"

definition store_delete_user :: "KrknUser \<Rightarrow> user_store \<Rightarrow> api_error option \<times> user_store" where
  "store_delete_user u K =
    (if list_ex (same_user u) (st_Users K)
     then (None, K\<lparr>st_Users := filter (\<lambda>x. \<not> same_user u x) (st_Users K)\<rparr>) else (Some NotFound, K))"

definition store_client :: "string \<Rightarrow> user_store user_client" where
  "store_client ns = \<lparr>uc_Namespace = ns,
     uc_ListUsers = (\<lambda>n ls K. (Inr (filter (listed n ls) (st_Users K)), K)),
     uc_GetSecret = (\<lambda>n m K. (case List.find (secret_at n m) (st_Secrets K) of None \<Rightarrow> Inl NotFound | Some s \<Rightarrow> Inr s, K)),
     uc_CreateSecret = store_create_secret, uc_UpdateSecret = store_update_secret, uc_DeleteSecret = store_delete_secret,
     uc_CreateUser = store_create_user,
     uc_UpdateUser = (\<lambda>u. store_change_user (\<lambda>old. with_status u old) u),
     uc_UpdateUserStatus = (\<lambda>u. store_change_user (\<lambda>old. with_status old u) u),
     uc_DeleteUser = store_delete_user, uc_Now = (\<lambda>K. (st_Time K, K)), uc_ErrorText = (\<lambda>e. ''error'')\<rparr>"

lemma store_client_simps [simp]:
  "uc_Namespace (store_client ns) = ns"
  "uc_ListUsers (store_client ns) n ls = (\<lambda>K. (Inr (filter (listed n ls) (st_Users K)), K))"
  "uc_GetSecret (store_client ns) k m = (\<lambda>K. (case List.find (secret_at k m) (st_Secrets K) of None \<Rightarrow> Inl NotFound | Some s \<Rightarrow> Inr s, K))"
  "uc_CreateSecret (store_client ns) = store_create_secret"
  "uc_UpdateSecret (store_client ns) = store_update_secret"
  "uc_DeleteSecret (store_client ns) = store_delete_secret"
  "uc_CreateUser (store_client ns) = store_create_user"
  "uc_UpdateUser (store_client ns) u = store_change_user (\<lambda>old. with_status u old) u"
  "uc_UpdateUserStatus (store_client ns) u = store_change_user (\<lambda>old. with_status old u) u"
  "uc_DeleteUser (store_client ns) = store_delete_user"
  "uc_Now (store_client ns) = (\<lambda>K. (st_Time K, K))"
  by (simp_all add: store_client_def)

section \<open>A sample store\<close>

text \<open>A hash that is the password itself, marked, stands for bcrypt.\<close>

definition sample_bcrypt :: "'w bcrypt" where
  "sample_bcrypt = \<lparr>bc_Generate = (\<lambda>p w. (Inr (CHR ''$'' # p), w)), bc_Compare = (\<lambda>h p. h = CHR ''$'' # p)\<rparr>"

lemma sample_bcrypt_law: "bcrypt_law sample_bcrypt"
  by (simp add: bcrypt_law_def sample_bcrypt_def)

definition empty_store :: user_store where
  "empty_store = \<lparr>st_Users = [], st_Secrets = [], st_Time = 0\<rparr>"

definition sample_account :: "string \<Rightarrow> string \<Rightarrow> RegisterRequest" where
  "sample_account user role = \<lparr>rq_UserID = user, rq_Password = ''password'', rq_Name = ''Ada'', rq_Surname = ''Byron'',
     rq_Organization = '''', rq_Role = role\<rparr>"

definition sample_manager :: SecretManager where
  "sample_manager = \<lparr>sm_namespace = ''krkn'', sm_tokenDuration = day, sm_issuer = sample_issuer, sm_secret = replicate 32 CHR ''k'', sm_ready = True\<rparr>"

abbreviation registered_store :: user_store where
  "registered_store \<equiv> snd (Register (store_client ''krkn'') sample_bcrypt ''POST'' (Inr (sample_account ''ada@x.io'' ''admin'')) empty_store)"

abbreviation sample_login :: "(auth_body reply) \<times> user_store \<times> user_event list" where
  "sample_login \<equiv> Login (logged_users (store_client ''krkn'')) (unlogged sample_bcrypt) sample_jwt sample_manager day ''POST''
     (Inr \<lparr>lq_UserID = ''ada@x.io'', lq_Password = ''password''\<rparr>) (registered_store, [])"

theorem Login_token_accepted_witness:
  "\<exists>resp tg user now. fst sample_login = Body 200 (LoginBody resp) \<and>
     fst (RequireAuth sample_jwt (NewLazyMiddleware GetTokenGenerator) sample_manager (now + second) (BearerPrefix @ lr_Token resp)) =
       Inr (claims_of tg now user)"
proof -
  obtain r K log where E: "sample_login = (r, (K, log))" by (metis surj_pair)
  have "case sample_login of (r, (K, log)) \<Rightarrow> (case r of Body c b \<Rightarrow> (case b of LoginBody resp \<Rightarrow> c = 200 | _ \<Rightarrow> False) | _ \<Rightarrow> False) \<and>
     list_all (\<lambda>e. case e of ListedUsers n ls us \<Rightarrow> (case us of Inr xs \<Rightarrow> list_all utf8_user xs | Inl _ \<Rightarrow> True) | _ \<Rightarrow> True) log \<and>
     list_all (\<lambda>e. case e of ClockRead t \<Rightarrow> t = 0 | _ \<Rightarrow> True) log" by code_simp
  then obtain resp where r: "r = Body 200 (LoginBody resp)"
    and l: "list_all (\<lambda>e. case e of ListedUsers n ls us \<Rightarrow> (case us of Inr xs \<Rightarrow> list_all utf8_user xs | Inl _ \<Rightarrow> True) | _ \<Rightarrow> True) log"
      "list_all (\<lambda>e. case e of ClockRead t \<Rightarrow> t = 0 | _ \<Rightarrow> True) log"
    unfolding E by (auto split: reply.splits auth_body.splits)
  have u: "list_all utf8_user users" if "ListedUsers (Some (uc_Namespace (store_client ''krkn''))) [] (Inr users) \<in> set log" for users
    using l(1) that by (fastforce simp: list_all_iff)
  have "valid_utf8 (sm_issuer sample_manager)" by code_simp
  from Login_token_accepted[OF E[unfolded r] sample_jwt_law this u] obtain tg user now
    where a: "login_ok ''krkn'' (sample_bcrypt :: user_store bcrypt) sample_jwt tg \<lparr>lq_UserID = ''ada@x.io'', lq_Password = ''password''\<rparr> (lr_Token resp) log user now"
      "\<forall>t\<ge>now. fst (RequireAuth sample_jwt (NewLazyMiddleware GetTokenGenerator) sample_manager t (BearerPrefix @ lr_Token resp)) =
       (if t < NewNumericDate (now + sm_tokenDuration sample_manager) then Inr (claims_of tg now user)
        else Inl (401, ''unauthorized'', ''Invalid or expired token''))"
    by auto
  have "now = 0" using a(1) l(2) by (fastforce simp: login_ok_def list_all_iff)
  moreover have "0 + second < NewNumericDate (0 + sm_tokenDuration sample_manager)" "0 \<le> second" by code_simp+
  ultimately have "fst (RequireAuth sample_jwt (NewLazyMiddleware GetTokenGenerator) sample_manager (now + second)
      (BearerPrefix @ lr_Token resp)) = Inr (claims_of tg now user)" using a(2) by simp
  then show ?thesis using E r by auto
qed

end
