(* ===== verification/Users_API.thy ===== *)
theory Users_API
  imports User_Store
begin

text \<open>
  The user endpoints of the REST API: \<open>src/internal/api/user_handlers.go\<close>. Bodies are given decoded (or with the
  text of the decoding error); a reply of \<open>None\<close> is a panic.
\<close>

section \<open>Requests and responses\<close>

record UserResponse =
  ur_UserID :: string
  ur_Name :: string
  ur_Surname :: string
  ur_Organization :: string
  ur_Role :: string
  ur_Active :: bool
  ur_Created :: "time option"
  ur_LastLogin :: "time option"

record UpdateUserRequest =
  uq_Name :: "string option"
  uq_Surname :: "string option"
  uq_Organization :: "string option"
  uq_Role :: "string option"
  uq_Active :: "bool option"

record ChangePasswordRequest =
  pq_CurrentPassword :: string
  pq_NewPassword :: string

datatype user_body =
    ListUsersResponse "UserResponse list" int int int
  | UserBody UserResponse
  | CreateUserResponse string string string
  | UpdateUserResponse string UserResponse
  | DeleteUserResponse string
  | ChangePasswordResponse string

section \<open>Helpers\<close>

definition UsersPath :: string where
  "UsersPath = ''/api/v1/users''"

text \<open>The result is the user or the text of the error.\<close>

definition fetchUserByEmail :: "'w user_client \<Rightarrow> string \<Rightarrow> ('w, 'r, string + KrknUser) eff" where
  "fetchUserByEmail C email =
     bind_eff (step (uc_ListUsers C (Some (uc_Namespace C)) [])) (\<lambda>res.
       ret (case res of
          Inl e \<Rightarrow> Inl (''failed to list users: '' @ uc_ErrorText C e)
        | Inr users \<Rightarrow>
            (case find_user email users of
               None \<Rightarrow> Inl (''user with email '' @ in_quotes email @ '' not found'')
             | Some user \<Rightarrow> Inr user)))"

definition fetch_failure :: "string \<Rightarrow> 'a reply" where
  "fetch_failure err =
    (if contains_str err ''not found'' then Failure 404 ''not_found'' err else Failure 500 ''internal_error'' err)"

definition fetch_user :: "'w user_client \<Rightarrow> string \<Rightarrow> ('w, 'a reply, KrknUser) eff" where
  "fetch_user C userID =
     bind_eff (fetchUserByEmail C userID) (\<lambda>res. case res of Inl err \<Rightarrow> stop (fetch_failure err) | Inr user \<Rightarrow> ret user)"

definition nonzero :: "time \<Rightarrow> time option" where
  "nonzero t = (if t = 0 then None else Some t)"

definition buildUserResponse :: "KrknUser \<Rightarrow> UserResponse" where
  "buildUserResponse user =
     \<lparr>ur_UserID = us_UserID (user_Spec user), ur_Name = us_Name (user_Spec user), ur_Surname = us_Surname (user_Spec user),
      ur_Organization = us_Organization (user_Spec user), ur_Role = us_Role (user_Spec user), ur_Active = user_Active user,
      ur_Created = nonzero (user_Created user), ur_LastLogin = nonzero (user_LastLogin user)\<rparr>"

text \<open>Lower-casing, which depends on the Unicode tables outside ASCII, is an argument.\<close>

definition keep_user :: "(string \<Rightarrow> string) \<Rightarrow> string \<Rightarrow> string \<Rightarrow> string \<Rightarrow> KrknUser \<Rightarrow> bool" where
  "keep_user lower role activeParam search user =
    (if role \<noteq> '''' \<and> us_Role (user_Spec user) \<noteq> role then False
     else if activeParam \<noteq> '''' \<and> (case ParseBool activeParam of None \<Rightarrow> False | Some active \<Rightarrow> user_Active user \<noteq> active) then False
     else if search \<noteq> '''' \<and> \<not> contains_str (lower (us_UserID (user_Spec user))) (lower search) \<and>
       \<not> contains_str (lower (us_Name (user_Spec user))) (lower search) \<and>
       \<not> contains_str (lower (us_Surname (user_Spec user))) (lower search) then False
     else True)"

fun filterUsers :: "(string \<Rightarrow> string) \<Rightarrow> KrknUser list \<Rightarrow> string \<Rightarrow> string \<Rightarrow> string \<Rightarrow> KrknUser list" where
  "filterUsers lower [] role activeParam search = []"
| "filterUsers lower (user # users) role activeParam search =
    (if keep_user lower role activeParam search user then user # filterUsers lower users role activeParam search
     else filterUsers lower users role activeParam search)"

text \<open>Slicing out of range panics (\<open>None\<close>); the index arithmetic is in 64 bits.\<close>

definition slice :: "'a list \<Rightarrow> int \<Rightarrow> int \<Rightarrow> 'a list option" where
  "slice xs a b =
    (if 0 \<le> a \<and> a \<le> b \<and> b \<le> int (length xs) then Some (take (nat (b - a)) (drop (nat a) xs)) else None)"

definition paginateUsers :: "'a list \<Rightarrow> int \<Rightarrow> int \<Rightarrow> ('a list \<times> int) option" where
  "paginateUsers users page limit =
    (let n = int (length users);
         offset = wrap64 ((page - 1) * limit)
     in if offset \<ge> n then Some ([], n)
        else let end' = wrap64 (offset + limit);
                 end'' = (if end' > n then n else end')
          in map_option (\<lambda>part. (part, n)) (slice users offset end''))"

definition parsePaginationParams :: "string \<Rightarrow> string \<Rightarrow> int \<times> int" where
  "parsePaginationParams pageStr limitStr =
    (case Atoi pageStr of Some p \<Rightarrow> if pageStr \<noteq> '''' \<and> p > 0 then p else 1 | None \<Rightarrow> 1,
     case Atoi limitStr of Some l \<Rightarrow> if limitStr \<noteq> '''' \<and> l > 0 \<and> l \<le> 100 then l else 50 | None \<Rightarrow> 50)"

definition sanitizeUsername :: "string \<Rightarrow> string" where
  "sanitizeUsername email =
     ''krknuser-'' @ to_lower (replace_all (replace_all email CHR ''@'' CHR ''-'') CHR ''.'' CHR ''-'')"

section \<open>Reading\<close>

definition ListUsers ::
  "'w user_client \<Rightarrow> (string \<Rightarrow> string) \<Rightarrow> token_claims option \<Rightarrow> (string \<Rightarrow> string) \<Rightarrow> 'w \<Rightarrow> user_body reply option \<times> 'w" where
  "ListUsers C lower claims query = run_handler
    (if \<not> IsAdmin claims then ret (Some admin_required)
     else bind_eff (call (uc_ListUsers C (Some (uc_Namespace C)) [(UserAccountLabel, ''true'')])
         (\<lambda>e. Some (internal_error (''Failed to list users: '' @ uc_ErrorText C e)))) (\<lambda>users.
       let filtered = filterUsers lower users (query ''role'') (query ''active'') (query ''search'');
           (page, limit) = parsePaginationParams (query ''page'') (query ''limit'')
       in case paginateUsers filtered page limit of
           None \<Rightarrow> stop None
         | Some (paginated, n) \<Rightarrow> ret (Some (Body 200 (ListUsersResponse (map buildUserResponse paginated) n page limit)))))"

definition path_user :: "string \<Rightarrow> ('w, 'a reply, string) eff" where
  "path_user path =
    (case extractPathSuffix path (UsersPath @ ''/'') of
       Inl e \<Rightarrow> stop (Failure 400 ''bad_request'' ''Invalid userID in path'')
     | Inr userID \<Rightarrow> ret (trim_suffix userID ''/password''))"

definition is_self :: "token_claims option \<Rightarrow> string \<Rightarrow> bool" where
  "is_self claims userID = (case claims of None \<Rightarrow> False | Some c \<Rightarrow> cl_UserID c = userID)"

definition GetUser :: "'w user_client \<Rightarrow> token_claims option \<Rightarrow> string \<Rightarrow> 'w \<Rightarrow> user_body reply \<times> 'w" where
  "GetUser C claims path = run_handler
    (bind_eff (path_user path) (\<lambda>userID.
     bind_eff (fetch_user C userID) (\<lambda>user.
     if \<not> IsAdmin claims \<and> \<not> is_self claims userID
     then stop (Failure 403 ''forbidden'' ''You can only view your own profile'')
     else ret (Body 200 (UserBody (buildUserResponse user))))))"

section \<open>Creating\<close>

definition user_secret :: "'w user_client \<Rightarrow> string \<Rightarrow> string \<Rightarrow> Secret" where
  "user_secret C secretName passwordHash =
     \<lparr>sec_meta = meta_of secretName (uc_Namespace C)
        [(''app.kubernetes.io/name'', ''krkn-operator''), (''app.kubernetes.io/component'', ''user-auth'')],
      sec_Type = ''Opaque'', sec_Data = [(''passwordHash'', passwordHash)]\<rparr>"

text \<open>\<open>CreateUserRequest\<close> has the fields of \<open>RegisterRequest\<close>.\<close>

definition CreateUser ::
  "'w user_client \<Rightarrow> 'w bcrypt \<Rightarrow> token_claims option \<Rightarrow> string + RegisterRequest \<Rightarrow> 'w \<Rightarrow> user_body reply \<times> 'w" where
  "CreateUser C B claims body = run_handler
    (if \<not> IsAdmin claims then ret admin_required
     else case body of
       Inl e \<Rightarrow> ret (Failure 400 ''invalid_request'' ''Invalid request body'')
     | Inr req \<Rightarrow>
       (case check_account (rq_UserID req) (rq_Password req) (rq_Name req) (rq_Surname req) (rq_Role req) of
          Some failure \<Rightarrow> ret failure
        | None \<Rightarrow>
          bind_eff (call (uc_ListUsers C (Some (uc_Namespace C)) []) (\<lambda>e. internal_error ''Failed to check existing users'')) (\<lambda>existing.
          if list_ex (\<lambda>user. us_UserID (user_Spec user) = rq_UserID req) existing then
            stop (Failure 409 ''user_exists'' (''User with email '' @ rq_UserID req @ '' already exists''))
          else
          bind_eff (call (HashPassword B (rq_Password req)) (\<lambda>e. internal_error ''Failed to hash password'')) (\<lambda>passwordHash.
          let userName = sanitizeUsername (rq_UserID req);
              secretName = userName @ ''-password'';
              secret = user_secret C secretName passwordHash
          in bind_eff (put_password C secret [] ''Failed to recreate password secret'' ''Failed to create password secret''
               (\<lambda>e. ''Failed to create password secret: '' @ uc_ErrorText C e)) (\<lambda>_.
             bind_eff (create_user C secret (new_user C userName req secretName)) (\<lambda>user.
             bind_eff (activate C user) (\<lambda>_.
             ret (Body 201 (CreateUserResponse ''User created successfully'' (rq_UserID req) (rq_Role req))))))))))"

section \<open>Updating\<close>

definition check_update :: "token_claims option \<Rightarrow> string \<Rightarrow> UpdateUserRequest \<Rightarrow> 'a reply option" where
  "check_update claims userID req =
    (if \<not> IsAdmin claims \<and> \<not> is_self claims userID then Some (Failure 403 ''forbidden'' ''You can only update your own profile'')
     else if \<not> IsAdmin claims \<and> (uq_Role req \<noteq> None \<or> uq_Active req \<noteq> None)
     then Some (Failure 403 ''forbidden'' ''Only admins can change role or active status'')
     else if is_self claims userID \<and> uq_Active req = Some False
     then Some (Failure 403 ''forbidden'' ''You cannot disable your own account'')
     else case uq_Role req of
       None \<Rightarrow> None
     | Some role \<Rightarrow>
         if role \<noteq> ''user'' \<and> role \<noteq> ''admin''
         then Some (validation_error (''Role must be either '' @ in_quotes ''user'' @ '' or '' @ in_quotes ''admin''))
         else None)"

definition updated_spec :: "UpdateUserRequest \<Rightarrow> KrknUserSpec \<Rightarrow> KrknUserSpec" where
  "updated_spec req s =
     s\<lparr>us_Name := (case uq_Name req of None \<Rightarrow> us_Name s | Some n \<Rightarrow> n),
       us_Surname := (case uq_Surname req of None \<Rightarrow> us_Surname s | Some n \<Rightarrow> n),
       us_Organization := (case uq_Organization req of None \<Rightarrow> us_Organization s | Some n \<Rightarrow> n),
       us_Role := (case uq_Role req of None \<Rightarrow> us_Role s | Some r \<Rightarrow> r)\<rparr>"

definition updated_user :: "UpdateUserRequest \<Rightarrow> KrknUser \<Rightarrow> KrknUser" where
  "updated_user req user =
     user\<lparr>user_meta := (case uq_Role req of None \<Rightarrow> user_meta user
         | Some role \<Rightarrow> (user_meta user)\<lparr>Labels := AList.update AdminRoleLabel role (Labels (user_meta user))\<rparr>),
       user_Spec := updated_spec req (user_Spec user)\<rparr>"

definition update_status :: "'w user_client \<Rightarrow> UpdateUserRequest \<Rightarrow> KrknUser \<Rightarrow> ('w, 'r, KrknUser) eff" where
  "update_status C req user =
    (case uq_Active req of
       None \<Rightarrow> ret user
     | Some active \<Rightarrow>
         let user' = user\<lparr>user_Active := active\<rparr>
         in bind_eff (step (uc_UpdateUserStatus C user')) (\<lambda>res. ret (case res of Inl e \<Rightarrow> user' | Inr stored \<Rightarrow> stored)))"

definition UpdateUser ::
  "'w user_client \<Rightarrow> token_claims option \<Rightarrow> string \<Rightarrow> string + UpdateUserRequest \<Rightarrow> 'w \<Rightarrow> user_body reply \<times> 'w" where
  "UpdateUser C claims path body = run_handler
    (bind_eff (path_user path) (\<lambda>userID.
     case body of
       Inl e \<Rightarrow> stop (Failure 400 ''invalid_request'' ''Invalid request body'')
     | Inr req \<Rightarrow>
       if uq_Name req = None \<and> uq_Surname req = None \<and> uq_Organization req = None \<and> uq_Role req = None \<and> uq_Active req = None
       then stop (validation_error ''At least one field must be provided'')
       else
       bind_eff (fetch_user C userID) (\<lambda>user.
       case check_update claims userID req of
         Some failure \<Rightarrow> stop failure
       | None \<Rightarrow>
         bind_eff (call (uc_UpdateUser C (updated_user req user)) (\<lambda>e. internal_error (''Failed to update user: '' @ uc_ErrorText C e))) (\<lambda>stored.
         bind_eff (update_status C req stored) (\<lambda>final.
         ret (Body 200 (UpdateUserResponse ''User updated successfully'' (buildUserResponse final))))))))"

section \<open>Deleting\<close>

text \<open>The check for the last administrator.\<close>

definition check_last_admin :: "'w user_client \<Rightarrow> KrknUser \<Rightarrow> ('w, 'a reply, unit) eff" where
  "check_last_admin C user =
    (if us_Role (user_Spec user) = ''admin'' then
       bind_eff (call (uc_ListUsers C (Some (uc_Namespace C)) admin_labels) (\<lambda>e. internal_error ''Failed to check admin count'')) (\<lambda>admins.
       if length (filter user_Active admins) \<le> 1
       then stop (Failure 403 ''forbidden'' ''Cannot delete the last active admin user'')
       else ret ())
     else ret ())"

definition DeleteUser :: "'w user_client \<Rightarrow> token_claims option \<Rightarrow> string \<Rightarrow> 'w \<Rightarrow> user_body reply \<times> 'w" where
  "DeleteUser C claims path = run_handler
    (if \<not> IsAdmin claims then ret admin_required
     else
     bind_eff (path_user path) (\<lambda>userID.
     if is_self claims userID then stop (Failure 403 ''forbidden'' ''You cannot delete your own account'')
     else
     bind_eff (fetch_user C userID) (\<lambda>user.
     bind_eff (check_last_admin C user) (\<lambda>_.
     bind_eff (step (uc_DeleteSecret C (uc_Namespace C) (us_PasswordSecretRef (user_Spec user)))) (\<lambda>_.
     bind_eff (call_opt (uc_DeleteUser C user) (\<lambda>e. internal_error (''Failed to delete user: '' @ uc_ErrorText C e))) (\<lambda>_.
     ret (Body 200 (DeleteUserResponse ''User deleted successfully''))))))))"

section \<open>Passwords\<close>

definition check_current :: "'w bcrypt \<Rightarrow> token_claims option \<Rightarrow> string \<Rightarrow> ChangePasswordRequest \<Rightarrow> string \<Rightarrow> 'a reply option" where
  "check_current B claims userID req passwordHash =
    (if is_self claims userID \<and> \<not> IsAdmin claims then
       (if pq_CurrentPassword req = ''''
        then Some (validation_error ''Current password is required when changing your own password'')
        else if \<not> VerifyPassword B (pq_CurrentPassword req) passwordHash
        then Some (validation_error ''Current password is incorrect'')
        else if VerifyPassword B (pq_NewPassword req) passwordHash
        then Some (validation_error ''New password must be different from current password'')
        else None)
     else None)"

definition ChangePassword ::
  "'w user_client \<Rightarrow> 'w bcrypt \<Rightarrow> token_claims option \<Rightarrow> string \<Rightarrow> string + ChangePasswordRequest \<Rightarrow> 'w \<Rightarrow> user_body reply \<times> 'w" where
  "ChangePassword C B claims path body = run_handler
    (bind_eff (path_user path) (\<lambda>userID.
     case body of
       Inl e \<Rightarrow> stop (Failure 400 ''invalid_request'' ''Invalid request body'')
     | Inr req \<Rightarrow>
       (case ValidatePassword (pq_NewPassword req) of
          Some e \<Rightarrow> stop (validation_error (''Password validation failed: '' @ e))
        | None \<Rightarrow>
          if \<not> IsAdmin claims \<and> \<not> is_self claims userID
          then stop (Failure 403 ''forbidden'' ''You can only change your own password'')
          else
          bind_eff (fetch_user C userID) (\<lambda>user.
          bind_eff (call (uc_GetSecret C (uc_Namespace C) (us_PasswordSecretRef (user_Spec user))) (\<lambda>e. internal_error ''Failed to get password secret'')) (\<lambda>secret.
          case map_of (sec_Data secret) ''passwordHash'' of
            None \<Rightarrow> stop (internal_error ''Password hash not found'')
          | Some passwordHash \<Rightarrow>
            (case check_current B claims userID req passwordHash of
               Some failure \<Rightarrow> stop failure
             | None \<Rightarrow>
               bind_eff (call (HashPassword B (pq_NewPassword req)) (\<lambda>e. internal_error ''Failed to hash new password'')) (\<lambda>newPasswordHash.
               bind_eff (call_opt (uc_UpdateSecret C (secret\<lparr>sec_Data := AList.update ''passwordHash'' newPasswordHash (sec_Data secret)\<rparr>))
                 (\<lambda>e. internal_error ''Failed to update password'')) (\<lambda>_.
               ret (Body 200 (ChangePasswordResponse ''Password updated successfully''))))))))))"

section \<open>Routing\<close>

record user_request =
  hr_Claims :: "token_claims option"
  hr_Method :: string
  hr_Path :: string
  hr_Query :: "string \<Rightarrow> string"
  hr_Create :: "string + RegisterRequest"
  hr_Update :: "string + UpdateUserRequest"
  hr_Password :: "string + ChangePasswordRequest"

text \<open>The body is decoded by the handler that wants it.\<close>

definition replied :: "'r \<times> 'w \<Rightarrow> 'r option \<times> 'w" where
  "replied = map_prod Some id"

definition UsersRouter ::
  "'w user_client \<Rightarrow> 'w bcrypt \<Rightarrow> (string \<Rightarrow> string) \<Rightarrow> user_request \<Rightarrow> 'w \<Rightarrow> user_body reply option \<times> 'w" where
  "UsersRouter C B lower r w =
    (let path = hr_Path r
     in if path = UsersPath then
          (if hr_Method r = ''GET'' then ListUsers C lower (hr_Claims r) (hr_Query r) w
           else if hr_Method r = ''POST'' then replied (CreateUser C B (hr_Claims r) (hr_Create r) w)
           else (Some (Failure 405 ''method_not_allowed'' (''Only GET and POST are allowed on '' @ UsersPath)), w))
        else if has_prefix path (UsersPath @ ''/'') then
          (if has_suffix path ''/password'' then
             (if hr_Method r = ''PATCH'' then replied (ChangePassword C B (hr_Claims r) path (hr_Password r) w)
              else (Some (Failure 405 ''method_not_allowed'' ''Only PATCH is allowed for password changes''), w))
           else if hr_Method r = ''GET'' then replied (GetUser C (hr_Claims r) path w)
           else if hr_Method r = ''PATCH'' then replied (UpdateUser C (hr_Claims r) path (hr_Update r) w)
           else if hr_Method r = ''DELETE'' then replied (DeleteUser C (hr_Claims r) path w)
           else (Some (Failure 405 ''method_not_allowed'' ''Only GET, PATCH, and DELETE are allowed on user endpoints''), w))
        else (Some (Failure 404 ''not_found'' ''Endpoint not found''), w))"

section \<open>Who may change an account\<close>

text \<open>The user that a path names, and the user found under that name.\<close>

definition path_id :: "string \<Rightarrow> string" where
  "path_id path = trim_suffix (drop (Suc (length UsersPath)) path) ''/password''"

definition found :: "string \<Rightarrow> string \<Rightarrow> user_event list \<Rightarrow> KrknUser \<Rightarrow> bool" where
  "found ns userID log user \<longleftrightarrow>
     (\<exists>users. ListedUsers (Some ns) [] (Inr users) \<in> set log \<and> find_user userID users = Some user)"

lemma found_UserID: "found ns userID log user \<Longrightarrow> us_UserID (user_Spec user) = userID"
  by (auto simp: found_def find_user_def dest: find_SomeD)

lemma ensures_path_user [ensures_rules]:
  "(\<And>msg. E (Failure 400 ''bad_request'' msg) log) \<Longrightarrow> Q (path_id path) log \<Longrightarrow> ensures (path_user path) Q E log"
  unfolding path_user_def
  by (intro ensures_rules) (auto simp: extractPathSuffix_def path_id_def Let_def split: if_splits)

lemma ensures_fetch_user [ensures_rules]:
  assumes "\<And>r l. E r (log @ [ListedUsers (Some (uc_Namespace C)) [] l])"
    and "\<And>user users. find_user userID users = Some user \<Longrightarrow> Q user (log @ [ListedUsers (Some (uc_Namespace C)) [] (Inr users)])"
  shows "ensures (fetch_user (logged_users C) userID) Q E log"
  unfolding fetch_user_def fetchUserByEmail_def logged_users_simps
  by (intro ensures_rules) (auto intro: assms split: sum.splits option.splits)

text \<open>
  The calls of an update: the update keeps the identity and the password of the user; without the role of an administrator
  it is the caller's own account, and role, labels and status stay; the status is only touched by an administrator, who
  does not disable himself.
\<close>

fun update_call_ok :: "string \<Rightarrow> token_claims option \<Rightarrow> string \<Rightarrow> user_event list \<Rightarrow> user_event \<Rightarrow> bool" where
  "update_call_ok ns claims userID log (UserUpdate u x) \<longleftrightarrow>
    (\<exists>old. found ns userID log old \<and> us_UserID (user_Spec u) = userID \<and>
       us_PasswordSecretRef (user_Spec u) = us_PasswordSecretRef (user_Spec old) \<and> user_Active u = user_Active old \<and>
       (IsAdmin claims \<or> is_self claims userID \<and> user_meta u = user_meta old \<and> us_Role (user_Spec u) = us_Role (user_Spec old)))"
| "update_call_ok ns claims userID log (UserStatus u x) \<longleftrightarrow> IsAdmin claims \<and> (is_self claims userID \<longrightarrow> user_Active u)"
| "update_call_ok ns claims userID log (ListedUsers n ls x) \<longleftrightarrow> True"
| "update_call_ok ns claims userID log _ \<longleftrightarrow> False"

lemma check_update_None:
  "check_update claims userID req = None \<Longrightarrow>
    (IsAdmin claims \<or> is_self claims userID \<and> uq_Role req = None \<and> uq_Active req = None) \<and>
    (is_self claims userID \<longrightarrow> uq_Active req \<noteq> Some False)"
  by (auto simp: check_update_def split: if_splits)

text \<open>
  C16. A user who is no administrator can only update the own account, and neither role nor labels nor status of
  it; nobody disables the own account; and an update never changes the identity or the password
  reference of a user. The statement covers every call \<open>UpdateUser\<close> makes, whatever the API server answers.
\<close>

theorem UpdateUser_authority:
  "case UpdateUser (logged_users C) claims path body (w, []) of
     (r, (w', log)) \<Rightarrow> list_all (update_call_ok (uc_Namespace C) claims (path_id path) log) log"
  unfolding UpdateUser_def
  by (rule run_handler_ensures, unfold logged_users_simps update_status_def, intro ensures_rules)
    (auto simp: found_def updated_user_def updated_spec_def find_user_def dest!: check_update_None find_SomeD split: option.splits)

definition deletable :: "string \<Rightarrow> token_claims option \<Rightarrow> string \<Rightarrow> user_event list \<Rightarrow> KrknUser \<Rightarrow> bool" where
  "deletable ns claims userID log u \<longleftrightarrow>
    found ns userID log u \<and> IsAdmin claims \<and> \<not> is_self claims userID \<and>
    (us_Role (user_Spec u) = ''admin'' \<longrightarrow>
       (\<exists>admins. ListedUsers (Some ns) admin_labels (Inr admins) \<in> set log \<and> 2 \<le> length (filter user_Active admins)))"

fun delete_call_ok :: "string \<Rightarrow> token_claims option \<Rightarrow> string \<Rightarrow> user_event list \<Rightarrow> user_event \<Rightarrow> bool" where
  "delete_call_ok ns claims userID log (UserDelete u x) \<longleftrightarrow> deletable ns claims userID log u"
| "delete_call_ok ns claims userID log (SecretDelete n m x) \<longleftrightarrow>
    (\<exists>u. n = ns \<and> m = us_PasswordSecretRef (user_Spec u) \<and> deletable ns claims userID log u)"
| "delete_call_ok ns claims userID log (ListedUsers n ls x) \<longleftrightarrow> True"
| "delete_call_ok ns claims userID log _ \<longleftrightarrow> False"

text \<open>
  C34. \<open>DeleteUser\<close> deletes only for an administrator, never the caller's own account, and an administrator only when
  at least two active administrators were listed; the only secret it deletes is the password of that user.
\<close>

theorem DeleteUser_guarded:
  "case DeleteUser (logged_users C) claims path (w, []) of
     (r, (w', log)) \<Rightarrow> list_all (delete_call_ok (uc_Namespace C) claims (path_id path) log) log"
  unfolding DeleteUser_def
  by (rule run_handler_ensures, unfold logged_users_simps check_last_admin_def, intro ensures_rules)
    (auto simp: found_def deletable_def numeral_2_eq_2 Suc_le_eq not_le)

fun password_call_ok ::
  "string \<Rightarrow> 'w bcrypt \<Rightarrow> token_claims option \<Rightarrow> string \<Rightarrow> ChangePasswordRequest \<Rightarrow> user_event list \<Rightarrow> user_event \<Rightarrow> bool" where
  "password_call_ok ns B claims userID req log (SecretUpdate s x) \<longleftrightarrow>
    (\<exists>user old h k. found ns userID log user \<and> ReadSecret ns (us_PasswordSecretRef (user_Spec user)) (Inr old) \<in> set log \<and>
       map_of (sec_Data old) ''passwordHash'' = Some h \<and> s = old\<lparr>sec_Data := AList.update ''passwordHash'' k (sec_Data old)\<rparr> \<and>
       (bcrypt_law B \<longrightarrow> VerifyPassword B (pq_NewPassword req) k) \<and> MinPasswordLength \<le> length (pq_NewPassword req) \<and>
       (IsAdmin claims \<or> is_self claims userID \<and> VerifyPassword B (pq_CurrentPassword req) h \<and> \<not> VerifyPassword B (pq_NewPassword req) h))"
| "password_call_ok ns B claims userID req log (ListedUsers n ls x) \<longleftrightarrow> True"
| "password_call_ok ns B claims userID req log (ReadSecret n m x) \<longleftrightarrow> True"
| "password_call_ok ns B claims userID req log _ \<longleftrightarrow> False"

lemma check_current_None:
  "check_current (unlogged B) claims userID req h = None \<Longrightarrow> IsAdmin claims \<or> is_self claims userID \<Longrightarrow>
    IsAdmin claims \<or> is_self claims userID \<and> VerifyPassword B (pq_CurrentPassword req) h \<and> \<not> VerifyPassword B (pq_NewPassword req) h"
  by (auto simp: check_current_def split: if_splits)

text \<open>
  \<open>ChangePassword\<close> writes only the password secret of the user in the path, with a hash that matches the new
  password, of at least 8 bytes; a caller who is no administrator must own the account, know the current
  password and choose a different one.
\<close>

theorem ChangePassword_authority:
  "case ChangePassword (logged_users C) (unlogged B) claims path (Inr req) (w, []) of
     (r, (w', log)) \<Rightarrow> list_all (password_call_ok (uc_Namespace C) B claims (path_id path) req log) log"
  unfolding ChangePassword_def
  by (rule run_handler_ensures, unfold logged_users_simps sum.case, intro ensures_rules)
    (auto simp: found_def ValidatePassword_def dest!: check_current_None split: if_splits)

section \<open>Pages\<close>

lemma paginateUsers_page:
  assumes "1 \<le> page" "0 < limit" "page * limit < 2 ^ 63" "int (length users) < 2 ^ 63"
  shows "paginateUsers users page limit =
    Some (take (nat limit) (drop (nat ((page - 1) * limit)) users), int (length users))"
proof -
  let ?o = "(page - 1) * limit"
  have o: "0 \<le> ?o" "?o + limit = page * limit" using assms(1,2) by (auto simp: algebra_simps)
  then have w: "wrap64 ?o = ?o" "wrap64 (?o + limit) = ?o + limit" using assms(2,3) by (auto intro!: wrap64_id)
  show ?thesis
  proof (cases "?o \<ge> int (length users)")
    case True
    then show ?thesis using w o by (simp add: paginateUsers_def Let_def nat_le_iff)
  next
    case False
    then have n: "nat ?o \<le> length users" "int (nat ?o) = ?o" using o(1) by auto
    show ?thesis
    proof (cases "?o + limit > int (length users)")
      case True
      then have "take (nat limit) (drop (nat ?o) users) = drop (nat ?o) users" "nat (int (length users) - ?o) = length users - nat ?o"
        using n o(1) by (auto simp: nat_diff_distrib')
      then show ?thesis using False True w o(1) n by (simp add: paginateUsers_def Let_def slice_def)
    next
      case False2: False
      then show ?thesis using False w o(1) assms(2) by (simp add: paginateUsers_def Let_def slice_def)
    qed
  qed
qed

text \<open>
  The pages are a partition of the filtered list: read one after the other, the first n pages give its first
  n * limit entries, and each comes with the total; this holds while the number of entries fits 64 bits.
\<close>

theorem paginateUsers_partition:
  assumes "0 < limit" and "int n * limit < 2 ^ 63" and "int (length users) < 2 ^ 63"
  shows "list_all (\<lambda>page. \<exists>part. paginateUsers users page limit = Some (part, int (length users)) \<and> int (length part) \<le> limit) (map int [1..<Suc n]) \<and>
    concat (map (\<lambda>page. fst (the (paginateUsers users page limit))) (map int [1..<Suc n])) = take (n * nat limit) users"
  using assms(2)
proof (induction n)
  case (Suc n)
  have le: "int n * limit < 2 ^ 63" using Suc.prems assms(1) by (simp add: algebra_simps)
  have p: "paginateUsers users (int (Suc n)) limit = Some (take (nat limit) (drop (n * nat limit) users), int (length users))"
    using paginateUsers_page[of "int (Suc n)" limit users] Suc.prems assms(1,3) by (simp add: nat_mult_distrib)
  have "take (n * nat limit) users @ take (nat limit) (drop (n * nat limit) users) = take (Suc n * nat limit) users"
    by (simp add: take_add[symmetric] add.commute)
  with Suc.IH[OF le] p assms(1) show ?case by simp
qed simp

theorem paginateUsers_partition_witness:
  "concat (map (\<lambda>page. fst (the (paginateUsers [1, 2, 3, 4, 5 :: nat] page 2))) (map int [1..<Suc 2])) = [1, 2, 3, 4]"
  using paginateUsers_partition[of 2 2 "[1, 2, 3, 4, 5 :: nat]"] by simp

text \<open>
  The offset of a page is computed in 64 bits and not checked: a page number that is large enough makes it negative,
  and the slice panics, even for an empty list.
\<close>

theorem paginateUsers_panics:
  "parsePaginationParams ''184467440737095518'' '''' = (184467440737095518, 50) \<and>
   paginateUsers ([] :: KrknUser list) 184467440737095518 50 = None"
  by code_simp

lemma filterUsers_filter: "filterUsers lower users role activeParam search = filter (keep_user lower role activeParam search) users"
  by (induction users) simp_all

section \<open>From creation to login\<close>

definition hash_only :: "'w bcrypt \<Rightarrow> bool" where
  "hash_only B \<longleftrightarrow> (\<forall>p w. snd (bc_Generate B p w) = w)"


lemma find_fresh: "\<not> list_ex P xs \<Longrightarrow> List.find P (xs @ [x]) = (if P x then Some x else None)"
  by (induction xs) auto

lemma filter_fresh: "\<not> list_ex P xs \<Longrightarrow> filter (\<lambda>x. \<not> P x) xs = xs"
  by (induction xs) auto

lemma map_fresh: "\<not> list_ex P xs \<Longrightarrow> map (\<lambda>x. if P x then f x else x) xs = xs"
  by (induction xs) auto

lemma put_password_store:
  assumes "put_password (store_client ns) s [] m1 m2 m3 K = (Inr (), K')"
  shows "List.find (same_secret s) (st_Secrets K') = Some s \<and> st_Users K' = st_Users K \<and> st_Time K' = st_Time K"
proof (cases "list_ex (same_secret s) (st_Secrets K)")
  case False
  then show ?thesis
    using assms by (auto simp: put_password_def bind_eff_def step_def store_create_secret_def ret_def find_fresh)
next
  case True
  have "\<not> list_ex (same_secret s) (filter (\<lambda>x. \<not> same_secret s x) (st_Secrets K))"
    by (auto simp: list_ex_iff)
  then show ?thesis
    using assms True
    by (auto simp: put_password_def bind_eff_def step_def call_opt_def store_create_secret_def store_delete_secret_def find_fresh)
qed

lemma create_user_store:
  assumes "create_user (store_client ns) s u K = (Inr v, K')"
  shows "v = u\<lparr>user_Active := False, user_Created := 0, user_LastLogin := 0\<rparr> \<and> \<not> list_ex (same_user u) (st_Users K) \<and>
    K' = K\<lparr>st_Users := st_Users K @ [v]\<rparr>"
  using assms
  by (auto simp: create_user_def bind_eff_def step_def store_create_user_def ret_def stop_def Let_def split: if_splits prod.splits)

lemma activate_store:
  assumes "activate (store_client ns) v K = (Inr (), K')" and "st_Users K = us @ [v]" and "\<not> list_ex (same_user v) us"
  shows "st_Users K' = us @ [v\<lparr>user_Active := True, user_Created := st_Time K, user_LastLogin := 0\<rparr>] \<and>
    st_Secrets K' = st_Secrets K \<and> st_Time K' = st_Time K"
  using assms
  by (auto simp: activate_def bind_eff_def step_def ret_def store_change_user_def find_fresh map_fresh with_status_def split: option.splits)

lemma put_password_code: "put_password C s sd m1 m2 m3 w = (Inl r, w') \<Longrightarrow> reply_code r = 500"
  by (auto simp: put_password_def bind_eff_def step_def call_opt_def ret_def stop_def failure_defs split: option.splits if_splits prod.splits)

lemma create_user_code: "create_user C s u w = (Inl r, w') \<Longrightarrow> reply_code r = 500"
  by (auto simp: create_user_def bind_eff_def step_def ret_def stop_def failure_defs split: sum.splits prod.splits)

lemma activate_returns: "fst (activate C u w) = Inr ()"
  by (auto simp: activate_def bind_eff_def step_def ret_def split: prod.splits)

abbreviation created_secret :: "string \<Rightarrow> RegisterRequest \<Rightarrow> string \<Rightarrow> Secret" where
  "created_secret ns req h \<equiv> user_secret (store_client ns) (sanitizeUsername (rq_UserID req) @ ''-password'') h"

abbreviation created_user :: "string \<Rightarrow> RegisterRequest \<Rightarrow> KrknUser" where
  "created_user ns req \<equiv> new_user (store_client ns) (sanitizeUsername (rq_UserID req)) req (sanitizeUsername (rq_UserID req) @ ''-password'')"

text \<open>The store after a successful creation.\<close>

lemma CreateUser_store:
  assumes "CreateUser (store_client ns) B claims (Inr req) K = (r, K')" and code: "reply_code r = 201" and "hash_only B"
  obtains h where "HashPassword B (rq_Password req) K = (Inr h, K)" "rq_UserID req \<noteq> ''''" "rq_Password req \<noteq> ''''"
    "\<not> list_ex (\<lambda>user. us_UserID (user_Spec user) = rq_UserID req) (filter (listed (Some ns) []) (st_Users K))"
    "List.find (same_secret (created_secret ns req h)) (st_Secrets K') = Some (created_secret ns req h)"
    "st_Users K' = st_Users K @ [(created_user ns req)\<lparr>user_Active := True, user_Created := st_Time K\<rparr>]" "st_Time K' = st_Time K"
    "\<not> list_ex (same_user (created_user ns req)) (st_Users K)"
proof -
  note E = assms(1)[unfolded CreateUser_def run_handler_def]
  have adm: "IsAdmin claims" using E code by (auto simp: ret_def admin_required_def split: if_splits)
  have chk: "check_account (rq_UserID req) (rq_Password req) (rq_Name req) (rq_Surname req) (rq_Role req) = (None :: user_body reply option)"
    using E code adm by (auto simp: ret_def split: option.splits dest: check_account_code)
  then have ne: "rq_UserID req \<noteq> ''''" "rq_Password req \<noteq> ''''" by (auto simp: check_account_def split: if_splits)
  have new: "\<not> list_ex (\<lambda>user. us_UserID (user_Spec user) = rq_UserID req) (filter (listed (Some ns) []) (st_Users K))"
    using E code adm chk by (auto simp: bind_eff_def call_def stop_def split: if_splits)
  obtain x K0 where h0: "HashPassword B (rq_Password req) K = (x, K0)" by (metis surj_pair)
  have "K0 = K" using h0 assms(3)
    by (auto simp: HashPassword_def hash_only_def split: if_splits prod.splits sum.splits) (metis snd_conv)+
  with h0 obtain h where h: "HashPassword B (rq_Password req) K = (Inr h, K)"
    using E code adm chk new by (cases x) (auto simp: bind_eff_def call_def stop_def failure_defs)
  obtain y K1 where p0: "put_password (store_client ns) (created_secret ns req h) [] ''Failed to recreate password secret'' ''Failed to create password secret''
       (\<lambda>e. ''Failed to create password secret: '' @ uc_ErrorText (store_client ns) e) K = (y :: user_body reply + unit, K1)" by (metis surj_pair)
  have p: "y = Inr ()" using E code adm chk new h p0
    by (cases y) (auto simp: bind_eff_def call_def Let_def dest: put_password_code)
  obtain z K2 where u0: "create_user (store_client ns) (created_secret ns req h) (created_user ns req) K1 = (z :: user_body reply + KrknUser, K2)"
    by (metis surj_pair)
  obtain v where v: "z = Inr v" using E code adm chk new h p0 p u0
    by (cases z) (auto simp: bind_eff_def call_def Let_def dest: create_user_code)
  have a: "activate (store_client ns) v K2 = (Inr () :: user_body reply + unit, K')"
  proof -
    obtain K3 where K3: "activate (store_client ns) v K2 = (Inr () :: user_body reply + unit, K3)"
      using activate_returns by (metis prod.collapse)
    then show ?thesis using E code adm chk new h p0 p u0 v by (auto simp: bind_eff_def call_def Let_def ret_def)
  qed
  note S = put_password_store[OF p0[unfolded p]]
  note U = create_user_store[OF u0[unfolded v]]
  have "st_Users K2 = st_Users K @ [v]" "\<not> list_ex (same_user v) (st_Users K)" using S U by auto
  from activate_store[OF a this] S U h ne new
  show thesis by (intro that[of h]) (auto simp: new_user_def)
qed

text \<open>
  C35. An account that \<open>CreateUser\<close> reports as created can log in with its password at once: on a store with the
  behaviour of the API server, \<open>Login\<close> with the same address and password replies with the token for the user.
\<close>

theorem created_user_logs_in:
  assumes "CreateUser (store_client ns) B claims (Inr req) K = (r, K')" and "reply_code r = 201" and "hash_only B" and "bcrypt_law B"
    and "GetTokenGenerator sm = Some tg"
    and "GenerateToken J tg (st_Time K) (rq_UserID req) (rq_Role req) (rq_Name req) (rq_Surname req) (rq_Organization req) = Inr tok"
  shows "fst (Login (store_client ns) B J sm d ''POST'' (Inr \<lparr>lq_UserID = rq_UserID req, lq_Password = rq_Password req\<rparr>) K') =
    Body 200 (LoginBody \<lparr>lr_Token = tok, lr_ExpiresAt = st_Time K + d, lr_UserID = rq_UserID req, lr_Role = rq_Role req,
      lr_Name = rq_Name req, lr_Surname = rq_Surname req\<rparr>)"
proof -
  obtain h where h: "HashPassword B (rq_Password req) K = (Inr h, K)" "rq_UserID req \<noteq> ''''" "rq_Password req \<noteq> ''''"
    "\<not> list_ex (\<lambda>user. us_UserID (user_Spec user) = rq_UserID req) (filter (listed (Some ns) []) (st_Users K))"
    "List.find (same_secret (created_secret ns req h)) (st_Secrets K') = Some (created_secret ns req h)"
    "st_Users K' = st_Users K @ [(created_user ns req)\<lparr>user_Active := True, user_Created := st_Time K\<rparr>]" "st_Time K' = st_Time K"
    "\<not> list_ex (same_user (created_user ns req)) (st_Users K)"
    using CreateUser_store[OF assms(1-3)] by blast
  have v: "VerifyPassword B (rq_Password req) h" using HashPassword_verifies[OF assms(4) h(1)] .
  have f: "find_user (rq_UserID req) (filter (listed (Some ns) []) (st_Users K')) =
      Some ((created_user ns req)\<lparr>user_Active := True, user_Created := st_Time K\<rparr>)"
    using h(4) by (simp add: h(6) find_user_def find_fresh listed_def new_user_def meta_of_def)
  have s: "List.find (secret_at ns (us_PasswordSecretRef (user_Spec (created_user ns req)))) (st_Secrets K') = Some (created_secret ns req h)"
    using h(5) by (simp add: user_secret_def meta_of_def new_user_def)
  have g: "List.find (same_user (created_user ns req)) (st_Users K') = Some ((created_user ns req)\<lparr>user_Active := True, user_Created := st_Time K\<rparr>)"
    using h(8) by (simp add: h(6) find_fresh)
  show ?thesis
    using h(2,3,7) f s v g assms(5,6)
    by (simp add: Login_def run_handler_def bind_eff_def call_def step_def ret_def issue_token_def user_secret_def Let_def new_user_def
        store_change_user_def with_status_def split: prod.splits option.splits)
qed

section \<open>Concrete runs\<close>

abbreviation sample_client :: "user_store user_client" where
  "sample_client \<equiv> store_client ''krkn''"

definition ada :: token_claims where
  "ada = \<lparr>cl_UserID = ''ada@x.io'', cl_Role = ''admin'', cl_Name = '''', cl_Surname = '''', cl_Organization = ''''\<rparr>"

lemma sample_hash_only: "hash_only sample_bcrypt"
  by (simp add: hash_only_def sample_bcrypt_def)

theorem created_user_logs_in_witness:
  "\<exists>K' resp. CreateUser sample_client sample_bcrypt (Some ada) (Inr (sample_account ''bob@x.io'' ''admin'')) registered_store =
       (Body 201 (CreateUserResponse ''User created successfully'' ''bob@x.io'' ''admin''), K') \<and>
     fst (Login sample_client sample_bcrypt sample_jwt sample_manager day ''POST''
       (Inr \<lparr>lq_UserID = ''bob@x.io'', lq_Password = ''password''\<rparr>) K') = Body 200 (LoginBody resp)"
proof -
  let ?q = "sample_account ''bob@x.io'' ''admin''"
  let ?E = "CreateUser sample_client sample_bcrypt (Some ada) (Inr ?q) registered_store"
  obtain K' where E: "?E = (fst ?E, K')" by (metis surj_pair fst_conv)
  have r: "fst ?E = Body 201 (CreateUserResponse ''User created successfully'' ''bob@x.io'' ''admin'')" by code_simp
  then have c: "reply_code (fst ?E) = 201" by simp
  have g: "GetTokenGenerator sample_manager = Some (NewTokenGenerator (replicate 32 CHR ''k'') day sample_issuer)" by code_simp
  have t: "GenerateToken sample_jwt (NewTokenGenerator (replicate 32 CHR ''k'') day sample_issuer) (st_Time registered_store)
      (rq_UserID ?q) (rq_Role ?q) (rq_Name ?q) (rq_Surname ?q) (rq_Organization ?q) = Inr ''bob@x.io''" by code_simp
  show ?thesis
    using created_user_logs_in[OF E c sample_hash_only sample_bcrypt_law g t, of day] E r
    by (auto simp: sample_account_def)
qed

text \<open>
  Two addresses may have the same resource name. Creating the second account fails, but deletes the password of the
  first, who can no longer log in.
\<close>

theorem CreateUser_destroys_password:
  "let K1 = snd (CreateUser sample_client sample_bcrypt (Some ada) (Inr (sample_account ''a.b@x.io'' ''admin'')) registered_store);
       (r, K2) = CreateUser sample_client sample_bcrypt (Some ada) (Inr (sample_account ''a-b@x.io'' ''user'')) K1;
       login = (\<lambda>K. reply_code (fst (Login sample_client sample_bcrypt sample_jwt sample_manager day ''POST''
         (Inr \<lparr>lq_UserID = ''a.b@x.io'', lq_Password = ''password''\<rparr>) K)))
   in login K1 = 200 \<and> reply_code r = 500 \<and> login K2 = 500"
  by code_simp

text \<open>
  The last administrator cannot be deleted, but may give up the role. Then registration is open again: anybody can
  register as administrator without authentication.
\<close>

theorem UpdateUser_reopens_registration:
  "let (r1, K1) = UpdateUser sample_client (Some ada) (UsersPath @ ''/ada@x.io'')
         (Inr \<lparr>uq_Name = None, uq_Surname = None, uq_Organization = None, uq_Role = Some ''user'', uq_Active = None\<rparr>) registered_store;
       (r2, K2) = Register sample_client sample_bcrypt ''POST'' (Inr (sample_account ''eve@x.io'' ''admin'')) K1
   in reply_code (fst (Register sample_client sample_bcrypt ''POST'' (Inr (sample_account ''eve@x.io'' ''admin'')) registered_store)) = 403 \<and>
      reply_code r1 = 200 \<and> reply_code r2 = 201"
  by code_simp

text \<open>
  Group membership is looked up under the name that \<open>CreateUser\<close> gives; the first administrator, whom \<open>Register\<close> creates,
  has another name when the address holds a character like an underscore. Such an address makes \<open>CreateUser\<close> ask for
  a name that Kubernetes does not allow.
\<close>

lemma sanitizeUsername_group_name: "sanitizeUsername email = sanitizeUserID email"
  by (simp add: sanitizeUsername_def sanitizeUserID_def)

theorem user_names_differ:
  "sanitizeUserID ''a_b@x.io'' = ''krknuser-a_b-x-io'' \<and> ''krknuser-'' @ sanitizeResourceName ''a_b@x.io'' = ''krknuser-a-b-x-io''"
  by code_simp

text \<open>Names made by \<open>sanitizeResourceName\<close> are fit for Kubernetes, or empty.\<close>

lemma sanitizeResourceName_valid:
  fixes name :: string
  defines "s \<equiv> sanitizeResourceName name"
  shows "list_all name_byte s" and "length s \<le> 63" and "s \<noteq> [] \<Longrightarrow> hd s \<noteq> CHR ''-'' \<and> last s \<noteq> CHR ''-''"
proof -
  define d where "d = replace_all (replace_all (to_lower name) CHR ''@'' CHR ''-'') CHR ''.'' CHR ''-''"
  define t where "t = trim (replace_runes name_byte CHR ''-'' d) ''-''"
  have s: "s = (if length t > 63 then trim_right (take 63 t) ''-'' else t)"
    by (simp add: s_def sanitizeResourceName_def d_def t_def Let_def)
  have ok: "c \<in> set t \<Longrightarrow> name_byte c" for c
    using set_trim[of "replace_runes name_byte CHR ''-'' d" "''-''"] set_replace_runes[of name_byte "CHR ''-''" c d]
    by (auto simp: t_def name_byte_def)
  show "list_all name_byte s"
    using ok set_trim_right[of "take 63 t" "''-''"] set_take_subset[of 63 t] by (auto simp: s list_all_iff)
  show "length s \<le> 63" using length_trim_right[of "take 63 t" "''-''"] by (auto simp: s)
  assume "s \<noteq> []"
  then have ne: "t \<noteq> []" by (auto simp: s trim_right_def)
  then have e: "hd t \<noteq> CHR ''-''" "last t \<noteq> CHR ''-''"
    using trim_ends[of "replace_runes name_byte CHR ''-'' d" "''-''"] by (auto simp: t_def)
  have h: "hd (take 63 t) = hd t" using ne by simp
  show "hd s \<noteq> CHR ''-'' \<and> last s \<noteq> CHR ''-''"
    using e ne h \<open>s \<noteq> []\<close> last_trim_right[of "take 63 t" "''-''"] hd_trim_right[of "take 63 t" "''-''"]
    by (auto simp: s split: if_splits)
qed

end
