(* ===== verification/Groups_API.thy ===== *)
theory Groups_API
  imports Users_API
begin

text \<open>
  The endpoints of user groups: \<open>src/internal/api/groups_handlers.go\<close>. Groups are objects with the permissions;
  membership is a label on the user.
\<close>

section \<open>Requests, responses and the client\<close>

record 'w group_client = "'w user_client" +
  gc_GetUser :: "string \<Rightarrow> string \<Rightarrow> 'w \<Rightarrow> (api_error + KrknUser) \<times> 'w"
  gc_GetGroup :: "string \<Rightarrow> string \<Rightarrow> 'w \<Rightarrow> (api_error + KrknUserGroup) \<times> 'w"
  gc_ListGroups :: "string \<Rightarrow> 'w \<Rightarrow> (api_error + KrknUserGroup list) \<times> 'w"
  gc_CreateGroup :: "KrknUserGroup \<Rightarrow> 'w \<Rightarrow> api_error option \<times> 'w"
  gc_UpdateGroup :: "KrknUserGroup \<Rightarrow> 'w \<Rightarrow> (api_error + KrknUserGroup) \<times> 'w"
  gc_DeleteGroup :: "KrknUserGroup \<Rightarrow> 'w \<Rightarrow> api_error option \<times> 'w"
  gc_DeleteTargetRequest :: "string \<Rightarrow> string \<Rightarrow> 'w \<Rightarrow> api_error option \<times> 'w"

record UserGroupResponse =
  gr_Name :: string
  gr_Description :: string
  gr_ClusterPermissions :: "(string, string list) gomap"
  gr_MemberCount :: int
  gr_CreatedAt :: "time option"

record CreateUserGroupRequest =
  gq_Name :: string
  gq_Description :: string
  gq_ClusterPermissions :: "(string, string list) gomap"
  gq_DiscoveryUUID :: string

text \<open>Here a nil map (\<open>None\<close>) is told apart from an empty one.\<close>

record UpdateUserGroupRequest =
  gu_Description :: "string option"
  gu_ClusterPermissions :: "(string, string list) gomap option"
  gu_DiscoveryUUID :: string

datatype group_body =
    ListUserGroupsResponse "UserGroupResponse list" int
  | GroupBody UserGroupResponse
  | CreateUserGroupResponse string string
  | UpdateUserGroupResponse string UserGroupResponse
  | DeleteUserGroupResponse string
  | ListGroupMembersResponse "UserResponse list" int string
  | AddGroupMemberResponse string string string
  | RemoveGroupMemberResponse string

section \<open>Helpers\<close>

definition GroupsPath :: string where
  "GroupsPath = ''/api/v1/groups''"

text \<open>\<open>strings.Split\<close> at a separator of one byte.\<close>

fun split_on :: "char \<Rightarrow> string \<Rightarrow> string list" where
  "split_on c [] = [[]]"
| "split_on c (x # xs) =
    (if x = c then [] # split_on c xs
     else case split_on c xs of [] \<Rightarrow> [[x]] | y # ys \<Rightarrow> (x # y) # ys)"

definition cleanupDiscoveryTargetRequest :: "'w group_client \<Rightarrow> string \<Rightarrow> ('w, 'r, unit) eff" where
  "cleanupDiscoveryTargetRequest C discoveryUUID =
    (if discoveryUUID = '''' then ret ()
     else bind_eff (step (gc_DeleteTargetRequest C (uc_Namespace C) discoveryUUID)) (\<lambda>_. ret ()))"

text \<open>A failure to count the members counts as zero. The copy of the permissions is the map itself.\<close>

definition buildUserGroupResponse :: "'w group_client \<Rightarrow> KrknUserGroup \<Rightarrow> ('w, 'r, UserGroupResponse) eff" where
  "buildUserGroupResponse C grp =
     bind_eff (step (uc_ListUsers C (Some (uc_Namespace C)) [(GroupLabelKey (Name (ug_meta grp)), ''true'')])) (\<lambda>res.
       ret \<lparr>gr_Name = ug_Name grp, gr_Description = ug_Description grp, gr_ClusterPermissions = ug_ClusterPermissions grp,
         gr_MemberCount = (case res of Inl e \<Rightarrow> 0 | Inr users \<Rightarrow> int (length users)),
         gr_CreatedAt = nonzero (CreationTimestamp (ug_meta grp))\<rparr>)"

fun build_all :: "'w group_client \<Rightarrow> KrknUserGroup list \<Rightarrow> ('w, 'r, UserGroupResponse list) eff" where
  "build_all C [] = ret []"
| "build_all C (g # gs) = bind_eff (buildUserGroupResponse C g) (\<lambda>x. bind_eff (build_all C gs) (\<lambda>xs. ret (x # xs)))"

definition check_actions :: "string \<Rightarrow> string list \<Rightarrow> string option" where
  "check_actions apiURL actions =
    (if actions = [] then Some (''cluster '' @ apiURL @ '' must have at least one action'')
     else case List.find (\<lambda>action. \<not> IsValidAction action) actions of
       Some action \<Rightarrow> Some (''invalid action '' @ in_quotes action @ '' for cluster '' @ apiURL @ ''. Valid actions: view, run, cancel'')
     | None \<Rightarrow> None)"

fun check_permissions :: "(string, string list) gomap \<Rightarrow> string option" where
  "check_permissions [] = None"
| "check_permissions ((apiURL, actions) # rest) =
    (case check_actions apiURL actions of Some e \<Rightarrow> Some e | None \<Rightarrow> check_permissions rest)"

definition validateClusterPermissions :: "(string, string list) gomap \<Rightarrow> string option" where
  "validateClusterPermissions permissions =
    (if permissions = [] then Some ''at least one cluster permission is required'' else check_permissions permissions)"

definition extractGroupNameFromMembersPath :: "string \<Rightarrow> string + string" where
  "extractGroupNameFromMembersPath path =
    (let trimmed = trim_suffix (trim_prefix path (GroupsPath @ ''/'')) ''/members''
     in if trimmed = '''' \<or> contains_str trimmed ''/'' then Inl ''invalid path format'' else Inr trimmed)"

definition extractGroupNameAndUserIDFromPath :: "string \<Rightarrow> string + string \<times> string" where
  "extractGroupNameAndUserIDFromPath path =
    (case split_on CHR ''/'' (trim_prefix path (GroupsPath @ ''/'')) of
       [groupName, m, userID] \<Rightarrow>
         if m \<noteq> ''members'' then Inl (''invalid path format. Expected: '' @ GroupsPath @ ''/:groupName/members/:userId'')
         else if groupName = '''' \<or> userID = '''' then Inl ''groupName and userId cannot be empty''
         else Inr (groupName, userID)
     | _ \<Rightarrow> Inl (''invalid path format. Expected: '' @ GroupsPath @ ''/:groupName/members/:userId''))"

definition group_failure :: "string \<Rightarrow> api_error \<Rightarrow> 'a reply" where
  "group_failure groupName e =
    (if e = NotFound then Failure 404 ''not_found'' (''User group '' @ in_quotes groupName @ '' not found'')
     else internal_error ''Failed to get user group'')"

definition member_failure :: "string \<Rightarrow> api_error \<Rightarrow> 'a reply" where
  "member_failure userID e =
    (if e = NotFound then Failure 404 ''not_found'' (''User '' @ in_quotes userID @ '' not found'')
     else internal_error ''Failed to get user'')"

definition bad_request :: "string \<Rightarrow> 'a reply" where
  "bad_request msg = Failure 400 ''bad_request'' msg"

definition path_group :: "string \<Rightarrow> ('w, 'a reply, string) eff" where
  "path_group path =
    (case extractPathSuffix path (GroupsPath @ ''/'') of Inl e \<Rightarrow> stop (bad_request ''Invalid groupName in path'') | Inr groupName \<Rightarrow> ret groupName)"

definition get_group :: "'w group_client \<Rightarrow> string \<Rightarrow> ('w, 'a reply, KrknUserGroup) eff" where
  "get_group C groupName = call (gc_GetGroup C (uc_Namespace C) groupName) (group_failure groupName)"

definition get_member :: "'w group_client \<Rightarrow> string \<Rightarrow> ('w, 'a reply, KrknUser) eff" where
  "get_member C userID = call (gc_GetUser C (uc_Namespace C) (sanitizeUsername userID)) (member_failure userID)"

definition relabelled :: "((string, string) gomap \<Rightarrow> (string, string) gomap) \<Rightarrow> KrknUser \<Rightarrow> KrknUser" where
  "relabelled f user = user\<lparr>user_meta := (user_meta user)\<lparr>Labels := f (Labels (user_meta user))\<rparr>\<rparr>"

section \<open>Groups\<close>

definition ListUserGroups :: "'w group_client \<Rightarrow> token_claims option \<Rightarrow> 'w \<Rightarrow> group_body reply \<times> 'w" where
  "ListUserGroups C claims = run_handler
    (if \<not> IsAdmin claims then ret admin_required
     else
     bind_eff (call (gc_ListGroups C (uc_Namespace C)) (\<lambda>e. internal_error ''Failed to list user groups'')) (\<lambda>groups.
     bind_eff (build_all C groups) (\<lambda>responses.
     ret (Body 200 (ListUserGroupsResponse responses (int (length responses)))))))"

definition GetUserGroup :: "'w group_client \<Rightarrow> token_claims option \<Rightarrow> string \<Rightarrow> 'w \<Rightarrow> group_body reply \<times> 'w" where
  "GetUserGroup C claims path = run_handler
    (if \<not> IsAdmin claims then ret admin_required
     else
     bind_eff (path_group path) (\<lambda>name.
     bind_eff (get_group C (trim_suffix name ''/members'')) (\<lambda>grp.
     bind_eff (buildUserGroupResponse C grp) (\<lambda>response. ret (Body 200 (GroupBody response))))))"

definition check_group_request :: "CreateUserGroupRequest \<Rightarrow> string option" where
  "check_group_request req =
    (let sanitizedName = SanitizeGroupName (gq_Name req)
     in if gq_Name req = '''' then Some ''Group name is required''
        else if sanitizedName = '''' then Some ''Group name contains only invalid characters''
        else if length sanitizedName > 63 then
          Some (''Group name is too long. After sanitization, it must be 63 characters or less (current: '' @
            nat_digits (length sanitizedName) @ ''). Use a shorter name.'')
        else if gq_ClusterPermissions req = [] then Some ''At least one cluster permission is required''
        else validateClusterPermissions (gq_ClusterPermissions req))"

definition new_group :: "'w group_client \<Rightarrow> CreateUserGroupRequest \<Rightarrow> KrknUserGroup" where
  "new_group C req =
     \<lparr>ug_meta = meta_of (SanitizeGroupName (gq_Name req)) (uc_Namespace C) [], ug_Name = gq_Name req,
      ug_Description = gq_Description req, ug_ClusterPermissions = gq_ClusterPermissions req\<rparr>"

definition CreateUserGroup ::
  "'w group_client \<Rightarrow> token_claims option \<Rightarrow> string + CreateUserGroupRequest \<Rightarrow> 'w \<Rightarrow> group_body reply \<times> 'w" where
  "CreateUserGroup C claims body = run_handler
    (if \<not> IsAdmin claims then ret admin_required
     else case body of
       Inl e \<Rightarrow> ret (bad_request (''Invalid request body: '' @ e))
     | Inr req \<Rightarrow>
       (case check_group_request req of
          Some e \<Rightarrow> ret (bad_request e)
        | None \<Rightarrow>
          bind_eff (call_opt (gc_CreateGroup C (new_group C req)) (\<lambda>e.
            if e = AlreadyExists then Failure 409 ''conflict'' (''User group '' @ in_quotes (gq_Name req) @ '' already exists'')
            else internal_error ''Failed to create user group'')) (\<lambda>_.
          bind_eff (cleanupDiscoveryTargetRequest C (gq_DiscoveryUUID req)) (\<lambda>_.
          ret (Body 201 (CreateUserGroupResponse ''User group created successfully'' (gq_Name req)))))))"

definition updated_group :: "UpdateUserGroupRequest \<Rightarrow> KrknUserGroup \<Rightarrow> KrknUserGroup" where
  "updated_group req grp =
     grp\<lparr>ug_Description := (case gu_Description req of None \<Rightarrow> ug_Description grp | Some d \<Rightarrow> d),
        ug_ClusterPermissions := (case gu_ClusterPermissions req of None \<Rightarrow> ug_ClusterPermissions grp | Some p \<Rightarrow> p)\<rparr>"

definition UpdateUserGroup ::
  "'w group_client \<Rightarrow> token_claims option \<Rightarrow> string \<Rightarrow> string + UpdateUserGroupRequest \<Rightarrow> 'w \<Rightarrow> group_body reply \<times> 'w" where
  "UpdateUserGroup C claims path body = run_handler
    (if \<not> IsAdmin claims then ret admin_required
     else
     bind_eff (path_group path) (\<lambda>groupName.
     case body of
       Inl e \<Rightarrow> stop (bad_request (''Invalid request body: '' @ e))
     | Inr req \<Rightarrow>
       (case (case gu_ClusterPermissions req of None \<Rightarrow> None | Some p \<Rightarrow> validateClusterPermissions p) of
          Some e \<Rightarrow> stop (bad_request e)
        | None \<Rightarrow>
          bind_eff (get_group C groupName) (\<lambda>grp.
          let updated = gu_Description req \<noteq> None \<or> gu_ClusterPermissions req \<noteq> None
          in if \<not> updated \<and> gu_DiscoveryUUID req = '''' then stop (bad_request ''No fields to update'')
             else
             bind_eff (if updated then call (gc_UpdateGroup C (updated_group req grp)) (\<lambda>e. internal_error ''Failed to update user group'')
                       else ret grp) (\<lambda>stored.
             bind_eff (cleanupDiscoveryTargetRequest C (gu_DiscoveryUUID req)) (\<lambda>_.
             bind_eff (buildUserGroupResponse C stored) (\<lambda>response.
             ret (Body 200 (UpdateUserGroupResponse ''User group updated successfully'' response)))))))))"

fun remove_labels :: "'w group_client \<Rightarrow> string \<Rightarrow> KrknUser list \<Rightarrow> ('w, 'r, unit) eff" where
  "remove_labels C labelKey [] = ret ()"
| "remove_labels C labelKey (user # users) =
     bind_eff (step (uc_UpdateUser C (relabelled (AList.delete labelKey) user))) (\<lambda>_. remove_labels C labelKey users)"

text \<open>The error of the list is only logged by the caller, so it has no value here.\<close>

definition removeGroupFromAllMembers :: "'w group_client \<Rightarrow> string \<Rightarrow> ('w, 'r, unit) eff" where
  "removeGroupFromAllMembers C groupName =
     bind_eff (step (uc_ListUsers C (Some (uc_Namespace C)) [(GroupLabelKey groupName, ''true'')])) (\<lambda>res.
       case res of Inl e \<Rightarrow> ret () | Inr users \<Rightarrow> remove_labels C (GroupLabelKey groupName) users)"

definition DeleteUserGroup :: "'w group_client \<Rightarrow> token_claims option \<Rightarrow> string \<Rightarrow> 'w \<Rightarrow> group_body reply \<times> 'w" where
  "DeleteUserGroup C claims path = run_handler
    (if \<not> IsAdmin claims then ret admin_required
     else
     bind_eff (path_group path) (\<lambda>groupName.
     bind_eff (get_group C groupName) (\<lambda>grp.
     bind_eff (removeGroupFromAllMembers C groupName) (\<lambda>_.
     bind_eff (call_opt (gc_DeleteGroup C grp) (\<lambda>e. internal_error ''Failed to delete user group'')) (\<lambda>_.
     ret (Body 200 (DeleteUserGroupResponse ''User group deleted successfully'')))))))"

section \<open>Members\<close>

definition ListGroupMembers :: "'w group_client \<Rightarrow> token_claims option \<Rightarrow> string \<Rightarrow> 'w \<Rightarrow> group_body reply \<times> 'w" where
  "ListGroupMembers C claims path = run_handler
    (if \<not> IsAdmin claims then ret admin_required
     else case extractGroupNameFromMembersPath path of
       Inl e \<Rightarrow> ret (bad_request e)
     | Inr groupName \<Rightarrow>
       bind_eff (get_group C groupName) (\<lambda>grp.
       bind_eff (call (uc_ListUsers C (Some (uc_Namespace C)) [(GroupLabelKey groupName, ''true'')]) (\<lambda>e. internal_error ''Failed to list group members'')) (\<lambda>users.
       ret (Body 200 (ListGroupMembersResponse (map buildUserResponse users) (int (length users)) groupName)))))"

definition AddGroupMember ::
  "'w group_client \<Rightarrow> token_claims option \<Rightarrow> string \<Rightarrow> string + string \<Rightarrow> 'w \<Rightarrow> group_body reply \<times> 'w" where
  "AddGroupMember C claims path body = run_handler
    (if \<not> IsAdmin claims then ret admin_required
     else case extractGroupNameFromMembersPath path of
       Inl e \<Rightarrow> ret (bad_request e)
     | Inr groupName \<Rightarrow>
       (case body of
          Inl e \<Rightarrow> ret (bad_request (''Invalid request body: '' @ e))
        | Inr userID \<Rightarrow>
          if userID = '''' then ret (bad_request ''UserID is required'')
          else
          bind_eff (get_group C groupName) (\<lambda>grp.
          bind_eff (get_member C userID) (\<lambda>user.
          if get_str (Labels (user_meta user)) (GroupLabelKey groupName) = ''true'' then
            stop (Failure 409 ''conflict'' (''User '' @ in_quotes userID @ '' is already a member of group '' @ in_quotes groupName))
          else
          bind_eff (call (uc_UpdateUser C (relabelled (AList.update (GroupLabelKey groupName) ''true'') user))
            (\<lambda>e. internal_error ''Failed to add user to group'')) (\<lambda>_.
          ret (Body 200 (AddGroupMemberResponse ''User added to group successfully'' userID groupName)))))))"

definition RemoveGroupMember :: "'w group_client \<Rightarrow> token_claims option \<Rightarrow> string \<Rightarrow> 'w \<Rightarrow> group_body reply \<times> 'w" where
  "RemoveGroupMember C claims path = run_handler
    (if \<not> IsAdmin claims then ret admin_required
     else case extractGroupNameAndUserIDFromPath path of
       Inl e \<Rightarrow> ret (bad_request e)
     | Inr names \<Rightarrow>
       let groupName = fst names; userID = snd names
       in bind_eff (get_group C groupName) (\<lambda>grp.
          bind_eff (get_member C userID) (\<lambda>user.
          if get_str (Labels (user_meta user)) (GroupLabelKey groupName) \<noteq> ''true'' then
            stop (Failure 404 ''not_found'' (''User '' @ in_quotes userID @ '' is not a member of group '' @ in_quotes groupName))
          else
          bind_eff (call (uc_UpdateUser C (relabelled (AList.delete (GroupLabelKey groupName)) user))
            (\<lambda>e. internal_error ''Failed to remove user from group'')) (\<lambda>_.
          ret (Body 200 (RemoveGroupMemberResponse ''User removed from group successfully''))))))"

section \<open>Routing\<close>

record group_request =
  gh_Claims :: "token_claims option"
  gh_Method :: string
  gh_Path :: string
  gh_Create :: "string + CreateUserGroupRequest"
  gh_Update :: "string + UpdateUserGroupRequest"
  gh_Member :: "string + string"

definition GroupsRouter :: "'w group_client \<Rightarrow> group_request \<Rightarrow> 'w \<Rightarrow> group_body reply \<times> 'w" where
  "GroupsRouter C r w =
    (let path = gh_Path r; claims = gh_Claims r; rmethod = gh_Method r
     in if trim_suffix path ''/'' = GroupsPath then
          (if rmethod = ''GET'' then ListUserGroups C claims w
           else if rmethod = ''POST'' then CreateUserGroup C claims (gh_Create r) w
           else (Failure 405 ''method_not_allowed'' (''Only GET and POST are allowed on '' @ GroupsPath), w))
        else if has_prefix path (GroupsPath @ ''/'') then
          (let segments = split_on CHR ''/'' (trim_prefix path (GroupsPath @ ''/''))
           in if length segments \<ge> 2 \<and> segments ! 1 = ''members'' then
                (if rmethod = ''DELETE'' \<and> length (filter (\<lambda>c. c = CHR ''/'') path) = 6 then RemoveGroupMember C claims path w
                 else if rmethod = ''GET'' \<and> has_suffix path ''/members'' then ListGroupMembers C claims path w
                 else if rmethod = ''POST'' \<and> has_suffix path ''/members'' then AddGroupMember C claims path (gh_Member r) w
                 else (Failure 405 ''method_not_allowed'' ''Invalid method for members endpoint'', w))
              else if rmethod = ''GET'' then GetUserGroup C claims path w
              else if rmethod = ''PATCH'' then UpdateUserGroup C claims path (gh_Update r) w
              else if rmethod = ''DELETE'' then DeleteUserGroup C claims path w
              else (Failure 405 ''method_not_allowed'' ''Invalid method for group endpoint'', w))
        else (Failure 404 ''not_found'' ''Endpoint not found'', w))"

section \<open>Membership as a relation\<close>

text \<open>
  The store of \<open>User_Store\<close> with a list of groups. Membership is the relation between user names and group names that
  the labels stand for.
\<close>

type_synonym group_store = "user_store \<times> KrknUserGroup list"

abbreviation group_at :: "string \<Rightarrow> string \<Rightarrow> KrknUserGroup \<Rightarrow> bool" where
  "group_at ns n g \<equiv> Namespace (ug_meta g) = ns \<and> Name (ug_meta g) = n"

abbreviation same_group :: "KrknUserGroup \<Rightarrow> KrknUserGroup \<Rightarrow> bool" where
  "same_group g \<equiv> group_at (Namespace (ug_meta g)) (Name (ug_meta g))"

definition group_store_client :: "string \<Rightarrow> group_store group_client" where
  "group_store_client ns = \<lparr>uc_Namespace = ns,
     uc_ListUsers = (\<lambda>n ls. silently (uc_ListUsers (store_client ns) n ls)),
     uc_GetSecret = (\<lambda>n m. silently (uc_GetSecret (store_client ns) n m)),
     uc_CreateSecret = (\<lambda>s sd. silently (store_create_secret s sd)),
     uc_UpdateSecret = (\<lambda>s. silently (store_update_secret s)),
     uc_DeleteSecret = (\<lambda>n m. silently (store_delete_secret n m)),
     uc_CreateUser = (\<lambda>u. silently (store_create_user u)),
     uc_UpdateUser = (\<lambda>u. silently (uc_UpdateUser (store_client ns) u)),
     uc_UpdateUserStatus = (\<lambda>u. silently (uc_UpdateUserStatus (store_client ns) u)),
     uc_DeleteUser = (\<lambda>u. silently (store_delete_user u)),
     uc_Now = silently (uc_Now (store_client ns)), uc_ErrorText = (\<lambda>e. ''error''),
     gc_GetUser = (\<lambda>n m (K, gs). (case List.find (user_at n m) (st_Users K) of None \<Rightarrow> Inl NotFound | Some u \<Rightarrow> Inr u, (K, gs))),
     gc_GetGroup = (\<lambda>n m (K, gs). (case List.find (group_at n m) gs of None \<Rightarrow> Inl NotFound | Some g \<Rightarrow> Inr g, (K, gs))),
     gc_ListGroups = (\<lambda>n (K, gs). (Inr (filter (\<lambda>g. Namespace (ug_meta g) = n) gs), (K, gs))),
     gc_CreateGroup = (\<lambda>g (K, gs). if list_ex (same_group g) gs then (Some AlreadyExists, (K, gs)) else (None, (K, gs @ [g]))),
     gc_UpdateGroup = (\<lambda>g (K, gs). if list_ex (same_group g) gs then (Inr g, (K, map (\<lambda>x. if same_group g x then g else x) gs)) else (Inl NotFound, (K, gs))),
     gc_DeleteGroup = (\<lambda>g (K, gs). if list_ex (same_group g) gs then (None, (K, filter (\<lambda>x. \<not> same_group g x) gs)) else (Some NotFound, (K, gs))),
     gc_DeleteTargetRequest = (\<lambda>n m w. (Some NotFound, w))\<rparr>"

definition unique_users :: "group_store \<Rightarrow> bool" where
  "unique_users S \<longleftrightarrow> distinct (map (\<lambda>u. (Namespace (user_meta u), Name (user_meta u))) (st_Users (fst S)))"

definition label_groups :: "KrknUser \<Rightarrow> string set" where
  "label_groups u = {g. map_of (Labels (user_meta u)) (GroupLabelPrefix @ g) = Some ''true''}"

definition memberships :: "string \<Rightarrow> group_store \<Rightarrow> (string \<times> string) set" where
  "memberships ns S = {(Name (user_meta u), g) | u g. u \<in> set (st_Users (fst S)) \<and> Namespace (user_meta u) = ns \<and> g \<in> label_groups u}"

lemma label_groups_add: "label_groups (relabelled (AList.update (GroupLabelKey g) ''true'') u) = insert (SanitizeGroupName g) (label_groups u)"
  by (auto simp: label_groups_def relabelled_def alist.get_put GroupLabelKey_def)

lemma label_groups_remove: "label_groups (relabelled (AList.delete (GroupLabelKey g)) u) = label_groups u - {SanitizeGroupName g}"
  by (auto simp: label_groups_def relabelled_def alist.get_del GroupLabelKey_def)

lemma same_user_unique:
  "unique_users S \<Longrightarrow> u \<in> set (st_Users (fst S)) \<Longrightarrow> v \<in> set (st_Users (fst S)) \<Longrightarrow> same_user u v \<Longrightarrow> v = u"
  by (auto simp: unique_users_def distinct_map inj_on_def)

lemma relabelled_meta [simp]:
  "Namespace (user_meta (relabelled f u)) = Namespace (user_meta u)" "Name (user_meta (relabelled f u)) = Name (user_meta u)"
  by (simp_all add: relabelled_def)

lemma with_status_meta [simp]: "user_meta (with_status u s) = user_meta u"
  by (simp add: with_status_def)

lemma label_groups_with_status [simp]: "label_groups (with_status u s) = label_groups u"
  by (simp add: label_groups_def)

text \<open>Replacing the labels of one user.\<close>

lemma update_user_store:
  fixes f :: "(string, string) gomap \<Rightarrow> (string, string) gomap" and ns :: string
  assumes "unique_users S" "u \<in> set (st_Users (fst S))"
  defines "S' \<equiv> snd (uc_UpdateUser (group_store_client ns) (relabelled f u) S)"
  shows "set (st_Users (fst S')) = insert (with_status (relabelled f u) u) (set (st_Users (fst S)) - {u})"
    and "unique_users S'" and "snd S' = snd S" and "\<exists>v. fst (uc_UpdateUser (group_store_client ns) (relabelled f u) S) = Inr v"
proof -
  obtain K gs where S: "S = (K, gs)" by (metis surj_pair)
  have ex: "List.find (same_user u) (st_Users K) \<noteq> None" using assms(2) S by (auto simp: find_None_iff)
  have eq: "same_user u x \<longleftrightarrow> x = u" if "x \<in> set (st_Users K)" for x
    using same_user_unique[OF assms(1,2)] that S by auto
  have S': "S' = (K\<lparr>st_Users := map (\<lambda>x. if same_user u x then with_status (relabelled f u) x else x) (st_Users K)\<rparr>, gs)"
    using ex by (auto simp: S'_def S group_store_client_def silently_def store_change_user_def)
  show "set (st_Users (fst S')) = insert (with_status (relabelled f u) u) (set (st_Users (fst S)) - {u})"
    using eq assms(2) by (auto simp: S' S)
  have "map (\<lambda>v. (Namespace (user_meta v), Name (user_meta v))) (st_Users (fst S')) = map (\<lambda>v. (Namespace (user_meta v), Name (user_meta v))) (st_Users (fst S))"
    by (auto simp: S' S)
  then show "unique_users S'" using assms(1) by (simp add: unique_users_def)
  show "snd S' = snd S" by (simp add: S' S)
  show "\<exists>v. fst (uc_UpdateUser (group_store_client ns) (relabelled f u) S) = Inr v"
    using ex by (auto simp: S group_store_client_def silently_def store_change_user_def)
qed

lemma memberships_iff:
  "(n, g) \<in> memberships ns S \<longleftrightarrow> (\<exists>v\<in>set (st_Users (fst S)). user_at ns n v \<and> g \<in> label_groups v)"
  by (auto simp: memberships_def)

lemma unique_at:
  assumes "unique_users S" "u \<in> set (st_Users (fst S))" "v \<in> set (st_Users (fst S))" "user_at ns n u" "user_at ns n v"
  shows "v = u"
  using same_user_unique[OF assms(1-3)] assms(4,5) by simp

lemma memberships_of:
  assumes "unique_users S" "u \<in> set (st_Users (fst S))" "Namespace (user_meta u) = ns"
  shows "(Name (user_meta u), g) \<in> memberships ns S \<longleftrightarrow> g \<in> label_groups u"
proof
  assume "(Name (user_meta u), g) \<in> memberships ns S"
  then obtain v where v: "v \<in> set (st_Users (fst S))" "user_at ns (Name (user_meta u)) v" "g \<in> label_groups v"
    unfolding memberships_iff by auto
  have "user_at ns (Name (user_meta u)) u" using assms(3) by simp
  from unique_at[OF assms(1,2) v(1) this v(2)] v(3) show "g \<in> label_groups u" by simp
next
  assume "g \<in> label_groups u"
  then show "(Name (user_meta u), g) \<in> memberships ns S" unfolding memberships_iff using assms(2,3) by auto
qed
lemma memberships_relabel:
  assumes "unique_users S" "u \<in> set (st_Users (fst S))" "Namespace (user_meta u) = ns"
  shows "memberships ns (snd (uc_UpdateUser (group_store_client ns) (relabelled f u) S)) =
    {(n, g). (n, g) \<in> memberships ns S \<and> n \<noteq> Name (user_meta u)} \<union> {Name (user_meta u)} \<times> label_groups (relabelled f u)"
    (is "?L = ?R")
proof -
  have "(n, g) \<in> ?L \<longleftrightarrow> (n, g) \<in> ?R" for n g
  proof (cases "n = Name (user_meta u)")
    case True
    have "user_at ns n u" using True assms(3) by simp
    then have "\<not> user_at ns n v" if "v \<in> set (st_Users (fst S)) - {u}" for v
      using unique_at[OF assms(1,2) _ \<open>user_at ns n u\<close>, of v] that by auto
    then show ?thesis
      unfolding memberships_iff update_user_store(1)[OF assms(1,2)] using True assms(3) by auto
  next
    case False
    then show ?thesis
      unfolding memberships_iff update_user_store(1)[OF assms(1,2)] by (auto simp: memberships_iff)
  qed
  then show ?thesis by auto
qed

lemma found_user:
  assumes "List.find (user_at k m) (st_Users (fst S)) = Some u"
  shows "u \<in> set (st_Users (fst S))" "Namespace (user_meta u) = k" "Name (user_meta u) = m"
  using find_SomeD[OF assms] by auto

lemma memberships_add:
  assumes "unique_users S" "List.find (user_at ns m) (st_Users (fst S)) = Some u"
  shows "memberships ns (snd (uc_UpdateUser (group_store_client ns) (relabelled (AList.update (GroupLabelKey g) ''true'') u) S)) =
    insert (m, SanitizeGroupName g) (memberships ns S)"
  unfolding memberships_relabel[OF assms(1) found_user(1,2)[OF assms(2)]] label_groups_add
  using memberships_of[OF assms(1) found_user(1,2)[OF assms(2)]] found_user(3)[OF assms(2)] by auto

lemma memberships_remove:
  assumes "unique_users S" "u \<in> set (st_Users (fst S))" "Namespace (user_meta u) = ns"
  shows "memberships ns (snd (uc_UpdateUser (group_store_client ns) (relabelled (AList.delete (GroupLabelKey g)) u) S)) =
    memberships ns S - {(Name (user_meta u), SanitizeGroupName g)}"
  unfolding memberships_relabel[OF assms] label_groups_remove using memberships_of[OF assms] by auto

lemma memberships_remove_found:
  assumes "unique_users S" "List.find (user_at ns m) (st_Users (fst S)) = Some u"
  shows "memberships ns (snd (uc_UpdateUser (group_store_client ns) (relabelled (AList.delete (GroupLabelKey g)) u) S)) =
    memberships ns S - {(m, SanitizeGroupName g)}"
  using memberships_remove[OF assms(1) found_user(1,2)[OF assms(2)]] found_user(3)[OF assms(2)] by simp

section \<open>The handlers refine the relation\<close>

lemma group_store_simps [simp]:
  "uc_Namespace (group_store_client ns) = ns"
  "gc_GetUser (group_store_client ns) k m S = (case List.find (user_at k m) (st_Users (fst S)) of None \<Rightarrow> Inl NotFound | Some u \<Rightarrow> Inr u, S)"
  "gc_GetGroup (group_store_client ns) k m S = (case List.find (group_at k m) (snd S) of None \<Rightarrow> Inl NotFound | Some g \<Rightarrow> Inr g, S)"
  "uc_ListUsers (group_store_client ns) n ls S = (Inr (filter (listed n ls) (st_Users (fst S))), S)"
  by (simp_all add: group_store_client_def silently_def split: prod.splits)

lemmas run_defs = run_handler_def bind_eff_def call_def call_opt_def step_def ret_def stop_def

lemma failure_codes:
  "reply_code (group_failure n e) \<noteq> 200" "reply_code (member_failure n e) \<noteq> 200" "reply_code (bad_request m) \<noteq> 200"
  "reply_code (internal_error m) \<noteq> 200" "reply_code admin_required \<noteq> 200"
  by (simp_all add: group_failure_def member_failure_def bad_request_def internal_error_def admin_required_def)

lemma update_succeeds:
  assumes "unique_users S" and "List.find (user_at k m) (st_Users (fst S)) = Some u"
  shows "uc_UpdateUser (group_store_client ns) (relabelled f u) S \<noteq> (Inl e, T)"
  using update_user_store(4)[OF assms(1) found_user(1)[OF assms(2)], of ns f] by auto

lemma AddGroupMember_store:
  assumes U: "unique_users S" and g: "extractGroupNameFromMembersPath path = Inr g"
    and r: "AddGroupMember (group_store_client ns) claims path (Inr userID) S = (r, S')"
  shows "memberships ns S' = (if reply_code r = 200 then insert (sanitizeUsername userID, SanitizeGroupName g) (memberships ns S) else memberships ns S)"
    and "unique_users S'"
proof -
  let ?u = "List.find (user_at ns (sanitizeUsername userID)) (st_Users (fst S))"
  have *: "(reply_code r \<noteq> 200 \<and> S' = S) \<or> (reply_code r = 200 \<and> (\<exists>u. ?u = Some u \<and>
      S' = snd (uc_UpdateUser (group_store_client ns) (relabelled (AList.update (GroupLabelKey g) ''true'') u) S)))"
    using r update_succeeds[OF U]
    by (auto simp: AddGroupMember_def g get_group_def get_member_def run_defs failure_codes split: if_splits option.splits sum.splits prod.splits)
  show "memberships ns S' = (if reply_code r = 200 then insert (sanitizeUsername userID, SanitizeGroupName g) (memberships ns S) else memberships ns S)"
    using * memberships_add[OF U] by (elim disjE conjE exE) simp_all
  show "unique_users S'" using * U update_user_store(2)[OF U found_user(1)] by (elim disjE conjE exE) simp_all
qed

lemma RemoveGroupMember_store:
  assumes U: "unique_users S" and g: "extractGroupNameAndUserIDFromPath path = Inr (g, userID)"
    and r: "RemoveGroupMember (group_store_client ns) claims path S = (r, S')"
  shows "memberships ns S' = (if reply_code r = 200 then memberships ns S - {(sanitizeUsername userID, SanitizeGroupName g)} else memberships ns S)"
    and "unique_users S'"
proof -
  let ?u = "List.find (user_at ns (sanitizeUsername userID)) (st_Users (fst S))"
  have *: "(reply_code r \<noteq> 200 \<and> S' = S) \<or> (reply_code r = 200 \<and> (\<exists>u. ?u = Some u \<and>
      S' = snd (uc_UpdateUser (group_store_client ns) (relabelled (AList.delete (GroupLabelKey g)) u) S)))"
    using r update_succeeds[OF U]
    by (auto simp: RemoveGroupMember_def g get_group_def get_member_def run_defs failure_codes split: if_splits option.splits sum.splits prod.splits)
  show "memberships ns S' = (if reply_code r = 200 then memberships ns S - {(sanitizeUsername userID, SanitizeGroupName g)} else memberships ns S)"
    using * memberships_remove_found[OF U] by (elim disjE conjE exE) simp_all
  show "unique_users S'" using * U update_user_store(2)[OF U found_user(1)] by (elim disjE conjE exE) simp_all
qed

lemma remove_labels_store:
  assumes "unique_users S" and "distinct us" and "set us \<subseteq> set (st_Users (fst S))" and "\<And>u. u \<in> set us \<Longrightarrow> Namespace (user_meta u) = ns"
  shows "\<exists>S'. remove_labels (group_store_client ns) (GroupLabelKey g) us S = (Inr () :: 'r + unit, S') \<and> unique_users S' \<and> snd S' = snd S \<and>
    memberships ns S' = memberships ns S - {(Name (user_meta u), SanitizeGroupName g) | u. u \<in> set us}"
  using assms
proof (induction us arbitrary: S)
  case (Cons u us)
  let ?S = "snd (uc_UpdateUser (group_store_client ns) (relabelled (AList.delete (GroupLabelKey g)) u) S)"
  have u: "u \<in> set (st_Users (fst S))" "Namespace (user_meta u) = ns" using Cons.prems(3,4) by auto
  note U = update_user_store[OF Cons.prems(1) u(1), where f = "AList.delete (GroupLabelKey g)" and ns = ns]
  have sub: "set us \<subseteq> set (st_Users (fst ?S))" using Cons.prems(2,3) U(1) by auto
  have d: "distinct us" and n: "\<And>v. v \<in> set us \<Longrightarrow> Namespace (user_meta v) = ns" using Cons.prems(2,4) by auto
  obtain S' where S': "remove_labels (group_store_client ns) (GroupLabelKey g) us ?S = (Inr () :: 'r + unit, S')" "unique_users S'" "snd S' = snd ?S"
    "memberships ns S' = memberships ns ?S - {(Name (user_meta u), SanitizeGroupName g) | u. u \<in> set us}"
    using Cons.IH[OF U(2) d sub n] by blast
  have "remove_labels (group_store_client ns) (GroupLabelKey g) (u # us) S = (Inr () :: 'r + unit, S')"
    using S'(1) by (auto simp: bind_eff_def step_def split: prod.splits)
  then show ?case using S'(2-4) U(3) memberships_remove[OF Cons.prems(1) u] by auto
qed (auto simp: ret_def)

lemma removeGroupFromAllMembers_store:
  assumes "unique_users S"
  shows "\<exists>S'. removeGroupFromAllMembers (group_store_client ns) g S = (Inr () :: 'r + unit, S') \<and> snd S' = snd S \<and>
    memberships ns S' = {(n, h) \<in> memberships ns S. h \<noteq> SanitizeGroupName g}"
proof -
  let ?us = "filter (listed (Some ns) [(GroupLabelKey g, ''true'')]) (st_Users (fst S))"
  have d: "distinct ?us" using assms by (simp add: unique_users_def distinct_map)
  have n: "u \<in> set ?us \<Longrightarrow> Namespace (user_meta u) = ns" for u by (simp add: listed_def)
  have sub: "set ?us \<subseteq> set (st_Users (fst S))" by simp
  obtain S' where S': "remove_labels (group_store_client ns) (GroupLabelKey g) ?us S = (Inr () :: 'r + unit, S')" "snd S' = snd S"
    "memberships ns S' = memberships ns S - {(Name (user_meta u), SanitizeGroupName g) | u. u \<in> set ?us}"
    using remove_labels_store[OF assms d sub n] by blast
  have "{(Name (user_meta u), SanitizeGroupName g) | u. u \<in> set ?us} = {(n, h) \<in> memberships ns S. h = SanitizeGroupName g}"
    by (auto simp: memberships_iff listed_def label_groups_def GroupLabelKey_def)
  then have "memberships ns S' = {(n, h) \<in> memberships ns S. h \<noteq> SanitizeGroupName g}" unfolding S'(3) by auto
  then show ?thesis using S' by (simp add: removeGroupFromAllMembers_def bind_eff_def step_def)
qed

lemma DeleteUserGroup_store:
  assumes U: "unique_users S" and g: "extractPathSuffix path (GroupsPath @ ''/'') = Inr g"
    and r: "DeleteUserGroup (group_store_client ns) claims path S = (r, S')"
  shows "memberships ns S' = (if reply_code r = 200 then {(n, h) \<in> memberships ns S. h \<noteq> SanitizeGroupName g} else memberships ns S)"
proof -
  obtain S1 where S1: "removeGroupFromAllMembers (group_store_client ns) g S = (Inr () :: group_body reply + unit, S1)" "snd S1 = snd S"
    "memberships ns S1 = {(n, h) \<in> memberships ns S. h \<noteq> SanitizeGroupName g}"
    using removeGroupFromAllMembers_store[OF U] by blast
  have d: "List.find (group_at ns g) (snd S) = Some x \<Longrightarrow> gc_DeleteGroup (group_store_client ns) x S1 =
      (None, (fst S1, filter (\<lambda>y. \<not> same_group x y) (snd S)))" for x
    using S1(2) find_SomeD[of "group_at ns g" "snd S" x]
    by (auto simp: group_store_client_def list_ex_iff split: prod.splits)
  show ?thesis
  proof (cases "IsAdmin claims \<and> List.find (group_at ns g) (snd S) \<noteq> None")
    case True
    then obtain x where "List.find (group_at ns g) (snd S) = Some x" by auto
    then have "r = Body 200 (DeleteUserGroupResponse ''User group deleted successfully'')" "S' = (fst S1, filter (\<lambda>y. \<not> same_group x y) (snd S))"
      using r True S1(1) d by (auto simp: DeleteUserGroup_def path_group_def g get_group_def run_defs)
    moreover have "memberships ns (fst S1, filter (\<lambda>y. \<not> same_group x y) (snd S)) = memberships ns S1"
      by (simp add: memberships_def)
    ultimately show ?thesis using S1(3) by simp
  next
    case False
    then show ?thesis
      using r by (auto simp: DeleteUserGroup_def path_group_def g get_group_def run_defs failure_codes split: if_splits)
  qed
qed

section \<open>What the permission checks see\<close>

definition store_auth :: "string \<Rightarrow> group_store \<Rightarrow> auth_client" where
  "store_auth ns S = \<lparr>ac_Namespace = ns, ac_GetUser = (\<lambda>k m. fst (gc_GetUser (group_store_client ns) k m S)),
     ac_GetGroup = (\<lambda>k m. fst (gc_GetGroup (group_store_client ns) k m S)), ac_GetTargetRequest = (\<lambda>k m. Inl NotFound),
     ac_ListUsers = (\<lambda>k ls. fst (uc_ListUsers (group_store_client ns) (Some k) ls S))\<rparr>"

lemma extract_names:
  "gomap_wf labels \<Longrightarrow> set (ExtractGroupNamesFromLabels labels) = {g. map_of labels (GroupLabelPrefix @ g) = Some ''true''}"
  by (force simp: ExtractGroupNamesFromLabels_def gomap_wf_lookup dest!: has_prefix_split)

lemma image_found:
  assumes "\<And>g x. f g = Some x \<Longrightarrow> nm x = g"
  shows "nm ` {x. \<exists>g\<in>L. f g = Some x} = {g \<in> L. f g \<noteq> None}"
proof (rule set_eqI)
  show "y \<in> nm ` {x. \<exists>g\<in>L. f g = Some x} \<longleftrightarrow> y \<in> {g \<in> L. f g \<noteq> None}" for y
    by (cases "f y") (use assms in force)+
qed

lemma GetUserGroups_store:
  assumes U: "unique_users S" and wf: "list_all (\<lambda>u. gomap_wf (Labels (user_meta u))) (st_Users (fst S))"
    and gs: "GetUserGroups (store_auth ns S) userID ns = Inr gs"
  shows "(\<lambda>g. Name (ug_meta g)) ` set gs = {g. (sanitizeUserID userID, g) \<in> memberships ns S \<and> list_ex (group_at ns g) (snd S)}"
proof -
  obtain u where u: "List.find (user_at ns (sanitizeUserID userID)) (st_Users (fst S)) = Some u"
    using gs by (auto simp: GetUserGroups_def store_auth_def split: option.splits)
  have names: "set (ExtractGroupNamesFromLabels (Labels (user_meta u))) = label_groups u"
    using extract_names wf found_user(1)[OF u] by (auto simp: label_groups_def list_all_iff)
  have m: "(sanitizeUserID userID, g) \<in> memberships ns S \<longleftrightarrow> g \<in> label_groups u" for g
    using memberships_of[OF U found_user(1,2)[OF u]] found_user(3)[OF u] by simp
  have "set gs = {x. \<exists>g\<in>label_groups u. List.find (group_at ns g) (snd S) = Some x}"
  proof -
    have c: "set (case case x of None \<Rightarrow> Inl NotFound | Some g \<Rightarrow> Inr g of Inl e \<Rightarrow> [] | Inr g \<Rightarrow> [g]) = set_option x" for x :: "KrknUserGroup option"
      by (cases x) simp_all
    have "set gs = (\<Union>n\<in>label_groups u. set_option (List.find (group_at ns n) (snd S)))"
      using gs u by (auto simp: GetUserGroups_def store_auth_def Let_def c names[symmetric] split: if_splits)
    then show ?thesis by (simp add: UNION_eq elem_set)
  qed
  moreover have "(\<lambda>g. Name (ug_meta g)) ` {x. \<exists>g\<in>label_groups u. List.find (group_at ns g) (snd S) = Some x} =
      {g \<in> label_groups u. List.find (group_at ns g) (snd S) \<noteq> None}"
    by (rule image_found) (auto dest: find_SomeD)
  moreover have "List.find (group_at ns g) (snd S) \<noteq> None \<longleftrightarrow> list_ex (group_at ns g) (snd S)" for g
    by (auto simp: find_None_iff list_ex_iff)
  ultimately show ?thesis using m by auto
qed

text \<open>
  C18. Group membership is a relation between users and groups, and the handlers are its operations: on a store with the
  behaviour of the API server, adding a member inserts exactly one pair, removing a member deletes exactly that pair, deleting a
  group deletes its pairs, and a request that is refused changes nothing; and the groups that the permission
  checks find for a user are the existing groups related to the user.
\<close>

theorem group_handlers_refine:
  assumes "unique_users S"
  shows "(case AddGroupMember (group_store_client ns) claims path (Inr userID) S of (r, S') \<Rightarrow>
      \<forall>g. extractGroupNameFromMembersPath path = Inr g \<longrightarrow> memberships ns S' =
        (if reply_code r = 200 then insert (sanitizeUsername userID, SanitizeGroupName g) (memberships ns S) else memberships ns S)) \<and>
    (case RemoveGroupMember (group_store_client ns) claims path S of (r, S') \<Rightarrow>
      \<forall>g userID. extractGroupNameAndUserIDFromPath path = Inr (g, userID) \<longrightarrow> memberships ns S' =
        (if reply_code r = 200 then memberships ns S - {(sanitizeUsername userID, SanitizeGroupName g)} else memberships ns S)) \<and>
    (case DeleteUserGroup (group_store_client ns) claims path S of (r, S') \<Rightarrow>
      \<forall>g. extractPathSuffix path (GroupsPath @ ''/'') = Inr g \<longrightarrow> memberships ns S' =
        (if reply_code r = 200 then {(n, h) \<in> memberships ns S. h \<noteq> SanitizeGroupName g} else memberships ns S)) \<and>
    (\<forall>gs. list_all (\<lambda>u. gomap_wf (Labels (user_meta u))) (st_Users (fst S)) \<longrightarrow> GetUserGroups (store_auth ns S) userID ns = Inr gs \<longrightarrow>
      (\<lambda>g. Name (ug_meta g)) ` set gs = {g. (sanitizeUsername userID, g) \<in> memberships ns S \<and> list_ex (group_at ns g) (snd S)})"
  using AddGroupMember_store(1)[OF assms] RemoveGroupMember_store(1)[OF assms] DeleteUserGroup_store[OF assms] GetUserGroups_store[OF assms]
  by (simp add: sanitizeUsername_group_name split: prod.splits)

definition sample_groups :: group_store where
  "sample_groups = (registered_store, [\<lparr>ug_meta = meta_of ''ops'' ''krkn'' [], ug_Name = ''Ops'', ug_Description = '''', ug_ClusterPermissions = []\<rparr>])"

theorem group_handlers_refine_witness:
  "case AddGroupMember (group_store_client ''krkn'') (Some ada) (GroupsPath @ ''/ops/members'') (Inr ''ada@x.io'') sample_groups of
     (r, S') \<Rightarrow> reply_code r = 200 \<and> memberships ''krkn'' S' = insert (''krknuser-ada-x-io'', ''ops'') (memberships ''krkn'' sample_groups)"
proof -
  let ?A = "AddGroupMember (group_store_client ''krkn'') (Some ada) (GroupsPath @ ''/ops/members'') (Inr ''ada@x.io'') sample_groups"
  have "reply_code (fst ?A) = 200" "extractGroupNameFromMembersPath (GroupsPath @ ''/ops/members'') = Inr ''ops''"
    "sanitizeUsername ''ada@x.io'' = ''krknuser-ada-x-io''" "SanitizeGroupName ''ops'' = ''ops''" "unique_users sample_groups" by code_simp+
  with group_handlers_refine[of sample_groups, where ns = "''krkn''" and claims = "Some ada" and path = "GroupsPath @ ''/ops/members''" and userID = "''ada@x.io''"]
  show ?thesis by (auto split: prod.splits)
qed

end
