(* ===== verification/Targets_API.thy ===== *)
theory Targets_API
  imports Target_Request Groups_API
begin

text \<open>
  The endpoints of the operator's own targets: \<open>src/internal/api/targets_crud.go\<close>. A target is an object that names a
  cluster and the secret with its kubeconfig; both are created, updated and deleted together. Bodies are given
  decoded; a reply of \<open>None\<close> is a panic.
\<close>

section \<open>Requests, responses and the client\<close>

record CreateTargetRequest =
  tq_ClusterName :: string
  tq_ClusterAPIURL :: string
  tq_SecretType :: string
  tq_CABundle :: string
  tq_Kubeconfig :: string
  tq_Token :: string
  tq_Username :: string
  tq_Password :: string

record TargetResponse =
  tp_UUID :: string
  tp_ClusterName :: string
  tp_ClusterAPIURL :: string
  tp_SecretType :: string
  tp_Ready :: bool
  tp_CreatedAt :: time

datatype target_body =
    CreateTargetResponse string string
  | ListTargetsResponse "TargetResponse list"
  | TargetBody TargetResponse

record 'w crud_client =
  cr_Namespace :: string
  cr_GetTarget :: "string \<Rightarrow> string \<Rightarrow> 'w \<Rightarrow> (api_error + KrknOperatorTarget) \<times> 'w"
  cr_ListTargets :: "string \<Rightarrow> 'w \<Rightarrow> (api_error + KrknOperatorTarget list) \<times> 'w"
  cr_CreateTarget :: "KrknOperatorTarget \<Rightarrow> 'w \<Rightarrow> (api_error + KrknOperatorTarget) \<times> 'w"
  cr_UpdateTarget :: "KrknOperatorTarget \<Rightarrow> 'w \<Rightarrow> api_error option \<times> 'w"
  cr_UpdateTargetStatus :: "KrknOperatorTarget \<Rightarrow> 'w \<Rightarrow> api_error option \<times> 'w"
  cr_DeleteTarget :: "KrknOperatorTarget \<Rightarrow> 'w \<Rightarrow> api_error option \<times> 'w"
  cr_GetSecret :: "string \<Rightarrow> string \<Rightarrow> 'w \<Rightarrow> (api_error + Secret) \<times> 'w"
  cr_CreateSecret :: "Secret \<Rightarrow> 'w \<Rightarrow> api_error option \<times> 'w"
  cr_UpdateSecret :: "Secret \<Rightarrow> 'w \<Rightarrow> api_error option \<times> 'w"
  cr_DeleteSecret :: "string \<Rightarrow> string \<Rightarrow> 'w \<Rightarrow> api_error option \<times> 'w"
  cr_NewUUID :: "'w \<Rightarrow> string \<times> 'w"
  cr_Now :: "'w \<Rightarrow> time \<times> 'w"
  cr_ErrorText :: "api_error \<Rightarrow> string"
  cr_KubeText :: "kube_error \<Rightarrow> string"

definition OperatorTargetsPath :: string where
  "OperatorTargetsPath = ''/api/v1/operator/targets''"

section \<open>Kubeconfigs from requests\<close>

definition generateKubeconfigFromKubeconfigType ::
  "clientcmd \<Rightarrow> (kube_error \<Rightarrow> string) \<Rightarrow> CreateTargetRequest \<Rightarrow> string + string \<times> string" where
  "generateKubeconfigFromKubeconfigType K text req =
    (if tq_Kubeconfig req = '''' then Inl (''kubeconfig is required when secretType is '' @ in_quotes ''kubeconfig'')
     else case Validate K (tq_Kubeconfig req) of
       Some e \<Rightarrow> Inl (''invalid kubeconfig: '' @ text e)
     | None \<Rightarrow>
       (case ExtractAPIURL K (tq_Kubeconfig req) of
          Inl e \<Rightarrow> Inl (''failed to extract API URL from kubeconfig: '' @ text e)
        | Inr apiURL \<Rightarrow> Inr (tq_Kubeconfig req, apiURL)))"

definition generateKubeconfigFromTokenType ::
  "clientcmd \<Rightarrow> (kube_error \<Rightarrow> string) \<Rightarrow> CreateTargetRequest \<Rightarrow> string + string \<times> string" where
  "generateKubeconfigFromTokenType K text req =
    (if tq_Token req = '''' then Inl (''token is required when secretType is '' @ in_quotes ''token'')
     else if tq_ClusterAPIURL req = '''' then Inl (''clusterAPIURL is required when secretType is '' @ in_quotes ''token'')
     else case GenerateFromToken K (tq_ClusterName req) (tq_ClusterAPIURL req) (tq_CABundle req) (tq_Token req) (tq_CABundle req = '''') of
       Inl e \<Rightarrow> Inl (''failed to generate kubeconfig from token: '' @ text e)
     | Inr kubeconfigBase64 \<Rightarrow> Inr (kubeconfigBase64, tq_ClusterAPIURL req))"

definition generateKubeconfigFromCredentialsType ::
  "clientcmd \<Rightarrow> (kube_error \<Rightarrow> string) \<Rightarrow> CreateTargetRequest \<Rightarrow> string + string \<times> string" where
  "generateKubeconfigFromCredentialsType K text req =
    (if tq_Username req = '''' \<or> tq_Password req = ''''
     then Inl (''username and password are required when secretType is '' @ in_quotes ''credentials'')
     else if tq_ClusterAPIURL req = ''''
     then Inl (''clusterAPIURL is required when secretType is '' @ in_quotes ''credentials'')
     else case GenerateFromCredentials K (tq_ClusterName req) (tq_ClusterAPIURL req) (tq_CABundle req) (tq_Username req)
         (tq_Password req) (tq_CABundle req = '''') of
       Inl e \<Rightarrow> Inl (''failed to generate kubeconfig from credentials: '' @ text e)
     | Inr kubeconfigBase64 \<Rightarrow> Inr (kubeconfigBase64, tq_ClusterAPIURL req))"

definition generateKubeconfigFromRequest ::
  "clientcmd \<Rightarrow> (kube_error \<Rightarrow> string) \<Rightarrow> CreateTargetRequest \<Rightarrow> string + string \<times> string" where
  "generateKubeconfigFromRequest K text req =
    (if tq_SecretType req = ''kubeconfig'' then generateKubeconfigFromKubeconfigType K text req
     else if tq_SecretType req = ''token'' then generateKubeconfigFromTokenType K text req
     else if tq_SecretType req = ''credentials'' then generateKubeconfigFromCredentialsType K text req
     else Inl ''secretType must be one of: kubeconfig, token, credentials'')"

section \<open>The handlers\<close>

definition fetchTarget :: "'w crud_client \<Rightarrow> string \<Rightarrow> ('w, 'r, string + KrknOperatorTarget) eff" where
  "fetchTarget C targetUUID =
     bind_eff (step (cr_GetTarget C (cr_Namespace C) targetUUID)) (\<lambda>res.
       ret (case res of
          Inl e \<Rightarrow> Inl (if e = NotFound then ''target with UUID '' @ in_quotes targetUUID @ '' not found''
            else ''failed to get target: '' @ cr_ErrorText C e)
        | Inr target \<Rightarrow> Inr target))"

definition writeTargetFetchError :: "string \<Rightarrow> 'a reply" where
  "writeTargetFetchError err = Failure (if contains_str err ''not found'' then 404 else 500) ''error'' err"

definition buildTargetResponse :: "KrknOperatorTarget \<Rightarrow> TargetResponse" where
  "buildTargetResponse target =
     \<lparr>tp_UUID = ots_UUID (ot_Spec target), tp_ClusterName = ots_ClusterName (ot_Spec target),
      tp_ClusterAPIURL = ots_ClusterAPIURL (ot_Spec target), tp_SecretType = ots_SecretType (ot_Spec target),
      tp_Ready = ot_Ready target, tp_CreatedAt = CreationTimestamp (ot_meta target)\<rparr>"

text \<open>The loop over the existing targets ends at the first one that has the name or the address.\<close>

fun check_duplicates :: "string \<Rightarrow> string \<Rightarrow> KrknOperatorTarget list \<Rightarrow> 'a reply option" where
  "check_duplicates clusterName apiURL [] = None"
| "check_duplicates clusterName apiURL (target # targets) =
    (if ots_ClusterName (ot_Spec target) = clusterName
     then Some (Failure 409 ''conflict'' (''Target with clusterName '' @ in_quotes clusterName @ '' already exists''))
     else if ots_ClusterAPIURL (ot_Spec target) \<noteq> '''' \<and> ots_ClusterAPIURL (ot_Spec target) = apiURL
     then Some (Failure 409 ''conflict'' (''Target with clusterAPIURL '' @ in_quotes apiURL @ '' already exists''))
     else check_duplicates clusterName apiURL targets)"

definition target_secret :: "string \<Rightarrow> string \<Rightarrow> string \<Rightarrow> string \<Rightarrow> Secret" where
  "target_secret ns secretUUID targetUUID secretData =
     \<lparr>sec_meta = meta_of secretUUID ns [(''krkn-target-uuid'', targetUUID)], sec_Type = '''',
      sec_Data = [(''kubeconfig'', secretData)]\<rparr>"

definition new_target :: "string \<Rightarrow> string \<Rightarrow> string \<Rightarrow> CreateTargetRequest \<Rightarrow> string \<Rightarrow> KrknOperatorTarget" where
  "new_target ns targetUUID secretUUID req apiURL =
     \<lparr>ot_meta = meta_of targetUUID ns [],
      ot_Spec = \<lparr>ots_UUID = targetUUID, ots_ClusterName = tq_ClusterName req, ots_ClusterAPIURL = apiURL,
        ots_SecretType = tq_SecretType req, ots_SecretUUID = secretUUID, ots_CABundle = tq_CABundle req,
        ots_InsecureSkipTLSVerify = (tq_CABundle req = '''')\<rparr>,
      ot_Ready = False, ot_LastUpdated = 0\<rparr>"

definition store_target ::
  "'w crud_client \<Rightarrow> string \<Rightarrow> string \<Rightarrow> CreateTargetRequest \<Rightarrow> string \<Rightarrow> string \<Rightarrow> ('w, target_body reply, target_body reply) eff" where
  "store_target C targetUUID secretUUID req kubeconfigBase64 apiURL =
    (let ns = cr_Namespace C;
         secret = target_secret ns secretUUID targetUUID (MarshalSecretData kubeconfigBase64)
     in bind_eff (call_opt (cr_CreateSecret C secret) (\<lambda>e. internal_error (''Failed to create secret: '' @ cr_ErrorText C e))) (\<lambda>_.
        bind_eff (step (cr_CreateTarget C (new_target ns targetUUID secretUUID req apiURL))) (\<lambda>res.
        case res of
          Inl e \<Rightarrow>
            bind_eff (step (cr_DeleteSecret C ns secretUUID)) (\<lambda>_.
            stop (internal_error (''Failed to create target: '' @ cr_ErrorText C e)))
        | Inr target \<Rightarrow>
            bind_eff (step (cr_Now C)) (\<lambda>now.
            bind_eff (step (cr_UpdateTargetStatus C (target\<lparr>ot_Ready := True, ot_LastUpdated := now\<rparr>))) (\<lambda>res.
            case res of
              Some e \<Rightarrow>
                bind_eff (step (cr_DeleteTarget C (target\<lparr>ot_Ready := True, ot_LastUpdated := now\<rparr>))) (\<lambda>_.
                bind_eff (step (cr_DeleteSecret C ns secretUUID)) (\<lambda>_.
                stop (internal_error (''Failed to update target status: '' @ cr_ErrorText C e))))
            | None \<Rightarrow> ret (Body 201 (CreateTargetResponse targetUUID ''Target created successfully'')))))))"

definition CreateTarget :: "'w crud_client \<Rightarrow> clientcmd \<Rightarrow> string + CreateTargetRequest \<Rightarrow> 'w \<Rightarrow> target_body reply \<times> 'w" where
  "CreateTarget C K body = run_handler
    (case body of
       Inl e \<Rightarrow> ret (bad_request (''Invalid request body: '' @ e))
     | Inr req \<Rightarrow>
       if tq_ClusterName req = '''' then ret (bad_request ''clusterName is required'')
       else if tq_SecretType req = '''' then ret (bad_request ''secretType is required (kubeconfig, token, or credentials)'')
       else case generateKubeconfigFromRequest K (cr_KubeText C) req of
         Inl err \<Rightarrow> ret (bad_request err)
       | Inr generated \<Rightarrow>
         bind_eff (call (cr_ListTargets C (cr_Namespace C))
           (\<lambda>e. internal_error (''Failed to check existing targets: '' @ cr_ErrorText C e))) (\<lambda>existingTargets.
         case check_duplicates (tq_ClusterName req) (snd generated) existingTargets of
           Some conflict \<Rightarrow> stop conflict
         | None \<Rightarrow>
           bind_eff (step (cr_NewUUID C)) (\<lambda>targetUUID.
           bind_eff (step (cr_NewUUID C)) (\<lambda>secretUUID.
           store_target C targetUUID secretUUID req (fst generated) (snd generated)))))"

definition ListTargets :: "'w crud_client \<Rightarrow> 'w \<Rightarrow> target_body reply \<times> 'w" where
  "ListTargets C = run_handler
    (bind_eff (call (cr_ListTargets C (cr_Namespace C)) (\<lambda>e. internal_error (''Failed to list targets: '' @ cr_ErrorText C e))) (\<lambda>targets.
     ret (Body 200 (ListTargetsResponse (map buildTargetResponse targets)))))"

text \<open>The target named in the path; every panic-free handler ends in a reply, so the replies are wrapped in \<open>Some\<close> where one may panic.\<close>

definition path_target :: "string \<Rightarrow> ('w, 'a reply, string) eff" where
  "path_target path =
    (case extractPathSuffix path (OperatorTargetsPath @ ''/'') of
       Inl e \<Rightarrow> stop (bad_request (''UUID '' @ e))
     | Inr targetUUID \<Rightarrow> ret targetUUID)"

definition get_target :: "'w crud_client \<Rightarrow> string \<Rightarrow> ('w, 'a reply, KrknOperatorTarget) eff" where
  "get_target C targetUUID =
     bind_eff (fetchTarget C targetUUID) (\<lambda>res. case res of Inl err \<Rightarrow> stop (writeTargetFetchError err) | Inr target \<Rightarrow> ret target)"

definition GetTarget :: "'w crud_client \<Rightarrow> string \<Rightarrow> 'w \<Rightarrow> target_body reply \<times> 'w" where
  "GetTarget C path = run_handler
    (bind_eff (path_target path) (\<lambda>targetUUID.
     bind_eff (get_target C targetUUID) (\<lambda>target.
     ret (Body 200 (TargetBody (buildTargetResponse target))))))"

definition updated_target :: "CreateTargetRequest \<Rightarrow> string \<Rightarrow> time \<Rightarrow> KrknOperatorTarget \<Rightarrow> KrknOperatorTarget" where
  "updated_target req apiURL now target =
     target\<lparr>ot_Spec := (ot_Spec target)\<lparr>
         ots_ClusterName := (if tq_ClusterName req \<noteq> '''' then tq_ClusterName req else ots_ClusterName (ot_Spec target)),
         ots_ClusterAPIURL := apiURL, ots_SecretType := tq_SecretType req, ots_CABundle := tq_CABundle req,
         ots_InsecureSkipTLSVerify := (tq_CABundle req = '''')\<rparr>,
       ot_LastUpdated := now\<rparr>"

text \<open>The assignment to the data of a secret without data panics, which ends the handler without a reply.\<close>

definition write_kubeconfig ::
  "'w crud_client \<Rightarrow> string \<Rightarrow> string \<Rightarrow> ('w, target_body reply option, unit) eff" where
  "write_kubeconfig C secretUUID kubeconfigBase64 =
     bind_eff (call (cr_GetSecret C (cr_Namespace C) secretUUID)
       (\<lambda>e. Some (internal_error (''Failed to get secret: '' @ cr_ErrorText C e)))) (\<lambda>secret.
     if sec_Data secret = [] then stop None
     else call_opt (cr_UpdateSecret C (secret\<lparr>sec_Data := AList.update ''kubeconfig'' (MarshalSecretData kubeconfigBase64) (sec_Data secret)\<rparr>))
       (\<lambda>e. Some (internal_error (''Failed to update secret: '' @ cr_ErrorText C e))))"

definition lifted :: "('w, 'r, 'a) eff \<Rightarrow> ('w, 'r option, 'a) eff" where
  "lifted m w = (case m w of (Inl r, w') \<Rightarrow> (Inl (Some r), w') | (Inr x, w') \<Rightarrow> (Inr x, w'))"

definition UpdateTarget :: "'w crud_client \<Rightarrow> clientcmd \<Rightarrow> string \<Rightarrow> string + CreateTargetRequest \<Rightarrow> 'w \<Rightarrow> target_body reply option \<times> 'w" where
  "UpdateTarget C K path body = run_handler
    (bind_eff (lifted (path_target path)) (\<lambda>targetUUID.
     case body of
       Inl e \<Rightarrow> stop (Some (bad_request (''Invalid request body: '' @ e)))
     | Inr req \<Rightarrow>
       bind_eff (lifted (get_target C targetUUID)) (\<lambda>target.
       case generateKubeconfigFromRequest K (cr_KubeText C) req of
         Inl err \<Rightarrow> stop (Some (bad_request err))
       | Inr generated \<Rightarrow>
         bind_eff (write_kubeconfig C (ots_SecretUUID (ot_Spec target)) (fst generated)) (\<lambda>_.
         bind_eff (step (cr_Now C)) (\<lambda>now.
         bind_eff (call_opt (cr_UpdateTarget C (updated_target req (snd generated) now target))
           (\<lambda>e. Some (internal_error (''Failed to update target: '' @ cr_ErrorText C e)))) (\<lambda>_.
         ret (Some (Body 200 (CreateTargetResponse targetUUID ''Target updated successfully'')))))))))"

definition DeleteTarget :: "'w crud_client \<Rightarrow> string \<Rightarrow> 'w \<Rightarrow> target_body reply \<times> 'w" where
  "DeleteTarget C path = run_handler
    (bind_eff (path_target path) (\<lambda>targetUUID.
     bind_eff (get_target C targetUUID) (\<lambda>target.
     bind_eff (step (cr_DeleteSecret C (cr_Namespace C) (ots_SecretUUID (ot_Spec target)))) (\<lambda>_.
     bind_eff (call_opt (cr_DeleteTarget C target) (\<lambda>e. internal_error (''Failed to delete target: '' @ cr_ErrorText C e))) (\<lambda>_.
     ret (Body 200 (CreateTargetResponse targetUUID ''Target deleted successfully'')))))))"

definition TargetsCRUDRouter ::
  "'w crud_client \<Rightarrow> clientcmd \<Rightarrow> token_claims option \<Rightarrow> string \<Rightarrow> string \<Rightarrow> string + CreateTargetRequest \<Rightarrow> 'w \<Rightarrow> target_body reply option \<times> 'w" where
  "TargetsCRUDRouter C K claims rmethod path body w =
    (case requireAdminForMethods claims rmethod [''POST'', ''PUT'', ''DELETE''] of
       Some (status, err, msg) \<Rightarrow> (Some (Failure status err msg), w)
     | None \<Rightarrow>
       if path = OperatorTargetsPath \<and> rmethod = ''POST'' then replied (CreateTarget C K body w)
       else if path = OperatorTargetsPath \<and> rmethod = ''GET'' then replied (ListTargets C w)
       else if has_prefix path (OperatorTargetsPath @ ''/'') \<and> rmethod = ''GET'' then replied (GetTarget C path w)
       else if has_prefix path (OperatorTargetsPath @ ''/'') \<and> rmethod = ''PUT'' then UpdateTarget C K path body w
       else if has_prefix path (OperatorTargetsPath @ ''/'') \<and> rmethod = ''DELETE'' then replied (DeleteTarget C path w)
       else (Some (Failure 405 ''method_not_allowed'' (''Method '' @ rmethod @ '' not allowed for path '' @ path)), w))"

section \<open>Creation leaves nothing behind\<close>

datatype crud_event =
    TargetRead string string "api_error + KrknOperatorTarget"
  | TargetsListed string "api_error + KrknOperatorTarget list"
  | TargetCreate KrknOperatorTarget "api_error + KrknOperatorTarget"
  | TargetUpdate KrknOperatorTarget "api_error option"
  | TargetStatus KrknOperatorTarget "api_error option"
  | TargetDelete KrknOperatorTarget "api_error option"
  | KubeSecretRead string string "api_error + Secret"
  | KubeSecretCreate Secret "api_error option"
  | KubeSecretUpdate Secret "api_error option"
  | KubeSecretDelete string string "api_error option"
  | UUIDDrawn string
  | TimeRead time

definition logged_targets :: "'w crud_client \<Rightarrow> ('w \<times> crud_event list) crud_client" where
  "logged_targets C = \<lparr>cr_Namespace = cr_Namespace C,
     cr_GetTarget = (\<lambda>ns n. noting (cr_GetTarget C ns n) (TargetRead ns n)),
     cr_ListTargets = (\<lambda>ns. noting (cr_ListTargets C ns) (TargetsListed ns)),
     cr_CreateTarget = (\<lambda>t. noting (cr_CreateTarget C t) (TargetCreate t)),
     cr_UpdateTarget = (\<lambda>t. noting (cr_UpdateTarget C t) (TargetUpdate t)),
     cr_UpdateTargetStatus = (\<lambda>t. noting (cr_UpdateTargetStatus C t) (TargetStatus t)),
     cr_DeleteTarget = (\<lambda>t. noting (cr_DeleteTarget C t) (TargetDelete t)),
     cr_GetSecret = (\<lambda>ns n. noting (cr_GetSecret C ns n) (KubeSecretRead ns n)),
     cr_CreateSecret = (\<lambda>s. noting (cr_CreateSecret C s) (KubeSecretCreate s)),
     cr_UpdateSecret = (\<lambda>s. noting (cr_UpdateSecret C s) (KubeSecretUpdate s)),
     cr_DeleteSecret = (\<lambda>ns n. noting (cr_DeleteSecret C ns n) (KubeSecretDelete ns n)),
     cr_NewUUID = noting (cr_NewUUID C) UUIDDrawn, cr_Now = noting (cr_Now C) TimeRead,
     cr_ErrorText = cr_ErrorText C, cr_KubeText = cr_KubeText C\<rparr>"

lemma logged_targets_simps [simp]:
  "cr_Namespace (logged_targets C) = cr_Namespace C"
  "cr_GetTarget (logged_targets C) ns n = noting (cr_GetTarget C ns n) (TargetRead ns n)"
  "cr_ListTargets (logged_targets C) ns = noting (cr_ListTargets C ns) (TargetsListed ns)"
  "cr_CreateTarget (logged_targets C) t = noting (cr_CreateTarget C t) (TargetCreate t)"
  "cr_UpdateTarget (logged_targets C) t = noting (cr_UpdateTarget C t) (TargetUpdate t)"
  "cr_UpdateTargetStatus (logged_targets C) t = noting (cr_UpdateTargetStatus C t) (TargetStatus t)"
  "cr_DeleteTarget (logged_targets C) t = noting (cr_DeleteTarget C t) (TargetDelete t)"
  "cr_GetSecret (logged_targets C) ns n = noting (cr_GetSecret C ns n) (KubeSecretRead ns n)"
  "cr_CreateSecret (logged_targets C) s = noting (cr_CreateSecret C s) (KubeSecretCreate s)"
  "cr_UpdateSecret (logged_targets C) s = noting (cr_UpdateSecret C s) (KubeSecretUpdate s)"
  "cr_DeleteSecret (logged_targets C) ns n = noting (cr_DeleteSecret C ns n) (KubeSecretDelete ns n)"
  "cr_NewUUID (logged_targets C) = noting (cr_NewUUID C) UUIDDrawn"
  "cr_Now (logged_targets C) = noting (cr_Now C) TimeRead"
  "cr_ErrorText (logged_targets C) = cr_ErrorText C" "cr_KubeText (logged_targets C) = cr_KubeText C"
  by (simp_all add: logged_targets_def)

lemma check_duplicates_None:
  "check_duplicates n url ts = None \<longleftrightarrow>
    list_all (\<lambda>t. ots_ClusterName (ot_Spec t) \<noteq> n \<and> (ots_ClusterAPIURL (ot_Spec t) = url \<longrightarrow> url = '''')) ts"
  by (induction ts) auto

lemma check_duplicates_Some: "check_duplicates n url ts = Some r \<Longrightarrow> reply_code r = 409"
  by (induction ts) (auto split: if_splits)

definition creation_ok :: "string \<Rightarrow> target_body reply \<Rightarrow> crud_event list \<Rightarrow> bool" where
  "creation_ok ns r log \<longleftrightarrow>
    (\<forall>t x. TargetCreate t x \<in> set log \<longrightarrow>
       (\<exists>ts. TargetsListed ns (Inr ts) \<in> set log \<and> list_all (\<lambda>t'. ots_ClusterName (ot_Spec t') \<noteq> ots_ClusterName (ot_Spec t) \<and>
          (ots_ClusterAPIURL (ot_Spec t') = ots_ClusterAPIURL (ot_Spec t) \<longrightarrow> ots_ClusterAPIURL (ot_Spec t) = '''')) ts) \<and>
       (\<exists>s. KubeSecretCreate s None \<in> set log \<and> Name (sec_meta s) = ots_SecretUUID (ot_Spec t))) \<and>
    (if reply_code r = 201
     then (\<exists>t x. TargetCreate t (Inr x) \<in> set log \<and> (\<exists>now. last log = TargetStatus (x\<lparr>ot_Ready := True, ot_LastUpdated := now\<rparr>) None))
     else (\<forall>s. KubeSecretCreate s None \<in> set log \<longrightarrow> (\<exists>x. last log = KubeSecretDelete ns (Name (sec_meta s)) x)) \<and>
       (\<forall>t t'. TargetCreate t (Inr t') \<in> set log \<longrightarrow> (\<exists>u x. TargetDelete u x \<in> set log \<and> ot_meta u = ot_meta t')))"

text \<open>
  C22. Whatever the API server answers, \<open>CreateTarget\<close> creates a target only for a cluster whose name and address none of the
  listed targets has, and after its secret; it reports success only when the target was created and marked ready; and
  otherwise it ends by deleting the secret it created, and deletes the target if that was created.
\<close>

theorem CreateTarget_leaves_nothing:
  "case CreateTarget (logged_targets C) K body (w, []) of (r, (w', log)) \<Rightarrow> creation_ok (cr_Namespace C) r log"
  unfolding CreateTarget_def
  by (rule run_handler_ensures, unfold logged_targets_simps store_target_def, intro ensures_rules)
    (auto simp: creation_ok_def bad_request_def internal_error_def new_target_def target_secret_def meta_of_def check_duplicates_None dest: check_duplicates_Some)

section \<open>What is created can be used\<close>

text \<open>
  Targets and secrets as the API server keeps them: names are unique within a namespace, and the status of a target is written
  separately. The n-th UUID is the n-th value of the argument.
\<close>

record target_store =
  ts_Targets :: "KrknOperatorTarget list"
  ts_Secrets :: "Secret list"
  ts_Drawn :: nat

abbreviation target_at :: "string \<Rightarrow> string \<Rightarrow> KrknOperatorTarget \<Rightarrow> bool" where
  "target_at ns n t \<equiv> Namespace (ot_meta t) = ns \<and> Name (ot_meta t) = n"

abbreviation same_target :: "KrknOperatorTarget \<Rightarrow> KrknOperatorTarget \<Rightarrow> bool" where
  "same_target t \<equiv> target_at (Namespace (ot_meta t)) (Name (ot_meta t))"

abbreviation or_missing :: "'a option \<Rightarrow> api_error + 'a" where
  "or_missing x \<equiv> (case x of None \<Rightarrow> Inl NotFound | Some a \<Rightarrow> Inr a)"

definition change_target :: "(KrknOperatorTarget \<Rightarrow> KrknOperatorTarget) \<Rightarrow> KrknOperatorTarget \<Rightarrow> target_store \<Rightarrow> api_error option \<times> target_store" where
  "change_target f t S =
    (if list_ex (same_target t) (ts_Targets S)
     then (None, S\<lparr>ts_Targets := map (\<lambda>x. if same_target t x then f x else x) (ts_Targets S)\<rparr>) else (Some NotFound, S))"

definition target_store_client :: "string \<Rightarrow> (nat \<Rightarrow> string) \<Rightarrow> time \<Rightarrow> target_store crud_client" where
  "target_store_client ns uuid now = \<lparr>cr_Namespace = ns,
     cr_GetTarget = (\<lambda>n m S. (or_missing (List.find (target_at n m) (ts_Targets S)), S)),
     cr_ListTargets = (\<lambda>n S. (Inr (filter (\<lambda>t. Namespace (ot_meta t) = n) (ts_Targets S)), S)),
     cr_CreateTarget = (\<lambda>t S. if list_ex (same_target t) (ts_Targets S) then (Inl AlreadyExists, S)
       else let v = t\<lparr>ot_Ready := False, ot_LastUpdated := 0\<rparr> in (Inr v, S\<lparr>ts_Targets := ts_Targets S @ [v]\<rparr>)),
     cr_UpdateTarget = (\<lambda>t. change_target (\<lambda>x. t\<lparr>ot_Ready := ot_Ready x, ot_LastUpdated := ot_LastUpdated x\<rparr>) t),
     cr_UpdateTargetStatus = (\<lambda>t. change_target (\<lambda>x. x\<lparr>ot_Ready := ot_Ready t, ot_LastUpdated := ot_LastUpdated t\<rparr>) t),
     cr_DeleteTarget = (\<lambda>t S. if list_ex (same_target t) (ts_Targets S)
       then (None, S\<lparr>ts_Targets := filter (\<lambda>x. \<not> same_target t x) (ts_Targets S)\<rparr>) else (Some NotFound, S)),
     cr_GetSecret = (\<lambda>n m S. (or_missing (List.find (secret_at n m) (ts_Secrets S)), S)),
     cr_CreateSecret = (\<lambda>s S. if list_ex (same_secret s) (ts_Secrets S) then (Some AlreadyExists, S)
       else (None, S\<lparr>ts_Secrets := ts_Secrets S @ [s]\<rparr>)),
     cr_UpdateSecret = (\<lambda>s S. if list_ex (same_secret s) (ts_Secrets S)
       then (None, S\<lparr>ts_Secrets := map (\<lambda>x. if same_secret s x then s else x) (ts_Secrets S)\<rparr>) else (Some NotFound, S)),
     cr_DeleteSecret = (\<lambda>n m S. if list_ex (secret_at n m) (ts_Secrets S)
       then (None, S\<lparr>ts_Secrets := filter (\<lambda>x. \<not> secret_at n m x) (ts_Secrets S)\<rparr>) else (Some NotFound, S)),
     cr_NewUUID = (\<lambda>S. (uuid (ts_Drawn S), S\<lparr>ts_Drawn := Suc (ts_Drawn S)\<rparr>)), cr_Now = (\<lambda>S. (now, S)),
     cr_ErrorText = (\<lambda>e. ''error''), cr_KubeText = (\<lambda>e. ''invalid'')\<rparr>"

text \<open>What is assumed of \<open>clientcmd\<close>: it reads the configuration it wrote, and the text of one is not empty.\<close>

definition clientcmd_law :: "clientcmd \<Rightarrow> bool" where
  "clientcmd_law K \<longleftrightarrow> (\<forall>config bytes. cc_Write K config = Inr bytes \<longrightarrow> bytes \<noteq> '''' \<and> cc_Load K bytes = Inr config)"

lemma b64_encode_eq_Nil [simp]: "b64_encode s = '''' \<longleftrightarrow> s = ''''"
  by (cases s rule: b64_encode.cases) simp_all

lemma write_config_good:
  assumes "write_config K (config_for name url ca insecure auth) = Inr k" "clientcmd_law K" "url \<noteq> ''''"
  shows "k \<noteq> '''' \<and> valid_utf8 k \<and> Validate K k = None \<and> ExtractAPIURL K k = Inr url"
proof -
  obtain bytes where b: "cc_Write K (config_for name url ca insecure auth) = Inr bytes" "k = b64_encode bytes"
    using assms(1) by (auto simp: write_config_def split: sum.splits)
  then have "load_config K k = Inr (config_for name url ca insecure auth)" "bytes \<noteq> ''''"
    using assms(2) by (auto simp: load_config_def clientcmd_law_def)
  then show ?thesis
    using b(2) assms(3) by (simp add: Validate_def ExtractAPIURL_def config_for_def)
qed

text \<open>Whatever the kind of the request, the kubeconfig made from it is valid and leads to the address returned.\<close>

lemma generateKubeconfigFromRequest_good:
  assumes "generateKubeconfigFromRequest K text req = Inr (k, url)" "clientcmd_law K" "valid_utf8 (tq_Kubeconfig req)"
  shows "k \<noteq> '''' \<and> valid_utf8 k \<and> Validate K k = None \<and> ExtractAPIURL K k = Inr url"
  using assms write_config_good[of K "tq_ClusterName req" "tq_ClusterAPIURL req" "tq_CABundle req" "tq_CABundle req = ''''" _ k]
  by (auto simp: generateKubeconfigFromRequest_def generateKubeconfigFromKubeconfigType_def generateKubeconfigFromTokenType_def
      generateKubeconfigFromCredentialsType_def GenerateFromToken_def GenerateFromCredentials_def split: if_splits sum.splits option.splits)

lemma target_store_simps [simp]:
  "cr_Namespace (target_store_client ns uuid now) = ns"
  "cr_GetTarget (target_store_client ns uuid now) n m = (\<lambda>S. (or_missing (List.find (target_at n m) (ts_Targets S)), S))"
  "cr_ListTargets (target_store_client ns uuid now) n = (\<lambda>S. (Inr (filter (\<lambda>t. Namespace (ot_meta t) = n) (ts_Targets S)), S))"
  "cr_CreateTarget (target_store_client ns uuid now) t = (\<lambda>S. if list_ex (same_target t) (ts_Targets S) then (Inl AlreadyExists, S)
     else let v = t\<lparr>ot_Ready := False, ot_LastUpdated := 0\<rparr> in (Inr v, S\<lparr>ts_Targets := ts_Targets S @ [v]\<rparr>))"
  "cr_UpdateTargetStatus (target_store_client ns uuid now) t =
     change_target (\<lambda>x. x\<lparr>ot_Ready := ot_Ready t, ot_LastUpdated := ot_LastUpdated t\<rparr>) t"
  "cr_CreateSecret (target_store_client ns uuid now) s = (\<lambda>S. if list_ex (same_secret s) (ts_Secrets S) then (Some AlreadyExists, S)
     else (None, S\<lparr>ts_Secrets := ts_Secrets S @ [s]\<rparr>))"
  "cr_NewUUID (target_store_client ns uuid now) = (\<lambda>S. (uuid (ts_Drawn S), S\<lparr>ts_Drawn := Suc (ts_Drawn S)\<rparr>))"
  "cr_Now (target_store_client ns uuid now) = (\<lambda>S. (now, S))"
  by (simp_all add: target_store_client_def)

abbreviation ready_target :: "string \<Rightarrow> string \<Rightarrow> string \<Rightarrow> CreateTargetRequest \<Rightarrow> string \<Rightarrow> time \<Rightarrow> KrknOperatorTarget" where
  "ready_target ns tid sid req url now \<equiv> (new_target ns tid sid req url)\<lparr>ot_Ready := True, ot_LastUpdated := now\<rparr>"


lemma store_target_succeeds:
  assumes "store_target (target_store_client ns uuid now) tid sid req k url S = (Inr r, S')"
  shows "\<not> list_ex (target_at ns tid) (ts_Targets S) \<and> \<not> list_ex (secret_at ns sid) (ts_Secrets S) \<and>
    ts_Targets S' = ts_Targets S @ [ready_target ns tid sid req url now] \<and>
    ts_Secrets S' = ts_Secrets S @ [target_secret ns sid tid (MarshalSecretData k)] \<and>
    r = Body 201 (CreateTargetResponse tid ''Target created successfully'')"
proof -
  have m: "Namespace (ot_meta (new_target ns tid sid req url)) = ns" "Name (ot_meta (new_target ns tid sid req url)) = tid"
    "Namespace (sec_meta (target_secret ns sid tid d)) = ns" "Name (sec_meta (target_secret ns sid tid d)) = sid" for d
    by (simp_all add: new_target_def target_secret_def meta_of_def)
  show ?thesis
    using assms
    by (auto simp: store_target_def bind_eff_def call_opt_def step_def ret_def stop_def change_target_def m Let_def map_fresh
        split: if_splits prod.splits)
qed

lemma store_target_code: "store_target C tid sid req k url w = (Inl r, w') \<Longrightarrow> reply_code r = 500"
  by (auto simp: store_target_def bind_eff_def call_opt_def step_def ret_def stop_def Let_def internal_error_def
      split: prod.splits sum.splits option.splits)

lemma CreateTarget_store:
  assumes "CreateTarget (target_store_client ns uuid now) K (Inr req) S = (r, S')" "reply_code r = 201"
  obtains k url where "generateKubeconfigFromRequest K (\<lambda>e. ''invalid'') req = Inr (k, url)"
    "store_target (target_store_client ns uuid now) (uuid (ts_Drawn S)) (uuid (Suc (ts_Drawn S))) req k url
       (S\<lparr>ts_Drawn := Suc (Suc (ts_Drawn S))\<rparr>) = (Inr r, S')"
    "check_duplicates (tq_ClusterName req) url (filter (\<lambda>t. Namespace (ot_meta t) = ns) (ts_Targets S)) = (None :: target_body reply option)"
proof -
  have t: "cr_KubeText (target_store_client ns uuid now) = (\<lambda>e. ''invalid'')" by (simp add: target_store_client_def)
  show thesis
    using assms that
    by (auto simp: CreateTarget_def run_handler_def ret_def stop_def bad_request_def t bind_eff_def call_def step_def
        dest: check_duplicates_Some store_target_code split: if_splits sum.splits option.splits prod.splits)
qed

text \<open>
  C36. A target that \<open>CreateTarget\<close> reports as created is ready and can be used: on a store with the behaviour of the API server, every reader
  of its kubeconfig, the terminal as well as the target request controller, finds one that passes \<open>Validate\<close> and leads to the
  address the target is listed with, for each of the three kinds of credentials.
\<close>

theorem created_target_is_usable:
  assumes "CreateTarget (target_store_client ns uuid now) K (Inr req) S = (Body 201 (CreateTargetResponse targetUUID msg), S')"
    and "clientcmd_law K" and "valid_utf8 (tq_Kubeconfig req)"
  shows "\<exists>t k. List.find (target_at ns targetUUID) (ts_Targets S') = Some t \<and> ot_Ready t \<and>
    ots_ClusterName (ot_Spec t) = tq_ClusterName req \<and> Validate K k = None \<and> ExtractAPIURL K k = Inr (ots_ClusterAPIURL (ot_Spec t)) \<and>
    getKubeconfigFromOperatorTarget (T\<lparr>tm_Namespace := ns,
        tm_GetOperatorTarget := (\<lambda>n m. fst (cr_GetTarget (target_store_client ns uuid now) n m S')),
        tm_GetSecret := (\<lambda>n m. or_missing (List.find (secret_at n m) (ts_Secrets S')))\<rparr>) targetUUID = Inr k \<and>
    fst (target_kubeconfig (R\<lparr>tg_OperatorNamespace := ns,
        tg_GetSecret := (\<lambda>n m S. (or_missing (List.find (secret_at n m) (ts_Secrets S)), S))\<rparr>) t S') = Some k"
proof -
  obtain k url where g: "generateKubeconfigFromRequest K (\<lambda>e. ''invalid'') req = Inr (k, url)"
    and s: "store_target (target_store_client ns uuid now) (uuid (ts_Drawn S)) (uuid (Suc (ts_Drawn S))) req k url
       (S\<lparr>ts_Drawn := Suc (Suc (ts_Drawn S))\<rparr>) = (Inr (Body 201 (CreateTargetResponse targetUUID msg)), S')"
    using CreateTarget_store[OF assms(1)] by (metis reply.sel(2))
  let ?t = "ready_target ns targetUUID (uuid (Suc (ts_Drawn S))) req url now"
  have good: "k \<noteq> ''''" "valid_utf8 k" "Validate K k = None" "ExtractAPIURL K k = Inr url"
    using generateKubeconfigFromRequest_good[OF g assms(2,3)] by auto
  have t: "List.find (target_at ns targetUUID) (ts_Targets S') = Some ?t"
    and sec: "List.find (secret_at ns (uuid (Suc (ts_Drawn S)))) (ts_Secrets S') =
      Some (target_secret ns (uuid (Suc (ts_Drawn S))) targetUUID (MarshalSecretData k))"
    using store_target_succeeds[OF s] by (auto simp: find_fresh new_target_def target_secret_def meta_of_def)
  have d: "map_of (sec_Data (target_secret ns sid tid x)) ''kubeconfig'' = Some x" for sid tid x
    by (simp add: target_secret_def)
  have f: "ots_SecretUUID (ot_Spec (new_target ns tid sid req url)) = sid" "ots_ClusterAPIURL (ot_Spec (new_target ns tid sid req url)) = url"
    "ots_ClusterName (ot_Spec (new_target ns tid sid req url)) = tq_ClusterName req" for tid sid
    by (simp_all add: new_target_def)
  show ?thesis
    using good UnmarshalSecretData_Marshal[OF good(2,1)]
    by (intro exI[of _ ?t] exI[of _ k])
      (simp add: getKubeconfigFromOperatorTarget_def target_kubeconfig_def t sec d f)
qed

section \<open>Samples\<close>

definition token_request :: "string \<Rightarrow> string \<Rightarrow> CreateTargetRequest" where
  "token_request name url = \<lparr>tq_ClusterName = name, tq_ClusterAPIURL = url, tq_SecretType = ''token'', tq_CABundle = '''',
     tq_Kubeconfig = '''', tq_Token = ''t'', tq_Username = '''', tq_Password = ''''\<rparr>"

definition no_targets :: target_store where
  "no_targets = \<lparr>ts_Targets = [], ts_Secrets = [], ts_Drawn = 0\<rparr>"

definition sample_uuid :: "nat \<Rightarrow> string" where
  "sample_uuid n = replicate (Suc n) CHR ''u''"

abbreviation sample_crud :: "target_store crud_client" where
  "sample_crud \<equiv> target_store_client ''krkn'' sample_uuid 7"

lemma sample_clientcmd_law: "clientcmd_law sample_clientcmd"
  by (simp add: clientcmd_law_def sample_clientcmd_def)

theorem created_target_is_usable_witness:
  "\<exists>S' t k. CreateTarget sample_crud sample_clientcmd (Inr (token_request ''c1'' ''https://c1:6443'')) no_targets =
     (Body 201 (CreateTargetResponse ''u'' ''Target created successfully''), S') \<and>
   List.find (target_at ''krkn'' ''u'') (ts_Targets S') = Some t \<and> Validate sample_clientcmd k = None \<and>
   ExtractAPIURL sample_clientcmd k = Inr (ots_ClusterAPIURL (ot_Spec t))"
proof -
  obtain r S' where E: "CreateTarget sample_crud sample_clientcmd (Inr (token_request ''c1'' ''https://c1:6443'')) no_targets = (r, S')"
    by (metis surj_pair)
  have "fst (CreateTarget sample_crud sample_clientcmd (Inr (token_request ''c1'' ''https://c1:6443'')) no_targets) =
     Body 201 (CreateTargetResponse ''u'' ''Target created successfully'')" by code_simp
  then have r: "r = Body 201 (CreateTargetResponse ''u'' ''Target created successfully'')" by (simp add: E)
  have "valid_utf8 (tq_Kubeconfig (token_request ''c1'' ''https://c1:6443''))" by code_simp
  from created_target_is_usable[OF E[unfolded r] sample_clientcmd_law this] show ?thesis using E r by blast
qed

text \<open>
  \<open>UpdateTarget\<close> does not look at the other targets: after it, two targets may have the same cluster name, which \<open>CreateTarget\<close>
  refuses.
\<close>

definition any_clientcmd :: clientcmd where
  "any_clientcmd = \<lparr>cc_Write = (\<lambda>c. Inr ''apiVersion: v1''), cc_Load = (\<lambda>s. Inl ''unused'')\<rparr>"

theorem UpdateTarget_duplicates_cluster:
  "let S1 = snd (CreateTarget sample_crud any_clientcmd (Inr (token_request ''c1'' ''https://c1:6443'')) no_targets);
       S2 = snd (CreateTarget sample_crud any_clientcmd (Inr (token_request ''c2'' ''https://c2:6443'')) S1);
       (r, S3) = UpdateTarget sample_crud any_clientcmd (OperatorTargetsPath @ ''/uuu'') (Inr (token_request ''c1'' ''https://c1:6443'')) S2
   in r = Some (Body 200 (CreateTargetResponse ''uuu'' ''Target updated successfully'')) \<and>
      map (\<lambda>t. ots_ClusterName (ot_Spec t)) (ts_Targets S3) = [''c1'', ''c1'']"
  by code_simp

end
