(* ===== verification/Provider_API.thy ===== *)
theory Provider_API
  imports Config_Store Provider Targets_API
begin

text \<open>
  The endpoints of providers and of their configuration: \<open>src/internal/api/providers_handlers.go\<close>,
  \<open>provider_config_handlers.go\<close> and \<open>schema_validator.go\<close>. Bodies are given decoded.
\<close>

section \<open>Values and schemas\<close>

text \<open>
  The fields of a schema are \<open>typing.InputField\<close> of krknctl: reading one from JSON, its variable, and the validation of a value,
  which gives the text of an error.
\<close>

record 'f field_lib =
  fl_Unmarshal :: "json \<Rightarrow> string + 'f"
  fl_Variable :: "'f \<Rightarrow> string option"
  fl_Validate :: "'f \<Rightarrow> string \<Rightarrow> string option"
  fl_JSONText :: "string \<Rightarrow> string"

datatype schema_error =
    InvalidSchema string
  | FieldUnreadable nat string
  | FieldNotInSchema string
  | ValueInvalid string string

fun schema_error_text :: "schema_error \<Rightarrow> string" where
  "schema_error_text (InvalidSchema e) = ''invalid schema JSON: '' @ e"
| "schema_error_text (FieldUnreadable i e) = ''failed to unmarshal field '' @ nat_digits i @ '': '' @ e"
| "schema_error_text (FieldNotInSchema key) = ''field '' @ key @ '' not found in schema''"
| "schema_error_text (ValueInvalid key e) = ''failed to validate '' @ key @ '': '' @ e"

text \<open>A document that is an array, or \<open>null\<close>, decodes into a slice of raw values.\<close>

definition raw_fields :: "string \<Rightarrow> json list option" where
  "raw_fields schemaJSON =
    (case parse_json schemaJSON of
       Some (JArr xs) \<Rightarrow> Some xs
     | Some JNull \<Rightarrow> Some []
     | _ \<Rightarrow> None)"

fun read_fields :: "'f field_lib \<Rightarrow> nat \<Rightarrow> json list \<Rightarrow> schema_error + 'f list" where
  "read_fields L i [] = Inr []"
| "read_fields L i (raw # raws) =
    (case fl_Unmarshal L raw of
       Inl e \<Rightarrow> Inl (FieldUnreadable i e)
     | Inr f \<Rightarrow> (case read_fields L (Suc i) raws of Inl e \<Rightarrow> Inl e | Inr fs \<Rightarrow> Inr (f # fs)))"

definition ValidateValueAgainstSchema :: "'f field_lib \<Rightarrow> string \<Rightarrow> string \<Rightarrow> string \<Rightarrow> schema_error option" where
  "ValidateValueAgainstSchema L key v schemaJSON =
    (case raw_fields schemaJSON of
       None \<Rightarrow> Some (InvalidSchema (fl_JSONText L schemaJSON))
     | Some raws \<Rightarrow>
       (case read_fields L 0 raws of
          Inl e \<Rightarrow> Some e
        | Inr defs \<Rightarrow>
          (case List.find (\<lambda>f. fl_Variable L f = Some key) defs of
             None \<Rightarrow> Some (FieldNotInSchema key)
           | Some f \<Rightarrow> (case fl_Validate L f v of Some e \<Rightarrow> Some (ValueInvalid key e) | None \<Rightarrow> None))))"

section \<open>Requests, responses and the client\<close>

record ProviderResponse =
  pr_Name :: string
  pr_Active :: bool
  pr_LastHeartbeat :: "time option"

record ProviderConfigUpdateRequest =
  pu_ProviderName :: string
  pu_Values :: "(string, string) gomap"

datatype provider_body =
    ListProvidersResponse "ProviderResponse list"
  | UpdateProviderStatusResponse string string bool
  | ConfigRequested string
  | ConfigPending
  | ConfigCompleted string string "(string, ProviderConfigData) gomap"
  | ProviderConfigUpdateResponse string "string list"

record 'w provider_client =
  pa_Namespace :: string
  pa_ListProviders :: "'w \<Rightarrow> (api_error + KrknOperatorTargetProvider list) \<times> 'w"
  pa_UpdateProvider :: "KrknOperatorTargetProvider \<Rightarrow> 'w \<Rightarrow> api_error option \<times> 'w"
  pa_GetConfig :: "string \<Rightarrow> string \<Rightarrow> 'w \<Rightarrow> (api_error + KrknOperatorTargetProviderConfig) \<times> 'w"
  pa_ListConfigs :: "string \<Rightarrow> (string, string) gomap \<Rightarrow> 'w \<Rightarrow> (api_error + KrknOperatorTargetProviderConfig list) \<times> 'w"
  pa_CreateConfig :: "KrknOperatorTargetProviderConfig \<Rightarrow> 'w \<Rightarrow> api_error option \<times> 'w"
  pa_DeleteConfig :: "KrknOperatorTargetProviderConfig \<Rightarrow> 'w \<Rightarrow> api_error option \<times> 'w"
  pa_GetConfigMap :: "string \<Rightarrow> string \<Rightarrow> 'w \<Rightarrow> (api_error + ConfigMap) \<times> 'w"
  pa_CreateConfigMap :: "ConfigMap \<Rightarrow> 'w \<Rightarrow> api_error option \<times> 'w"
  pa_UpdateConfigMap :: "ConfigMap \<Rightarrow> 'w \<Rightarrow> api_error option \<times> 'w"
  pa_NewUUID :: "'w \<Rightarrow> string \<times> 'w"
  pa_ErrorText :: "api_error \<Rightarrow> string"
  pa_ConfigText :: "config_error \<Rightarrow> string"

definition ProvidersPath :: string where
  "ProvidersPath = ''/api/v1/providers''"

definition ProviderConfigPath :: string where
  "ProviderConfigPath = ''/api/v1/provider-config''"

section \<open>Providers\<close>

definition provider_response :: "KrknOperatorTargetProvider \<Rightarrow> ProviderResponse" where
  "provider_response p = \<lparr>pr_Name = op_OperatorName p, pr_Active = op_Active p, pr_LastHeartbeat = nonzero (op_Timestamp p)\<rparr>"

definition ListProviders :: "'w provider_client \<Rightarrow> 'w \<Rightarrow> provider_body reply \<times> 'w" where
  "ListProviders C = run_handler
    (bind_eff (call (pa_ListProviders C) (\<lambda>e. internal_error ''Failed to list providers'')) (\<lambda>providers.
     ret (Body 200 (ListProvidersResponse (map provider_response providers)))))"

definition UpdateProviderStatus :: "'w provider_client \<Rightarrow> string \<Rightarrow> string + bool \<Rightarrow> 'w \<Rightarrow> provider_body reply \<times> 'w" where
  "UpdateProviderStatus C path body = run_handler
    (let providerName = trim_prefix path (ProvidersPath @ ''/'')
     in if providerName = '''' \<or> providerName = ProvidersPath @ ''/'' then ret (bad_request ''Provider name is required'')
        else case body of
          Inl e \<Rightarrow> ret (bad_request ''Invalid request body'')
        | Inr active \<Rightarrow>
          bind_eff (call (pa_ListProviders C) (\<lambda>e. internal_error ''Failed to query providers'')) (\<lambda>providers.
          case List.find (\<lambda>p. op_OperatorName p = providerName) providers of
            None \<Rightarrow> stop (Failure 404 ''not_found'' ''Provider not found'')
          | Some targetProvider \<Rightarrow>
            bind_eff (call_opt (pa_UpdateProvider C (targetProvider\<lparr>op_Active := active\<rparr>))
              (\<lambda>e. internal_error ''Failed to update provider status'')) (\<lambda>_.
            ret (Body 200 (UpdateProviderStatusResponse ''Provider status updated successfully'' providerName active)))))"

definition denied_or :: "denial \<Rightarrow> 'a reply \<times> 'w \<Rightarrow> 'w \<Rightarrow> 'a reply \<times> 'w" where
  "denied_or d result w = (case d of Some (status, err, msg) \<Rightarrow> (Failure status err msg, w) | None \<Rightarrow> result)"

definition ProvidersRouter ::
  "'w provider_client \<Rightarrow> token_claims option \<Rightarrow> string \<Rightarrow> string \<Rightarrow> string + bool \<Rightarrow> 'w \<Rightarrow> provider_body reply \<times> 'w" where
  "ProvidersRouter C claims rmethod path body w =
    (if path = ProvidersPath then
       (if rmethod \<noteq> ''GET'' then (Failure 405 ''method_not_allowed'' ''Only GET is allowed'', w) else ListProviders C w)
     else if has_prefix path (ProvidersPath @ ''/'') then
       (if rmethod \<noteq> ''PATCH'' then (Failure 405 ''method_not_allowed'' ''Only PATCH is allowed'', w)
        else denied_or (requireAdminForMethods claims rmethod [''PATCH'']) (UpdateProviderStatus C path body w) w)
     else (Failure 404 ''not_found'' ''Endpoint not found'', w))"

section \<open>Configuration requests\<close>

definition PostProviderConfig :: "'w provider_client \<Rightarrow> 'w \<Rightarrow> provider_body reply \<times> 'w" where
  "PostProviderConfig C = run_handler
    (bind_eff (call (CreateProviderConfigRequest (pa_NewUUID C) (pa_CreateConfig C) (pa_Namespace C) '''')
       (\<lambda>e. internal_error (''Failed to create KrknOperatorTargetProviderConfig: '' @ pa_ConfigText C e))) (\<lambda>uuid.
     ret (Body 102 (ConfigRequested uuid))))"

definition GetProviderConfigByUUID :: "'w provider_client \<Rightarrow> string \<Rightarrow> 'w \<Rightarrow> provider_body reply \<times> 'w" where
  "GetProviderConfigByUUID C path = run_handler
    (case extractPathSuffix path (ProviderConfigPath @ ''/'') of
       Inl e \<Rightarrow> ret (bad_request (''UUID '' @ e))
     | Inr uuid \<Rightarrow>
       bind_eff (call (pa_GetConfig C (pa_Namespace C) uuid) (\<lambda>e.
         if e = NotFound then Failure 404 ''not_found'' ''KrknOperatorTargetProviderConfig not found''
         else internal_error (''Failed to fetch KrknOperatorTargetProviderConfig: '' @ pa_ErrorText C e))) (\<lambda>config.
       if pc_Status config \<noteq> ''Completed'' then ret (Body 202 ConfigPending)
       else ret (Body 200 (ConfigCompleted (pc_UUID config) (pc_Status config) (pc_ConfigData config)))))"

text \<open>The loop over the values ends at the first one that is refused.\<close>

fun check_values :: "'f field_lib \<Rightarrow> string \<Rightarrow> (string, string) gomap \<Rightarrow> 'a reply option" where
  "check_values L schemaJSON [] = None"
| "check_values L schemaJSON ((key, v) # values) =
    (case ValidateValueAgainstSchema L key v schemaJSON of
       Some e \<Rightarrow> Some (bad_request (if contains_str (schema_error_text e) ''not found in schema''
         then ''field '' @ key @ '' not found in schema'' else schema_error_text e))
     | None \<Rightarrow> check_values L schemaJSON values)"

definition write_values :: "'w provider_client \<Rightarrow> string \<Rightarrow> string \<Rightarrow> (string, string) gomap \<Rightarrow> ('w, 'a reply, unit) eff" where
  "write_values C ns name values =
    (let failed = (\<lambda>e. internal_error (''Failed to write ConfigMap data: '' @ e))
     in bind_eff (step (pa_GetConfigMap C ns name)) (\<lambda>res.
        case res of
          Inl e \<Rightarrow>
            if e = NotFound then
              (case WriteConfigMapData (Some \<lparr>cm_meta = meta_of name ns [], cm_Data = []\<rparr>) (Some values) of
                 Inl err \<Rightarrow> stop (failed err)
               | Inr cm \<Rightarrow> call_opt (pa_CreateConfigMap C cm) (\<lambda>e. internal_error ''Failed to create ConfigMap''))
            else stop (internal_error ''Failed to get ConfigMap'')
        | Inr configMap \<Rightarrow>
            (case WriteConfigMapData (Some configMap) (Some values) of
               Inl err \<Rightarrow> stop (failed err)
             | Inr cm \<Rightarrow> call_opt (pa_UpdateConfigMap C cm) (\<lambda>e. internal_error ''Failed to update ConfigMap''))))"

definition UpdateProviderConfigValues ::
  "'w provider_client \<Rightarrow> 'f field_lib \<Rightarrow> string \<Rightarrow> string + ProviderConfigUpdateRequest \<Rightarrow> 'w \<Rightarrow> provider_body reply \<times> 'w" where
  "UpdateProviderConfigValues C L path body = run_handler
    (let uuid = trim_prefix path (ProviderConfigPath @ ''/'')
     in if uuid = '''' then ret (bad_request ''UUID is required'')
        else case body of
          Inl e \<Rightarrow> ret (bad_request (''Invalid request body: '' @ e))
        | Inr req \<Rightarrow>
          if pu_ProviderName req = '''' then ret (bad_request ''provider_name is required'')
          else if pu_Values req = [] then ret (bad_request ''values cannot be empty'')
          else
          bind_eff (call (pa_ListConfigs C (pa_Namespace C) [(''krkn.krkn-chaos.dev/uuid'', uuid)]) (\<lambda>e. internal_error ''Failed to query config'')) (\<lambda>configs.
          case configs of
            [] \<Rightarrow> stop (Failure 404 ''not_found'' ''KrknOperatorTargetProviderConfig not found'')
          | config # _ \<Rightarrow>
            (case map_of (pc_ConfigData config) (pu_ProviderName req) of
               None \<Rightarrow> stop (Failure 404 ''not_found'' (''target provider: '' @ pu_ProviderName req @ '' not found''))
             | Some providerData \<Rightarrow>
               (case check_values L (pcd_ConfigSchema providerData) (pu_Values req) of
                  Some failure \<Rightarrow> stop failure
                | None \<Rightarrow>
                  bind_eff (write_values C (pcd_Namespace providerData) (pcd_ConfigMap providerData) (pu_Values req)) (\<lambda>_.
                  bind_eff (step (pa_DeleteConfig C config)) (\<lambda>_.
                  ret (Body 200 (ProviderConfigUpdateResponse ''Configuration updated successfully'' (map fst (pu_Values req))))))))))"

definition ProviderConfigHandler ::
  "'w provider_client \<Rightarrow> 'f field_lib \<Rightarrow> token_claims option \<Rightarrow> string \<Rightarrow> string \<Rightarrow> string + ProviderConfigUpdateRequest \<Rightarrow> 'w \<Rightarrow>
     provider_body reply \<times> 'w" where
  "ProviderConfigHandler C L claims rmethod path body w =
    (if path = ProviderConfigPath then
       (if rmethod \<noteq> ''POST'' then (Failure 405 ''method_not_allowed'' ''Only POST is allowed'', w)
        else denied_or (requireAdminForMethods claims rmethod [''POST'']) (PostProviderConfig C w) w)
     else if has_prefix path (ProviderConfigPath @ ''/'') then
       (if rmethod = ''GET'' then GetProviderConfigByUUID C path w
        else if rmethod = ''POST'' then
          denied_or (requireAdminForMethods claims rmethod [''POST'']) (UpdateProviderConfigValues C L path body w) w
        else (Failure 405 ''method_not_allowed'' ''Only GET and POST are allowed'', w))
     else (Failure 404 ''not_found'' ''Endpoint not found'', w))"

section \<open>Only validated values are written\<close>

datatype config_event =
    ProvidersListed "api_error + KrknOperatorTargetProvider list"
  | ProviderUpdate KrknOperatorTargetProvider "api_error option"
  | ConfigRead string string "api_error + KrknOperatorTargetProviderConfig"
  | ConfigsListed string "(string, string) gomap" "api_error + KrknOperatorTargetProviderConfig list"
  | ConfigCreate KrknOperatorTargetProviderConfig "api_error option"
  | ConfigDelete KrknOperatorTargetProviderConfig "api_error option"
  | ConfigMapRead string string "api_error + ConfigMap"
  | ConfigMapCreate ConfigMap "api_error option"
  | ConfigMapUpdate ConfigMap "api_error option"
  | ConfigUUID string

definition logged_config :: "'w provider_client \<Rightarrow> ('w \<times> config_event list) provider_client" where
  "logged_config C = \<lparr>pa_Namespace = pa_Namespace C,
     pa_ListProviders = noting (pa_ListProviders C) ProvidersListed,
     pa_UpdateProvider = (\<lambda>p. noting (pa_UpdateProvider C p) (ProviderUpdate p)),
     pa_GetConfig = (\<lambda>ns n. noting (pa_GetConfig C ns n) (ConfigRead ns n)),
     pa_ListConfigs = (\<lambda>ns ls. noting (pa_ListConfigs C ns ls) (ConfigsListed ns ls)),
     pa_CreateConfig = (\<lambda>c. noting (pa_CreateConfig C c) (ConfigCreate c)),
     pa_DeleteConfig = (\<lambda>c. noting (pa_DeleteConfig C c) (ConfigDelete c)),
     pa_GetConfigMap = (\<lambda>ns n. noting (pa_GetConfigMap C ns n) (ConfigMapRead ns n)),
     pa_CreateConfigMap = (\<lambda>m. noting (pa_CreateConfigMap C m) (ConfigMapCreate m)),
     pa_UpdateConfigMap = (\<lambda>m. noting (pa_UpdateConfigMap C m) (ConfigMapUpdate m)),
     pa_NewUUID = noting (pa_NewUUID C) ConfigUUID, pa_ErrorText = pa_ErrorText C, pa_ConfigText = pa_ConfigText C\<rparr>"

lemma logged_config_simps [simp]:
  "pa_Namespace (logged_config C) = pa_Namespace C"
  "pa_ListProviders (logged_config C) = noting (pa_ListProviders C) ProvidersListed"
  "pa_UpdateProvider (logged_config C) p = noting (pa_UpdateProvider C p) (ProviderUpdate p)"
  "pa_ListConfigs (logged_config C) ns ls = noting (pa_ListConfigs C ns ls) (ConfigsListed ns ls)"
  "pa_DeleteConfig (logged_config C) c = noting (pa_DeleteConfig C c) (ConfigDelete c)"
  "pa_GetConfigMap (logged_config C) ns n = noting (pa_GetConfigMap C ns n) (ConfigMapRead ns n)"
  "pa_CreateConfigMap (logged_config C) m = noting (pa_CreateConfigMap C m) (ConfigMapCreate m)"
  "pa_UpdateConfigMap (logged_config C) m = noting (pa_UpdateConfigMap C m) (ConfigMapUpdate m)"
  by (simp_all add: logged_config_def)

lemma check_values_None:
  "check_values L schema vs = (None :: 'a reply option) \<longleftrightarrow> list_all (\<lambda>(k, v). ValidateValueAgainstSchema L k v schema = None) vs"
  by (induction vs) (auto split: option.splits)

lemma check_values_code: "check_values L schema vs = Some r \<Longrightarrow> reply_code r = 400"
  by (induction vs) (auto simp: bad_request_def split: option.splits)

text \<open>The data of the provider in the first configuration request with the label, all values accepted by its schema.\<close>

definition accepted_for :: "'f field_lib \<Rightarrow> string \<Rightarrow> string \<Rightarrow> ProviderConfigUpdateRequest \<Rightarrow> config_event list \<Rightarrow> ProviderConfigData \<Rightarrow> bool" where
  "accepted_for L ns uuid req log d \<longleftrightarrow>
    (\<exists>config configs. ConfigsListed ns [(''krkn.krkn-chaos.dev/uuid'', uuid)] (Inr (config # configs)) \<in> set log \<and>
       map_of (pc_ConfigData config) (pu_ProviderName req) = Some d) \<and>
    list_all (\<lambda>(k, v). ValidateValueAgainstSchema L k v (pcd_ConfigSchema d) = None) (pu_Values req)"

fun config_call_ok :: "'f field_lib \<Rightarrow> string \<Rightarrow> string \<Rightarrow> ProviderConfigUpdateRequest \<Rightarrow> config_event list \<Rightarrow> config_event \<Rightarrow> bool" where
  "config_call_ok L ns uuid req log (ConfigMapCreate m x) \<longleftrightarrow>
    (\<exists>d. accepted_for L ns uuid req log d \<and> ConfigMapRead (pcd_Namespace d) (pcd_ConfigMap d) (Inl NotFound) \<in> set log \<and>
       cm_meta m = meta_of (pcd_ConfigMap d) (pcd_Namespace d) [] \<and> (gomap_wf (pu_Values req) \<longrightarrow> map_of (cm_Data m) = map_of (pu_Values req)))"
| "config_call_ok L ns uuid req log (ConfigMapUpdate m x) \<longleftrightarrow>
    (\<exists>d old. accepted_for L ns uuid req log d \<and> ConfigMapRead (pcd_Namespace d) (pcd_ConfigMap d) (Inr old) \<in> set log \<and>
       cm_meta m = cm_meta old \<and> (gomap_wf (pu_Values req) \<longrightarrow> map_of (cm_Data m) = map_of (cm_Data old) ++ map_of (pu_Values req)))"
| "config_call_ok L ns uuid req log (ConfigDelete c x) \<longleftrightarrow>
    (\<exists>m. ConfigMapCreate m None \<in> set log \<or> ConfigMapUpdate m None \<in> set log)"
| "config_call_ok L ns uuid req log (ConfigsListed n ls x) \<longleftrightarrow> True"
| "config_call_ok L ns uuid req log (ConfigMapRead n m x) \<longleftrightarrow> True"
| "config_call_ok L ns uuid req log _ \<longleftrightarrow> False"

text \<open>
  C23. Whatever the API server answers, \<open>UpdateProviderConfigValues\<close> writes only the config map that the named provider has
  contributed to the request, only when the schema of the provider accepts every value, and so that the given
  values replace or extend the data read before; it removes the configuration request only after the values were
  written, and reports success exactly when they were.
\<close>

theorem UpdateProviderConfigValues_validated:
  "case UpdateProviderConfigValues (logged_config C) L path (Inr req) (w, []) of (r, (w', log)) \<Rightarrow>
     list_all (config_call_ok L (pa_Namespace C) (trim_prefix path (ProviderConfigPath @ ''/'')) req log) log \<and>
     (reply_code r = 200 \<longleftrightarrow> (\<exists>m. ConfigMapCreate m None \<in> set log \<or> ConfigMapUpdate m None \<in> set log))"
  unfolding UpdateProviderConfigValues_def
  by (rule run_handler_ensures, unfold logged_config_simps write_values_def sum.case, intro ensures_rules)
    (auto simp: accepted_for_def bad_request_def internal_error_def check_values_None dest: check_values_code WriteConfigMapData_value)

section \<open>What is configured takes effect\<close>

text \<open>Configuration requests and config maps as the API server keeps them.\<close>

record config_world =
  cw_Configs :: "KrknOperatorTargetProviderConfig list"
  cw_Maps :: "ConfigMap list"

abbreviation map_at :: "string \<Rightarrow> string \<Rightarrow> ConfigMap \<Rightarrow> bool" where
  "map_at ns n m \<equiv> Namespace (cm_meta m) = ns \<and> Name (cm_meta m) = n"

abbreviation same_map :: "ConfigMap \<Rightarrow> ConfigMap \<Rightarrow> bool" where
  "same_map m \<equiv> map_at (Namespace (cm_meta m)) (Name (cm_meta m))"

definition config_world_client :: "string \<Rightarrow> config_world provider_client \<Rightarrow> config_world provider_client" where
  "config_world_client ns C = C\<lparr>pa_Namespace := ns,
     pa_ListConfigs := (\<lambda>n ls S. (Inr (filter (\<lambda>c. Namespace (pc_meta c) = n \<and>
       list_all (\<lambda>(k, v). map_of (Labels (pc_meta c)) k = Some v) ls) (cw_Configs S)), S)),
     pa_DeleteConfig := (\<lambda>c S. (None, S\<lparr>cw_Configs := filter (\<lambda>x. pc_meta x \<noteq> pc_meta c) (cw_Configs S)\<rparr>)),
     pa_GetConfigMap := (\<lambda>n m S. (or_missing (List.find (map_at n m) (cw_Maps S)), S)),
     pa_CreateConfigMap := (\<lambda>m S. if list_ex (same_map m) (cw_Maps S) then (Some AlreadyExists, S)
       else (None, S\<lparr>cw_Maps := cw_Maps S @ [m]\<rparr>)),
     pa_UpdateConfigMap := (\<lambda>m S. if list_ex (same_map m) (cw_Maps S)
       then (None, S\<lparr>cw_Maps := map (\<lambda>x. if same_map m x then m else x) (cw_Maps S)\<rparr>) else (Some NotFound, S))\<rparr>"

lemma config_world_simps [simp]:
  "pa_Namespace (config_world_client ns C) = ns"
  "pa_ListConfigs (config_world_client ns C) n ls = (\<lambda>S. (Inr (filter (\<lambda>c. Namespace (pc_meta c) = n \<and>
     list_all (\<lambda>(k, v). map_of (Labels (pc_meta c)) k = Some v) ls) (cw_Configs S)), S))"
  "pa_DeleteConfig (config_world_client ns C) c = (\<lambda>S. (None, S\<lparr>cw_Configs := filter (\<lambda>x. pc_meta x \<noteq> pc_meta c) (cw_Configs S)\<rparr>))"
  "pa_GetConfigMap (config_world_client ns C) n l = (\<lambda>S. (or_missing (List.find (map_at n l) (cw_Maps S)), S))"
  "pa_CreateConfigMap (config_world_client ns C) m = (\<lambda>S. if list_ex (same_map m) (cw_Maps S) then (Some AlreadyExists, S)
     else (None, S\<lparr>cw_Maps := cw_Maps S @ [m]\<rparr>))"
  "pa_UpdateConfigMap (config_world_client ns C) m = (\<lambda>S. if list_ex (same_map m) (cw_Maps S)
     then (None, S\<lparr>cw_Maps := map (\<lambda>x. if same_map m x then m else x) (cw_Maps S)\<rparr>) else (Some NotFound, S))"
  by (simp_all add: config_world_client_def)

lemma find_replaced:
  "List.find P xs = Some y \<Longrightarrow> (\<And>x. P x \<longleftrightarrow> R x) \<Longrightarrow> P m \<Longrightarrow> List.find P (map (\<lambda>x. if R x then m else x) xs) = Some m"
  by (induction xs) auto

text \<open>After the write the config map is found with the values, on top of what it held.\<close>

lemma write_values_stores:
  assumes "write_values (config_world_client ns C) n m vs S = (Inr (), S')" "gomap_wf vs" "list_all (\<lambda>cm. gomap_wf (cm_Data cm)) (cw_Maps S)"
  shows "\<exists>cm. List.find (map_at n m) (cw_Maps S') = Some cm \<and> gomap_wf (cm_Data cm) \<and>
    map_of (cm_Data cm) = (case List.find (map_at n m) (cw_Maps S) of None \<Rightarrow> Map.empty | Some old \<Rightarrow> map_of (cm_Data old)) ++ map_of vs"
proof (cases "List.find (map_at n m) (cw_Maps S)")
  case None
  then have no: "\<not> list_ex (map_at n m) (cw_Maps S)" by (auto simp: find_None_iff list_ex_iff)
  obtain cm where cm: "WriteConfigMapData (Some \<lparr>cm_meta = meta_of m n [], cm_Data = []\<rparr>) (Some vs) = Inr cm"
    by (simp add: WriteConfigMapData_def)
  have at: "map_at n m cm" and v: "map_of (cm_Data cm) = map_of vs" "gomap_wf (cm_Data cm)"
    using WriteConfigMapData_value[OF cm] assms(2) by (auto simp: meta_of_def)
  have "S' = S\<lparr>cw_Maps := cw_Maps S @ [cm]\<rparr>"
    using assms(1) None no at by (auto simp: write_values_def bind_eff_def step_def call_opt_def cm Let_def split: if_splits)
  then show ?thesis using None v at find_fresh[OF no, of cm] by simp
next
  case (Some old)
  then have old: "map_at n m old" "old \<in> set (cw_Maps S)" by (auto dest!: find_SomeD)
  then have ex: "list_ex (map_at n m) (cw_Maps S)" by (auto simp: list_ex_iff)
  obtain cm where cm: "WriteConfigMapData (Some old) (Some vs) = Inr cm" by (simp add: WriteConfigMapData_def)
  have at: "map_at n m cm" and v: "map_of (cm_Data cm) = map_of (cm_Data old) ++ map_of vs" "gomap_wf (cm_Data cm)"
    using WriteConfigMapData_value[OF cm] assms(2,3) old by (auto simp: list_all_iff)
  have "S' = S\<lparr>cw_Maps := map (\<lambda>x. if map_at n m x then cm else x) (cw_Maps S)\<rparr>"
    using assms(1) Some ex at by (auto simp: write_values_def bind_eff_def step_def call_opt_def cm Let_def split: if_splits)
  then show ?thesis using Some v at find_replaced[OF Some, of "map_at n m" cm] by simp
qed

lemma UpdateProviderConfigValues_writes:
  assumes "UpdateProviderConfigValues (config_world_client ns C) L path (Inr req) S = (r, S')" "reply_code r = 200"
  obtains config d S1 where "config \<in> set (cw_Configs S)" "map_of (pc_ConfigData config) (pu_ProviderName req) = Some d"
    "write_values (config_world_client ns C) (pcd_Namespace d) (pcd_ConfigMap d) (pu_Values req) S = (Inr () :: provider_body reply + unit, S1)" "cw_Maps S' = cw_Maps S1"
proof -
  have f: "reply_code x \<noteq> 200" if "write_values C' n m vs S0 = (Inl x, S1)" for C' :: "config_world provider_client" and n m vs S0 x S1
    using that by (auto simp: write_values_def bind_eff_def step_def stop_def call_opt_def internal_error_def Let_def
        split: prod.splits sum.splits option.splits if_splits)
  let ?cs = "filter (\<lambda>c. Namespace (pc_meta c) = ns \<and> list_all (\<lambda>(k, v). map_of (Labels (pc_meta c)) k = Some v)
     [(''krkn.krkn-chaos.dev/uuid'', trim_prefix path (ProviderConfigPath @ ''/''))]) (cw_Configs S)"
  note defs = UpdateProviderConfigValues_def run_handler_def ret_def stop_def bad_request_def bind_eff_def call_def step_def Let_def
  obtain config rest where c: "?cs = config # rest"
    using assms by (cases ?cs) (auto simp: defs split: if_splits)
  then have "config \<in> set (cw_Configs S)" by (auto simp: filter_eq_Cons_iff)
  moreover obtain d where d: "map_of (pc_ConfigData config) (pu_ProviderName req) = Some d"
    using assms c by (auto simp: defs split: if_splits option.splits)
  moreover have "\<exists>S1. write_values (config_world_client ns C) (pcd_Namespace d) (pcd_ConfigMap d) (pu_Values req) S = (Inr () :: provider_body reply + unit, S1) \<and>
    cw_Maps S' = cw_Maps S1"
    using assms c d by (auto simp: defs dest: check_values_code f split: if_splits option.splits prod.splits sum.splits)
  ultimately show thesis using that by blast
qed

text \<open>
  C37. Configuring the operator takes effect: after a successful update of the values of a provider whose config map is the
  one of the operator, a start of the operator fills its store with them, on top of what the config map held
  before; earlier entries of the store stay where the config map has no value for them.
\<close>

theorem configured_values_take_effect:
  assumes "UpdateProviderConfigValues (config_world_client ns C) L path (Inr req) S = (r, S')" and "reply_code r = 200"
    and "gomap_wf (pu_Values req)" and "list_all (\<lambda>cm. gomap_wf (cm_Data cm)) (cw_Maps S)"
    and "\<And>config d. config \<in> set (cw_Configs S) \<Longrightarrow> map_of (pc_ConfigData config) (pu_ProviderName req) = Some d \<Longrightarrow>
      pcd_Namespace d = ns \<and> pcd_ConfigMap d = ''krkn-operator-config''"
  shows "\<exists>s. fst (ConfigStoreInitializer_Start (pa_GetConfigMap (config_world_client ns C)) ns inst S') = Some s \<and>
    GetValue s = GetValue (kv_Get inst) ++
      (case List.find (map_at ns ''krkn-operator-config'') (cw_Maps S) of None \<Rightarrow> Map.empty | Some old \<Rightarrow> map_of (cm_Data old)) ++
      map_of (pu_Values req)"
proof -
  obtain config d S1 where d: "config \<in> set (cw_Configs S)" "map_of (pc_ConfigData config) (pu_ProviderName req) = Some d"
    "write_values (config_world_client ns C) (pcd_Namespace d) (pcd_ConfigMap d) (pu_Values req) S = (Inr () :: provider_body reply + unit, S1)" "cw_Maps S' = cw_Maps S1"
    using UpdateProviderConfigValues_writes[OF assms(1,2)] .
  obtain cm where cm: "List.find (map_at ns ''krkn-operator-config'') (cw_Maps S') = Some cm" "gomap_wf (cm_Data cm)"
    "map_of (cm_Data cm) = (case List.find (map_at ns ''krkn-operator-config'') (cw_Maps S) of None \<Rightarrow> Map.empty | Some old \<Rightarrow> map_of (cm_Data old)) ++
      map_of (pu_Values req)"
    using write_values_stores[OF d(3) assms(3,4)] assms(5)[OF d(1,2)] d(4) by auto
  obtain s where s: "SyncConfigMapToStore (Some cm) (Some (kv_Get inst)) = Inr s" by (simp add: SyncConfigMapToStore_def)
  show ?thesis
    using cm(1) s SyncConfigMapToStore_value[OF s cm(2)] by (simp add: ConfigStoreInitializer_Start_def cm(3))
qed

text \<open>A provider with one text field, and a request that sets it.\<close>

definition sample_fields :: "string field_lib" where
  "sample_fields = \<lparr>fl_Unmarshal = (\<lambda>v. case v of JStr s \<Rightarrow> Inr s | _ \<Rightarrow> Inl ''unknown field type''), fl_Variable = Some,
     fl_Validate = (\<lambda>f v. if v = '''' then Some ''empty'' else None), fl_JSONText = (\<lambda>s. ''not JSON'')\<rparr>"

definition sample_config_world :: config_world where
  "sample_config_world = \<lparr>cw_Configs = [\<lparr>pc_meta = meta_of ''u1'' ''krkn'' [(''krkn.krkn-chaos.dev/uuid'', ''u1'')], pc_UUID = ''u1'',
       pc_Status = ''Completed'', pc_ConfigData = [(''krkn-operator'', \<lparr>pcd_ConfigMap = ''krkn-operator-config'', pcd_Namespace = ''krkn'',
         pcd_ConfigSchema = [CHR 0x5B, CHR 0x22, CHR ''k'', CHR 0x22, CHR 0x5D]\<rparr>)], pc_Created = None, pc_Completed = None\<rparr>],
     cw_Maps = [\<lparr>cm_meta = meta_of ''krkn-operator-config'' ''krkn'' [], cm_Data = [(''other'', ''1'')]\<rparr>]\<rparr>"

definition sample_provider_client :: "config_world provider_client" where
  "sample_provider_client = \<lparr>pa_Namespace = ''krkn'', pa_ListProviders = (\<lambda>S. (Inr [], S)), pa_UpdateProvider = (\<lambda>p S. (Some NotFound, S)),
     pa_GetConfig = (\<lambda>n m S. (Inl NotFound, S)), pa_ListConfigs = (\<lambda>n ls S. (Inr [], S)), pa_CreateConfig = (\<lambda>c S. (None, S)),
     pa_DeleteConfig = (\<lambda>c S. (None, S)), pa_GetConfigMap = (\<lambda>n m S. (Inl NotFound, S)), pa_CreateConfigMap = (\<lambda>m S. (None, S)),
     pa_UpdateConfigMap = (\<lambda>m S. (None, S)), pa_NewUUID = (\<lambda>S. (''u'', S)), pa_ErrorText = (\<lambda>e. ''error''), pa_ConfigText = (\<lambda>e. ''error'')\<rparr>"

abbreviation sample_config_update :: "provider_body reply \<times> config_world" where
  "sample_config_update \<equiv> UpdateProviderConfigValues (config_world_client ''krkn'' sample_provider_client) sample_fields (ProviderConfigPath @ ''/u1'')
     (Inr \<lparr>pu_ProviderName = ''krkn-operator'', pu_Values = [(''k'', ''v'')]\<rparr>) sample_config_world"

theorem configured_values_take_effect_witness:
  "\<exists>s. fst (ConfigStoreInitializer_Start (pa_GetConfigMap (config_world_client ''krkn'' sample_provider_client)) ''krkn'' None (snd sample_config_update)) = Some s \<and>
     reply_code (fst sample_config_update) = 200 \<and> GetValue s ''k'' = Some ''v'' \<and> GetValue s ''other'' = Some ''1''"
proof -
  obtain r S' where E: "sample_config_update = (r, S')" by (metis surj_pair)
  have r: "reply_code r = 200"
  proof -
    have "reply_code (fst sample_config_update) = 200" by code_simp
    then show ?thesis by (simp add: E)
  qed
  have w: "gomap_wf (pu_Values \<lparr>pu_ProviderName = ''krkn-operator'', pu_Values = [(''k'', ''v'')]\<rparr>)"
    "list_all (\<lambda>cm. gomap_wf (cm_Data cm)) (cw_Maps sample_config_world)" by code_simp+
  have d: "pcd_Namespace d = ''krkn'' \<and> pcd_ConfigMap d = ''krkn-operator-config''"
    if "config \<in> set (cw_Configs sample_config_world)"
      "map_of (pc_ConfigData config) (pu_ProviderName \<lparr>pu_ProviderName = ''krkn-operator'', pu_Values = [(''k'', ''v'')]\<rparr>) = Some d" for config d
    using that by (auto simp: sample_config_world_def)
  obtain s where "fst (ConfigStoreInitializer_Start (pa_GetConfigMap (config_world_client ''krkn'' sample_provider_client)) ''krkn'' None S') = Some s"
    "GetValue s = GetValue (kv_Get None) ++
      (case List.find (map_at ''krkn'' ''krkn-operator-config'') (cw_Maps sample_config_world) of None \<Rightarrow> Map.empty | Some old \<Rightarrow> map_of (cm_Data old)) ++
      map_of [(''k'', ''v'')]"
    using configured_values_take_effect[OF E r w, of None] d by auto
  then show ?thesis using E r by (simp add: sample_config_world_def meta_of_def)
qed

end
