(* ===== verification/Graph_Runs_API.thy ===== *)
theory Graph_Runs_API
  imports Provider_API Graph_Executor
begin

text \<open>
  The endpoints of graph runs: \<open>src/internal/api/graphrun_handlers.go\<close>. Bodies are given decoded. The permission checks read users,
  groups and target requests; the client hands the handler one answer per object, taken when the check runs.
\<close>

section \<open>Requests, responses and the client\<close>

record GraphRunCreateRequest =
  grq_Graph :: scenario_graph
  grq_TargetRequestID :: string
  grq_TargetClusters :: target_clusters

record NodeStatusResponse =
  nsr_NodeID :: string
  nsr_NodeName :: string
  nsr_Phase :: string
  nsr_ScenarioRunRef :: string
  nsr_StartTime :: "time option"
  nsr_CompletionTime :: "time option"
  nsr_DependsOn :: "string list"
  nsr_Message :: string

record GraphRunSummaryResponse =
  gsr_TotalNodes :: int
  gsr_CompletedNodes :: int
  gsr_RunningNodes :: int
  gsr_FailedNodes :: int
  gsr_PendingNodes :: int

record GraphRunListItem =
  gli_Name :: string
  gli_Namespace :: string
  gli_CreationTimestamp :: time
  gli_Phase :: string
  gli_OwnerUserID :: string
  gli_TargetRequestID :: string
  gli_Summary :: GraphRunSummaryResponse
  gli_StartTime :: "time option"
  gli_CompletionTime :: "time option"

record GraphRunStatusResponse =
  gsp_Phase :: string
  gsp_Summary :: GraphRunSummaryResponse
  gsp_NodeStatuses :: "NodeStatusResponse list"
  gsp_ResolvedLevels :: "string list list"
  gsp_StartTime :: "time option"
  gsp_CompletionTime :: "time option"

record GraphRunDetailResponse =
  gdr_Name :: string
  gdr_Namespace :: string
  gdr_CreationTimestamp :: time
  gdr_Spec :: KrknGraphRunSpec
  gdr_Status :: GraphRunStatusResponse

text \<open>\<open>PlainText\<close> is the body of \<open>http.Error\<close>.\<close>

datatype graph_body =
    GraphRunListResponse "GraphRunListItem list"
  | GraphRunDetail GraphRunDetailResponse
  | NoContent
  | PlainText string

record 'w graph_api_client =
  gx_Namespace :: string
  gx_ListGraphRuns :: "string \<Rightarrow> 'w \<Rightarrow> (api_error + KrknGraphRun list) \<times> 'w"
  gx_GetGraphRun :: "string \<Rightarrow> string \<Rightarrow> 'w \<Rightarrow> (api_error + KrknGraphRun) \<times> 'w"
  gx_CreateGraphRun :: "KrknGraphRun \<Rightarrow> 'w \<Rightarrow> (api_error + KrknGraphRun) \<times> 'w"
  gx_DeleteGraphRun :: "KrknGraphRun \<Rightarrow> 'w \<Rightarrow> api_error option \<times> 'w"
  gx_GetTargetRequest :: "string \<Rightarrow> string \<Rightarrow> 'w \<Rightarrow> (api_error + KrknTargetRequest) \<times> 'w"
  gx_Auth :: "'w \<Rightarrow> auth_client \<times> 'w"
  gx_NewUUID :: "'w \<Rightarrow> string \<times> 'w"
  gx_GraphText :: "graph_error \<Rightarrow> string"
  gx_AccessText :: "access_error \<Rightarrow> string"

definition GraphRunsPath :: string where
  "GraphRunsPath = ''/api/v1/graphruns''"

section \<open>Responses\<close>

definition summary_response :: "GraphRunSummary \<Rightarrow> GraphRunSummaryResponse" where
  "summary_response s = \<lparr>gsr_TotalNodes = TotalNodes s, gsr_CompletedNodes = CompletedNodes s, gsr_RunningNodes = RunningNodes s,
     gsr_FailedNodes = FailedNodes s, gsr_PendingNodes = PendingNodes s\<rparr>"

definition list_item :: "KrknGraphRun \<Rightarrow> GraphRunListItem" where
  "list_item run = \<lparr>gli_Name = Name (gr_meta run), gli_Namespace = Namespace (gr_meta run),
     gli_CreationTimestamp = CreationTimestamp (gr_meta run), gli_Phase = gst_Phase (gr_Status run),
     gli_OwnerUserID = gspec_OwnerUserID (gr_Spec run), gli_TargetRequestID = gspec_TargetRequestID (gr_Spec run),
     gli_Summary = summary_response (gst_Summary (gr_Status run)), gli_StartTime = gst_StartTime (gr_Status run),
     gli_CompletionTime = gst_CompletionTime (gr_Status run)\<rparr>"

definition convertNodeStatuses :: "NodeStatus list \<Rightarrow> NodeStatusResponse list" where
  "convertNodeStatuses nodeStatuses = map (\<lambda>ns. \<lparr>nsr_NodeID = ns_NodeID ns, nsr_NodeName = ns_NodeName ns, nsr_Phase = ns_Phase ns,
     nsr_ScenarioRunRef = ns_ScenarioRunRef ns, nsr_StartTime = ns_StartTime ns, nsr_CompletionTime = ns_CompletionTime ns,
     nsr_DependsOn = ns_DependsOn ns, nsr_Message = ns_Message ns\<rparr>) nodeStatuses"

definition detail :: "KrknGraphRun \<Rightarrow> GraphRunStatusResponse \<Rightarrow> GraphRunDetailResponse" where
  "detail run st = \<lparr>gdr_Name = Name (gr_meta run), gdr_Namespace = Namespace (gr_meta run),
     gdr_CreationTimestamp = CreationTimestamp (gr_meta run), gdr_Spec = gr_Spec run, gdr_Status = st\<rparr>"

definition status_response :: "KrknGraphRunStatus \<Rightarrow> GraphRunStatusResponse" where
  "status_response st = \<lparr>gsp_Phase = gst_Phase st, gsp_Summary = summary_response (gst_Summary st),
     gsp_NodeStatuses = convertNodeStatuses (gst_NodeStatuses st), gsp_ResolvedLevels = gst_ResolvedLevels st,
     gsp_StartTime = gst_StartTime st, gsp_CompletionTime = gst_CompletionTime st\<rparr>"

definition new_status_response :: "KrknGraphRunStatus \<Rightarrow> GraphRunStatusResponse" where
  "new_status_response st = \<lparr>gsp_Phase = gst_Phase st,
     gsp_Summary = \<lparr>gsr_TotalNodes = 0, gsr_CompletedNodes = 0, gsr_RunningNodes = 0, gsr_FailedNodes = 0, gsr_PendingNodes = 0\<rparr>,
     gsp_NodeStatuses = [], gsp_ResolvedLevels = [], gsp_StartTime = None, gsp_CompletionTime = None\<rparr>"

section \<open>The handlers\<close>

definition ListGraphRuns :: "'w graph_api_client \<Rightarrow> token_claims option \<Rightarrow> string \<Rightarrow> 'w \<Rightarrow> graph_body reply \<times> 'w" where
  "ListGraphRuns C claims ownerFilter = run_handler
    (bind_eff (call (gx_ListGraphRuns C (gx_Namespace C)) (\<lambda>e. internal_error ''Failed to list graph runs'')) (\<lambda>runs.
     bind_eff (step (gx_Auth C)) (\<lambda>A.
     let visible = filterGraphRunsByGroupPermission A runs claims;
         filteredRuns = filter (\<lambda>run. ownerFilter = '''' \<or> gspec_OwnerUserID (gr_Spec run) = ownerFilter) visible
     in ret (Body 200 (GraphRunListResponse (map list_item filteredRuns))))))"

definition get_graph_run :: "'w graph_api_client \<Rightarrow> string \<Rightarrow> ('w, graph_body reply, KrknGraphRun) eff" where
  "get_graph_run C path =
    (let name = trim_prefix path (GraphRunsPath @ ''/'')
     in if name = '''' \<or> name = GraphRunsPath then stop (bad_request ''Graph run name is required'')
        else call (gx_GetGraphRun C (gx_Namespace C) name) (\<lambda>e.
          if e = NotFound then Failure 404 ''not_found'' (''Graph run '' @ in_quotes name @ '' not found'')
          else internal_error ''Failed to fetch graph run''))"

definition view_access :: "auth_client \<Rightarrow> token_claims option \<Rightarrow> KrknGraphRun \<Rightarrow> graph_body reply option" where
  "view_access A claims graphRun =
    (case claims of
       None \<Rightarrow> None
     | Some c \<Rightarrow>
         if IsAdmin claims then None
         else case checkGraphRunGroupAccess A (cl_UserID c) graphRun ActionView of
             Inl e \<Rightarrow> Some (internal_error ''Failed to validate access permissions'')
           | Inr hasAccess \<Rightarrow>
               if hasAccess then None
               else Some (Failure 403 ''forbidden'' ''You do not have permission to view this graph run''))"

definition GetGraphRun :: "'w graph_api_client \<Rightarrow> token_claims option \<Rightarrow> string \<Rightarrow> 'w \<Rightarrow> graph_body reply \<times> 'w" where
  "GetGraphRun C claims path = run_handler
    (bind_eff (get_graph_run C path) (\<lambda>graphRun.
     bind_eff (step (gx_Auth C)) (\<lambda>A.
     case view_access A claims graphRun of
       Some failure \<Rightarrow> stop failure
     | None \<Rightarrow> ret (Body 200 (GraphRunDetail (detail graphRun (status_response (gr_Status graphRun))))))))"

definition zero_graph_status :: KrknGraphRunStatus where
  "zero_graph_status = \<lparr>gst_Phase = '''', gst_StartTime = None, gst_CompletionTime = None,
     gst_Summary = \<lparr>TotalNodes = 0, CompletedNodes = 0, RunningNodes = 0, FailedNodes = 0, PendingNodes = 0\<rparr>,
     gst_NodeStatuses = [], gst_ResolvedLevels = [], gst_Conditions = []\<rparr>"

definition new_graph_run :: "object_meta \<Rightarrow> GraphRunCreateRequest \<Rightarrow> string \<Rightarrow> KrknGraphRun" where
  "new_graph_run m req owner = \<lparr>gr_meta = m,
     gr_Spec = \<lparr>gspec_Graph = grq_Graph req, gspec_TargetRequestID = grq_TargetRequestID req,
       gspec_TargetClusters = grq_TargetClusters req, gspec_OwnerUserID = owner\<rparr>,
     gr_Status = zero_graph_status\<rparr>"

definition check_graph_request :: "'w graph_api_client \<Rightarrow> GraphRunCreateRequest \<Rightarrow> graph_body reply option" where
  "check_graph_request C req =
    (case ValidateGraph (new_graph_run (meta_of '''' '''' []) \<lparr>grq_Graph = grq_Graph req, grq_TargetRequestID = '''', grq_TargetClusters = []\<rparr> '''') of
       Some e \<Rightarrow> Some (bad_request (''Invalid graph: '' @ gx_GraphText C e))
     | None \<Rightarrow>
       if grq_Graph req = [] then Some (bad_request ''graph is required and cannot be empty'')
       else if grq_TargetRequestID req = '''' then Some (bad_request ''targetRequestId is required'')
       else if grq_TargetClusters req = []
       then Some (bad_request ''targetClusters is required and must contain at least one provider with clusters'')
       else None)"

definition run_access :: "'w graph_api_client \<Rightarrow> auth_client \<Rightarrow> token_claims option \<Rightarrow> string \<Rightarrow> target_clusters \<Rightarrow> KrknTargetRequest \<Rightarrow> graph_body reply option" where
  "run_access C A claims userID targetClusters targetRequest =
    (if IsAdmin claims then None
     else case ValidateScenarioRunAccess A userID (gx_Namespace C) targetClusters targetRequest of
         Some e \<Rightarrow> Some (Failure 403 ''forbidden'' (gx_AccessText C e))
       | None \<Rightarrow> None)"

definition CreateGraphRun ::
  "'w graph_api_client \<Rightarrow> token_claims option \<Rightarrow> string + GraphRunCreateRequest \<Rightarrow> 'w \<Rightarrow> graph_body reply \<times> 'w" where
  "CreateGraphRun C claims body = run_handler
    (case body of
       Inl e \<Rightarrow> ret (bad_request (''Invalid request body: '' @ e))
     | Inr req \<Rightarrow>
       (case check_graph_request C req of
          Some failure \<Rightarrow> ret failure
        | None \<Rightarrow>
          (case claims of
             None \<Rightarrow> ret (Failure 401 ''unauthorized'' ''User authentication required'')
           | Some userClaims \<Rightarrow>
             bind_eff (call (gx_GetTargetRequest C (gx_Namespace C) (grq_TargetRequestID req)) (\<lambda>e.
               if e = NotFound then Failure 404 ''not_found'' (''Target request '' @ in_quotes (grq_TargetRequestID req) @ '' not found'')
               else internal_error ''Failed to fetch target request'')) (\<lambda>targetRequest.
             if trs_Status (tr_Status targetRequest) \<noteq> ''Completed'' then stop (bad_request ''Target request is not completed yet'')
             else
             bind_eff (step (gx_Auth C)) (\<lambda>A.
             case run_access C A claims (cl_UserID userClaims) (grq_TargetClusters req) targetRequest of
               Some failure \<Rightarrow> stop failure
             | None \<Rightarrow>
               bind_eff (step (gx_NewUUID C)) (\<lambda>uuid.
               bind_eff (call (gx_CreateGraphRun C (new_graph_run (meta_of (''graphrun-'' @ take 8 uuid) (gx_Namespace C) []) req (cl_UserID userClaims)))
                 (\<lambda>e. internal_error ''Failed to create graph run'')) (\<lambda>graphRun.
               ret (Body 201 (GraphRunDetail (detail graphRun (new_status_response (gr_Status graphRun))))))))))))"

definition DeleteGraphRun :: "'w graph_api_client \<Rightarrow> token_claims option \<Rightarrow> string \<Rightarrow> 'w \<Rightarrow> graph_body reply \<times> 'w" where
  "DeleteGraphRun C claims path = run_handler
    (bind_eff (get_graph_run C path) (\<lambda>graphRun.
     case claims of
       None \<Rightarrow> stop (Failure 401 ''unauthorized'' ''User authentication required'')
     | Some userClaims \<Rightarrow>
       if \<not> IsAdmin claims \<and> gspec_OwnerUserID (gr_Spec graphRun) \<noteq> cl_UserID userClaims
       then stop (Failure 403 ''forbidden'' ''You can only delete your own graph runs'')
       else
       bind_eff (call_opt (gx_DeleteGraphRun C graphRun) (\<lambda>e. internal_error ''Failed to delete graph run'')) (\<lambda>_.
       ret (Body 204 NoContent))))"

definition GraphRunsRouter ::
  "'w graph_api_client \<Rightarrow> token_claims option \<Rightarrow> string \<Rightarrow> string \<Rightarrow> string \<Rightarrow> string + GraphRunCreateRequest \<Rightarrow> 'w \<Rightarrow> graph_body reply \<times> 'w" where
  "GraphRunsRouter C claims rmethod path ownerFilter body w =
    (if path = GraphRunsPath then
       (if rmethod = ''GET'' then ListGraphRuns C claims ownerFilter w
        else if rmethod = ''POST'' then CreateGraphRun C claims body w
        else (Body 405 (PlainText ''Method not allowed''), w))
     else if has_prefix path (GraphRunsPath @ ''/'') then
       (if rmethod = ''GET'' then GetGraphRun C claims path w
        else if rmethod = ''DELETE'' then DeleteGraphRun C claims path w
        else (Body 405 (PlainText ''Method not allowed''), w))
     else (Body 404 (PlainText ''Not found''), w))"

section \<open>Who may create, see and delete graph runs\<close>

datatype graph_event =
    GraphsListed string "api_error + KrknGraphRun list"
  | GraphRead string string "api_error + KrknGraphRun"
  | GraphCreate KrknGraphRun "api_error + KrknGraphRun"
  | GraphDelete KrknGraphRun "api_error option"
  | RequestRead string string "api_error + KrknTargetRequest"
  | AuthAnswers auth_client
  | GraphUUID string

definition logged_graphs :: "'w graph_api_client \<Rightarrow> ('w \<times> graph_event list) graph_api_client" where
  "logged_graphs C = \<lparr>gx_Namespace = gx_Namespace C,
     gx_ListGraphRuns = (\<lambda>ns. noting (gx_ListGraphRuns C ns) (GraphsListed ns)),
     gx_GetGraphRun = (\<lambda>ns n. noting (gx_GetGraphRun C ns n) (GraphRead ns n)),
     gx_CreateGraphRun = (\<lambda>g. noting (gx_CreateGraphRun C g) (GraphCreate g)),
     gx_DeleteGraphRun = (\<lambda>g. noting (gx_DeleteGraphRun C g) (GraphDelete g)),
     gx_GetTargetRequest = (\<lambda>ns n. noting (gx_GetTargetRequest C ns n) (RequestRead ns n)),
     gx_Auth = noting (gx_Auth C) AuthAnswers, gx_NewUUID = noting (gx_NewUUID C) GraphUUID,
     gx_GraphText = gx_GraphText C, gx_AccessText = gx_AccessText C\<rparr>"

lemma logged_graphs_simps [simp]:
  "gx_Namespace (logged_graphs C) = gx_Namespace C"
  "gx_ListGraphRuns (logged_graphs C) ns = noting (gx_ListGraphRuns C ns) (GraphsListed ns)"
  "gx_GetGraphRun (logged_graphs C) ns n = noting (gx_GetGraphRun C ns n) (GraphRead ns n)"
  "gx_CreateGraphRun (logged_graphs C) g = noting (gx_CreateGraphRun C g) (GraphCreate g)"
  "gx_DeleteGraphRun (logged_graphs C) g = noting (gx_DeleteGraphRun C g) (GraphDelete g)"
  "gx_GetTargetRequest (logged_graphs C) ns n = noting (gx_GetTargetRequest C ns n) (RequestRead ns n)"
  "gx_Auth (logged_graphs C) = noting (gx_Auth C) AuthAnswers"
  "gx_NewUUID (logged_graphs C) = noting (gx_NewUUID C) GraphUUID"
  by (simp_all add: logged_graphs_def)

definition may_view :: "auth_client \<Rightarrow> token_claims option \<Rightarrow> KrknGraphRun \<Rightarrow> bool" where
  "may_view A claims g \<longleftrightarrow>
    (case claims of None \<Rightarrow> True | Some c \<Rightarrow> IsAdmin claims \<or> checkGraphRunGroupAccess A (cl_UserID c) g ActionView = Inr True)"

fun graph_call_ok :: "string \<Rightarrow> token_claims option \<Rightarrow> graph_event list \<Rightarrow> graph_event \<Rightarrow> bool" where
  "graph_call_ok ns claims log (GraphCreate g x) \<longleftrightarrow>
    (\<exists>c tr A. claims = Some c \<and> Namespace (gr_meta g) = ns \<and> gspec_OwnerUserID (gr_Spec g) = cl_UserID c \<and> ValidateGraph g = None \<and>
       gspec_TargetClusters (gr_Spec g) \<noteq> [] \<and> RequestRead ns (gspec_TargetRequestID (gr_Spec g)) (Inr tr) \<in> set log \<and>
       trs_Status (tr_Status tr) = ''Completed'' \<and> AuthAnswers A \<in> set log \<and>
       (IsAdmin claims \<or> ValidateScenarioRunAccess A (cl_UserID c) ns (gspec_TargetClusters (gr_Spec g)) tr = None))"
| "graph_call_ok ns claims log (GraphDelete g x) \<longleftrightarrow>
    (\<exists>c n. claims = Some c \<and> GraphRead ns n (Inr g) \<in> set log \<and> (IsAdmin claims \<or> gspec_OwnerUserID (gr_Spec g) = cl_UserID c))"
| "graph_call_ok ns claims log _ \<longleftrightarrow> True"

definition graph_reply_ok :: "string \<Rightarrow> token_claims option \<Rightarrow> graph_body reply \<Rightarrow> graph_event list \<Rightarrow> bool" where
  "graph_reply_ok ns claims r log \<longleftrightarrow>
    (\<forall>d. r = Body 200 (GraphRunDetail d) \<longrightarrow>
       (\<exists>g A n. GraphRead ns n (Inr g) \<in> set log \<and> AuthAnswers A \<in> set log \<and> d = detail g (status_response (gr_Status g)) \<and> may_view A claims g)) \<and>
    (\<forall>items. r = Body 200 (GraphRunListResponse items) \<longrightarrow>
       (\<exists>gs A. GraphsListed ns (Inr gs) \<in> set log \<and> AuthAnswers A \<in> set log \<and>
          list_all (\<lambda>i. list_ex (\<lambda>g. i = list_item g \<and> may_view A claims g) gs) items))"

definition graph_ok :: "string \<Rightarrow> token_claims option \<Rightarrow> graph_body reply \<Rightarrow> graph_event list \<Rightarrow> bool" where
  "graph_ok ns claims r log \<longleftrightarrow> list_all (graph_call_ok ns claims log) log \<and> graph_reply_ok ns claims r log"

lemma ValidateGraph_graph: "gspec_Graph (gr_Spec r) = gspec_Graph (gr_Spec r') \<Longrightarrow> ValidateGraph r = ValidateGraph r'"
  by (simp add: ValidateGraph_def)

lemma check_graph_request_None:
  assumes "check_graph_request C req = None"
  shows "grq_TargetClusters req \<noteq> [] \<and> ValidateGraph (new_graph_run m req owner) = None"
  using assms
    ValidateGraph_graph[of "new_graph_run m req owner" "new_graph_run (meta_of '''' '''' []) \<lparr>grq_Graph = grq_Graph req, grq_TargetRequestID = '''', grq_TargetClusters = []\<rparr> ''''"]
  by (auto simp: check_graph_request_def new_graph_run_def split: option.splits if_splits)

lemma failed_access_codes:
  "check_graph_request C req = Some r \<Longrightarrow> reply_code r = 400"
  "view_access A claims g = Some r \<Longrightarrow> reply_code r \<noteq> 200"
  "run_access C A claims u cs tr = Some r \<Longrightarrow> reply_code r = 403"
  by (auto simp: check_graph_request_def view_access_def run_access_def bad_request_def internal_error_def split: option.splits sum.splits if_splits)

lemma view_access_None: "view_access A claims g = None \<Longrightarrow> may_view A claims g"
  by (auto simp: view_access_def may_view_def split: option.splits sum.splits if_splits)

lemma filterGraphRuns_may_view: "g \<in> set (filterGraphRunsByGroupPermission A gs claims) \<Longrightarrow> g \<in> set gs \<and> may_view A claims g"
  by (auto simp: filterGraphRunsByGroupPermission_def may_view_def IsAdmin_def split: option.splits if_splits)

lemma graph_ok_failure: "reply_code r \<noteq> 200 \<Longrightarrow> graph_ok ns claims r log = list_all (graph_call_ok ns claims log) log"
  by (auto simp: graph_ok_def graph_reply_ok_def)

lemma ListGraphRuns_ok:
  "case ListGraphRuns (logged_graphs C) claims owner (w, []) of (r, (w', log)) \<Rightarrow> graph_ok (gx_Namespace C) claims r log"
  unfolding ListGraphRuns_def
  by (rule run_handler_ensures, unfold logged_graphs_simps, intro ensures_rules)
    (auto simp: graph_ok_def graph_reply_ok_def internal_error_def list_all_iff list_ex_iff dest: filterGraphRuns_may_view)

lemma GetGraphRun_ok:
  "case GetGraphRun (logged_graphs C) claims path (w, []) of (r, (w', log)) \<Rightarrow> graph_ok (gx_Namespace C) claims r log"
  unfolding GetGraphRun_def
  by (rule run_handler_ensures, unfold logged_graphs_simps get_graph_run_def, intro ensures_rules)
    (auto simp: graph_ok_def graph_reply_ok_def internal_error_def bad_request_def dest: view_access_None failed_access_codes(2))

lemma CreateGraphRun_ok:
  "case CreateGraphRun (logged_graphs C) claims body (w, []) of (r, (w', log)) \<Rightarrow> graph_ok (gx_Namespace C) claims r log"
  unfolding CreateGraphRun_def
  by (rule run_handler_ensures, unfold logged_graphs_simps, intro ensures_rules)
    (auto simp: graph_ok_failure internal_error_def bad_request_def new_graph_run_def meta_of_def run_access_def
      dest: failed_access_codes check_graph_request_None split: if_splits option.splits)

lemma DeleteGraphRun_ok:
  "case DeleteGraphRun (logged_graphs C) claims path (w, []) of (r, (w', log)) \<Rightarrow> graph_ok (gx_Namespace C) claims r log"
  unfolding DeleteGraphRun_def
  by (rule run_handler_ensures, unfold logged_graphs_simps get_graph_run_def, intro ensures_rules)
    (auto simp: graph_ok_failure internal_error_def bad_request_def)

text \<open>
  C20. Whatever the request and whatever the API server answers: a graph run is created only for an authenticated caller, as its
  owner, with a graph that passes the validation and for a completed target request, and a caller who is no
  administrator must be permitted to run on every target cluster; a graph run is deleted only by its owner or an
  administrator; and graph runs are shown, one or in a list, only to callers who may view them.
\<close>

theorem GraphRunsRouter_authorized:
  "case GraphRunsRouter (logged_graphs C) claims rmethod path owner body (w, []) of
     (r, (w', log)) \<Rightarrow> graph_ok (gx_Namespace C) claims r log"
  using ListGraphRuns_ok[of C claims owner w] GetGraphRun_ok[of C claims path w] CreateGraphRun_ok[of C claims body w]
    DeleteGraphRun_ok[of C claims path w]
  by (auto simp: GraphRunsRouter_def graph_ok_failure)

end
