(* ===== verification/Scenario_Runs_API.thy ===== *)
theory Scenario_Runs_API
  imports Graph_Runs_API Scenario_Resources
begin

text \<open>
  The endpoints of scenario runs and their jobs: \<open>src/internal/api/handlers.go\<close> from \<open>PostScenarioRun\<close> on, apart from the log stream.
  Bodies are given decoded. Permission checks and registry lookups get one answer per object, taken when the check runs.
\<close>

section \<open>Requests, responses and the client\<close>

record ScenarioRunRequest =
  srq_TargetRequestID :: string
  srq_TargetClusters :: target_clusters
  srq_ScenarioImage :: string
  srq_ScenarioName :: string
  srq_KubeconfigPath :: string
  srq_Environment :: "(string, string) gomap"
  srq_Files :: "FileMount list"
  srq_RegistryName :: "string option"

record ClusterJobStatusResponse =
  cj_ProviderName :: string
  cj_ClusterName :: string
  cj_JobID :: string
  cj_PodName :: string
  cj_ContainerImage :: string
  cj_Phase :: string
  cj_StartTime :: "time option"
  cj_CompletionTime :: "time option"
  cj_Message :: string
  cj_RetryCount :: int
  cj_MaxRetries :: int
  cj_CancelRequested :: bool
  cj_FailureReason :: string

record ScenarioRunStatusResponse =
  ss_ScenarioRunName :: string
  ss_Phase :: string
  ss_TotalTargets :: int
  ss_SuccessfulJobs :: int
  ss_FailedJobs :: int
  ss_RunningJobs :: int
  ss_ClusterJobs :: "ClusterJobStatusResponse list"
  ss_OwnerUserID :: string
  ss_RegistryName :: string
  ss_GraphRunName :: string
  ss_GraphNodeID :: string

record ScenarioRunListItem =
  sl_ScenarioRunName :: string
  sl_ScenarioName :: string
  sl_Phase :: string
  sl_TotalTargets :: int
  sl_SuccessfulJobs :: int
  sl_FailedJobs :: int
  sl_RunningJobs :: int
  sl_CreatedAt :: time
  sl_OwnerUserID :: string
  sl_GraphRunName :: string
  sl_GraphNodeID :: string

datatype run_body =
    ScenarioRunCreateResponse string target_clusters int string
  | ScenarioRunStatus ScenarioRunStatusResponse
  | ScenarioRunListResponse "ScenarioRunListItem list"
  | ActiveRunsOverviewResponse int int "(string, string list) gomap"
  | JobStatusResponse string string string
  | JobBody ClusterJobStatusResponse
  | RunNoContent
  | RunText string

record 'w run_client =
  rx_Namespace :: string
  rx_GetTargetRequest :: "string \<Rightarrow> string \<Rightarrow> 'w \<Rightarrow> (api_error + KrknTargetRequest) \<times> 'w"
  rx_UpdateTargetRequest :: "KrknTargetRequest \<Rightarrow> 'w \<Rightarrow> api_error option \<times> 'w"
  rx_OwnRequest :: "KrknScenarioRun \<Rightarrow> KrknTargetRequest \<Rightarrow> string + KrknTargetRequest"
  rx_GetRun :: "string \<Rightarrow> string \<Rightarrow> 'w \<Rightarrow> (api_error + KrknScenarioRun) \<times> 'w"
  rx_ListRuns :: "string \<Rightarrow> 'w \<Rightarrow> (api_error + KrknScenarioRun list) \<times> 'w"
  rx_CreateRun :: "KrknScenarioRun \<Rightarrow> 'w \<Rightarrow> (api_error + KrknScenarioRun) \<times> 'w"
  rx_DeleteRun :: "KrknScenarioRun \<Rightarrow> 'w \<Rightarrow> api_error option \<times> 'w"
  rx_UpdateRunStatus :: "KrknScenarioRun \<Rightarrow> 'w \<Rightarrow> api_error option \<times> 'w"
  rx_ListPods :: "string \<Rightarrow> (string, string) gomap \<Rightarrow> 'w \<Rightarrow> (api_error + Pod list) \<times> 'w"
  rx_DeletePod :: "Pod \<Rightarrow> 'w \<Rightarrow> api_error option \<times> 'w"
  rx_ListConfigMaps :: "string \<Rightarrow> (string, string) gomap \<Rightarrow> 'w \<Rightarrow> (api_error + ConfigMap list) \<times> 'w"
  rx_DeleteConfigMap :: "ConfigMap \<Rightarrow> 'w \<Rightarrow> api_error option \<times> 'w"
  rx_ListSecrets :: "string \<Rightarrow> (string, string) gomap \<Rightarrow> 'w \<Rightarrow> (api_error + Secret list) \<times> 'w"
  rx_DeleteSecret :: "Secret \<Rightarrow> 'w \<Rightarrow> api_error option \<times> 'w"
  rx_Auth :: "'w \<Rightarrow> auth_client \<times> 'w"
  rx_Registry :: "'w \<Rightarrow> unit registry_client \<times> 'w"
  rx_NewUUID :: "'w \<Rightarrow> string \<times> 'w"
  rx_ErrorText :: "api_error \<Rightarrow> string"
  rx_AccessText :: "access_error \<Rightarrow> string"

definition ScenariosRunPath :: string where
  "ScenariosRunPath = ''/api/v1/scenarios/run''"

definition ScenariosRunJobsPath :: string where
  "ScenariosRunJobsPath = ScenariosRunPath @ ''/jobs''"

text \<open>The user id as a label value (\<open>authorization.go\<close>).\<close>

definition api_sanitizeUserID :: "string \<Rightarrow> string" where
  "api_sanitizeUserID email = to_lower (replace_all (replace_all email CHR ''@'' CHR ''-'') CHR ''.'' CHR ''-'')"

definition owner_labels :: "token_claims option \<Rightarrow> (string, string) gomap" where
  "owner_labels claims =
    (case claims of None \<Rightarrow> [] | Some c \<Rightarrow> [(''krkn.krkn-chaos.dev/owner-user'', api_sanitizeUserID (cl_UserID c))])"

section \<open>Creating a run\<close>

fun check_names :: "string \<Rightarrow> string list \<Rightarrow> (string, string) gomap \<Rightarrow> string + (string, string) gomap" where
  "check_names providerName [] seen = Inr seen"
| "check_names providerName (clusterName # clusterNames) seen =
    (if clusterName = '''' then Inl ''cluster names cannot be empty''
     else case map_of seen clusterName of
         Some existingProvider \<Rightarrow> Inl (''cluster '' @ in_quotes clusterName @ '' appears in multiple providers: '' @
           in_quotes existingProvider @ '' and '' @ in_quotes providerName)
       | None \<Rightarrow> check_names providerName clusterNames (AList.update clusterName providerName seen))"

fun check_targets :: "target_clusters \<Rightarrow> (string, string) gomap \<Rightarrow> string option" where
  "check_targets [] seen = None"
| "check_targets ((providerName, clusterNames) # targets) seen =
    (if providerName = '''' then Some ''provider names cannot be empty''
     else if clusterNames = [] then Some (''provider '' @ in_quotes providerName @ '' must have at least one cluster'')
     else case check_names providerName clusterNames seen of
         Inl e \<Rightarrow> Some e
       | Inr seen' \<Rightarrow> check_targets targets seen')"

definition check_run_request :: "ScenarioRunRequest \<Rightarrow> run_body reply option" where
  "check_run_request req =
    (if srq_TargetRequestID req = '''' then Some (bad_request ''targetRequestId is required'')
     else if srq_TargetClusters req = []
     then Some (bad_request ''targetClusters is required and must contain at least one provider with clusters'')
     else if srq_ScenarioImage req = '''' then Some (bad_request ''scenarioImage is required'')
     else if srq_ScenarioName req = '''' then Some (bad_request ''scenarioName is required'')
     else map_option bad_request (check_targets (srq_TargetClusters req) []))"

definition may_start :: "'w run_client \<Rightarrow> auth_client \<Rightarrow> token_claims option \<Rightarrow> target_clusters \<Rightarrow> KrknTargetRequest \<Rightarrow> run_body reply option" where
  "may_start C A claims targetClusters targetRequest =
    (case claims of
       None \<Rightarrow> None
     | Some c \<Rightarrow>
         if IsAdmin claims then None
         else map_option (\<lambda>e. Failure 403 ''forbidden'' (rx_AccessText C e))
           (ValidateScenarioRunAccess A (cl_UserID c) (rx_Namespace C) targetClusters targetRequest))"

definition registry_for ::
  "unit registry_client \<Rightarrow> token_claims option \<Rightarrow> string option \<Rightarrow> run_body reply + (string \<times> RegistryV2) option" where
  "registry_for G claims registryName =
    (case registryName of
       None \<Rightarrow> Inr None
     | Some name \<Rightarrow>
         if name = '''' then Inr None
         else case loadRegistrySecret G name of
             Inl e \<Rightarrow> Inl (Failure 404 ''not_found'' (''Registry '' @ in_quotes name @ '' not found''))
           | Inr secret \<Rightarrow>
             if \<not> canAccessRegistry G claims secret
             then Inl (Failure 403 ''forbidden'' (''Access denied to registry '' @ in_quotes name))
             else case ExtractRegistryV2FromSecret secret of
                 Inl e \<Rightarrow> Inl (internal_error ''Failed to load registry configuration'')
               | Inr cfg \<Rightarrow> Inr (Some (name, cfg)))"

definition run_spec :: "ScenarioRunRequest \<Rightarrow> string \<Rightarrow> (string \<times> RegistryV2) option \<Rightarrow> KrknScenarioRunSpec" where
  "run_spec req owner registryConfig =
    (let base = zero_scenario_spec\<lparr>TargetRequestID := srq_TargetRequestID req, OwnerUserID := owner, TargetClusters := srq_TargetClusters req,
           ScenarioName := srq_ScenarioName req, ScenarioImage := srq_ScenarioImage req, KubeconfigPath := srq_KubeconfigPath req,
           Environment := srq_Environment req, Files := srq_Files req\<rparr>
     in case registryConfig of
         None \<Rightarrow> base
       | Some (name, cfg) \<Rightarrow>
           base\<lparr>RegistryName := name, RegistryURL := rv_RegistryURL cfg, ScenarioRepository := rv_ScenarioRepository cfg,
             Token := (case rv_Token cfg of None \<Rightarrow> '''' | Some t \<Rightarrow> t), Username := (case rv_Username cfg of None \<Rightarrow> '''' | Some u \<Rightarrow> u),
             Password := (case rv_Password cfg of None \<Rightarrow> '''' | Some p \<Rightarrow> p)\<rparr>)"

definition zero_run_status :: KrknScenarioRunStatus where
  "zero_run_status = \<lparr>sr_Phase = '''', TotalTargets = 0, SuccessfulJobs = 0, FailedJobs = 0, RunningJobs = 0, ClusterJobs = [], Conditions = None\<rparr>"

text \<open>The request becomes owned by the run; failures of this step are only logged.\<close>

definition own_request :: "'w run_client \<Rightarrow> KrknScenarioRun \<Rightarrow> KrknTargetRequest \<Rightarrow> ('w, 'r, unit) eff" where
  "own_request C run targetRequest =
    (case rx_OwnRequest C run targetRequest of
       Inl e \<Rightarrow> ret ()
     | Inr owned \<Rightarrow> bind_eff (step (rx_UpdateTargetRequest C owned)) (\<lambda>_. ret ()))"

definition PostScenarioRun :: "'w run_client \<Rightarrow> token_claims option \<Rightarrow> string + ScenarioRunRequest \<Rightarrow> 'w \<Rightarrow> run_body reply \<times> 'w" where
  "PostScenarioRun C claims body = run_handler
    (case body of
       Inl e \<Rightarrow> ret (bad_request (''Invalid request body: '' @ e))
     | Inr req \<Rightarrow>
       (case check_run_request req of
          Some failure \<Rightarrow> ret failure
        | None \<Rightarrow>
          bind_eff (call (rx_GetTargetRequest C (rx_Namespace C) (srq_TargetRequestID req)) (\<lambda>e. internal_error ''Failed to fetch target request'')) (\<lambda>targetRequest.
          if trs_Status (tr_Status targetRequest) \<noteq> ''Completed'' then stop (bad_request ''Target request is not completed yet'')
          else
          bind_eff (step (rx_Auth C)) (\<lambda>A.
          case may_start C A claims (srq_TargetClusters req) targetRequest of
            Some failure \<Rightarrow> stop failure
          | None \<Rightarrow>
            bind_eff (step (rx_Registry C)) (\<lambda>G.
            case registry_for G claims (srq_RegistryName req) of
              Inl failure \<Rightarrow> stop failure
            | Inr registryConfig \<Rightarrow>
              bind_eff (step (rx_NewUUID C)) (\<lambda>uuid.
              let scenarioRunName = srq_ScenarioName req @ ''-'' @ take 8 uuid;
                  ownerUserID = (case claims of None \<Rightarrow> '''' | Some c \<Rightarrow> cl_UserID c)
              in bind_eff (call (rx_CreateRun C \<lparr>sr_meta = meta_of scenarioRunName (rx_Namespace C) (owner_labels claims),
                     sr_Spec = run_spec req ownerUserID registryConfig, sr_Status = zero_run_status\<rparr>)
                   (\<lambda>e. internal_error ''Failed to create scenario run'')) (\<lambda>run.
                 bind_eff (own_request C run targetRequest) (\<lambda>_.
                 ret (Body 201 (ScenarioRunCreateResponse scenarioRunName (srq_TargetClusters req)
                   (sum_list (map (\<lambda>(p, clusters). int (length clusters)) (srq_TargetClusters req))) ownerUserID))))))))))"

section \<open>Reading runs\<close>

definition convertMetaTime :: "time option \<Rightarrow> time option" where
  "convertMetaTime mt = (case mt of None \<Rightarrow> None | Some t \<Rightarrow> Some t)"

definition job_response :: "ClusterJobStatus \<Rightarrow> ClusterJobStatusResponse" where
  "job_response job = \<lparr>cj_ProviderName = ProviderName job, cj_ClusterName = ClusterName job, cj_JobID = JobID job, cj_PodName = PodName job,
     cj_ContainerImage = ContainerImage job, cj_Phase = Phase job, cj_StartTime = convertMetaTime (StartTime job),
     cj_CompletionTime = convertMetaTime (CompletionTime job), cj_Message = ClusterJobStatus.Message job, cj_RetryCount = RetryCount job,
     cj_MaxRetries = MaxRetries job, cj_CancelRequested = CancelRequested job, cj_FailureReason = FailureReason job\<rparr>"

definition run_response :: "string \<Rightarrow> KrknScenarioRun \<Rightarrow> ClusterJobStatusResponse list \<Rightarrow> ScenarioRunStatusResponse" where
  "run_response scenarioRunName run js = \<lparr>ss_ScenarioRunName = scenarioRunName, ss_Phase = sr_Phase (sr_Status run),
     ss_TotalTargets = TotalTargets (sr_Status run), ss_SuccessfulJobs = SuccessfulJobs (sr_Status run), ss_FailedJobs = FailedJobs (sr_Status run),
     ss_RunningJobs = RunningJobs (sr_Status run), ss_ClusterJobs = js, ss_OwnerUserID = OwnerUserID (sr_Spec run),
     ss_RegistryName = RegistryName (sr_Spec run), ss_GraphRunName = get_str (Labels (sr_meta run)) ''krkn.dev/graph-run'',
     ss_GraphNodeID = get_str (Labels (sr_meta run)) ''krkn.dev/graph-node''\<rparr>"

text \<open>The jobs a caller sees: an early reply, or the jobs that are left.\<close>

definition visible_jobs :: "auth_client \<Rightarrow> string \<Rightarrow> token_claims option \<Rightarrow> string \<Rightarrow> KrknScenarioRun \<Rightarrow> run_body reply + ClusterJobStatus list" where
  "visible_jobs A ns claims scenarioRunName run =
    (case claims of
       None \<Rightarrow> Inr (ClusterJobs (sr_Status run))
     | Some c \<Rightarrow>
       if IsAdmin claims then Inr (ClusterJobs (sr_Status run))
       else case GetUserGroups A (cl_UserID c) ns of
           Inl e \<Rightarrow> Inl (internal_error ''Failed to fetch user groups'')
         | Inr userGroups \<Rightarrow>
             let jobsWithClusterURL = length (filter (\<lambda>job. ClusterAPIURL job \<noteq> '''') (ClusterJobs (sr_Status run)));
                 filteredJobs = filterJobsByPermission (ClusterJobs (sr_Status run)) userGroups ActionView
             in if filteredJobs = [] then
                  (if jobsWithClusterURL = 0 then Inl (Body 201 (ScenarioRunStatus (run_response scenarioRunName run [])))
                   else Inl (Failure 403 ''forbidden'' ''Access denied. You do not have permission to view jobs in this scenario run''))
                else Inr filteredJobs)"

definition GetScenarioRunStatus :: "'w run_client \<Rightarrow> token_claims option \<Rightarrow> string \<Rightarrow> 'w \<Rightarrow> run_body reply \<times> 'w" where
  "GetScenarioRunStatus C claims path = run_handler
    (case extractPathSuffix path (ScenariosRunPath @ ''/'') of
       Inl e \<Rightarrow> ret (bad_request (''scenarioRunName '' @ e))
     | Inr scenarioRunName \<Rightarrow>
       bind_eff (call (rx_GetRun C (rx_Namespace C) scenarioRunName) (\<lambda>e.
         if e = NotFound then Failure 404 ''not_found'' (''Scenario run '' @ in_quotes scenarioRunName @ '' not found'')
         else internal_error (''Failed to fetch scenario run: '' @ rx_ErrorText C e))) (\<lambda>run.
       bind_eff (step (rx_Auth C)) (\<lambda>A.
       case visible_jobs A (rx_Namespace C) claims scenarioRunName run of
         Inl early \<Rightarrow> stop early
       | Inr js \<Rightarrow> ret (Body 200 (ScenarioRunStatus (run_response scenarioRunName run (map job_response js)))))))"

definition run_item :: "KrknScenarioRun \<Rightarrow> ScenarioRunListItem" where
  "run_item sr = \<lparr>sl_ScenarioRunName = Name (sr_meta sr), sl_ScenarioName = ScenarioName (sr_Spec sr), sl_Phase = sr_Phase (sr_Status sr),
     sl_TotalTargets = TotalTargets (sr_Status sr), sl_SuccessfulJobs = SuccessfulJobs (sr_Status sr), sl_FailedJobs = FailedJobs (sr_Status sr),
     sl_RunningJobs = RunningJobs (sr_Status sr), sl_CreatedAt = CreationTimestamp (sr_meta sr), sl_OwnerUserID = OwnerUserID (sr_Spec sr),
     sl_GraphRunName = get_str (Labels (sr_meta sr)) ''krkn.dev/graph-run'', sl_GraphNodeID = get_str (Labels (sr_meta sr)) ''krkn.dev/graph-node''\<rparr>"

definition ListScenarioRuns :: "'w run_client \<Rightarrow> token_claims option \<Rightarrow> string \<Rightarrow> string \<Rightarrow> 'w \<Rightarrow> run_body reply \<times> 'w" where
  "ListScenarioRuns C claims phaseFilter scenarioNameFilter = run_handler
    (bind_eff (call (rx_ListRuns C (rx_Namespace C)) (\<lambda>e. internal_error ''Failed to list scenario runs'')) (\<lambda>allRuns.
     bind_eff (step (rx_Auth C)) (\<lambda>A.
     ret (Body 200 (ScenarioRunListResponse (map run_item
       (filter (\<lambda>sr. (phaseFilter = '''' \<or> sr_Phase (sr_Status sr) = phaseFilter) \<and>
            (scenarioNameFilter = '''' \<or> ScenarioName (sr_Spec sr) = scenarioNameFilter))
          (filterScenarioRunsByGroupPermission A allRuns claims))))))))"

text \<open>The dashboard: for each cluster the runs with a running job on it, once per such job.\<close>

fun add_running :: "string \<Rightarrow> ClusterJobStatus list \<Rightarrow> (string, string list) gomap \<Rightarrow> (string, string list) gomap" where
  "add_running name [] clusterRuns = clusterRuns"
| "add_running name (job # js) clusterRuns =
    (if Phase job = ''Running''
     then add_running name js (AList.update (ClusterName job) (get_list clusterRuns (ClusterName job) @ [name]) clusterRuns)
     else add_running name js clusterRuns)"

definition GetActiveRunsOverview :: "'w run_client \<Rightarrow> 'w \<Rightarrow> run_body reply \<times> 'w" where
  "GetActiveRunsOverview C = run_handler
    (bind_eff (call (rx_ListRuns C (rx_Namespace C)) (\<lambda>e. internal_error ''Failed to list scenario runs'')) (\<lambda>runs.
     let clusterRuns = fold (\<lambda>sr. add_running (Name (sr_meta sr)) (ClusterJobs (sr_Status sr))) runs [];
         activeRunsCount = length (filter (\<lambda>sr. list_ex (\<lambda>job. Phase job = ''Running'') (ClusterJobs (sr_Status sr))) runs)
     in ret (Body 200 (ActiveRunsOverviewResponse (int activeRunsCount) (int (length clusterRuns)) clusterRuns))))"

section \<open>Stopping and deleting\<close>

text \<open>\<open>DeleteScenarioRun\<close> is not reached by any route; it stops one job by its pod.\<close>

fun delete_each :: "('a \<Rightarrow> 'w \<Rightarrow> api_error option \<times> 'w) \<Rightarrow> 'a list \<Rightarrow> ('w, 'r, unit) eff" where
  "delete_each del [] = ret ()"
| "delete_each del (x # xs) = bind_eff (step (del x)) (\<lambda>_. delete_each del xs)"

definition denied :: "denial \<Rightarrow> 'a reply option" where
  "denied d = map_option (\<lambda>(status, err, msg). Failure status err msg) d"

definition check_pod_run :: "'w run_client \<Rightarrow> token_claims option \<Rightarrow> Pod \<Rightarrow> ('w, run_body reply, unit) eff" where
  "check_pod_run C claims pod =
    (let scenarioRunName = get_str (Labels (pod_meta pod)) ''krkn-scenario-run''
     in if scenarioRunName = '''' then ret ()
        else bind_eff (step (rx_GetRun C (rx_Namespace C) scenarioRunName)) (\<lambda>res.
          case res of
            Inl e \<Rightarrow> ret ()
          | Inr run \<Rightarrow>
              bind_eff (step (rx_Auth C)) (\<lambda>A.
              case denied (checkScenarioRunAccess A claims run) of Some failure \<Rightarrow> stop failure | None \<Rightarrow> ret ())))"

definition DeleteScenarioRun :: "'w run_client \<Rightarrow> token_claims option \<Rightarrow> string \<Rightarrow> 'w \<Rightarrow> run_body reply \<times> 'w" where
  "DeleteScenarioRun C claims path = run_handler
    (case extractPathSuffix path (ScenariosRunPath @ ''/'') of
       Inl e \<Rightarrow> ret (bad_request (''jobID '' @ e))
     | Inr job_id \<Rightarrow>
       bind_eff (call (rx_ListPods C (rx_Namespace C) [(''krkn-job-id'', job_id)]) (\<lambda>e. internal_error ''Failed to list pods'')) (\<lambda>pods.
       case pods of
         [] \<Rightarrow> stop (Failure 404 ''not_found'' (''Job with ID '' @ in_quotes job_id @ '' not found''))
       | pod # _ \<Rightarrow>
         bind_eff (check_pod_run C claims pod) (\<lambda>_.
         bind_eff (call_opt (rx_DeletePod C pod) (\<lambda>e. internal_error ''Failed to delete pod'')) (\<lambda>_.
         bind_eff (step (rx_ListConfigMaps C (rx_Namespace C) [(''krkn-job-id'', job_id)])) (\<lambda>cms.
         bind_eff (case cms of Inl e \<Rightarrow> ret () | Inr xs \<Rightarrow> delete_each (rx_DeleteConfigMap C) xs) (\<lambda>_.
         bind_eff (step (rx_ListSecrets C (rx_Namespace C) [(''krkn-job-id'', job_id)])) (\<lambda>secrets.
         bind_eff (case secrets of Inl e \<Rightarrow> ret () | Inr xs \<Rightarrow> delete_each (rx_DeleteSecret C) xs) (\<lambda>_.
         ret (Body 200 (JobStatusResponse job_id ''Stopped'' ''Job stopped and deleted successfully''))))))))))"

definition DeleteScenarioRunComplete :: "'w run_client \<Rightarrow> token_claims option \<Rightarrow> string \<Rightarrow> 'w \<Rightarrow> run_body reply \<times> 'w" where
  "DeleteScenarioRunComplete C claims path = run_handler
    (case extractPathSuffix path (ScenariosRunPath @ ''/'') of
       Inl e \<Rightarrow> ret (bad_request (''scenarioRunName '' @ e))
     | Inr scenarioRunName \<Rightarrow>
       bind_eff (call (rx_GetRun C (rx_Namespace C) scenarioRunName) (\<lambda>e.
         if e = NotFound then Failure 404 ''not_found'' (''Scenario run '' @ in_quotes scenarioRunName @ '' not found'')
         else internal_error (''Failed to get scenario run: '' @ rx_ErrorText C e))) (\<lambda>run.
       case claims of
         None \<Rightarrow> stop (Failure 401 ''unauthorized'' ''No authentication claims found'')
       | Some c \<Rightarrow>
         bind_eff (step (rx_Auth C)) (\<lambda>A.
         case checkScenarioRunCancelAccess A claims (cl_UserID c) run of
           Inl e \<Rightarrow> stop (internal_error ''Failed to validate cancel permissions'')
         | Inr hasAccess \<Rightarrow>
           if \<not> hasAccess
           then stop (Failure 403 ''forbidden'' ''Access denied. You must have cancel permission on all jobs in this run to delete it'')
           else
           bind_eff (call_opt (rx_DeleteRun C run) (\<lambda>e. internal_error ''Failed to delete scenario run'')) (\<lambda>_.
           ret (Body 204 RunNoContent)))))"

section \<open>Single jobs\<close>

text \<open>The first run with the job, and the position of the job in it.\<close>

fun find_job :: "string \<Rightarrow> KrknScenarioRun list \<Rightarrow> (KrknScenarioRun \<times> nat) option" where
  "find_job job_id [] = None"
| "find_job job_id (sr # runs) =
    (case find_index (\<lambda>job. JobID job = job_id) (ClusterJobs (sr_Status sr)) of
       Some j \<Rightarrow> Some (sr, j)
     | None \<Rightarrow> find_job job_id runs)"

definition cancel_job :: "nat \<Rightarrow> KrknScenarioRun \<Rightarrow> KrknScenarioRun" where
  "cancel_job j run = run\<lparr>sr_Status := (sr_Status run)\<lparr>ClusterJobs :=
     (ClusterJobs (sr_Status run))[j := (ClusterJobs (sr_Status run) ! j)\<lparr>CancelRequested := True\<rparr>]\<rparr>\<rparr>"

definition get_job :: "'w run_client \<Rightarrow> string \<Rightarrow> ('w, run_body reply, string \<times> KrknScenarioRun \<times> nat) eff" where
  "get_job C path =
    (case extractPathSuffix path (ScenariosRunJobsPath @ ''/'') of
       Inl e \<Rightarrow> stop (bad_request (''jobID '' @ e))
     | Inr job_id \<Rightarrow>
       bind_eff (call (rx_ListRuns C (rx_Namespace C)) (\<lambda>e. internal_error (''Failed to list scenario runs: '' @ rx_ErrorText C e))) (\<lambda>runs.
       case find_job job_id runs of
         None \<Rightarrow> stop (Failure 404 ''not_found'' (''Job '' @ in_quotes job_id @ '' not found''))
       | Some hit \<Rightarrow> ret (job_id, hit)))"

definition DeleteSingleJob :: "'w run_client \<Rightarrow> token_claims option \<Rightarrow> string \<Rightarrow> 'w \<Rightarrow> run_body reply \<times> 'w" where
  "DeleteSingleJob C claims path = run_handler
    (bind_eff (get_job C path) (\<lambda>found.
     let job_id = fst found; run = fst (snd found); j = snd (snd found)
     in bind_eff (step (rx_Auth C)) (\<lambda>A.
        case denied (checkJobAccess A claims (ClusterJobs (sr_Status run) ! j) ActionCancel ''cancel'') of
          Some failure \<Rightarrow> stop failure
        | None \<Rightarrow>
          bind_eff (call_opt (rx_UpdateRunStatus C (cancel_job j run)) (\<lambda>e. internal_error ''Failed to update scenario run status'')) (\<lambda>_.
          bind_eff (step (rx_ListPods C (rx_Namespace C) [(''krkn-job-id'', job_id)])) (\<lambda>pods.
          bind_eff (case pods of
              Inl e \<Rightarrow> ret ()
            | Inr xs \<Rightarrow> (case xs of [] \<Rightarrow> ret () | pod # _ \<Rightarrow> bind_eff (step (rx_DeletePod C pod)) (\<lambda>_. ret ()))) (\<lambda>_.
          ret (Body 204 RunNoContent)))))))"

definition GetSingleJob :: "'w run_client \<Rightarrow> token_claims option \<Rightarrow> string \<Rightarrow> 'w \<Rightarrow> run_body reply \<times> 'w" where
  "GetSingleJob C claims path = run_handler
    (bind_eff (get_job C path) (\<lambda>found.
     let job = ClusterJobs (sr_Status (fst (snd found))) ! snd (snd found)
     in bind_eff (step (rx_Auth C)) (\<lambda>A.
        case denied (checkJobAccess A claims job ActionView ''view'') of
          Some failure \<Rightarrow> stop failure
        | None \<Rightarrow> ret (Body 200 (JobBody ((job_response job)\<lparr>cj_ContainerImage := ''''\<rparr>))))))"

definition ScenariosRunRouter ::
  "'w run_client \<Rightarrow> token_claims option \<Rightarrow> string \<Rightarrow> string \<Rightarrow> (string \<Rightarrow> string) \<Rightarrow> string + ScenarioRunRequest \<Rightarrow> 'w \<Rightarrow> run_body reply \<times> 'w" where
  "ScenariosRunRouter C claims rmethod path query body w =
    (let not_allowed = (Body 405 (RunText ''Method not allowed''), w)
     in if path = ScenariosRunPath then
          (if rmethod = ''POST'' then PostScenarioRun C claims body w
           else if rmethod = ''GET'' then ListScenarioRuns C claims (query ''phase'') (query ''scenarioName'') w
           else not_allowed)
        else if has_prefix path (ScenariosRunPath @ ''/'') then
          (if has_prefix path (ScenariosRunJobsPath @ ''/'') then
             (if rmethod = ''GET'' then GetSingleJob C claims path w
              else if rmethod = ''DELETE'' then DeleteSingleJob C claims path w
              else not_allowed)
           else if rmethod = ''GET'' then GetScenarioRunStatus C claims path w
           else if rmethod = ''DELETE'' then DeleteScenarioRunComplete C claims path w
           else not_allowed)
        else (Body 404 (RunText ''Not found''), w))"

section \<open>Who may run, see, cancel and delete\<close>

datatype run_event =
    RequestFetched string string "api_error + KrknTargetRequest"
  | RequestOwned KrknTargetRequest "api_error option"
  | RunRead string string "api_error + KrknScenarioRun"
  | RunsListed string "api_error + KrknScenarioRun list"
  | RunCreate KrknScenarioRun "api_error + KrknScenarioRun"
  | RunDelete KrknScenarioRun "api_error option"
  | RunStatus KrknScenarioRun "api_error option"
  | PodsListed string "(string, string) gomap" "api_error + Pod list"
  | PodDelete Pod "api_error option"
  | MapsListed string "(string, string) gomap" "api_error + ConfigMap list"
  | MapDelete ConfigMap "api_error option"
  | SecretsListed string "(string, string) gomap" "api_error + Secret list"
  | JobSecretDelete Secret "api_error option"
  | RunAuth auth_client
  | RunRegistry "unit registry_client"
  | RunUUID string

definition logged_runs :: "'w run_client \<Rightarrow> ('w \<times> run_event list) run_client" where
  "logged_runs C = \<lparr>rx_Namespace = rx_Namespace C,
     rx_GetTargetRequest = (\<lambda>ns n. noting (rx_GetTargetRequest C ns n) (RequestFetched ns n)),
     rx_UpdateTargetRequest = (\<lambda>r. noting (rx_UpdateTargetRequest C r) (RequestOwned r)), rx_OwnRequest = rx_OwnRequest C,
     rx_GetRun = (\<lambda>ns n. noting (rx_GetRun C ns n) (RunRead ns n)), rx_ListRuns = (\<lambda>ns. noting (rx_ListRuns C ns) (RunsListed ns)),
     rx_CreateRun = (\<lambda>r. noting (rx_CreateRun C r) (RunCreate r)), rx_DeleteRun = (\<lambda>r. noting (rx_DeleteRun C r) (RunDelete r)),
     rx_UpdateRunStatus = (\<lambda>r. noting (rx_UpdateRunStatus C r) (RunStatus r)),
     rx_ListPods = (\<lambda>ns ls. noting (rx_ListPods C ns ls) (PodsListed ns ls)), rx_DeletePod = (\<lambda>p. noting (rx_DeletePod C p) (PodDelete p)),
     rx_ListConfigMaps = (\<lambda>ns ls. noting (rx_ListConfigMaps C ns ls) (MapsListed ns ls)),
     rx_DeleteConfigMap = (\<lambda>m. noting (rx_DeleteConfigMap C m) (MapDelete m)),
     rx_ListSecrets = (\<lambda>ns ls. noting (rx_ListSecrets C ns ls) (SecretsListed ns ls)),
     rx_DeleteSecret = (\<lambda>s. noting (rx_DeleteSecret C s) (JobSecretDelete s)),
     rx_Auth = noting (rx_Auth C) RunAuth, rx_Registry = noting (rx_Registry C) RunRegistry, rx_NewUUID = noting (rx_NewUUID C) RunUUID,
     rx_ErrorText = rx_ErrorText C, rx_AccessText = rx_AccessText C\<rparr>"

lemma logged_runs_simps [simp]:
  "rx_Namespace (logged_runs C) = rx_Namespace C" "rx_OwnRequest (logged_runs C) = rx_OwnRequest C"
  "rx_GetTargetRequest (logged_runs C) ns n = noting (rx_GetTargetRequest C ns n) (RequestFetched ns n)"
  "rx_UpdateTargetRequest (logged_runs C) tr = noting (rx_UpdateTargetRequest C tr) (RequestOwned tr)"
  "rx_GetRun (logged_runs C) ns n = noting (rx_GetRun C ns n) (RunRead ns n)"
  "rx_ListRuns (logged_runs C) ns = noting (rx_ListRuns C ns) (RunsListed ns)"
  "rx_CreateRun (logged_runs C) r = noting (rx_CreateRun C r) (RunCreate r)"
  "rx_DeleteRun (logged_runs C) r = noting (rx_DeleteRun C r) (RunDelete r)"
  "rx_UpdateRunStatus (logged_runs C) r = noting (rx_UpdateRunStatus C r) (RunStatus r)"
  "rx_ListPods (logged_runs C) ns ls = noting (rx_ListPods C ns ls) (PodsListed ns ls)"
  "rx_DeletePod (logged_runs C) p = noting (rx_DeletePod C p) (PodDelete p)"
  "rx_Auth (logged_runs C) = noting (rx_Auth C) RunAuth"
  "rx_Registry (logged_runs C) = noting (rx_Registry C) RunRegistry"
  "rx_NewUUID (logged_runs C) = noting (rx_NewUUID C) RunUUID"
  by (simp_all add: logged_runs_def)

text \<open>What the creation of a run needs: permission for the targets and for the registry whose credentials the run carries.\<close>

abbreviation or_empty :: "string option \<Rightarrow> string" where
  "or_empty x \<equiv> (case x of None \<Rightarrow> '''' | Some s \<Rightarrow> s)"

definition run_permitted :: "string \<Rightarrow> token_claims option \<Rightarrow> run_event list \<Rightarrow> KrknScenarioRunSpec \<Rightarrow> bool" where
  "run_permitted ns claims log s \<longleftrightarrow>
    (\<exists>tr A G. RequestFetched ns (TargetRequestID s) (Inr tr) \<in> set log \<and> trs_Status (tr_Status tr) = ''Completed'' \<and>
       RunAuth A \<in> set log \<and> RunRegistry G \<in> set log \<and> distinct (map snd (target_pairs (TargetClusters s))) \<and>
       (case claims of None \<Rightarrow> OwnerUserID s = ''''
        | Some c \<Rightarrow> OwnerUserID s = cl_UserID c \<and> (cl_Role c = ''admin'' \<or> may_run_on A (cl_UserID c) ns (TargetClusters s) tr)) \<and>
       (if RegistryName s = '''' then Token s = '''' \<and> Username s = '''' \<and> Password s = '''' \<and> RegistryURL s = ''''
        else \<exists>secret cfg. loadRegistrySecret G (RegistryName s) = Inr secret \<and> canAccessRegistry G claims secret \<and>
          ExtractRegistryV2FromSecret secret = Inr cfg \<and> RegistryURL s = rv_RegistryURL cfg \<and>
          Token s = or_empty (rv_Token cfg) \<and> Username s = or_empty (rv_Username cfg) \<and> Password s = or_empty (rv_Password cfg)))"

text \<open>Permissions on a job and on a whole run. Jobs without an address do not stop anybody from deleting the run.\<close>

definition may_access_job :: "auth_client \<Rightarrow> token_claims option \<Rightarrow> ClusterJobStatus \<Rightarrow> string \<Rightarrow> bool" where
  "may_access_job A claims job action \<longleftrightarrow>
    (\<exists>c. claims = Some c \<and> (cl_Role c = ''admin'' \<or>
       ClusterAPIURL job \<noteq> '''' \<and> HasClusterPermission A (cl_UserID c) (ac_Namespace A) (ClusterAPIURL job) action = Inr True))"

definition may_delete_run :: "auth_client \<Rightarrow> token_claims option \<Rightarrow> KrknScenarioRun \<Rightarrow> bool" where
  "may_delete_run A claims run \<longleftrightarrow>
    (\<exists>c. claims = Some c \<and> (cl_Role c = ''admin'' \<or>
       (\<exists>groups. GetUserGroups A (cl_UserID c) (ac_Namespace A) = Inr groups \<and> groups \<noteq> [] \<and>
          list_all (\<lambda>job. ClusterAPIURL job = '''' \<or> CanPerformAction groups (ClusterAPIURL job) ActionCancel) (ClusterJobs (sr_Status run)))))"

definition cancels :: "string \<Rightarrow> token_claims option \<Rightarrow> string \<Rightarrow> run_event list \<Rightarrow> nat \<Rightarrow> KrknScenarioRun \<Rightarrow> bool" where
  "cancels ns claims path log j run \<longleftrightarrow>
    (\<exists>A runs. RunsListed ns (Inr runs) \<in> set log \<and> run \<in> set runs \<and> j < length (ClusterJobs (sr_Status run)) \<and> RunAuth A \<in> set log \<and>
       extractPathSuffix path (ScenariosRunJobsPath @ ''/'') = Inr (JobID (ClusterJobs (sr_Status run) ! j)) \<and>
       may_access_job A claims (ClusterJobs (sr_Status run) ! j) ActionCancel)"

fun run_call_ok :: "string \<Rightarrow> token_claims option \<Rightarrow> string \<Rightarrow> run_event list \<Rightarrow> run_event \<Rightarrow> bool" where
  "run_call_ok ns claims path log (RunCreate run x) \<longleftrightarrow> run_permitted ns claims log (sr_Spec run)"
| "run_call_ok ns claims path log (RequestOwned tr x) \<longleftrightarrow> (\<exists>run run'. RunCreate run (Inr run') \<in> set log)"
| "run_call_ok ns claims path log (RunDelete run x) \<longleftrightarrow>
    (\<exists>A n. extractPathSuffix path (ScenariosRunPath @ ''/'') = Inr n \<and> RunRead ns n (Inr run) \<in> set log \<and> RunAuth A \<in> set log \<and>
       may_delete_run A claims run)"
| "run_call_ok ns claims path log (RunStatus run' x) \<longleftrightarrow> (\<exists>j run. run' = cancel_job j run \<and> cancels ns claims path log j run)"
| "run_call_ok ns claims path log (PodDelete pod x) \<longleftrightarrow>
    (\<exists>j run ps. cancels ns claims path log j run \<and> RunStatus (cancel_job j run) None \<in> set log \<and>
       PodsListed ns [(''krkn-job-id'', JobID (ClusterJobs (sr_Status run) ! j))] (Inr (pod # ps)) \<in> set log)"
| "run_call_ok ns claims path log (MapDelete m x) \<longleftrightarrow> False"
| "run_call_ok ns claims path log (JobSecretDelete s x) \<longleftrightarrow> False"
| "run_call_ok ns claims path log _ \<longleftrightarrow> True"

definition sees_job :: "auth_client \<Rightarrow> string \<Rightarrow> token_claims option \<Rightarrow> ClusterJobStatus \<Rightarrow> bool" where
  "sees_job A ns claims job \<longleftrightarrow>
    (case claims of None \<Rightarrow> True
     | Some c \<Rightarrow> cl_Role c = ''admin'' \<or> ClusterAPIURL job \<noteq> '''' \<and> HasClusterPermission A (cl_UserID c) ns (ClusterAPIURL job) ActionView = Inr True)"

text \<open>A run is listed for those who see one of its jobs; its summary is shown to them, and to everybody as long as no job has an address.\<close>

definition sees_run :: "auth_client \<Rightarrow> string \<Rightarrow> token_claims option \<Rightarrow> KrknScenarioRun \<Rightarrow> bool" where
  "sees_run A ns claims run \<longleftrightarrow>
    (case claims of None \<Rightarrow> True | Some c \<Rightarrow> cl_Role c = ''admin'' \<or> list_ex (sees_job A ns claims) (ClusterJobs (sr_Status run)))"

definition run_reply_ok :: "string \<Rightarrow> token_claims option \<Rightarrow> string \<Rightarrow> run_body reply \<Rightarrow> run_event list \<Rightarrow> bool" where
  "run_reply_ok ns claims path r log \<longleftrightarrow>
    (case r of
       Failure st e m \<Rightarrow> True
     | Body st b \<Rightarrow>
       (case b of
          ScenarioRunStatus s \<Rightarrow>
            (\<exists>run A n. extractPathSuffix path (ScenariosRunPath @ ''/'') = Inr n \<and> RunRead ns n (Inr run) \<in> set log \<and> RunAuth A \<in> set log \<and>
               s = run_response n run (map job_response (filter (sees_job A ns claims) (ClusterJobs (sr_Status run)))) \<and>
               (sees_run A ns claims run \<or> list_all (\<lambda>job. ClusterAPIURL job = '''') (ClusterJobs (sr_Status run))))
        | JobBody j \<Rightarrow>
            (\<exists>runs run job A. RunsListed ns (Inr runs) \<in> set log \<and> run \<in> set runs \<and> job \<in> set (ClusterJobs (sr_Status run)) \<and> RunAuth A \<in> set log \<and>
               extractPathSuffix path (ScenariosRunJobsPath @ ''/'') = Inr (JobID job) \<and>
               j = (job_response job)\<lparr>cj_ContainerImage := ''''\<rparr> \<and> may_access_job A claims job ActionView)
        | ScenarioRunListResponse items \<Rightarrow>
            (\<exists>runs A. RunsListed ns (Inr runs) \<in> set log \<and> RunAuth A \<in> set log \<and>
               set items \<subseteq> run_item ` {run \<in> set runs. sees_run A (ac_Namespace A) claims run})
        | ScenarioRunCreateResponse n ts jobs_total owner \<Rightarrow> (\<exists>run run'. RunCreate run (Inr run') \<in> set log \<and> Name (sr_meta run) = n)
        | ActiveRunsOverviewResponse n m d \<Rightarrow> False
        | _ \<Rightarrow> True))"

definition run_ok :: "string \<Rightarrow> token_claims option \<Rightarrow> string \<Rightarrow> run_body reply \<Rightarrow> run_event list \<Rightarrow> bool" where
  "run_ok ns claims path r log \<longleftrightarrow> list_all (run_call_ok ns claims path log) log \<and> run_reply_ok ns claims path r log"

lemma check_names_Inr:
  "check_names p cs seen = Inr seen' \<Longrightarrow>
   distinct cs \<and> set cs \<inter> dom (map_of seen) = {} \<and> dom (map_of seen') = set cs \<union> dom (map_of seen)"
proof (induction cs arbitrary: seen)
  case (Cons c cs)
  then have c: "map_of seen c = None" "check_names p cs (AList.update c p seen) = Inr seen'"
    by (auto split: if_splits option.splits)
  have "dom (map_of (AList.update c p seen)) = insert c (dom (map_of seen))" by (simp add: alist.get_put)
  with Cons.IH[OF c(2)] c(1) show ?case by auto
qed simp

lemma map_snd_target_pairs: "map snd (target_pairs ts) = concat (map snd ts)"
  by (induction ts) (auto simp: target_pairs_def comp_def)

text \<open>The check of the targets ensures that no cluster is named twice.\<close>

lemma check_targets_distinct:
  "check_targets ts seen = None \<Longrightarrow> distinct (map snd (target_pairs ts)) \<and> set (map snd (target_pairs ts)) \<inter> dom (map_of seen) = {}"
  unfolding map_snd_target_pairs
proof (induction ts arbitrary: seen)
  case (Cons t ts)
  obtain p cs where t: "t = (p, cs)" by fastforce
  with Cons.prems obtain seen' where n: "check_names p cs seen = Inr seen'" "check_targets ts seen' = None"
    by (auto split: if_splits sum.splits)
  have "set (concat (map snd ts)) \<inter> (set cs \<union> dom (map_of seen)) = {}" "distinct (concat (map snd ts))"
    using Cons.IH[OF n(2)] check_names_Inr[OF n(1)] by auto
  then show ?case using check_names_Inr[OF n(1)] by (simp add: t Int_Un_distrib Int_commute) blast
qed simp

lemma check_run_request_None: "check_run_request req = None \<Longrightarrow> distinct (map snd (target_pairs (srq_TargetClusters req)))"
  using check_targets_distinct[of "srq_TargetClusters req" "[]"] by (auto simp: check_run_request_def split: if_splits)

lemma find_index_nth: "find_index P xs = Some i \<Longrightarrow> i < length xs \<and> P (xs ! i)"
  by (induction xs arbitrary: i) (auto split: if_splits)

lemma find_job_Some:
  "find_job j runs = Some (run, i) \<Longrightarrow> run \<in> set runs \<and> i < length (ClusterJobs (sr_Status run)) \<and> JobID (ClusterJobs (sr_Status run) ! i) = j"
  by (induction runs) (auto split: option.splits dest: find_index_nth)

lemma denied_iff [simp]: "denied d = None \<longleftrightarrow> d = None"
  by (simp add: denied_def)

lemma sees_job_groups:
  "GetUserGroups A (cl_UserID c) ns = Inr groups \<Longrightarrow> cl_Role c \<noteq> ''admin'' \<Longrightarrow>
   filter (sees_job A ns (Some c)) js = filterJobsByPermission js groups ActionView"
  using grp.can_Nil by (auto simp: filterJobsByPermission_def sees_job_def HasClusterPermission_def split: if_splits intro!: filter_cong)

lemma visible_jobs_Inr:
  assumes "visible_jobs A ns claims n run = Inr js"
  shows "js = filter (sees_job A ns claims) (ClusterJobs (sr_Status run)) \<and> sees_run A ns claims run"
proof (cases "\<exists>c. claims = Some c \<and> cl_Role c \<noteq> ''admin''")
  case False
  then show ?thesis using assms by (auto simp: visible_jobs_def sees_job_def sees_run_def IsAdmin_def split: option.splits)
next
  case True
  then obtain c where c: "claims = Some c" "cl_Role c \<noteq> ''admin''" by blast
  with assms obtain groups where "GetUserGroups A (cl_UserID c) ns = Inr groups" "js = filterJobsByPermission (ClusterJobs (sr_Status run)) groups ActionView" "js \<noteq> []"
    by (auto simp: visible_jobs_def IsAdmin_def Let_def split: sum.splits if_splits)
  with c sees_job_groups[of A c ns groups "ClusterJobs (sr_Status run)"] have
    "js = filter (sees_job A ns claims) (ClusterJobs (sr_Status run))" "filter (sees_job A ns claims) (ClusterJobs (sr_Status run)) \<noteq> []" by simp_all
  then show ?thesis using c by (auto simp: sees_run_def list_ex_iff filter_empty_conv)
qed

lemma visible_jobs_Inl:
  assumes "visible_jobs A ns claims n run = Inl r"
  shows "(\<exists>st e m. r = Failure st e m) \<or> r = Body 201 (ScenarioRunStatus (run_response n run [])) \<and>
    filter (sees_job A ns claims) (ClusterJobs (sr_Status run)) = [] \<and> list_all (\<lambda>job. ClusterAPIURL job = '''') (ClusterJobs (sr_Status run))"
  using assms
  by (auto simp: visible_jobs_def sees_job_def IsAdmin_def Let_def internal_error_def list_all_iff filter_empty_conv
      split: option.splits if_splits sum.splits)

lemma filterScenarioRuns_sees:
  "set (filterScenarioRunsByGroupPermission A runs claims) = {run \<in> set runs. sees_run A (ac_Namespace A) claims run}"
proof -
  have "checkScenarioRunGroupAccess A u run ActionView = Inr True \<longleftrightarrow> (\<exists>job \<in> set (ClusterJobs (sr_Status run)). ClusterAPIURL job \<noteq> '''' \<and>
      HasClusterPermission A u (ac_Namespace A) (ClusterAPIURL job) ActionView = Inr True)" for u run
    by (auto simp: checkScenarioRunGroupAccess_def HasClusterPermission_def list_ex_iff split: sum.splits)
  then show ?thesis
    by (auto simp: filterScenarioRunsByGroupPermission_def sees_run_def sees_job_def list_ex_iff split: option.splits)
qed

lemma checkJobAccess_None: "checkJobAccess A claims job a name = None \<longleftrightarrow> may_access_job A claims job a"
  by (auto simp: checkJobAccess_def may_access_job_def IsAdmin_def split: option.splits sum.splits)

lemma may_delete_run_iff:
  "claims = Some c \<Longrightarrow> checkScenarioRunCancelAccess A claims (cl_UserID c) run = Inr True \<longleftrightarrow> may_delete_run A claims run"
  by (auto simp: checkScenarioRunCancelAccess_def may_delete_run_def IsAdmin_def split: sum.splits)

text \<open>Replies that show nothing.\<close>

fun shows_nothing :: "run_body reply \<Rightarrow> bool" where
  "shows_nothing (Failure st e m) \<longleftrightarrow> True"
| "shows_nothing (Body st b) \<longleftrightarrow> (case b of RunText m \<Rightarrow> True | RunNoContent \<Rightarrow> True | _ \<Rightarrow> False)"

lemma run_reply_nothing [simp]: "shows_nothing r \<Longrightarrow> run_reply_ok ns claims path r log"
  by (cases r) (auto simp: run_reply_ok_def split: run_body.splits)

lemma shows_nothing_simps [simp]:
  "shows_nothing (bad_request m)" "shows_nothing (internal_error m)" "denied d = Some r \<Longrightarrow> shows_nothing r"
  "check_run_request req = Some r \<Longrightarrow> shows_nothing r" "may_start C A claims ts tr = Some r \<Longrightarrow> shows_nothing r"
  "registry_for G claims n = Inl r \<Longrightarrow> shows_nothing r"
  by (auto simp: bad_request_def internal_error_def denied_def check_run_request_def may_start_def registry_for_def
      split: if_splits option.splits sum.splits)

lemma may_start_None:
  "may_start C A claims ts tr = None \<Longrightarrow> claims = Some c \<Longrightarrow> cl_Role c = ''admin'' \<or> may_run_on A (cl_UserID c) (rx_Namespace C) ts tr"
  by (auto simp: may_start_def IsAdmin_def split: if_splits dest: ValidateScenarioRunAccess_may_run)

lemma registry_for_Inr:
  "registry_for G claims n = Inr (Some (name, cfg)) \<Longrightarrow>
   name \<noteq> '''' \<and> (\<exists>secret. loadRegistrySecret G name = Inr secret \<and> canAccessRegistry G claims secret \<and> ExtractRegistryV2FromSecret secret = Inr cfg)"
  by (auto simp: registry_for_def split: option.splits if_splits sum.splits)

lemma run_spec_permitted:
  assumes "registry_for G claims n = Inr rc" and s_def: "s = run_spec req owner rc"
  shows "TargetRequestID s = srq_TargetRequestID req" and "TargetClusters s = srq_TargetClusters req" and "OwnerUserID s = owner"
    and "(if RegistryName s = '''' then Token s = '''' \<and> Username s = '''' \<and> Password s = '''' \<and> RegistryURL s = ''''
     else \<exists>secret cfg. loadRegistrySecret G (RegistryName s) = Inr secret \<and> canAccessRegistry G claims secret \<and>
       ExtractRegistryV2FromSecret secret = Inr cfg \<and> RegistryURL s = rv_RegistryURL cfg \<and>
       Token s = or_empty (rv_Token cfg) \<and> Username s = or_empty (rv_Username cfg) \<and> Password s = or_empty (rv_Password cfg))"
proof -
  show "TargetRequestID s = srq_TargetRequestID req" "TargetClusters s = srq_TargetClusters req" "OwnerUserID s = owner"
    by (cases rc; simp add: s_def run_spec_def Let_def split: prod.splits)+
  show "if RegistryName s = '''' then Token s = '''' \<and> Username s = '''' \<and> Password s = '''' \<and> RegistryURL s = ''''
     else \<exists>secret cfg. loadRegistrySecret G (RegistryName s) = Inr secret \<and> canAccessRegistry G claims secret \<and>
       ExtractRegistryV2FromSecret secret = Inr cfg \<and> RegistryURL s = rv_RegistryURL cfg \<and>
       Token s = or_empty (rv_Token cfg) \<and> Username s = or_empty (rv_Username cfg) \<and> Password s = or_empty (rv_Password cfg)"
  proof (cases rc)
    case (Some x)
    obtain name cfg where x: "x = (name, cfg)" by fastforce
    show ?thesis
      using registry_for_Inr[of G claims n name cfg] assms(1) Some x by (auto simp: s_def run_spec_def Let_def)
  qed (simp add: s_def run_spec_def zero_scenario_spec_def)
qed

lemma run_permittedI:
  assumes "check_run_request req = None" "trs_Status (tr_Status tr) = ''Completed''" "may_start C A claims (srq_TargetClusters req) tr = None"
    and "registry_for G claims (srq_RegistryName req) = Inr rc" "owner = (case claims of None \<Rightarrow> '''' | Some c \<Rightarrow> cl_UserID c)"
    and "RequestFetched (rx_Namespace C) (srq_TargetRequestID req) (Inr tr) \<in> set log" "RunAuth A \<in> set log" "RunRegistry G \<in> set log"
  shows "run_permitted (rx_Namespace C) claims log (run_spec req owner rc)"
proof -
  note S = run_spec_permitted[OF assms(4) refl, of req owner]
  have "case claims of None \<Rightarrow> owner = ''''
     | Some c \<Rightarrow> owner = cl_UserID c \<and> (cl_Role c = ''admin'' \<or> may_run_on A (cl_UserID c) (rx_Namespace C) (srq_TargetClusters req) tr)"
    using may_start_None[OF assms(3)] assms(5) by (auto split: option.splits)
  then show ?thesis
    unfolding run_permitted_def S(1-3) using assms(2,6-8) check_run_request_None[OF assms(1)] S(4) by blast
qed

lemma PostScenarioRun_ok:
  "case PostScenarioRun (logged_runs C) claims body (w, []) of (r, (w', log)) \<Rightarrow> run_ok (rx_Namespace C) claims path r log"
  unfolding PostScenarioRun_def
  by (rule run_handler_ensures, unfold logged_runs_simps own_request_def, intro ensures_rules)
    (auto simp: run_ok_def run_reply_ok_def[of _ _ _ "Body _ _"] meta_of_def intro!: run_permittedI[where C = "logged_runs C", unfolded logged_runs_simps])

lemma run_reply_early:
  "visible_jobs A ns claims n run = Inl r \<Longrightarrow> extractPathSuffix path (ScenariosRunPath @ ''/'') = Inr n \<Longrightarrow>
   RunRead ns n (Inr run) \<in> set log \<Longrightarrow> RunAuth A \<in> set log \<Longrightarrow> run_reply_ok ns claims path r log"
  by (drule visible_jobs_Inl, elim disjE) (auto simp: run_reply_ok_def intro!: exI[of _ run] exI[of _ A] exI[of _ n])

lemma run_reply_visible:
  "visible_jobs A ns claims n run = Inr js \<Longrightarrow> extractPathSuffix path (ScenariosRunPath @ ''/'') = Inr n \<Longrightarrow>
   RunRead ns n (Inr run) \<in> set log \<Longrightarrow> RunAuth A \<in> set log \<Longrightarrow>
   run_reply_ok ns claims path (Body st (ScenarioRunStatus (run_response n run (map job_response js)))) log"
  by (drule visible_jobs_Inr) (auto simp: run_reply_ok_def intro!: exI[of _ run] exI[of _ A] exI[of _ n])

lemma GetScenarioRunStatus_ok:
  "case GetScenarioRunStatus (logged_runs C) claims path (w, []) of (r, (w', log)) \<Rightarrow> run_ok (rx_Namespace C) claims path r log"
  unfolding GetScenarioRunStatus_def
  by (rule run_handler_ensures, unfold logged_runs_simps, intro ensures_rules)
    (auto simp: run_ok_def elim: run_reply_visible run_reply_early)

lemma ListScenarioRuns_ok:
  "case ListScenarioRuns (logged_runs C) claims ph nm (w, []) of (r, (w', log)) \<Rightarrow> run_ok (rx_Namespace C) claims path r log"
  unfolding ListScenarioRuns_def
  by (rule run_handler_ensures, unfold logged_runs_simps, intro ensures_rules)
    (auto simp: run_ok_def run_reply_ok_def[of _ _ _ "Body _ _"] filterScenarioRuns_sees)

lemma DeleteScenarioRunComplete_ok:
  "case DeleteScenarioRunComplete (logged_runs C) claims path (w, []) of (r, (w', log)) \<Rightarrow> run_ok (rx_Namespace C) claims path r log"
  unfolding DeleteScenarioRunComplete_def
  by (rule run_handler_ensures, unfold logged_runs_simps, intro ensures_rules)
    (auto simp: run_ok_def may_delete_run_iff[symmetric])

lemma cancelsI:
  "find_job j runs = Some (run, i) \<Longrightarrow> may_access_job A claims (ClusterJobs (sr_Status run) ! i) ActionCancel \<Longrightarrow>
   extractPathSuffix path (ScenariosRunJobsPath @ ''/'') = Inr j \<Longrightarrow>
   RunsListed ns (Inr runs) \<in> set log \<Longrightarrow> RunAuth A \<in> set log \<Longrightarrow> cancels ns claims path log i run \<and> JobID (ClusterJobs (sr_Status run) ! i) = j"
  using find_job_Some[of j runs run i] by (auto simp: cancels_def)

lemma run_status_ok:
  "find_job j runs = Some (run, i) \<Longrightarrow> may_access_job A claims (ClusterJobs (sr_Status run) ! i) ActionCancel \<Longrightarrow>
   extractPathSuffix path (ScenariosRunJobsPath @ ''/'') = Inr j \<Longrightarrow>
   RunsListed ns (Inr runs) \<in> set log \<Longrightarrow> RunAuth A \<in> set log \<Longrightarrow> run_call_ok ns claims path log (RunStatus (cancel_job i run) x)"
  using cancelsI[of j runs run i A claims path ns log] by auto

lemma pod_delete_ok:
  "find_job j runs = Some (run, i) \<Longrightarrow> may_access_job A claims (ClusterJobs (sr_Status run) ! i) ActionCancel \<Longrightarrow>
   extractPathSuffix path (ScenariosRunJobsPath @ ''/'') = Inr j \<Longrightarrow>
   RunsListed ns (Inr runs) \<in> set log \<Longrightarrow> RunAuth A \<in> set log \<Longrightarrow> RunStatus (cancel_job i run) None \<in> set log \<Longrightarrow>
   PodsListed ns [(''krkn-job-id'', j)] (Inr (pod # ps)) \<in> set log \<Longrightarrow> run_call_ok ns claims path log (PodDelete pod x)"
  using cancelsI[of j runs run i A claims path ns log] by auto

lemma DeleteSingleJob_ok:
  "case DeleteSingleJob (logged_runs C) claims path (w, []) of (r, (w', log)) \<Rightarrow> run_ok (rx_Namespace C) claims path r log"
  unfolding DeleteSingleJob_def
  by (rule run_handler_ensures, unfold logged_runs_simps get_job_def, intro ensures_rules)
    (auto simp: run_ok_def checkJobAccess_None simp del: run_call_ok.simps(4,5) intro: run_status_ok pod_delete_ok)

lemma run_reply_job:
  "find_job j runs = Some (run, i) \<Longrightarrow> may_access_job A claims (ClusterJobs (sr_Status run) ! i) ActionView \<Longrightarrow>
   extractPathSuffix path (ScenariosRunJobsPath @ ''/'') = Inr j \<Longrightarrow> RunsListed ns (Inr runs) \<in> set log \<Longrightarrow> RunAuth A \<in> set log \<Longrightarrow>
   run_reply_ok ns claims path (Body 200 (JobBody ((job_response (ClusterJobs (sr_Status run) ! i))\<lparr>cj_ContainerImage := []\<rparr>))) log"
  using find_job_Some[of j runs run i]
  by (auto simp: run_reply_ok_def intro!: exI[of _ runs] exI[of _ run] exI[of _ "ClusterJobs (sr_Status run) ! i"] exI[of _ A])

lemma GetSingleJob_ok:
  "case GetSingleJob (logged_runs C) claims path (w, []) of (r, (w', log)) \<Rightarrow> run_ok (rx_Namespace C) claims path r log"
  unfolding GetSingleJob_def
  by (rule run_handler_ensures, unfold logged_runs_simps get_job_def, intro ensures_rules)
    (auto simp: run_ok_def checkJobAccess_None intro: run_reply_job)

lemma ScenariosRunRouter_ok:
  "case ScenariosRunRouter (logged_runs C) claims rmethod path query body (w, []) of (r, (w', log)) \<Rightarrow> run_ok (rx_Namespace C) claims path r log"
proof -
  have "run_ok (rx_Namespace C) claims path (Body st (RunText m)) []" for st m by (simp add: run_ok_def)
  then show ?thesis
    using PostScenarioRun_ok[of C claims path body w] ListScenarioRuns_ok[of C claims path "query ''phase''" "query ''scenarioName''" w]
      GetSingleJob_ok[of C claims path w] DeleteSingleJob_ok[of C claims path w] GetScenarioRunStatus_ok[of C claims path w]
      DeleteScenarioRunComplete_ok[of C claims path w]
    by (cases "path = ScenariosRunPath") (simp_all add: ScenariosRunRouter_def Let_def)
qed

text \<open>
  C19. Whatever request reaches the endpoints of scenario runs, and whatever the cluster answers. A run is created only for a completed target request
  and clusters named once each, in the name of the caller, who is an administrator or has the run permission on a cluster of each of these
  names in the target request, and with the credentials of a registry only if they are those in the secret of a registry that the caller may use. A target
  request gets an owner only after a run was created. A run is deleted only if it is the one named in the path and the caller is an administrator or has a group, and the cancel permission on every job of it that has an
  address. A job is cancelled, and its pod deleted, only if it is the one named in the path, the caller is an administrator or has the cancel permission on its cluster, and
  the cancellation has been recorded before the pod is deleted; no other pod, no config map and no secret is deleted. A single job is shown with the view
  permission on its cluster. The status of a run shows exactly the jobs the caller may view, and is given only if there is one, or if no job of the run
  has an address yet: then everybody gets the summary of the run, without jobs. A list shows only runs with a job the caller may view. Administrators see everything,
  and so does a request without claims, which may also create runs: the server does not let such requests through.
\<close>

theorem ScenariosRunRouter_authorized:
  "case ScenariosRunRouter (logged_runs C) claims rmethod path query body (w, []) of (r, (w', log)) \<Rightarrow> run_ok (rx_Namespace C) claims path r log"
  by (rule ScenariosRunRouter_ok)

text \<open>
  The summary of a run without addresses is shown to a user without any permission, although the list of runs leaves it out for the same user.
\<close>

theorem run_without_addresses_shown:
  "let A = sample_auth_client [] two_provider_request; run = blank_run [job_at '''']
   in visible_jobs A ''krkn'' (Some sample_user) ''run-1'' run = Inl (Body 201 (ScenarioRunStatus (run_response ''run-1'' run []))) \<and>
      filterScenarioRunsByGroupPermission A [run] (Some sample_user) = []"
  by code_simp

section \<open>The dashboard\<close>

definition running_on :: "string \<Rightarrow> KrknScenarioRun \<Rightarrow> string list" where
  "running_on cluster sr = map (\<lambda>_. Name (sr_meta sr))
     (filter (\<lambda>job. Phase job = ''Running'' \<and> ClusterName job = cluster) (ClusterJobs (sr_Status sr)))"

lemma add_running_get:
  "get_list (add_running name js m) cluster =
   get_list m cluster @ map (\<lambda>_. name) (filter (\<lambda>job. Phase job = ''Running'' \<and> ClusterName job = cluster) js)"
  by (induction js arbitrary: m) (simp_all add: get_list_update)

lemma add_running_keys:
  "distinct (map fst m) \<Longrightarrow> distinct (map fst (add_running name js m)) \<and>
   set (map fst (add_running name js m)) = set (map fst m) \<union> {ClusterName job |job. job \<in> set js \<and> Phase job = ''Running''}"
proof (induction js arbitrary: m)
  case (Cons job js)
  then show ?case
    using Cons.IH[of "AList.update (ClusterName job) (get_list m (ClusterName job) @ [name]) m"]
    by (auto simp: distinct_update dom_update)
qed simp

lemma fold_add_running:
  "get_list (fold (\<lambda>sr. add_running (Name (sr_meta sr)) (ClusterJobs (sr_Status sr))) runs m) cluster =
   get_list m cluster @ concat (map (running_on cluster) runs)"
  by (induction runs arbitrary: m) (simp_all add: add_running_get running_on_def)

lemma fold_add_running_keys:
  "distinct (map fst m) \<Longrightarrow> distinct (map fst (fold (\<lambda>sr. add_running (Name (sr_meta sr)) (ClusterJobs (sr_Status sr))) runs m)) \<and>
   set (map fst (fold (\<lambda>sr. add_running (Name (sr_meta sr)) (ClusterJobs (sr_Status sr))) runs m)) = set (map fst m) \<union>
     {ClusterName job |job sr. sr \<in> set runs \<and> job \<in> set (ClusterJobs (sr_Status sr)) \<and> Phase job = ''Running''}"
proof (induction runs arbitrary: m)
  case (Cons sr runs)
  show ?case
    using Cons.IH[of "add_running (Name (sr_meta sr)) (ClusterJobs (sr_Status sr)) m"]
      add_running_keys[OF Cons.prems, of "Name (sr_meta sr)" "ClusterJobs (sr_Status sr)"] by auto
qed simp

text \<open>
  The dashboard lists, for every cluster with a running job and for no other, the runs with a running job there in the order of the runs,
  once per job; it counts these clusters, and the runs with a running job once each.
\<close>

theorem GetActiveRunsOverview_correct:
  assumes "rx_ListRuns C (rx_Namespace C) w = (Inr runs, w')"
  shows "\<exists>m. GetActiveRunsOverview C w = (Body 200 (ActiveRunsOverviewResponse
       (int (length (filter (\<lambda>sr. \<exists>cluster. running_on cluster sr \<noteq> []) runs))) (int (card (dom (map_of m)))) m), w') \<and>
     distinct (map fst m) \<and>
     dom (map_of m) = {ClusterName job |job sr. sr \<in> set runs \<and> job \<in> set (ClusterJobs (sr_Status sr)) \<and> Phase job = ''Running''} \<and>
     (\<forall>cluster. get_list m cluster = concat (map (running_on cluster) runs))"
proof -
  let ?m = "fold (\<lambda>sr. add_running (Name (sr_meta sr)) (ClusterJobs (sr_Status sr))) runs []"
  have k: "distinct (map fst ?m)"
    "set (map fst ?m) = {ClusterName job |job sr. sr \<in> set runs \<and> job \<in> set (ClusterJobs (sr_Status sr)) \<and> Phase job = ''Running''}"
    using fold_add_running_keys[of "[]" runs] by simp_all
  have d: "dom (map_of ?m) = set (map fst ?m)" by (simp add: dom_map_of_conv_image_fst)
  have "length ?m = card (dom (map_of ?m))" unfolding d using distinct_card[OF k(1)] by simp
  moreover have "(\<exists>cluster. running_on cluster sr \<noteq> []) = list_ex (\<lambda>job. Phase job = ''Running'') (ClusterJobs (sr_Status sr))" for sr
    by (auto simp: running_on_def list_ex_iff filter_empty_conv)
  moreover have "get_list ?m cluster = concat (map (running_on cluster) runs)" for cluster
    using fold_add_running[of runs "[]" cluster] by (simp add: get_list_def[of "[]"])
  ultimately show ?thesis
    using k d assms by (intro exI[of _ ?m]) (simp add: GetActiveRunsOverview_def run_handler_def bind_eff_def call_def ret_def Let_def)
qed

end
