(* ===== verification/Cluster_API.thy ===== *)
theory Cluster_API
  imports Scenario_Runs_API Kubeconfig
begin

text \<open>
  The endpoints of target requests, clusters and nodes: the first part of \<open>src/internal/api/handlers.go\<close>. The lookups of
  \<open>kubeconfig_helpers.go\<close> are those of the terminal; each of them sees the objects as they are when it runs. The data provider
  behind gRPC is a parameter: connecting, one call and closing.
\<close>

section \<open>Responses and the client\<close>

datatype cluster_body =
    ClustersResponse "(string, ClusterTarget list) gomap" string
  | NodesResponse "string list"
  | UUIDResponse string
  | HealthResponse string
  | ClusterNoBody

record 'w cluster_client =
  cx_Namespace :: string
  cx_GRPCServerAddr :: string
  cx_GetRequest :: "string \<Rightarrow> string \<Rightarrow> 'w \<Rightarrow> (api_error + KrknTargetRequest) \<times> 'w"
  cx_CreateRequest :: "KrknTargetRequest \<Rightarrow> 'w \<Rightarrow> api_error option \<times> 'w"
  cx_DeleteRequest :: "KrknTargetRequest \<Rightarrow> 'w \<Rightarrow> api_error option \<times> 'w"
  cx_Objects :: "'w \<Rightarrow> unit terminal_client \<times> 'w"
  cx_NewUUID :: "'w \<Rightarrow> string \<times> 'w"
  cx_NewClient :: "string \<Rightarrow> 'w \<Rightarrow> (string + nat) \<times> 'w"
  cx_GetNodes :: "nat \<Rightarrow> string \<Rightarrow> 'w \<Rightarrow> (string + string list) \<times> 'w"
  cx_Close :: "nat \<Rightarrow> 'w \<Rightarrow> unit \<times> 'w"

definition ClustersPath :: string where
  "ClustersPath = ''/api/v1/clusters''"

definition NodesPath :: string where
  "NodesPath = ''/api/v1/nodes''"

definition TargetsPath :: string where
  "TargetsPath = ''/api/v1/targets''"

text \<open>Whether the API server's answer, wrapped by the error, was that the object is absent.\<close>

fun wraps_not_found :: "lookup_error \<Rightarrow> bool" where
  "wraps_not_found (TargetFetchFailed e) = (e = NotFound)"
| "wraps_not_found (RequestFetchFailed e) = (e = NotFound)"
| "wraps_not_found (SecretFetchFailed e) = (e = NotFound)"
| "wraps_not_found _ = False"

section \<open>Clusters and nodes\<close>

definition callGetNodesGRPC :: "'w cluster_client \<Rightarrow> string \<Rightarrow> ('w, string, string list) eff" where
  "callGetNodesGRPC C kubeconfigBase64 =
     bind_eff (call (cx_NewClient C (cx_GRPCServerAddr C)) (\<lambda>e. e)) (\<lambda>conn.
     bind_eff (step (cx_GetNodes C conn kubeconfigBase64)) (\<lambda>resp.
     bind_eff (step (cx_Close C conn)) (\<lambda>_.
     case resp of Inl e \<Rightarrow> stop e | Inr nodes \<Rightarrow> ret nodes)))"

definition visible_clusters ::
  "auth_client \<Rightarrow> string \<Rightarrow> token_claims option \<Rightarrow> (string, ClusterTarget list) gomap \<Rightarrow> (string, ClusterTarget list) gomap" where
  "visible_clusters A ns claims targetData =
    (case claims of
       None \<Rightarrow> targetData
     | Some c \<Rightarrow>
       if IsAdmin claims then targetData
       else case FilterClustersByPermission A (cl_UserID c) ns targetData ActionRun of Inl e \<Rightarrow> [] | Inr filteredData \<Rightarrow> filteredData)"

definition GetClusters :: "'w cluster_client \<Rightarrow> token_claims option \<Rightarrow> string \<Rightarrow> 'w \<Rightarrow> cluster_body reply \<times> 'w" where
  "GetClusters C claims id_param = run_handler
    (if id_param = '''' then ret (bad_request ''id parameter is required'')
     else
       bind_eff (call (cx_GetRequest C (cx_Namespace C) id_param) (\<lambda>e.
         if e = NotFound then Failure 404 ''not_found'' (''KrknTargetRequest with id '' @ in_quotes id_param @ '' not found'')
         else internal_error ''Failed to fetch KrknTargetRequest'')) (\<lambda>targetRequest.
       if trs_Status (tr_Status targetRequest) \<noteq> ''Completed''
       then stop (Failure 404 ''not_found'' (''KrknTargetRequest with id '' @ in_quotes id_param @ '' is not completed''))
       else
         bind_eff (step (cx_Objects C)) (\<lambda>T.
         ret (Body 200 (ClustersResponse (visible_clusters (tm_Auth T) (cx_Namespace C) claims (trs_TargetData (tr_Status targetRequest)))
           (trs_Status (tr_Status targetRequest)))))))"

text \<open>The check before the nodes of a cluster are read.\<close>

definition may_view_nodes ::
  "unit terminal_client \<Rightarrow> string \<Rightarrow> token_claims option \<Rightarrow> string \<Rightarrow> string \<Rightarrow> string \<Rightarrow> cluster_body reply option" where
  "may_view_nodes T ns claims targetUUID targetID clusterName =
    (case claims of
       None \<Rightarrow> None
     | Some c \<Rightarrow>
       if IsAdmin claims then None
       else case getClusterAPIURL T targetUUID targetID clusterName of
           Inl e \<Rightarrow> Some (internal_error ''Failed to validate cluster permissions'')
         | Inr clusterAPIURL \<Rightarrow>
           (case HasClusterPermission (tm_Auth T) (cl_UserID c) ns clusterAPIURL ActionView of
              Inl e \<Rightarrow> Some (internal_error ''Failed to validate access permissions'')
            | Inr hasPermission \<Rightarrow>
                if \<not> hasPermission then Some (Failure 403 ''forbidden'' ''You do not have permission to view nodes on this cluster'')
                else None))"

definition lookup_failure :: "unit terminal_client \<Rightarrow> lookup_error \<Rightarrow> cluster_body reply" where
  "lookup_failure T e =
    (if wraps_not_found e \<or> contains_str (tm_LookupText T e) ''not found'' then Failure 404 ''not_found'' (tm_LookupText T e)
     else internal_error (tm_LookupText T e))"

definition GetNodes ::
  "'w cluster_client \<Rightarrow> token_claims option \<Rightarrow> string \<Rightarrow> string \<Rightarrow> string \<Rightarrow> 'w \<Rightarrow> cluster_body reply \<times> 'w" where
  "GetNodes C claims targetUUID id_param clusterName = run_handler
    (if targetUUID = '''' \<and> (id_param = '''' \<or> clusterName = '''')
     then ret (bad_request ''Either targetUUID (new) or id+cluster-name (legacy) parameters are required'')
     else
       bind_eff (step (cx_Objects C)) (\<lambda>T.
       case may_view_nodes T (cx_Namespace C) claims targetUUID id_param clusterName of
         Some failure \<Rightarrow> stop failure
       | None \<Rightarrow>
         bind_eff (step (cx_Objects C)) (\<lambda>T'.
         case getKubeconfig T' targetUUID id_param clusterName of
           Inl e \<Rightarrow> stop (lookup_failure T' e)
         | Inr kubeconfigBase64 \<Rightarrow>
           bind_eff (call (callGetNodesGRPC C kubeconfigBase64) (\<lambda>e. internal_error ''Failed to get nodes from gRPC service'')) (\<lambda>nodes.
           ret (Body 200 (NodesResponse nodes))))))"

definition HealthCheck :: "cluster_body reply" where
  "HealthCheck = Body 200 (HealthResponse ''healthy'')"

section \<open>Target requests\<close>

definition GetTargetByUUID :: "'w cluster_client \<Rightarrow> string \<Rightarrow> 'w \<Rightarrow> cluster_body reply \<times> 'w" where
  "GetTargetByUUID C path = run_handler
    (case extractPathSuffix path (TargetsPath @ ''/'') of
       Inl e \<Rightarrow> ret (bad_request (''UUID '' @ e))
     | Inr uuid \<Rightarrow>
       bind_eff (call (cx_GetRequest C (cx_Namespace C) uuid) (\<lambda>e.
         if e = NotFound then Body 404 ClusterNoBody else internal_error ''Failed to fetch KrknTargetRequest'')) (\<lambda>targetRequest.
       ret (Body (if trs_Status (tr_Status targetRequest) \<noteq> ''Completed'' then 202 else 200) ClusterNoBody)))"

definition new_request :: "string \<Rightarrow> token_claims option \<Rightarrow> string \<Rightarrow> KrknTargetRequest" where
  "new_request ns claims newUUID =
     \<lparr>tr_meta = meta_of newUUID ns (owner_labels claims), tr_UUID = newUUID, tr_Status = \<lparr>trs_Status = [], trs_TargetData = [], trs_Completed = None\<rparr>\<rparr>"

definition PostTarget :: "'w cluster_client \<Rightarrow> token_claims option \<Rightarrow> 'w \<Rightarrow> cluster_body reply \<times> 'w" where
  "PostTarget C claims = run_handler
    (bind_eff (step (cx_NewUUID C)) (\<lambda>newUUID.
     bind_eff (call_opt (cx_CreateRequest C (new_request (cx_Namespace C) claims newUUID))
       (\<lambda>e. internal_error ''Failed to create KrknTargetRequest'')) (\<lambda>_.
     ret (Body 202 (UUIDResponse newUUID)))))"

definition DeleteTargetByUUID :: "'w cluster_client \<Rightarrow> token_claims option \<Rightarrow> string \<Rightarrow> 'w \<Rightarrow> cluster_body reply \<times> 'w" where
  "DeleteTargetByUUID C claims path = run_handler
    (case extractPathSuffix path (TargetsPath @ ''/'') of
       Inl e \<Rightarrow> ret (bad_request (''UUID '' @ e))
     | Inr uuid \<Rightarrow>
       bind_eff (call (cx_GetRequest C (cx_Namespace C) uuid) (\<lambda>e.
         if e = NotFound then Failure 404 ''not_found'' (''KrknTargetRequest with UUID '' @ in_quotes uuid @ '' not found'')
         else internal_error ''Failed to get KrknTargetRequest'')) (\<lambda>targetRequest.
       let delete = bind_eff (call_opt (cx_DeleteRequest C targetRequest) (\<lambda>e. internal_error ''Failed to delete KrknTargetRequest''))
             (\<lambda>_. ret (Body 204 ClusterNoBody))
       in if IsAdmin claims then delete
          else case claims of
            None \<Rightarrow> stop (Failure 401 ''unauthorized'' ''No authentication claims found'')
          | Some c \<Rightarrow>
            if get_str (Labels (tr_meta targetRequest)) ''krkn.krkn-chaos.dev/owner-user'' \<noteq> api_sanitizeUserID (cl_UserID c)
            then stop (Failure 403 ''forbidden'' ''You can only delete resources you created'')
            else delete))"

definition TargetsHandler :: "'w cluster_client \<Rightarrow> token_claims option \<Rightarrow> string \<Rightarrow> string \<Rightarrow> 'w \<Rightarrow> cluster_body reply \<times> 'w" where
  "TargetsHandler C claims rmethod path w =
    (if rmethod = ''GET'' then GetTargetByUUID C path w
     else if rmethod = ''POST'' then PostTarget C claims w
     else if rmethod = ''DELETE'' then DeleteTargetByUUID C claims path w
     else (Failure 405 ''method_not_allowed'' ''Only GET, POST, and DELETE methods are allowed'', w))"

section \<open>Who sees clusters and nodes, and who deletes requests\<close>

datatype cluster_event =
    ClusterRequestRead string string "api_error + KrknTargetRequest"
  | RequestCreated KrknTargetRequest "api_error option"
  | RequestDeleted KrknTargetRequest "api_error option"
  | ObjectsSeen "unit terminal_client"
  | ClusterUUID string
  | Dialed string "string + nat"
  | NodesAsked nat string "string + string list"
  | Closed nat

definition logged_clusters :: "'w cluster_client \<Rightarrow> ('w \<times> cluster_event list) cluster_client" where
  "logged_clusters C = \<lparr>cx_Namespace = cx_Namespace C, cx_GRPCServerAddr = cx_GRPCServerAddr C,
     cx_GetRequest = (\<lambda>ns n. noting (cx_GetRequest C ns n) (ClusterRequestRead ns n)),
     cx_CreateRequest = (\<lambda>r. noting (cx_CreateRequest C r) (RequestCreated r)),
     cx_DeleteRequest = (\<lambda>r. noting (cx_DeleteRequest C r) (RequestDeleted r)), cx_Objects = noting (cx_Objects C) ObjectsSeen,
     cx_NewUUID = noting (cx_NewUUID C) ClusterUUID, cx_NewClient = (\<lambda>a. noting (cx_NewClient C a) (Dialed a)),
     cx_GetNodes = (\<lambda>c k. noting (cx_GetNodes C c k) (NodesAsked c k)), cx_Close = (\<lambda>c. noting (cx_Close C c) (\<lambda>_. Closed c))\<rparr>"

lemma logged_clusters_simps [simp]:
  "cx_Namespace (logged_clusters C) = cx_Namespace C" "cx_GRPCServerAddr (logged_clusters C) = cx_GRPCServerAddr C"
  "cx_GetRequest (logged_clusters C) ns n = noting (cx_GetRequest C ns n) (ClusterRequestRead ns n)"
  "cx_CreateRequest (logged_clusters C) r = noting (cx_CreateRequest C r) (RequestCreated r)"
  "cx_DeleteRequest (logged_clusters C) r = noting (cx_DeleteRequest C r) (RequestDeleted r)"
  "cx_Objects (logged_clusters C) = noting (cx_Objects C) ObjectsSeen"
  "cx_NewUUID (logged_clusters C) = noting (cx_NewUUID C) ClusterUUID"
  "cx_NewClient (logged_clusters C) a = noting (cx_NewClient C a) (Dialed a)"
  "cx_GetNodes (logged_clusters C) c k = noting (cx_GetNodes C c k) (NodesAsked c k)"
  "cx_Close (logged_clusters C) c = noting (cx_Close C c) (\<lambda>_. Closed c)"
  by (simp_all add: logged_clusters_def)

text \<open>
  What each of the three handlers may do. \<open>GetClusters\<close> reads the request of its parameter and changes nothing; the
  clusters in a reply are clusters of that request, completed, on which the caller may run. \<open>GetNodes\<close> asks the data provider
  with the kubeconfig looked up for its parameters, after the address looked up for them was checked, and closes the connection. \<open>TargetsHandler\<close>
  creates requests labelled with the caller, and deletes the request named in the path.
\<close>

fun clusters_call_ok :: "string \<Rightarrow> string \<Rightarrow> cluster_event \<Rightarrow> bool" where
  "clusters_call_ok ns i (ClusterRequestRead ns' n x) \<longleftrightarrow> ns' = ns \<and> n = i"
| "clusters_call_ok ns i (ObjectsSeen T) \<longleftrightarrow> True"
| "clusters_call_ok ns i _ \<longleftrightarrow> False"

definition clusters_reply_ok :: "string \<Rightarrow> token_claims option \<Rightarrow> string \<Rightarrow> cluster_body reply \<Rightarrow> cluster_event list \<Rightarrow> bool" where
  "clusters_reply_ok ns claims i r log \<longleftrightarrow>
    (case r of
       Body st (ClustersResponse d m) \<Rightarrow>
         (\<exists>T tr. ClusterRequestRead ns i (Inr tr) \<in> set log \<and> ObjectsSeen T \<in> set log \<and> trs_Status (tr_Status tr) = ''Completed'' \<and>
            (\<forall>p cs k. (p, cs) \<in> set d \<and> k \<in> set cs \<longrightarrow>
               (\<exists>cs'. (p, cs') \<in> set (trs_TargetData (tr_Status tr)) \<and> k \<in> set cs') \<and>
               (case claims of None \<Rightarrow> True | Some c \<Rightarrow> IsAdmin claims \<or>
                  HasClusterPermission (tm_Auth T) (cl_UserID c) ns (ct_ClusterAPIURL k) ActionRun = Inr True)))
     | Body st b \<Rightarrow> False
     | Failure st e m \<Rightarrow> True)"

fun nodes_call_ok :: "string \<Rightarrow> token_claims option \<Rightarrow> string \<Rightarrow> string \<Rightarrow> string \<Rightarrow> cluster_event list \<Rightarrow> cluster_event \<Rightarrow> bool" where
  "nodes_call_ok ns claims u i c log (ObjectsSeen T) \<longleftrightarrow> True"
| "nodes_call_ok ns claims u i c log (Dialed a x) \<longleftrightarrow> (case x of Inl e \<Rightarrow> True | Inr conn \<Rightarrow> Closed conn \<in> set log)"
| "nodes_call_ok ns claims u i c log (Closed conn) \<longleftrightarrow> True"
| "nodes_call_ok ns claims u i c log (NodesAsked conn k x) \<longleftrightarrow>
    (\<exists>T T'. ObjectsSeen T \<in> set log \<and> ObjectsSeen T' \<in> set log \<and> getKubeconfig T' u i c = Inr k \<and>
       (case claims of None \<Rightarrow> True | Some cl \<Rightarrow> IsAdmin claims \<or>
          (\<exists>url. getClusterAPIURL T u i c = Inr url \<and> HasClusterPermission (tm_Auth T) (cl_UserID cl) ns url ActionView = Inr True)))"
| "nodes_call_ok ns claims u i c log _ \<longleftrightarrow> False"

definition nodes_reply_ok :: "cluster_body reply \<Rightarrow> cluster_event list \<Rightarrow> bool" where
  "nodes_reply_ok r log \<longleftrightarrow>
    (case r of
       Body st (NodesResponse nodes) \<Rightarrow> (\<exists>conn k. NodesAsked conn k (Inr nodes) \<in> set log)
     | Body st b \<Rightarrow> False
     | Failure st e m \<Rightarrow> True)"

fun targets_call_ok :: "string \<Rightarrow> token_claims option \<Rightarrow> string \<Rightarrow> string \<Rightarrow> cluster_event list \<Rightarrow> cluster_event \<Rightarrow> bool" where
  "targets_call_ok ns claims rmethod path log (ClusterRequestRead ns' n x) \<longleftrightarrow> ns' = ns \<and> extractPathSuffix path (TargetsPath @ ''/'') = Inr n"
| "targets_call_ok ns claims rmethod path log (ClusterUUID u) \<longleftrightarrow> rmethod = ''POST''"
| "targets_call_ok ns claims rmethod path log (RequestCreated r x) \<longleftrightarrow> rmethod = ''POST'' \<and>
    (\<exists>u. ClusterUUID u \<in> set log \<and> tr_UUID r = u \<and> Name (tr_meta r) = u \<and> Namespace (tr_meta r) = ns \<and> Labels (tr_meta r) =
       (case claims of None \<Rightarrow> [] | Some c \<Rightarrow> [(''krkn.krkn-chaos.dev/owner-user'', api_sanitizeUserID (cl_UserID c))]))"
| "targets_call_ok ns claims rmethod path log (RequestDeleted r x) \<longleftrightarrow> rmethod = ''DELETE'' \<and>
    (\<exists>n c. extractPathSuffix path (TargetsPath @ ''/'') = Inr n \<and> ClusterRequestRead ns n (Inr r) \<in> set log \<and> claims = Some c \<and>
       (cl_Role c = ''admin'' \<or> get_str (Labels (tr_meta r)) ''krkn.krkn-chaos.dev/owner-user'' = api_sanitizeUserID (cl_UserID c)))"
| "targets_call_ok ns claims rmethod path log _ \<longleftrightarrow> False"

definition targets_reply_ok :: "cluster_body reply \<Rightarrow> cluster_event list \<Rightarrow> bool" where
  "targets_reply_ok r log \<longleftrightarrow>
    (case r of
       Body st (UUIDResponse u) \<Rightarrow> (\<exists>r'. RequestCreated r' None \<in> set log \<and> tr_UUID r' = u)
     | Body st ClusterNoBody \<Rightarrow> st = 204 \<longrightarrow> (\<exists>r'. RequestDeleted r' None \<in> set log)
     | Body st b \<Rightarrow> False
     | Failure st e m \<Rightarrow> True)"

lemma cluster_replies_failure [simp]:
  "clusters_reply_ok ns claims i (Failure st e m) log" "nodes_reply_ok (Failure st e m) log" "targets_reply_ok (Failure st e m) log"
  "clusters_reply_ok ns claims i (internal_error m) log" "nodes_reply_ok (internal_error m) log" "targets_reply_ok (internal_error m) log"
  "clusters_reply_ok ns claims i (bad_request m) log" "nodes_reply_ok (bad_request m) log" "targets_reply_ok (bad_request m) log"
  "nodes_reply_ok (lookup_failure T e') log"
  "may_view_nodes T ns claims u i c = Some r \<Longrightarrow> nodes_reply_ok r log"
  by (auto simp: clusters_reply_ok_def nodes_reply_ok_def targets_reply_ok_def internal_error_def bad_request_def lookup_failure_def may_view_nodes_def
      split: option.splits if_splits sum.splits)

lemma visible_clusters_permitted:
  assumes "(p, cs) \<in> set (visible_clusters A ns claims d)" "k \<in> set cs"
  shows "(\<exists>cs'. (p, cs') \<in> set d \<and> k \<in> set cs') \<and>
    (case claims of None \<Rightarrow> True | Some c \<Rightarrow> IsAdmin claims \<or> HasClusterPermission A (cl_UserID c) ns (ct_ClusterAPIURL k) ActionRun = Inr True)"
  using assms
  by (auto simp: visible_clusters_def FilterClustersByPermission_def HasClusterPermission_def Let_def hasAction_def CanPerformAction_def get_list_def
      split: option.splits if_splits sum.splits)

lemma GetClusters_ok:
  "case GetClusters (logged_clusters C) claims i (w, []) of
     (r, (w', log)) \<Rightarrow> list_all (clusters_call_ok (cx_Namespace C) i) log \<and> clusters_reply_ok (cx_Namespace C) claims i r log"
  unfolding GetClusters_def
  by (rule run_handler_ensures, unfold logged_clusters_simps, intro ensures_rules)
    (auto simp: clusters_reply_ok_def[of _ _ _ "Body _ _"] dest: visible_clusters_permitted)

lemma callGetNodesGRPC_ensures:
  "ensures (callGetNodesGRPC (logged_clusters C) k)
     (\<lambda>nodes l. \<exists>conn. l = log @ [Dialed (cx_GRPCServerAddr C) (Inr conn), NodesAsked conn k (Inr nodes), Closed conn])
     (\<lambda>e l. (\<exists>e. l = log @ [Dialed (cx_GRPCServerAddr C) (Inl e)]) \<or>
        (\<exists>conn e. l = log @ [Dialed (cx_GRPCServerAddr C) (Inr conn), NodesAsked conn k (Inl e), Closed conn])) log"
  unfolding callGetNodesGRPC_def logged_clusters_simps by (intro ensures_rules) auto

text \<open>The rule for the call in \<open>GetNodes\<close>: its three outcomes.\<close>

lemma ensures_GetNodesGRPC:
  assumes "\<And>conn nodes. Q nodes (log @ [Dialed (cx_GRPCServerAddr C) (Inr conn), NodesAsked conn k (Inr nodes), Closed conn])"
    and "\<And>e' e. E (h e') (log @ [Dialed (cx_GRPCServerAddr C) (Inl e)])"
    and "\<And>e' conn e. E (h e') (log @ [Dialed (cx_GRPCServerAddr C) (Inr conn), NodesAsked conn k (Inl e), Closed conn])"
  shows "ensures (call (callGetNodesGRPC (logged_clusters C) k) h) Q E log"
  by (rule ensures_call_eff, rule ensures_mono[OF callGetNodesGRPC_ensures]) (use assms in auto)

lemma may_view_nodes_None:
  "may_view_nodes T ns claims u i c = None \<Longrightarrow>
   (case claims of None \<Rightarrow> True | Some cl \<Rightarrow> IsAdmin claims \<or>
      (\<exists>url. getClusterAPIURL T u i c = Inr url \<and> HasClusterPermission (tm_Auth T) (cl_UserID cl) ns url ActionView = Inr True))"
  by (auto simp: may_view_nodes_def split: option.splits if_splits sum.splits)

lemma nodes_asked_ok:
  "may_view_nodes T ns claims u i c = None \<Longrightarrow> getKubeconfig T' u i c = Inr k \<Longrightarrow> ObjectsSeen T \<in> set log \<Longrightarrow> ObjectsSeen T' \<in> set log \<Longrightarrow>
   nodes_call_ok ns claims u i c log (NodesAsked conn k x)"
  using may_view_nodes_None[of T ns claims u i c] unfolding nodes_call_ok.simps by blast

lemma GetNodes_ok:
  "case GetNodes (logged_clusters C) claims u i c (w, []) of
     (r, (w', log)) \<Rightarrow> list_all (nodes_call_ok (cx_Namespace C) claims u i c log) log \<and> nodes_reply_ok r log"
  unfolding GetNodes_def
  by (rule run_handler_ensures, unfold logged_clusters_simps, intro ensures_rules ensures_GetNodesGRPC)
    (auto simp: nodes_reply_ok_def[of "Body _ _"] simp del: nodes_call_ok.simps(4) intro: nodes_asked_ok)

lemma TargetsHandler_ok:
  "case TargetsHandler (logged_clusters C) claims m path (w, []) of
     (r, (w', log)) \<Rightarrow> list_all (targets_call_ok (cx_Namespace C) claims m path log) log \<and> targets_reply_ok r log"
proof -
  have "case GetTargetByUUID (logged_clusters C) path (w, []) of
      (r, (w', log)) \<Rightarrow> list_all (targets_call_ok (cx_Namespace C) claims m path log) log \<and> targets_reply_ok r log"
    unfolding GetTargetByUUID_def
    by (rule run_handler_ensures, unfold logged_clusters_simps, intro ensures_rules) (auto simp: targets_reply_ok_def[of "Body _ _"])
  moreover have "m = ''POST'' \<Longrightarrow> case PostTarget (logged_clusters C) claims (w, []) of
      (r, (w', log)) \<Rightarrow> list_all (targets_call_ok (cx_Namespace C) claims m path log) log \<and> targets_reply_ok r log"
    unfolding PostTarget_def
    by (rule run_handler_ensures, unfold logged_clusters_simps, intro ensures_rules)
      (auto simp: targets_reply_ok_def[of "Body _ _"] new_request_def meta_of_def owner_labels_def)
  moreover have "m = ''DELETE'' \<Longrightarrow> case DeleteTargetByUUID (logged_clusters C) claims path (w, []) of
      (r, (w', log)) \<Rightarrow> list_all (targets_call_ok (cx_Namespace C) claims m path log) log \<and> targets_reply_ok r log"
    unfolding DeleteTargetByUUID_def Let_def
    by (rule run_handler_ensures, unfold logged_clusters_simps, intro ensures_rules)
      (auto simp: targets_reply_ok_def[of "Body _ _"] IsAdmin_def split: option.splits)
  ultimately show ?thesis by (cases "m = ''GET''") (simp_all add: TargetsHandler_def)
qed

text \<open>
  C21. Whatever request reaches these endpoints, and whatever the cluster answers. \<open>GetClusters\<close> only reads the request of its parameter, and the clusters in a
  reply are clusters of that request, which is completed, on which the caller may run. \<open>GetNodes\<close> asks the data provider only with the kubeconfig looked up for
  the parameters of the request, after the address looked up for the same parameters gave the caller permission to view (with both kinds of parameters
  the two may belong to different clusters, see \<open>GetNodes_other_cluster\<close>), and closes every connection. \<open>TargetsHandler\<close> creates a
  target request only on POST, with a fresh name and the sanitized id of the caller in the owner label; it deletes only the request named in the path, on DELETE, for an
  administrator or for a caller whose sanitized id equals the owner label (which different users can share, see \<open>owner_label_collision\<close>).
  Administrators see and read everything; so does a request without claims, which the server does not let through, but it deletes nothing.
\<close>

theorem ClusterAPI_authorized:
  "(case GetClusters (logged_clusters C) claims i (w, []) of
      (r, (w', log)) \<Rightarrow> list_all (clusters_call_ok (cx_Namespace C) i) log \<and> clusters_reply_ok (cx_Namespace C) claims i r log) \<and>
   (case GetNodes (logged_clusters C) claims u i c (w, []) of
      (r, (w', log)) \<Rightarrow> list_all (nodes_call_ok (cx_Namespace C) claims u i c log) log \<and> nodes_reply_ok r log) \<and>
   (case TargetsHandler (logged_clusters C) claims m path (w, []) of
      (r, (w', log)) \<Rightarrow> list_all (targets_call_ok (cx_Namespace C) claims m path log) log \<and> targets_reply_ok r log)"
  by (intro conjI GetClusters_ok GetNodes_ok TargetsHandler_ok)

text \<open>
  With a target only, the check and the kubeconfig are those of the target; with the objects unchanged between them, of the same object.
\<close>

definition target_nodes :: "string \<Rightarrow> token_claims option \<Rightarrow> string \<Rightarrow> cluster_event list \<Rightarrow> cluster_event \<Rightarrow> bool" where
  "target_nodes ns claims u log ev \<longleftrightarrow> (\<forall>conn k x. ev = NodesAsked conn k x \<longrightarrow>
    (\<exists>T T' t' s d. ObjectsSeen T \<in> set log \<and> ObjectsSeen T' \<in> set log \<and>
       tm_GetOperatorTarget T' (tm_Namespace T') u = Inr t' \<and> tm_GetSecret T' (tm_Namespace T') (ots_SecretUUID (ot_Spec t')) = Inr s \<and>
       map_of (sec_Data s) ''kubeconfig'' = Some d \<and> UnmarshalSecretData d = Inr k \<and>
       (case claims of None \<Rightarrow> True | Some cl \<Rightarrow> IsAdmin claims \<or>
          (\<exists>t. tm_GetOperatorTarget T (tm_Namespace T) u = Inr t \<and>
             HasClusterPermission (tm_Auth T) (cl_UserID cl) ns (ots_ClusterAPIURL (ot_Spec t)) ActionView = Inr True))))"

lemma getKubeconfig_target:
  "getKubeconfig T u [] c = Inr k \<Longrightarrow> \<exists>t s d. tm_GetOperatorTarget T (tm_Namespace T) u = Inr t \<and>
     tm_GetSecret T (tm_Namespace T) (ots_SecretUUID (ot_Spec t)) = Inr s \<and> map_of (sec_Data s) ''kubeconfig'' = Some d \<and> UnmarshalSecretData d = Inr k"
  by (auto simp: getKubeconfig_def getKubeconfigFromOperatorTarget_def Let_def split: if_splits sum.splits option.splits)

lemma getClusterAPIURL_target:
  "getClusterAPIURL T u [] c = Inr url \<Longrightarrow> \<exists>t. tm_GetOperatorTarget T (tm_Namespace T) u = Inr t \<and> ots_ClusterAPIURL (ot_Spec t) = url"
  by (auto simp: getClusterAPIURL_def Let_def split: if_splits sum.splits)

lemma target_nodesI:
  assumes "may_view_nodes T ns claims u [] c = None" "getKubeconfig T' u [] c = Inr k" "ObjectsSeen T \<in> set log" "ObjectsSeen T' \<in> set log"
  shows "target_nodes ns claims u log (NodesAsked conn k x)"
proof -
  obtain t' s d where k: "tm_GetOperatorTarget T' (tm_Namespace T') u = Inr t'" "tm_GetSecret T' (tm_Namespace T') (ots_SecretUUID (ot_Spec t')) = Inr s"
    "map_of (sec_Data s) ''kubeconfig'' = Some d" "UnmarshalSecretData d = Inr k"
    using getKubeconfig_target[OF assms(2)] by blast
  have "case claims of None \<Rightarrow> True | Some cl \<Rightarrow> IsAdmin claims \<or> (\<exists>t. tm_GetOperatorTarget T (tm_Namespace T) u = Inr t \<and>
      HasClusterPermission (tm_Auth T) (cl_UserID cl) ns (ots_ClusterAPIURL (ot_Spec t)) ActionView = Inr True)"
    using may_view_nodes_None[OF assms(1)] by (auto split: option.splits dest: getClusterAPIURL_target)
  with k assms(3,4) show ?thesis unfolding target_nodes_def by blast
qed

text \<open>
  C38. Asked for the nodes of a target by its id alone, the data provider gets only the kubeconfig in the secret of that target,
  and only after the caller, unless an administrator, was found to have permission to view the address of that target.
\<close>

theorem GetNodes_of_permitted_target:
  "case GetNodes (logged_clusters C) claims targetUUID '''' clusterName (w, []) of
     (r, (w', log)) \<Rightarrow> list_all (target_nodes (cx_Namespace C) claims targetUUID log) log"
  unfolding GetNodes_def
  by (rule run_handler_ensures, unfold logged_clusters_simps, intro ensures_rules ensures_GetNodesGRPC)
    (auto intro: target_nodesI simp: target_nodes_def[of _ _ _ _ "ObjectsSeen _"] target_nodes_def[of _ _ _ _ "Dialed _ _"] target_nodes_def[of _ _ _ _ "Closed _"])

section \<open>Where the checks fall short\<close>

text \<open>
  With both kinds of parameters the check uses the target, and the kubeconfig comes from the target request if the target has none that
  can be read. The user here may view the \<open>https://dev\<close> of the target and not \<open>https://prod\<close>, and the data provider is asked with the kubeconfig of the latter.
\<close>

definition keyless_target :: KrknOperatorTarget where
  "keyless_target = \<lparr>ot_meta = meta_of ''t-1'' ''krkn'' [], ot_Spec = \<lparr>ots_UUID = ''t-1'', ots_ClusterName = ''dev'', ots_ClusterAPIURL = ''https://dev'',
     ots_SecretType = ''token'', ots_SecretUUID = ''s-1'', ots_CABundle = '''', ots_InsecureSkipTLSVerify = True\<rparr>, ot_Ready = False, ot_LastUpdated = 0\<rparr>"

definition sample_objects :: "unit terminal_client" where
  "sample_objects = sample_terminal\<lparr>tm_Auth := sample_auth_client [(''https://dev'', [''view''])] shared_name_request,
     tm_GetOperatorTarget := (\<lambda>_ _. Inr keyless_target),
     tm_GetSecret := (\<lambda>_ n. if n = ''req-1'' then tm_GetSecret sample_terminal ''krkn'' n else Inl NotFound)\<rparr>"

definition sample_clusters :: "string list cluster_client" where
  "sample_clusters = \<lparr>cx_Namespace = ''krkn'', cx_GRPCServerAddr = ''data:50051'', cx_GetRequest = (\<lambda>_ _ w. (Inr shared_name_request, w)),
     cx_CreateRequest = (\<lambda>_ w. (None, w)), cx_DeleteRequest = (\<lambda>r w. (None, w @ [''deleted'', Name (tr_meta r)])), cx_Objects = (\<lambda>w. (sample_objects, w)),
     cx_NewUUID = (\<lambda>w. (''u-1'', w)), cx_NewClient = (\<lambda>_ w. (Inr 0, w)), cx_GetNodes = (\<lambda>_ k w. (Inr [''n1''], w @ [k])), cx_Close = (\<lambda>_ w. ((), w))\<rparr>"

theorem GetNodes_other_cluster:
  "HasClusterPermission (tm_Auth sample_objects) (cl_UserID sample_user) ''krkn'' ''https://prod'' ActionView = Inr False \<and>
   GetNodes sample_clusters (Some sample_user) ''t-1'' ''req-1'' ''c1'' [] = (Body 200 (NodesResponse [''n1'']), [''b64-prod''])"
  by code_simp

text \<open>The owner label keeps the user id with at-signs and dots replaced, so that different users can have the same one and delete each other's requests.\<close>

theorem owner_label_collision:
  "cl_UserID sample_user \<noteq> ''a-b@x.io'' \<and>
   DeleteTargetByUUID (sample_clusters\<lparr>cx_GetRequest := (\<lambda>ns u w. (Inr (new_request ns (Some sample_user) u), w))\<rparr>) (Some (sample_user\<lparr>cl_UserID := ''a-b@x.io''\<rparr>)) ''/api/v1/targets/u-1'' [] =
     (Body 204 ClusterNoBody, [''deleted'', ''u-1''])"
  by code_simp

end
