(* ===== verification/Catalog_API.thy ===== *)
theory Catalog_API
  imports Cluster_API
begin

text \<open>
  The endpoints of the scenario catalog: the handlers of \<open>src/internal/api/handlers.go\<close> that list scenarios and show their input fields,
  from the public registry or from a saved one. krknctl's providers are parameters; the fields and the mode are its data types.
\<close>

section \<open>Fields, details and the client\<close>

datatype field_type = TString | TBoolean | TNumber | TEnum | TUnknown | TFile | TFileBase64

fun type_String :: "field_type \<Rightarrow> string" where
  "type_String TString = ''string''"
| "type_String TBoolean = ''boolean''"
| "type_String TNumber = ''number''"
| "type_String TEnum = ''enum''"
| "type_String TFile = ''file''"
| "type_String TFileBase64 = ''file_base64''"
| "type_String TUnknown = ''unknown''"

record 't input_field =
  if_Name :: "string option"
  if_ShortDescription :: "string option"
  if_Description :: "string option"
  if_Variable :: "string option"
  if_Type :: 't
  if_Default :: "string option"
  if_Validator :: "string option"
  if_ValidationMessage :: "string option"
  if_Separator :: "string option"
  if_AllowedValues :: "string option"
  if_Required :: bool
  if_MountPath :: "string option"
  if_Requires :: "string option"
  if_MutuallyExcludes :: "string option"
  if_Secret :: bool

type_synonym InputField = "field_type input_field"
type_synonym InputFieldResponse = "string input_field"

record ScenarioTag =
  st_Name :: string
  st_Digest :: "string option"
  st_Size :: "int option"
  st_LastModified :: "time option"

record 't scenario_detail =
  sd_Tag :: ScenarioTag
  sd_Title :: string
  sd_Description :: string
  sd_Fields :: "'t input_field list"

type_synonym ScenarioDetail = "field_type scenario_detail"
type_synonym ScenarioDetailResponse = "string scenario_detail"

datatype catalog_body =
    ScenariosResponse "ScenarioTag list"
  | DetailBody ScenarioDetailResponse

datatype Mode = Quay | Private

record 'w ScenarioDataProvider =
  dp_GetRegistryImages :: "RegistryV2 option \<Rightarrow> 'w \<Rightarrow> (string + ScenarioTag list option) \<times> 'w"
  dp_GetScenarioDetail :: "string \<Rightarrow> RegistryV2 option \<Rightarrow> 'w \<Rightarrow> (string + ScenarioDetail option) \<times> 'w"
  dp_GetGlobalEnvironment :: "RegistryV2 option \<Rightarrow> string \<Rightarrow> 'w \<Rightarrow> (string + ScenarioDetail option) \<times> 'w"

record 'w catalog_client =
  cg_Registry :: "'w \<Rightarrow> unit registry_client \<times> 'w"
  cg_LoadConfig :: "'w \<Rightarrow> (string + krknctl_config) \<times> 'w"
  cg_NewInstance :: "krknctl_config \<Rightarrow> Mode \<Rightarrow> 'w ScenarioDataProvider option"
  cg_RegistryText :: "registry_error \<Rightarrow> string"

definition ScenariosPath :: string where
  "ScenariosPath = ''/api/v1/scenarios''"

definition ScenariosDetailPath :: string where
  "ScenariosDetailPath = ScenariosPath @ ''/detail''"

definition ScenariosGlobalsPath :: string where
  "ScenariosGlobalsPath = ScenariosPath @ ''/globals''"

definition convertInputField :: "InputField \<Rightarrow> InputFieldResponse" where
  "convertInputField f = \<lparr>if_Name = if_Name f, if_ShortDescription = if_ShortDescription f, if_Description = if_Description f,
     if_Variable = if_Variable f, if_Type = type_String (if_Type f), if_Default = if_Default f, if_Validator = if_Validator f,
     if_ValidationMessage = if_ValidationMessage f, if_Separator = if_Separator f, if_AllowedValues = if_AllowedValues f, if_Required = if_Required f,
     if_MountPath = if_MountPath f, if_Requires = if_Requires f, if_MutuallyExcludes = if_MutuallyExcludes f, if_Secret = if_Secret f\<rparr>"

definition convertInputFields :: "InputField list \<Rightarrow> InputFieldResponse list" where
  "convertInputFields fs = map convertInputField fs"

section \<open>The registry of a request\<close>

text \<open>The body is its length and its decoding: an error, or the registry name if the body has one.\<close>

type_synonym scenarios_body = "int \<times> (string + string option)"

definition parseRegistryRequest ::
  "'w catalog_client \<Rightarrow> token_claims option \<Rightarrow> scenarios_body \<Rightarrow> ('w, string, RegistryV2 option \<times> Mode) eff" where
  "parseRegistryRequest C claims body =
    (if fst body = 0 then ret (None, Quay)
     else case snd body of
       Inl e \<Rightarrow> stop (''invalid request body: '' @ e)
     | Inr registryName \<Rightarrow>
       (case registryName of
          None \<Rightarrow> ret (None, Quay)
        | Some name \<Rightarrow>
          if name = '''' then ret (None, Quay)
          else
            bind_eff (step (cg_Registry C)) (\<lambda>G.
            case loadRegistrySecret G name of
              Inl e \<Rightarrow> stop (''registry '' @ in_quotes name @ '' not found'')
            | Inr secret \<Rightarrow>
              if \<not> canAccessRegistry G claims secret then stop (''access denied to registry '' @ in_quotes name)
              else case ExtractRegistryV2FromSecret secret of
                  Inl e \<Rightarrow> stop (''invalid registry secret: '' @ cg_RegistryText C e)
                | Inr registryV2 \<Rightarrow> ret (Some registryV2, Private))))"

definition createScenarioProvider :: "'w catalog_client \<Rightarrow> Mode \<Rightarrow> ('w, string, 'w ScenarioDataProvider) eff" where
  "createScenarioProvider C mode =
     bind_eff (call (cg_LoadConfig C) (\<lambda>e. ''failed to load krknctl config: '' @ e)) (\<lambda>cfg.
     case cg_NewInstance C cfg mode of
       None \<Rightarrow> stop ''failed to create scenario provider''
     | Some scenarioProvider \<Rightarrow> ret scenarioProvider)"

text \<open>With a token, user name and password are not for the API of the registry.\<close>

definition api_registry :: "RegistryV2 option \<Rightarrow> RegistryV2 option" where
  "api_registry registry =
    (case registry of
       None \<Rightarrow> None
     | Some reg \<Rightarrow>
         if rv_Token reg \<noteq> None
         then Some \<lparr>rv_Username = None, rv_Password = None, rv_Token = rv_Token reg, rv_RegistryURL = rv_RegistryURL reg,
           rv_ScenarioRepository = rv_ScenarioRepository reg, rv_SkipTLS = rv_SkipTLS reg, rv_Insecure = rv_Insecure reg\<rparr>
         else Some reg)"

text \<open>The part the three handlers share: the registry for the calls, and the provider.\<close>

definition catalog_source ::
  "'w catalog_client \<Rightarrow> token_claims option \<Rightarrow> scenarios_body \<Rightarrow> ('w, catalog_body reply, RegistryV2 option \<times> 'w ScenarioDataProvider) eff" where
  "catalog_source C claims body =
     bind_eff (call (parseRegistryRequest C claims body) bad_request) (\<lambda>rm.
     bind_eff (call (createScenarioProvider C (snd rm)) internal_error) (\<lambda>scenarioProvider.
     ret (api_registry (fst rm), scenarioProvider)))"

section \<open>The handlers\<close>

definition scenario_tags :: "ScenarioTag list option \<Rightarrow> ScenarioTag list" where
  "scenario_tags scenarioTags = (case scenarioTags of None \<Rightarrow> [] | Some tags \<Rightarrow> tags)"

definition PostScenarios :: "'w catalog_client \<Rightarrow> token_claims option \<Rightarrow> scenarios_body \<Rightarrow> 'w \<Rightarrow> catalog_body reply \<times> 'w" where
  "PostScenarios C claims body = run_handler
    (bind_eff (catalog_source C claims body) (\<lambda>src.
     bind_eff (call (dp_GetRegistryImages (snd src) (fst src)) (\<lambda>e. internal_error ''Failed to get scenarios from registry'')) (\<lambda>scenarioTags.
     ret (Body 200 (ScenariosResponse (scenario_tags scenarioTags))))))"

definition detail_response :: "ScenarioDetail \<Rightarrow> ScenarioDetailResponse" where
  "detail_response d = \<lparr>sd_Tag = sd_Tag d, sd_Title = sd_Title d, sd_Description = sd_Description d, sd_Fields = convertInputFields (sd_Fields d)\<rparr>"

definition PostScenarioDetail :: "'w catalog_client \<Rightarrow> token_claims option \<Rightarrow> string \<Rightarrow> scenarios_body \<Rightarrow> 'w \<Rightarrow> catalog_body reply \<times> 'w" where
  "PostScenarioDetail C claims path body = run_handler
    (case extractPathSuffix path (ScenariosDetailPath @ ''/'') of
       Inl e \<Rightarrow> ret (bad_request (''scenario_name '' @ e))
     | Inr scenarioName \<Rightarrow>
       bind_eff (catalog_source C claims body) (\<lambda>src.
       bind_eff (call (dp_GetScenarioDetail (snd src) scenarioName (fst src)) (\<lambda>e. internal_error ''Failed to get scenario detail'')) (\<lambda>scenarioDetail.
       case scenarioDetail of
         None \<Rightarrow> stop (Failure 404 ''not_found'' (''Scenario '' @ in_quotes scenarioName @ '' not found''))
       | Some d \<Rightarrow> ret (Body 200 (DetailBody (detail_response d))))))"

definition PostScenarioGlobals :: "'w catalog_client \<Rightarrow> token_claims option \<Rightarrow> string \<Rightarrow> scenarios_body \<Rightarrow> 'w \<Rightarrow> catalog_body reply \<times> 'w" where
  "PostScenarioGlobals C claims path body = run_handler
    (case extractPathSuffix path (ScenariosGlobalsPath @ ''/'') of
       Inl e \<Rightarrow> ret (bad_request (''scenario_name '' @ e))
     | Inr scenarioName \<Rightarrow>
       bind_eff (catalog_source C claims body) (\<lambda>src.
       bind_eff (call (dp_GetGlobalEnvironment (snd src) (fst src) scenarioName) (\<lambda>e. internal_error ''Failed to get global environment'')) (\<lambda>globalDetail.
       case globalDetail of
         None \<Rightarrow> stop (Failure 404 ''not_found'' (''Global environment for scenario '' @ in_quotes scenarioName @ '' not found''))
       | Some d \<Rightarrow> ret (Body 200 (DetailBody (detail_response d))))))"

section \<open>Which credentials leave the operator\<close>

datatype catalog_event =
    RegistriesSeen "unit registry_client"
  | ConfigLoaded "string + krknctl_config"
  | ImagesAsked Mode "RegistryV2 option" "string + ScenarioTag list option"
  | DetailAsked Mode string "RegistryV2 option" "string + ScenarioDetail option"
  | GlobalsAsked Mode "RegistryV2 option" string "string + ScenarioDetail option"

definition logged_provider :: "Mode \<Rightarrow> 'w ScenarioDataProvider \<Rightarrow> ('w \<times> catalog_event list) ScenarioDataProvider" where
  "logged_provider mode p = \<lparr>dp_GetRegistryImages = (\<lambda>r. noting (dp_GetRegistryImages p r) (ImagesAsked mode r)),
     dp_GetScenarioDetail = (\<lambda>n r. noting (dp_GetScenarioDetail p n r) (DetailAsked mode n r)),
     dp_GetGlobalEnvironment = (\<lambda>r n. noting (dp_GetGlobalEnvironment p r n) (GlobalsAsked mode r n))\<rparr>"

definition logged_catalog :: "'w catalog_client \<Rightarrow> ('w \<times> catalog_event list) catalog_client" where
  "logged_catalog C = \<lparr>cg_Registry = noting (cg_Registry C) RegistriesSeen, cg_LoadConfig = noting (cg_LoadConfig C) ConfigLoaded,
     cg_NewInstance = (\<lambda>cfg mode. map_option (logged_provider mode) (cg_NewInstance C cfg mode)), cg_RegistryText = cg_RegistryText C\<rparr>"

text \<open>
  The registry a provider is asked with: none, on the public registry, or one that the caller may use, with the token alone if it has one.
\<close>

definition registry_ok :: "token_claims option \<Rightarrow> catalog_event list \<Rightarrow> Mode \<Rightarrow> RegistryV2 option \<Rightarrow> bool" where
  "registry_ok claims log mode reg \<longleftrightarrow>
    (case reg of
       None \<Rightarrow> mode = Quay
     | Some r \<Rightarrow> mode = Private \<and> (\<exists>G name secret full. RegistriesSeen G \<in> set log \<and> loadRegistrySecret G name = Inr secret \<and>
         canAccessRegistry G claims secret \<and> ExtractRegistryV2FromSecret secret = Inr full \<and>
         rv_RegistryURL r = rv_RegistryURL full \<and> rv_ScenarioRepository r = rv_ScenarioRepository full \<and> rv_Token r = rv_Token full \<and>
         rv_SkipTLS r = rv_SkipTLS full \<and> rv_Insecure r = rv_Insecure full \<and>
         (if rv_Token full = None then rv_Username r = rv_Username full \<and> rv_Password r = rv_Password full
          else rv_Username r = None \<and> rv_Password r = None)))"

fun catalog_call_ok :: "token_claims option \<Rightarrow> catalog_event list \<Rightarrow> catalog_event \<Rightarrow> bool" where
  "catalog_call_ok claims log (ImagesAsked mode r x) \<longleftrightarrow> registry_ok claims log mode r"
| "catalog_call_ok claims log (DetailAsked mode n r x) \<longleftrightarrow> registry_ok claims log mode r"
| "catalog_call_ok claims log (GlobalsAsked mode r n x) \<longleftrightarrow> registry_ok claims log mode r"
| "catalog_call_ok claims log _ \<longleftrightarrow> True"

definition catalog_reply_ok :: "catalog_body reply \<Rightarrow> catalog_event list \<Rightarrow> bool" where
  "catalog_reply_ok r log \<longleftrightarrow>
    (\<forall>st tags. r = Body st (ScenariosResponse tags) \<longrightarrow>
       st = 200 \<and> (\<exists>mode reg ts. ImagesAsked mode reg (Inr ts) \<in> set log \<and> tags = scenario_tags ts)) \<and>
    (\<forall>st b. r = Body st (DetailBody b) \<longrightarrow>
       st = 200 \<and> (\<exists>mode reg n d. (DetailAsked mode n reg (Inr (Some d)) \<in> set log \<or> GlobalsAsked mode reg n (Inr (Some d)) \<in> set log) \<and> b = detail_response d))"

definition catalog_ok :: "token_claims option \<Rightarrow> catalog_body reply \<Rightarrow> catalog_event list \<Rightarrow> bool" where
  "catalog_ok claims r log \<longleftrightarrow> list_all (catalog_call_ok claims log) log \<and> catalog_reply_ok r log"

lemma catalog_reply_failure [simp]:
  "catalog_reply_ok (Failure st e m) log" "catalog_reply_ok (internal_error m) log" "catalog_reply_ok (bad_request m) log"
  by (simp_all add: catalog_reply_ok_def internal_error_def bad_request_def)

text \<open>Before the provider is asked, only the registries and the configuration are read.\<close>

fun catalog_reads :: "catalog_event \<Rightarrow> bool" where
  "catalog_reads (RegistriesSeen G) \<longleftrightarrow> True"
| "catalog_reads (ConfigLoaded x) \<longleftrightarrow> True"
| "catalog_reads _ \<longleftrightarrow> False"

lemma catalog_reads_ok: "list_all catalog_reads log \<Longrightarrow> list_all (catalog_call_ok claims log') log"
proof -
  have "catalog_reads e \<Longrightarrow> catalog_call_ok claims log' e" for e by (cases e) auto
  then show "list_all catalog_reads log \<Longrightarrow> list_all (catalog_call_ok claims log') log" by (simp add: list_all_iff)
qed

lemma registry_ok_mono: "registry_ok claims a mode reg \<Longrightarrow> set a \<subseteq> set b \<Longrightarrow> registry_ok claims b mode reg"
  unfolding registry_ok_def by (cases reg) (simp_all only: option.case, blast)

lemma registry_okI:
  "RegistriesSeen G \<in> set log \<Longrightarrow> loadRegistrySecret G name = Inr secret \<Longrightarrow> canAccessRegistry G claims secret \<Longrightarrow>
   ExtractRegistryV2FromSecret secret = Inr full \<Longrightarrow> registry_ok claims log Private (api_registry (Some full))"
  unfolding registry_ok_def
  by (cases "rv_Token full") (simp_all add: api_registry_def, (intro exI[of _ G] exI[of _ name] exI[of _ secret] exI[of _ full], simp)+)

lemma registry_ok_None [simp]: "registry_ok claims log Quay None"
  by (simp add: registry_ok_def)

lemma parseRegistryRequest_ensures:
  "ensures (parseRegistryRequest (logged_catalog C) claims body)
     (\<lambda>rm l. list_all catalog_reads l \<and> registry_ok claims l (snd rm) (api_registry (fst rm))) (\<lambda>e. list_all catalog_reads) []"
  unfolding parseRegistryRequest_def logged_catalog_def catalog_client.simps
  by (intro ensures_rules) (auto simp: api_registry_def[of None] intro: registry_okI)

lemma createScenarioProvider_ensures:
  "list_all catalog_reads log \<Longrightarrow> ensures (createScenarioProvider (logged_catalog C) mode)
     (\<lambda>p l. list_all catalog_reads l \<and> set log \<subseteq> set l \<and> (\<exists>p'. p = logged_provider mode p')) (\<lambda>e. list_all catalog_reads) log"
  unfolding createScenarioProvider_def logged_catalog_def catalog_client.simps
  by (intro ensures_rules) auto

lemma catalog_source_ensures:
  "ensures (catalog_source (logged_catalog C) claims body)
     (\<lambda>src l. list_all catalog_reads l \<and> (\<exists>mode p. snd src = logged_provider mode p \<and> registry_ok claims l mode (fst src))) (\<lambda>r l. catalog_ok claims r l) []"
  unfolding catalog_source_def
proof (rule ensures_bind, rule ensures_call_eff, rule ensures_mono[OF parseRegistryRequest_ensures])
  fix rm l assume "list_all catalog_reads l \<and> registry_ok claims l (snd rm) (api_registry (fst rm))"
  then show "ensures (bind_eff (call (createScenarioProvider (logged_catalog C) (snd rm)) internal_error) (\<lambda>p. ret (api_registry (fst rm), p)))
      (\<lambda>src l. list_all catalog_reads l \<and> (\<exists>mode p. snd src = logged_provider mode p \<and> registry_ok claims l mode (fst src))) (\<lambda>r l. catalog_ok claims r l) l"
    by (intro ensures_bind ensures_call_eff ensures_mono[OF createScenarioProvider_ensures] ensures_ret)
      (auto simp: catalog_ok_def catalog_reads_ok dest: registry_ok_mono)
qed (simp add: catalog_ok_def catalog_reads_ok)

lemma catalog_handler:
  assumes "\<And>src l. list_all catalog_reads l \<Longrightarrow> (\<exists>mode p. snd src = logged_provider mode p \<and> registry_ok claims l mode (fst src)) \<Longrightarrow>
      ensures (f src) (catalog_ok claims) (catalog_ok claims) l"
  shows "ensures (bind_eff (catalog_source (logged_catalog C) claims body) f) (catalog_ok claims) (catalog_ok claims) []"
  by (rule ensures_bind, rule ensures_mono[OF catalog_source_ensures]) (use assms in auto)

lemma catalog_okI:
  assumes "list_all catalog_reads l" "registry_ok claims l mode reg"
  shows "catalog_ok claims r (l @ [ImagesAsked mode reg x]) = catalog_reply_ok r (l @ [ImagesAsked mode reg x])"
    and "catalog_ok claims r (l @ [DetailAsked mode n reg y]) = catalog_reply_ok r (l @ [DetailAsked mode n reg y])"
    and "catalog_ok claims r (l @ [GlobalsAsked mode reg n y]) = catalog_reply_ok r (l @ [GlobalsAsked mode reg n y])"
  using assms(1) registry_ok_mono[OF assms(2)] by (auto simp: catalog_ok_def catalog_reads_ok subset_insertI2)

text \<open>
  C39. Whatever request reaches the catalog, and whatever the cluster and the registries answer: a provider is asked without a registry in
  the public mode, or in the private mode with the address, repository and credentials of a saved registry the caller may use, and
  then with its token alone if it has one; and a reply shows exactly what the provider answered.
\<close>

theorem Catalog_uses_permitted_registry:
  "(case PostScenarios (logged_catalog C) claims body (w, []) of (r, (w', log)) \<Rightarrow> catalog_ok claims r log) \<and>
   (case PostScenarioDetail (logged_catalog C) claims path body (w, []) of (r, (w', log)) \<Rightarrow> catalog_ok claims r log) \<and>
   (case PostScenarioGlobals (logged_catalog C) claims path body (w, []) of (r, (w', log)) \<Rightarrow> catalog_ok claims r log)"
proof (intro conjI)
  have quiet: "catalog_ok claims (bad_request m) []" for m by (simp add: catalog_ok_def)
  show "case PostScenarios (logged_catalog C) claims body (w, []) of (r, (w', log)) \<Rightarrow> catalog_ok claims r log"
    unfolding PostScenarios_def
    by (rule run_handler_ensures, rule catalog_handler)
      (auto simp: logged_provider_def catalog_okI catalog_reply_ok_def[of "Body _ _"] intro!: ensures_rules, blast)
  show "case PostScenarioDetail (logged_catalog C) claims path body (w, []) of (r, (w', log)) \<Rightarrow> catalog_ok claims r log"
    unfolding PostScenarioDetail_def
    by (rule run_handler_ensures, intro ensures_sum ensures_ret quiet catalog_handler)
      (auto simp: logged_provider_def catalog_okI catalog_reply_ok_def[of "Body _ _"] intro!: ensures_rules, blast)
  show "case PostScenarioGlobals (logged_catalog C) claims path body (w, []) of (r, (w', log)) \<Rightarrow> catalog_ok claims r log"
    unfolding PostScenarioGlobals_def
    by (rule run_handler_ensures, intro ensures_sum ensures_ret quiet catalog_handler)
      (auto simp: logged_provider_def catalog_okI catalog_reply_ok_def[of "Body _ _"] intro!: ensures_rules, blast)
qed

text \<open>The names of the types in replies tell the types apart.\<close>

lemma type_String_inj: "type_String a = type_String b \<longleftrightarrow> a = b"
  by (cases a; cases b) simp_all

end
