(* ===== verification/Logs_API.thy ===== *)
theory Logs_API
  imports Catalog_API Auth_API
begin

text \<open>
  The log stream of a job: \<open>GetScenarioRunLogs\<close> of \<open>src/internal/api/handlers.go\<close>. The endpoint is not behind the middleware: it takes the token
  from the subprotocol of the WebSocket request, validates it, and checks the permission on the cluster of the job before it opens the log of
  the pod. The WebSocket connection and the log of the pod are calls; a log is its bytes, and the error after them if there is one.
\<close>

section \<open>Lines of a stream\<close>

text \<open>\<open>bufio.Scanner\<close> with \<open>ScanLines\<close>: lines without their end, until a line and its end do not fit the buffer of 64 KiB.\<close>

definition MaxScanTokenSize :: nat where
  "MaxScanTokenSize = 65536"

definition newline :: char where
  "newline = CHR 0x0A"

definition drop_cr :: "string \<Rightarrow> string" where
  "drop_cr s = (if s \<noteq> [] \<and> last s = CHR 0x0D then butlast s else s)"

function scan_lines :: "string \<Rightarrow> string list \<times> bool" where
  "scan_lines s =
    (if s = [] then ([], False)
     else let line = takeWhile (\<lambda>c. c \<noteq> newline) s
       in if length line < length s then
            (if MaxScanTokenSize < length line + 1 then ([], True)
             else case scan_lines (drop (Suc (length line)) s) of (lines, too_long) \<Rightarrow> (drop_cr line # lines, too_long))
          else if MaxScanTokenSize \<le> length line then ([], True)
          else ([drop_cr line], False))"
  by pat_completeness auto
termination by (relation "measure length") auto

declare scan_lines.simps [simp del]

text \<open>The reference: the pieces between line ends, without an empty last one.\<close>

definition lines_of :: "string \<Rightarrow> string list" where
  "lines_of s = (let parts = split_on newline s in if last parts = [] then butlast parts else parts)"

lemma split_on_nonempty [simp]: "split_on c s \<noteq> []"
  by (induction s) (auto split: list.splits)

lemma split_on_unfold:
  "split_on c s = (let line = takeWhile (\<lambda>x. x \<noteq> c) s
     in if length line < length s then line # split_on c (drop (Suc (length line)) s) else [line])"
proof (induction s)
  case (Cons x xs)
  show ?case
  proof (cases "x = c")
    case False
    then show ?thesis using Cons by (cases "split_on c xs") (auto simp: Let_def split: if_splits)
  qed simp
qed simp

lemma lines_of_Nil [simp]: "lines_of [] = []"
  by (simp add: lines_of_def)

lemma lines_of_unfold:
  "s \<noteq> [] \<Longrightarrow> lines_of s = (let line = takeWhile (\<lambda>x. x \<noteq> newline) s
     in if length line < length s then line # lines_of (drop (Suc (length line)) s) else [line])"
proof -
  assume s: "s \<noteq> []"
  let ?line = "takeWhile (\<lambda>x. x \<noteq> newline) s"
  have "?line = s" if "\<not> length ?line < length s"
    using that by (metis length_takeWhile_le le_neq_implies_less takeWhile_eq_take take_all_iff order_refl)
  then show ?thesis
    using s by (auto simp: lines_of_def Let_def split_on_unfold[of newline s])
qed

lemma scan_lines_short:
  "list_all (\<lambda>l. length l < MaxScanTokenSize) (lines_of s) \<Longrightarrow> scan_lines s = (map drop_cr (lines_of s), False)"
proof (induction s rule: scan_lines.induct)
  case (1 s)
  show ?case
  proof (cases "s = []")
    case False
    let ?line = "takeWhile (\<lambda>c. c \<noteq> newline) s"
    show ?thesis
      using 1 False by (subst scan_lines.simps) (auto simp: lines_of_unfold Let_def split: if_splits prod.splits)
  qed (simp add: scan_lines.simps)
qed

section \<open>The request\<close>

text \<open>\<open>strings.Split\<close> at a separator that is not empty.\<close>

function split_str :: "string \<Rightarrow> string \<Rightarrow> string list" where
  "split_str sep [] = [[]]"
| "split_str sep (c # cs) =
    (if sep \<noteq> [] \<and> has_prefix (c # cs) sep then [] # split_str sep (drop (length sep) (c # cs))
     else case split_str sep cs of [] \<Rightarrow> [[c]] | y # ys \<Rightarrow> (c # y) # ys)"
  by pat_completeness auto
termination
proof (relation "measure (\<lambda>(sep, s). length s)")
  show "((sep, drop (length sep) (c # cs)), (sep, c # cs)) \<in> measure (\<lambda>(sep, s). length s)" if "sep \<noteq> [] \<and> has_prefix (c # cs) sep" for sep c cs
    using that by (cases sep) auto
qed auto

definition check_protocol :: "string \<Rightarrow> (int \<times> string) + string" where
  "check_protocol protocols =
    (let prefix = takeWhile (\<lambda>c. c \<noteq> CHR ''.'') protocols
     in if protocols = '''' then Inl (401, ''Unauthorized: Missing Sec-WebSocket-Protocol header'')
        else if length prefix = length protocols \<or> prefix \<noteq> ''access_token''
        then Inl (401, ''Unauthorized: Invalid Sec-WebSocket-Protocol format. Expected: access_token.<jwt>'')
        else let token = drop (Suc (length prefix)) protocols
          in if token = '''' then Inl (401, ''Unauthorized: Missing authentication token'') else Inr token)"

definition logs_path :: "string \<Rightarrow> string + string \<times> string" where
  "logs_path path =
    (let prefix = ScenariosRunPath @ ''/'';
         expected = ''Invalid path format. Expected: '' @ ScenariosRunPath @ ''/{scenarioRunName}/jobs/{jobID}/logs''
     in if \<not> has_prefix path prefix then Inl ''Invalid logs endpoint''
        else case split_str ''/jobs/'' (drop (length prefix) path) of
            [scenarioRunName, jobIDAndLogs] \<Rightarrow>
              if \<not> has_suffix jobIDAndLogs ''/logs'' then Inl expected
              else let job_id = trim_suffix jobIDAndLogs ''/logs''
                in if scenarioRunName = '''' \<or> job_id = '''' then Inl ''scenarioRunName and jobID cannot be empty''
                   else Inr (scenarioRunName, job_id)
          | _ \<Rightarrow> Inl expected)"

record PodLogOptions =
  lo_Container :: string
  lo_Follow :: bool
  lo_Timestamps :: bool
  lo_TailLines :: "int option"

definition log_options :: "(string \<Rightarrow> string) \<Rightarrow> PodLogOptions" where
  "log_options query =
     \<lparr>lo_Container = ''scenario'', lo_Follow = (query ''follow'' = ''true''), lo_Timestamps = (query ''timestamps'' = ''true''),
      lo_TailLines = (if query ''tailLines'' \<noteq> '''' then
        (case Atoi (query ''tailLines'') of Some n \<Rightarrow> if n > 0 then Some n else None | None \<Rightarrow> None) else None)\<rparr>"

section \<open>The connection and the client\<close>

datatype ws_error = WSClose int string | WSOther string

text \<open>Only the log of the operator depends on this.\<close>

definition isWebSocketDisconnectError :: "(ws_error \<Rightarrow> string) \<Rightarrow> ws_error option \<Rightarrow> bool" where
  "isWebSocketDisconnectError text err =
    (case err of
       None \<Rightarrow> False
     | Some e \<Rightarrow>
         (case e of WSClose st m \<Rightarrow> st \<in> {1000, 1001, 1006} | WSOther m \<Rightarrow> False) \<or>
         list_ex (contains_str (text e)) [''broken pipe'', ''connection reset by peer'', ''use of closed network connection'', ''i/o timeout'', ''EOF'',
           ''client disconnected''])"

datatype ws_message = TextMessage string | CloseMessage int | PingMessage

record log_stream =
  ls_content :: string
  ls_error :: "string option"

datatype logs_outcome = Refused int string | UpgradeFailed | Upgraded

record 'w logs_client =
  lx_Namespace :: string
  lx_Manager :: "'w \<Rightarrow> SecretManager \<times> 'w"
  lx_Now :: "'w \<Rightarrow> time \<times> 'w"
  lx_Upgrade :: "string \<Rightarrow> 'w \<Rightarrow> string option \<times> 'w"
  lx_Write :: "ws_message \<Rightarrow> 'w \<Rightarrow> ws_error option \<times> 'w"
  lx_Close :: "'w \<Rightarrow> unit \<times> 'w"
  lx_GetRun :: "string \<Rightarrow> string \<Rightarrow> 'w \<Rightarrow> (api_error + KrknScenarioRun) \<times> 'w"
  lx_Auth :: "'w \<Rightarrow> auth_client \<times> 'w"
  lx_ListPods :: "string \<Rightarrow> (string, string) gomap \<Rightarrow> 'w \<Rightarrow> (api_error + Pod list) \<times> 'w"
  lx_Stream :: "string \<Rightarrow> string \<Rightarrow> PodLogOptions \<Rightarrow> 'w \<Rightarrow> (string + log_stream) \<times> 'w"
  lx_CloseStream :: "'w \<Rightarrow> unit \<times> 'w"
  lx_ErrorText :: "api_error \<Rightarrow> string"

section \<open>The handler\<close>

definition ws_fail :: "'w logs_client \<Rightarrow> string \<Rightarrow> ('w, unit, 'a) eff" where
  "ws_fail C msg = bind_eff (step (lx_Write C (TextMessage (''ERROR: '' @ msg)))) (\<lambda>_. stop ())"

definition logs_access :: "auth_client \<Rightarrow> string \<Rightarrow> Claims \<Rightarrow> ClusterJobStatus \<Rightarrow> string option" where
  "logs_access A ns claims targetJob =
    (if cl_Role claims = ''admin'' then None
     else if ClusterAPIURL targetJob = '''' then Some ''Access denied. Job has no cluster API URL''
     else case HasClusterPermission A (cl_UserID claims) ns (ClusterAPIURL targetJob) ActionView of
         Inl e \<Rightarrow> Some ''Failed to validate access permissions''
       | Inr hasAccess \<Rightarrow>
           if \<not> hasAccess then Some ''Access denied. You do not have permission to view logs for this job'' else None)"

fun send_lines :: "'w logs_client \<Rightarrow> string list \<Rightarrow> ('w, unit, unit) eff" where
  "send_lines C [] = ret ()"
| "send_lines C (line # lines) = bind_eff (call_opt (lx_Write C (TextMessage line)) (\<lambda>e. ())) (\<lambda>_. send_lines C lines)"

definition scan_error :: "log_stream \<Rightarrow> string option" where
  "scan_error stream = (if snd (scan_lines (ls_content stream)) then Some ''bufio.Scanner: token too long'' else ls_error stream)"

definition send_stream :: "'w logs_client \<Rightarrow> log_stream \<Rightarrow> ('w, unit, unit) eff" where
  "send_stream C stream =
     bind_eff (send_lines C (fst (scan_lines (ls_content stream)))) (\<lambda>_.
     case scan_error stream of
       Some e \<Rightarrow> ws_fail C (''Log stream error: '' @ e)
     | None \<Rightarrow> bind_eff (step (lx_Write C (CloseMessage 1000))) (\<lambda>_. ret ()))"

definition relay_stream :: "'w logs_client \<Rightarrow> string + log_stream \<Rightarrow> ('w, unit, unit) eff" where
  "relay_stream C opened =
    (case opened of
       Inl e \<Rightarrow> ws_fail C (''Failed to open log stream: '' @ e)
     | Inr stream \<Rightarrow>
       bind_eff (step (send_stream C stream)) (\<lambda>_.
       bind_eff (step (lx_CloseStream C)) (\<lambda>_. ret ())))"

definition stream_pod :: "'w logs_client \<Rightarrow> string \<Rightarrow> (string \<Rightarrow> string) \<Rightarrow> ('w, unit, unit) eff" where
  "stream_pod C job_id query =
     bind_eff (step (lx_ListPods C (lx_Namespace C) [(''krkn-job-id'', job_id)])) (\<lambda>res.
     case res of
       Inl e \<Rightarrow> ws_fail C (''Failed to list pods: '' @ lx_ErrorText C e)
     | Inr pods \<Rightarrow>
       (case pods of
          [] \<Rightarrow> ws_fail C (''Job with ID '' @ in_quotes job_id @ '' not found'')
        | pod # _ \<Rightarrow>
          bind_eff (step (lx_Stream C (lx_Namespace C) (Name (pod_meta pod)) (log_options query))) (relay_stream C)))"

definition logs_session :: "'w logs_client \<Rightarrow> Claims \<Rightarrow> string \<Rightarrow> (string \<Rightarrow> string) \<Rightarrow> ('w, unit, unit) eff" where
  "logs_session C claims path query =
    (case logs_path path of
       Inl e \<Rightarrow> ws_fail C e
     | Inr names \<Rightarrow>
       bind_eff (step (lx_GetRun C (lx_Namespace C) (fst names))) (\<lambda>res.
       case res of
         Inl e \<Rightarrow> ws_fail C (''Scenario run '' @ in_quotes (fst names) @ '' not found'')
       | Inr scenarioRun \<Rightarrow>
         (case List.find (\<lambda>job. JobID job = snd names) (ClusterJobs (sr_Status scenarioRun)) of
            None \<Rightarrow> ws_fail C ''Job not found in scenario run''
          | Some targetJob \<Rightarrow>
            bind_eff (step (lx_Auth C)) (\<lambda>A.
            case logs_access A (lx_Namespace C) claims targetJob of
              Some msg \<Rightarrow> ws_fail C msg
            | None \<Rightarrow> stream_pod C (snd names) query))))"

definition GetScenarioRunLogs ::
  "jwt_lib \<Rightarrow> 'w logs_client \<Rightarrow> string \<Rightarrow> string \<Rightarrow> (string \<Rightarrow> string) \<Rightarrow> 'w \<Rightarrow> logs_outcome \<times> 'w" where
  "GetScenarioRunLogs J C protocols path query = run_handler
    (case check_protocol protocols of
       Inl r \<Rightarrow> ret (Refused (fst r) (snd r))
     | Inr token \<Rightarrow>
       bind_eff (step (lx_Manager C)) (\<lambda>manager.
       case GetTokenGenerator manager of
         None \<Rightarrow> stop (Refused 500 ''Internal Server Error'')
       | Some tokenGen \<Rightarrow>
         bind_eff (step (lx_Now C)) (\<lambda>now.
         case ValidateToken J tokenGen now token of
           Inl e \<Rightarrow> stop (Refused 401 ''Unauthorized: Invalid or expired token'')
         | Inr claims \<Rightarrow>
           bind_eff (call_opt (lx_Upgrade C protocols) (\<lambda>e. UpgradeFailed)) (\<lambda>_.
           bind_eff (step (logs_session C claims path query)) (\<lambda>_.
           bind_eff (step (lx_Close C)) (\<lambda>_. ret Upgraded))))))"

text \<open>
  The goroutine that pings the client while the log is sent: its select takes the ticks of the ticker and the end of the handler, and it
  returns at the end or when a ping cannot be written. The handler and the goroutine share the connection only: whatever the goroutine does
  between two calls of the handler is a change of the world between them, over which the properties of the handler quantify.
\<close>

datatype ping_event = PingTick | SessionDone

fun ping_loop :: "'w logs_client \<Rightarrow> ping_event list \<Rightarrow> 'w \<Rightarrow> bool \<times> 'w" where
  "ping_loop C [] w = (False, w)"
| "ping_loop C (SessionDone # evs) w = (True, w)"
| "ping_loop C (PingTick # evs) w =
    (case lx_Write C PingMessage w of
       (Some e, w') \<Rightarrow> (True, w')
     | (None, w') \<Rightarrow> ping_loop C evs w')"

section \<open>Who reads logs\<close>

datatype logs_event =
    ManagerSeen SecretManager
  | TimeSeen time
  | UpgradeCall string "string option"
  | Wrote ws_message "ws_error option"
  | ConnClosed
  | LogRunRead string string "api_error + KrknScenarioRun"
  | LogAuth auth_client
  | LogPods string "(string, string) gomap" "api_error + Pod list"
  | StreamOpened string string PodLogOptions "string + log_stream"
  | StreamClosed

definition logged_logs :: "'w logs_client \<Rightarrow> ('w \<times> logs_event list) logs_client" where
  "logged_logs C = \<lparr>lx_Namespace = lx_Namespace C, lx_Manager = noting (lx_Manager C) ManagerSeen, lx_Now = noting (lx_Now C) TimeSeen,
     lx_Upgrade = (\<lambda>p. noting (lx_Upgrade C p) (UpgradeCall p)), lx_Write = (\<lambda>m. noting (lx_Write C m) (Wrote m)),
     lx_Close = noting (lx_Close C) (\<lambda>_. ConnClosed), lx_GetRun = (\<lambda>ns n. noting (lx_GetRun C ns n) (LogRunRead ns n)),
     lx_Auth = noting (lx_Auth C) LogAuth, lx_ListPods = (\<lambda>ns ls. noting (lx_ListPods C ns ls) (LogPods ns ls)),
     lx_Stream = (\<lambda>ns p opts. noting (lx_Stream C ns p opts) (StreamOpened ns p opts)),
     lx_CloseStream = noting (lx_CloseStream C) (\<lambda>_. StreamClosed), lx_ErrorText = lx_ErrorText C\<rparr>"

lemma logged_logs_simps [simp]:
  "lx_Namespace (logged_logs C) = lx_Namespace C" "lx_Manager (logged_logs C) = noting (lx_Manager C) ManagerSeen"
  "lx_Now (logged_logs C) = noting (lx_Now C) TimeSeen" "lx_Upgrade (logged_logs C) p = noting (lx_Upgrade C p) (UpgradeCall p)"
  "lx_Write (logged_logs C) m = noting (lx_Write C m) (Wrote m)" "lx_Close (logged_logs C) = noting (lx_Close C) (\<lambda>_. ConnClosed)"
  "lx_GetRun (logged_logs C) ns n = noting (lx_GetRun C ns n) (LogRunRead ns n)" "lx_Auth (logged_logs C) = noting (lx_Auth C) LogAuth"
  "lx_ListPods (logged_logs C) ns ls = noting (lx_ListPods C ns ls) (LogPods ns ls)"
  "lx_Stream (logged_logs C) ns p opts = noting (lx_Stream C ns p opts) (StreamOpened ns p opts)"
  "lx_CloseStream (logged_logs C) = noting (lx_CloseStream C) (\<lambda>_. StreamClosed)"
  by (simp_all add: logged_logs_def)

text \<open>The caller proved its identity and the connection was upgraded.\<close>

definition authenticated :: "jwt_lib \<Rightarrow> string \<Rightarrow> logs_event set \<Rightarrow> Claims \<Rightarrow> bool" where
  "authenticated J protocols S claims \<longleftrightarrow>
    (\<exists>token m tg now. check_protocol protocols = Inr token \<and> ManagerSeen m \<in> S \<and> GetTokenGenerator m = Some tg \<and> TimeSeen now \<in> S \<and>
       ValidateToken J tg now token = Inr claims \<and> UpgradeCall protocols None \<in> S)"

definition may_read_log :: "string \<Rightarrow> logs_event set \<Rightarrow> Claims \<Rightarrow> ClusterJobStatus \<Rightarrow> bool" where
  "may_read_log ns S claims job \<longleftrightarrow>
    cl_Role claims = ''admin'' \<or>
    (\<exists>A. LogAuth A \<in> S \<and> ClusterAPIURL job \<noteq> '''' \<and> HasClusterPermission A (cl_UserID claims) ns (ClusterAPIURL job) ActionView = Inr True)"

text \<open>The pod is the one of a job of the named run that the caller may read.\<close>

definition stream_permitted :: "string \<Rightarrow> string \<Rightarrow> logs_event set \<Rightarrow> Claims \<Rightarrow> string \<Rightarrow> bool" where
  "stream_permitted ns path S claims p \<longleftrightarrow>
    (\<exists>n j run job pod ps. logs_path path = Inr (n, j) \<and> LogRunRead ns n (Inr run) \<in> S \<and> job \<in> set (ClusterJobs (sr_Status run)) \<and> JobID job = j \<and>
       may_read_log ns S claims job \<and> LogPods ns [(''krkn-job-id'', j)] (Inr (pod # ps)) \<in> S \<and> p = Name (pod_meta pod))"

definition logs_call_ok :: "jwt_lib \<Rightarrow> string \<Rightarrow> string \<Rightarrow> string \<Rightarrow> logs_event set \<Rightarrow> logs_event \<Rightarrow> bool" where
  "logs_call_ok J ns protocols path S ev \<longleftrightarrow>
    (case ev of
       Wrote msg x \<Rightarrow> (\<exists>claims. authenticated J protocols S claims) \<and>
         (case msg of
            PingMessage \<Rightarrow> False
          | CloseMessage n \<Rightarrow> True
          | TextMessage t \<Rightarrow> has_prefix t ''ERROR: '' \<or>
              (\<exists>ns' p opts s. StreamOpened ns' p opts (Inr s) \<in> S \<and> t \<in> set (fst (scan_lines (ls_content s)))))
     | LogRunRead ns' n x \<Rightarrow> \<exists>claims. authenticated J protocols S claims
     | LogPods ns' ls x \<Rightarrow> \<exists>claims. authenticated J protocols S claims
     | StreamOpened ns' p opts x \<Rightarrow>
         ns' = ns \<and> (\<exists>claims. authenticated J protocols S claims \<and> stream_permitted ns path S claims p)
     | _ \<Rightarrow> True)"

definition logs_ok :: "jwt_lib \<Rightarrow> string \<Rightarrow> string \<Rightarrow> string \<Rightarrow> logs_event list \<Rightarrow> bool" where
  "logs_ok J ns protocols path log \<longleftrightarrow> list_all (logs_call_ok J ns protocols path (set log)) log"

definition streams_closed :: "logs_event set \<Rightarrow> bool" where
  "streams_closed S \<longleftrightarrow> (\<forall>ns p opts s. StreamOpened ns p opts (Inr s) \<in> S \<longrightarrow> StreamClosed \<in> S)"

fun before_session :: "logs_event \<Rightarrow> bool" where
  "before_session (ManagerSeen m) \<longleftrightarrow> True"
| "before_session (TimeSeen t) \<longleftrightarrow> True"
| "before_session (UpgradeCall p x) \<longleftrightarrow> True"
| "before_session _ \<longleftrightarrow> False"

definition logs_end_ok :: "logs_outcome \<Rightarrow> logs_event list \<Rightarrow> bool" where
  "logs_end_ok r log \<longleftrightarrow> streams_closed (set log) \<and>
    (case r of Upgraded \<Rightarrow> log \<noteq> [] \<and> last log = ConnClosed | _ \<Rightarrow> list_all before_session log)"

lemma before_session_ok: "before_session e \<Longrightarrow> logs_call_ok J ns pr path S e"
  by (cases e) (auto simp: logs_call_ok_def)

lemma authenticated_mono: "authenticated J pr S claims \<Longrightarrow> S \<subseteq> S' \<Longrightarrow> authenticated J pr S' claims"
  unfolding authenticated_def by blast

lemma may_read_log_mono: "may_read_log ns S claims job \<Longrightarrow> S \<subseteq> S' \<Longrightarrow> may_read_log ns S' claims job"
  unfolding may_read_log_def by blast

lemma stream_permitted_mono: "stream_permitted ns path S claims p \<Longrightarrow> S \<subseteq> S' \<Longrightarrow> stream_permitted ns path S' claims p"
  unfolding stream_permitted_def by (elim exE conjE, intro exI conjI) (auto intro: may_read_log_mono)

lemma logs_call_ok_mono:
  assumes "logs_call_ok J ns pr path S ev" "S \<subseteq> S'"
  shows "logs_call_ok J ns pr path S' ev"
  using assms authenticated_mono[OF _ assms(2)] stream_permitted_mono[OF _ assms(2)]
  by (auto simp: logs_call_ok_def split: logs_event.splits ws_message.splits) blast+

lemma logs_ok_snoc: "logs_ok J ns pr path log \<Longrightarrow> logs_call_ok J ns pr path (insert e (set log)) e \<Longrightarrow> logs_ok J ns pr path (log @ [e])"
  unfolding logs_ok_def by (auto simp: list_all_iff intro: logs_call_ok_mono)

text \<open>What holds of the log while a session runs.\<close>

definition in_session :: "jwt_lib \<Rightarrow> string \<Rightarrow> string \<Rightarrow> string \<Rightarrow> Claims \<Rightarrow> logs_event list \<Rightarrow> bool" where
  "in_session J ns pr path claims log \<longleftrightarrow> logs_ok J ns pr path log \<and> authenticated J pr (set log) claims"

lemma in_session_snoc:
  "in_session J ns pr path claims log \<Longrightarrow> logs_call_ok J ns pr path (insert e (set log)) e \<Longrightarrow> in_session J ns pr path claims (log @ [e])"
  by (auto simp: in_session_def logs_ok_snoc intro: authenticated_mono)

lemma in_session_auth: "in_session J ns pr path claims log \<Longrightarrow> authenticated J pr (insert e (set log)) claims"
  by (auto simp: in_session_def intro: authenticated_mono)

lemma in_session_rules:
  assumes "in_session J ns pr path claims log"
  shows "in_session J ns pr path claims (log @ [Wrote (TextMessage (''ERROR: '' @ m)) x])"
    and "in_session J ns pr path claims (log @ [Wrote (CloseMessage n) x])"
    and "in_session J ns pr path claims (log @ [LogRunRead ns' n' y])" and "in_session J ns pr path claims (log @ [LogPods ns' ls z])"
    and "in_session J ns pr path claims (log @ [LogAuth A])" and "in_session J ns pr path claims (log @ [StreamClosed])"
    and "StreamOpened ns' p opts (Inr s) \<in> set log \<Longrightarrow> t \<in> set (fst (scan_lines (ls_content s))) \<Longrightarrow> in_session J ns pr path claims (log @ [Wrote (TextMessage t) x])"
  by (rule in_session_snoc[OF assms], insert in_session_auth[OF assms], auto simp: logs_call_ok_def has_prefix_def)+

lemma streams_closed_simps [simp]:
  "streams_closed S \<Longrightarrow> streams_closed (insert (Wrote m x) S)" "streams_closed S \<Longrightarrow> streams_closed (insert (LogRunRead ns n y) S)"
  "streams_closed S \<Longrightarrow> streams_closed (insert (LogAuth A) S)" "streams_closed S \<Longrightarrow> streams_closed (insert (LogPods ns ls z) S)"
  "streams_closed S \<Longrightarrow> streams_closed (insert (StreamOpened ns p opts (Inl e)) S)" "streams_closed (insert StreamClosed S)"
  by (auto simp: streams_closed_def)

lemma send_lines_ensures:
  "in_session J ns pr path claims log \<Longrightarrow> StreamOpened ns' p opts (Inr s) \<in> set log \<Longrightarrow> set lines \<subseteq> set (fst (scan_lines (ls_content s))) \<Longrightarrow>
   ensures (send_lines (logged_logs C) lines) (\<lambda>_. in_session J ns pr path claims) (\<lambda>_. in_session J ns pr path claims) log"
proof (induction lines arbitrary: log)
  case (Cons line lines)
  have "in_session J ns pr path claims (log @ [Wrote (TextMessage line) x])" for x
    using Cons.prems by (intro in_session_rules(7)) auto
  with Cons show ?case by (auto intro!: ensures_rules)
qed (simp add: ensures_ret)

lemma send_stream_ensures:
  assumes "in_session J ns pr path claims log" "StreamOpened ns' p opts (Inr s) \<in> set log"
  shows "ensures (send_stream (logged_logs C) s) (\<lambda>_. in_session J ns pr path claims) (\<lambda>_. in_session J ns pr path claims) log"
  unfolding send_stream_def ws_fail_def logged_logs_simps
  by (rule ensures_bind, rule ensures_mono[OF send_lines_ensures[OF assms order_refl]])
    (auto intro!: ensures_rules intro: in_session_rules(1,2)[simplified] split: option.split)

definition session_ok :: "jwt_lib \<Rightarrow> string \<Rightarrow> string \<Rightarrow> string \<Rightarrow> Claims \<Rightarrow> logs_event list \<Rightarrow> bool" where
  "session_ok J ns pr path claims log \<longleftrightarrow> in_session J ns pr path claims log \<and> streams_closed (set log)"

lemma session_ok_rules:
  assumes "session_ok J ns pr path claims log"
  shows "session_ok J ns pr path claims (log @ [Wrote (TextMessage (''ERROR: '' @ m)) x])"
    and "session_ok J ns pr path claims (log @ [LogRunRead ns' n' y])" and "session_ok J ns pr path claims (log @ [LogPods ns' ls z])"
    and "session_ok J ns pr path claims (log @ [LogAuth A])"
  using assms in_session_rules[of J ns pr path claims log] by (simp_all add: session_ok_def)

lemma ensures_ws_fail:
  "session_ok J ns pr path claims log \<Longrightarrow> ensures (ws_fail (logged_logs C) m) Q (\<lambda>_. session_ok J ns pr path claims) log"
  unfolding ws_fail_def logged_logs_simps by (intro ensures_rules session_ok_rules(1))

lemma in_session_stream:
  "in_session J ns pr path claims log \<Longrightarrow> stream_permitted ns path (set log) claims p \<Longrightarrow> in_session J ns pr path claims (log @ [StreamOpened ns p opts x])"
  by (rule in_session_snoc) (auto simp: logs_call_ok_def intro: in_session_auth stream_permitted_mono)

lemma relay_stream_ensures:
  assumes "in_session J ns pr path claims (log @ [StreamOpened ns p opts x])" "streams_closed (set log)"
  shows "ensures (relay_stream (logged_logs C) x)
    (\<lambda>_. session_ok J ns pr path claims) (\<lambda>_. session_ok J ns pr path claims) (log @ [StreamOpened ns p opts x])"
proof (cases x)
  case (Inl e)
  with assms have "session_ok J ns pr path claims (log @ [StreamOpened ns p opts x])" by (simp add: session_ok_def)
  with Inl show ?thesis by (auto simp: relay_stream_def intro: ensures_ws_fail)
next
  case (Inr s)
  have close: "ensures (bind_eff (step (noting (lx_CloseStream C) (\<lambda>_. StreamClosed))) (\<lambda>_. ret ()))
      (\<lambda>_. session_ok J ns pr path claims) (\<lambda>_. session_ok J ns pr path claims) l" if "in_session J ns pr path claims l" for l
    using in_session_rules(6)[OF that] by (intro ensures_rules) (simp add: session_ok_def)
  have "ensures (send_stream (logged_logs C) s) (\<lambda>_. in_session J ns pr path claims) (\<lambda>_. in_session J ns pr path claims) (log @ [StreamOpened ns p opts x])"
    by (rule send_stream_ensures[OF assms(1), of ns p opts]) (simp add: Inr)
  then show ?thesis
    unfolding relay_stream_def Inr sum.case logged_logs_simps
    by (intro ensures_bind ensures_step_eff) (rule ensures_mono, assumption, erule close, erule close)
qed

lemma stream_pod_ensures:
  assumes "session_ok J (lx_Namespace C) pr path claims log" and "logs_path path = Inr (n, j)"
    and "LogRunRead (lx_Namespace C) n (Inr run) \<in> set log" "job \<in> set (ClusterJobs (sr_Status run))" "JobID job = j"
    and "may_read_log (lx_Namespace C) (set log) claims job"
  shows "ensures (stream_pod (logged_logs C) j query) (\<lambda>_. session_ok J (lx_Namespace C) pr path claims) (\<lambda>_. session_ok J (lx_Namespace C) pr path claims) log"
proof -
  have permitted: "stream_permitted (lx_Namespace C) path (set (log @ [LogPods (lx_Namespace C) [(''krkn-job-id'', j)] (Inr (pod # ps))])) claims (Name (pod_meta pod))"
    for pod ps
  proof -
    have "may_read_log (lx_Namespace C) (set (log @ [LogPods (lx_Namespace C) [(''krkn-job-id'', j)] (Inr (pod # ps))])) claims job"
      using assms(6) by (rule may_read_log_mono) auto
    with assms(2-5) show ?thesis unfolding stream_permitted_def by auto
  qed
  show ?thesis
    unfolding stream_pod_def logged_logs_simps
    by (intro ensures_bind ensures_step ensures_sum ensures_list)
      (use session_ok_rules(3)[OF assms(1)] permitted in
        \<open>auto simp del: append_assoc simp: session_ok_def intro!: ensures_ws_fail relay_stream_ensures in_session_stream\<close>)
qed

text \<open>Inside the session: the job is looked up in the run, and the permission on its cluster is checked.\<close>

lemma logs_access_None:
  "logs_access A ns claims job = None \<Longrightarrow> LogAuth A \<in> S \<Longrightarrow> may_read_log ns S claims job"
  by (auto simp: logs_access_def may_read_log_def split: if_splits sum.splits)

lemma logs_session_ensures:
  assumes "session_ok J (lx_Namespace C) pr path claims log"
  shows "ensures (logs_session (logged_logs C) claims path query) (\<lambda>_. session_ok J (lx_Namespace C) pr path claims) (\<lambda>_. session_ok J (lx_Namespace C) pr path claims) log"
  unfolding logs_session_def logged_logs_simps
  by (intro ensures_sum ensures_bind ensures_step ensures_option ensures_ws_fail stream_pod_ensures session_ok_rules(2,4) assms)
    (auto dest: find_SomeD intro: logs_access_None)

text \<open>
  C26. Whatever request reaches the log endpoint, and whatever the cluster and the connection answer: without a valid token in the subprotocol nothing is read and
  nothing is sent; the log of a pod is opened only for a job of the named run, and only if the caller is an administrator or may view the cluster of that
  job; what is sent are lines of that log, in addition to error messages; every stream that was opened is closed, and an upgraded connection is closed last.
\<close>

theorem logs_authorized:
  "case GetScenarioRunLogs J (logged_logs C) protocols path query (w, []) of
     (r, (w', log)) \<Rightarrow> logs_ok J (lx_Namespace C) protocols path log \<and> logs_end_ok r log"
proof -
  have start: "session_ok J (lx_Namespace C) protocols path claims [ManagerSeen m, TimeSeen now, UpgradeCall protocols None]"
    if "check_protocol protocols = Inr token" "GetTokenGenerator m = Some tg" "ValidateToken J tg now token = Inr claims" for token m tg now claims
    using that by (auto simp: session_ok_def in_session_def logs_ok_def logs_call_ok_def authenticated_def streams_closed_def)
  have finish: "logs_ok J (lx_Namespace C) protocols path (l @ [ConnClosed])" "logs_end_ok Upgraded (l @ [ConnClosed])"
    if "session_ok J (lx_Namespace C) protocols path claims l" for l claims
    using that by (auto simp: session_ok_def in_session_def logs_end_ok_def streams_closed_def logs_call_ok_def intro: logs_ok_snoc)
  have early: "logs_ok J (lx_Namespace C) protocols path log" "logs_end_ok (Refused st m) log" "logs_end_ok UpgradeFailed log"
    if "list_all before_session log" for log st m
    using that before_session_ok by (auto simp: logs_ok_def logs_end_ok_def streams_closed_def list_all_iff)
  show ?thesis
    unfolding GetScenarioRunLogs_def logged_logs_simps
    by (rule run_handler_ensures, intro ensures_sum ensures_bind ensures_step ensures_option ensures_call_opt ensures_stop ensures_ret ensures_step_eff
        ensures_mono[OF logs_session_ensures])
      (auto intro: start finish early)
qed

section \<open>What a client gets\<close>

lemma send_lines_all:
  assumes "\<And>m w. lx_Write C m w = (None, f m w)"
  shows "send_lines C lines w = (Inr (), fold f (map TextMessage lines) w)"
  using assms by (induction lines arbitrary: w) (simp_all add: ret_def bind_eff_def call_opt_def)

text \<open>
  C40. While the connection accepts what is written, the client gets every line of the log in order and without its end, and then the message that
  closes the connection normally, if no line is as long as the buffer of the scanner and the log ends without an error.
\<close>

theorem logs_deliver_every_line:
  assumes "\<And>m w. lx_Write C m w = (None, w @ [m])"
    and "list_all (\<lambda>l. length l < MaxScanTokenSize) (lines_of (ls_content stream))" and "ls_error stream = None"
  shows "send_stream C stream [] = (Inr (), map (\<lambda>l. TextMessage (drop_cr l)) (lines_of (ls_content stream)) @ [CloseMessage 1000])"
proof -
  have "fold (\<lambda>m w. w @ [m]) ms w = w @ ms" for ms w :: "ws_message list" by (induction ms arbitrary: w) simp_all
  then show ?thesis
    using scan_lines_short[OF assms(2)] assms(1,3)
    by (simp add: send_stream_def bind_eff_def send_lines_all[where f = "\<lambda>m w. w @ [m]"] scan_error_def step_def ret_def comp_def)
qed

definition sample_logs :: "ws_message list logs_client" where
  "sample_logs = \<lparr>lx_Namespace = ''krkn'', lx_Manager = (\<lambda>w. (NewSecretManager ''krkn'' 3600 ''krkn'', w)), lx_Now = (\<lambda>w. (0, w)), lx_Upgrade = (\<lambda>_ w. (None, w)),
     lx_Write = (\<lambda>m w. (None, w @ [m])), lx_Close = (\<lambda>w. ((), w)), lx_GetRun = (\<lambda>_ _ w. (Inl NotFound, w)),
     lx_Auth = (\<lambda>w. (sample_auth_client [] two_provider_request, w)), lx_ListPods = (\<lambda>_ _ w. (Inr [], w)), lx_Stream = (\<lambda>_ _ _ w. (Inl [], w)),
     lx_CloseStream = (\<lambda>w. ((), w)), lx_ErrorText = (\<lambda>_. [])\<rparr>"

theorem logs_deliver_every_line_witness:
  "send_stream sample_logs \<lparr>ls_content = ''a'' @ [newline, CHR ''b'', CHR 0x0D, newline], ls_error = None\<rparr> [] =
     (Inr (), [TextMessage ''a'', TextMessage ''b'', CloseMessage 1000])"
proof -
  let ?s = "\<lparr>ls_content = ''a'' @ [newline, CHR ''b'', CHR 0x0D, newline], ls_error = None\<rparr> :: log_stream"
  have l: "lines_of [CHR ''a'', newline, CHR ''b'', CHR 0x0D, newline] = [''a'', [CHR ''b'', CHR 0x0D]]" by (simp add: lines_of_def newline_def)
  have "send_stream sample_logs ?s [] = (Inr (), map (\<lambda>l. TextMessage (drop_cr l)) (lines_of (ls_content ?s)) @ [CloseMessage 1000])"
    by (rule logs_deliver_every_line) (simp_all add: l sample_logs_def MaxScanTokenSize_def)
  then show ?thesis by (simp add: l drop_cr_def)
qed

text \<open>A line that fills the buffer ends the stream: neither it nor anything after it is sent.\<close>

theorem long_line_ends_stream:
  assumes "newline \<notin> set line" "MaxScanTokenSize \<le> length line"
  shows "scan_lines (line @ rest) = ([], True)"
proof -
  let ?l = "takeWhile (\<lambda>c. c \<noteq> newline) (line @ rest)"
  have "?l = line @ takeWhile (\<lambda>c. c \<noteq> newline) rest" by (rule takeWhile_append2) (use assms(1) in auto)
  then have "MaxScanTokenSize \<le> length ?l" using assms(2) by simp
  moreover have "line @ rest \<noteq> []" using assms(2) by (auto simp: MaxScanTokenSize_def)
  ultimately show ?thesis by (subst scan_lines.simps) (simp add: Let_def)
qed

section \<open>Two writers on one connection\<close>

text \<open>
  The goroutine writes pings and nothing else, one for each tick before the end of the handler, and returns at the end or after the
  first ping that fails.
\<close>

theorem ping_loop_writes:
  "case ping_loop (logged_logs C) evs (w, log) of (returned, (w', log')) \<Rightarrow>
     (\<exists>xs. log' = log @ map (Wrote PingMessage) xs \<and> length xs \<le> length (takeWhile (\<lambda>e. e = PingTick) evs) \<and> list_all (\<lambda>x. x = None) (butlast xs) \<and>
       (if xs \<noteq> [] \<and> last xs \<noteq> None then returned
        else length xs = length (takeWhile (\<lambda>e. e = PingTick) evs) \<and> returned = (SessionDone \<in> set evs)))"
proof (induction C\<equiv>"logged_logs C" evs "(w, log)" arbitrary: w log rule: ping_loop.induct)
  case (3 evs)
  obtain x w1 where x: "lx_Write C PingMessage w = (x, w1)" by (metis surj_pair)
  show ?case
  proof (cases x)
    case None
    with x have step: "ping_loop (logged_logs C) (PingTick # evs) (w, log) = ping_loop (logged_logs C) evs (w1, log @ [Wrote PingMessage None])"
      by (simp add: noting_def)
    obtain returned w' log' where r: "ping_loop (logged_logs C) evs (w1, log @ [Wrote PingMessage None]) = (returned, (w', log'))" by (metis surj_pair)
    from 3[of _ w1 "log @ [Wrote PingMessage None]"] x None r obtain xs where
      "log' = (log @ [Wrote PingMessage None]) @ map (Wrote PingMessage) xs" "length xs \<le> length (takeWhile (\<lambda>e. e = PingTick) evs)"
      "list_all (\<lambda>x. x = None) (butlast xs)" "if xs \<noteq> [] \<and> last xs \<noteq> None then returned
        else length xs = length (takeWhile (\<lambda>e. e = PingTick) evs) \<and> returned = (SessionDone \<in> set evs)"
      by (auto simp: noting_def)
    then show ?thesis unfolding step r by (auto intro!: exI[of _ "None # xs"] split: if_splits)
  qed (use x in \<open>auto simp: noting_def intro!: exI[of _ "[x]"]\<close>)
qed auto

text \<open>
  A goroutine pings the client every thirty seconds while the handler sends lines, both with \<open>WriteMessage\<close>. The library marks the
  connection while a frame is written, and panics when it finds the mark of another writer; a panic in the goroutine ends the process.
\<close>

datatype writer = LogLoop | PingLoop

record ws_conn =
  isWriting :: bool
  flushing :: "writer set"

datatype ws_state = Open ws_conn | Panicked

inductive ws_step :: "writer set \<Rightarrow> ws_state \<Rightarrow> ws_state \<Rightarrow> bool" for writers :: "writer set" where
  begin_flush: "p \<in> writers \<Longrightarrow> p \<notin> flushing c \<Longrightarrow> \<not> isWriting c \<Longrightarrow>
    ws_step writers (Open c) (Open (c\<lparr>isWriting := True, flushing := insert p (flushing c)\<rparr>))"
| concurrent_write: "p \<in> writers \<Longrightarrow> p \<notin> flushing c \<Longrightarrow> isWriting c \<Longrightarrow> ws_step writers (Open c) Panicked"
| end_flush: "p \<in> flushing c \<Longrightarrow> isWriting c \<Longrightarrow>
    ws_step writers (Open c) (Open (c\<lparr>isWriting := False, flushing := flushing c - {p}\<rparr>))"
| lost_mark: "p \<in> flushing c \<Longrightarrow> \<not> isWriting c \<Longrightarrow> ws_step writers (Open c) Panicked"

definition idle_conn :: ws_state where
  "idle_conn = Open \<lparr>isWriting = False, flushing = {}\<rparr>"

theorem ping_can_panic: "(ws_step {LogLoop, PingLoop})\<^sup>*\<^sup>* idle_conn Panicked"
proof -
  let ?c = "\<lparr>isWriting = True, flushing = {LogLoop}\<rparr>"
  have "ws_step {LogLoop, PingLoop} idle_conn (Open ?c)"
    using begin_flush[of LogLoop "{LogLoop, PingLoop}" "\<lparr>isWriting = False, flushing = {}\<rparr>"] by (simp add: idle_conn_def)
  moreover have "ws_step {LogLoop, PingLoop} (Open ?c) Panicked" by (rule concurrent_write[of PingLoop]) auto
  ultimately show ?thesis by (meson converse_rtranclp_into_rtranclp r_into_rtranclp)
qed

text \<open>One writer alone never panics.\<close>

theorem single_writer_safe: "(ws_step {p})\<^sup>*\<^sup>* idle_conn s \<Longrightarrow> s \<noteq> Panicked"
proof -
  assume "(ws_step {p})\<^sup>*\<^sup>* idle_conn s"
  then have "s \<in> {idle_conn, Open \<lparr>isWriting = True, flushing = {p}\<rparr>}"
  proof induction
    case (step s s')
    from step(2,3) show ?case by (auto simp: idle_conn_def elim!: ws_step.cases)
  qed simp
  then show ?thesis by (auto simp: idle_conn_def)
qed

end
