(* ===== verification/API_Server.thy ===== *)
theory API_Server
  imports Logs_API
begin

text \<open>
  The server: \<open>src/internal/api/server.go\<close> and \<open>routes.go\<close>. A table of patterns leads to handlers, all but a few of them behind the middleware
  that validates the token. The multiplexer is that of \<open>net/http\<close>; requests are given by their path without percent escapes, and patterns have no
  method and no wildcard. A request ends in a redirection, in a refusal or in a handler with the claims of its token.
\<close>

section \<open>Paths\<close>

definition APIBasePath :: string where
  "APIBasePath = ''/api/v1''"

definition AuthBasePath :: string where
  "AuthBasePath = APIBasePath @ ''/auth''"

definition HealthPath :: string where
  "HealthPath = APIBasePath @ ''/health''"

definition TerminalPath :: string where
  "TerminalPath = APIBasePath @ ''/terminal''"

definition DashboardActiveRunsPath :: string where
  "DashboardActiveRunsPath = APIBasePath @ ''/dashboard/active-runs''"

text \<open>\<open>path.Clean\<close> of a rooted path, and the path the multiplexer uses: with the slash at the end kept.\<close>

fun clean_segments :: "string list \<Rightarrow> string list \<Rightarrow> string list" where
  "clean_segments out [] = rev out"
| "clean_segments out (seg # segs) =
    (if seg = '''' \<or> seg = ''.'' then clean_segments out segs
     else if seg = ''..'' then clean_segments (tl out) segs
     else clean_segments (seg # out) segs)"

definition path_Clean :: "string \<Rightarrow> string" where
  "path_Clean p = (let segs = clean_segments [] (split_on CHR ''/'' p) in if segs = [] then ''/'' else concat (map (\<lambda>s. CHR ''/'' # s) segs))"

definition cleanPath :: "string \<Rightarrow> string" where
  "cleanPath p =
    (if p = '''' then ''/''
     else let p' = (if hd p \<noteq> CHR ''/'' then CHR ''/'' # p else p); np = path_Clean p'
       in if last p' = CHR ''/'' \<and> np \<noteq> ''/'' then np @ ''/'' else np)"

section \<open>The table of handlers\<close>

datatype endpoint =
    E_IsRegistered | E_Register | E_Login | E_HealthCheck | E_GetClusters | E_GetNodes | E_ExecuteTerminal | E_GetAvailableCommands | E_TargetsHandler
  | E_PostScenarios | E_PostScenarioDetail | E_PostScenarioGlobals | E_GetScenarioRunLogs | E_ScenariosRunRouter | E_GetActiveRunsOverview | E_UsersRouter
  | E_GroupsRouter | E_RegistriesRouter | E_ListAvailableRegistries | E_ProviderConfigHandler | E_ProvidersRouter | E_TargetsCRUDRouter | E_GraphRunsRouter

text \<open>What is registered for a pattern: a bare handler, one behind the middleware, or the choice between the log stream and the runs.\<close>

datatype registration = Bare endpoint | RequiresAuth endpoint | RunSubtree

definition mux_table :: "(string \<times> registration) list" where
  "mux_table =
    [(AuthBasePath @ ''/is-registered'', Bare E_IsRegistered), (AuthBasePath @ ''/register'', Bare E_Register), (AuthBasePath @ ''/login'', Bare E_Login),
     (HealthPath, RequiresAuth E_HealthCheck), (ClustersPath, RequiresAuth E_GetClusters), (NodesPath, RequiresAuth E_GetNodes),
     (TerminalPath, RequiresAuth E_ExecuteTerminal), (TerminalPath @ ''/available-commands'', RequiresAuth E_GetAvailableCommands),
     (TargetsPath, RequiresAuth E_TargetsHandler), (TargetsPath @ ''/'', RequiresAuth E_TargetsHandler),
     (ScenariosPath, RequiresAuth E_PostScenarios), (ScenariosDetailPath @ ''/'', RequiresAuth E_PostScenarioDetail),
     (ScenariosGlobalsPath @ ''/'', RequiresAuth E_PostScenarioGlobals), (ScenariosRunPath @ ''/'', RunSubtree),
     (ScenariosRunPath, RequiresAuth E_ScenariosRunRouter), (DashboardActiveRunsPath, RequiresAuth E_GetActiveRunsOverview),
     (UsersPath, RequiresAuth E_UsersRouter), (UsersPath @ ''/'', RequiresAuth E_UsersRouter),
     (GroupsPath, RequiresAuth E_GroupsRouter), (GroupsPath @ ''/'', RequiresAuth E_GroupsRouter),
     (RegistriesPath, RequiresAuth E_RegistriesRouter), (RegistriesPath @ ''/'', RequiresAuth E_RegistriesRouter),
     (RegistriesPath @ ''/available'', RequiresAuth E_ListAvailableRegistries),
     (ProviderConfigPath, RequiresAuth E_ProviderConfigHandler), (ProviderConfigPath @ ''/'', RequiresAuth E_ProviderConfigHandler),
     (ProvidersPath, RequiresAuth E_ProvidersRouter), (ProvidersPath @ ''/'', RequiresAuth E_ProvidersRouter),
     (OperatorTargetsPath, RequiresAuth E_TargetsCRUDRouter), (OperatorTargetsPath @ ''/'', RequiresAuth E_TargetsCRUDRouter),
     (GraphRunsPath, RequiresAuth E_GraphRunsRouter), (GraphRunsPath @ ''/'', RequiresAuth E_GraphRunsRouter)]"

text \<open>A pattern with a slash at the end matches its subtree, any other only itself; the longest match wins.\<close>

definition pattern_matches :: "string \<Rightarrow> string \<Rightarrow> bool" where
  "pattern_matches pat path = (if has_suffix pat ''/'' then has_prefix path pat else path = pat)"

fun mux_match :: "(string \<times> 'h) list \<Rightarrow> string \<Rightarrow> (string \<times> 'h) option" where
  "mux_match [] path = None"
| "mux_match ((pat, h) # table) path =
    (case mux_match table path of
       None \<Rightarrow> if pattern_matches pat path then Some (pat, h) else None
     | Some (pat', h') \<Rightarrow> if pattern_matches pat path \<and> length pat' < length pat then Some (pat, h) else Some (pat', h'))"

datatype found = Redirect string | NoHandler | Found registration

definition findHandler :: "(string \<times> registration) list \<Rightarrow> string \<Rightarrow> found" where
  "findHandler table escapedPath =
    (let path = cleanPath escapedPath; n = mux_match table path
     in if map_option fst n \<noteq> Some path \<and> \<not> has_suffix path ''/'' \<and> map_option fst (mux_match table (path @ ''/'')) = Some (path @ ''/'')
        then Redirect (path @ ''/'')
        else if path \<noteq> escapedPath then Redirect path
        else case n of None \<Rightarrow> NoHandler | Some (pat, h) \<Rightarrow> Found h)"

section \<open>Requests\<close>

datatype dispatch = Redirected string | NotFound404 | Denied int string string | Handled endpoint "Claims option"

definition require_auth ::
  "jwt_lib \<Rightarrow> SecretManager Middleware \<Rightarrow> SecretManager \<Rightarrow> time \<Rightarrow> string \<Rightarrow> endpoint \<Rightarrow> dispatch \<times> SecretManager Middleware" where
  "require_auth J authMw manager now header e =
    (case RequireAuth J authMw manager now header of
       (Inl (st, err, msg), m') \<Rightarrow> (Denied st err msg, m')
     | (Inr claims, m') \<Rightarrow> (Handled e (Some claims), m'))"

definition ServeHTTP ::
  "jwt_lib \<Rightarrow> SecretManager Middleware \<Rightarrow> SecretManager \<Rightarrow> time \<Rightarrow> string \<Rightarrow> string \<Rightarrow> dispatch \<times> SecretManager Middleware" where
  "ServeHTTP J authMw manager now header path =
    (case findHandler mux_table path of
       Redirect p \<Rightarrow> (Redirected p, authMw)
     | NoHandler \<Rightarrow> (NotFound404, authMw)
     | Found h \<Rightarrow>
       (case h of
          Bare e \<Rightarrow> (Handled e None, authMw)
        | RequiresAuth e \<Rightarrow> require_auth J authMw manager now header e
        | RunSubtree \<Rightarrow>
            if contains_str path ''/jobs/'' \<and> has_suffix path ''/logs'' then (Handled E_GetScenarioRunLogs None, authMw)
            else require_auth J authMw manager now header E_ScenariosRunRouter))"

record Server =
  sv_Addr :: string
  sv_ReadHeaderTimeout :: duration
  sv_ReadTimeout :: duration
  sv_WriteTimeout :: duration
  sv_IdleTimeout :: duration
  sv_authMiddleware :: "SecretManager Middleware"

definition NewServer :: "int \<Rightarrow> Server" where
  "NewServer port =
     \<lparr>sv_Addr = '':'' @ itoa port, sv_ReadHeaderTimeout = 30 * second, sv_ReadTimeout = 60 * second, sv_WriteTimeout = 60 * second,
      sv_IdleTimeout = 120 * second, sv_authMiddleware = NewLazyMiddleware GetTokenGenerator\<rparr>"

lemma mux_match_longest:
  "case mux_match table path of
     None \<Rightarrow> list_all (\<lambda>(p, h). \<not> pattern_matches p path) table
   | Some (pat, h) \<Rightarrow> (pat, h) \<in> set table \<and> pattern_matches pat path \<and> list_all (\<lambda>(p, h'). pattern_matches p path \<longrightarrow> length p \<le> length pat) table"
proof (induction table)
  case (Cons e table)
  then show ?case by (cases e) (auto split: option.splits simp: list_all_iff)
qed simp

definition public_endpoints :: "endpoint set" where
  "public_endpoints = {E_IsRegistered, E_Register, E_Login, E_GetScenarioRunLogs}"

definition request_ok :: "jwt_lib \<Rightarrow> SecretManager Middleware \<Rightarrow> time \<Rightarrow> string \<Rightarrow> dispatch \<Rightarrow> bool" where
  "request_ok J m now header d \<longleftrightarrow>
    (case d of
       Handled e claims \<Rightarrow>
         if e \<in> public_endpoints then claims = None
         else \<exists>tg tok c. mw_tokenGen m = Some tg \<and> header = BearerPrefix @ tok \<and> ValidateToken J tg now tok = Inr c \<and> claims = Some c
     | _ \<Rightarrow> True)"

lemma require_auth_ok:
  "e \<notin> public_endpoints \<Longrightarrow> case require_auth J authMw manager now header e of (d, m') \<Rightarrow> request_ok J m' now header d"
  by (auto simp: require_auth_def RequireAuth_def request_ok_def Let_def check_header_iff split: option.splits prod.splits sum.splits)

lemma mux_match_mem: "mux_match table path = Some (pat, h) \<Longrightarrow> (pat, h) \<in> set table"
  by (induction table) (auto split: option.splits if_splits)

definition registration_ok :: "registration \<Rightarrow> bool" where
  "registration_ok h \<longleftrightarrow> (case h of Bare e \<Rightarrow> e \<in> public_endpoints | RequiresAuth e \<Rightarrow> e \<notin> public_endpoints | RunSubtree \<Rightarrow> True)"

lemma mux_table_ok: "mux_match mux_table path = Some (pat, h) \<Longrightarrow> registration_ok h"
proof -
  have "list_all (\<lambda>e. registration_ok (snd e)) mux_table" by (simp add: mux_table_def registration_ok_def public_endpoints_def)
  then show "mux_match mux_table path = Some (pat, h) \<Longrightarrow> registration_ok h"
    using mux_match_mem[where table = mux_table and path = path and pat = pat and h = h] by (auto simp: list_all_iff)
qed

lemma findHandler_Found: "findHandler table path = Found h \<Longrightarrow> cleanPath path = path \<and> (\<exists>pat. mux_match table path = Some (pat, h))"
  by (auto simp: findHandler_def Let_def split: if_splits option.splits)

lemma ServeHTTP_ok:
  "case ServeHTTP J authMw manager now header path of (d, m') \<Rightarrow> request_ok J m' now header d"
proof (cases "findHandler mux_table path")
  case (Found h)
  then obtain pat where "mux_match mux_table path = Some (pat, h)" by (auto dest: findHandler_Found)
  then have h: "registration_ok h" by (rule mux_table_ok)
  note auth = require_auth_ok[where J = J and authMw = authMw and manager = manager and now = now and header = header]
  show ?thesis
  proof (cases h)
    case RunSubtree
    with Found auth[of E_ScenariosRunRouter] show ?thesis by (simp add: ServeHTTP_def request_ok_def public_endpoints_def)
  qed (use Found h auth in \<open>simp_all add: ServeHTTP_def registration_ok_def request_ok_def\<close>)
qed (auto simp: ServeHTTP_def request_ok_def)

text \<open>
  C24. A request reaches a handler only behind the middleware, with the claims of a bearer token that was validated with the key of the server, unless
  the handler is one of the three for registration and login, or the log stream, which validates the token itself.
\<close>

theorem ServeHTTP_authenticates:
  "case ServeHTTP J authMw manager now header path of (d, m') \<Rightarrow> request_ok J m' now header d"
  by (rule ServeHTTP_ok)

text \<open>The patterns as they are written in the table, for evaluation.\<close>

lemmas path_defs = APIBasePath_def AuthBasePath_def HealthPath_def TerminalPath_def DashboardActiveRunsPath_def ClustersPath_def NodesPath_def TargetsPath_def
  ScenariosPath_def ScenariosDetailPath_def ScenariosGlobalsPath_def ScenariosRunPath_def UsersPath_def GroupsPath_def RegistriesPath_def ProviderConfigPath_def
  ProvidersPath_def OperatorTargetsPath_def GraphRunsPath_def

definition route :: "string \<Rightarrow> registration option" where
  "route path = map_option snd (mux_match mux_table path)"

text \<open>
  The paths of the API lead to their handlers: the fixed ones, and each subtree whatever comes after its slash. The list of available
  registries is not taken for a registry, and a path with jobs below the runs leads to the log stream exactly when it ends in \<open>/logs\<close>.
\<close>

theorem routes_resolve:
  "route (UsersPath @ ''/'' @ n) = Some (RequiresAuth E_UsersRouter) \<and>
   route (GroupsPath @ ''/'' @ n) = Some (RequiresAuth E_GroupsRouter) \<and>
   route (RegistriesPath @ ''/'' @ n) = Some (RequiresAuth (if n = ''available'' then E_ListAvailableRegistries else E_RegistriesRouter)) \<and>
   route (TargetsPath @ ''/'' @ n) = Some (RequiresAuth E_TargetsHandler) \<and>
   route (OperatorTargetsPath @ ''/'' @ n) = Some (RequiresAuth E_TargetsCRUDRouter) \<and>
   route (ProviderConfigPath @ ''/'' @ n) = Some (RequiresAuth E_ProviderConfigHandler) \<and>
   route (ProvidersPath @ ''/'' @ n) = Some (RequiresAuth E_ProvidersRouter) \<and>
   route (GraphRunsPath @ ''/'' @ n) = Some (RequiresAuth E_GraphRunsRouter) \<and>
   route (ScenariosDetailPath @ ''/'' @ n) = Some (RequiresAuth E_PostScenarioDetail) \<and>
   route (ScenariosGlobalsPath @ ''/'' @ n) = Some (RequiresAuth E_PostScenarioGlobals) \<and>
   route (ScenariosRunPath @ ''/'' @ n) = Some RunSubtree"
  by (intro conjI) (simp_all add: route_def mux_table_def path_defs pattern_matches_def has_prefix_def has_suffix_def)

section \<open>Starting\<close>

text \<open>
  The start waits for the signing key: events are the ticks of the poll with the state of the manager, the end of the context and the timeout,
  in the order in which the select statement takes them. Serving ends with an error of the listener or with the context.
\<close>

datatype wait_event = CtxDone | Timeout | Tick bool

datatype start_result = ContextError | KeyTimeout | Serving | StillWaiting

fun wait_for_key :: "wait_event list \<Rightarrow> start_result \<times> wait_event list" where
  "wait_for_key [] = (StillWaiting, [])"
| "wait_for_key (CtxDone # evs) = (ContextError, evs)"
| "wait_for_key (Timeout # evs) = (KeyTimeout, evs)"
| "wait_for_key (Tick ready # evs) = (if ready then (Serving, evs) else wait_for_key evs)"

lemma wait_for_key_serves: "set waited \<subseteq> {Tick False} \<Longrightarrow> wait_for_key (waited @ Tick True # rest) = (Serving, rest)"
  by (induction waited) auto

lemma wait_for_key_ServingE:
  "fst (wait_for_key evs) = Serving \<Longrightarrow> \<exists>waited rest. evs = waited @ Tick True # rest \<and> set waited \<subseteq> {Tick False}"
proof (induction evs rule: wait_for_key.induct)
  case (4 ready evs)
  show ?case
  proof (cases ready)
    case True
    then show ?thesis by (intro exI[of _ "[]"] exI[of _ evs]) simp
  next
    case False
    with 4 obtain waited rest where "evs = waited @ Tick True # rest" "set waited \<subseteq> {Tick False}" by auto
    with False show ?thesis by (intro exI[of _ "Tick False # waited"] exI[of _ rest]) simp
  qed
qed simp_all

lemma wait_for_key_waiting: "fst (wait_for_key evs) = StillWaiting \<longleftrightarrow> set evs \<subseteq> {Tick False}"
  by (induction evs rule: wait_for_key.induct) auto

text \<open>The server accepts connections only after a tick that found the key, and the wait is over at the first timeout or end of the context.\<close>

theorem wait_for_key_iff:
  "(fst (wait_for_key evs) = Serving \<longleftrightarrow> (\<exists>waited rest. evs = waited @ Tick True # rest \<and> set waited \<subseteq> {Tick False})) \<and>
   (fst (wait_for_key evs) = StillWaiting \<longleftrightarrow> set evs \<subseteq> {Tick False})"
  using wait_for_key_ServingE wait_for_key_serves wait_for_key_waiting by (metis fst_conv)

text \<open>After the wait: the listener may fail, or the context ends and the server is shut down.\<close>

datatype serve_event = ListenFailed string | ServeCtxDone

fun serve_until :: "serve_event list \<Rightarrow> string option \<Rightarrow> (string option) option" where
  "serve_until [] shutdown = None"
| "serve_until (ListenFailed e # evs) shutdown = Some (Some e)"
| "serve_until (ServeCtxDone # evs) shutdown = Some shutdown"

datatype server_end = EndedBeforeServing start_result | EndedServing "string option" | Running

definition Server_Start :: "wait_event list \<Rightarrow> serve_event list \<Rightarrow> string option \<Rightarrow> server_end" where
  "Server_Start waits serves shutdown =
    (case fst (wait_for_key waits) of
       Serving \<Rightarrow> (case serve_until serves shutdown of None \<Rightarrow> Running | Some e \<Rightarrow> EndedServing e)
     | r \<Rightarrow> EndedBeforeServing r)"

text \<open>The writer that keeps the status for the log of the server.\<close>

record responseWriter =
  rw_statusCode :: int
  rw_headers :: "int list"

definition new_responseWriter :: responseWriter where
  "new_responseWriter = \<lparr>rw_statusCode = 200, rw_headers = []\<rparr>"

definition WriteHeader :: "int \<Rightarrow> responseWriter \<Rightarrow> responseWriter" where
  "WriteHeader st rw = rw\<lparr>rw_statusCode := st, rw_headers := rw_headers rw @ [st]\<rparr>"

section \<open>The server in front of the scenario runs\<close>

text \<open>The claims in the context of a request, as the handlers see them.\<close>

definition context_claims :: "Claims option \<Rightarrow> token_claims option" where
  "context_claims claims = map_option token_claims.truncate claims"

definition serve_scenario_runs ::
  "jwt_lib \<Rightarrow> SecretManager Middleware \<Rightarrow> SecretManager \<Rightarrow> time \<Rightarrow> string \<Rightarrow> 'w run_client \<Rightarrow> string \<Rightarrow> string \<Rightarrow> (string \<Rightarrow> string) \<Rightarrow>
     string + ScenarioRunRequest \<Rightarrow> 'w \<Rightarrow> run_body reply option \<times> 'w" where
  "serve_scenario_runs J authMw manager now header C rmethod path query body w =
    (case fst (ServeHTTP J authMw manager now header path) of
       Handled e claims \<Rightarrow>
         if e = E_ScenariosRunRouter
         then (case ScenariosRunRouter C (context_claims claims) rmethod path query body w of (r, w') \<Rightarrow> (Some r, w'))
         else (None, w)
     | _ \<Rightarrow> (None, w))"

text \<open>The middleware after the requests served so far, each with the secret manager as it was then, the time, the header and the path.\<close>

fun middleware_after ::
  "jwt_lib \<Rightarrow> SecretManager Middleware \<Rightarrow> (SecretManager \<times> time \<times> string \<times> string) list \<Rightarrow> SecretManager Middleware" where
  "middleware_after J authMw [] = authMw"
| "middleware_after J authMw ((manager, now, header, path) # requests) =
     middleware_after J (snd (ServeHTTP J authMw manager now header path)) requests"

text \<open>The middleware of the server asks the manager for the key and keeps the first one it gets.\<close>

definition key_of :: "SecretManager set \<Rightarrow> SecretManager Middleware \<Rightarrow> bool" where
  "key_of managers m \<longleftrightarrow> mw_tokenGenLoader m = Some GetTokenGenerator \<and>
     (case mw_tokenGen m of None \<Rightarrow> True | Some tg \<Rightarrow> \<exists>manager \<in> managers. GetTokenGenerator manager = Some tg)"

lemma key_of_new: "key_of {} (sv_authMiddleware (NewServer port))"
  by (simp add: key_of_def NewServer_def NewLazyMiddleware_def)

lemma key_of_mono: "key_of S m \<Longrightarrow> S \<subseteq> S' \<Longrightarrow> key_of S' m"
  by (auto simp: key_of_def split: option.splits)

lemma key_of_RequireAuth: "key_of S m \<Longrightarrow> key_of (insert manager S) (snd (RequireAuth J m manager now header))"
  by (auto simp: RequireAuth_def lazy_load_def key_of_def Let_def split: option.splits)

lemma key_of_ServeHTTP:
  assumes "key_of S m"
  shows "key_of (insert manager S) (snd (ServeHTTP J m manager now header path))"
proof -
  have "snd (require_auth J m manager now header e) = snd (RequireAuth J m manager now header)" for e
    by (auto simp: require_auth_def split: prod.splits sum.splits)
  then show ?thesis
    using key_of_RequireAuth[OF assms] key_of_mono[OF assms, of "insert manager S"]
    by (auto simp: ServeHTTP_def split: found.splits registration.splits)
qed

lemma key_of_after: "key_of S m \<Longrightarrow> key_of (S \<union> fst ` set requests) (middleware_after J m requests)"
proof (induction J m requests arbitrary: S rule: middleware_after.induct)
  case (2 J authMw manager now header path requests)
  from 2(1)[OF key_of_ServeHTTP[OF 2(2), of manager J now header path]] show ?case by (simp add: Un_commute)
qed simp

definition valid_bearer :: "jwt_lib \<Rightarrow> SecretManager set \<Rightarrow> time \<Rightarrow> string \<Rightarrow> Claims \<Rightarrow> bool" where
  "valid_bearer J managers now header c \<longleftrightarrow>
    (\<exists>manager tg tok. manager \<in> managers \<and> GetTokenGenerator manager = Some tg \<and> header = BearerPrefix @ tok \<and> ValidateToken J tg now tok = Inr c)"

definition served_call_ok :: "jwt_lib \<Rightarrow> SecretManager set \<Rightarrow> time \<Rightarrow> string \<Rightarrow> string \<Rightarrow> run_event list \<Rightarrow> run_event \<Rightarrow> bool" where
  "served_call_ok J managers now header ns log ev \<longleftrightarrow>
    (\<exists>c. valid_bearer J managers now header c \<and>
      (case ev of
         RunCreate run x \<Rightarrow> OwnerUserID (sr_Spec run) = cl_UserID c \<and>
           (cl_Role c = ''admin'' \<or> (\<exists>A tr. RunAuth A \<in> set log \<and> RequestFetched ns (TargetRequestID (sr_Spec run)) (Inr tr) \<in> set log \<and>
              may_run_on A (cl_UserID c) ns (TargetClusters (sr_Spec run)) tr))
       | _ \<Rightarrow> True))"

lemma served_handler_authenticated:
  assumes "key_of S authMw" "fst (ServeHTTP J authMw manager now header path) = Handled E_ScenariosRunRouter claims"
  shows "\<exists>c. claims = Some c \<and> valid_bearer J (insert manager S) now header c"
proof -
  obtain m' where s: "ServeHTTP J authMw manager now header path = (Handled E_ScenariosRunRouter claims, m')"
    using assms(2) by (metis prod.collapse)
  have key: "key_of (insert manager S) m'" using key_of_ServeHTTP[OF assms(1), of manager J now header path] s by simp
  from ServeHTTP_ok[where J = J and authMw = authMw and manager = manager and now = now and header = header and path = path] s obtain tg tok c where
    "mw_tokenGen m' = Some tg" "header = BearerPrefix @ tok" "ValidateToken J tg now tok = Inr c" "claims = Some c"
    by (auto simp: request_ok_def public_endpoints_def)
  then show ?thesis using key unfolding key_of_def valid_bearer_def by auto
qed

text \<open>
  C25. Through the server, whatever requests it has served before, no call at all is made for the runs without a bearer token that is valid under the key of the secret
  manager: the one the manager has at this request or had at the earlier one at which the middleware first got a key. Every run that is created belongs to
  the user of the token, who is an administrator or has the run permission on a cluster of each target name in the target request: the branch of the handler that skips the
  check when there are no claims is never taken.
\<close>

theorem served_runs_are_authenticated:
  "case serve_scenario_runs J (middleware_after J (sv_authMiddleware (NewServer port)) before) manager now header (logged_runs C) rmethod path query body (w, []) of
     (r, (w', log)) \<Rightarrow> list_all (served_call_ok J (insert manager (fst ` set before)) now header (rx_Namespace C) log) log"
proof -
  let ?mw = "middleware_after J (sv_authMiddleware (NewServer port)) before"
  show ?thesis
  proof (cases "\<exists>claims. fst (ServeHTTP J ?mw manager now header path) = Handled E_ScenariosRunRouter claims")
    case True
    then obtain claims where d: "fst (ServeHTTP J ?mw manager now header path) = Handled E_ScenariosRunRouter claims" by blast
    have "key_of (fst ` set before) ?mw" using key_of_after[OF key_of_new, of before J port] by simp
    from served_handler_authenticated[OF this d] obtain c where
      c: "claims = Some c" "valid_bearer J (insert manager (fst ` set before)) now header c" by blast
    obtain r w' log where run: "ScenariosRunRouter (logged_runs C) (context_claims claims) rmethod path query body (w, []) = (r, (w', log))" by (metis surj_pair)
    have "run_ok (rx_Namespace C) (context_claims claims) path r log"
      using ScenariosRunRouter_ok[where C = C and claims = "context_claims claims" and path = path and rmethod = rmethod and query = query and body = body and w = w] run
      by simp
    then have calls: "run_call_ok (rx_Namespace C) (context_claims claims) path log ev" if "ev \<in> set log" for ev
      using that by (auto simp: run_ok_def list_all_iff)
    have "served_call_ok J (insert manager (fst ` set before)) now header (rx_Namespace C) log ev" if "ev \<in> set log" for ev
      using calls[OF that] c
      by (cases ev) (auto simp: served_call_ok_def run_permitted_def context_claims_def token_claims.truncate_def intro!: exI[of _ c])
    then show ?thesis using d run by (simp add: serve_scenario_runs_def list_all_iff)
  next
    case False
    then show ?thesis by (auto simp: serve_scenario_runs_def split: dispatch.splits)
  qed
qed

text \<open>
  The server waits two minutes for the key, but the manager may need longer: if the API server answers only the tenth attempt, the manager is ready after waits of
  151 seconds in all, when the start of the server has failed.
\<close>

definition slow_store :: "nat jwt_client" where
  "slow_store = \<lparr>jc_Get = (\<lambda>ns n w. if w < 9 then (Inl (OtherError ''timeout''), Suc w)
       else (Inr \<lparr>sec_meta = meta_of n ns [], sec_Type = '''', sec_Data = [(JWTSecretKey, replicate 32 CHR ''k'')]\<rparr>, w)),
     jc_Create = (\<lambda>x w. (Some AlreadyExists, w)), jc_Random = (\<lambda>n w. (Inr (replicate n CHR ''k''), w)), jc_Wait = (\<lambda>d w. (True, w))\<rparr>"

theorem key_ready_after_server_gave_up:
  "case Auth.Start (log_key_calls slow_store) (NewSecretManager ''krkn'' second ''krkn'') (0, []) of
     (res, (w, log)) \<Rightarrow> (case res of Inl e \<Rightarrow> False | Inr m \<Rightarrow> IsReady m) \<and>
       sum_list (map (\<lambda>e. case e of Waited d b \<Rightarrow> d | _ \<Rightarrow> 0) log) = 151 * second \<and> 120 * second < 151 * second"
  by code_simp

end
