(* ===== verification/Spec2Isabelle.thy ===== *)
theory Spec2Isabelle
  imports Graph_Run_Progress Scenario_Status Terminal_API Kubeconfig_Delivery Provider_Config Registry_API API_Server
begin

text \<open>
  \<^bold>\<open>The krkn operator\<close>

  The krkn operator runs chaos scenarios on Kubernetes clusters. Its parts and how they work together:

  \<^item> A \<^emph>\<open>graph run\<close> is a set of scenarios with dependencies. Its controller resolves the dependencies to levels and
    creates one scenario run per node, level by level
    (\<open>src/internal/controller/krkngraphrun_controller.go\<close>, \<open>src/pkg/graph/executor.go\<close>,
    \<open>src/api/v1alpha1/krkngraphrun_validation.go\<close>, \<open>krkngraphrun_conversion.go\<close>).
  \<^item> A \<^emph>\<open>scenario run\<close> executes one scenario on a list of clusters. Its controller creates a job per cluster
    (config maps, a pull secret, a pod), follows the pods, retries, and summarises the jobs
    (\<open>src/internal/controller/krknscenariorun_controller.go\<close>).
  \<^item> A \<^emph>\<open>target request\<close> collects the clusters that are available. Several operators (providers) add their
    clusters to it and write the kubeconfigs into one secret, from which scenario runs read them
    (\<open>src/internal/controller/krkntargetrequest_controller.go\<close>, \<open>src/internal/kubeconfig/generator.go\<close>). A \<^emph>\<open>provider
    configuration request\<close> is filled the same way
    (\<open>src/internal/controller/krknoperatortargetproviderconfig_controller.go\<close>, \<open>src/pkg/provider\<close>).
  \<^item> The \<^emph>\<open>REST API\<close> authorizes users by groups (\<open>src/pkg/groupauth\<close>, \<open>src/internal/api/authorization.go\<close>) and
    has a read-only terminal on the clusters (\<open>src/pkg/terminal\<close>, \<open>src/internal/api/terminal_handlers.go\<close>,
    \<open>src/internal/api/kubeconfig_helpers.go\<close>). Users log in with a password and get a token that every replica accepts
    (\<open>src/pkg/auth\<close>, \<open>src/internal/api/auth_handlers.go\<close>); accounts, groups and registry credentials are objects of the
    API server (\<open>user_handlers.go\<close>, \<open>groups_handlers.go\<close>, \<open>registry_handlers.go\<close>, \<open>src/pkg/registry\<close>). Targets, provider
    configurations, graph runs, scenario runs, clusters, the scenario catalog and logs have their endpoints in \<open>targets_crud.go\<close>,
    \<open>provider_config_handlers.go\<close>, \<open>graphrun_handlers.go\<close> and \<open>handlers.go\<close>; the server in front of them routes requests and
    validates their tokens (\<open>server.go\<close>, \<open>routes.go\<close>).
  \<^item> The \<^emph>\<open>configuration store\<close> keeps the values of a config map in memory (\<open>src/pkg/configstore\<close>, \<open>src/pkg/configmap\<close>, and the
    initializer in \<open>src/cmd/main.go\<close>).

  \<^bold>\<open>The theories\<close>

  \<^item> \<open>Prelude\<close>: bytes and strings, Go maps as association lists (the locale \<open>go_map\<close>, interpreted as \<open>alist\<close>).
    \<open>API_Types\<close>: the custom resources as records with the field names of \<open>src/api/v1alpha1\<close>.
    \<open>Core_Types\<close>: pods, secrets and config maps as far as they are used. \<open>Samples\<close>: objects for witnesses.
  \<^item> \<open>Go_Std\<close>: 64-bit wrap-around, decimal text, \<open>time.ParseDuration\<close>, Base64. \<open>Json\<close>: \<open>encoding/json\<close> on bytes; the locale
    \<open>json_codec\<close> is the interface of a type that survives encoding and decoding, with strings, maps and one-field
    structs as instances. \<open>Json_Utf8\<close>: every string out of a document is valid UTF-8.
    \<open>Effects\<close>: sequences of API calls with early return and Hoare rules for them.
  \<^item> \<open>Node_Validation\<close>, \<open>Dep_Graph\<close>, \<open>Graph_Executor\<close>, \<open>Graph_Run_Controller\<close>, \<open>Graph_Run_Progress\<close>: graph runs.
  \<^item> \<open>Scenario_Resources\<close>, \<open>Scenario_Run_Controller\<close>, \<open>Scenario_Status\<close>: scenario runs.
  \<^item> \<open>Managed_Clusters\<close>, \<open>Kubeconfig\<close>, \<open>Provider\<close>, \<open>Target_Request\<close>, \<open>Target_Protocol\<close>, \<open>Provider_Config\<close>:
    targets and providers; the locale \<open>contribution_protocol\<close> states what both kinds of request promise and is
    interpreted for each. \<open>Kubeconfig_Delivery\<close> joins the writer and the reader of the kubeconfigs.
  \<^item> \<open>Group_Auth\<close>, \<open>Terminal\<close>, \<open>Terminal_API\<close>: authorization and terminal; the locale \<open>permission_test\<close> is the interface
    of a permission check over groups.
  \<^item> \<open>Registry\<close>, \<open>Registry_API\<close>: registry secrets and their endpoints. \<open>Go_Text\<close>: more of \<open>strings\<close> and \<open>strconv\<close>.
    \<open>Logged_Calls\<close>: rules for handlers over a client that logs its calls.
  \<^item> \<open>Auth\<close>: passwords, tokens, middleware and the shared signing secret. \<open>Auth_API\<close>, \<open>Users_API\<close>, \<open>Groups_API\<close>: the endpoints.
    \<open>User_Store\<close>: a store with the behaviour of the API server on which handlers are composed.
  \<^item> \<open>Targets_API\<close>, \<open>Provider_API\<close>, \<open>Graph_Runs_API\<close>, \<open>Scenario_Runs_API\<close>, \<open>Cluster_API\<close>, \<open>Catalog_API\<close>, \<open>Logs_API\<close>: the other
    endpoints, one theory for each group of handlers. \<open>Config_Store\<close>: the configuration store, an instance of \<open>go_map\<close>.
    \<open>API_Server\<close>: the table of routes, the matching of paths, the middleware in front of the handlers and the start.

  \<^bold>\<open>How the code is modelled\<close>

  Structs are records, enumerations and errors are datatypes, a function that may fail returns a sum with the error
  on the left, a pointer is an option. Strings are lists of bytes. A Go map is an association list without duplicate
  keys, and its order stands for the iteration order, so a theorem holds for every order. Times and durations are
  integers in nanoseconds; where the code computes in 64 bits the wrap-around is written out.

  A controller is a function of a client, a record of the API calls it makes, each a function on an arbitrary world
  that returns an answer and the next world. Nothing is assumed of a client unless a theorem says so: the API may answer
  with any error at any time, and objects may change between two calls. To speak about what a controller does, the client is
  wrapped so that it logs the calls (\<open>recorded\<close>, \<open>observed\<close>, \<open>sending\<close>); the theorems are about these logs. Panics of Go
  (a nil map, a nil time, a negative shift) are error values, and the theorems say when they cannot occur.

  Code outside the repository is a parameter: the API server, the YAML form of a kubeconfig (\<open>clientcmd\<close>), UUIDs, clocks,
  error texts and the data provider behind the terminal. What is assumed of it is a hypothesis of the theorem that needs it,
  with a witness for a concrete instance. Logging, printer columns, manager registration and contexts have no counterpart.

  Handlers get their bodies decoded; the terminal decodes its body itself. Permission checks and registry lookups inside a handler see one
  answer per object, taken when the check runs; different checks may see different answers. Paths are those without percent escapes.

  All loops are total functions with termination proofs. The JSON reader recurses with fuel one more than the length of the
  text, which is enough since every call consumes a byte (\<open>json_codec\<close> shows that this fuel reads every encoded value back),
  and with the nesting limit of 10000 that Go has.

  \<^bold>\<open>What the theorems show\<close>

  \<^item> Graph runs: validation accepts exactly the well-formed graphs; the levels are a topological order and exist exactly
    for acyclic graphs with valid references; runs are created only after all earlier levels succeeded, whatever the API
    answers; failure blocks later levels; when all runs succeed the graph run completes.
  \<^item> Scenario runs: a failed start leaves no resource behind; every status written is well-formed; jobs only move
    forward and stay within their retry budget; the loop never panics on such runs; phases summarise the jobs.
  \<^item> Requests: every write of the target request controller is a step of the abstract protocol; completed requests hold the
    targets of every active provider; configuration requests complete exactly when all active operators have run, while the providers do not
    change; clean-up deletes exactly old completed requests; a reader of the kubeconfigs finds the last one written for its cluster, else what the
    document held before.
  \<^item> Authorization and terminal: permissions are the union over the groups; validation of runs is exact where cluster names are unique, and
    otherwise implies the permission on one cluster of each name; more groups never take access away; the terminal sends only validated read-only commands of callers that passed the check.
  \<^item> Registries: what is stored is what scenario runs read back, credentials split at the first colon, and who may use it.
  \<^item> Authentication: all replicas end with the same signing key, whatever calls fail and whoever wins the creation race; the
    start makes at most ten attempts, stops at the first that succeeds and backs off in between; tokens given out by the login are accepted with the data of the user until they
    expire; registration only creates the first administrator.
  \<^item> Users and groups: which call may write what, on whose behalf, whatever the API server answers; created users can
    log in; the group handlers refine operations on a relation of memberships, the one that the permission checks read.
  \<^item> Targets and configuration: a target that was not created leaves no secret behind, and one that was is usable by every reader of
    its kubeconfig; values are written only if the schema accepts them, and the next start of the operator has them in its store.
  \<^item> Runs, clusters, catalog and logs: which call each endpoint may make, for whom and after which check, and what replies show, whatever the
    cluster answers; the dashboard counts the clusters and runs with running jobs; a client of the log stream gets every line in order. The ping
    goroutine of the log stream is a loop of its own (\<open>ping_loop\<close>); what it does between two calls of the handler is a change of the world.
  \<^item> Server: a request reaches a handler only with the claims of a validated token, apart from registration, login and the log stream, which
    validates the token itself; so the branches of the handlers for requests without claims are not taken. The key is one that the secret manager
    had at this or an earlier request. Every path of the API leads to its
    handler. Connections are accepted only when the signing key is loaded.

  Where the code does not do what its comments say, a concrete run shows it: isolated nodes are dropped from the levels,
  a job created late is forgotten, a waiting job ends its run, the exponential back-off overflows, providers are counted
  and not compared, a lost creation race drops clusters, permissions are checked by cluster name under any provider,
  streaming flags can be hidden in flag values, creating a user can destroy the password of another one, the last
  administrator can demote himself and so reopen the registration, a large page number panics, an update gives two targets the same
  cluster, nodes can be read with the kubeconfig of another cluster than the one that was checked, different users share an owner label, the
  summary of a run without addresses is shown to everybody, a user name with a colon is read back cut, a
  long log line ends its stream, pings and log lines can meet in a panic, and the server gives up waiting before the retries for the key end.

  \<^bold>\<open>Not modelled\<close>

  The rest of \<open>src/cmd/main.go\<close> parses flags and registers the parts with controller-runtime: glue without logic of its own. The generated
  deep copies are the identity on values, and the gRPC stubs are parameters. The log lines of the operator, HTTP decoding and encoding,
  timeouts of connections and the grace period of deletions have no counterpart. Templates and examples under \<open>src/docs\<close> are not part of the program.
\<close>

end
